(* ===== verification/Js_Prelude.thy ===== *)
theory Js_Prelude
  imports Complex_Main
begin

text \<open>
  The prelude of the development: the JavaScript values and library routines that the
  frontend (src/frontend) uses, as executable HOL functions, and the generic lemmas the
  component theories share.

  A JavaScript string is a list of code units; a HOL \<open>string\<close> is a list of \<open>char\<close>,
  that is of code units below 256.  The model therefore covers texts of the Latin-1 range;
  every library routine below is exact on that range (\<open>trim\<close> removes the no-break
  space 160, \<open>toLowerCase\<close> maps the Latin-1 capitals).  A JavaScript number is an exact
  rational or one of the three non-finite values: rounding to 64-bit floating point and
  the sign of zero are not modelled.
\<close>

section \<open>Collections of facts\<close>

named_theorems js_defs \<open>definitions of library routines, unfolded to evaluate them\<close>

section \<open>Characters\<close>

definition char_code :: "char \<Rightarrow> nat" where
  "char_code c = of_char c"

definition is_ws :: "char \<Rightarrow> bool" where
  "is_ws c = (let n = char_code c in (9 \<le> n \<and> n \<le> 13) \<or> n = 32 \<or> n = 160)"

definition is_digit :: "char \<Rightarrow> bool" where
  "is_digit c = (let n = char_code c in 48 \<le> n \<and> n \<le> 57)"

definition digit_val :: "char \<Rightarrow> nat" where
  "digit_val c = char_code c - 48"

definition is_lower_az :: "char \<Rightarrow> bool" where
  "is_lower_az c = (let n = char_code c in 97 \<le> n \<and> n \<le> 122)"

definition is_upper_az :: "char \<Rightarrow> bool" where
  "is_upper_az c = (let n = char_code c in 65 \<le> n \<and> n \<le> 90)"

definition char_lower :: "char \<Rightarrow> char" where
  "char_lower c = (let n = char_code c in
     if (65 \<le> n \<and> n \<le> 90) \<or> (192 \<le> n \<and> n \<le> 222 \<and> n \<noteq> 215) then char_of (n + 32) else c)"

definition char_upper :: "char \<Rightarrow> char" where
  "char_upper c = (if is_lower_az c then char_of (char_code c - 32) else c)"

lemmas [js_defs] = char_upper_def char_code_def is_ws_def is_digit_def digit_val_def is_lower_az_def
  is_upper_az_def char_lower_def Let_def

section \<open>Strings\<close>

definition js_trim :: "string \<Rightarrow> string" where
  "js_trim s = rev (dropWhile is_ws (rev (dropWhile is_ws s)))"

definition starts_with :: "string \<Rightarrow> string \<Rightarrow> bool" where
  "starts_with s p = (take (length p) s = p)"

definition ends_with :: "string \<Rightarrow> string \<Rightarrow> bool" where
  "ends_with s p = (length p \<le> length s \<and> drop (length s - length p) s = p)"

fun str_includes :: "string \<Rightarrow> string \<Rightarrow> bool" where
  "str_includes [] p = (p = [])"
| "str_includes (c # s) p = (starts_with (c # s) p \<or> str_includes s p)"

definition js_lower :: "string \<Rightarrow> string" where
  "js_lower s = map char_lower s"

text \<open>\<open>s.split(sep)\<close> for a one-character separator: always at least one segment.\<close>

fun split_on :: "(char \<Rightarrow> bool) \<Rightarrow> string \<Rightarrow> string list" where
  "split_on p [] = [[]]"
| "split_on p (c # s) =
     (if p c then [] # split_on p s
      else (case split_on p s of [] \<Rightarrow> [[c]] | w # ws \<Rightarrow> (c # w) # ws))"

fun js_join :: "string \<Rightarrow> string list \<Rightarrow> string" where
  "js_join sep [] = []"
| "js_join sep [x] = x"
| "js_join sep (x # y # xs) = x @ sep @ js_join sep (y # xs)"

text \<open>\<open>s.replace(/\/$/, "")\<close>: drop one trailing slash.\<close>

definition strip_trailing_slash :: "string \<Rightarrow> string" where
  "strip_trailing_slash s = (if s \<noteq> [] \<and> last s = CHR ''/'' then butlast s else s)"

text \<open>\<open>a || b\<close> on a string that may be undefined: the empty string is falsy too.\<close>

definition or_else_str :: "string option \<Rightarrow> string \<Rightarrow> string" where
  "or_else_str a b = (case a of Some s \<Rightarrow> (if s = [] then b else s) | None \<Rightarrow> b)"

definition nonempty_opt :: "string option \<Rightarrow> string option" where
  "nonempty_opt a = (case a of Some s \<Rightarrow> (if s = [] then None else Some s) | None \<Rightarrow> None)"

definition truthy_str :: "string option \<Rightarrow> bool" where
  "truthy_str a = (case a of Some s \<Rightarrow> s \<noteq> [] | None \<Rightarrow> False)"

lemmas [js_defs] = js_trim_def starts_with_def ends_with_def js_lower_def
  strip_trailing_slash_def or_else_str_def nonempty_opt_def truthy_str_def

lemma starts_with_append [simp]: "starts_with (p @ s) p"
  by (simp add: starts_with_def)

lemma starts_with_Nil [simp]: "starts_with s []"
  by (simp add: starts_with_def)

lemma starts_with_Cons [simp]:
  "starts_with (c # s) (d # p) \<longleftrightarrow> c = d \<and> starts_with s p"
  by (auto simp: starts_with_def)

lemma starts_with_Nil_Cons [simp]: "\<not> starts_with [] (d # p)"
  by (simp add: starts_with_def)

lemma starts_with_iff: "starts_with s p \<longleftrightarrow> (\<exists>r. s = p @ r)"
proof
  assume "starts_with s p"
  then have "s = p @ drop (length p) s"
    by (metis append_take_drop_id starts_with_def)
  then show "\<exists>r. s = p @ r" ..
qed auto

lemma includes_iff: "str_includes s p \<longleftrightarrow> (\<exists>l r. s = l @ p @ r)"
proof (induction s)
  case Nil
  then show ?case by auto
next
  case (Cons c s)
  show ?case
  proof
    assume "str_includes (c # s) p"
    then consider "starts_with (c # s) p" | "str_includes s p" by auto
    then show "\<exists>l r. c # s = l @ p @ r"
    proof cases
      case 1
      then obtain r where "c # s = [] @ p @ r" by (auto simp: starts_with_iff)
      then show ?thesis by blast
    next
      case 2
      with Cons.IH obtain l r where "c # s = (c # l) @ p @ r" by auto
      then show ?thesis by blast
    qed
  next
    assume "\<exists>l r. c # s = l @ p @ r"
    then obtain l r where lr: "c # s = l @ p @ r" by blast
    show "str_includes (c # s) p"
    proof (cases l)
      case Nil
      with lr have "starts_with (c # s) p" by (auto simp: starts_with_iff)
      then show ?thesis by simp
    next
      case (Cons d l')
      with lr Cons.IH show ?thesis by auto
    qed
  qed
qed

lemma includes_singleton [simp]: "str_includes s [c] \<longleftrightarrow> c \<in> set s"
  by (induction s) (auto simp: starts_with_def)

lemma dropWhile_idem_hd: "s \<noteq> [] \<Longrightarrow> \<not> p (hd s) \<Longrightarrow> dropWhile p s = s"
  by (cases s) auto

lemma js_trim_no_edge:
  assumes "js_trim s \<noteq> []"
  shows "\<not> is_ws (hd (js_trim s))" and "\<not> is_ws (last (js_trim s))"
proof -
  let ?d = "dropWhile is_ws s"
  have ne: "?d \<noteq> []"
  proof
    assume "?d = []"
    then have "js_trim s = []" unfolding js_trim_def by (simp only: rev.simps dropWhile.simps)
    with assms show False by contradiction
  qed
  have l: "dropWhile is_ws (rev ?d) \<noteq> []" using assms by (simp add: js_trim_def)
  show "\<not> is_ws (last (js_trim s))"
    using l by (simp add: js_trim_def last_rev hd_dropWhile)
  obtain m where m: "rev ?d = m @ dropWhile is_ws (rev ?d)"
    by (metis takeWhile_dropWhile_id)
  then have "?d = js_trim s @ rev m"
    by (metis js_trim_def rev_append rev_rev_ident)
  then have "hd ?d = hd (js_trim s)" using assms by (simp add: hd_append)
  then show "\<not> is_ws (hd (js_trim s))" using hd_dropWhile [OF ne] by simp
qed

lemma js_trim_idem [simp]: "js_trim (js_trim s) = js_trim s"
proof (cases "js_trim s = []")
  case True
  show ?thesis unfolding True by (simp add: js_trim_def)
next
  case False
  note e = js_trim_no_edge [OF False]
  have a: "dropWhile is_ws (js_trim s) = js_trim s"
    using False e(1) by (rule dropWhile_idem_hd)
  have "dropWhile is_ws (rev (js_trim s)) = rev (js_trim s)"
    using False e(2) by (intro dropWhile_idem_hd) (auto simp: hd_rev)
  then have "rev (dropWhile is_ws (rev (js_trim s))) = js_trim s"
    by (metis rev_rev_ident)
  then show ?thesis unfolding js_trim_def [of "js_trim s"] a .
qed

lemma js_trim_id: "s \<noteq> [] \<Longrightarrow> \<not> is_ws (hd s) \<Longrightarrow> \<not> is_ws (last s) \<Longrightarrow> js_trim s = s"
  by (simp add: js_trim_def dropWhile_idem_hd hd_rev)

lemma set_js_trim: "set (js_trim s) \<subseteq> set s"
  by (auto simp: js_trim_def dest!: set_dropWhileD)

lemma split_on_ne [simp]: "split_on p s \<noteq> []"
  by (induction s) (auto split: list.splits)

lemma split_on_no_sep: "w \<in> set (split_on p s) \<Longrightarrow> c \<in> set w \<Longrightarrow> \<not> p c"
  by (induction s arbitrary: w) (fastforce split: if_splits list.splits)+

lemma last_split_on_no_sep: "c \<in> set (last (split_on p s)) \<Longrightarrow> \<not> p c"
  by (meson last_in_set split_on_ne split_on_no_sep)

lemma split_on_append:
  assumes "\<And>c. c \<in> set w \<Longrightarrow> \<not> p c" and "p sep"
  shows "split_on p (w @ sep # s) = w # split_on p s"
  using assms by (induction w) auto

lemma split_on_word:
  assumes "\<And>c. c \<in> set w \<Longrightarrow> \<not> p c"
  shows "split_on p w = [w]"
  using assms by (induction w) auto

lemma split_on_join:
  assumes "xs \<noteq> []" and "\<And>w c. w \<in> set xs \<Longrightarrow> c \<in> set w \<Longrightarrow> \<not> p c" and "p sep"
  shows "split_on p (js_join [sep] xs) = xs"
  using assms
proof (induction xs rule: list_nonempty_induct)
  case (single w)
  then show ?case by (simp add: split_on_word)
next
  case (cons w ws)
  then have IH: "split_on p (js_join [sep] ws) = ws" by auto
  obtain w2 ws2 where ws: "ws = w2 # ws2" using cons.hyps by (cases ws) auto
  have "\<And>c. c \<in> set w \<Longrightarrow> \<not> p c" using cons.prems(1) by auto
  then have "split_on p (w @ sep # s) = w # split_on p s" for s
    using cons.prems(2) by (intro split_on_append)
  with IH show ?case by (simp add: ws)
qed

section \<open>Numbers\<close>

datatype jsnum = NaN | Infinity | NegInfinity | Fin rat

definition num_finite :: "jsnum \<Rightarrow> bool" where
  "num_finite n = (case n of Fin _ \<Rightarrow> True | _ \<Rightarrow> False)"

definition pow10 :: "int \<Rightarrow> rat" where
  "pow10 e = (if 0 \<le> e then 10 ^ nat e else 1 / 10 ^ nat (- e))"

definition digits_val :: "string \<Rightarrow> nat" where
  "digits_val s = foldl (\<lambda>n c. 10 * n + digit_val c) 0 s"

text \<open>The exponent part of a numeral: empty, or \<open>e\<close> with an optional sign and digits.\<close>

definition exp_part :: "string \<Rightarrow> int option" where
  "exp_part s = (case s of [] \<Rightarrow> Some 0
     | c # r \<Rightarrow>
        if c = CHR ''e'' \<or> c = CHR ''E'' then
          (let (sg, ds) = (case r of d # r' \<Rightarrow>
                 (if d = CHR ''-'' then (- 1, r') else if d = CHR ''+'' then (1, r') else (1, r))
               | [] \<Rightarrow> (1, r))
           in if ds \<noteq> [] \<and> list_all is_digit ds then Some (sg * int (digits_val ds)) else None)
        else None)"

text \<open>\<open>StrUnsignedDecimalLiteral\<close>: digits, an optional fraction, an optional exponent.\<close>

definition unsigned_decimal :: "string \<Rightarrow> rat option" where
  "unsigned_decimal s =
     (let ip = takeWhile is_digit s; r = dropWhile is_digit s;
          (fp, r2) = (case r of c # r' \<Rightarrow>
              (if c = CHR ''.'' then (takeWhile is_digit r', dropWhile is_digit r') else ([], r))
            | [] \<Rightarrow> ([], r))
      in if ip = [] \<and> fp = [] then None
         else map_option (\<lambda>e. of_nat (digits_val (ip @ fp)) * pow10 (e - int (length fp)))
                (exp_part r2))"

definition hex_val :: "char \<Rightarrow> nat option" where
  "hex_val c = (let n = char_code c in
     if 48 \<le> n \<and> n \<le> 57 then Some (n - 48)
     else if 97 \<le> n \<and> n \<le> 102 then Some (n - 87)
     else if 65 \<le> n \<and> n \<le> 70 then Some (n - 55) else None)"

fun radix_val :: "nat \<Rightarrow> nat \<Rightarrow> string \<Rightarrow> nat option" where
  "radix_val b acc [] = Some acc"
| "radix_val b acc (c # s) =
     (case hex_val c of Some d \<Rightarrow> (if d < b then radix_val b (b * acc + d) s else None)
      | None \<Rightarrow> None)"

definition prefixed_int :: "string \<Rightarrow> nat option" where
  "prefixed_int s = (case s of z # x # r \<Rightarrow>
      if z = CHR ''0'' \<and> r \<noteq> [] then
        (if x \<in> {CHR ''x'', CHR ''X''} then radix_val 16 0 r
         else if x \<in> {CHR ''o'', CHR ''O''} then radix_val 8 0 r
         else if x \<in> {CHR ''b'', CHR ''B''} then radix_val 2 0 r else None)
      else None
    | _ \<Rightarrow> None)"

text \<open>\<open>Number(s)\<close> for a string \<open>s\<close>.\<close>

definition js_Number :: "string \<Rightarrow> jsnum" where
  "js_Number s0 =
     (let s = js_trim s0 in
      if s = [] then Fin 0
      else case prefixed_int s of Some n \<Rightarrow> Fin (of_nat n)
      | None \<Rightarrow>
        (let (neg, u) = (if hd s = CHR ''-'' then (True, tl s)
                         else if hd s = CHR ''+'' then (False, tl s) else (False, s))
         in if u = ''Infinity'' then (if neg then NegInfinity else Infinity)
            else case unsigned_decimal u of
              Some q \<Rightarrow> Fin (if neg then - q else q) | None \<Rightarrow> NaN))"

definition is_integer_num :: "jsnum \<Rightarrow> bool" where
  "is_integer_num n = (case n of Fin q \<Rightarrow> q = of_int \<lfloor>q\<rfloor> | _ \<Rightarrow> False)"

lemmas [js_defs] = num_finite_def pow10_def digits_val_def exp_part_def unsigned_decimal_def
  hex_val_def prefixed_int_def js_Number_def is_integer_num_def

section \<open>Printing of integers\<close>

definition digit_char :: "nat \<Rightarrow> char" where
  "digit_char d = char_of (48 + d)"

fun show_nat :: "nat \<Rightarrow> string" where
  "show_nat n = (if n < 10 then [digit_char n] else show_nat (n div 10) @ [digit_char (n mod 10)])"

declare show_nat.simps [simp del]

definition show_int :: "int \<Rightarrow> string" where
  "show_int i = (if i < 0 then CHR ''-'' # show_nat (nat (- i)) else show_nat (nat i))"

lemma char_code_digit_char: "d < 10 \<Longrightarrow> char_code (digit_char d) = 48 + d"
  by (simp add: char_code_def digit_char_def)

lemma digit_char_props:
  assumes "d < 10"
  shows "is_digit (digit_char d)" and "digit_val (digit_char d) = d"
  using assms by (auto simp: is_digit_def digit_val_def char_code_digit_char Let_def)

lemma show_nat_digits: "list_all is_digit (show_nat n)"
proof (induction n rule: show_nat.induct)
  case (1 n)
  then show ?case
    by (cases "n < 10") (simp_all add: show_nat.simps [of n] digit_char_props)
qed

lemma show_nat_ne [simp]: "show_nat n \<noteq> []"
  by (subst show_nat.simps) simp

lemma digits_val_snoc: "digits_val (s @ [c]) = 10 * digits_val s + digit_val c"
  by (simp add: digits_val_def)

lemma digits_val_show_nat [simp]: "digits_val (show_nat n) = n"
proof (induction n rule: show_nat.induct)
  case (1 n)
  show ?case
  proof (cases "n < 10")
    case True
    then show ?thesis by (simp add: show_nat.simps [of n] digits_val_def digit_char_props)
  next
    case False
    with 1 show ?thesis
      by (simp add: show_nat.simps [of n] digits_val_snoc digit_char_props)
  qed
qed

lemma show_nat_inj: "show_nat m = show_nat n \<longleftrightarrow> m = n"
  by (metis digits_val_show_nat)

lemma char_code_inj: "char_code c = char_code d \<longleftrightarrow> c = d"
  by (auto simp: char_code_def)

lemma digit_not_ws: "is_digit c \<Longrightarrow> \<not> is_ws c"
  by (auto simp: is_digit_def is_ws_def Let_def)

lemma takeWhile_all: "list_all p s \<Longrightarrow> takeWhile p s = s \<and> dropWhile p s = []"
  by (induction s) auto

text \<open>Reading back a printed natural number with \<open>Number\<close>.\<close>

lemma js_Number_show_nat: "js_Number (show_nat n) = Fin (of_nat n)"
proof -
  let ?s = "show_nat n"
  have d: "list_all is_digit ?s" by (rule show_nat_digits)
  then have all: "\<And>c. c \<in> set ?s \<Longrightarrow> is_digit c" by (simp add: list_all_iff)
  have hd: "is_digit (hd ?s)" by (rule all) simp
  have trim: "js_trim ?s = ?s"
    by (rule js_trim_id) (auto intro!: digit_not_ws all)
  have pre: "prefixed_int ?s = None"
  proof (cases ?s)
    case (Cons z r)
    show ?thesis
    proof (cases r)
      case (Cons x r')
      then have "is_digit x" using \<open>?s = z # r\<close> all [of x] by simp
      then have "x \<notin> {CHR ''x'', CHR ''X'', CHR ''o'', CHR ''O'', CHR ''b'', CHR ''B''}"
        by (auto simp: is_digit_def char_code_def)
      with Cons \<open>?s = z # r\<close> show ?thesis by (simp add: prefixed_int_def)
    qed (simp add: prefixed_int_def \<open>?s = z # r\<close>)
  qed simp
  have sign: "hd ?s \<noteq> CHR ''-''" "hd ?s \<noteq> CHR ''+''"
    using hd by (auto simp: is_digit_def char_code_def)
  have "\<not> is_digit (CHR ''I'')" by (simp add: is_digit_def char_code_def)
  then have inf: "?s \<noteq> ''Infinity''" using hd by auto
  have tw: "takeWhile is_digit ?s = ?s" and dw: "dropWhile is_digit ?s = []"
    using takeWhile_all [OF d] by blast+
  have "unsigned_decimal ?s = Some (of_nat n)"
    unfolding unsigned_decimal_def Let_def tw dw by (simp add: exp_part_def pow10_def)
  with trim pre sign inf show ?thesis by (simp add: js_Number_def)
qed


section \<open>Lookup in an object literal\<close>

text \<open>
  \<open>table[key]\<close> and \<open>key in table\<close> on an object literal see the properties every object
  inherits besides its own.
\<close>

definition OBJECT_PROTOTYPE :: "string list" where
  "OBJECT_PROTOTYPE =
     [''constructor'', ''__defineGetter__'', ''__defineSetter__'', ''hasOwnProperty'', ''__lookupGetter__'',
      ''__lookupSetter__'', ''isPrototypeOf'', ''propertyIsEnumerable'', ''toString'', ''valueOf'',
      ''__proto__'', ''toLocaleString'']"

datatype 'a looked_up = Own 'a | Inherited string | Absent

definition record_lookup :: "(string \<times> 'a) list \<Rightarrow> string \<Rightarrow> 'a looked_up" where
  "record_lookup table key =
     (case map_of table key of Some v \<Rightarrow> Own v
      | None \<Rightarrow> (if key \<in> set OBJECT_PROTOTYPE then Inherited key else Absent))"

end
