(* ===== verification/Js_Json.thy ===== *)
theory Js_Json
  imports Js_Prelude
begin

text \<open>
  JSON values, property access on them, truthiness and the conversions the source applies
  to values of unknown shape, and \<open>JSON.parse\<close>.  An object is the list of its own
  properties in insertion order; the parser keeps the last value of a repeated key at the
  place of the first one, as JavaScript does.  A numeral denotes its exact rational value.
  An escape sequence of a code unit above 255 is read as the code unit 255, its
  representative in the Latin-1 model, so which texts are accepted is not affected.
\<close>

section \<open>Values\<close>

datatype json =
    JNull
  | JBool bool
  | JNum rat
  | JStr string
  | JArr "json list"
  | JObj "(string \<times> json) list"

type_synonym json_obj = "(string \<times> json) list"

text \<open>
  \<open>v.k\<close> (and \<open>v?.k\<close>) for a key that no built-in prototype defines: only objects
  have own properties of that name, everything else yields \<open>undefined\<close> (\<open>None\<close>).
\<close>

definition js_prop :: "json \<Rightarrow> string \<Rightarrow> json option" where
  "js_prop v k = (case v of JObj kvs \<Rightarrow> map_of kvs k | _ \<Rightarrow> None)"

text \<open>Optional chaining on a possibly undefined value.\<close>

definition opt_prop :: "json option \<Rightarrow> string \<Rightarrow> json option" where
  "opt_prop v k = (case v of Some w \<Rightarrow> js_prop w k | None \<Rightarrow> None)"

definition js_truthy :: "json \<Rightarrow> bool" where
  "js_truthy v = (case v of JNull \<Rightarrow> False | JBool b \<Rightarrow> b | JNum q \<Rightarrow> q \<noteq> 0
     | JStr s \<Rightarrow> s \<noteq> [] | JArr _ \<Rightarrow> True | JObj _ \<Rightarrow> True)"

definition truthy :: "json option \<Rightarrow> bool" where
  "truthy v = (case v of Some w \<Rightarrow> js_truthy w | None \<Rightarrow> False)"

text \<open>\<open>v ?? d\<close>: only \<open>null\<close> and \<open>undefined\<close> give way to the default.\<close>

definition nullish :: "json option \<Rightarrow> bool" where
  "nullish v = (v = None \<or> v = Some JNull)"

definition coalesce :: "json option \<Rightarrow> json \<Rightarrow> json" where
  "coalesce v d = (case v of Some w \<Rightarrow> (if w = JNull then d else w) | None \<Rightarrow> d)"

definition as_string :: "json option \<Rightarrow> string option" where
  "as_string v = (case v of Some (JStr s) \<Rightarrow> Some s | _ \<Rightarrow> None)"

fun frac_digits :: "nat \<Rightarrow> rat \<Rightarrow> string" where
  "frac_digits 0 q = []"
| "frac_digits (Suc n) q =
     (if q = 0 then [] else digit_char (nat \<lfloor>10 * q\<rfloor>) # frac_digits n (10 * q - of_int \<lfloor>10 * q\<rfloor>))"

text \<open>
  \<open>String(q)\<close> for a number: exact for integers below \<open>10^21\<close> and for decimal fractions
  of at most 20 digits, the range in which JavaScript prints no exponent.
\<close>

definition show_rat :: "rat \<Rightarrow> string" where
  "show_rat q =
     (if q = of_int \<lfloor>q\<rfloor> then show_int \<lfloor>q\<rfloor>
      else (if q < 0 then ''-'' else '''') @ show_int \<lfloor>\<bar>q\<bar>\<rfloor> @ ''.''
           @ frac_digits 20 (\<bar>q\<bar> - of_int \<lfloor>\<bar>q\<bar>\<rfloor>))"

fun js_String :: "json \<Rightarrow> string" where
  "js_String JNull = ''null''"
| "js_String (JBool b) = (if b then ''true'' else ''false'')"
| "js_String (JNum q) = show_rat q"
| "js_String (JStr s) = s"
| "js_String (JArr vs) =
     js_join '','' (map (\<lambda>v. if v = JNull then '''' else js_String v) vs)"
| "js_String (JObj kvs) = ''[object Object]''"

text \<open>\<open>ToNumber\<close> of a JSON value.\<close>

definition to_number :: "json \<Rightarrow> jsnum" where
  "to_number v = (case v of JNull \<Rightarrow> Fin 0 | JBool b \<Rightarrow> Fin (if b then 1 else 0)
     | JNum q \<Rightarrow> Fin q | JStr s \<Rightarrow> js_Number s
     | JArr _ \<Rightarrow> js_Number (js_String v) | JObj _ \<Rightarrow> NaN)"

lemmas [js_defs] = js_prop_def opt_prop_def js_truthy_def truthy_def nullish_def coalesce_def
  as_string_def show_rat_def to_number_def show_int_def

lemma js_prop_non_obj [simp]:
  "js_prop JNull k = None" "js_prop (JBool b) k = None" "js_prop (JNum q) k = None"
  "js_prop (JStr s) k = None" "js_prop (JArr vs) k = None"
  by (simp_all add: js_prop_def)

lemma js_prop_JObj [simp]: "js_prop (JObj kvs) k = map_of kvs k"
  by (simp add: js_prop_def)

lemma truthy_simps [simp]: "\<not> truthy None" "truthy (Some (JStr s)) \<longleftrightarrow> s \<noteq> []"
  "\<not> truthy (Some JNull)" "truthy (Some (JObj kvs))" "truthy (Some (JArr vs))"
  "truthy (Some (JBool b)) \<longleftrightarrow> b"
  by (simp_all add: truthy_def js_truthy_def)

lemma as_string_simps [simp]: "as_string None = None" "as_string (Some (JStr s)) = Some s"
  "as_string (Some JNull) = None"
  by (simp_all add: as_string_def)

section \<open>Parsing\<close>

definition QUOTE :: char where "QUOTE = CHR 0x22"

definition BSLASH :: char where "BSLASH = CHR 0x5C"

definition json_ws :: "char \<Rightarrow> bool" where
  "json_ws c = (let n = char_code c in n = 32 \<or> n = 9 \<or> n = 10 \<or> n = 13)"

definition json_skip :: "string \<Rightarrow> string" where
  "json_skip s = dropWhile json_ws s"

definition unescape :: "char \<Rightarrow> char option" where
  "unescape c =
     (if c = QUOTE then Some QUOTE else if c = BSLASH then Some BSLASH
      else if c = CHR ''/'' then Some (CHR ''/'')
      else if c = CHR ''b'' then Some (CHR 0x08) else if c = CHR ''f'' then Some (CHR 0x0C)
      else if c = CHR ''n'' then Some (CHR 0x0A) else if c = CHR ''r'' then Some (CHR 0x0D)
      else if c = CHR ''t'' then Some (CHR 0x09) else None)"

definition hex4 :: "char \<Rightarrow> char \<Rightarrow> char \<Rightarrow> char \<Rightarrow> char option" where
  "hex4 a b c d = map_option (\<lambda>n. char_of (min n 255)) (radix_val 16 0 [a, b, c, d])"

text \<open>A string after its opening quote: its value and the text after the closing quote.\<close>

fun pstr :: "string \<Rightarrow> (string \<times> string) option" where
  "pstr [] = None"
| "pstr (c # cs) =
     (if c = QUOTE then Some ([], cs)
      else if c = BSLASH then
        (case cs of [] \<Rightarrow> None
         | e # r \<Rightarrow>
            if e = CHR ''u'' then
              (case r of h1 # h2 # h3 # h4 # r' \<Rightarrow>
                 (case hex4 h1 h2 h3 h4 of None \<Rightarrow> None
                  | Some x \<Rightarrow> map_option (apfst (Cons x)) (pstr r'))
               | _ \<Rightarrow> None)
            else (case unescape e of None \<Rightarrow> None
                  | Some x \<Rightarrow> map_option (apfst (Cons x)) (pstr r)))
      else if char_code c < 32 then None
      else map_option (apfst (Cons c)) (pstr cs))"

text \<open>A JSON numeral: optional minus, no leading zeros, non-empty fraction and exponent.\<close>

definition pexp :: "string \<Rightarrow> (int \<times> string) option" where
  "pexp s = (case s of [] \<Rightarrow> Some (0, s)
     | c # r \<Rightarrow>
        if c = CHR ''e'' \<or> c = CHR ''E'' then
          (let (sg, ds) = (case r of d # r' \<Rightarrow>
                 (if d = CHR ''-'' then (- 1, r') else if d = CHR ''+'' then (1, r') else (1, r))
               | [] \<Rightarrow> (1, r));
               e = takeWhile is_digit ds
           in if e = [] then None else Some (sg * int (digits_val e), dropWhile is_digit ds))
        else Some (0, s))"

definition pfrac :: "string \<Rightarrow> (string \<times> string) option" where
  "pfrac s = (case s of [] \<Rightarrow> Some ([], s)
     | c # r \<Rightarrow>
        if c = CHR ''.'' then
          (if takeWhile is_digit r = [] then None
           else Some (takeWhile is_digit r, dropWhile is_digit r))
        else Some ([], s))"

definition pint :: "string \<Rightarrow> (string \<times> string) option" where
  "pint s = (let ip = takeWhile is_digit s in
     if ip = [] \<or> (length ip > 1 \<and> hd ip = CHR ''0'') then None
     else Some (ip, dropWhile is_digit s))"

definition psign :: "string \<Rightarrow> bool \<times> string" where
  "psign s = (case s of c # r \<Rightarrow> (if c = CHR ''-'' then (True, r) else (False, s))
     | [] \<Rightarrow> (False, s))"

definition pnum :: "string \<Rightarrow> (json \<times> string) option" where
  "pnum s =
     (case psign s of (neg, u) \<Rightarrow>
      (case pint u of None \<Rightarrow> None
       | Some (ip, r1) \<Rightarrow>
          (case pfrac r1 of None \<Rightarrow> None
           | Some (fp, r2) \<Rightarrow>
              (case pexp r2 of None \<Rightarrow> None
               | Some (e, r3) \<Rightarrow>
                  (let q = of_nat (digits_val (ip @ fp)) * pow10 (e - int (length fp))
                   in Some (JNum (if neg then - q else q), r3))))))"

text \<open>Setting a property keeps the position of an existing key.\<close>

fun obj_set :: "string \<Rightarrow> 'v \<Rightarrow> (string \<times> 'v) list \<Rightarrow> (string \<times> 'v) list" where
  "obj_set k v [] = [(k, v)]"
| "obj_set k v ((k', v') # kvs) =
     (if k = k' then (k, v) # kvs else (k', v') # obj_set k v kvs)"

definition pword :: "string \<Rightarrow> json \<Rightarrow> string \<Rightarrow> (json \<times> string) option" where
  "pword w v s = (if starts_with s w then Some (v, drop (length w) s) else None)"

text \<open>
  Values, array elements and object members, each with the text that follows.  The fuel
  bounds the depth of the recursion; \<open>2 * length s + 2\<close> is always enough
  (\<open>pval_fuel\<close> below), so the fuel never decides the outcome.
\<close>

fun pval :: "nat \<Rightarrow> string \<Rightarrow> (json \<times> string) option"
  and pelems :: "nat \<Rightarrow> string \<Rightarrow> (json list \<times> string) option"
  and pmembers :: "nat \<Rightarrow> json_obj \<Rightarrow> string \<Rightarrow> (json_obj \<times> string) option"
where
  "pval 0 s = None"
| "pval (Suc n) s =
     (case json_skip s of [] \<Rightarrow> None
      | c # r \<Rightarrow>
         if c = CHR ''{'' then
           (case json_skip r of [] \<Rightarrow> None
            | d # r' \<Rightarrow> if d = CHR ''}'' then Some (JObj [], r')
                      else map_option (apfst JObj) (pmembers n [] r))
         else if c = CHR ''['' then
           (case json_skip r of [] \<Rightarrow> None
            | d # r' \<Rightarrow> if d = CHR '']'' then Some (JArr [], r')
                      else map_option (apfst JArr) (pelems n r))
         else if c = QUOTE then map_option (apfst JStr) (pstr r)
         else if c = CHR ''t'' then pword ''true'' (JBool True) (c # r)
         else if c = CHR ''f'' then pword ''false'' (JBool False) (c # r)
         else if c = CHR ''n'' then pword ''null'' JNull (c # r)
         else pnum (c # r))"
| "pelems 0 s = None"
| "pelems (Suc n) s =
     (case pval n s of None \<Rightarrow> None
      | Some (v, r) \<Rightarrow>
         (case json_skip r of [] \<Rightarrow> None
          | d # r' \<Rightarrow>
             if d = CHR '','' then map_option (apfst (Cons v)) (pelems n r')
             else if d = CHR '']'' then Some ([v], r') else None))"
| "pmembers 0 acc s = None"
| "pmembers (Suc n) acc s =
     (case json_skip s of [] \<Rightarrow> None
      | q # r \<Rightarrow>
         if q \<noteq> QUOTE then None
         else (case pstr r of None \<Rightarrow> None
           | Some (k, r2) \<Rightarrow>
              (case json_skip r2 of [] \<Rightarrow> None
               | c # r3 \<Rightarrow>
                  if c \<noteq> CHR '':'' then None
                  else (case pval n r3 of None \<Rightarrow> None
                    | Some (v, r4) \<Rightarrow>
                       (case json_skip r4 of [] \<Rightarrow> None
                        | d # r5 \<Rightarrow>
                           if d = CHR '','' then pmembers n (obj_set k v acc) r5
                           else if d = CHR ''}'' then Some (obj_set k v acc, r5)
                           else None)))))"

text \<open>\<open>JSON.parse(text)\<close>: \<open>None\<close> is the \<open>SyntaxError\<close>.\<close>

definition json_parse :: "string \<Rightarrow> json option" where
  "json_parse s = (case pval (2 * length s + 2) s of None \<Rightarrow> None
     | Some (v, r) \<Rightarrow> if json_skip r = [] then Some v else None)"

lemmas [js_defs] = QUOTE_def BSLASH_def json_ws_def json_skip_def unescape_def hex4_def
  pexp_def pfrac_def pint_def psign_def pnum_def pword_def json_parse_def


subsection \<open>Every parser consumes input\<close>

lemma json_skip_le: "length (json_skip s) \<le> length s"
  by (simp add: json_skip_def length_dropWhile_le)

lemma json_skip_Cons_less: "json_skip s = c # r \<Longrightarrow> length r < length s"
  using json_skip_le [of s] by simp

lemma dropWhile_less: "takeWhile p s \<noteq> [] \<Longrightarrow> length (dropWhile p s) < length s"
  by (cases s) (auto simp: le_imp_less_Suc length_dropWhile_le split: if_splits)

lemma map_apfst_Some [simp]:
  "map_option (apfst f) x = Some (v, r) \<longleftrightarrow> (\<exists>u. x = Some (u, r) \<and> v = f u)"
  by (cases x) (auto simp: apfst_def map_prod_def split: prod.splits)

lemma pstr_less: "pstr s = Some (v, r) \<Longrightarrow> length r < length s"
proof (induction s arbitrary: v rule: pstr.induct)
  case (2 c cs)
  show ?case
  proof (cases "c = QUOTE \<or> c \<noteq> BSLASH")
    case True
    with 2 show ?thesis by (auto split: if_splits)
  next
    case False
    then have c: "c \<noteq> QUOTE" "c = BSLASH" by auto
    then obtain e t where cs: "cs = e # t" using "2.prems" by (auto split: list.splits)
    show ?thesis
    proof (cases "e = CHR ''u''")
      case True
      then obtain h1 h2 h3 h4 t' x where t: "t = h1 # h2 # h3 # h4 # t'"
        and x: "hex4 h1 h2 h3 h4 = Some x"
        using "2.prems" c cs by (auto split: list.splits option.splits)
      then obtain u where "pstr t' = Some (u, r)"
        using "2.prems" c cs True by auto
      have "length r < length t'"
        by (rule "2.IH"(1) [OF c cs True t _ _ _ x]) (rule refl | fact)+
      with t cs show ?thesis by simp
    next
      case False
      then obtain x u where x: "unescape e = Some x" "pstr t = Some (u, r)"
        using "2.prems" c cs by (auto split: option.splits)
      with "2.IH"(2) [OF c cs False x(1)] cs show ?thesis by simp
    qed
  qed
qed simp

lemma pexp_le: "pexp s = Some (e, r) \<Longrightarrow> length r \<le> length s"
  by (auto simp: pexp_def Let_def split: list.splits if_splits
      intro: le_SucI order_trans [OF length_dropWhile_le])

lemma pfrac_le: "pfrac s = Some (f, r) \<Longrightarrow> length r \<le> length s"
  by (auto simp: pfrac_def split: list.splits if_splits
      intro: le_SucI order_trans [OF length_dropWhile_le])

lemma pint_less: "pint s = Some (i, r) \<Longrightarrow> length r < length s"
  using dropWhile_less [of is_digit s] by (auto simp: pint_def Let_def split: if_splits)

lemma psign_le: "psign s = (b, u) \<Longrightarrow> length u \<le> length s"
  by (auto simp: psign_def split: list.splits if_splits)

lemma pnum_less: "pnum s = Some (v, r) \<Longrightarrow> length r < length s"
  by (force simp: pnum_def Let_def split: prod.splits option.splits
      dest: psign_le pint_less pfrac_le pexp_le)

lemma pword_less: "pword w v s = Some (x, r) \<Longrightarrow> w \<noteq> [] \<Longrightarrow> length r < length s"
  by (cases w; cases s) (auto simp: pword_def split: if_splits)

lemmas rest_less = pstr_less pnum_less pword_less

lemma pval_Suc_cases:
  assumes "pval (Suc n) s = Some (v, r)"
  obtains (member) c t kvs where "json_skip s = c # t" "pmembers n [] t = Some (kvs, r)"
  | (element) c t vs where "json_skip s = c # t" "pelems n t = Some (vs, r)"
  | (leaf) c t where "json_skip s = c # t" "length r \<le> length t"
proof (cases "json_skip s")
  case Nil
  with assms show ?thesis by simp
next
  case (Cons c t)
  have skip: "json_skip t = d # r \<Longrightarrow> length r \<le> length t" for d
    using json_skip_Cons_less [of t d r] by simp
  show ?thesis
  proof (cases "c = CHR ''{''")
    case True
    with assms Cons show ?thesis
      by (auto split: list.splits if_splits intro: that skip)
  next
    case not_obj: False
    show ?thesis
    proof (cases "c = CHR ''[''")
      case True
      with assms Cons show ?thesis
        by (auto split: list.splits if_splits intro: that skip)
    next
      case False
      with not_obj assms Cons have "length r \<le> length t"
        by (auto split: if_splits dest!: rest_less simp: less_Suc_eq_le)
      with Cons show ?thesis by (rule that(3))
    qed
  qed
qed

lemma pelems_Suc_cases:
  assumes "pelems (Suc n) s = Some (vs, r)"
  obtains v t where "pval n s = Some (v, t)" "json_skip t = CHR '']'' # r"
  | v t t' vs' where "pval n s = Some (v, t)" "json_skip t = CHR '','' # t'"
      "pelems n t' = Some (vs', r)" "vs = v # vs'"
  using assms by (auto split: option.splits list.splits if_splits)

lemma pmembers_Suc_cases:
  assumes "pmembers (Suc n) acc s = Some (kvs, r)"
  obtains t k t2 t3 v t4 where "json_skip s = QUOTE # t" "pstr t = Some (k, t2)"
      "json_skip t2 = CHR '':'' # t3" "pval n t3 = Some (v, t4)"
      "json_skip t4 = CHR ''}'' # r"
  | t k t2 t3 v t4 t5 where "json_skip s = QUOTE # t" "pstr t = Some (k, t2)"
      "json_skip t2 = CHR '':'' # t3" "pval n t3 = Some (v, t4)"
      "json_skip t4 = CHR '','' # t5" "pmembers n (obj_set k v acc) t5 = Some (kvs, r)"
proof -
  obtain q t where q: "json_skip s = q # t" "q = QUOTE"
    using assms by (auto split: list.splits if_splits)
  obtain k t2 where k: "pstr t = Some (k, t2)"
    using assms q by (auto split: option.splits)
  obtain t3 where c: "json_skip t2 = CHR '':'' # t3"
    using assms q k by (auto split: list.splits if_splits)
  obtain v t4 where v: "pval n t3 = Some (v, t4)"
    using assms q k c by (auto split: option.splits)
  from assms q k c v that show thesis by (auto split: list.splits if_splits)
qed

lemma pval_less:
  "pval n s = Some (v, r) \<Longrightarrow> length r < length s"
  "pelems n s = Some (vs, r) \<Longrightarrow> length r < length s"
  "pmembers n acc s = Some (kvs, r) \<Longrightarrow> length r < length s"
proof (induction n arbitrary: s v r vs acc kvs)
  case (Suc n)
  note skip = json_skip_Cons_less
  show "pval (Suc n) s = Some (v, r) \<Longrightarrow> length r < length s" for s v r
    by (erule pval_Suc_cases) (fastforce dest!: skip dest: Suc.IH)+
  show "pelems (Suc n) s = Some (vs, r) \<Longrightarrow> length r < length s" for s vs r
    by (erule pelems_Suc_cases) (fastforce dest!: skip dest: Suc.IH)+
  show "pmembers (Suc n) acc s = Some (kvs, r) \<Longrightarrow> length r < length s" for s acc kvs r
    by (erule pmembers_Suc_cases) (fastforce dest!: skip dest: Suc.IH pstr_less)+
qed simp_all

subsection \<open>The fuel is always enough\<close>

lemma pval_fuel:
  "2 * length s + 1 \<le> n \<Longrightarrow> pval (Suc n) s = pval n s"
  "2 * length s + 2 \<le> n \<Longrightarrow> pelems (Suc n) s = pelems n s"
  "2 * length s + 2 \<le> n \<Longrightarrow> pmembers (Suc n) acc s = pmembers n acc s"
proof (induction n arbitrary: s acc)
  case (Suc n)
  show "pval (Suc (Suc n)) s = pval (Suc n) s" if "2 * length s + 1 \<le> Suc n" for s
  proof (cases "json_skip s")
    case (Cons c t)
    then have "2 * length t + 2 \<le> n" using that json_skip_le [of s] by simp
    then have "pelems (Suc n) t = pelems n t" "pmembers (Suc n) [] t = pmembers n [] t"
      by (rule Suc.IH)+
    then show ?thesis by (simp only: pval.simps Cons list.case)
  qed simp
  show "pelems (Suc (Suc n)) s = pelems (Suc n) s" if "2 * length s + 2 \<le> Suc n" for s
  proof -
    have v: "pval (Suc n) s = pval n s" using that by (intro Suc.IH) simp
    have e: "pelems (Suc n) t' = pelems n t'"
      if "pval n s = Some (v, t)" "json_skip t = d # t'" for v t d t'
      using \<open>2 * length s + 2 \<le> Suc n\<close> pval_less(1) [OF that(1)] json_skip_Cons_less [OF that(2)]
      by (intro Suc.IH) simp
    show ?thesis unfolding pelems.simps(2) [of "Suc n" s] pelems.simps(2) [of n s] v
      by (auto split: option.splits list.splits simp: e simp del: pelems.simps)
  qed
  show "pmembers (Suc (Suc n)) acc s = pmembers (Suc n) acc s"
    if "2 * length s + 2 \<le> Suc n" for s acc
  proof -
    have v: "pval (Suc n) t3 = pval n t3" if "length t3 < length s" for t3
      using \<open>2 * length s + 2 \<le> Suc n\<close> that by (intro Suc.IH) simp
    have l3: "length t3 < length s"
      if "json_skip s = q # t" "pstr t = Some (k, t2)" "json_skip t2 = c # t3" for q t k t2 c t3
      using json_skip_Cons_less [OF that(1)] pstr_less [OF that(2)] json_skip_Cons_less [OF that(3)]
      by simp
    have e: "pmembers (Suc n) acc' t5 = pmembers n acc' t5"
      if "json_skip s = q # t" "pstr t = Some (k, t2)" "json_skip t2 = c # t3"
        "pval n t3 = Some (w, t4)" "json_skip t4 = d # t5" for q t k t2 c t3 w t4 d t5 acc'
      using l3 [OF that(1-3)] pval_less(1) [OF that(4)] json_skip_Cons_less [OF that(5)]
        \<open>2 * length s + 2 \<le> Suc n\<close> by (intro Suc.IH) simp
    show ?thesis unfolding pmembers.simps(2) [of "Suc n" acc s] pmembers.simps(2) [of n acc s]
      by (auto split: option.splits list.splits simp del: pmembers.simps pval.simps
          simp: v l3 e)
  qed
qed simp_all

lemma pval_fuel_ge:
  assumes "2 * length s + 1 \<le> n"
  shows "pval n s = pval (2 * length s + 1) s"
  using assms by (induction n rule: dec_induct) (simp_all add: pval_fuel del: pval.simps)

lemma json_parse_fuel:
  "2 * length s + 1 \<le> n \<Longrightarrow>
   json_parse s = (case pval n s of None \<Rightarrow> None
     | Some (v, r) \<Rightarrow> if json_skip r = [] then Some v else None)"
  unfolding json_parse_def
  by (simp only: pval_fuel_ge [of s n] pval_fuel_ge [of s "2 * length s + 2"])

section \<open>Printing\<close>

definition hex_digit :: "nat \<Rightarrow> char" where
  "hex_digit n = (if n < 10 then char_of (48 + n) else char_of (87 + n))"

definition quote_char :: "char \<Rightarrow> string" where
  "quote_char c =
     (if c = QUOTE then [BSLASH, QUOTE] else if c = BSLASH then [BSLASH, BSLASH]
      else if char_code c = 8 then [BSLASH, CHR ''b''] else if char_code c = 9 then [BSLASH, CHR ''t'']
      else if char_code c = 10 then [BSLASH, CHR ''n''] else if char_code c = 12 then [BSLASH, CHR ''f'']
      else if char_code c = 13 then [BSLASH, CHR ''r'']
      else if char_code c < 32 then
        [BSLASH, CHR ''u'', CHR ''0'', CHR ''0'', hex_digit (char_code c div 16), hex_digit (char_code c mod 16)]
      else [c])"

definition json_quote :: "string \<Rightarrow> string" where
  "json_quote s = QUOTE # concat (map quote_char s) @ [QUOTE]"

text \<open>\<open>JSON.stringify(v)\<close>; numbers as \<open>show_rat\<close> prints them.\<close>

fun json_stringify :: "json \<Rightarrow> string" where
  "json_stringify JNull = ''null''"
| "json_stringify (JBool b) = (if b then ''true'' else ''false'')"
| "json_stringify (JNum q) = show_rat q"
| "json_stringify (JStr s) = json_quote s"
| "json_stringify (JArr vs) = ''['' @ js_join '','' (map json_stringify vs) @ '']''"
| "json_stringify (JObj kvs) =
     ''{'' @ js_join '','' (map (\<lambda>(k, v). json_quote k @ '':'' @ json_stringify v) kvs) @ ''}''"

lemmas [js_defs] = hex_digit_def quote_char_def json_quote_def

text \<open>The values the round trip covers: integer numbers, objects without repeated keys.\<close>

fun plain_json :: "json \<Rightarrow> bool" where
  "plain_json (JNum q) = (q = of_int \<lfloor>q\<rfloor>)"
| "plain_json (JArr vs) = list_all plain_json vs"
| "plain_json (JObj kvs) = (distinct (map fst kvs) \<and> list_all (\<lambda>(k, v). plain_json v) kvs)"
| "plain_json _ = True"

subsection \<open>Reading back a printed string\<close>

lemma char_code_less_256: "char_code c < 256"
  by (simp add: char_code_def)

lemma char_of_char_code [simp]: "char_of (char_code c) = c"
  by (simp add: char_code_def)

lemma char_eq_char_code: "c = d \<longleftrightarrow> char_code c = char_code d"
  by (simp add: char_code_inj)

lemma char_code_char_of: "n < 256 \<Longrightarrow> char_code (char_of n) = n"
  by (simp add: char_code_def)

lemma hex_val_hex_digit: "n < 16 \<Longrightarrow> hex_val (hex_digit n) = Some n"
  by (auto simp: hex_val_def hex_digit_def char_code_char_of Let_def)

lemma hex4_low:
  assumes "char_code c < 32"
  shows "hex4 (CHR ''0'') (CHR ''0'') (hex_digit (char_code c div 16)) (hex_digit (char_code c mod 16)) = Some c"
proof -
  have "hex_val (CHR ''0'') = Some 0" by (simp add: hex_val_def char_code_def)
  moreover have "16 * (char_code c div 16) + char_code c mod 16 = char_code c" by simp
  ultimately show ?thesis using assms by (simp add: hex4_def hex_val_hex_digit)
qed

lemma BSLASH_neq [simp]: "BSLASH \<noteq> QUOTE" "QUOTE \<noteq> BSLASH"
  by (simp_all add: BSLASH_def QUOTE_def)

lemma unescape_simps [simp]:
  "unescape QUOTE = Some QUOTE" "unescape BSLASH = Some BSLASH"
  "unescape (CHR ''b'') = Some (CHR 0x08)" "unescape (CHR ''t'') = Some (CHR 0x09)"
  "unescape (CHR ''n'') = Some (CHR 0x0A)" "unescape (CHR ''f'') = Some (CHR 0x0C)"
  "unescape (CHR ''r'') = Some (CHR 0x0D)"
  by (simp_all add: unescape_def QUOTE_def BSLASH_def)

lemma quote_not_u [simp]: "QUOTE \<noteq> CHR ''u''" "BSLASH \<noteq> CHR ''u''"
  by (simp_all add: BSLASH_def QUOTE_def)

lemma char_code_eq_char: "char_code c = n \<Longrightarrow> c = char_of n"
  using char_of_char_code by metis

lemma ctrl_chars: "char_of (8::nat) = CHR 0x08" "char_of (9::nat) = CHR 0x09"
  "char_of (10::nat) = CHR 0x0A" "char_of (12::nat) = CHR 0x0C" "char_of (13::nat) = CHR 0x0D"
  by (simp_all add: char_eq_char_code char_code_char_of) (simp_all add: char_code_def)

lemma pstr_quote_char: "pstr (quote_char c @ t) = map_option (apfst (Cons c)) (pstr t)"
proof -
  consider "c = QUOTE" | "c = BSLASH" | "char_code c = 8" | "char_code c = 9" | "char_code c = 10"
    | "char_code c = 12" | "char_code c = 13"
    | "c \<noteq> QUOTE" "c \<noteq> BSLASH" "char_code c \<notin> {8, 9, 10, 12, 13}" "char_code c < 32"
    | "c \<noteq> QUOTE" "c \<noteq> BSLASH" "\<not> char_code c < 32" by auto
  then show ?thesis
  proof cases
    case 8
    then show ?thesis by (simp add: quote_char_def hex4_low)
  next
    case 9
    then show ?thesis by (auto simp: quote_char_def)
  qed (auto simp: quote_char_def ctrl_chars dest!: char_code_eq_char)
qed

lemma pstr_quoted: "pstr (concat (map quote_char s) @ QUOTE # t) = Some (s, t)"
  by (induction s) (simp_all add: pstr_quote_char)

subsection \<open>Reading back a printed value\<close>

text \<open>
  \<open>reads v s r\<close>: with any sufficient fuel the parser takes \<open>v\<close> off the text \<open>s\<close> and
  leaves \<open>r\<close>.  What follows a number must not continue it.
\<close>

definition reads :: "json \<Rightarrow> string \<Rightarrow> string \<Rightarrow> bool" where
  "reads v s r = (\<exists>N. \<forall>n\<ge>N. pval n s = Some (v, r))"

definition num_end :: "string \<Rightarrow> bool" where
  "num_end r = (case r of [] \<Rightarrow> True
     | c # _ \<Rightarrow> \<not> is_digit c \<and> c \<noteq> CHR ''.'' \<and> c \<noteq> CHR ''e'' \<and> c \<noteq> CHR ''E'')"

lemma num_end_simps [simp]: "num_end []" "num_end (CHR '','' # r)" "num_end (CHR '']'' # r)"
  "num_end (CHR ''}'' # r)"
  by (simp_all add: num_end_def is_digit_def char_code_def Let_def)

lemma takeWhile_append_stop:
  assumes "list_all p s" and "r = [] \<or> \<not> p (hd r)"
  shows "takeWhile p (s @ r) = s" and "dropWhile p (s @ r) = r"
  using assms by (induction s) (auto simp: hd_conv_nth split: list.splits; cases r; auto)+

lemma show_nat_hd_nonzero: "0 < n \<Longrightarrow> hd (show_nat n) \<noteq> CHR ''0''"
proof (induction n rule: show_nat.induct)
  case (1 n)
  show ?case
  proof (cases "n < 10")
    case True
    have "char_code (digit_char n) \<noteq> char_code (CHR ''0'')"
      using True 1 by (simp add: char_code_digit_char) (simp add: char_code_def)
    with True show ?thesis by (auto simp: show_nat.simps [of n])
  next
    case False
    with 1 show ?thesis by (simp add: show_nat.simps [of n] hd_append)
  qed
qed

lemma pint_show_nat:
  assumes "num_end r"
  shows "pint (show_nat n @ r) = Some (show_nat n, r)"
proof -
  have stop: "r = [] \<or> \<not> is_digit (hd r)"
    using assms by (auto simp: num_end_def split: list.splits)
  note tw = takeWhile_append_stop [OF show_nat_digits stop, of n]
  have "length (show_nat n) > 1 \<Longrightarrow> hd (show_nat n) \<noteq> CHR ''0''"
    using show_nat_hd_nonzero [of n] by (cases "n = 0") (auto simp: show_nat.simps [of 0])
  then show ?thesis unfolding pint_def tw Let_def by auto
qed

lemma pnum_show_int:
  assumes "num_end r"
  shows "pnum (show_int i @ r) = Some (JNum (of_int i), r)"
proof -
  have r: "pfrac r = Some ([], r)" "pexp r = Some (0, r)"
    using assms by (auto simp: num_end_def pfrac_def pexp_def split: list.splits)
  have s: "psign (show_nat n @ r) = (False, show_nat n @ r)" for n
  proof -
    have "is_digit (hd (show_nat n))" using show_nat_digits [of n] by (cases "show_nat n") auto
    moreover have "\<not> is_digit (CHR ''-'')" by (simp add: is_digit_def char_code_def)
    ultimately show ?thesis by (cases "show_nat n") (auto simp: psign_def)
  qed
  show ?thesis
  proof (cases "i < 0")
    case True
    then show ?thesis
      by (simp add: pnum_def show_int_def psign_def pint_show_nat [OF assms] r pow10_def)
  next
    case False
    then show ?thesis
      by (simp add: pnum_def show_int_def s pint_show_nat [OF assms] r pow10_def)
  qed
qed

lemma json_skip_id: "\<not> json_ws c \<Longrightarrow> json_skip (c # t) = c # t"
  by (simp add: json_skip_def)

lemma json_ws_punct [simp]: "\<not> json_ws QUOTE" "\<not> json_ws (CHR '','')" "\<not> json_ws (CHR ''['')"
  "\<not> json_ws (CHR '']'')" "\<not> json_ws (CHR ''{'')" "\<not> json_ws (CHR ''}'')" "\<not> json_ws (CHR '':'')"
  "\<not> json_ws (CHR ''t'')" "\<not> json_ws (CHR ''f'')" "\<not> json_ws (CHR ''n'')" "\<not> json_ws (CHR ''-'')"
  by (simp_all add: json_ws_def char_code_def QUOTE_def)

lemma QUOTE_neq [simp]: "QUOTE \<noteq> CHR ''{''" "QUOTE \<noteq> CHR ''[''" "QUOTE \<noteq> CHR '']''" "QUOTE \<noteq> CHR ''}''"
  "CHR ''t'' \<noteq> QUOTE" "CHR ''f'' \<noteq> QUOTE" "CHR ''n'' \<noteq> QUOTE"
  by (simp_all add: QUOTE_def)

lemma digit_neq:
  assumes "is_digit c"
  shows "\<not> json_ws c" "c \<noteq> QUOTE" "c \<notin> set ''{}[]tfn''"
  using assms by (auto simp: is_digit_def json_ws_def char_code_def QUOTE_def Let_def)

lemma show_int_first:
  obtains c t where "show_int i = c # t" "c = CHR ''-'' \<or> is_digit c"
proof (cases "show_nat (nat \<bar>i\<bar>)")
  case (Cons c t)
  then have "is_digit c" using show_nat_digits [of "nat \<bar>i\<bar>"] by simp
  with Cons that show ?thesis by (cases "i < 0") (auto simp: show_int_def)
qed simp

lemma stringify_first:
  assumes "plain_json v"
  shows "\<exists>c t. json_stringify v = c # t \<and> \<not> json_ws c \<and> c \<noteq> CHR '']''"
proof (cases v)
  case (JNum q)
  obtain c t where "show_int \<lfloor>q\<rfloor> = c # t" "c = CHR ''-'' \<or> is_digit c" by (rule show_int_first)
  with JNum assms show ?thesis using digit_neq [of c] by (auto simp: show_rat_def)
next
  case (JBool b)
  then show ?thesis by (cases b) simp_all
qed (simp_all add: json_quote_def)

lemma reads_step: "(\<And>n. N \<le> n \<Longrightarrow> pval (Suc n) s = Some (v, r)) \<Longrightarrow> reads v s r"
  unfolding reads_def by (metis Suc_le_D Suc_le_mono)

lemma reads_leaf:
  "reads JNull (''null'' @ r) r" "reads (JBool True) (''true'' @ r) r"
  "reads (JBool False) (''false'' @ r) r" "reads (JStr s) (json_quote s @ r) r"
  by (rule reads_step [where N = 0],
      simp add: json_skip_id pword_def json_quote_def pstr_quoted QUOTE_def [symmetric])+

lemma reads_num:
  assumes "num_end r"
  shows "reads (JNum (of_int i)) (show_int i @ r) r"
proof -
  obtain c t where c: "show_int i = c # t" "c = CHR ''-'' \<or> is_digit c" by (rule show_int_first)
  then have "\<not> json_ws c" "c \<noteq> QUOTE" "c \<notin> set ''{[tfn''"
    using digit_neq [of c] by (auto simp: QUOTE_def)
  with c pnum_show_int [OF assms, of i] show ?thesis
    by (intro reads_step [where N = 0]) (simp add: json_skip_id)
qed

lemma reads_elems:
  assumes "vs \<noteq> []" and "\<And>v r. v \<in> set vs \<Longrightarrow> num_end r \<Longrightarrow> reads v (f v @ r) r"
  shows "\<exists>N. \<forall>n\<ge>N. pelems n (js_join '','' (map f vs) @ '']'' @ r) = Some (vs, r)"
  using assms
proof (induction vs rule: list_nonempty_induct)
  case (single v)
  then obtain N where "\<forall>n\<ge>N. pval n (f v @ '']'' @ r) = Some (v, '']'' @ r)"
    unfolding reads_def by fastforce
  then have "pelems n (f v @ '']'' @ r) = Some ([v], r)" if "n \<ge> Suc N" for n
    using that by (cases n) (auto simp: json_skip_id)
  then show ?case by auto
next
  case (cons v vs)
  let ?s = "js_join '','' (map f vs) @ '']'' @ r"
  obtain N where N: "\<forall>n\<ge>N. pelems n ?s = Some (vs, r)" using cons by auto
  obtain M where M: "\<forall>n\<ge>M. pval n (f v @ '','' @ ?s) = Some (v, '','' @ ?s)"
    using cons.prems(1) [of v "'','' @ ?s"] unfolding reads_def by fastforce
  have eq: "js_join '','' (map f (v # vs)) @ '']'' @ r = f v @ '','' @ ?s"
    using cons.hyps by (cases vs) auto
  have "pelems n (f v @ '','' @ ?s) = Some (v # vs, r)" if "n \<ge> Suc (max M N)" for n
    using that M N by (cases n) (auto simp: json_skip_id)
  then show ?case unfolding eq by blast
qed

lemma obj_set_new: "k \<notin> fst ` set kvs \<Longrightarrow> obj_set k v kvs = kvs @ [(k, v)]"
  by (induction kvs) auto

lemma reads_members:
  assumes "kvs \<noteq> []" and "distinct (map fst (acc @ kvs))"
    and "\<And>k v r. (k, v) \<in> set kvs \<Longrightarrow> num_end r \<Longrightarrow> reads v (f v @ r) r"
  shows "\<exists>N. \<forall>n\<ge>N. pmembers n acc
     (js_join '','' (map (\<lambda>(k, v). json_quote k @ '':'' @ f v) kvs) @ ''}'' @ r) = Some (acc @ kvs, r)"
  using assms
proof (induction kvs arbitrary: acc rule: list_nonempty_induct)
  case (single kv)
  obtain k v where kv: "kv = (k, v)" by fastforce
  with single obtain N where "\<forall>n\<ge>N. pval n (f v @ ''}'' @ r) = Some (v, ''}'' @ r)"
    unfolding reads_def by fastforce
  then have "pmembers n acc (json_quote k @ '':'' @ f v @ ''}'' @ r) = Some (acc @ [(k, v)], r)"
    if "n \<ge> Suc N" for n
    using that single kv
    by (cases n) (auto simp: json_skip_id json_quote_def pstr_quoted obj_set_new)
  then show ?case by (auto simp: kv)
next
  case (cons kv kvs)
  obtain k v where kv: "kv = (k, v)" by fastforce
  let ?s = "js_join '','' (map (\<lambda>(k, v). json_quote k @ '':'' @ f v) kvs) @ ''}'' @ r"
  have new: "obj_set k v acc = acc @ [(k, v)]" using cons.prems(1) by (simp add: kv obj_set_new)
  obtain N where N: "\<forall>n\<ge>N. pmembers n (acc @ [(k, v)]) ?s = Some ((acc @ [(k, v)]) @ kvs, r)"
    using cons.IH [of "acc @ [(k, v)]"] cons.prems by (auto simp: kv)
  obtain M where M: "\<forall>n\<ge>M. pval n (f v @ '','' @ ?s) = Some (v, '','' @ ?s)"
    using cons.prems(2) [of k v "'','' @ ?s"] unfolding reads_def kv by fastforce
  have eq: "js_join '','' (map (\<lambda>(k, v). json_quote k @ '':'' @ f v) (kv # kvs)) @ ''}'' @ r
      = json_quote k @ '':'' @ f v @ '','' @ ?s"
    using cons.hyps by (cases kvs) (auto simp: kv)
  have "pmembers n acc (json_quote k @ '':'' @ f v @ '','' @ ?s) = Some (acc @ kv # kvs, r)"
    if "n \<ge> Suc (max M N)" for n
    using that M N
    by (cases n) (auto simp: json_skip_id json_quote_def pstr_quoted new kv)
  then show ?case unfolding eq by blast
qed

lemma reads_stringify: "plain_json v \<Longrightarrow> num_end r \<Longrightarrow> reads v (json_stringify v @ r) r"
proof (induction v arbitrary: r)
  case (JNum q)
  then have "q = of_int \<lfloor>q\<rfloor>" by simp
  with reads_num [OF JNum(2), of "\<lfloor>q\<rfloor>"] show ?case by (simp add: show_rat_def)
next
  case (JArr vs)
  show ?case
  proof (cases "vs = []")
    case True
    then show ?thesis by (intro reads_step [where N = 0]) (simp add: json_skip_id)
  next
    case False
    then obtain v vs' where vs: "vs = v # vs'" by (cases vs) auto
    obtain N where N: "\<forall>n\<ge>N. pelems n (js_join '','' (map json_stringify vs) @ '']'' @ r) = Some (vs, r)"
      using reads_elems [OF False, of json_stringify r] JArr by (auto simp: list_all_iff)
    obtain c t where "json_stringify v = c # t" "\<not> json_ws c" "c \<noteq> CHR '']''"
      using stringify_first [of v] JArr(2) vs by auto
    then obtain t' where "js_join '','' (map json_stringify vs) @ '']'' @ r = c # t'"
        "\<not> json_ws c" "c \<noteq> CHR '']''"
      by (cases vs') (auto simp: vs)
    with N show ?thesis by (intro reads_step [where N = N]) (simp add: json_skip_id)
  qed
next
  case (JObj kvs)
  show ?case
  proof (cases "kvs = []")
    case True
    then show ?thesis by (intro reads_step [where N = 0]) (simp add: json_skip_id)
  next
    case False
    then obtain kv kvs' where kvs: "kvs = kv # kvs'" by (cases kvs) auto
    let ?t = "js_join '','' (map (\<lambda>(k, v). json_quote k @ '':'' @ json_stringify v) kvs) @ ''}'' @ r"
    obtain N where N: "\<forall>n\<ge>N. pmembers n [] ?t = Some (kvs, r)"
      using reads_members [OF False, of "[]" json_stringify r] JObj by (fastforce simp: list_all_iff)
    obtain t' where "?t = QUOTE # t'"
      by (cases kv; cases kvs') (auto simp: kvs json_quote_def)
    with N show ?thesis by (intro reads_step [where N = N]) (simp add: json_skip_id)
  qed
qed (use reads_leaf in auto)

text \<open>\<open>JSON.parse(JSON.stringify(v))\<close> gives \<open>v\<close> back.\<close>

lemma json_roundtrip:
  assumes "plain_json v"
  shows "json_parse (json_stringify v) = Some v"
proof -
  obtain N where N: "\<forall>n\<ge>N. pval n (json_stringify v) = Some (v, [])"
    using reads_stringify [OF assms, of "[]"] by (auto simp: reads_def)
  let ?n = "max N (2 * length (json_stringify v) + 1)"
  have "pval ?n (json_stringify v) = Some (v, [])" using N by simp
  then show ?thesis by (simp add: json_parse_fuel [of "json_stringify v" ?n] json_skip_def del: pval.simps)
qed

end
