(* ===== verification/Js_Http.thy ===== *)
theory Js_Http
  imports Js_Json
begin

text \<open>
  The platform the frontend talks through: requests, responses, \<open>Headers\<close> objects, the
  values a JavaScript \<open>throw\<close> carries, and the network.  The network is a parameter of
  every definition that uses \<open>fetch\<close>: a function of the requests already sent and of the
  request at hand, which answers with a response or rejects.  Nothing is assumed of it, so
  a statement that holds for every network holds for every behaviour of the backend.
\<close>

section \<open>Errors\<close>

text \<open>
  The shape \<open>ApiError\<close> of lib/api/errors.ts, which \<open>ApiClientError\<close> copies field by
  field; \<open>None\<close> is an absent optional field.
\<close>

record api_error =
  ae_status :: nat
  ae_code :: string
  ae_message :: string
  ae_details :: "json option"
  ae_requestId :: "string option"
  ae_retryAfter :: "rat option"

datatype js_exn =
    ApiClientErr api_error
  | DomException string string
  | ErrorExn string
  | OtherThrown

section \<open>Headers\<close>

type_synonym headers = "(string \<times> string) list"

text \<open>A \<open>Headers\<close> object stores lower-case names; \<open>get\<close> and \<open>set\<close> ignore case.\<close>

definition headers_get :: "headers \<Rightarrow> string \<Rightarrow> string option" where
  "headers_get h name = map_of h (js_lower name)"

definition headers_set :: "string \<Rightarrow> string \<Rightarrow> headers \<Rightarrow> headers" where
  "headers_set name v h = obj_set (js_lower name) v h"

lemmas [js_defs] = headers_get_def headers_set_def

lemma map_of_obj_set: "map_of (obj_set k v kvs) = (map_of kvs)(k \<mapsto> v)"
  by (induction kvs) (auto simp: fun_eq_iff)

lemma fst_obj_set: "fst ` set (obj_set k v kvs) = insert k (fst ` set kvs)"
  by (induction k v kvs rule: obj_set.induct) (simp_all add: insert_commute)

lemma set_obj_set: "set (obj_set k v kvs) \<subseteq> insert (k, v) (set kvs)"
  by (induction kvs) (auto split: if_splits)

lemma distinct_obj_set: "distinct (map fst kvs) \<Longrightarrow> distinct (map fst (obj_set k v kvs))"
  by (induction kvs) (auto simp: fst_obj_set image_iff)

lemma headers_get_set:
  "headers_get (headers_set n v h) m = (if js_lower n = js_lower m then Some v else headers_get h m)"
  by (simp add: headers_get_def headers_set_def map_of_obj_set)

section \<open>Requests and responses\<close>

text \<open>A body as handed to \<open>fetch\<close>: text (or bytes), or the parts of a \<open>FormData\<close>.\<close>

datatype req_body = NoBody | TextBody string | FormBody "(string \<times> string) list"

record http_request =
  rq_url :: string
  rq_method :: string
  rq_headers :: headers
  rq_body :: req_body

text \<open>The body of a response is read later, and reading it can fail.\<close>

record http_response =
  rs_status :: nat
  rs_statusText :: string
  rs_headers :: headers
  rs_body :: "js_exn + string"

definition response_ok :: "http_response \<Rightarrow> bool" where
  "response_ok r = (200 \<le> rs_status r \<and> rs_status r < 300)"

section \<open>The network\<close>

type_synonym network = "http_request list \<Rightarrow> http_request \<Rightarrow> js_exn + http_response"

text \<open>The part of the state that every call of \<open>fetch\<close> extends: the requests sent.\<close>

record world =
  sent :: "http_request list"

definition fetch ::
  "network \<Rightarrow> http_request \<Rightarrow> 'z world_scheme \<Rightarrow> (js_exn + http_response) \<times> 'z world_scheme" where
  "fetch net rq w = (net (sent w) rq, w\<lparr>sent := sent w @ [rq]\<rparr>)"

lemma fetch_simps [simp]:
  "fst (fetch net rq w) = net (sent w) rq"
  "snd (fetch net rq w) = w\<lparr>sent := sent w @ [rq]\<rparr>"
  by (simp_all add: fetch_def)

text \<open>\<open>process.env\<close>: the variables that are set.\<close>

type_synonym env = "string \<Rightarrow> string option"

section \<open>Reading a body\<close>

text \<open>
  \<open>parseJsonSafe\<close> of lib/api/client.ts (the same text as \<open>parseResponseBody\<close> of
  lib/auth/upstream.ts and \<open>parseJsonSafe\<close> of features/auth/api.ts): the empty text is
  \<open>null\<close>, a text that is no JSON is kept as a string.
\<close>

definition json_of_text :: "string \<Rightarrow> json" where
  "json_of_text t = (if t = [] then JNull
     else case json_parse t of Some v \<Rightarrow> v | None \<Rightarrow> JStr t)"

definition parseJsonSafe :: "http_response \<Rightarrow> js_exn + json" where
  "parseJsonSafe r = (case rs_body r of Inl e \<Rightarrow> Inl e | Inr t \<Rightarrow> Inr (json_of_text t))"

text \<open>\<open>response.json()\<close> rejects with a \<open>SyntaxError\<close> on a text that is no JSON.\<close>

definition response_json :: "http_response \<Rightarrow> js_exn + json" where
  "response_json r = (case rs_body r of Inl e \<Rightarrow> Inl e
     | Inr t \<Rightarrow> (case json_parse t of Some v \<Rightarrow> Inr v | None \<Rightarrow> Inl (ErrorExn ''SyntaxError'')))"

lemma json_of_text_stringify: "plain_json v \<Longrightarrow> json_of_text (json_stringify v) = v"
proof -
  assume v: "plain_json v"
  have "json_stringify v \<noteq> []" using stringify_first [OF v] by auto
  with json_roundtrip [OF v] show ?thesis by (simp add: json_of_text_def)
qed

end
