(* ===== verification/Api_Errors.thy ===== *)
theory Api_Errors
  imports Js_Http
begin

text \<open>
  lib/api/errors.ts: reading an error out of a response whose body may have any shape.
\<close>

section \<open>Reading fields\<close>

definition asRecord :: "json option \<Rightarrow> json option" where
  "asRecord v = (case v of Some (JObj kvs) \<Rightarrow> Some (JObj kvs) | _ \<Rightarrow> None)"

definition readString :: "json option \<Rightarrow> string option" where
  "readString v = (case v of Some (JStr s) \<Rightarrow> (if s \<noteq> [] then Some s else None) | _ \<Rightarrow> None)"

definition finite_value :: "jsnum \<Rightarrow> rat option" where
  "finite_value n = (case n of Fin q \<Rightarrow> Some q | _ \<Rightarrow> None)"

text \<open>\<open>headers?.get(name)\<close>\<close>

definition opt_header :: "headers option \<Rightarrow> string \<Rightarrow> string option" where
  "opt_header h name = (case h of Some hs \<Rightarrow> headers_get hs name | None \<Rightarrow> None)"

definition readRetryAfterSeconds :: "json option \<Rightarrow> headers option \<Rightarrow> rat option" where
  "readRetryAfterSeconds details h =
     (let fromHeader = (case opt_header h ''Retry-After'' of
            Some v \<Rightarrow> (if v \<noteq> [] then finite_value (js_Number v) else None) | None \<Rightarrow> None)
      in case opt_prop (asRecord details) ''retry_after_seconds'' of
           Some (JNum q) \<Rightarrow> Some q
         | Some (JStr s) \<Rightarrow>
             (if js_trim s \<noteq> [] then
                (case finite_value (js_Number s) of Some q \<Rightarrow> Some q | None \<Rightarrow> fromHeader)
              else fromHeader)
         | _ \<Rightarrow> fromHeader)"

definition readRequestId :: "json option \<Rightarrow> headers option \<Rightarrow> string option" where
  "readRequestId details h =
     (case readString (opt_prop (asRecord details) ''request_id'') of
        Some s \<Rightarrow> Some s
      | None \<Rightarrow> readString (map_option JStr (opt_header h ''X-Request-ID'')))"

section \<open>\<open>parseErrorResponse\<close>\<close>

definition default_code :: "nat \<Rightarrow> string" where
  "default_code status =
     (if status = 401 then ''UNAUTHORIZED'' else if status = 403 then ''FORBIDDEN''
      else if status = 404 then ''NOT_FOUND'' else if status = 429 then ''RATE_LIMITED''
      else ''UNKNOWN_ERROR'')"

fun first_string :: "json option list \<Rightarrow> string option" where
  "first_string [] = None"
| "first_string (v # vs) = (case readString v of Some s \<Rightarrow> Some s | None \<Rightarrow> first_string vs)"

definition default_message :: "nat \<Rightarrow> json \<Rightarrow> string" where
  "default_message status body = (case body of
       JStr s \<Rightarrow> (if js_trim s \<noteq> [] then s else ''Request failed with status '' @ show_nat status)
     | _ \<Rightarrow> ''Request failed with status '' @ show_nat status)"

definition parseErrorResponse :: "nat \<Rightarrow> json \<Rightarrow> headers option \<Rightarrow> api_error" where
  "parseErrorResponse status body h =
     (let envelope = asRecord (Some body);
          errorObject = asRecord (opt_prop envelope ''error'');
          code = (case first_string [opt_prop errorObject ''code'', opt_prop envelope ''code'']
                  of Some s \<Rightarrow> s | None \<Rightarrow> default_code status);
          message = (case first_string [opt_prop errorObject ''message'',
                       opt_prop envelope ''message'', opt_prop envelope ''detail'']
                     of Some s \<Rightarrow> s | None \<Rightarrow> default_message status body);
          details = (case opt_prop errorObject ''details'' of
                       Some v \<Rightarrow> (if v = JNull then None else Some v) | None \<Rightarrow> None)
      in \<lparr>ae_status = status, ae_code = code, ae_message = message, ae_details = details,
          ae_requestId = readRequestId details h,
          ae_retryAfter = readRetryAfterSeconds details h\<rparr>)"

definition shouldRetryStatus :: "nat \<Rightarrow> bool" where
  "shouldRetryStatus status = (status = 503 \<or> status = 502 \<or> status = 504)"

definition isApiClientError :: "js_exn \<Rightarrow> bool" where
  "isApiClientError e = (case e of ApiClientErr _ \<Rightarrow> True | _ \<Rightarrow> False)"

section \<open>Lemmas\<close>

lemma asRecord_simps [simp]:
  "asRecord None = None" "asRecord (Some (JObj kvs)) = Some (JObj kvs)" "asRecord (Some JNull) = None"
  "asRecord (Some (JStr s)) = None" "asRecord (Some (JNum q)) = None"
  "asRecord (Some (JBool b)) = None" "asRecord (Some (JArr vs)) = None"
  by (simp_all add: asRecord_def)

lemma opt_prop_simps [simp]: "opt_prop None k = None" "opt_prop (Some v) k = js_prop v k"
  by (simp_all add: opt_prop_def)

lemma readString_Some: "readString v = Some s \<longleftrightarrow> v = Some (JStr s) \<and> s \<noteq> []"
  by (auto simp: readString_def split: option.splits json.splits if_splits)

lemma readString_simps [simp]: "readString None = None"
  "readString (Some (JStr s)) = (if s = [] then None else Some s)" "readString (Some JNull) = None"
  by (simp_all add: readString_def)

lemma first_string_ne: "first_string vs = Some s \<Longrightarrow> s \<noteq> []"
  by (induction vs) (auto simp: readString_Some split: option.splits)

lemma default_message_ne: "default_message status body \<noteq> []"
  by (auto simp: default_message_def js_trim_def split: json.splits)

lemma parseErrorResponse_status [simp]: "ae_status (parseErrorResponse st b h) = st"
  by (simp add: parseErrorResponse_def Let_def)

lemma parseErrorResponse_nonempty:
  "ae_code (parseErrorResponse st b h) \<noteq> []" "ae_message (parseErrorResponse st b h) \<noteq> []"
  by (auto simp: parseErrorResponse_def Let_def default_code_def default_message_ne
      simp del: first_string.simps split: option.splits dest!: first_string_ne)

lemma parseErrorResponse_details_not_null: "ae_details (parseErrorResponse st b h) \<noteq> Some JNull"
  by (auto simp: parseErrorResponse_def Let_def split: option.splits)

lemma parseErrorResponse_requestId_ne: "ae_requestId (parseErrorResponse st b h) \<noteq> Some []"
  by (auto simp: parseErrorResponse_def Let_def readRequestId_def readString_Some
      split: option.splits)


section \<open>Property\<close>

text \<open>Whatever the body and the headers of an error answer are, the parsed error is usable:
  it keeps the status, has a code and a message that are not empty, no null details and no
  empty request id, and a well-formed backend envelope is taken over field by field.\<close>

theorem parse_error_total:
  "let e = parseErrorResponse status body h in
     ae_status e = status \<and> ae_code e \<noteq> [] \<and> ae_message e \<noteq> [] \<and> ae_details e \<noteq> Some JNull
     \<and> ae_requestId e \<noteq> Some []
     \<and> (case opt_prop (asRecord (opt_prop (asRecord (Some body)) ''error'')) ''code'' of
          Some (JStr c) \<Rightarrow> if c = [] then True else ae_code e = c | _ \<Rightarrow> True)
     \<and> (case opt_prop (asRecord (opt_prop (asRecord (Some body)) ''error'')) ''message'' of
          Some (JStr m) \<Rightarrow> if m = [] then True else ae_message e = m | _ \<Rightarrow> True)"
  using parseErrorResponse_nonempty [of status body h] parseErrorResponse_details_not_null [of status body h]
    parseErrorResponse_requestId_ne [of status body h]
  by (simp add: Let_def)
     (simp add: parseErrorResponse_def Let_def split: option.split json.split)

end
