(* ===== verification/Api_Client.thy ===== *)
theory Api_Client
  imports Api_Errors
begin

text \<open>
  lib/api/client.ts: the typed fetch every feature of the frontend goes through, on the
  server (with a bearer token, straight to the backend) and in the browser (through the
  BFF, with cookies), and the merging of an external abort signal with a timeout.
\<close>

section \<open>Base URL\<close>

definition getApiBaseUrl :: "bool \<Rightarrow> env \<Rightarrow> string" where
  "getApiBaseUrl is_server env =
     (if is_server then
        or_else_str (env ''INTERNAL_API_BASE_URL'')
          (or_else_str (env ''NEXT_PUBLIC_API_BASE_URL'') ''http://localhost:8000'')
      else or_else_str (env ''NEXT_PUBLIC_API_BASE_URL'') [])"

definition resolveRequestUrl :: "bool \<Rightarrow> env \<Rightarrow> string \<Rightarrow> string" where
  "resolveRequestUrl is_server env path =
     (let normalized = (if starts_with path ''/'' then path else ''/'' @ path)
      in if is_server then strip_trailing_slash (getApiBaseUrl is_server env) @ normalized
         else ''/api/bff'' @ normalized)"

definition unwrapData :: "json \<Rightarrow> json" where
  "unwrapData v = (case js_prop v ''data'' of Some d \<Rightarrow> d | None \<Rightarrow> v)"

section \<open>Signals\<close>

text \<open>
  \<open>mergeSignals\<close> with a positive timeout makes a controller, a timer and a listener on the
  external signal; otherwise it hands the external signal through.  The state of the
  merged signal is the reason of the first abort, if any, with the timer and the listener
  that are still installed.  A listener hears an abort that happens after its
  registration only.
\<close>

record merged_signal =
  ms_reason :: "string option"
  ms_timer :: bool
  ms_listener :: bool

datatype signal_choice = Passthrough | Merged merged_signal

datatype signal_event = TimerFires | ExternalAbort string | Cleanup

definition mergeSignals :: "bool \<Rightarrow> int option \<Rightarrow> signal_choice" where
  "mergeSignals has_external timeoutMs =
     (case timeoutMs of None \<Rightarrow> Passthrough
      | Some t \<Rightarrow> (if t \<le> 0 then Passthrough
          else Merged \<lparr>ms_reason = None, ms_timer = True, ms_listener = has_external\<rparr>))"

text \<open>\<open>controller.abort(reason)\<close>: only the first call has an effect.\<close>

definition abort_with :: "string \<Rightarrow> merged_signal \<Rightarrow> merged_signal" where
  "abort_with r m = (case ms_reason m of None \<Rightarrow> m\<lparr>ms_reason := Some r\<rparr> | Some _ \<Rightarrow> m)"

fun signal_step :: "merged_signal \<Rightarrow> signal_event \<Rightarrow> merged_signal" where
  "signal_step m TimerFires =
     (if ms_timer m then abort_with ''TimeoutError'' (m\<lparr>ms_timer := False\<rparr>) else m)"
| "signal_step m (ExternalAbort r) = (if ms_listener m then abort_with r m else m)"
| "signal_step m Cleanup = m\<lparr>ms_timer := False, ms_listener := False\<rparr>"

definition signal_run :: "merged_signal \<Rightarrow> signal_event list \<Rightarrow> merged_signal" where
  "signal_run m es = foldl signal_step m es"

section \<open>\<open>apiFetch\<close>\<close>

text \<open>
  The options of a call.  \<open>JSON.stringify\<close> makes the text of a JSON body; a multipart
  body has no content type of its own.
\<close>

record request_options =
  ro_method :: "string option"
  ro_body :: "json option"
  ro_formData :: "(string \<times> string) list option"
  ro_headers :: headers
  ro_timeoutMs :: "int option"
  ro_accessToken :: "string option"
  ro_raw :: bool
  ro_formUrlEncoded :: "string option"

definition default_options :: request_options where
  "default_options = \<lparr>ro_method = None, ro_body = None, ro_formData = None, ro_headers = [],
     ro_timeoutMs = None, ro_accessToken = None, ro_raw = False, ro_formUrlEncoded = None\<rparr>"

definition apiFetch_request :: "bool \<Rightarrow> env \<Rightarrow> string \<Rightarrow> request_options \<Rightarrow> http_request" where
  "apiFetch_request is_server env path opts =
     (let h0 = ro_headers opts;
          h1 = (case ro_accessToken opts of
                  Some t \<Rightarrow> (if is_server \<and> t \<noteq> [] then obj_set ''Authorization'' (''Bearer '' @ t) h0 else h0)
                | None \<Rightarrow> h0);
          (h2, body) =
            (case ro_formData opts of
               Some fd \<Rightarrow> (h1, FormBody fd)
             | None \<Rightarrow>
                (case ro_formUrlEncoded opts of
                   Some f \<Rightarrow> (obj_set ''Content-Type'' ''application/x-www-form-urlencoded'' h1, TextBody f)
                 | None \<Rightarrow>
                    (case ro_body opts of
                       Some v \<Rightarrow> (obj_set ''Content-Type'' ''application/json'' h1,
                                  TextBody (json_stringify v))
                     | None \<Rightarrow> (h1, NoBody))))
      in \<lparr>rq_url = resolveRequestUrl is_server env path,
          rq_method = (case ro_method opts of Some m \<Rightarrow> m | None \<Rightarrow> ''GET''),
          rq_headers = h2, rq_body = body\<rparr>)"

text \<open>The signal of a call: a call that names no timeout has one of 30 seconds.\<close>

definition apiFetch_signal :: "bool \<Rightarrow> request_options \<Rightarrow> signal_choice" where
  "apiFetch_signal has_external opts =
     mergeSignals has_external (Some (case ro_timeoutMs opts of Some t \<Rightarrow> t | None \<Rightarrow> 30000))"

text \<open>What \<open>apiFetch\<close> makes of a response that arrived.\<close>

definition apiFetch_result :: "bool \<Rightarrow> http_response \<Rightarrow> js_exn + json" where
  "apiFetch_result raw r =
     (case parseJsonSafe r of Inl e \<Rightarrow> Inl e
      | Inr v \<Rightarrow>
         if \<not> response_ok r then
           Inl (ApiClientErr (parseErrorResponse (rs_status r) v (Some (rs_headers r))))
         else if raw then Inr v
         else if js_prop v ''success'' = Some (JBool False) then
           Inl (ApiClientErr (parseErrorResponse (rs_status r) v (Some (rs_headers r))))
         else Inr (unwrapData v))"

definition apiFetch ::
  "bool \<Rightarrow> env \<Rightarrow> network \<Rightarrow> string \<Rightarrow> request_options \<Rightarrow> 'z world_scheme \<Rightarrow>
   (js_exn + json) \<times> 'z world_scheme" where
  "apiFetch is_server env net path opts w =
     (case fetch net (apiFetch_request is_server env path opts) w of
        (Inl e, w') \<Rightarrow> (Inl e, w')
      | (Inr r, w') \<Rightarrow> (apiFetch_result (ro_raw opts) r, w'))"

section \<open>Lemmas\<close>

lemma unwrapData_envelope: "map_of kvs ''data'' = Some d \<Longrightarrow> unwrapData (JObj kvs) = d"
  by (simp add: unwrapData_def)

lemma signal_run_Cons [simp]: "signal_run m [] = m"
  "signal_run m (e # es) = signal_run (signal_step m e) es"
  by (simp_all add: signal_run_def)

lemma signal_run_append: "signal_run m (es @ fs) = signal_run (signal_run m es) fs"
  by (simp add: signal_run_def)

lemma signal_step_reason_stable:
  "ms_reason m = Some r \<Longrightarrow> ms_reason (signal_step m e) = Some r"
  by (cases e) (auto simp: abort_with_def)

lemma signal_run_reason_stable:
  "ms_reason m = Some r \<Longrightarrow> ms_reason (signal_run m es) = Some r"
  by (induction es arbitrary: m) (auto simp: signal_step_reason_stable)

lemma signal_run_detached:
  "\<not> ms_timer m \<Longrightarrow> \<not> ms_listener m \<Longrightarrow> signal_run m es = m"
proof (induction es)
  case (Cons e es)
  then have "signal_step m e = m" by (cases e) auto
  with Cons show ?case by simp
qed simp

lemma apiFetch_sends_one:
  "sent (snd (apiFetch is_server env net path opts w)) =
   sent w @ [apiFetch_request is_server env path opts]"
  by (simp add: apiFetch_def fetch_def split: sum.splits)

lemma apiFetch_world:
  "snd (apiFetch is_server env net path opts w) =
   w\<lparr>sent := sent w @ [apiFetch_request is_server env path opts]\<rparr>"
  by (simp add: apiFetch_def fetch_def split: sum.splits)

lemma apiFetch_fst:
  "fst (apiFetch is_server env net path opts w) =
   (case net (sent w) (apiFetch_request is_server env path opts) of Inl e \<Rightarrow> Inl e
    | Inr r \<Rightarrow> apiFetch_result (ro_raw opts) r)"
  by (simp add: apiFetch_def fetch_def split: sum.splits)

text \<open>A call in the browser attaches no header but those it was given and the content type.\<close>

lemma apiFetch_request_browser_headers:
  "fst ` set (rq_headers (apiFetch_request False env path opts))
   \<subseteq> insert ''Content-Type'' (fst ` set (ro_headers opts))"
  by (auto simp: apiFetch_request_def Let_def fst_obj_set split: option.splits)


section \<open>Properties\<close>

text \<open>The contract of a merged signal: it is aborted by the first event that reaches it before
  the cleanup, with the reason of that event.\<close>

fun first_abort :: "bool \<Rightarrow> signal_event list \<Rightarrow> string option" where
  "first_abort has_external [] = None"
| "first_abort has_external (TimerFires # es) = Some ''TimeoutError''"
| "first_abort has_external (ExternalAbort r # es) = (if has_external then Some r else first_abort has_external es)"
| "first_abort has_external (Cleanup # es) = None"

lemma signal_run_fresh:
  "ms_reason (signal_run \<lparr>ms_reason = None, ms_timer = True, ms_listener = ext\<rparr> es) = first_abort ext es"
proof (induction ext es rule: first_abort.induct)
  case (2 ext es)
  show ?case by (simp add: signal_run_reason_stable abort_with_def)
next
  case (3 ext r es)
  then show ?case by (cases ext) (simp_all add: signal_run_reason_stable abort_with_def)
next
  case (4 ext es)
  show ?case by (simp add: signal_run_detached)
qed simp

text \<open>The signal a request is sent with is aborted by its timeout or by the caller, whichever
  comes first while the request runs, keeps that reason, and is left alone once the request
  is over; without a positive timeout the caller's own signal is used.\<close>

theorem merged_signal_first_abort:
  "case mergeSignals ext timeoutMs of
     Passthrough \<Rightarrow> timeoutMs = None \<or> (\<exists>t\<le>0. timeoutMs = Some t)
   | Merged m \<Rightarrow> ms_reason (signal_run m es) = first_abort ext es"
  by (auto simp: mergeSignals_def signal_run_fresh split: option.split)

text \<open>\<open>apiFetch\<close> sends exactly one request and never hides a failure: it returns a value only
  for a 2xx answer whose envelope does not say \<open>success: false\<close>, and then the value is the
  \<open>data\<close> of the body (the whole body with \<open>raw\<close>); every other answer that could be read is an
  \<open>ApiClientError\<close> with the status of the answer, a code and a message that are not empty.\<close>

theorem apiFetch_outcome:
  "sent (snd (apiFetch is_server env net path opts w)) = sent w @ [apiFetch_request is_server env path opts] \<and>
   (case net (sent w) (apiFetch_request is_server env path opts) of
      Inl e \<Rightarrow> fst (apiFetch is_server env net path opts w) = Inl e
    | Inr r \<Rightarrow>
        (case rs_body r of Inl e \<Rightarrow> fst (apiFetch is_server env net path opts w) = Inl e
         | Inr t \<Rightarrow>
            let v = json_of_text t in
            if response_ok r \<and> \<not> (\<not> ro_raw opts \<and> js_prop v ''success'' = Some (JBool False))
            then fst (apiFetch is_server env net path opts w) = Inr (if ro_raw opts then v else unwrapData v)
            else \<exists>err. fst (apiFetch is_server env net path opts w) = Inl (ApiClientErr err)
                   \<and> ae_status err = rs_status r \<and> ae_code err \<noteq> [] \<and> ae_message err \<noteq> []))"
  by (auto simp: apiFetch_world apiFetch_fst apiFetch_result_def parseJsonSafe_def Let_def
      parseErrorResponse_nonempty split: sum.split)

end
