(* ===== verification/Auth_Cookies.thy ===== *)
theory Auth_Cookies
  imports Api_Client
begin

text \<open>
  lib/auth/cookies.ts: the two HTTP-only cookies that hold the session.  The cookie jar of
  the framework is no code of this repository, so it is a parameter: a record of its two
  operations.  What the code relies on is the law of the locale \<open>cookie_store\<close>: a value
  that was set is the one read back, and setting one name leaves the others alone.  The
  list-based jar \<open>mem_ops\<close> interprets the locale.
\<close>

section \<open>The jar\<close>

record cookie_options =
  co_httpOnly :: bool
  co_secure :: bool
  co_sameSite :: string
  co_path :: string
  co_maxAge :: jsnum
  co_domain :: "string option"

record 'j jar_ops =
  jar_get :: "'j \<Rightarrow> string \<Rightarrow> string option"
  jar_set :: "'j \<Rightarrow> string \<Rightarrow> string \<Rightarrow> cookie_options \<Rightarrow> 'j"

text \<open>The state of a request handler: the requests sent and the jar.\<close>

record 'j server = world +
  jar :: 'j

section \<open>Cookie options\<close>

definition ACCESS_COOKIE :: string where "ACCESS_COOKIE = ''ada_access''"

definition REFRESH_COOKIE :: string where "REFRESH_COOKIE = ''ada_refresh''"

definition REFRESH_MAX_AGE_SECONDS :: rat where
  "REFRESH_MAX_AGE_SECONDS = 14 * 24 * 60 * 60"

definition isCookieSecure :: "env \<Rightarrow> bool" where
  "isCookieSecure env =
     (let raw = env ''AUTH_COOKIE_SECURE'' in
      if raw = Some ''true'' \<or> raw = Some ''1'' then True
      else if raw = Some ''false'' \<or> raw = Some ''0'' then False
      else env ''NODE_ENV'' = Some ''production'')"

definition cookieSameSite :: "env \<Rightarrow> string" where
  "cookieSameSite env =
     (let raw = js_lower (or_else_str (env ''AUTH_COOKIE_SAMESITE'') ''lax'') in
      if raw = ''strict'' \<or> raw = ''none'' \<or> raw = ''lax'' then raw else ''lax'')"

definition cookieDomain :: "env \<Rightarrow> string option" where
  "cookieDomain env = nonempty_opt (map_option js_trim (env ''AUTH_COOKIE_DOMAIN''))"

definition baseCookieOptions :: "env \<Rightarrow> jsnum \<Rightarrow> cookie_options" where
  "baseCookieOptions env maxAge =
     \<lparr>co_httpOnly = True, co_secure = isCookieSecure env, co_sameSite = cookieSameSite env,
      co_path = ''/'', co_maxAge = maxAge, co_domain = cookieDomain env\<rparr>"

section \<open>Setting, clearing and reading\<close>

text \<open>The token pair of the backend, as the code reads it off an arbitrary JSON value.\<close>

record auth_tokens =
  at_access :: string
  at_refresh :: string
  at_expires_in :: json

definition num_floor :: "jsnum \<Rightarrow> jsnum" where
  "num_floor n = (case n of Fin q \<Rightarrow> Fin (of_int \<lfloor>q\<rfloor>) | _ \<Rightarrow> n)"

definition num_max1 :: "jsnum \<Rightarrow> jsnum" where
  "num_max1 n = (case n of NaN \<Rightarrow> NaN | Infinity \<Rightarrow> Infinity | NegInfinity \<Rightarrow> Fin 1
     | Fin q \<Rightarrow> Fin (max 1 q))"

definition accessMaxAge :: "json \<Rightarrow> jsnum" where
  "accessMaxAge expires_in = num_max1 (num_floor (to_number expires_in))"

definition setAuthCookies :: "'j jar_ops \<Rightarrow> env \<Rightarrow> auth_tokens \<Rightarrow> 'j server \<Rightarrow> 'j server" where
  "setAuthCookies ops env tokens w =
     (let j1 = jar_set ops (jar w) ACCESS_COOKIE (at_access tokens)
                 (baseCookieOptions env (accessMaxAge (at_expires_in tokens)));
          j2 = jar_set ops j1 REFRESH_COOKIE (at_refresh tokens)
                 (baseCookieOptions env (Fin REFRESH_MAX_AGE_SECONDS))
      in w\<lparr>jar := j2\<rparr>)"

definition clearAuthCookies :: "'j jar_ops \<Rightarrow> env \<Rightarrow> 'j server \<Rightarrow> 'j server" where
  "clearAuthCookies ops env w =
     (let j1 = jar_set ops (jar w) ACCESS_COOKIE [] ((baseCookieOptions env (Fin 0))\<lparr>co_maxAge := Fin 0\<rparr>);
          j2 = jar_set ops j1 REFRESH_COOKIE [] ((baseCookieOptions env (Fin 0))\<lparr>co_maxAge := Fin 0\<rparr>)
      in w\<lparr>jar := j2\<rparr>)"

definition getAccessToken :: "'j jar_ops \<Rightarrow> 'j server \<Rightarrow> string option" where
  "getAccessToken ops w = jar_get ops (jar w) ACCESS_COOKIE"

definition getRefreshToken :: "'j jar_ops \<Rightarrow> 'j server \<Rightarrow> string option" where
  "getRefreshToken ops w = jar_get ops (jar w) REFRESH_COOKIE"

text \<open>
  The check that follows every call of the refresh and login endpoints: both tokens must
  be present; the lifetime defaults to 900 seconds.
\<close>

definition read_token_pair :: "json \<Rightarrow> auth_tokens option" where
  "read_token_pair v =
     (let a = js_prop v ''access_token''; r = js_prop v ''refresh_token'' in
      if truthy a \<and> truthy r then
        Some \<lparr>at_access = js_String (the a), at_refresh = js_String (the r),
              at_expires_in = coalesce (js_prop v ''expires_in'') (JNum 900)\<rparr>
      else None)"

lemmas cookie_name_defs = ACCESS_COOKIE_def REFRESH_COOKIE_def

section \<open>The law of the jar\<close>

locale cookie_store =
  fixes ops :: "'j jar_ops"
  assumes get_set: "jar_get ops (jar_set ops j k v opt) k' = (if k' = k then Some v else jar_get ops j k')"
begin

lemma get_after_setAuthCookies:
  "getAccessToken ops (setAuthCookies ops env t w) = Some (at_access t)"
  "getRefreshToken ops (setAuthCookies ops env t w) = Some (at_refresh t)"
  by (simp_all add: getAccessToken_def getRefreshToken_def setAuthCookies_def get_set
      cookie_name_defs)

lemma get_after_clearAuthCookies:
  "getAccessToken ops (clearAuthCookies ops env w) = Some []"
  "getRefreshToken ops (clearAuthCookies ops env w) = Some []"
  by (simp_all add: getAccessToken_def getRefreshToken_def clearAuthCookies_def get_set
      cookie_name_defs)

lemma other_cookies_kept:
  assumes "k \<noteq> ACCESS_COOKIE" and "k \<noteq> REFRESH_COOKIE"
  shows "jar_get ops (jar (setAuthCookies ops env t w)) k = jar_get ops (jar w) k"
    and "jar_get ops (jar (clearAuthCookies ops env w)) k = jar_get ops (jar w) k"
  using assms by (simp_all add: setAuthCookies_def clearAuthCookies_def get_set)

end

text \<open>A jar as a list: the cookies of the request, overlaid by what the handler set.\<close>

type_synonym mem_jar = "(string \<times> string \<times> cookie_options option) list"

definition mem_get :: "mem_jar \<Rightarrow> string \<Rightarrow> string option" where
  "mem_get j k = map_option fst (map_of j k)"

definition mem_set :: "mem_jar \<Rightarrow> string \<Rightarrow> string \<Rightarrow> cookie_options \<Rightarrow> mem_jar" where
  "mem_set j k v opt = obj_set k (v, Some opt) j"

definition mem_ops :: "mem_jar jar_ops" where
  "mem_ops = \<lparr>jar_get = mem_get, jar_set = mem_set\<rparr>"

interpretation mem: cookie_store mem_ops
  by unfold_locales (simp add: mem_ops_def mem_get_def mem_set_def map_of_obj_set)

section \<open>Frame lemmas\<close>

lemma setAuthCookies_sent [simp]: "sent (setAuthCookies ops env t w) = sent w"
  by (simp add: setAuthCookies_def)

lemma clearAuthCookies_sent [simp]: "sent (clearAuthCookies ops env w) = sent w"
  by (simp add: clearAuthCookies_def)

lemma read_token_pair_Some:
  "read_token_pair v = Some t \<Longrightarrow>
   \<exists>a r. js_prop v ''access_token'' = Some a \<and> js_prop v ''refresh_token'' = Some r \<and>
     js_truthy a \<and> js_truthy r \<and> at_access t = js_String a \<and> at_refresh t = js_String r"
  by (auto simp: read_token_pair_def Let_def truthy_def split: if_splits option.splits)

lemma accessMaxAge_ge_1: "accessMaxAge v = Fin q \<Longrightarrow> 1 \<le> q \<and> q = of_int \<lfloor>q\<rfloor>"
  by (auto simp: accessMaxAge_def num_max1_def num_floor_def max_def split: jsnum.splits if_splits)

lemma jar_reads_sent [simp]:
  "getRefreshToken ops (w\<lparr>sent := l\<rparr>) = getRefreshToken ops w"
  "getAccessToken ops (w\<lparr>sent := l\<rparr>) = getAccessToken ops w"
  by (simp_all add: getRefreshToken_def getAccessToken_def)

lemma clear_twice_reads:
  assumes "cookie_store ops"
  shows "getAccessToken ops (clearAuthCookies ops env w) = Some []"
    "getRefreshToken ops (clearAuthCookies ops env w) = Some []"
  using cookie_store.get_after_clearAuthCookies [OF assms] by simp_all

end
