(* ===== verification/Endpoints.thy ===== *)
theory Endpoints
  imports Js_Prelude
begin

text \<open>
  lib/api/endpoints.ts: the builders of the backend's paths, one definition per builder,
  named \<open>ep_\<close> followed by the access path of the builder in the \<open>endpoints\<close> object.  A
  version number that the code passes as \<open>number | string\<close> is its printed form here.
\<close>

definition API_V1 :: string where
  "API_V1 = ''/api/v1''"

definition ep_auth_register :: "string" where
  "ep_auth_register = API_V1 @ ''/auth/register''"

definition ep_auth_login :: "string" where
  "ep_auth_login = API_V1 @ ''/auth/login''"

definition ep_auth_refresh :: "string" where
  "ep_auth_refresh = API_V1 @ ''/auth/refresh''"

definition ep_auth_logout :: "string" where
  "ep_auth_logout = API_V1 @ ''/auth/logout''"

definition ep_auth_logoutAll :: "string" where
  "ep_auth_logoutAll = API_V1 @ ''/auth/logout-all''"

definition ep_auth_forgotPassword :: "string" where
  "ep_auth_forgotPassword = API_V1 @ ''/auth/forgot-password''"

definition ep_auth_resetPassword :: "string" where
  "ep_auth_resetPassword = API_V1 @ ''/auth/reset-password''"

definition ep_auth_changePassword :: "string" where
  "ep_auth_changePassword = API_V1 @ ''/auth/change-password''"

definition ep_auth_sendVerification :: "string" where
  "ep_auth_sendVerification = API_V1 @ ''/auth/send-verification''"

definition ep_auth_verifyEmail :: "string" where
  "ep_auth_verifyEmail = API_V1 @ ''/auth/verify-email''"

definition ep_auth_sessions :: "string" where
  "ep_auth_sessions = API_V1 @ ''/auth/sessions''"

definition ep_auth_session :: "string \<Rightarrow> string" where
  "ep_auth_session sessionId = API_V1 @ ''/auth/sessions/'' @ sessionId"

definition ep_invitations_accept :: "string" where
  "ep_invitations_accept = API_V1 @ ''/invitations/accept''"

definition ep_invitations_decline :: "string" where
  "ep_invitations_decline = API_V1 @ ''/invitations/decline''"

definition ep_users_me :: "string" where
  "ep_users_me = API_V1 @ ''/users/me''"

definition ep_users_meOnboarding :: "string" where
  "ep_users_meOnboarding = API_V1 @ ''/users/me/onboarding''"

definition ep_users_emailChangeRequest :: "string" where
  "ep_users_emailChangeRequest = API_V1 @ ''/users/me/email-change/request''"

definition ep_users_emailChangeConfirm :: "string" where
  "ep_users_emailChangeConfirm = API_V1 @ ''/users/me/email-change/confirm''"

definition ep_dashboard_summary :: "string" where
  "ep_dashboard_summary = API_V1 @ ''/dashboard/summary''"

definition ep_dashboard_activity :: "string" where
  "ep_dashboard_activity = API_V1 @ ''/dashboard/activity''"

definition ep_dashboard_findings :: "string" where
  "ep_dashboard_findings = API_V1 @ ''/dashboard/findings''"

definition ep_dashboard_tasks :: "string" where
  "ep_dashboard_tasks = API_V1 @ ''/dashboard/tasks''"

definition ep_usage_me :: "string" where
  "ep_usage_me = API_V1 @ ''/usage/me''"

definition ep_admin_providers_configs :: "string" where
  "ep_admin_providers_configs = API_V1 @ ''/admin/providers/configs''"

definition ep_admin_providers_config :: "string \<Rightarrow> string" where
  "ep_admin_providers_config providerName = API_V1 @ ''/admin/providers/configs/'' @ providerName"

definition ep_admin_providers_routing :: "string" where
  "ep_admin_providers_routing = API_V1 @ ''/admin/providers/routing''"

definition ep_admin_providers_routingOperation :: "string \<Rightarrow> string" where
  "ep_admin_providers_routingOperation operation = API_V1 @ ''/admin/providers/routing/'' @ operation"

definition ep_admin_providers_health :: "string" where
  "ep_admin_providers_health = API_V1 @ ''/admin/providers/health''"

definition ep_chat_chat :: "string" where
  "ep_chat_chat = API_V1 @ ''/chat''"

definition ep_chat_stream :: "string" where
  "ep_chat_stream = API_V1 @ ''/chat/stream''"

definition ep_chat_conversations :: "string" where
  "ep_chat_conversations = API_V1 @ ''/chat/conversations''"

definition ep_chat_conversation :: "string \<Rightarrow> string" where
  "ep_chat_conversation conversationId = API_V1 @ ''/chat/conversations/'' @ conversationId"

definition ep_chat_deleteConversation :: "string \<Rightarrow> string" where
  "ep_chat_deleteConversation conversationId = API_V1 @ ''/chat/conversations/'' @ conversationId"

definition ep_logs_analyze :: "string" where
  "ep_logs_analyze = API_V1 @ ''/logs/analyze''"

definition ep_logs_analyzeUpload :: "string" where
  "ep_logs_analyzeUpload = API_V1 @ ''/logs/analyze/upload''"

definition ep_logs_analyzeAsync :: "string" where
  "ep_logs_analyzeAsync = API_V1 @ ''/logs/analyze/async''"

definition ep_generate_dockerfile :: "string" where
  "ep_generate_dockerfile = API_V1 @ ''/generate/dockerfile''"

definition ep_generate_kubernetes :: "string" where
  "ep_generate_kubernetes = API_V1 @ ''/generate/kubernetes''"

definition ep_generate_pipeline :: "string" where
  "ep_generate_pipeline = API_V1 @ ''/generate/pipeline''"

definition ep_generate_command :: "string" where
  "ep_generate_command = API_V1 @ ''/generate/command''"

definition ep_review :: "string" where
  "ep_review = API_V1 @ ''/review''"

definition ep_artifacts_list :: "string" where
  "ep_artifacts_list = API_V1 @ ''/artifacts''"

definition ep_artifacts_detail :: "string \<Rightarrow> string" where
  "ep_artifacts_detail artifactId = API_V1 @ ''/artifacts/'' @ artifactId"

definition ep_artifacts_versions :: "string \<Rightarrow> string" where
  "ep_artifacts_versions artifactId = API_V1 @ ''/artifacts/'' @ artifactId @ ''/versions''"

definition ep_artifacts_version :: "string \<Rightarrow> string \<Rightarrow> string" where
  "ep_artifacts_version artifactId versionNumber = API_V1 @ ''/artifacts/'' @ artifactId @ ''/versions/'' @ versionNumber"

definition ep_artifacts_restore :: "string \<Rightarrow> string \<Rightarrow> string" where
  "ep_artifacts_restore artifactId versionNumber = API_V1 @ ''/artifacts/'' @ artifactId @ ''/versions/'' @ versionNumber @ ''/restore''"

definition ep_artifacts_diff :: "string \<Rightarrow> string" where
  "ep_artifacts_diff artifactId = API_V1 @ ''/artifacts/'' @ artifactId @ ''/diff''"

definition ep_artifacts_tagsList :: "string" where
  "ep_artifacts_tagsList = API_V1 @ ''/artifacts/tags/list''"

definition ep_artifacts_tags :: "string" where
  "ep_artifacts_tags = API_V1 @ ''/artifacts/tags''"

definition ep_artifacts_artifactTags :: "string \<Rightarrow> string" where
  "ep_artifacts_artifactTags artifactId = API_V1 @ ''/artifacts/'' @ artifactId @ ''/tags''"

definition ep_artifacts_artifactTag :: "string \<Rightarrow> string \<Rightarrow> string" where
  "ep_artifacts_artifactTag artifactId tagId = API_V1 @ ''/artifacts/'' @ artifactId @ ''/tags/'' @ tagId"

definition ep_artifacts_favorite :: "string \<Rightarrow> string" where
  "ep_artifacts_favorite artifactId = API_V1 @ ''/artifacts/'' @ artifactId @ ''/favorite''"

definition ep_artifacts_archive :: "string \<Rightarrow> string" where
  "ep_artifacts_archive artifactId = API_V1 @ ''/artifacts/'' @ artifactId @ ''/archive''"

definition ep_artifacts_unarchive :: "string \<Rightarrow> string" where
  "ep_artifacts_unarchive artifactId = API_V1 @ ''/artifacts/'' @ artifactId @ ''/unarchive''"

definition ep_organizations_list :: "string" where
  "ep_organizations_list = API_V1 @ ''/organizations''"

definition ep_organizations_detail :: "string \<Rightarrow> string" where
  "ep_organizations_detail organizationId = API_V1 @ ''/organizations/'' @ organizationId"

definition ep_organizations_members :: "string \<Rightarrow> string" where
  "ep_organizations_members organizationId = API_V1 @ ''/organizations/'' @ organizationId @ ''/members''"

definition ep_organizations_member :: "string \<Rightarrow> string \<Rightarrow> string" where
  "ep_organizations_member organizationId userId = API_V1 @ ''/organizations/'' @ organizationId @ ''/members/'' @ userId"

definition ep_organizations_invitations :: "string \<Rightarrow> string" where
  "ep_organizations_invitations organizationId = API_V1 @ ''/organizations/'' @ organizationId @ ''/invitations''"

definition ep_organizations_invitation :: "string \<Rightarrow> string \<Rightarrow> string" where
  "ep_organizations_invitation organizationId invitationId = API_V1 @ ''/organizations/'' @ organizationId @ ''/invitations/'' @ invitationId"

definition ep_organizations_resendInvitation :: "string \<Rightarrow> string \<Rightarrow> string" where
  "ep_organizations_resendInvitation organizationId invitationId = API_V1 @ ''/organizations/'' @ organizationId @ ''/invitations/'' @ invitationId @ ''/resend''"

definition ep_organizations_usage :: "string \<Rightarrow> string" where
  "ep_organizations_usage organizationId = API_V1 @ ''/organizations/'' @ organizationId @ ''/usage''"

definition ep_organizations_quotas :: "string \<Rightarrow> string" where
  "ep_organizations_quotas organizationId = API_V1 @ ''/organizations/'' @ organizationId @ ''/quotas''"

definition ep_organizations_providers_configs :: "string \<Rightarrow> string" where
  "ep_organizations_providers_configs organizationId = API_V1 @ ''/organizations/'' @ organizationId @ ''/providers/configs''"

definition ep_organizations_providers_config :: "string \<Rightarrow> string \<Rightarrow> string" where
  "ep_organizations_providers_config organizationId providerName = API_V1 @ ''/organizations/'' @ organizationId @ ''/providers/configs/'' @ providerName"

definition ep_organizations_providers_routing :: "string \<Rightarrow> string" where
  "ep_organizations_providers_routing organizationId = API_V1 @ ''/organizations/'' @ organizationId @ ''/providers/routing''"

definition ep_organizations_providers_routingOperation :: "string \<Rightarrow> string \<Rightarrow> string" where
  "ep_organizations_providers_routingOperation organizationId operation = API_V1 @ ''/organizations/'' @ organizationId @ ''/providers/routing/'' @ operation"

definition ep_policies_packs :: "string \<Rightarrow> string" where
  "ep_policies_packs organizationId = API_V1 @ ''/organizations/'' @ organizationId @ ''/policy-packs''"

definition ep_policies_pack :: "string \<Rightarrow> string \<Rightarrow> string" where
  "ep_policies_pack organizationId policyPackId = API_V1 @ ''/organizations/'' @ organizationId @ ''/policy-packs/'' @ policyPackId"

definition ep_policies_rules :: "string \<Rightarrow> string \<Rightarrow> string" where
  "ep_policies_rules organizationId policyPackId = API_V1 @ ''/organizations/'' @ organizationId @ ''/policy-packs/'' @ policyPackId @ ''/rules''"

definition ep_policies_rule :: "string \<Rightarrow> string \<Rightarrow> string \<Rightarrow> string" where
  "ep_policies_rule organizationId policyPackId ruleId = API_V1 @ ''/organizations/'' @ organizationId @ ''/policy-packs/'' @ policyPackId @ ''/rules/'' @ ruleId"

definition ep_audit_events :: "string \<Rightarrow> string" where
  "ep_audit_events organizationId = API_V1 @ ''/organizations/'' @ organizationId @ ''/audit-events''"

definition ep_tasks_list :: "string" where
  "ep_tasks_list = API_V1 @ ''/tasks''"

definition ep_tasks_detail :: "string \<Rightarrow> string" where
  "ep_tasks_detail taskId = API_V1 @ ''/tasks/'' @ taskId"

definition ep_tasks_cancel :: "string \<Rightarrow> string" where
  "ep_tasks_cancel taskId = API_V1 @ ''/tasks/'' @ taskId @ ''/cancel''"

definition ep_health :: "string" where
  "ep_health = ''/health''"

definition ep_ready :: "string" where
  "ep_ready = ''/ready''"

lemmas endpoint_defs = API_V1_def
  ep_auth_register_def ep_auth_login_def ep_auth_refresh_def
  ep_auth_logout_def ep_auth_logoutAll_def ep_auth_forgotPassword_def
  ep_auth_resetPassword_def ep_auth_changePassword_def ep_auth_sendVerification_def
  ep_auth_verifyEmail_def ep_auth_sessions_def ep_auth_session_def
  ep_invitations_accept_def ep_invitations_decline_def ep_users_me_def
  ep_users_meOnboarding_def ep_users_emailChangeRequest_def ep_users_emailChangeConfirm_def
  ep_dashboard_summary_def ep_dashboard_activity_def ep_dashboard_findings_def
  ep_dashboard_tasks_def ep_usage_me_def ep_admin_providers_configs_def
  ep_admin_providers_config_def ep_admin_providers_routing_def ep_admin_providers_routingOperation_def
  ep_admin_providers_health_def ep_chat_chat_def ep_chat_stream_def
  ep_chat_conversations_def ep_chat_conversation_def ep_chat_deleteConversation_def
  ep_logs_analyze_def ep_logs_analyzeUpload_def ep_logs_analyzeAsync_def
  ep_generate_dockerfile_def ep_generate_kubernetes_def ep_generate_pipeline_def
  ep_generate_command_def ep_review_def ep_artifacts_list_def
  ep_artifacts_detail_def ep_artifacts_versions_def ep_artifacts_version_def
  ep_artifacts_restore_def ep_artifacts_diff_def ep_artifacts_tagsList_def
  ep_artifacts_tags_def ep_artifacts_artifactTags_def ep_artifacts_artifactTag_def
  ep_artifacts_favorite_def ep_artifacts_archive_def ep_artifacts_unarchive_def
  ep_organizations_list_def ep_organizations_detail_def ep_organizations_members_def
  ep_organizations_member_def ep_organizations_invitations_def ep_organizations_invitation_def
  ep_organizations_resendInvitation_def ep_organizations_usage_def ep_organizations_quotas_def
  ep_organizations_providers_configs_def ep_organizations_providers_config_def ep_organizations_providers_routing_def
  ep_organizations_providers_routingOperation_def ep_policies_packs_def ep_policies_pack_def
  ep_policies_rules_def ep_policies_rule_def ep_audit_events_def
  ep_tasks_list_def ep_tasks_detail_def ep_tasks_cancel_def
  ep_health_def ep_ready_def

end
