(* ===== verification/Auth_Upstream.thy ===== *)
theory Auth_Upstream
  imports Auth_Cookies Endpoints
begin

text \<open>
  lib/auth/upstream.ts and lib/auth/session.ts: the server-side calls to the backend's
  authentication routes, with the single refresh of an expired access token.  A handler
  either answers with a \<open>reply\<close> or throws, which the framework turns into a 500.
\<close>

section \<open>Replies\<close>

datatype reply_body = JsonReply json | BytesReply string | StreamReply "js_exn + string"

record reply =
  rp_status :: nat
  rp_statusText :: "string option"
  rp_headers :: headers
  rp_body :: reply_body

type_synonym handler_result = "js_exn + reply"

definition json_reply :: "nat \<Rightarrow> headers \<Rightarrow> json \<Rightarrow> reply" where
  "json_reply status h v = \<lparr>rp_status = status, rp_statusText = None, rp_headers = h, rp_body = JsonReply v\<rparr>"

text \<open>The envelope of an error that a handler makes itself.\<close>

definition error_envelope :: "string \<Rightarrow> string \<Rightarrow> json" where
  "error_envelope code message =
     JObj [(''success'', JBool False),
           (''error'', JObj [(''code'', JStr code), (''message'', JStr message)])]"

definition session_expired :: reply where
  "session_expired = json_reply 401 [] (error_envelope ''UNAUTHORIZED'' ''Session expired'')"

text \<open>\<open>errorJsonResponse\<close>: an absent \<open>details\<close> is omitted by the serialisation.\<close>

definition errorJsonResponse :: "nat \<Rightarrow> json \<Rightarrow> headers option \<Rightarrow> reply" where
  "errorJsonResponse status v h =
     (let error = parseErrorResponse status v h
      in json_reply status
           (case ae_requestId error of Some i \<Rightarrow> [(''x-request-id'', i)] | None \<Rightarrow> [])
           (JObj [(''success'', JBool False),
                  (''error'', JObj ([(''code'', JStr (ae_code error)), (''message'', JStr (ae_message error))]
                     @ (case ae_details error of Some d \<Rightarrow> [(''details'', d)] | None \<Rightarrow> [])))]))"

section \<open>Refreshing\<close>

definition server_base :: "env \<Rightarrow> string" where
  "server_base env = strip_trailing_slash (getApiBaseUrl True env)"

definition json_headers :: headers where
  "json_headers = [(''Content-Type'', ''application/json''), (''Accept'', ''application/json'')]"

definition json_post :: "string \<Rightarrow> json \<Rightarrow> http_request" where
  "json_post url v = \<lparr>rq_url = url, rq_method = ''POST'', rq_headers = json_headers,
     rq_body = TextBody (json_stringify v)\<rparr>"

definition refresh_request :: "string \<Rightarrow> string \<Rightarrow> http_request" where
  "refresh_request base token =
     json_post (base @ ep_auth_refresh) (JObj [(''refresh_token'', JStr token)])"

text \<open>What the body of \<open>tryRefreshTokens\<close> makes of the answer to the refresh request.\<close>

definition refreshed_pair :: "js_exn + http_response \<Rightarrow> auth_tokens option" where
  "refreshed_pair answer =
     (case answer of Inl _ \<Rightarrow> None
      | Inr r \<Rightarrow>
         if \<not> response_ok r then None
         else (case response_json r of Inl _ \<Rightarrow> None | Inr v \<Rightarrow> read_token_pair v))"

definition upstream_tryRefreshTokens ::
  "'j jar_ops \<Rightarrow> env \<Rightarrow> network \<Rightarrow> 'j server \<Rightarrow> string option \<times> 'j server" where
  "upstream_tryRefreshTokens ops env net w =
     (case getRefreshToken ops w of None \<Rightarrow> (None, w)
      | Some token \<Rightarrow>
         if token = [] then (None, w)
         else (case fetch net (refresh_request (server_base env) token) w of
                 (answer, w') \<Rightarrow>
                   (case refreshed_pair answer of
                      None \<Rightarrow> (None, clearAuthCookies ops env w')
                    | Some pair \<Rightarrow> (Some (at_access pair), setAuthCookies ops env pair w'))))"

section \<open>\<open>proxyPublicAuthPost\<close>\<close>

definition pass_json :: "js_exn + http_response \<Rightarrow> handler_result" where
  "pass_json answer =
     (case answer of Inl e \<Rightarrow> Inl e
      | Inr r \<Rightarrow>
         (case parseJsonSafe r of Inl e \<Rightarrow> Inl e
          | Inr v \<Rightarrow>
             if \<not> response_ok r then Inr (errorJsonResponse (rs_status r) v (Some (rs_headers r)))
             else Inr (json_reply 200 [] v)))"

definition proxyPublicAuthPost ::
  "env \<Rightarrow> network \<Rightarrow> string \<Rightarrow> json \<Rightarrow> 'j server \<Rightarrow> handler_result \<times> 'j server" where
  "proxyPublicAuthPost env net upstreamPath body w =
     (case fetch net (json_post (server_base env @ upstreamPath) body) w of
        (answer, w') \<Rightarrow> (pass_json answer, w'))"

section \<open>\<open>proxyAuthenticatedAuth\<close>\<close>

record auth_call =
  ac_method :: string
  ac_upstreamPath :: string
  ac_body :: "json option"
  ac_includeRefreshHeader :: bool

definition carries_body :: "auth_call \<Rightarrow> bool" where
  "carries_body c = (ac_body c \<noteq> None \<and> ac_method c \<noteq> ''GET'' \<and> ac_method c \<noteq> ''HEAD'')"

text \<open>The request of the local function \<open>send\<close>.\<close>

definition auth_request :: "env \<Rightarrow> auth_call \<Rightarrow> string option \<Rightarrow> string option \<Rightarrow> http_request" where
  "auth_request env c refreshToken token =
     (let h0 = [(''Accept'', ''application/json'')];
          h1 = (case nonempty_opt token of Some t \<Rightarrow> obj_set ''Authorization'' (''Bearer '' @ t) h0 | None \<Rightarrow> h0);
          h2 = (case nonempty_opt refreshToken of Some t \<Rightarrow> obj_set ''X-Refresh-Token'' t h1 | None \<Rightarrow> h1);
          h3 = (if carries_body c then obj_set ''Content-Type'' ''application/json'' h2 else h2)
      in \<lparr>rq_url = server_base env @ ac_upstreamPath c, rq_method = ac_method c, rq_headers = h3,
          rq_body = (if carries_body c then TextBody (json_stringify (the (ac_body c))) else NoBody)\<rparr>)"

definition proxyAuthenticatedAuth ::
  "'j jar_ops \<Rightarrow> env \<Rightarrow> network \<Rightarrow> auth_call \<Rightarrow> 'j server \<Rightarrow> handler_result \<times> 'j server" where
  "proxyAuthenticatedAuth ops env net c w =
     (let accessToken = getAccessToken ops w;
          refreshToken = (if ac_includeRefreshHeader c then getRefreshToken ops w else None)
      in case fetch net (auth_request env c refreshToken accessToken) w of
           (Inl e, w1) \<Rightarrow> (Inl e, w1)
         | (Inr upstream, w1) \<Rightarrow>
             if rs_status upstream = 401 then
               (case upstream_tryRefreshTokens ops env net w1 of
                  (None, w2) \<Rightarrow> (Inr session_expired, clearAuthCookies ops env w2)
                | (Some nextAccess, w2) \<Rightarrow>
                    (case fetch net (auth_request env c refreshToken (Some nextAccess)) w2 of
                       (answer, w3) \<Rightarrow> (pass_json answer, w3)))
             else (pass_json (Inr upstream), w1))"

section \<open>\<open>getCurrentUser\<close>\<close>

text \<open>
  lib/auth/session.ts refreshes through \<open>apiFetch\<close> with \<open>raw\<close>; any thrown error clears
  the cookies.
\<close>

definition refresh_options :: "string \<Rightarrow> request_options" where
  "refresh_options token = default_options\<lparr>ro_method := Some ''POST'',
     ro_body := Some (JObj [(''refresh_token'', JStr token)]), ro_raw := True\<rparr>"

definition refreshAccessToken ::
  "'j jar_ops \<Rightarrow> env \<Rightarrow> network \<Rightarrow> 'j server \<Rightarrow> string option \<times> 'j server" where
  "refreshAccessToken ops env net w =
     (case getRefreshToken ops w of None \<Rightarrow> (None, w)
      | Some token \<Rightarrow>
         if token = [] then (None, w)
         else (case apiFetch True env net ep_auth_refresh (refresh_options token) w of
                 (Inl _, w') \<Rightarrow> (None, clearAuthCookies ops env w')
               | (Inr v, w') \<Rightarrow>
                   (case read_token_pair v of
                      None \<Rightarrow> (None, clearAuthCookies ops env w')
                    | Some pair \<Rightarrow> (Some (at_access pair), setAuthCookies ops env pair w'))))"

definition fetch_me :: "env \<Rightarrow> network \<Rightarrow> string \<Rightarrow> 'j server \<Rightarrow> (js_exn + json) \<times> 'j server" where
  "fetch_me env net token w =
     apiFetch True env net ep_users_me (default_options\<lparr>ro_accessToken := Some token\<rparr>) w"

text \<open>The part after an access token is at hand.\<close>

definition load_user ::
  "'j jar_ops \<Rightarrow> env \<Rightarrow> network \<Rightarrow> string \<Rightarrow> 'j server \<Rightarrow> json option \<times> 'j server" where
  "load_user ops env net accessToken w =
     (case fetch_me env net accessToken w of
        (Inr user, w1) \<Rightarrow> (Some user, w1)
      | (Inl e, w1) \<Rightarrow>
         (case e of
            ApiClientErr err \<Rightarrow>
              if ae_status err \<noteq> 401 then (None, w1)
              else (case refreshAccessToken ops env net w1 of
                      (None, w2) \<Rightarrow> (None, w2)
                    | (Some nextAccess, w2) \<Rightarrow>
                        (case fetch_me env net nextAccess w2 of
                           (Inr user, w3) \<Rightarrow> (Some user, w3)
                         | (Inl _, w3) \<Rightarrow> (None, w3)))
          | _ \<Rightarrow> (None, w1)))"

definition getCurrentUser ::
  "'j jar_ops \<Rightarrow> env \<Rightarrow> network \<Rightarrow> 'j server \<Rightarrow> json option \<times> 'j server" where
  "getCurrentUser ops env net w =
     (case nonempty_opt (getAccessToken ops w) of
        Some token \<Rightarrow> load_user ops env net token w
      | None \<Rightarrow>
         (case refreshAccessToken ops env net w of
            (None, w1) \<Rightarrow> (None, w1)
          | (Some token, w1) \<Rightarrow> load_user ops env net token w1))"

section \<open>Lemmas: what a refresh does\<close>

lemma upstream_tryRefreshTokens_cases:
  obtains (no_token) "upstream_tryRefreshTokens ops env net w = (None, w)"
      "nonempty_opt (getRefreshToken ops w) = None"
  | (failed) token where "nonempty_opt (getRefreshToken ops w) = Some token"
      "refreshed_pair (net (sent w) (refresh_request (server_base env) token)) = None"
      "upstream_tryRefreshTokens ops env net w = (None, clearAuthCookies ops env
         (w\<lparr>sent := sent w @ [refresh_request (server_base env) token]\<rparr>))"
  | (refreshed) token pair where "nonempty_opt (getRefreshToken ops w) = Some token"
      "refreshed_pair (net (sent w) (refresh_request (server_base env) token)) = Some pair"
      "upstream_tryRefreshTokens ops env net w = (Some (at_access pair), setAuthCookies ops env pair
         (w\<lparr>sent := sent w @ [refresh_request (server_base env) token]\<rparr>))"
proof (cases "nonempty_opt (getRefreshToken ops w)")
  case None
  then show ?thesis
    by (intro no_token) (auto simp: upstream_tryRefreshTokens_def nonempty_opt_def
        split: option.splits if_splits)
next
  case (Some token)
  then have t: "getRefreshToken ops w = Some token" "token \<noteq> []"
    by (auto simp: nonempty_opt_def split: option.splits if_splits)
  show ?thesis
  proof (cases "refreshed_pair (net (sent w) (refresh_request (server_base env) token))")
    case None
    with Some t show ?thesis
      by (intro failed [of token]) (simp_all add: upstream_tryRefreshTokens_def fetch_def)
  next
    case (Some pair)
    with \<open>nonempty_opt _ = Some token\<close> t show ?thesis
      by (intro refreshed [of token pair]) (simp_all add: upstream_tryRefreshTokens_def fetch_def)
  qed
qed

lemma upstream_tryRefreshTokens_sent:
  "\<exists>rs. sent (snd (upstream_tryRefreshTokens ops env net w)) = sent w @ rs \<and> length rs \<le> 1"
  by (cases rule: upstream_tryRefreshTokens_cases [of ops env net w]) auto

lemma upstream_tryRefreshTokens_Some:
  assumes "fst (upstream_tryRefreshTokens ops env net w) = Some t"
  obtains pair token where "t = at_access pair" "getRefreshToken ops w = Some token"
    "snd (upstream_tryRefreshTokens ops env net w) = setAuthCookies ops env pair
       (w\<lparr>sent := sent w @ [refresh_request (server_base env) token]\<rparr>)"
  using assms
  by (cases rule: upstream_tryRefreshTokens_cases [of ops env net w])
     (auto simp: nonempty_opt_def split: option.splits if_splits)

section \<open>A session to try the handlers on\<close>

text \<open>
  A jar with both cookies, a backend that refuses the access token \<open>old\<close> and refreshes it
  once to \<open>new\<close>, and a network that goes down after its first answer.
\<close>

definition ex_env :: env where "ex_env = (\<lambda>_. None)"

definition ex_server :: "mem_jar server" where
  "ex_server = \<lparr>sent = [], jar = [(ACCESS_COOKIE, ''old'', None), (REFRESH_COOKIE, ''r1'', None)]\<rparr>"

definition ex_response :: "nat \<Rightarrow> string \<Rightarrow> http_response" where
  "ex_response st b = \<lparr>rs_status = st, rs_statusText = [], rs_headers = [(''set-cookie'', ''s'')], rs_body = Inr b\<rparr>"

definition ex_net :: network where
  "ex_net past rq =
     (if ends_with (rq_url rq) ''/auth/refresh''
      then Inr (ex_response 200 (json_stringify (JObj [(''access_token'', JStr ''new''), (''refresh_token'', JStr ''r2'')])))
      else if headers_get (rq_headers rq) ''authorization'' = Some ''Bearer new'' then Inr (ex_response 200 ''ok'')
      else Inr (ex_response 401 []))"

definition ex_down :: network where
  "ex_down past rq = (if past = [] then Inr (ex_response 401 []) else Inl OtherThrown)"

definition ex_new_server :: "mem_jar server" where
  "ex_new_server = \<lparr>sent = [], jar = [(ACCESS_COOKIE, ''new'', None)]\<rparr>"

definition ex_pair :: auth_tokens where
  "ex_pair = \<lparr>at_access = ''new'', at_refresh = ''r2'', at_expires_in = JNum 900\<rparr>"

lemma cookie_store_mem: "cookie_store mem_ops"
  by (rule mem.cookie_store_axioms)


section \<open>How an authenticated call proceeds\<close>

definition auth_first :: "'j jar_ops \<Rightarrow> env \<Rightarrow> auth_call \<Rightarrow> 'j server \<Rightarrow> http_request" where
  "auth_first ops env c w = auth_request env c
     (if ac_includeRefreshHeader c then getRefreshToken ops w else None) (getAccessToken ops w)"

lemma proxyAuthenticatedAuth_cases:
  fixes ops env net c w
  defines "log1 \<equiv> sent w @ [auth_first ops env c w]"
  obtains (rejected) e where "net (sent w) (auth_first ops env c w) = Inl e"
      "proxyAuthenticatedAuth ops env net c w = (Inl e, w\<lparr>sent := log1\<rparr>)"
  | (answered) r where "net (sent w) (auth_first ops env c w) = Inr r" "rs_status r \<noteq> 401"
      "proxyAuthenticatedAuth ops env net c w = (pass_json (Inr r), w\<lparr>sent := log1\<rparr>)"
  | (expired) r w2 where "net (sent w) (auth_first ops env c w) = Inr r" "rs_status r = 401"
      "upstream_tryRefreshTokens ops env net (w\<lparr>sent := log1\<rparr>) = (None, w2)"
      "proxyAuthenticatedAuth ops env net c w = (Inr session_expired, clearAuthCookies ops env w2)"
  | (retried) r token pair where "net (sent w) (auth_first ops env c w) = Inr r" "rs_status r = 401"
      "nonempty_opt (getRefreshToken ops w) = Some token"
      "refreshed_pair (net log1 (refresh_request (server_base env) token)) = Some pair"
      "proxyAuthenticatedAuth ops env net c w =
        (let again = auth_request env c (if ac_includeRefreshHeader c then getRefreshToken ops w else None)
                       (Some (at_access pair))
         in (pass_json (net (log1 @ [refresh_request (server_base env) token]) again),
             setAuthCookies ops env pair (w\<lparr>sent := log1 @ [refresh_request (server_base env) token, again]\<rparr>)))"
proof -
  let ?first = "auth_first ops env c w"
  show ?thesis
  proof (cases "net (sent w) ?first")
    case (Inl e)
    then show ?thesis
      by (intro rejected) (simp_all add: proxyAuthenticatedAuth_def auth_first_def fetch_def log1_def Let_def)
  next
    case (Inr r)
    show ?thesis
    proof (cases "rs_status r = 401")
      case False
      with Inr show ?thesis
        by (intro answered) (simp_all add: proxyAuthenticatedAuth_def auth_first_def fetch_def log1_def Let_def)
    next
      case True
      have step: "proxyAuthenticatedAuth ops env net c w =
          (case upstream_tryRefreshTokens ops env net (w\<lparr>sent := log1\<rparr>) of
             (None, w2) \<Rightarrow> (Inr session_expired, clearAuthCookies ops env w2)
           | (Some nextAccess, w2) \<Rightarrow>
               (case fetch net (auth_request env c
                       (if ac_includeRefreshHeader c then getRefreshToken ops w else None) (Some nextAccess)) w2 of
                  (answer, w3) \<Rightarrow> (pass_json answer, w3)))"
        using Inr True
        by (simp add: proxyAuthenticatedAuth_def auth_first_def log1_def Let_def fetch_def)
      have upd: "(setAuthCookies ops env pair v)\<lparr>sent := l\<rparr> = setAuthCookies ops env pair (v\<lparr>sent := l\<rparr>)" for v l pair
        by (simp add: setAuthCookies_def Let_def)
      show ?thesis
      proof (cases rule: upstream_tryRefreshTokens_cases [of ops env net "w\<lparr>sent := log1\<rparr>"])
        case no_token
        with Inr True step show ?thesis by (intro expired) simp_all
      next
        case (failed token)
        with Inr True step show ?thesis by (intro expired) simp_all
      next
        case (refreshed token pair)
        with Inr True step show ?thesis
          by (intro retried [of r token pair]) (simp_all add: fetch_def upd Let_def)
      qed
    qed
  qed
qed


section \<open>Errors that travel through a handler\<close>

text \<open>The response the browser sees of a reply: the framework serialises the JSON body.\<close>

definition wire_of :: "reply \<Rightarrow> http_response" where
  "wire_of p = \<lparr>rs_status = rp_status p, rs_statusText = [], rs_headers = rp_headers p,
     rs_body = (case rp_body p of JsonReply v \<Rightarrow> Inr (json_stringify v) | BytesReply b \<Rightarrow> Inr b
       | StreamReply b \<Rightarrow> b)\<rparr>"

definition error_body :: "api_error \<Rightarrow> json" where
  "error_body e = JObj [(''success'', JBool False),
     (''error'', JObj ([(''code'', JStr (ae_code e)), (''message'', JStr (ae_message e))]
        @ (case ae_details e of Some d \<Rightarrow> [(''details'', d)] | None \<Rightarrow> [])))]"

lemma errorJsonResponse_eq:
  "errorJsonResponse st v h = json_reply st
     (case ae_requestId (parseErrorResponse st v h) of Some i \<Rightarrow> [(''x-request-id'', i)] | None \<Rightarrow> [])
     (error_body (parseErrorResponse st v h))"
  by (simp add: errorJsonResponse_def error_body_def Let_def)

lemma plain_error_body:
  "plain_json (error_body e) \<longleftrightarrow> (case ae_details e of Some d \<Rightarrow> plain_json d | None \<Rightarrow> True)"
  by (auto simp: error_body_def split: option.splits)

lemma error_body_first_props:
  "opt_prop (asRecord (Some (error_body e))) ''error'' = Some (JObj ([(''code'', JStr (ae_code e)),
     (''message'', JStr (ae_message e))] @ (case ae_details e of Some d \<Rightarrow> [(''details'', d)] | None \<Rightarrow> [])))"
  by (simp add: error_body_def)

lemma readRequestId_again:
  "readRequestId d h = i \<Longrightarrow>
   readRequestId d (Some (case i of Some x \<Rightarrow> [(''x-request-id'', x)] | None \<Rightarrow> [])) = i"
proof -
  have low: "js_lower ''X-Request-ID'' = ''x-request-id''" by code_simp
  assume "readRequestId d h = i"
  then show ?thesis
    by (auto simp: readRequestId_def opt_header_def headers_get_def low readString_Some
        split: option.splits if_splits)
qed

lemma parse_error_body:
  assumes "ae_code e \<noteq> []" "ae_message e \<noteq> []" "ae_details e \<noteq> Some JNull"
  shows "parseErrorResponse st (error_body e) h =
    \<lparr>ae_status = st, ae_code = ae_code e, ae_message = ae_message e, ae_details = ae_details e,
     ae_requestId = readRequestId (ae_details e) h, ae_retryAfter = readRetryAfterSeconds (ae_details e) h\<rparr>"
  using assms unfolding parseErrorResponse_def Let_def error_body_first_props
  by (cases "ae_details e") simp_all

text \<open>What the browser reads of an error reply, and the error it makes of it.\<close>

definition carried_error :: "nat \<Rightarrow> json \<Rightarrow> headers option \<Rightarrow> api_error" where
  "carried_error st v h = (parseErrorResponse st v h)
     \<lparr>ae_retryAfter := readRetryAfterSeconds (ae_details (parseErrorResponse st v h)) None\<rparr>"

lemma error_reply_read:
  assumes "case ae_details (parseErrorResponse st v h) of Some d \<Rightarrow> plain_json d | None \<Rightarrow> True"
  shows "parseJsonSafe (wire_of (errorJsonResponse st v h)) = Inr (error_body (parseErrorResponse st v h))"
    and "rs_status (wire_of (errorJsonResponse st v h)) = st"
    and "parseErrorResponse st (error_body (parseErrorResponse st v h))
           (Some (rs_headers (wire_of (errorJsonResponse st v h)))) = carried_error st v h"
proof -
  let ?e = "parseErrorResponse st v h"
  let ?h = "case ae_requestId ?e of Some i \<Rightarrow> [(''x-request-id'', i)] | None \<Rightarrow> []"
  have "plain_json (error_body ?e)" using assms by (simp add: plain_error_body)
  then show "parseJsonSafe (wire_of (errorJsonResponse st v h)) = Inr (error_body ?e)"
    by (simp add: parseJsonSafe_def wire_of_def errorJsonResponse_eq json_reply_def json_of_text_stringify)
  have "ae_requestId ?e = readRequestId (ae_details ?e) h"
    by (simp add: parseErrorResponse_def Let_def)
  then have id: "readRequestId (ae_details ?e) (Some ?h) = ae_requestId ?e"
    by (rule readRequestId_again [OF sym])
  have low: "js_lower ''Retry-After'' = ''retry-after''" by code_simp
  have retry: "readRetryAfterSeconds d (Some ?h) = readRetryAfterSeconds d None" for d
    by (simp add: readRetryAfterSeconds_def Let_def opt_header_def headers_get_def low split: option.split)
  have st: "ae_status ?e = st" by simp
  have hd: "rs_headers (wire_of (errorJsonResponse st v h)) = ?h"
    by (simp add: wire_of_def errorJsonResponse_eq json_reply_def)
  show "rs_status (wire_of (errorJsonResponse st v h)) = st"
    by (simp add: wire_of_def errorJsonResponse_eq json_reply_def)
  have parse: "parseErrorResponse st (error_body ?e) (Some ?h) =
      ?e\<lparr>ae_retryAfter := readRetryAfterSeconds (ae_details ?e) None\<rparr>"
    unfolding parse_error_body [OF parseErrorResponse_nonempty parseErrorResponse_details_not_null]
      id retry using st by (simp add: parseErrorResponse_def Let_def)
  show "parseErrorResponse st (error_body ?e)
      (Some (rs_headers (wire_of (errorJsonResponse st v h)))) = carried_error st v h"
    by (simp add: hd parse carried_error_def)
qed


section \<open>Properties of the authenticated calls\<close>

lemma carries_headers_refresh:
  "map_of (rq_headers (auth_request env c rt t)) ''X-Refresh-Token'' = nonempty_opt rt"
  by (auto simp: auth_request_def Let_def map_of_obj_set split: option.splits)

text \<open>An authenticated call sends its request; after it nothing, or one refresh with the
  refresh token of the jar, or that refresh and one retry of the same call with a new access
  token: whatever the backend answers, three requests at most.\<close>

theorem authenticated_call_log:
  "\<exists>rest. sent (snd (proxyAuthenticatedAuth ops env net c w)) = sent w @ auth_first ops env c w # rest
     \<and> (rest = [] \<or> (\<exists>old. nonempty_opt (getRefreshToken ops w) = Some old \<and>
          (rest = [refresh_request (server_base env) old] \<or>
           (\<exists>a. rest = [refresh_request (server_base env) old,
              auth_request env c (if ac_includeRefreshHeader c then getRefreshToken ops w else None) (Some a)]))))"
proof (cases rule: proxyAuthenticatedAuth_cases [where net = net and ops = ops and env = env and c = c and w = w])
  case (expired r w2)
  then show ?thesis
    by (cases rule: upstream_tryRefreshTokens_cases
        [of ops env net "w\<lparr>sent := sent w @ [auth_first ops env c w]\<rparr>"]) auto
qed (auto simp: Let_def)

text \<open>C15: the refresh-token header of the retry is the one read before the refresh.  After a
  successful rotation the jar holds the new pair, but the retried call still presents the
  token that was just rotated out.\<close>

theorem retry_presents_rotated_out_token:
  assumes "cookie_store ops" and "ac_includeRefreshHeader c"
    and "net (sent w) (auth_first ops env c w) = Inr r" and "rs_status r = 401"
    and "nonempty_opt (getRefreshToken ops w) = Some old"
    and "refreshed_pair (net (sent w @ [auth_first ops env c w])
           (refresh_request (server_base env) old)) = Some pair"
  shows "map_of (rq_headers (last (sent (snd (proxyAuthenticatedAuth ops env net c w))))) ''X-Refresh-Token''
       = Some old
     \<and> getRefreshToken ops (snd (proxyAuthenticatedAuth ops env net c w)) = Some (at_refresh pair)"
proof (cases rule: proxyAuthenticatedAuth_cases [where net = net and ops = ops and env = env and c = c and w = w])
  case (expired r w2)
  from assms(5,6) expired(3) show ?thesis
    by (cases rule: upstream_tryRefreshTokens_cases
        [of ops env net "w\<lparr>sent := sent w @ [auth_first ops env c w]\<rparr>"]) auto
qed (use assms in \<open>auto simp: Let_def carries_headers_refresh
      cookie_store.get_after_setAuthCookies [OF assms(1)]\<close>)

lemma retry_presents_rotated_out_token_witness:
  "let c = \<lparr>ac_method = ''POST'', ac_upstreamPath = ep_auth_changePassword, ac_body = None,
             ac_includeRefreshHeader = True\<rparr>
   in map_of (rq_headers (last (sent (snd (proxyAuthenticatedAuth mem_ops ex_env ex_net c ex_server)))))
        ''X-Refresh-Token'' = Some ''r1''
     \<and> getRefreshToken mem_ops (snd (proxyAuthenticatedAuth mem_ops ex_env ex_net c ex_server)) = Some ''r2''"
proof -
  let ?c = "\<lparr>ac_method = ''POST'', ac_upstreamPath = ep_auth_changePassword, ac_body = None,
             ac_includeRefreshHeader = True\<rparr>"
  have "ex_net (sent ex_server) (auth_first mem_ops ex_env ?c ex_server) = Inr (ex_response 401 [])"
    "nonempty_opt (getRefreshToken mem_ops ex_server) = Some ''r1''"
    "refreshed_pair (ex_net (sent ex_server @ [auth_first mem_ops ex_env ?c ex_server])
           (refresh_request (server_base ex_env) ''r1'')) = Some ex_pair"
    "at_refresh ex_pair = ''r2''" "rs_status (ex_response 401 []) = 401"
    by code_simp+
  with retry_presents_rotated_out_token [OF cookie_store_mem, of ?c ex_net ex_server ex_env
      "ex_response 401 []" "''r1''" ex_pair]
  show ?thesis by simp
qed

section \<open>The current user\<close>

lemma refreshAccessToken_sent:
  "\<exists>rs. sent (snd (refreshAccessToken ops env net w)) = sent w @ rs \<and> length rs \<le> 1"
proof (cases "nonempty_opt (getRefreshToken ops w)")
  case None
  then show ?thesis by (auto simp: refreshAccessToken_def nonempty_opt_def split: option.splits if_splits)
next
  case (Some token)
  obtain a w' where f: "apiFetch True env net ep_auth_refresh (refresh_options token) w = (a, w')"
    by fastforce
  with apiFetch_sends_one [of True env net ep_auth_refresh "refresh_options token" w]
  have "sent w' = sent w @ [apiFetch_request True env ep_auth_refresh (refresh_options token)]" by simp
  moreover have "sent (snd (refreshAccessToken ops env net w)) = sent w'"
    using Some f
    by (auto simp: refreshAccessToken_def nonempty_opt_def split: option.splits if_splits sum.splits)
  ultimately show ?thesis by simp
qed

lemma fetch_me_sent: "\<exists>rs. sent (snd (fetch_me env net t w)) = sent w @ rs \<and> length rs = 1"
  by (simp add: fetch_me_def apiFetch_sends_one)

lemma load_user_sent:
  "\<exists>rs. sent (snd (load_user ops env net t w)) = sent w @ rs \<and> length rs \<le> 3"
proof -
  obtain a w1 where m: "fetch_me env net t w = (a, w1)" by fastforce
  obtain b w2 where r: "refreshAccessToken ops env net w1 = (b, w2)" by fastforce
  obtain u w3 where m2: "fetch_me env net (the b) w2 = (u, w3)" by fastforce
  obtain r1 r2 r3 where
    "sent w1 = sent w @ r1" "length r1 = 1" "sent w2 = sent w1 @ r2" "length r2 \<le> 1"
    "sent w3 = sent w2 @ r3" "length r3 = 1"
    using fetch_me_sent [of env net t w] refreshAccessToken_sent [of ops env net w1]
      fetch_me_sent [of env net "the b" w2] m r m2 by auto
  then show ?thesis using m r m2
    by (auto simp: load_user_def split: sum.splits js_exn.splits option.splits)
qed


text \<open>Loading the current user sends at most four requests, three when the jar holds an
  access token, whatever the backend answers.\<close>

theorem current_user_log:
  "\<exists>rest. sent (snd (getCurrentUser ops env net w)) = sent w @ rest \<and>
     length rest \<le> (if nonempty_opt (getAccessToken ops w) = None then 4 else 3)"
proof (cases "nonempty_opt (getAccessToken ops w)")
  case None
  obtain t w1 where r: "refreshAccessToken ops env net w = (t, w1)" by fastforce
  obtain r1 r2 where "sent w1 = sent w @ r1" "length r1 \<le> 1"
    "sent (snd (load_user ops env net (the t) w1)) = sent w1 @ r2" "length r2 \<le> 3"
    using refreshAccessToken_sent [of ops env net w] r load_user_sent [of ops env net "the t" w1] by auto
  then show ?thesis using None r by (auto simp: getCurrentUser_def split: option.splits)
next
  case (Some t)
  with load_user_sent [of ops env net t w] show ?thesis by (simp add: getCurrentUser_def)
qed

text \<open>A backend that grants every refresh and refuses every access token: without an access
  cookie the helper refreshes twice in one call.\<close>

definition ex_stubborn :: network where
  "ex_stubborn past rq =
     (if ends_with (rq_url rq) ''/auth/refresh''
      then Inr (ex_response 200 (json_stringify (JObj [(''access_token'', JStr ''new''), (''refresh_token'', JStr ''r2'')])))
      else Inr (ex_response 401 []))"

lemma current_user_refreshes_twice:
  "map rq_url (sent (snd (getCurrentUser mem_ops ex_env ex_stubborn
     \<lparr>sent = [], jar = [(REFRESH_COOKIE, ''r1'', None)]\<rparr>))) =
   map (\<lambda>p. server_base ex_env @ p) [ep_auth_refresh, ep_users_me, ep_auth_refresh, ep_users_me]"
  by code_simp

end
