(* ===== verification/Bff_Proxy.thy ===== *)
theory Bff_Proxy
  imports Auth_Upstream
begin

text \<open>
  app/api/bff/[...path]/route.ts: the backend-for-frontend.  Every request of the browser
  is forwarded to the backend with the access token of the cookie; a 401 is answered by one
  refresh and one retry.  The state is the jar and the log of the requests sent upstream.
\<close>

section \<open>Constants and helpers\<close>

definition RETRY_HEADER :: string where "RETRY_HEADER = ''x-bff-retry''"

definition FORWARD_REQUEST_HEADERS :: "string list" where
  "FORWARD_REQUEST_HEADERS = [''content-type'', ''accept'', ''idempotency-key'', ''x-request-id'']"

definition FORWARD_RESPONSE_HEADERS :: "string list" where
  "FORWARD_RESPONSE_HEADERS =
     [''content-type'', ''cache-control'', ''connection'', ''x-request-id'', ''retry-after'']"

definition getBackendBaseUrl :: "env \<Rightarrow> string" where
  "getBackendBaseUrl env = strip_trailing_slash
     (or_else_str (env ''INTERNAL_API_BASE_URL'')
        (or_else_str (env ''NEXT_PUBLIC_API_BASE_URL'') ''http://localhost:8000''))"

definition buildBackendUrl :: "env \<Rightarrow> string list \<Rightarrow> string \<Rightarrow> string" where
  "buildBackendUrl env pathSegments search =
     getBackendBaseUrl env @ ''/'' @ js_join ''/'' pathSegments @ search"

text \<open>The incoming request; header names in lower case, the body already received.\<close>

record next_request =
  nr_method :: string
  nr_headers :: headers
  nr_search :: string
  nr_body :: string

text \<open>\<open>request.method.toUpperCase()\<close>; methods are ASCII tokens.\<close>

definition upper_method :: "next_request \<Rightarrow> string" where
  "upper_method rq = map char_upper (nr_method rq)"

definition isSseRequest :: "next_request \<Rightarrow> string list \<Rightarrow> bool" where
  "isSseRequest rq pathSegments =
     (let accept = (case headers_get (nr_headers rq) ''accept'' of Some a \<Rightarrow> a | None \<Rightarrow> [])
      in if str_includes accept ''text/event-stream'' then True
         else str_includes (js_join ''/'' pathSegments) ''chat/stream'')"

fun pick_headers :: "headers \<Rightarrow> string list \<Rightarrow> headers \<Rightarrow> headers" where
  "pick_headers source [] acc = acc"
| "pick_headers source (n # ns) acc =
     (case nonempty_opt (headers_get source n) of
        Some v \<Rightarrow> pick_headers source ns (headers_set n v acc)
      | None \<Rightarrow> pick_headers source ns acc)"

definition pickForwardHeaders :: "headers \<Rightarrow> string list \<Rightarrow> headers" where
  "pickForwardHeaders source names = pick_headers source names []"

definition responseHeadersFromUpstream :: "http_response \<Rightarrow> headers" where
  "responseHeadersFromUpstream r = pickForwardHeaders (rs_headers r) FORWARD_RESPONSE_HEADERS"

section \<open>Refresh\<close>

definition tryRefreshTokens ::
  "'j jar_ops \<Rightarrow> env \<Rightarrow> network \<Rightarrow> 'j server \<Rightarrow> string option \<times> 'j server" where
  "tryRefreshTokens ops env net w =
     (case getRefreshToken ops w of None \<Rightarrow> (None, w)
      | Some token \<Rightarrow>
         if token = [] then (None, w)
         else (case fetch net (json_post (getBackendBaseUrl env @ ''/api/v1/auth/refresh'')
                                 (JObj [(''refresh_token'', JStr token)])) w of
                 (answer, w') \<Rightarrow>
                   (case refreshed_pair answer of
                      None \<Rightarrow> (None, clearAuthCookies ops env w')
                    | Some pair \<Rightarrow> (Some (at_access pair), setAuthCookies ops env pair w'))))"

section \<open>Forwarding\<close>

definition proxy_request ::
  "env \<Rightarrow> next_request \<Rightarrow> string list \<Rightarrow> string option \<Rightarrow> string option \<Rightarrow> bool \<Rightarrow> http_request" where
  "proxy_request env rq pathSegments accessToken body isRetry =
     (let h0 = pickForwardHeaders (nr_headers rq) FORWARD_REQUEST_HEADERS;
          h1 = (case nonempty_opt accessToken of
                  Some t \<Rightarrow> headers_set ''Authorization'' (''Bearer '' @ t) h0 | None \<Rightarrow> h0);
          h2 = (if isRetry then headers_set RETRY_HEADER ''1'' h1 else h1);
          method = upper_method rq
      in \<lparr>rq_url = buildBackendUrl env pathSegments (nr_search rq), rq_method = method,
          rq_headers = h2,
          rq_body = (if method \<noteq> ''GET'' \<and> method \<noteq> ''HEAD'' then
                       (case nonempty_opt body of Some b \<Rightarrow> TextBody b | None \<Rightarrow> NoBody)
                     else NoBody)\<rparr>)"

definition proxyToBackend ::
  "env \<Rightarrow> network \<Rightarrow> next_request \<Rightarrow> string list \<Rightarrow> string option \<Rightarrow> string option \<Rightarrow> bool \<Rightarrow>
   'j server \<Rightarrow> (js_exn + http_response) \<times> 'j server" where
  "proxyToBackend env net rq pathSegments accessToken body isRetry w =
     fetch net (proxy_request env rq pathSegments accessToken body isRetry) w"

text \<open>
  The last part of \<open>handle\<close>: an event stream is passed on unread.  The constructor of a
  response throws when a body, even an empty one, meets a status that allows none; the
  body of such an answer of the backend is \<open>null\<close> when it is passed on as a stream.
\<close>

definition null_body_status :: "nat \<Rightarrow> bool" where
  "null_body_status st = (st \<in> {101, 103, 204, 205, 304})"

definition respond :: "bool \<Rightarrow> http_response \<Rightarrow> handler_result" where
  "respond sse upstream =
     (if sse then
        Inr \<lparr>rp_status = rs_status upstream, rp_statusText = Some (rs_statusText upstream),
             rp_headers = responseHeadersFromUpstream upstream,
             rp_body = StreamReply (rs_body upstream)\<rparr>
      else case rs_body upstream of Inl e \<Rightarrow> Inl e
        | Inr b \<Rightarrow>
           if null_body_status (rs_status upstream) then Inl (ErrorExn ''TypeError'')
           else Inr \<lparr>rp_status = rs_status upstream, rp_statusText = Some (rs_statusText upstream),
                     rp_headers = responseHeadersFromUpstream upstream, rp_body = BytesReply b\<rparr>)"

text \<open>The body is read once, before the first attempt.\<close>

definition buffered_body :: "next_request \<Rightarrow> string option" where
  "buffered_body rq =
     (if upper_method rq \<noteq> ''GET'' \<and> upper_method rq \<noteq> ''HEAD'' then Some (nr_body rq) else None)"

definition handle ::
  "'j jar_ops \<Rightarrow> env \<Rightarrow> network \<Rightarrow> next_request \<Rightarrow> string list \<Rightarrow> 'j server \<Rightarrow>
   handler_result \<times> 'j server" where
  "handle ops env net rq pathSegments w =
     (let alreadyRetried = (headers_get (nr_headers rq) RETRY_HEADER = Some ''1'');
          sse = isSseRequest rq pathSegments;
          requestBody = buffered_body rq
      in case proxyToBackend env net rq pathSegments (getAccessToken ops w) requestBody alreadyRetried w of
           (Inl e, w1) \<Rightarrow> (Inl e, w1)
         | (Inr upstream, w1) \<Rightarrow>
             if rs_status upstream = 401 \<and> \<not> alreadyRetried then
               (case tryRefreshTokens ops env net w1 of
                  (None, w2) \<Rightarrow> (Inr session_expired, clearAuthCookies ops env w2)
                | (Some nextAccess, w2) \<Rightarrow>
                    (case proxyToBackend env net rq pathSegments (Some nextAccess) requestBody True w2 of
                       (Inl e, w3) \<Rightarrow> (Inl e, w3)
                     | (Inr again, w3) \<Rightarrow> (respond sse again, w3)))
             else (respond sse upstream, w1))"

section \<open>Lemmas\<close>

lemma getBackendBaseUrl_eq: "getBackendBaseUrl env = server_base env"
  by (simp add: getBackendBaseUrl_def server_base_def getApiBaseUrl_def)

lemma refresh_request_bff:
  "json_post (getBackendBaseUrl env @ ''/api/v1/auth/refresh'') (JObj [(''refresh_token'', JStr token)])
   = refresh_request (server_base env) token"
  by (simp add: refresh_request_def getBackendBaseUrl_eq ep_auth_refresh_def API_V1_def)

lemma tryRefreshTokens_eq: "tryRefreshTokens = upstream_tryRefreshTokens"
  unfolding tryRefreshTokens_def [abs_def] upstream_tryRefreshTokens_def [abs_def]
    refresh_request_bff ..

lemma pick_headers_names:
  "fst ` set (pick_headers src ns acc) \<subseteq> fst ` set acc \<union> js_lower ` set ns"
proof (induction ns arbitrary: acc)
  case (Cons n ns)
  have "fst ` set (headers_set n v acc) = insert (js_lower n) (fst ` set acc)" for v
    by (simp add: headers_set_def fst_obj_set)
  then show ?case using Cons.IH [of acc] Cons.IH [of "headers_set n v acc" for v]
    by (cases "nonempty_opt (headers_get src n)") auto
qed simp

lemma js_lower_forward:
  "js_lower ` set FORWARD_REQUEST_HEADERS = set FORWARD_REQUEST_HEADERS"
  "js_lower ` set FORWARD_RESPONSE_HEADERS = set FORWARD_RESPONSE_HEADERS"
  by code_simp+

lemma forwarded_response_headers:
  "fst ` set (responseHeadersFromUpstream r) \<subseteq> set FORWARD_RESPONSE_HEADERS"
  using pick_headers_names [of "rs_headers r" FORWARD_RESPONSE_HEADERS "[]"]
  by (simp add: responseHeadersFromUpstream_def pickForwardHeaders_def js_lower_forward)

lemma js_lower_consts [simp]:
  "js_lower ''Authorization'' = ''authorization''" "js_lower RETRY_HEADER = ''x-bff-retry''"
  by code_simp+

lemma proxy_request_headers:
  "fst ` set (rq_headers (proxy_request env rq segs tok body retry))
   \<subseteq> {''authorization'', ''x-bff-retry''} \<union> set FORWARD_REQUEST_HEADERS"
  using pick_headers_names [of "nr_headers rq" FORWARD_REQUEST_HEADERS "[]"]
  by (auto simp: proxy_request_def Let_def headers_set_def fst_obj_set pickForwardHeaders_def
      js_lower_forward split: option.splits)


section \<open>The three ways a request is handled\<close>

definition bff_first :: "'j jar_ops \<Rightarrow> env \<Rightarrow> next_request \<Rightarrow> string list \<Rightarrow> 'j server \<Rightarrow> http_request" where
  "bff_first ops env rq segs w =
     proxy_request env rq segs (getAccessToken ops w)
       (buffered_body rq)
       (headers_get (nr_headers rq) RETRY_HEADER = Some ''1'')"

definition bff_retry :: "env \<Rightarrow> next_request \<Rightarrow> string list \<Rightarrow> string \<Rightarrow> http_request" where
  "bff_retry env rq segs token =
     proxy_request env rq segs (Some token) (buffered_body rq) True"

definition bff_refreshes :: "network \<Rightarrow> 'j jar_ops \<Rightarrow> env \<Rightarrow> next_request \<Rightarrow> string list \<Rightarrow> 'j server \<Rightarrow> bool" where
  "bff_refreshes net ops env rq segs w =
     (case net (sent w) (bff_first ops env rq segs w) of Inl _ \<Rightarrow> False
      | Inr r \<Rightarrow> rs_status r = 401 \<and> headers_get (nr_headers rq) RETRY_HEADER \<noteq> Some ''1'')"

definition answer_of :: "bool \<Rightarrow> js_exn + http_response \<Rightarrow> handler_result" where
  "answer_of sse a = (case a of Inl e \<Rightarrow> Inl e | Inr r \<Rightarrow> respond sse r)"

lemma handle_plain:
  assumes "\<not> bff_refreshes net ops env rq segs w"
  shows "handle ops env net rq segs w =
    (answer_of (isSseRequest rq segs) (net (sent w) (bff_first ops env rq segs w)),
     w\<lparr>sent := sent w @ [bff_first ops env rq segs w]\<rparr>)"
  using assms
  by (auto simp: handle_def Let_def proxyToBackend_def fetch_def bff_refreshes_def bff_first_def
      answer_of_def split: sum.splits)

lemma handle_refreshes:
  assumes "bff_refreshes net ops env rq segs w"
    and "upstream_tryRefreshTokens ops env net (w\<lparr>sent := sent w @ [bff_first ops env rq segs w]\<rparr>) = (t, w2)"
  shows "handle ops env net rq segs w =
    (case t of None \<Rightarrow> (Inr session_expired, clearAuthCookies ops env w2)
     | Some a \<Rightarrow> (answer_of (isSseRequest rq segs) (net (sent w2) (bff_retry env rq segs a)),
          w2\<lparr>sent := sent w2 @ [bff_retry env rq segs a]\<rparr>))"
  using assms
  by (auto simp: handle_def Let_def proxyToBackend_def fetch_def bff_refreshes_def bff_first_def
      bff_retry_def answer_of_def tryRefreshTokens_eq split: sum.splits option.splits)

lemma handle_cases:
  fixes ops env net rq segs w
  defines "log1 \<equiv> sent w @ [bff_first ops env rq segs w]"
  obtains (plain) "\<not> bff_refreshes net ops env rq segs w"
      "handle ops env net rq segs w =
        (answer_of (isSseRequest rq segs) (net (sent w) (bff_first ops env rq segs w)), w\<lparr>sent := log1\<rparr>)"
  | (no_token) "bff_refreshes net ops env rq segs w" "nonempty_opt (getRefreshToken ops w) = None"
      "handle ops env net rq segs w = (Inr session_expired, clearAuthCookies ops env (w\<lparr>sent := log1\<rparr>))"
  | (failed) token where "bff_refreshes net ops env rq segs w"
      "nonempty_opt (getRefreshToken ops w) = Some token"
      "refreshed_pair (net log1 (refresh_request (server_base env) token)) = None"
      "handle ops env net rq segs w = (Inr session_expired, clearAuthCookies ops env (clearAuthCookies ops env
         (w\<lparr>sent := log1 @ [refresh_request (server_base env) token]\<rparr>)))"
  | (retried) token pair where "bff_refreshes net ops env rq segs w"
      "nonempty_opt (getRefreshToken ops w) = Some token"
      "refreshed_pair (net log1 (refresh_request (server_base env) token)) = Some pair"
      "handle ops env net rq segs w =
        (answer_of (isSseRequest rq segs)
           (net (log1 @ [refresh_request (server_base env) token]) (bff_retry env rq segs (at_access pair))),
         setAuthCookies ops env pair (w\<lparr>sent := log1 @ [refresh_request (server_base env) token,
                                                        bff_retry env rq segs (at_access pair)]\<rparr>))"
proof (cases "bff_refreshes net ops env rq segs w")
  case False
  then show ?thesis by (intro plain) (simp_all add: handle_plain log1_def)
next
  case True
  note h = handle_refreshes [OF True]
  show ?thesis
  proof (cases rule: upstream_tryRefreshTokens_cases [of ops env net "w\<lparr>sent := log1\<rparr>"])
    case no_token
    with True h show ?thesis by (intro that(2)) (simp_all add: log1_def)
  next
    case (failed token)
    with True h show ?thesis by (intro that(3) [of token]) (simp_all add: log1_def)
  next
    case (refreshed token pair)
    have "(setAuthCookies ops env pair v)\<lparr>sent := l\<rparr> = setAuthCookies ops env pair (v\<lparr>sent := l\<rparr>)" for v l
      by (simp add: setAuthCookies_def Let_def)
    with refreshed True h show ?thesis
      by (intro that(4) [of token pair]) (simp_all add: log1_def)
  qed
qed


section \<open>Headers that are let through\<close>

lemma headers_get_pick:
  "headers_get (pick_headers src ns acc) m =
   (if js_lower m \<in> js_lower ` set ns \<and> nonempty_opt (headers_get src m) \<noteq> None
    then nonempty_opt (headers_get src m) else headers_get acc m)"
proof (induction ns arbitrary: acc)
  case (Cons n ns)
  have same: "js_lower n = js_lower m \<Longrightarrow> headers_get src n = headers_get src m"
    by (simp add: headers_get_def)
  show ?case
  proof (cases "js_lower m = js_lower n")
    case True
    with same have "headers_get src m = headers_get src n" by simp
    with Cons.IH True show ?thesis by (simp add: headers_get_set split: option.split)
  next
    case False
    with Cons.IH show ?thesis by (auto simp: headers_get_set split: option.split)
  qed
qed simp

lemma headers_get_pickForward:
  "headers_get (pickForwardHeaders src ns) m =
   (if js_lower m \<in> js_lower ` set ns then nonempty_opt (headers_get src m) else None)"
  by (simp add: pickForwardHeaders_def headers_get_pick) (simp add: headers_get_def)

lemma authorization_not_forwarded:
  "''authorization'' \<notin> js_lower ` set FORWARD_REQUEST_HEADERS"
  "''x-bff-retry'' \<notin> js_lower ` set FORWARD_REQUEST_HEADERS"
  "js_lower ''authorization'' = ''authorization''" "js_lower ''x-bff-retry'' = ''x-bff-retry''"
  by code_simp+

lemma proxy_request_authorization:
  "headers_get (rq_headers (proxy_request env rq segs tok body retry)) ''Authorization''
   = map_option (\<lambda>t. ''Bearer '' @ t) (nonempty_opt tok)"
  by (simp add: proxy_request_def Let_def headers_get_set headers_get_pickForward
      authorization_not_forwarded split: option.splits)

lemma proxy_request_retry_mark:
  "headers_get (rq_headers (proxy_request env rq segs tok body retry)) RETRY_HEADER
   = (if retry then Some ''1'' else None)"
  by (simp add: proxy_request_def Let_def headers_get_set headers_get_pickForward
      authorization_not_forwarded split: option.splits)

lemma respond_headers:
  "respond sse r = Inr p \<Longrightarrow> rp_headers p = responseHeadersFromUpstream r"
  by (auto simp: respond_def split: if_splits sum.splits)

lemma answer_of_headers:
  "answer_of sse a = Inr p \<Longrightarrow> fst ` set (rp_headers p) \<subseteq> set FORWARD_RESPONSE_HEADERS"
  by (auto simp: answer_of_def respond_headers dest!: subsetD [OF forwarded_response_headers]
      intro: imageI split: sum.splits)

section \<open>Properties\<close>

text \<open>C3: the BFF sends the forwarded request, and after it nothing, or one refresh with the
  refresh token of the jar, or that refresh and one retry carrying the retry mark: whatever
  the backend answers, at most three requests leave for one request of the browser.\<close>

theorem bff_request_log:
  "\<exists>rest. sent (snd (handle ops env net rq segs w)) = sent w @ bff_first ops env rq segs w # rest \<and>
     (rest = [] \<or>
      (\<exists>token. nonempty_opt (getRefreshToken ops w) = Some token \<and>
         (rest = [refresh_request (server_base env) token] \<or>
          (\<exists>a. rest = [refresh_request (server_base env) token, bff_retry env rq segs a]))))"
  by (cases rule: handle_cases [of net ops env rq segs w]) auto

text \<open>Unless the backend's first answer is a 401 to a request that is not itself marked as a
  retry, the handler sends that one request, leaves the session cookies as they are, and
  answers with the backend's status, body and whitelisted headers.\<close>

theorem bff_passes_through:
  assumes "net (sent w) (bff_first ops env rq segs w) = Inr r"
    and "rs_status r \<noteq> 401 \<or> headers_get (nr_headers rq) RETRY_HEADER = Some ''1''"
  shows "handle ops env net rq segs w =
    (respond (isSseRequest rq segs) r, w\<lparr>sent := sent w @ [bff_first ops env rq segs w]\<rparr>)"
proof -
  have "\<not> bff_refreshes net ops env rq segs w" using assms by (auto simp: bff_refreshes_def)
  from handle_plain [OF this] assms(1) show ?thesis by (simp add: answer_of_def)
qed

text \<open>C2: when the backend answers 401 and the refresh does not produce a complete token pair
  (there is no refresh token, the network fails, the refresh is refused, its body is no
  JSON or lacks a token), the browser gets the 401 envelope \<open>Session expired\<close> and both
  session cookies read back as empty.\<close>

theorem bff_session_expires:
  assumes "cookie_store ops"
    and "net (sent w) (bff_first ops env rq segs w) = Inr r" and "rs_status r = 401"
    and "headers_get (nr_headers rq) RETRY_HEADER \<noteq> Some ''1''"
    and "case nonempty_opt (getRefreshToken ops w) of None \<Rightarrow> True
         | Some token \<Rightarrow> refreshed_pair (net (sent w @ [bff_first ops env rq segs w])
                            (refresh_request (server_base env) token)) = None"
  shows "fst (handle ops env net rq segs w) = Inr session_expired
    \<and> getAccessToken ops (snd (handle ops env net rq segs w)) = Some []
    \<and> getRefreshToken ops (snd (handle ops env net rq segs w)) = Some []"
proof -
  have b: "bff_refreshes net ops env rq segs w" using assms(2-4) by (simp add: bff_refreshes_def)
  then show ?thesis using assms(5)
    by (cases rule: handle_cases [of net ops env rq segs w])
       (simp_all add: clear_twice_reads [OF assms(1)])
qed

text \<open>C1: when the backend answers 401 and the refresh yields a pair, the answer to the browser
  is the backend's answer to the retry, which repeats method, target and body of the first
  request with the new access token, and the jar holds exactly the new pair.\<close>

theorem bff_retry_after_refresh:
  assumes "cookie_store ops"
    and "net (sent w) (bff_first ops env rq segs w) = Inr r" and "rs_status r = 401"
    and "headers_get (nr_headers rq) RETRY_HEADER \<noteq> Some ''1''"
    and "nonempty_opt (getRefreshToken ops w) = Some token"
    and "refreshed_pair (net (sent w @ [bff_first ops env rq segs w])
           (refresh_request (server_base env) token)) = Some pair"
  shows "let retry = bff_retry env rq segs (at_access pair); w' = snd (handle ops env net rq segs w) in
     fst (handle ops env net rq segs w) = answer_of (isSseRequest rq segs)
       (net (sent w @ [bff_first ops env rq segs w, refresh_request (server_base env) token]) retry)
     \<and> rq_url retry = rq_url (bff_first ops env rq segs w)
     \<and> rq_method retry = rq_method (bff_first ops env rq segs w)
     \<and> rq_body retry = rq_body (bff_first ops env rq segs w)
     \<and> headers_get (rq_headers retry) ''Authorization'' =
         map_option (\<lambda>t. ''Bearer '' @ t) (nonempty_opt (Some (at_access pair)))
     \<and> getAccessToken ops w' = Some (at_access pair) \<and> getRefreshToken ops w' = Some (at_refresh pair)"
proof -
  have b: "bff_refreshes net ops env rq segs w" using assms(2-4) by (simp add: bff_refreshes_def)
  have same: "rq_url (bff_retry env rq segs t) = rq_url (bff_first ops env rq segs w)
    \<and> rq_method (bff_retry env rq segs t) = rq_method (bff_first ops env rq segs w)
    \<and> rq_body (bff_retry env rq segs t) = rq_body (bff_first ops env rq segs w)" for t
    by (simp add: bff_retry_def bff_first_def proxy_request_def Let_def)
  have auth: "headers_get (rq_headers (bff_retry env rq segs t)) ''Authorization''
      = map_option (\<lambda>t. ''Bearer '' @ t) (nonempty_opt (Some t))" for t
    by (simp add: bff_retry_def proxy_request_authorization)
  note pair = cookie_store.get_after_setAuthCookies [OF assms(1)]
  from b assms(5,6) show ?thesis
    by (cases rule: handle_cases [of net ops env rq segs w]) (simp_all add: Let_def same auth pair)
qed

text \<open>What the browser controls of a forwarded request, given the token and the mark.\<close>

definition forwarded_header :: "next_request \<Rightarrow> string option \<Rightarrow> bool \<Rightarrow> string \<Rightarrow> string option" where
  "forwarded_header rq tok marked name =
     (if js_lower name = ''authorization'' then map_option (\<lambda>t. ''Bearer '' @ t) (nonempty_opt tok)
      else if js_lower name = RETRY_HEADER then (if marked then Some ''1'' else None)
      else if js_lower name \<in> {''content-type'', ''accept'', ''idempotency-key'', ''x-request-id''}
        then nonempty_opt (headers_get (nr_headers rq) name)
      else None)"

lemma forward_names:
  "n \<in> set FORWARD_REQUEST_HEADERS \<longleftrightarrow>
     n \<in> {''content-type'', ''accept'', ''idempotency-key'', ''x-request-id''}"
  by (auto simp: FORWARD_REQUEST_HEADERS_def)

lemma proxy_request_header:
  "headers_get (rq_headers (proxy_request env rq segs tok body retry)) name = forwarded_header rq tok retry name"
proof -
  have auth: "headers_get h name = headers_get h ''Authorization''" if "js_lower name = ''authorization''" for h
    using that by (simp add: headers_get_def)
  have mark: "headers_get h name = headers_get h RETRY_HEADER" if "js_lower name = RETRY_HEADER" for h
    using that by (simp add: headers_get_def RETRY_HEADER_def authorization_not_forwarded)
  show ?thesis
  proof (cases "js_lower name = ''authorization'' \<or> js_lower name = RETRY_HEADER")
    case True
    then show ?thesis using auth mark
      by (auto simp: proxy_request_authorization proxy_request_retry_mark [unfolded RETRY_HEADER_def]
          forwarded_header_def RETRY_HEADER_def)
  next
    case False
    then show ?thesis
      by (auto simp: proxy_request_def forwarded_header_def Let_def headers_get_set headers_get_pickForward
          js_lower_forward RETRY_HEADER_def authorization_not_forwarded forward_names split: option.splits)
  qed
qed

text \<open>C4: every request the BFF sends for one request of the browser is the refresh with the
  refresh token of the jar, which takes nothing from the browser, or carries exactly the
  four listed headers of the browser's request that are not empty, a bearer token (the one
  of the jar, or the one the refresh brought) and perhaps the retry mark: a browser cannot
  inject an \<open>Authorization\<close>, a cookie or any other header.  The mark is the exception: it is
  on the first request exactly when the browser sent \<open>x-bff-retry: 1\<close> itself, and a browser
  that does so gets that one request and no refresh.\<close>

theorem bff_forwarded_headers:
  "(\<forall>q\<in>set (drop (length (sent w)) (sent (snd (handle ops env net rq segs w)))).
      (\<exists>token. nonempty_opt (getRefreshToken ops w) = Some token \<and> q = refresh_request (server_base env) token)
    \<or> (\<forall>name. headers_get (rq_headers q) name =
         forwarded_header rq (getAccessToken ops w) (headers_get (nr_headers rq) RETRY_HEADER = Some ''1'') name)
    \<or> headers_get (nr_headers rq) RETRY_HEADER \<noteq> Some ''1''
      \<and> (\<exists>token pair. nonempty_opt (getRefreshToken ops w) = Some token
          \<and> refreshed_pair (net (sent w @ [bff_first ops env rq segs w]) (refresh_request (server_base env) token)) = Some pair
          \<and> (\<forall>name. headers_get (rq_headers q) name = forwarded_header rq (Some (at_access pair)) True name)))
   \<and> (headers_get (nr_headers rq) RETRY_HEADER = Some ''1'' \<longrightarrow>
       sent (snd (handle ops env net rq segs w)) = sent w @ [bff_first ops env rq segs w])"
proof -
  have first: "headers_get (rq_headers (bff_first ops env rq segs w)) name = forwarded_header rq
      (getAccessToken ops w) (headers_get (nr_headers rq) RETRY_HEADER = Some ''1'') name" for name
    by (simp add: bff_first_def proxy_request_header)
  have retry: "headers_get (rq_headers (bff_retry env rq segs a)) name = forwarded_header rq (Some a) True name" for a name
    by (simp add: bff_retry_def proxy_request_header)
  have unmarked: "bff_refreshes net ops env rq segs w \<Longrightarrow> headers_get (nr_headers rq) RETRY_HEADER \<noteq> Some ''1''"
    by (auto simp: bff_refreshes_def split: sum.splits)
  show ?thesis
  proof (cases rule: handle_cases [of net ops env rq segs w])
    case (retried token pair)
    with unmarked show ?thesis by (auto simp: first retry)
  qed (use unmarked in \<open>auto simp: first\<close>)
qed

text \<open>An answer of the backend without content, which is no event stream, makes the handler throw.\<close>

lemma no_content_throws:
  assumes "net (sent w) (bff_first ops env rq segs w) = Inr r" and "rs_status r = 204"
    and "rs_body r = Inr b" and "\<not> isSseRequest rq segs"
  shows "fst (handle ops env net rq segs w) = Inl (ErrorExn ''TypeError'')"
  using bff_passes_through [where net = net and w = w and ops = ops and env = env and rq = rq and segs = segs and r = r] assms
  by (simp add: respond_def null_body_status_def)

text \<open>An answer of the BFF carries no header beyond the response whitelist, so neither
  \<open>Set-Cookie\<close> nor an authorization header of the backend reaches the browser.\<close>

theorem bff_response_headers:
  assumes "fst (handle ops env net rq segs w) = Inr p"
  shows "fst ` set (rp_headers p) \<subseteq> set FORWARD_RESPONSE_HEADERS"
  using assms
  by (cases rule: handle_cases [of net ops env rq segs w])
     (auto simp: session_expired_def json_reply_def dest!: answer_of_headers)

section \<open>Witnesses\<close>

text \<open>A session with both cookies, a backend that refuses the old token and refreshes it.\<close>

definition ex_rq :: next_request where
  "ex_rq = \<lparr>nr_method = ''post'', nr_headers = [(''accept'', ''application/json''), (''cookie'', ''x'')],
     nr_search = ''?a=1'', nr_body = ''{}''\<rparr>"

definition ex_segs :: "string list" where "ex_segs = [''api'', ''v1'', ''tasks'']"

lemma bff_passes_through_witness:
  "handle mem_ops ex_env ex_net ex_rq ex_segs ex_new_server =
     (respond (isSseRequest ex_rq ex_segs) (ex_response 200 ''ok''),
      ex_new_server\<lparr>sent := sent ex_new_server @ [bff_first mem_ops ex_env ex_rq ex_segs ex_new_server]\<rparr>)"
  by (rule bff_passes_through) code_simp+

lemma bff_session_expires_witness:
  "fst (handle mem_ops ex_env ex_down ex_rq ex_segs ex_server) = Inr session_expired
    \<and> getAccessToken mem_ops (snd (handle mem_ops ex_env ex_down ex_rq ex_segs ex_server)) = Some []
    \<and> getRefreshToken mem_ops (snd (handle mem_ops ex_env ex_down ex_rq ex_segs ex_server)) = Some []"
  by (rule bff_session_expires [OF cookie_store_mem, where r = "ex_response 401 []"]) code_simp+

lemma bff_retry_after_refresh_witness:
  "fst (handle mem_ops ex_env ex_net ex_rq ex_segs ex_server) = respond False (ex_response 200 ''ok'')
   \<and> getRefreshToken mem_ops (snd (handle mem_ops ex_env ex_net ex_rq ex_segs ex_server)) = Some ''r2''"
proof -
  have net: "ex_net (sent ex_server) (bff_first mem_ops ex_env ex_rq ex_segs ex_server) = Inr (ex_response 401 [])"
      "headers_get (nr_headers ex_rq) RETRY_HEADER \<noteq> Some ''1''"
      "nonempty_opt (getRefreshToken mem_ops ex_server) = Some ''r1''"
      "refreshed_pair (ex_net (sent ex_server @ [bff_first mem_ops ex_env ex_rq ex_segs ex_server])
           (refresh_request (server_base ex_env) ''r1'')) = Some ex_pair"
      "isSseRequest ex_rq ex_segs = False" "at_refresh ex_pair = ''r2''"
      "ex_net (sent ex_server @ [bff_first mem_ops ex_env ex_rq ex_segs ex_server,
         refresh_request (server_base ex_env) ''r1'']) (bff_retry ex_env ex_rq ex_segs (at_access ex_pair))
       = Inr (ex_response 200 ''ok'')"
    by code_simp+
  have "rs_status (ex_response 401 []) = 401" by code_simp
  from bff_retry_after_refresh [OF cookie_store_mem net(1) this net(2-4)] net(5-7)
  show ?thesis by (simp add: Let_def answer_of_def)
qed

lemma bff_forwarded_headers_witness:
  "(\<lambda>q. headers_get (rq_headers q) ''Cookie'')
     ` set (sent (snd (handle mem_ops ex_env ex_net ex_rq ex_segs ex_server))) \<subseteq> {None}"
proof -
  have start: "sent ex_server = []" "headers_get (nr_headers ex_rq) RETRY_HEADER \<noteq> Some ''1''"
    "js_lower ''Cookie'' \<noteq> ''authorization''" "js_lower ''Cookie'' \<noteq> RETRY_HEADER"
    "js_lower ''Cookie'' \<notin> {''content-type'', ''accept'', ''idempotency-key'', ''x-request-id''}" by code_simp+
  then have none: "forwarded_header ex_rq tok marked ''Cookie'' = None" for tok marked
    by (simp add: forwarded_header_def)
  have refresh: "headers_get (rq_headers (refresh_request base token)) ''Cookie'' = None" for base token
  proof -
    have "headers_get json_headers ''Cookie'' = None" by code_simp
    then show ?thesis by (simp add: refresh_request_def json_post_def)
  qed
  have "headers_get (rq_headers q) ''Cookie'' = None"
    if "q \<in> set (sent (snd (handle mem_ops ex_env ex_net ex_rq ex_segs ex_server)))" for q
    using bff_forwarded_headers [of ex_server mem_ops ex_env ex_net ex_rq ex_segs] none refresh that
    unfolding start(1) list.size drop_0 by (metis option.distinct(1))
  then show ?thesis by auto
qed

lemma bff_response_headers_witness:
  "fst ` set (rp_headers session_expired) \<subseteq> set FORWARD_RESPONSE_HEADERS"
  by (rule bff_response_headers [of mem_ops ex_env ex_down ex_rq ex_segs ex_server]) code_simp

end
