(* ===== verification/Js_Url.thy ===== *)
theory Js_Url
  imports Js_Http
begin

text \<open>
  The URL part of the platform: UTF-8 and percent encoding, \<open>encodeURIComponent\<close> and
  \<open>URLSearchParams\<close> as a list of pairs with its parser and serialiser.  A decoded code
  unit above 255 is read as the representative 255.
\<close>

section \<open>Encoding\<close>

definition utf8_char :: "char \<Rightarrow> char list" where
  "utf8_char c = (let n = char_code c in
     if n < 128 then [c] else [char_of (192 + n div 64), char_of (128 + n mod 64)])"

definition hex_upper :: "nat \<Rightarrow> char" where
  "hex_upper n = (if n < 10 then char_of (48 + n) else char_of (55 + n))"

definition percent_byte :: "char \<Rightarrow> string" where
  "percent_byte b = [CHR ''%'', hex_upper (char_code b div 16), hex_upper (char_code b mod 16)]"

definition is_alnum :: "char \<Rightarrow> bool" where
  "is_alnum c = (is_digit c \<or> is_lower_az c \<or> is_upper_az c)"

definition form_byte :: "char \<Rightarrow> string" where
  "form_byte b =
     (if is_alnum b \<or> b \<in> set ''*-._'' then [b]
      else if b = CHR '' '' then ''+'' else percent_byte b)"

definition form_encode :: "string \<Rightarrow> string" where
  "form_encode s = concat (map form_byte (concat (map utf8_char s)))"

definition uri_byte :: "char \<Rightarrow> string" where
  "uri_byte b =
     (if is_alnum b \<or> b \<in> set ''-_.!~*()'' \<or> b = CHR 0x27 then [b] else percent_byte b)"

definition encodeURIComponent :: "string \<Rightarrow> string" where
  "encodeURIComponent s = concat (map uri_byte (concat (map utf8_char s)))"

section \<open>Decoding\<close>

fun percent_decode :: "string \<Rightarrow> string" where
  "percent_decode [] = []"
| "percent_decode (c # cs) =
     (if c = CHR ''%'' then
        (case cs of h # l # r \<Rightarrow>
           (case (hex_val h, hex_val l) of
              (Some a, Some b) \<Rightarrow> char_of (16 * a + b) # percent_decode r
            | _ \<Rightarrow> c # percent_decode cs)
         | _ \<Rightarrow> c # percent_decode cs)
      else c # percent_decode cs)"

definition is_cont :: "char \<Rightarrow> bool" where
  "is_cont c = (let n = char_code c in 128 \<le> n \<and> n < 192)"

fun utf8_decode :: "string \<Rightarrow> string" where
  "utf8_decode [] = []"
| "utf8_decode (a # s) =
     (let n = char_code a in
      if n < 128 then a # utf8_decode s
      else if n = 194 \<or> n = 195 then
        (case s of b # r \<Rightarrow>
           (if is_cont b then char_of ((n - 192) * 64 + (char_code b - 128)) # utf8_decode r
            else char_of (255::nat) # utf8_decode s)
         | [] \<Rightarrow> [char_of (255::nat)])
      else if 196 \<le> n \<and> n < 224 then
        (case s of b # r \<Rightarrow>
           (if is_cont b then char_of (255::nat) # utf8_decode r else char_of (255::nat) # utf8_decode s)
         | [] \<Rightarrow> [char_of (255::nat)])
      else if 224 \<le> n \<and> n < 240 then
        (case s of b # c # r \<Rightarrow>
           (if is_cont b \<and> is_cont c then char_of (255::nat) # utf8_decode r
            else char_of (255::nat) # utf8_decode s)
         | _ \<Rightarrow> char_of (255::nat) # utf8_decode s)
      else char_of (255::nat) # utf8_decode s)"

definition form_decode :: "string \<Rightarrow> string" where
  "form_decode s = utf8_decode (percent_decode (map (\<lambda>c. if c = CHR ''+'' then CHR '' '' else c) s))"

section \<open>\<open>URLSearchParams\<close>\<close>

type_synonym search_params = "(string \<times> string) list"

definition usp_pair :: "string \<times> string \<Rightarrow> string" where
  "usp_pair kv = form_encode (fst kv) @ ''='' @ form_encode (snd kv)"

definition usp_toString :: "search_params \<Rightarrow> string" where
  "usp_toString ps = js_join ''&'' (map usp_pair ps)"

definition usp_parse_pair :: "string \<Rightarrow> string \<times> string" where
  "usp_parse_pair s =
     (form_decode (takeWhile (\<lambda>c. c \<noteq> CHR ''='') s),
      form_decode (drop 1 (dropWhile (\<lambda>c. c \<noteq> CHR ''='') s)))"

text \<open>\<open>new URLSearchParams(s)\<close>: one leading question mark is ignored.\<close>

definition usp_parse :: "string \<Rightarrow> search_params" where
  "usp_parse s =
     (let t = (if starts_with s ''?'' then drop 1 s else s)
      in map usp_parse_pair (filter (\<lambda>w. w \<noteq> []) (split_on (\<lambda>c. c = CHR ''&'') t)))"

definition usp_get :: "search_params \<Rightarrow> string \<Rightarrow> string option" where
  "usp_get ps k = map_of ps k"

definition usp_append :: "string \<Rightarrow> string \<Rightarrow> search_params \<Rightarrow> search_params" where
  "usp_append k v ps = ps @ [(k, v)]"

definition usp_delete :: "string \<Rightarrow> search_params \<Rightarrow> search_params" where
  "usp_delete k ps = filter (\<lambda>p. fst p \<noteq> k) ps"

text \<open>\<open>set\<close> replaces the first pair of that name, drops the others, or appends.\<close>

fun usp_set :: "string \<Rightarrow> string \<Rightarrow> search_params \<Rightarrow> search_params" where
  "usp_set k v [] = [(k, v)]"
| "usp_set k v ((k', v') # ps) =
     (if k' = k then (k, v) # usp_delete k ps else (k', v') # usp_set k v ps)"

lemmas [js_defs] = utf8_char_def hex_upper_def percent_byte_def is_alnum_def form_byte_def
  form_encode_def uri_byte_def encodeURIComponent_def is_cont_def form_decode_def usp_pair_def
  usp_toString_def usp_parse_pair_def usp_parse_def usp_get_def usp_append_def usp_delete_def

section \<open>Lemmas\<close>

lemma usp_get_delete: "usp_get (usp_delete k ps) k' = (if k' = k then None else usp_get ps k')"
  by (induction ps) (auto simp: usp_get_def usp_delete_def)

lemma usp_get_set: "usp_get (usp_set k v ps) k' = (if k' = k then Some v else usp_get ps k')"
proof (induction k v ps rule: usp_set.induct)
  case (2 k v k1 v1 ps)
  then show ?case using usp_get_delete [of k ps k'] by (auto simp: usp_get_def)
qed (simp add: usp_get_def)

lemma hex_val_hex_upper: "n < 16 \<Longrightarrow> hex_val (hex_upper n) = Some n"
  by (auto simp: hex_val_def hex_upper_def char_code_char_of Let_def)

text \<open>Characters that the form encoding produces.\<close>

definition form_safe :: "char \<Rightarrow> bool" where
  "form_safe c = (is_alnum c \<or> c \<in> set ''*-._+%'')"

lemma is_alnum_hex_upper: "n < 16 \<Longrightarrow> is_alnum (hex_upper n)"
  by (auto simp: is_alnum_def is_digit_def is_upper_az_def hex_upper_def char_code_char_of Let_def)

lemma form_byte_safe: "c \<in> set (form_byte b) \<Longrightarrow> form_safe c"
proof -
  have "char_code b div 16 < 16" using char_code_less_256 [of b] by simp
  then show "c \<in> set (form_byte b) \<Longrightarrow> form_safe c"
    by (auto simp: form_byte_def percent_byte_def form_safe_def is_alnum_hex_upper split: if_splits)
qed

lemma form_encode_safe: "c \<in> set (form_encode s) \<Longrightarrow> form_safe c"
  by (auto simp: form_encode_def intro: form_byte_safe)

lemma form_safe_neq: "form_safe c \<Longrightarrow> c \<noteq> CHR ''&'' \<and> c \<noteq> CHR ''='' \<and> c \<noteq> CHR ''?''"
  by (auto simp: form_safe_def is_alnum_def is_digit_def is_lower_az_def is_upper_az_def
      char_code_def Let_def)

abbreviation plus_space :: "char \<Rightarrow> char" where
  "plus_space \<equiv> \<lambda>c. if c = CHR ''+'' then CHR '' '' else c"

lemma alnum_not_special: "is_alnum c \<Longrightarrow> c \<noteq> CHR ''+'' \<and> c \<noteq> CHR ''%''"
  by (auto simp: is_alnum_def is_digit_def is_lower_az_def is_upper_az_def char_code_def Let_def)

lemma percent_decode_byte:
  "percent_decode (map plus_space (form_byte b) @ r) = b # percent_decode r"
proof -
  have hi: "char_code b div 16 < 16" using char_code_less_256 [of b] by simp
  have lo: "char_code b mod 16 < 16" by simp
  consider "is_alnum b \<or> b \<in> set ''*-._''" | "b = CHR '' ''"
    | "\<not> (is_alnum b \<or> b \<in> set ''*-._'')" "b \<noteq> CHR '' ''" by blast
  then show ?thesis
  proof cases
    case 1
    then have "b \<noteq> CHR ''+'' \<and> b \<noteq> CHR ''%''" using alnum_not_special by auto
    with 1 show ?thesis by (simp add: form_byte_def)
  next
    case 2
    have "\<not> is_alnum (CHR '' '')" by code_simp
    with 2 show ?thesis by (simp add: form_byte_def)
  next
    case 3
    note h = hex_val_hex_upper [OF hi] hex_val_hex_upper [OF lo]
      alnum_not_special [OF is_alnum_hex_upper [OF hi]] alnum_not_special [OF is_alnum_hex_upper [OF lo]]
    have "char_of (16 * (char_code b div 16) + char_code b mod 16) = b" by simp
    with 3 h show ?thesis by (simp add: form_byte_def percent_byte_def)
  qed
qed

lemma percent_decode_bytes:
  "percent_decode (map plus_space (concat (map form_byte bs))) = bs"
  by (induction bs) (simp_all add: percent_decode_byte)

lemma utf8_decode_char: "utf8_decode (utf8_char c @ s) = c # utf8_decode s"
proof (cases "char_code c < 128")
  case True
  then show ?thesis by (simp add: utf8_char_def)
next
  case False
  let ?n = "char_code c"
  have n: "?n < 256" "128 \<le> ?n" using False char_code_less_256 [of c] by auto
  then have "?n div 64 = 2 \<or> ?n div 64 = 3" by linarith
  then have d: "192 + ?n div 64 < 256" "192 + ?n div 64 = 194 \<or> 192 + ?n div 64 = 195" by auto
  have m: "128 + ?n mod 64 < 192" "128 \<le> 128 + ?n mod 64" by simp_all
  have s: "?n div 64 * 64 + ?n mod 64 = ?n" by simp
  show ?thesis
    using d m s False
    by (simp add: utf8_char_def Let_def char_code_char_of is_cont_def)
qed

lemma utf8_roundtrip: "utf8_decode (concat (map utf8_char s)) = s"
  by (induction s) (simp_all add: utf8_decode_char del: utf8_decode.simps(2))

lemma form_roundtrip: "form_decode (form_encode s) = s"
  by (simp add: form_decode_def form_encode_def percent_decode_bytes utf8_roundtrip)

lemma usp_pair_chars: "c \<in> set (usp_pair kv) \<Longrightarrow> c \<noteq> CHR ''&'' \<and> c \<noteq> CHR ''?''"
  by (auto simp: usp_pair_def dest!: form_encode_safe form_safe_neq)

lemma usp_parse_pair_pair: "usp_parse_pair (usp_pair kv) = kv"
proof -
  have all: "list_all (\<lambda>c. c \<noteq> CHR ''='') (form_encode (fst kv))"
    by (auto simp: list_all_iff dest!: form_encode_safe form_safe_neq)
  have "takeWhile (\<lambda>c. c \<noteq> CHR ''='') (form_encode (fst kv) @ ''='' @ form_encode (snd kv))
      = form_encode (fst kv)"
    "dropWhile (\<lambda>c. c \<noteq> CHR ''='') (form_encode (fst kv) @ ''='' @ form_encode (snd kv))
      = ''='' @ form_encode (snd kv)"
    using all by (auto intro!: takeWhile_append_stop)
  then show ?thesis unfolding usp_parse_pair_def usp_pair_def by (simp add: form_roundtrip)
qed

lemma usp_toString_no_question: "\<not> starts_with (usp_toString ps) ''?''"
proof (cases ps)
  case (Cons kv ps')
  have "usp_pair kv \<noteq> []" by (simp add: usp_pair_def)
  then obtain c t where c: "usp_pair kv = c # t" by (cases "usp_pair kv") auto
  then have "c \<noteq> CHR ''?''" using usp_pair_chars [of c kv] by simp
  with c Cons show ?thesis by (cases ps') (auto simp: usp_toString_def)
qed (simp add: usp_toString_def)

text \<open>Reading a serialised parameter list gives the list back.\<close>

lemma usp_roundtrip: "usp_parse (usp_toString ps) = ps"
proof (cases "ps = []")
  case True
  then show ?thesis by (simp add: usp_parse_def usp_toString_def)
next
  case False
  have "split_on (\<lambda>c. c = CHR ''&'') (usp_toString ps) = map usp_pair ps"
    unfolding usp_toString_def using False by (intro split_on_join) (auto dest: usp_pair_chars)
  moreover have "filter (\<lambda>w. w \<noteq> []) (map usp_pair ps) = map usp_pair ps"
    by (auto simp: filter_id_conv usp_pair_def)
  ultimately show ?thesis
    by (simp add: usp_parse_def usp_toString_no_question usp_parse_pair_pair o_def)
qed

lemma usp_toString_empty: "usp_toString ps = [] \<longleftrightarrow> ps = []"
  by (metis usp_roundtrip js_join.simps(1) list.simps(8) usp_toString_def)


section \<open>\<open>encodeURIComponent\<close> read back as a query parameter\<close>

lemma uri_byte_safe: "c \<in> set (uri_byte b) \<Longrightarrow> c \<noteq> CHR ''&'' \<and> c \<noteq> CHR ''='' \<and> c \<noteq> CHR ''?''"
proof -
  have "char_code b div 16 < 16" "char_code b mod 16 < 16" using char_code_less_256 [of b] by simp_all
  then have h: "is_alnum (hex_upper (char_code b div 16))" "is_alnum (hex_upper (char_code b mod 16))"
    by (simp_all add: is_alnum_hex_upper)
  have a: "is_alnum c \<Longrightarrow> c \<noteq> CHR ''&'' \<and> c \<noteq> CHR ''='' \<and> c \<noteq> CHR ''?''" for c
    using form_safe_neq [of c] by (simp add: form_safe_def)
  show "c \<in> set (uri_byte b) \<Longrightarrow> c \<noteq> CHR ''&'' \<and> c \<noteq> CHR ''='' \<and> c \<noteq> CHR ''?''"
    using h a by (auto simp: uri_byte_def percent_byte_def split: if_splits)
qed

lemma percent_decode_uri_byte:
  "percent_decode (map plus_space (uri_byte b) @ r) = b # percent_decode r"
proof -
  have hi: "char_code b div 16 < 16" using char_code_less_256 [of b] by simp
  have lo: "char_code b mod 16 < 16" by simp
  show ?thesis
  proof (cases "is_alnum b \<or> b \<in> set ''-_.!~*()'' \<or> b = CHR 0x27")
    case True
    then have "b \<noteq> CHR ''+'' \<and> b \<noteq> CHR ''%''" using alnum_not_special by auto
    with True show ?thesis by (simp add: uri_byte_def)
  next
    case False
    note h = hex_val_hex_upper [OF hi] hex_val_hex_upper [OF lo]
      alnum_not_special [OF is_alnum_hex_upper [OF hi]] alnum_not_special [OF is_alnum_hex_upper [OF lo]]
    have "char_of (16 * (char_code b div 16) + char_code b mod 16) = b" by simp
    with False h show ?thesis by (simp add: uri_byte_def percent_byte_def)
  qed
qed

lemma uri_roundtrip: "form_decode (encodeURIComponent s) = s"
proof -
  have "percent_decode (map plus_space (concat (map uri_byte bs))) = bs" for bs
    by (induction bs) (simp_all add: percent_decode_uri_byte)
  then show ?thesis by (simp add: form_decode_def encodeURIComponent_def utf8_roundtrip)
qed

lemma uri_safe: "c \<in> set (encodeURIComponent s) \<Longrightarrow> c \<noteq> CHR ''&'' \<and> c \<noteq> CHR ''='' \<and> c \<noteq> CHR ''?''"
  by (auto simp: encodeURIComponent_def dest!: uri_byte_safe)

text \<open>A query string that a template literal builds of one plain name and one encoded value.\<close>

lemma usp_parse_single:
  assumes "form_decode k = k" and "k \<noteq> []"
    and "\<forall>c\<in>set k. c \<noteq> CHR ''&'' \<and> c \<noteq> CHR ''=''"
  shows "usp_parse (''?'' @ k @ ''='' @ encodeURIComponent v) = [(k, v)]"
proof -
  let ?s = "k @ ''='' @ encodeURIComponent v"
  have "split_on (\<lambda>c. c = CHR ''&'') ?s = [?s]"
    using assms(3) uri_safe [of _ v] by (intro split_on_word) (auto simp: list_all_iff)
  moreover have "takeWhile (\<lambda>c. c \<noteq> CHR ''='') ?s = k"
    "dropWhile (\<lambda>c. c \<noteq> CHR ''='') ?s = ''='' @ encodeURIComponent v"
    using assms(3) by (auto intro!: takeWhile_append_stop simp: list_all_iff)
  ultimately show ?thesis
    using assms(1,2) by (simp add: usp_parse_def usp_parse_pair_def uri_roundtrip)
qed

end
