(* ===== verification/App_Constants.thy ===== *)
theory App_Constants
  imports Js_Prelude
begin

text \<open>lib/constants/app.ts: the limits and the provider names the forms and routes share.\<close>

definition LLM_PROVIDERS :: "string list" where
  "LLM_PROVIDERS = [''gemini'', ''llama'', ''mistral'']"

definition CHAT_MESSAGE_MAX :: nat where "CHAT_MESSAGE_MAX = 8000"

definition MAX_UPLOAD_MB :: nat where "MAX_UPLOAD_MB = 5"

definition PASSWORD_MIN :: nat where "PASSWORD_MIN = 12"

definition PASSWORD_MAX :: nat where "PASSWORD_MAX = 128"

lemmas app_constants = LLM_PROVIDERS_def CHAT_MESSAGE_MAX_def MAX_UPLOAD_MB_def
  PASSWORD_MIN_def PASSWORD_MAX_def

end
