(* ===== verification/Auth_Routes.thy ===== *)
theory Auth_Routes
  imports Auth_Upstream Js_Url App_Constants
begin

text \<open>
  The route handlers of app/api/auth.  Each takes the text of the request body (a text that
  is no JSON is answered with 400; reading a field of the JSON value \<open>null\<close> throws, as it
  does in JavaScript) and runs in the state of the server: the jar and the request log.
\<close>

section \<open>Reading the body\<close>

definition validation_error :: "string \<Rightarrow> reply" where
  "validation_error message = json_reply 400 [] (error_envelope ''VALIDATION_ERROR'' message)"

definition type_error :: js_exn where "type_error = ErrorExn ''TypeError''"

text \<open>\<open>typeof body.k === "string" ? body.k : ""\<close>\<close>

definition string_field :: "json \<Rightarrow> string \<Rightarrow> string" where
  "string_field v k = (case as_string (js_prop v k) of Some s \<Rightarrow> s | None \<Rightarrow> [])"

definition with_json_body ::
  "string \<Rightarrow> (json \<Rightarrow> 'j server \<Rightarrow> handler_result \<times> 'j server) \<Rightarrow> 'j server \<Rightarrow>
   handler_result \<times> 'j server" where
  "with_json_body text k w =
     (case json_parse text of None \<Rightarrow> (Inr (validation_error ''Invalid JSON body''), w)
      | Some v \<Rightarrow> (if v = JNull then (Inl type_error, w) else k v w))"

section \<open>Login\<close>

definition login_request :: "env \<Rightarrow> string \<Rightarrow> string \<Rightarrow> http_request" where
  "login_request env username password =
     \<lparr>rq_url = server_base env @ ep_auth_login, rq_method = ''POST'',
      rq_headers = [(''Content-Type'', ''application/x-www-form-urlencoded''),
                    (''Accept'', ''application/json'')],
      rq_body = TextBody (usp_toString
        (usp_set ''password'' password (usp_set ''username'' username [])))\<rparr>"

definition login_outcome ::
  "'j jar_ops \<Rightarrow> env \<Rightarrow> js_exn + http_response \<Rightarrow> 'j server \<Rightarrow> handler_result \<times> 'j server" where
  "login_outcome ops env answer w =
     (case answer of Inl e \<Rightarrow> (Inl e, w)
      | Inr upstream \<Rightarrow>
         (case parseJsonSafe upstream of Inl e \<Rightarrow> (Inl e, w)
          | Inr v \<Rightarrow>
             if \<not> response_ok upstream then
               (Inr (errorJsonResponse (rs_status upstream) v (Some (rs_headers upstream))), w)
             else (case read_token_pair v of
                     None \<Rightarrow> (Inr (json_reply 502 []
                               (error_envelope ''UNKNOWN_ERROR'' ''Invalid login response'')), w)
                   | Some tokens \<Rightarrow>
                       (Inr (json_reply 200 [] (JObj [(''success'', JBool True),
                                                     (''expires_in'', at_expires_in tokens)])),
                        setAuthCookies ops env tokens w))))"

definition post_login ::
  "'j jar_ops \<Rightarrow> env \<Rightarrow> network \<Rightarrow> string \<Rightarrow> 'j server \<Rightarrow> handler_result \<times> 'j server" where
  "post_login ops env net text =
     with_json_body text (\<lambda>body w.
       let username = js_trim (string_field body ''username'');
           password = string_field body ''password''
       in if username = [] \<or> password = [] then
            (Inr (validation_error ''Username and password are required''), w)
          else (case fetch net (login_request env username password) w of
                  (answer, w') \<Rightarrow> login_outcome ops env answer w'))"

section \<open>Registration\<close>

definition register_outcome :: "js_exn + http_response \<Rightarrow> handler_result" where
  "register_outcome answer =
     (case answer of Inl e \<Rightarrow> Inl e
      | Inr upstream \<Rightarrow>
         (case parseJsonSafe upstream of Inl e \<Rightarrow> Inl e
          | Inr v \<Rightarrow>
             if \<not> response_ok upstream then
               Inr ((errorJsonResponse (rs_status upstream) v (Some (rs_headers upstream)))
                      \<lparr>rp_headers := []\<rparr>)
             else Inr (json_reply 200 [] (JObj [(''success'', JBool True), (''data'', unwrapData v)]))))"

definition post_register ::
  "env \<Rightarrow> network \<Rightarrow> string \<Rightarrow> 'j server \<Rightarrow> handler_result \<times> 'j server" where
  "post_register env net text w =
     (case json_parse text of None \<Rightarrow> (Inr (validation_error ''Invalid JSON body''), w)
      | Some body \<Rightarrow>
         (case fetch net (json_post (server_base env @ ep_auth_register) body) w of
            (answer, w') \<Rightarrow> (register_outcome answer, w')))"

section \<open>Logout\<close>

text \<open>A failing call is ignored: the cookies are cleared in any case.\<close>

definition post_logout ::
  "'j jar_ops \<Rightarrow> env \<Rightarrow> network \<Rightarrow> 'j server \<Rightarrow> handler_result \<times> 'j server" where
  "post_logout ops env net w =
     (let w1 = (case nonempty_opt (getRefreshToken ops w) of None \<Rightarrow> w
          | Some token \<Rightarrow> snd (fetch net (json_post (server_base env @ ep_auth_logout)
                                (JObj [(''refresh_token'', JStr token)])) w))
      in (Inr (json_reply 200 [] (JObj [(''success'', JBool True)])), clearAuthCookies ops env w1))"

definition logout_all_request :: "env \<Rightarrow> string \<Rightarrow> http_request" where
  "logout_all_request env token =
     \<lparr>rq_url = server_base env @ ep_auth_logoutAll, rq_method = ''POST'',
      rq_headers = [(''Authorization'', ''Bearer '' @ token), (''Accept'', ''application/json'')],
      rq_body = NoBody\<rparr>"

definition post_logout_all ::
  "'j jar_ops \<Rightarrow> env \<Rightarrow> network \<Rightarrow> 'j server \<Rightarrow> handler_result \<times> 'j server" where
  "post_logout_all ops env net w =
     (let w1 = (case nonempty_opt (getAccessToken ops w) of None \<Rightarrow> w
          | Some token \<Rightarrow> snd (fetch net (logout_all_request env token) w))
      in (Inr (json_reply 200 [] (JObj [(''success'', JBool True)])), clearAuthCookies ops env w1))"

section \<open>Current user\<close>

definition get_me ::
  "'j jar_ops \<Rightarrow> env \<Rightarrow> network \<Rightarrow> 'j server \<Rightarrow> handler_result \<times> 'j server" where
  "get_me ops env net w =
     (case getCurrentUser ops env net w of
        (user, w') \<Rightarrow>
          (Inr (if truthy user then
                  json_reply 200 [] (JObj [(''success'', JBool True), (''data'', the user)])
                else json_reply 401 [] (error_envelope ''UNAUTHORIZED'' ''Not authenticated'')), w'))"

section \<open>Passwords, verification and e-mail\<close>

definition password_error :: reply where
  "password_error = validation_error (''Password must be at least '' @ show_nat PASSWORD_MIN @ '' characters'')"

definition bad_new_password :: "string \<Rightarrow> bool" where
  "bad_new_password p = (p = [] \<or> length p < PASSWORD_MIN)"

definition post_change_password ::
  "'j jar_ops \<Rightarrow> env \<Rightarrow> network \<Rightarrow> string \<Rightarrow> 'j server \<Rightarrow> handler_result \<times> 'j server" where
  "post_change_password ops env net text =
     with_json_body text (\<lambda>body w.
       let currentPassword = string_field body ''current_password'';
           newPassword = string_field body ''new_password''
       in if currentPassword = [] then
            (Inr (validation_error ''Current password is required''), w)
          else if bad_new_password newPassword then (Inr (password_error), w)
          else proxyAuthenticatedAuth ops env net
                 \<lparr>ac_method = ''POST'', ac_upstreamPath = ep_auth_changePassword,
                  ac_body = Some (JObj [(''current_password'', JStr currentPassword),
                                        (''new_password'', JStr newPassword)]),
                  ac_includeRefreshHeader = True\<rparr> w)"

text \<open>The three public routes that take one trimmed string: its field, the message when it
  is missing, and the upstream path.\<close>

definition post_one_field ::
  "env \<Rightarrow> network \<Rightarrow> string \<Rightarrow> string \<Rightarrow> string \<Rightarrow> string \<Rightarrow> 'j server \<Rightarrow>
   handler_result \<times> 'j server" where
  "post_one_field env net field missing path text =
     with_json_body text (\<lambda>body w.
       let value = js_trim (string_field body field)
       in if value = [] then (Inr (validation_error missing), w)
          else proxyPublicAuthPost env net path (JObj [(field, JStr value)]) w)"

definition post_confirm_email_change ::
  "env \<Rightarrow> network \<Rightarrow> string \<Rightarrow> 'j server \<Rightarrow> handler_result \<times> 'j server" where
  "post_confirm_email_change env net =
     post_one_field env net ''token'' ''Confirmation token is required'' ep_users_emailChangeConfirm"

definition post_forgot_password ::
  "env \<Rightarrow> network \<Rightarrow> string \<Rightarrow> 'j server \<Rightarrow> handler_result \<times> 'j server" where
  "post_forgot_password env net =
     post_one_field env net ''email'' ''Email is required'' ep_auth_forgotPassword"

definition post_verify_email ::
  "env \<Rightarrow> network \<Rightarrow> string \<Rightarrow> 'j server \<Rightarrow> handler_result \<times> 'j server" where
  "post_verify_email env net =
     post_one_field env net ''token'' ''Verification token is required'' ep_auth_verifyEmail"

definition post_reset_password ::
  "env \<Rightarrow> network \<Rightarrow> string \<Rightarrow> 'j server \<Rightarrow> handler_result \<times> 'j server" where
  "post_reset_password env net text =
     with_json_body text (\<lambda>body w.
       let token = js_trim (string_field body ''token'');
           newPassword = string_field body ''new_password''
       in if token = [] then (Inr (validation_error ''Reset token is required''), w)
          else if bad_new_password newPassword then (Inr (password_error), w)
          else proxyPublicAuthPost env net ep_auth_resetPassword
                 (JObj [(''token'', JStr token), (''new_password'', JStr newPassword)]) w)"

definition post_send_verification ::
  "'j jar_ops \<Rightarrow> env \<Rightarrow> network \<Rightarrow> 'j server \<Rightarrow> handler_result \<times> 'j server" where
  "post_send_verification ops env net w =
     proxyAuthenticatedAuth ops env net
       \<lparr>ac_method = ''POST'', ac_upstreamPath = ep_auth_sendVerification, ac_body = None,
        ac_includeRefreshHeader = False\<rparr> w"

section \<open>Sessions\<close>

definition get_sessions ::
  "'j jar_ops \<Rightarrow> env \<Rightarrow> network \<Rightarrow> 'j server \<Rightarrow> handler_result \<times> 'j server" where
  "get_sessions ops env net w =
     proxyAuthenticatedAuth ops env net
       \<lparr>ac_method = ''GET'', ac_upstreamPath = ep_auth_sessions, ac_body = None,
        ac_includeRefreshHeader = True\<rparr> w"

definition delete_session ::
  "'j jar_ops \<Rightarrow> env \<Rightarrow> network \<Rightarrow> string option \<Rightarrow> 'j server \<Rightarrow> handler_result \<times> 'j server" where
  "delete_session ops env net sessionId w =
     (case nonempty_opt (map_option js_trim sessionId) of
        None \<Rightarrow> (Inr (validation_error ''Session id is required''), w)
      | Some trimmed \<Rightarrow>
          proxyAuthenticatedAuth ops env net
            \<lparr>ac_method = ''DELETE'', ac_upstreamPath = ep_auth_session trimmed, ac_body = None,
             ac_includeRefreshHeader = False\<rparr> w)"


section \<open>Properties of the session routes\<close>

lemma login_outcome_cookies:
  assumes "jar (snd (login_outcome ops env a w)) \<noteq> jar w"
  obtains r v t where "a = Inr r" "response_ok r" "parseJsonSafe r = Inr v" "read_token_pair v = Some t"
    "login_outcome ops env a w = (Inr (json_reply 200 [] (JObj [(''success'', JBool True),
        (''expires_in'', at_expires_in t)])), setAuthCookies ops env t w)"
  using assms by (auto simp: login_outcome_def split: sum.splits option.splits if_splits)

lemma login_outcome_sent [simp]: "sent (snd (login_outcome ops env a w)) = sent w"
  by (auto simp: login_outcome_def split: sum.splits option.splits if_splits)

text \<open>Signing in changes the cookies only when the body named a user and a password, the
  backend accepted the form built of exactly these two, and answered with both tokens; the
  jar then holds these tokens, and the answer to the browser is the success envelope with
  the lifetime only, so no token is ever readable by scripts.\<close>

theorem login_sets_session:
  assumes "cookie_store ops" and "jar (snd (post_login ops env net text w)) \<noteq> jar w"
  shows "\<exists>body r v t. json_parse text = Some body
    \<and> js_trim (string_field body ''username'') \<noteq> [] \<and> string_field body ''password'' \<noteq> []
    \<and> (let rq = login_request env (js_trim (string_field body ''username'')) (string_field body ''password'')
       in net (sent w) rq = Inr r \<and> sent (snd (post_login ops env net text w)) = sent w @ [rq])
    \<and> response_ok r \<and> parseJsonSafe r = Inr v \<and> read_token_pair v = Some t
    \<and> getAccessToken ops (snd (post_login ops env net text w)) = Some (at_access t)
    \<and> getRefreshToken ops (snd (post_login ops env net text w)) = Some (at_refresh t)
    \<and> fst (post_login ops env net text w) = Inr (json_reply 200 []
         (JObj [(''success'', JBool True), (''expires_in'', at_expires_in t)]))"
proof -
  obtain body where body: "json_parse text = Some body" "body \<noteq> JNull"
    using assms(2) by (auto simp: post_login_def with_json_body_def split: option.splits if_splits)
  let ?u = "js_trim (string_field body ''username'')" and ?p = "string_field body ''password''"
  let ?rq = "login_request env ?u ?p"
  have ne: "?u \<noteq> []" "?p \<noteq> []"
    using assms(2) body by (auto simp: post_login_def with_json_body_def Let_def split: if_splits)
  have eq: "post_login ops env net text w =
      login_outcome ops env (net (sent w) ?rq) (w\<lparr>sent := sent w @ [?rq]\<rparr>)"
    using body ne by (simp add: post_login_def with_json_body_def Let_def fetch_def)
  from assms(2) have "jar (snd (login_outcome ops env (net (sent w) ?rq) (w\<lparr>sent := sent w @ [?rq]\<rparr>)))
      \<noteq> jar (w\<lparr>sent := sent w @ [?rq]\<rparr>)" by (simp add: eq)
  then obtain r v t where "net (sent w) ?rq = Inr r" "response_ok r" "parseJsonSafe r = Inr v"
    "read_token_pair v = Some t"
    "login_outcome ops env (net (sent w) ?rq) (w\<lparr>sent := sent w @ [?rq]\<rparr>) =
       (Inr (json_reply 200 [] (JObj [(''success'', JBool True), (''expires_in'', at_expires_in t)])),
        setAuthCookies ops env t (w\<lparr>sent := sent w @ [?rq]\<rparr>))"
    by (rule login_outcome_cookies)
  then show ?thesis using body ne cookie_store.get_after_setAuthCookies [OF assms(1)]
    by (auto simp: eq Let_def)
qed

definition ex_login_net :: network where
  "ex_login_net past rq = Inr (ex_response 200
     (json_stringify (JObj [(''access_token'', JStr ''new''), (''refresh_token'', JStr ''r2'')])))"

definition ex_login_text :: string where
  "ex_login_text = json_stringify (JObj [(''username'', JStr '' ada ''), (''password'', JStr ''pw'')])"

lemma login_sets_session_witness:
  "(\<exists>body (t::auth_tokens). json_parse ex_login_text = Some body
    \<and> getAccessToken mem_ops (snd (post_login mem_ops ex_env ex_login_net ex_login_text ex_server)) = Some (at_access t))
   \<and> sent (snd (post_login mem_ops ex_env ex_login_net ex_login_text ex_server)) = [login_request ex_env ''ada'' ''pw'']"
proof -
  have a: "jar (snd (post_login mem_ops ex_env ex_login_net ex_login_text ex_server)) \<noteq> jar ex_server"
    by code_simp
  have b: "sent (snd (post_login mem_ops ex_env ex_login_net ex_login_text ex_server))
      = [login_request ex_env ''ada'' ''pw'']" by code_simp
  obtain body and t :: auth_tokens where "json_parse ex_login_text = Some body"
    "getAccessToken mem_ops (snd (post_login mem_ops ex_env ex_login_net ex_login_text ex_server)) = Some (at_access t)"
    using login_sets_session [OF cookie_store_mem a] by (elim exE conjE) blast
  with b show ?thesis by blast
qed

text \<open>Signing out ends the session whatever the network does: both cookies read back as
  empty, the answer is success, and the backend is told at most once, with the refresh
  token (respectively the access token) of the jar.\<close>

theorem logout_always_ends_session:
  assumes "cookie_store ops"
  shows "getAccessToken ops (snd (post_logout ops env net w)) = Some []
    \<and> getRefreshToken ops (snd (post_logout ops env net w)) = Some []
    \<and> getAccessToken ops (snd (post_logout_all ops env net w)) = Some []
    \<and> getRefreshToken ops (snd (post_logout_all ops env net w)) = Some []
    \<and> fst (post_logout ops env net w) = Inr (json_reply 200 [] (JObj [(''success'', JBool True)]))
    \<and> fst (post_logout_all ops env net w) = Inr (json_reply 200 [] (JObj [(''success'', JBool True)]))
    \<and> sent (snd (post_logout ops env net w)) = sent w @
        (case nonempty_opt (getRefreshToken ops w) of None \<Rightarrow> []
         | Some t \<Rightarrow> [json_post (server_base env @ ep_auth_logout) (JObj [(''refresh_token'', JStr t)])])
    \<and> sent (snd (post_logout_all ops env net w)) = sent w @
        (case nonempty_opt (getAccessToken ops w) of None \<Rightarrow> [] | Some t \<Rightarrow> [logout_all_request env t])"
  by (simp add: post_logout_def post_logout_all_def Let_def clear_twice_reads [OF assms]
      split: option.split)

lemma logout_always_ends_session_witness:
  "getAccessToken mem_ops (snd (post_logout mem_ops ex_env ex_down ex_server)) = Some []
   \<and> getRefreshToken mem_ops (snd (post_logout mem_ops ex_env ex_down ex_server)) = Some []"
  using logout_always_ends_session [OF cookie_store_mem, of ex_env ex_down ex_server] by blast

section \<open>Validation before any request\<close>

lemma one_field_sent:
  "sent (snd (post_one_field env net field missing path text w)) =
   (case json_parse text of None \<Rightarrow> sent w
    | Some body \<Rightarrow>
       if body = JNull \<or> js_trim (string_field body field) = [] then sent w
       else sent w @ [json_post (server_base env @ path)
                        (JObj [(field, JStr (js_trim (string_field body field)))])])"
  by (auto simp: post_one_field_def with_json_body_def Let_def proxyPublicAuthPost_def fetch_def
      split: option.split)

lemma reset_password_sent:
  "sent (snd (post_reset_password env net text w)) =
   (case json_parse text of None \<Rightarrow> sent w
    | Some body \<Rightarrow>
       if body = JNull \<or> js_trim (string_field body ''token'') = []
          \<or> length (string_field body ''new_password'') < PASSWORD_MIN then sent w
       else sent w @ [json_post (server_base env @ ep_auth_resetPassword)
                        (JObj [(''token'', JStr (js_trim (string_field body ''token''))),
                               (''new_password'', JStr (string_field body ''new_password''))])])"
  by (auto simp: post_reset_password_def with_json_body_def Let_def proxyPublicAuthPost_def fetch_def
      bad_new_password_def PASSWORD_MIN_def split: option.split)

text \<open>A password reset leaves for the backend only with a non-blank token and a new
  password of the minimal length, both taken from the body; every other body is answered
  locally (400, or a throw for the value \<open>null\<close>) and sends nothing.\<close>

theorem reset_password_validates:
  "if \<exists>body. json_parse text = Some body \<and> body \<noteq> JNull \<and> js_trim (string_field body ''token'') \<noteq> []
        \<and> PASSWORD_MIN \<le> length (string_field body ''new_password'')
   then \<exists>token password. token \<noteq> [] \<and> PASSWORD_MIN \<le> length password \<and>
      sent (snd (post_reset_password env net text w)) = sent w @ [json_post
        (server_base env @ ep_auth_resetPassword) (JObj [(''token'', JStr token), (''new_password'', JStr password)])]
   else snd (post_reset_password env net text w) = w
     \<and> (case fst (post_reset_password env net text w) of Inl e \<Rightarrow> e = type_error | Inr p \<Rightarrow> rp_status p = 400)"
proof (cases "json_parse text")
  case None
  then show ?thesis
    by (simp add: post_reset_password_def with_json_body_def validation_error_def json_reply_def)
next
  case (Some body)
  show ?thesis
  proof (cases "body \<noteq> JNull \<and> js_trim (string_field body ''token'') \<noteq> []
      \<and> PASSWORD_MIN \<le> length (string_field body ''new_password'')")
    case True
    with Some show ?thesis by (auto simp: reset_password_sent)
  next
    case False
    with Some show ?thesis
      by (auto simp: post_reset_password_def with_json_body_def Let_def validation_error_def
          json_reply_def bad_new_password_def password_error_def)
  qed
qed

text \<open>The body \<open>null\<close> is valid JSON without fields: the handlers throw instead of answering 400.\<close>

lemma null_body_throws:
  "post_login ops env net ''null'' w = (Inl type_error, w)"
  "post_change_password ops env net ''null'' w = (Inl type_error, w)"
  "post_forgot_password env net ''null'' w = (Inl type_error, w)"
proof -
  have "json_parse ''null'' = Some JNull" by code_simp
  then show "post_login ops env net ''null'' w = (Inl type_error, w)"
    "post_change_password ops env net ''null'' w = (Inl type_error, w)"
    "post_forgot_password env net ''null'' w = (Inl type_error, w)"
    by (simp_all add: post_login_def post_change_password_def post_forgot_password_def
        post_one_field_def with_json_body_def)
qed

end
