(* ===== verification/Routing.thy ===== *)
theory Routing
  imports Auth_Cookies Js_Url
begin

text \<open>
  lib/utils/return-url.ts and middleware.ts: which path a visitor may be sent back to after
  signing in, and which pages need a session.
\<close>

section \<open>Safe return paths\<close>

definition default_return :: string where "default_return = ''/dashboard''"

text \<open>\<open>None\<close> stands for \<open>null\<close> and \<open>undefined\<close>.\<close>

definition getSafeReturnUrl :: "string option \<Rightarrow> string \<Rightarrow> string" where
  "getSafeReturnUrl value fallback =
     (case value of None \<Rightarrow> fallback
      | Some v \<Rightarrow>
         (let trimmed = js_trim v in
          if \<not> starts_with trimmed ''/'' \<or> starts_with trimmed ''//'' then fallback
          else if str_includes trimmed [CHR 0x5C] \<or> str_includes trimmed ''://''
                  \<or> str_includes trimmed [CHR 0x00] then fallback
          else trimmed))"

section \<open>The middleware\<close>

definition PROTECTED_PREFIXES :: "string list" where
  "PROTECTED_PREFIXES =
     [''/dashboard'', ''/chat'', ''/logs'', ''/generators'', ''/reviews'', ''/artifacts'',
      ''/organizations'', ''/tasks'', ''/settings'', ''/usage'', ''/onboarding'']"

definition AUTH_PAGES :: "string list" where "AUTH_PAGES = [''/login'', ''/register'']"

definition isProtectedPath :: "string \<Rightarrow> bool" where
  "isProtectedPath pathname =
     (\<exists>prefix\<in>set PROTECTED_PREFIXES. pathname = prefix \<or> starts_with pathname (prefix @ ''/''))"

text \<open>The request as the middleware reads it; cookies by name.\<close>

record page_request =
  pr_pathname :: string
  pr_search :: string
  pr_cookies :: "string \<Rightarrow> string option"

definition hasSessionCookies :: "page_request \<Rightarrow> bool" where
  "hasSessionCookies rq = (truthy_str (pr_cookies rq ACCESS_COOKIE) \<or> truthy_str (pr_cookies rq REFRESH_COOKIE))"

definition hasAccessCookie :: "page_request \<Rightarrow> bool" where
  "hasAccessCookie rq = truthy_str (pr_cookies rq ACCESS_COOKIE)"

text \<open>A redirect keeps the origin and replaces path and search.\<close>

datatype middleware_result = Next | Redirect string string

definition skipped_path :: "string \<Rightarrow> bool" where
  "skipped_path pathname = (starts_with pathname ''/api/'' \<or> starts_with pathname ''/_next/''
     \<or> pathname = ''/favicon.ico'' \<or> pathname = ''/'')"

definition middleware :: "page_request \<Rightarrow> middleware_result" where
  "middleware rq =
     (let pathname = pr_pathname rq in
      if skipped_path pathname then Next
      else if isProtectedPath pathname \<and> \<not> hasSessionCookies rq then
        (let returnUrl = getSafeReturnUrl (Some (pathname @ pr_search rq)) default_return
         in Redirect ''/login'' (''?returnUrl='' @ encodeURIComponent returnUrl))
      else if pathname \<in> set AUTH_PAGES \<and> hasAccessCookie rq then Redirect ''/dashboard'' []
      else Next)"

text \<open>The \<open>matcher\<close> of the middleware: static assets never reach it.\<close>

definition matcher_applies :: "string \<Rightarrow> bool" where
  "matcher_applies pathname =
     (starts_with pathname ''/'' \<and>
      (let rest = drop 1 pathname in
       \<not> starts_with rest ''_next/static'' \<and> \<not> starts_with rest ''_next/image'' \<and>
       \<not> (\<exists>ext\<in>set [''.svg'', ''.png'', ''.jpg'', ''.jpeg'', ''.gif'', ''.webp'', ''.ico''].
            ends_with rest ext)))"

text \<open>What a visitor gets: a path the matcher leaves out is served without the middleware.\<close>

definition page_answer :: "page_request \<Rightarrow> middleware_result" where
  "page_answer rq = (if matcher_applies (pr_pathname rq) then middleware rq else Next)"

section \<open>What is safe\<close>

text \<open>
  The standard for URLs: before a reference is parsed its tabs and line breaks are dropped;
  a reference that then begins with two slashes (or a slash and a backslash) names a host.
\<close>

definition url_cleaned :: "string \<Rightarrow> string" where
  "url_cleaned u = filter (\<lambda>c. c \<notin> {CHR 0x09, CHR 0x0A, CHR 0x0D}) u"

definition same_origin_path :: "string \<Rightarrow> bool" where
  "same_origin_path u =
     (let v = url_cleaned u in
      starts_with v ''/'' \<and> \<not> starts_with v ''//'' \<and> \<not> starts_with v [CHR ''/'', CHR 0x5C])"

lemma getSafeReturnUrl_cases:
  obtains (fallback) "getSafeReturnUrl r fb = fb"
  | (path) v where "r = Some v" "getSafeReturnUrl r fb = js_trim v"
      "starts_with (js_trim v) ''/''" "\<not> starts_with (js_trim v) ''//''"
      "CHR 0x5C \<notin> set (js_trim v)" "CHR 0x00 \<notin> set (js_trim v)" "\<not> str_includes (js_trim v) ''://''"
proof (cases r)
  case None
  then show ?thesis by (intro fallback) (simp add: getSafeReturnUrl_def)
next
  case (Some v)
  let ?t = "js_trim v"
  let ?bad = "\<not> starts_with ?t ''/'' \<or> starts_with ?t ''//'' \<or> CHR 0x5C \<in> set ?t
      \<or> str_includes ?t ''://'' \<or> CHR 0x00 \<in> set ?t"
  have eq: "getSafeReturnUrl r fb = (if ?bad then fb else ?t)"
    unfolding Some getSafeReturnUrl_def option.case Let_def includes_singleton by presburger
  show ?thesis
  proof (cases ?bad)
    case True
    with eq show ?thesis by (intro fallback) (simp only: if_True)
  next
    case False
    with eq have "getSafeReturnUrl r fb = ?t" by (simp only: if_False)
    with False Some show ?thesis by (intro path [of v]) blast+
  qed
qed

lemma getSafeReturnUrl_idem:
  "getSafeReturnUrl (Some (getSafeReturnUrl r default_return)) default_return = getSafeReturnUrl r default_return"
proof (cases rule: getSafeReturnUrl_cases [of r default_return])
  case fallback
  moreover have "getSafeReturnUrl (Some default_return) default_return = default_return" by code_simp
  ultimately show ?thesis by simp
next
  case (path v)
  then have "getSafeReturnUrl (Some (js_trim v)) default_return = js_trim v"
    unfolding getSafeReturnUrl_def option.case Let_def includes_singleton js_trim_idem by simp
  with path show ?thesis by simp
qed

lemma url_cleaned_id: "\<forall>c\<in>set u. c \<notin> {CHR 0x09, CHR 0x0A, CHR 0x0D} \<Longrightarrow> url_cleaned u = u"
  by (auto simp: url_cleaned_def intro!: filter_True)

section \<open>Properties\<close>

text \<open>C39: a return path that contains no tab or line break after trimming is accepted only if a
  browser resolves it inside the same origin: the result is the fallback or a path that
  names no host.\<close>

theorem safe_return_stays_on_origin:
  assumes "same_origin_path fallback"
    and "\<forall>c\<in>set (js_trim v). c \<notin> {CHR 0x09, CHR 0x0A, CHR 0x0D}"
  shows "same_origin_path (getSafeReturnUrl (Some v) fallback)"
proof (cases rule: getSafeReturnUrl_cases [of "Some v" fallback])
  case (path w)
  have "\<not> starts_with u [CHR ''/'', CHR 0x5C]" if "CHR 0x5C \<notin> set u" for u
    using that by (auto simp: starts_with_iff)
  with path assms(2) show ?thesis
    by (simp add: same_origin_path_def url_cleaned_id Let_def del: starts_with_Cons)
qed (use assms(1) in simp)

lemma safe_return_stays_on_origin_witness:
  "same_origin_path (getSafeReturnUrl (Some '' /logs?id=1 '') default_return)"
proof (rule safe_return_stays_on_origin)
  show "same_origin_path default_return" by code_simp
  show "\<forall>c\<in>set (js_trim '' /logs?id=1 ''). c \<notin> {CHR 0x09, CHR 0x0A, CHR 0x0D}" by code_simp
qed

text \<open>Without that condition the guarantee fails: a tab hides the second slash from the check.\<close>

lemma inner_tab_escapes_origin:
  "let v = ''/'' @ [CHR 0x09] @ ''/evil.example'' in
     getSafeReturnUrl (Some v) default_return = v \<and> url_cleaned v = ''//evil.example''
     \<and> \<not> same_origin_path (getSafeReturnUrl (Some v) default_return)"
  by code_simp


lemma return_query: "usp_get (usp_parse (''?returnUrl='' @ encodeURIComponent u)) ''returnUrl'' = Some u"
proof -
  have "form_decode ''returnUrl'' = ''returnUrl''" by code_simp
  from usp_parse_single [OF this, of u] show ?thesis by (simp add: usp_get_def)
qed

lemma login_page_facts:
  "skipped_path ''/login'' = False" "skipped_path ''/dashboard'' = False" "isProtectedPath ''/login'' = False"
  "isProtectedPath ''/dashboard'' = True" "''/login'' \<in> set AUTH_PAGES" "''/dashboard'' \<notin> set AUTH_PAGES"
  by code_simp+

lemma access_is_session: "hasAccessCookie rq \<Longrightarrow> hasSessionCookies rq"
  by (simp add: hasAccessCookie_def hasSessionCookies_def)

text \<open>No protected page is among the paths the middleware passes over.\<close>

lemma protected_not_skipped: "isProtectedPath p \<Longrightarrow> \<not> skipped_path p"
  by (auto simp: isProtectedPath_def PROTECTED_PREFIXES_def skipped_path_def starts_with_iff)

text \<open>C40: a visitor without session cookies who opens a protected page that the matcher hands to the
  middleware is sent to the login page, with the page as return path; what the login form reads
  back of that address is the page that was asked for (query included) whenever that is a safe
  return path, and the dashboard otherwise.  A protected path the matcher leaves out, such as one
  that ends like the name of a picture, is served without a session.\<close>

theorem protected_page_returns_after_login:
  assumes "isProtectedPath (pr_pathname rq)" and "\<not> hasSessionCookies rq"
  shows "if matcher_applies (pr_pathname rq)
    then \<exists>search. page_answer rq = Redirect ''/login'' search \<and>
      getSafeReturnUrl (usp_get (usp_parse search) ''returnUrl'') default_return
        = getSafeReturnUrl (Some (pr_pathname rq @ pr_search rq)) default_return
    else page_answer rq = Next"
proof -
  let ?u = "getSafeReturnUrl (Some (pr_pathname rq @ pr_search rq)) default_return"
  have "middleware rq = Redirect ''/login'' (''?returnUrl='' @ encodeURIComponent ?u)"
    using assms protected_not_skipped [OF assms(1)] unfolding middleware_def Let_def by presburger
  moreover have "getSafeReturnUrl (usp_get (usp_parse (''?returnUrl='' @ encodeURIComponent ?u)) ''returnUrl'')
      default_return = ?u"
    unfolding return_query by (rule getSafeReturnUrl_idem)
  ultimately show ?thesis by (simp add: page_answer_def)
qed

lemma protected_page_returns_after_login_witness:
  "(let rq = \<lparr>pr_pathname = ''/tasks/7'', pr_search = ''?a=b c'', pr_cookies = (\<lambda>_. None)\<rparr> in
     \<exists>search. page_answer rq = Redirect ''/login'' search \<and>
       getSafeReturnUrl (usp_get (usp_parse search) ''returnUrl'') default_return = ''/tasks/7?a=b c'')
   \<and> page_answer \<lparr>pr_pathname = ''/artifacts/a.png'', pr_search = [], pr_cookies = (\<lambda>_. None)\<rparr> = Next"
proof -
  let ?rq = "\<lparr>pr_pathname = ''/tasks/7'', pr_search = ''?a=b c'', pr_cookies = (\<lambda>_. None)\<rparr>"
  let ?png = "\<lparr>pr_pathname = ''/artifacts/a.png'', pr_search = [], pr_cookies = (\<lambda>_. None)\<rparr>"
  have "isProtectedPath (pr_pathname ?rq)" "\<not> hasSessionCookies ?rq" "matcher_applies (pr_pathname ?rq)"
    "getSafeReturnUrl (Some (pr_pathname ?rq @ pr_search ?rq)) default_return = ''/tasks/7?a=b c''"
    by code_simp+
  moreover have "isProtectedPath (pr_pathname ?png)" "\<not> hasSessionCookies ?png" "\<not> matcher_applies (pr_pathname ?png)"
    by code_simp+
  ultimately show ?thesis
    using protected_page_returns_after_login [of ?rq] protected_page_returns_after_login [of ?png] by simp
qed

text \<open>Redirects settle after one step: the target of a redirect, asked for with the same
  cookies, is served.\<close>

theorem middleware_redirects_once:
  "case middleware rq of Next \<Rightarrow> True
   | Redirect p s \<Rightarrow> middleware (rq\<lparr>pr_pathname := p, pr_search := s\<rparr>) = Next"
proof -
  have [simp]: "hasSessionCookies (rq\<lparr>pr_pathname := p, pr_search := s\<rparr>) = hasSessionCookies rq"
    "hasAccessCookie (rq\<lparr>pr_pathname := p, pr_search := s\<rparr>) = hasAccessCookie rq" for p s
    by (simp_all add: hasSessionCookies_def hasAccessCookie_def)
  consider "skipped_path (pr_pathname rq)"
    | "\<not> skipped_path (pr_pathname rq)" "isProtectedPath (pr_pathname rq)" "\<not> hasSessionCookies rq"
    | "\<not> skipped_path (pr_pathname rq)" "isProtectedPath (pr_pathname rq) \<longrightarrow> hasSessionCookies rq"
    by blast
  then show ?thesis
  proof cases
    case 2
    with access_is_session [of rq] show ?thesis
      by (auto simp: middleware_def Let_def login_page_facts)
  next
    case 3
    with access_is_session [of rq] show ?thesis
      by (auto simp: middleware_def Let_def login_page_facts)
  qed (simp add: middleware_def)
qed

end
