(* ===== verification/List_Query.thy ===== *)
theory List_Query
  imports Js_Url
begin

text \<open>
  lib/url/list-query.ts: the filters of the artifact list, kept in the address bar.
\<close>

datatype sort_order = Asc | Desc

record list_query =
  lq_page :: nat
  lq_search :: "string option"
  lq_artifactType :: "string option"
  lq_tag :: "string option"
  lq_favoritesOnly :: bool
  lq_includeArchived :: bool
  lq_sortBy :: "string option"
  lq_sortOrder :: "sort_order option"

section \<open>Parsing\<close>

text \<open>\<open>Number(null)\<close> is zero.\<close>

definition asPositiveInt :: "string option \<Rightarrow> nat \<Rightarrow> nat" where
  "asPositiveInt v fallback =
     (case (case v of None \<Rightarrow> Fin 0 | Some s \<Rightarrow> js_Number s) of
        Fin q \<Rightarrow> (if is_integer_num (Fin q) \<and> 0 < q then nat \<lfloor>q\<rfloor> else fallback)
      | _ \<Rightarrow> fallback)"

definition parseListQuery :: "search_params \<Rightarrow> list_query" where
  "parseListQuery sp =
     \<lparr>lq_page = asPositiveInt (usp_get sp ''page'') 1,
      lq_search = nonempty_opt (usp_get sp ''search''),
      lq_artifactType = nonempty_opt (usp_get sp ''artifact_type''),
      lq_tag = nonempty_opt (usp_get sp ''tag''),
      lq_favoritesOnly = (usp_get sp ''favorites_only'' = Some ''true''),
      lq_includeArchived = (usp_get sp ''include_archived'' = Some ''true''),
      lq_sortBy = nonempty_opt (usp_get sp ''sort_by''),
      lq_sortOrder = (if usp_get sp ''sort_order'' = Some ''asc'' then Some Asc
        else if usp_get sp ''sort_order'' = Some ''desc'' then Some Desc else None)\<rparr>"

section \<open>Serialising\<close>

text \<open>
  A partial update: \<open>None\<close> is a key that is not present, \<open>Some None\<close> a key present with the
  value \<open>undefined\<close>.
\<close>

record list_update =
  up_page :: "nat option option"
  up_search :: "string option option"
  up_artifactType :: "string option option"
  up_tag :: "string option option"
  up_favoritesOnly :: "bool option option"
  up_includeArchived :: "bool option option"
  up_sortBy :: "string option option"
  up_sortOrder :: "sort_order option option"

datatype lvalue = LStr string | LNum nat | LBool bool

fun lvalue_string :: "lvalue \<Rightarrow> string" where
  "lvalue_string (LStr s) = s"
| "lvalue_string (LNum n) = show_nat n"
| "lvalue_string (LBool b) = (if b then ''true'' else ''false'')"

definition write_param :: "string \<Rightarrow> lvalue option \<Rightarrow> string option \<Rightarrow> search_params \<Rightarrow> search_params" where
  "write_param key v dflt params =
     (case v of None \<Rightarrow> usp_delete key params
      | Some x \<Rightarrow>
         if x = LBool False \<or> x = LStr [] \<or> Some (lvalue_string x) = dflt then usp_delete key params
         else usp_set key (lvalue_string x) params)"

definition sort_order_string :: "sort_order \<Rightarrow> string" where
  "sort_order_string d = (case d of Asc \<Rightarrow> ''asc'' | Desc \<Rightarrow> ''desc'')"

text \<open>\<open>if (key in state) write(...)\<close>\<close>

definition write_if :: "string \<Rightarrow> ('a \<Rightarrow> lvalue) \<Rightarrow> 'a option option \<Rightarrow> string option \<Rightarrow> search_params \<Rightarrow> search_params" where
  "write_if key f v dflt params =
     (case v of None \<Rightarrow> params | Some x \<Rightarrow> write_param key (map_option f x) dflt params)"

definition updateListQuery :: "list_update \<Rightarrow> search_params \<Rightarrow> search_params" where
  "updateListQuery up p0 =
     (let p1 = write_if ''page'' LNum (up_page up) (Some ''1'') p0;
          p2 = write_if ''search'' LStr (up_search up) None p1;
          p3 = write_if ''artifact_type'' LStr (up_artifactType up) None p2;
          p4 = write_if ''tag'' LStr (up_tag up) None p3;
          p5 = write_if ''favorites_only'' LBool (up_favoritesOnly up) None p4;
          p6 = write_if ''include_archived'' LBool (up_includeArchived up) None p5;
          p7 = write_if ''sort_by'' LStr (up_sortBy up) None p6
      in write_if ''sort_order'' (\<lambda>d. LStr (sort_order_string d)) (up_sortOrder up) None p7)"

text \<open>The text goes through \<open>new URLSearchParams(current.toString())\<close>.\<close>

definition serializeListQuery :: "list_update \<Rightarrow> search_params \<Rightarrow> string" where
  "serializeListQuery up current = usp_toString (updateListQuery up (usp_parse (usp_toString current)))"

section \<open>Reading one parameter after an update\<close>

lemma usp_get_write:
  "usp_get (write_param key v dflt ps) k =
   (if k = key then (case v of None \<Rightarrow> None
      | Some x \<Rightarrow> if x = LBool False \<or> x = LStr [] \<or> Some (lvalue_string x) = dflt then None
                 else Some (lvalue_string x))
    else usp_get ps k)"
  by (auto simp: write_param_def usp_get_set usp_get_delete split: option.splits)

lemma usp_get_write_if:
  "usp_get (write_if key f v dflt ps) k =
   (if k = key \<and> v \<noteq> None then usp_get (write_param key (map_option f (the v)) dflt []) key else usp_get ps k)"
  by (auto simp: write_if_def usp_get_write split: option.splits)

definition full_update :: "list_query \<Rightarrow> list_update" where
  "full_update q =
     \<lparr>up_page = Some (Some (lq_page q)), up_search = Some (lq_search q),
      up_artifactType = Some (lq_artifactType q), up_tag = Some (lq_tag q),
      up_favoritesOnly = Some (Some (lq_favoritesOnly q)),
      up_includeArchived = Some (Some (lq_includeArchived q)),
      up_sortBy = Some (lq_sortBy q), up_sortOrder = Some (lq_sortOrder q)\<rparr>"

definition well_formed_query :: "list_query \<Rightarrow> bool" where
  "well_formed_query q = (0 < lq_page q \<and> lq_search q \<noteq> Some [] \<and> lq_artifactType q \<noteq> Some []
     \<and> lq_tag q \<noteq> Some [] \<and> lq_sortBy q \<noteq> Some [])"

lemma nonempty_opt_id: "v \<noteq> Some [] \<Longrightarrow> nonempty_opt v = v"
  by (auto simp: nonempty_opt_def split: option.splits)

lemma nonempty_opt_ne [simp]: "nonempty_opt v \<noteq> Some []"
  by (auto simp: nonempty_opt_def split: option.splits)

lemma get_written_string:
  "v \<noteq> Some [] \<Longrightarrow> usp_get (write_param key (map_option LStr v) None []) key = v"
  by (auto simp: usp_get_write split: option.splits)

lemma asPositiveInt_show: "asPositiveInt (Some (show_nat n)) d = (if 0 < n then n else d)"
  by (simp add: asPositiveInt_def js_Number_show_nat is_integer_num_def)

lemma asPositiveInt_pos: "0 < d \<Longrightarrow> 0 < asPositiveInt v d"
proof -
  have "0 < nat \<lfloor>q\<rfloor>" if "(q::rat) = of_int \<lfloor>q\<rfloor>" "0 < q" for q
    using that by (metis of_int_0_less_iff zero_less_nat_eq)
  then show "0 < d \<Longrightarrow> 0 < asPositiveInt v d"
    by (auto simp: asPositiveInt_def is_integer_num_def split: option.splits jsnum.splits)
qed


text \<open>What one update leaves in each parameter.\<close>

lemma get_update:
  fixes up ps
  defines "ps' \<equiv> updateListQuery up ps"
  shows "usp_get ps' ''page'' = (if up_page up = None then usp_get ps ''page''
           else usp_get (write_param ''page'' (map_option LNum (the (up_page up))) (Some ''1'') []) ''page'')"
    "usp_get ps' ''search'' = (if up_search up = None then usp_get ps ''search''
           else usp_get (write_param ''search'' (map_option LStr (the (up_search up))) None []) ''search'')"
    "usp_get ps' ''artifact_type'' = (if up_artifactType up = None then usp_get ps ''artifact_type''
           else usp_get (write_param ''artifact_type'' (map_option LStr (the (up_artifactType up))) None []) ''artifact_type'')"
    "usp_get ps' ''tag'' = (if up_tag up = None then usp_get ps ''tag''
           else usp_get (write_param ''tag'' (map_option LStr (the (up_tag up))) None []) ''tag'')"
    "usp_get ps' ''favorites_only'' = (if up_favoritesOnly up = None then usp_get ps ''favorites_only''
           else usp_get (write_param ''favorites_only'' (map_option LBool (the (up_favoritesOnly up))) None []) ''favorites_only'')"
    "usp_get ps' ''include_archived'' = (if up_includeArchived up = None then usp_get ps ''include_archived''
           else usp_get (write_param ''include_archived'' (map_option LBool (the (up_includeArchived up))) None []) ''include_archived'')"
    "usp_get ps' ''sort_by'' = (if up_sortBy up = None then usp_get ps ''sort_by''
           else usp_get (write_param ''sort_by'' (map_option LStr (the (up_sortBy up))) None []) ''sort_by'')"
    "usp_get ps' ''sort_order'' = (if up_sortOrder up = None then usp_get ps ''sort_order''
           else usp_get (write_param ''sort_order''
             (map_option (\<lambda>d. LStr (sort_order_string d)) (the (up_sortOrder up))) None []) ''sort_order'')"
  unfolding ps'_def updateListQuery_def Let_def usp_get_write_if by simp_all

definition list_query_keys :: "string list" where
  "list_query_keys = [''page'', ''search'', ''artifact_type'', ''tag'', ''favorites_only'',
     ''include_archived'', ''sort_by'', ''sort_order'']"

lemma get_update_other:
  "k \<notin> set list_query_keys \<Longrightarrow> usp_get (updateListQuery up ps) k = usp_get ps k"
  unfolding updateListQuery_def Let_def usp_get_write_if list_query_keys_def by simp

lemma serialize_parse:
  "usp_parse (serializeListQuery up current) = updateListQuery up current"
  by (simp add: serializeListQuery_def usp_roundtrip)

text \<open>Writing a complete filter state into the address bar and reading it back gives the
  state, whatever the address held before; parameters that are no filters are kept.\<close>

theorem list_query_roundtrip:
  assumes "well_formed_query q"
  shows "parseListQuery (usp_parse (serializeListQuery (full_update q) current)) = q
    \<and> (\<forall>k. k \<notin> set list_query_keys \<longrightarrow>
         usp_get (usp_parse (serializeListQuery (full_update q) current)) k = usp_get current k)"
proof -
  let ?ps = "updateListQuery (full_update q) current"
  have strings: "lq_search q \<noteq> Some []" "lq_artifactType q \<noteq> Some []" "lq_tag q \<noteq> Some []"
      "lq_sortBy q \<noteq> Some []" and page: "0 < lq_page q"
    using assms by (simp_all add: well_formed_query_def)
  have one: "show_nat n = ''1'' \<longleftrightarrow> n = 1" for n
  proof -
    have "show_nat 1 = ''1''" by code_simp
    then show ?thesis by (metis show_nat_inj)
  qed
  have p: "asPositiveInt (usp_get ?ps ''page'') 1 = lq_page q"
  proof (cases "lq_page q = 1")
    case True
    then show ?thesis
      by (simp add: get_update(1) full_update_def usp_get_write one asPositiveInt_def is_integer_num_def del: show_nat.simps)
  next
    case False
    with page show ?thesis
      by (simp add: get_update(1) full_update_def usp_get_write one asPositiveInt_show del: show_nat.simps)
  qed
  have s: "nonempty_opt (usp_get ?ps ''search'') = lq_search q"
      "nonempty_opt (usp_get ?ps ''artifact_type'') = lq_artifactType q"
      "nonempty_opt (usp_get ?ps ''tag'') = lq_tag q" "nonempty_opt (usp_get ?ps ''sort_by'') = lq_sortBy q"
    using strings by (simp_all add: get_update full_update_def get_written_string nonempty_opt_id)
  have b: "(usp_get ?ps ''favorites_only'' = Some ''true'') = lq_favoritesOnly q"
      "(usp_get ?ps ''include_archived'' = Some ''true'') = lq_includeArchived q"
    by (simp_all add: get_update full_update_def usp_get_write)
  have d: "(if usp_get ?ps ''sort_order'' = Some ''asc'' then Some Asc
        else if usp_get ?ps ''sort_order'' = Some ''desc'' then Some Desc else None) = lq_sortOrder q"
    by (cases "lq_sortOrder q"; cases "the (lq_sortOrder q)")
       (simp_all add: get_update full_update_def usp_get_write sort_order_string_def)
  show ?thesis
    by (simp add: serialize_parse get_update_other parseListQuery_def p [simplified] s b d)
qed

definition ex_list_query :: list_query where
  "ex_list_query = \<lparr>lq_page = 3, lq_search = Some ''a & b'', lq_artifactType = None, lq_tag = Some ''x'',
     lq_favoritesOnly = True, lq_includeArchived = False, lq_sortBy = None, lq_sortOrder = Some Desc\<rparr>"

lemma list_query_roundtrip_witness:
  "parseListQuery (usp_parse (serializeListQuery (full_update ex_list_query)
     [(''page'', ''9''), (''org'', ''7'')])) = ex_list_query"
proof -
  have "well_formed_query ex_list_query" by code_simp
  from list_query_roundtrip [OF this] show ?thesis by blast
qed

text \<open>Whatever the address bar holds, the parsed state is well formed: the page is at least
  one and no filter is the empty string.\<close>

theorem parsed_query_well_formed: "well_formed_query (parseListQuery sp)"
  by (simp add: well_formed_query_def parseListQuery_def asPositiveInt_pos)

end
