(* ===== verification/Sse_Parser.thy ===== *)
theory Sse_Parser
  imports Js_Prelude
begin

text \<open>
  lib/sse/parse-sse.ts: the incremental parser of an event stream.  The closure variables of
  \<open>createSseParser\<close> are the record \<open>sse_parser\<close>; \<open>push\<close> and \<open>flush\<close> are the two operations.
\<close>

abbreviation NL :: char where "NL \<equiv> CHR 0x0A"

record sse_event =
  ev_event :: string
  ev_data :: string
  ev_id :: "string option"

record sse_parser =
  sp_buffer :: string
  sp_eventName :: string
  sp_dataLines :: "string list"
  sp_eventId :: "string option"

definition createSseParser :: sse_parser where
  "createSseParser = \<lparr>sp_buffer = [], sp_eventName = [], sp_dataLines = [], sp_eventId = None\<rparr>"

section \<open>Lines\<close>

definition resetFields :: "sse_parser \<Rightarrow> sse_parser" where
  "resetFields p = p\<lparr>sp_eventName := [], sp_dataLines := [], sp_eventId := None\<rparr>"

definition emitCurrent :: "sse_parser \<Rightarrow> sse_event option \<times> sse_parser" where
  "emitCurrent p =
     (if sp_eventName p = [] \<and> sp_dataLines p = [] \<and> sp_eventId p = None then (None, p)
      else (Some \<lparr>ev_event = (if sp_eventName p = [] then ''message'' else sp_eventName p),
                  ev_data = js_join [NL] (sp_dataLines p), ev_id = sp_eventId p\<rparr>,
            resetFields p))"

text \<open>The field and the value of a line: one space after the colon is dropped.\<close>

definition split_field :: "string \<Rightarrow> string \<times> string" where
  "split_field line =
     (if CHR '':'' \<notin> set line then (line, [])
      else (let v = tl (dropWhile (\<lambda>c. c \<noteq> CHR '':'') line)
            in (takeWhile (\<lambda>c. c \<noteq> CHR '':'') line, if starts_with v '' '' then drop 1 v else v)))"

definition set_field :: "string \<times> string \<Rightarrow> sse_parser \<Rightarrow> sse_parser" where
  "set_field fv p =
     (if fst fv = ''event'' then p\<lparr>sp_eventName := snd fv\<rparr>
      else if fst fv = ''data'' then p\<lparr>sp_dataLines := sp_dataLines p @ [snd fv]\<rparr>
      else if fst fv = ''id'' then
        (if str_includes (snd fv) [CHR 0x00] then p else p\<lparr>sp_eventId := Some (snd fv)\<rparr>)
      else p)"

definition processLine :: "string \<Rightarrow> sse_parser \<Rightarrow> sse_event option \<times> sse_parser" where
  "processLine line p =
     (if starts_with line '':'' then (None, p)
      else if line = [] then emitCurrent p
      else (None, set_field (split_field line) p))"

definition strip_cr :: "string \<Rightarrow> string" where
  "strip_cr line = (if ends_with line [CHR 0x0D] then butlast line else line)"

definition opt_list :: "'a option \<Rightarrow> 'a list" where
  "opt_list v = (case v of Some x \<Rightarrow> [x] | None \<Rightarrow> [])"

section \<open>Chunks\<close>

text \<open>The loop takes one line of \<open>rest\<close> per round.\<close>

function consumeCompleteLines :: "string \<Rightarrow> sse_parser \<Rightarrow> sse_event list \<times> string \<times> sse_parser" where
  "consumeCompleteLines rest p =
     (if NL \<notin> set rest then ([], rest, p)
      else (let line = strip_cr (takeWhile (\<lambda>c. c \<noteq> NL) rest);
                (emitted, p1) = processLine line p;
                (events, rest', p2) = consumeCompleteLines (tl (dropWhile (\<lambda>c. c \<noteq> NL) rest)) p1
            in (opt_list emitted @ events, rest', p2)))"
  by pat_completeness auto

lemma length_tl_dropWhile_less: "c \<in> set s \<Longrightarrow> length (tl (dropWhile p s)) < length s"
proof -
  assume "c \<in> set s"
  then have "0 < length s" by (cases s) auto
  with length_dropWhile_le [of p s] show ?thesis unfolding length_tl by linarith
qed

termination consumeCompleteLines
  by (relation "measure (\<lambda>(rest, p). length rest)") (auto intro: length_tl_dropWhile_less simp del: length_tl)

declare consumeCompleteLines.simps [simp del]

definition push :: "string \<Rightarrow> sse_parser \<Rightarrow> sse_event list \<times> sse_parser" where
  "push chunk p =
     (case consumeCompleteLines (sp_buffer p @ chunk) p of
        (events, rest, p') \<Rightarrow> (events, p'\<lparr>sp_buffer := rest\<rparr>))"

definition flush :: "sse_parser \<Rightarrow> sse_event list \<times> sse_parser" where
  "flush p =
     (let (events, p1) =
            (if sp_buffer p \<noteq> [] then
               (case consumeCompleteLines (sp_buffer p @ [NL]) p of
                  (events, rest, p') \<Rightarrow> (events, p'\<lparr>sp_buffer := rest\<rparr>))
             else ([], p));
          (trailing, p2) = emitCurrent p1
      in (events @ opt_list trailing, p2\<lparr>sp_buffer := []\<rparr>))"

fun push_all :: "string list \<Rightarrow> sse_parser \<Rightarrow> sse_event list \<times> sse_parser" where
  "push_all [] p = ([], p)"
| "push_all (c # cs) p =
     (case push c p of (events, p1) \<Rightarrow>
        (case push_all cs p1 of (events', p2) \<Rightarrow> (events @ events', p2)))"

section \<open>Chunks do not matter\<close>

lemma consume_no_newline: "NL \<notin> set s \<Longrightarrow> consumeCompleteLines s p = ([], s, p)"
  by (subst consumeCompleteLines.simps) simp

lemma consume_line:
  assumes "NL \<notin> set line"
  shows "consumeCompleteLines (line @ NL # rest) p =
    (case processLine (strip_cr line) p of (emitted, p1) \<Rightarrow>
       (case consumeCompleteLines rest p1 of (events, rest', p2) \<Rightarrow> (opt_list emitted @ events, rest', p2)))"
proof -
  have "takeWhile (\<lambda>c. c \<noteq> NL) (line @ NL # rest) = line"
    "dropWhile (\<lambda>c. c \<noteq> NL) (line @ NL # rest) = NL # rest"
    using assms by (induction line) auto
  then show ?thesis
    by (subst consumeCompleteLines.simps) (simp add: Let_def split_beta)
qed

lemma split_newline:
  assumes "NL \<in> set s"
  obtains line rest where "s = line @ NL # rest" "NL \<notin> set line" "length rest < length s"
  using split_list_first [OF assms] by auto

lemma consume_rest_no_newline: "consumeCompleteLines s p = (es, r, p') \<Longrightarrow> NL \<notin> set r"
proof (induction s arbitrary: p es p' rule: length_induct)
  case (1 s)
  show ?case
  proof (cases "NL \<in> set s")
    case True
    then obtain line rest where s: "s = line @ NL # rest" "NL \<notin> set line" "length rest < length s"
      by (rule split_newline)
    with 1 show ?thesis by (auto simp: consume_line split: prod.splits)
  qed (use 1 in \<open>simp add: consume_no_newline\<close>)
qed

lemma consume_append:
  "consumeCompleteLines (s @ t) p =
   (case consumeCompleteLines s p of (es, r, p1) \<Rightarrow>
      (case consumeCompleteLines (r @ t) p1 of (es', r', p2) \<Rightarrow> (es @ es', r', p2)))"
proof (induction s arbitrary: p rule: length_induct)
  case (1 s)
  show ?case
  proof (cases "NL \<in> set s")
    case True
    then obtain line rest where s: "s = line @ NL # rest" "NL \<notin> set line" "length rest < length s"
      by (rule split_newline)
    then have IH: "consumeCompleteLines (rest @ t) q = (case consumeCompleteLines rest q of (es, r, p1) \<Rightarrow>
        (case consumeCompleteLines (r @ t) p1 of (es', r', p2) \<Rightarrow> (es @ es', r', p2)))" for q
      using 1 by blast
    have "s @ t = line @ NL # (rest @ t)" by (simp add: s(1))
    with s(2) IH show ?thesis
      by (simp add: consume_line s(1) split: prod.split)
  qed (simp add: consume_no_newline)
qed

lemma processLine_buffer: "processLine l (p\<lparr>sp_buffer := b\<rparr>) =
    map_prod id (\<lambda>q. q\<lparr>sp_buffer := b\<rparr>) (processLine l p)"
  by (simp add: processLine_def emitCurrent_def resetFields_def set_field_def)

lemma consume_buffer: "consumeCompleteLines s (p\<lparr>sp_buffer := b\<rparr>) =
    (case consumeCompleteLines s p of (es, r, q) \<Rightarrow> (es, r, q\<lparr>sp_buffer := b\<rparr>))"
proof (induction s arbitrary: p rule: length_induct)
  case (1 s)
  show ?case
  proof (cases "NL \<in> set s")
    case True
    then obtain line rest where s: "s = line @ NL # rest" "NL \<notin> set line" "length rest < length s"
      by (rule split_newline)
    then have "consumeCompleteLines rest (q\<lparr>sp_buffer := b\<rparr>) =
       (case consumeCompleteLines rest q of (es, r, q) \<Rightarrow> (es, r, q\<lparr>sp_buffer := b\<rparr>))" for q
      using 1 by blast
    with s show ?thesis
      by (simp add: consume_line processLine_buffer split: prod.split)
  qed (simp add: consume_no_newline)
qed

lemma push_append:
  "push (a @ b) p = (case push a p of (es, p1) \<Rightarrow>
      (case push b p1 of (es', p2) \<Rightarrow> (es @ es', p2)))"
  by (simp add: push_def consume_append [of "sp_buffer p @ a" b, simplified] consume_buffer split: prod.split)

lemma push_empty: "NL \<notin> set (sp_buffer p) \<Longrightarrow> push [] p = ([], p)"
  by (simp add: push_def consume_no_newline)

lemma push_buffer: "NL \<notin> set (sp_buffer (snd (push a p)))"
  using consume_rest_no_newline [of "sp_buffer p @ a" p] by (auto simp: push_def split: prod.split)


lemma push_all_concat: "NL \<notin> set (sp_buffer p) \<Longrightarrow> push_all cs p = push (concat cs) p"
proof (induction cs arbitrary: p)
  case (Cons c cs)
  have "push_all cs (snd (push c p)) = push (concat cs) (snd (push c p))"
    using Cons.IH push_buffer by blast
  then show ?case by (simp add: push_append split_beta)
qed (simp add: push_empty)

text \<open>C9: how the network cuts the stream does not matter: pushing any sequence of chunks gives
  the events, and leaves the state, of pushing their concatenation at once.\<close>

theorem chunking_irrelevant:
  assumes "NL \<notin> set (sp_buffer p)"
  shows "push_all cs p = push (concat cs) p"
  using assms by (rule push_all_concat)

lemma chunking_irrelevant_witness:
  "push_all [''event: to'', ''ken'' @ [NL] @ ''da'', ''ta: x'' @ [NL], [NL]] createSseParser =
   ([\<lparr>ev_event = ''token'', ev_data = ''x'', ev_id = None\<rparr>], createSseParser)"
proof -
  let ?cs = "[''event: to'', ''ken'' @ [NL] @ ''da'', ''ta: x'' @ [NL], [NL]]"
  have "NL \<notin> set (sp_buffer createSseParser)" by code_simp
  from chunking_irrelevant [OF this, of ?cs]
  have "push_all ?cs createSseParser = push (concat ?cs) createSseParser" .
  also have "\<dots> = ([\<lparr>ev_event = ''token'', ev_data = ''x'', ev_id = None\<rparr>], createSseParser)"
    by code_simp
  finally show ?thesis .
qed

section \<open>Reading a well-formed stream\<close>

text \<open>The text a server sends for an event: a data line for each line of the data.\<close>

definition frame_body :: "sse_event \<Rightarrow> string" where
  "frame_body e =
     ''event: '' @ ev_event e @ [NL]
     @ concat (map (\<lambda>l. ''data: '' @ l @ [NL]) (split_on (\<lambda>c. c = NL) (ev_data e)))
     @ (case ev_id e of None \<Rightarrow> [] | Some i \<Rightarrow> ''id: '' @ i @ [NL])"

definition sse_frame :: "sse_event \<Rightarrow> string" where
  "sse_frame e = frame_body e @ [NL]"

definition clean_line :: "string \<Rightarrow> bool" where
  "clean_line l = (NL \<notin> set l \<and> \<not> ends_with l [CHR 0x0D])"

definition well_formed_event :: "sse_event \<Rightarrow> bool" where
  "well_formed_event e =
     (ev_event e \<noteq> [] \<and> clean_line (ev_event e)
      \<and> (\<forall>l\<in>set (split_on (\<lambda>c. c = NL) (ev_data e)). clean_line l)
      \<and> (case ev_id e of None \<Rightarrow> True | Some i \<Rightarrow> clean_line i \<and> CHR 0x00 \<notin> set i))"

lemma strip_cr_prefixed: "clean_line l \<Longrightarrow> c \<noteq> CHR 0x0D \<Longrightarrow> strip_cr (s @ c # l) = s @ c # l"
  by (cases l rule: rev_cases) (auto simp: strip_cr_def clean_line_def ends_with_def)

lemma field_line:
  assumes "clean_line l" and "CHR '':'' \<notin> set f" and "f \<noteq> []"
  shows "processLine (strip_cr (f @ '': '' @ l)) p = (None, set_field (f, l) p)"
proof -
  have "strip_cr (f @ '': '' @ l) = f @ '': '' @ l"
    using strip_cr_prefixed [OF assms(1), of "CHR '' ''" "f @ '':''"] by simp
  moreover have "takeWhile (\<lambda>c. c \<noteq> CHR '':'') (f @ '': '' @ l) = f"
    "dropWhile (\<lambda>c. c \<noteq> CHR '':'') (f @ '': '' @ l) = '': '' @ l"
    using assms(2) by (induction f) auto
  moreover have "\<not> starts_with (f @ '': '' @ l) '':''" using assms(2,3) by (cases f) auto
  ultimately show ?thesis using assms(3) by (simp add: processLine_def split_field_def)
qed

lemma consume_field:
  assumes "clean_line l" and "CHR '':'' \<notin> set f" and "f \<noteq> []" and "NL \<notin> set f"
  shows "consumeCompleteLines (f @ '': '' @ l @ NL # rest) p = consumeCompleteLines rest (set_field (f, l) p)"
proof -
  have "NL \<notin> set (f @ '': '' @ l)" using assms(1,4) by (simp add: clean_line_def)
  from consume_line [OF this] field_line [OF assms(1-3)] show ?thesis
    by (simp add: opt_list_def split: prod.split)
qed

lemma consume_data_lines:
  assumes "\<forall>l\<in>set ls. clean_line l"
  shows "consumeCompleteLines (concat (map (\<lambda>l. ''data: '' @ l @ [NL]) ls) @ rest) p =
    consumeCompleteLines rest (p\<lparr>sp_dataLines := sp_dataLines p @ ls\<rparr>)"
  using assms
proof (induction ls arbitrary: p)
  case (Cons l ls)
  then show ?case
    using consume_field [of l "''data''" "concat (map (\<lambda>l. ''data: '' @ l @ [NL]) ls) @ rest" p]
    by (simp add: set_field_def)
qed simp

lemma js_join_split_on: "js_join [c] (split_on (\<lambda>x. x = c) s) = s"
proof (induction s)
  case (Cons a s)
  show ?case
  proof (cases "a = c")
    case True
    with Cons show ?thesis by (cases "split_on (\<lambda>x. x = c) s") simp_all
  next
    case False
    obtain w ws where "split_on (\<lambda>x. x = c) s = w # ws"
      using split_on_ne by (cases "split_on (\<lambda>x. x = c) s") auto
    with Cons False show ?thesis by (cases ws) simp_all
  qed
qed simp

lemma consume_blank: "consumeCompleteLines (NL # rest) p =
   (case emitCurrent p of (e, p1) \<Rightarrow>
      (case consumeCompleteLines rest p1 of (es, r, p2) \<Rightarrow> (opt_list e @ es, r, p2)))"
  using consume_line [of "[]" rest p]
  by (simp add: processLine_def strip_cr_def ends_with_def split: prod.split)

definition pending_event :: "sse_event \<Rightarrow> sse_parser" where
  "pending_event e = \<lparr>sp_buffer = [], sp_eventName = ev_event e,
     sp_dataLines = split_on (\<lambda>c. c = NL) (ev_data e), sp_eventId = ev_id e\<rparr>"

lemma consume_frame_body:
  assumes "well_formed_event e"
  shows "consumeCompleteLines (frame_body e @ rest) createSseParser = consumeCompleteLines rest (pending_event e)"
proof -
  let ?ls = "split_on (\<lambda>c. c = NL) (ev_data e)"
  define p1 where "p1 = set_field (''event'', ev_event e) createSseParser"
  define p2 where "p2 = p1\<lparr>sp_dataLines := sp_dataLines p1 @ ?ls\<rparr>"
  define p3 where "p3 = (case ev_id e of None \<Rightarrow> p2 | Some i \<Rightarrow> set_field (''id'', i) p2)"
  have p3: "p3 = pending_event e"
    using assms by (auto simp: p3_def p2_def p1_def set_field_def createSseParser_def
        well_formed_event_def pending_event_def split: option.split)
  have id: "consumeCompleteLines ((case ev_id e of None \<Rightarrow> [] | Some i \<Rightarrow> ''id: '' @ i @ [NL]) @ s) p2
      = consumeCompleteLines s p3" for s
    using consume_field [of _ "''id''" s p2] assms
    by (auto simp: p3_def well_formed_event_def split: option.splits)
  show ?thesis
    using consume_field [of "ev_event e" "''event''" _ createSseParser] consume_data_lines [of ?ls _ p1] id assms
    by (simp add: frame_body_def well_formed_event_def p1_def p2_def flip: p3)
qed

lemma emit_pending: "well_formed_event e \<Longrightarrow> emitCurrent (pending_event e) = (Some e, createSseParser)"
  by (simp add: pending_event_def emitCurrent_def resetFields_def createSseParser_def js_join_split_on
      well_formed_event_def)

lemma consume_frame:
  assumes "well_formed_event e"
  shows "consumeCompleteLines (sse_frame e @ rest) createSseParser =
    (case consumeCompleteLines rest createSseParser of (es, r, p) \<Rightarrow> (e # es, r, p))"
  using consume_frame_body [OF assms] emit_pending [OF assms]
  by (simp add: sse_frame_def consume_blank opt_list_def split: prod.split)

lemma consume_frames:
  assumes "\<forall>e\<in>set es. well_formed_event e"
  shows "consumeCompleteLines (concat (map sse_frame es) @ rest) createSseParser =
    (case consumeCompleteLines rest createSseParser of (es', r, p) \<Rightarrow> (es @ es', r, p))"
  using assms
proof (induction es)
  case (Cons e es)
  then show ?case using consume_frame [of e "concat (map sse_frame es) @ rest"] by (simp split: prod.split)
qed (simp split: prod.split)

lemma push_frames_and_body:
  assumes "\<forall>e\<in>set es. well_formed_event e" and "well_formed_event fin"
  shows "push (concat (map sse_frame es) @ frame_body fin) createSseParser = (es, pending_event fin)"
  using consume_frames [OF assms(1), of "frame_body fin"] consume_frame_body [OF assms(2), of "[]"]
  by (simp add: push_def consume_no_newline) (simp add: createSseParser_def pending_event_def)

lemma push_end_of_frame:
  "well_formed_event fin \<Longrightarrow> push [NL] (pending_event fin) = ([fin], createSseParser)"
  using consume_blank [of "[]" "pending_event fin"] emit_pending [of fin]
  by (simp add: push_def consume_no_newline opt_list_def) (simp add: createSseParser_def pending_event_def)

lemma push_frames:
  assumes "\<forall>e\<in>set es. well_formed_event e"
  shows "push (concat (map sse_frame es)) createSseParser = (es, createSseParser)"
proof -
  from consume_frames [OF assms, of "[]"] show ?thesis
    by (simp add: push_def consume_no_newline) (simp add: createSseParser_def)
qed

text \<open>C10: events printed as a stream and cut into any chunks come out of the parser as they went
  in, in order and with their ids and multi-line data, and leave the parser in its initial
  state; what \<open>flush\<close> adds afterwards is nothing.\<close>

theorem sse_roundtrip:
  assumes "\<forall>e\<in>set es. well_formed_event e" and "concat cs = concat (map sse_frame es)"
  shows "push_all cs createSseParser = (es, createSseParser) \<and> flush createSseParser = ([], createSseParser)"
proof -
  have "NL \<notin> set (sp_buffer createSseParser)" by (simp add: createSseParser_def)
  from push_all_concat [OF this] push_frames [OF assms(1)] assms(2) show ?thesis
    by (simp add: flush_def createSseParser_def emitCurrent_def opt_list_def)
qed

definition ex_events :: "sse_event list" where
  "ex_events = [\<lparr>ev_event = ''token'', ev_data = ''a'' @ [NL] @ ''b: c'', ev_id = Some ''7''\<rparr>,
     \<lparr>ev_event = ''done'', ev_data = [], ev_id = None\<rparr>]"

lemma sse_roundtrip_witness:
  "push_all [take 9 (concat (map sse_frame ex_events)), drop 9 (concat (map sse_frame ex_events))] createSseParser
   = (ex_events, createSseParser)"
proof -
  have "\<forall>e\<in>set ex_events. well_formed_event e" by code_simp
  from sse_roundtrip [OF this, of "[take 9 (concat (map sse_frame ex_events)), drop 9 (concat (map sse_frame ex_events))]"]
  show ?thesis by simp
qed

end
