(* ===== verification/Chat_Stream.thy ===== *)
theory Chat_Stream
  imports Sse_Parser Api_Errors
begin

text \<open>
  lib/sse/chat-stream.ts and hooks/streaming-chat-utils.ts: the meaning of the events of a
  chat stream, the errors of a stream, and the loop that reads the body of a response.
  The body is the list of what \<open>reader.read()\<close> gives: a decoded chunk or a rejection; the
  end of the list is \<open>done\<close>.
\<close>

section \<open>Events\<close>

datatype chat_event =
    Conversation string
  | Token string
  | Heartbeat string
  | Completed string string
  | StreamError string string
  | Unknown string json

definition string_or :: "json option \<Rightarrow> string \<Rightarrow> string" where
  "string_or v d = (case v of Some (JStr s) \<Rightarrow> s | _ \<Rightarrow> d)"

text \<open>\<open>parseJsonData\<close> is the function \<open>json_of_text\<close>.\<close>

definition parseChatSseData :: "sse_event \<Rightarrow> chat_event" where
  "parseChatSseData e =
     (let payload = json_of_text (ev_data e);
          rec = asRecord (Some payload);
          unknown = Unknown (ev_event e) payload
      in if ev_event e = ''conversation'' then
           (case as_string (opt_prop rec ''conversation_id'') of Some i \<Rightarrow> Conversation i | None \<Rightarrow> unknown)
         else if ev_event e = ''token'' then
           (case as_string (opt_prop rec ''content'') of Some c \<Rightarrow> Token c | None \<Rightarrow> unknown)
         else if ev_event e = ''heartbeat'' then Heartbeat (string_or (opt_prop rec ''status'') ''active'')
         else if ev_event e = ''completed'' then
           (case (as_string (opt_prop rec ''message_id''), as_string (opt_prop rec ''provider'')) of
              (Some m, Some p) \<Rightarrow> Completed m p | _ \<Rightarrow> unknown)
         else if ev_event e = ''error'' then
           StreamError (string_or (opt_prop rec ''code'') ''LLM_STREAM_ERROR'')
             (string_or (opt_prop rec ''message'') ''The AI response could not be completed.'')
         else unknown)"

section \<open>Errors\<close>

definition plain_error :: "nat \<Rightarrow> string \<Rightarrow> string \<Rightarrow> api_error" where
  "plain_error status code message =
     \<lparr>ae_status = status, ae_code = code, ae_message = message, ae_details = None,
      ae_requestId = None, ae_retryAfter = None\<rparr>"

definition stream_failed :: string where
  "stream_failed = ''Something went wrong while streaming the response.''"

text \<open>A \<open>DOMException\<close> is an \<open>Error\<close>.\<close>

definition toStreamApiError :: "js_exn \<Rightarrow> api_error" where
  "toStreamApiError e =
     (case e of
        ApiClientErr err \<Rightarrow> err
      | DomException name message \<Rightarrow>
          (if name = ''AbortError'' then plain_error 0 ''ABORTED'' ''Request was cancelled.''
           else plain_error 0 ''UNKNOWN_ERROR'' (if message \<noteq> [] then message else stream_failed))
      | ErrorExn message \<Rightarrow>
          plain_error 0 ''UNKNOWN_ERROR'' (if message \<noteq> [] then message else stream_failed)
      | OtherThrown \<Rightarrow> plain_error 0 ''UNKNOWN_ERROR'' stream_failed)"

text \<open>What is thrown, if anything.\<close>

definition throwIfStreamHttpError :: "http_response \<Rightarrow> js_exn option" where
  "throwIfStreamHttpError r =
     (if response_ok r then None
      else case rs_body r of Inl e \<Rightarrow> Some e
        | Inr text \<Rightarrow> Some (ApiClientErr (parseErrorResponse (rs_status r) (json_of_text text) (Some (rs_headers r)))))"

section \<open>Applying events\<close>

datatype stream_terminal = TCompleted string string | TError api_error

datatype handler_call = OnConversation string | OnToken string

definition applyParsedStreamEvent :: "chat_event \<Rightarrow> stream_terminal option \<times> handler_call list" where
  "applyParsedStreamEvent ev =
     (case ev of
        Heartbeat _ \<Rightarrow> (None, [])
      | Unknown _ _ \<Rightarrow> (None, [])
      | Conversation i \<Rightarrow> (None, [OnConversation i])
      | Token c \<Rightarrow> (None, [OnToken c])
      | Completed m p \<Rightarrow> (Some (TCompleted m p), [])
      | StreamError c m \<Rightarrow> (Some (TError (plain_error 0 c m)), []))"

text \<open>The events of one chunk: the loop breaks at the first terminal event.\<close>

fun apply_chunk :: "sse_event list \<Rightarrow> stream_terminal option \<times> handler_call list" where
  "apply_chunk [] = (None, [])"
| "apply_chunk (e # es) =
     (case applyParsedStreamEvent (parseChatSseData e) of
        (Some t, calls) \<Rightarrow> (Some t, calls)
      | (None, calls) \<Rightarrow> (case apply_chunk es of (t, calls') \<Rightarrow> (t, calls @ calls')))"

text \<open>The events of \<open>flush\<close>: no break, the last terminal event counts.\<close>

fun apply_flushed :: "sse_event list \<Rightarrow> stream_terminal option \<Rightarrow> stream_terminal option \<times> handler_call list" where
  "apply_flushed [] t = (t, [])"
| "apply_flushed (e # es) t =
     (case applyParsedStreamEvent (parseChatSseData e) of
        (next, calls) \<Rightarrow>
          (case apply_flushed es (case next of Some t' \<Rightarrow> Some t' | None \<Rightarrow> t) of
             (t', calls') \<Rightarrow> (t', calls @ calls')))"

section \<open>The reading loop\<close>

fun read_loop :: "(js_exn + string) list \<Rightarrow> sse_parser \<Rightarrow>
    (js_exn + stream_terminal option) \<times> handler_call list \<times> sse_parser" where
  "read_loop [] p = (Inr None, [], p)"
| "read_loop (Inl e # rs) p = (Inl e, [], p)"
| "read_loop (Inr chunk # rs) p =
     (case push chunk p of (events, p1) \<Rightarrow>
        (case apply_chunk events of
           (Some t, calls) \<Rightarrow> (Inr (Some t), calls, p1)
         | (None, calls) \<Rightarrow>
             (case read_loop rs p1 of (res, calls', p2) \<Rightarrow> (res, calls @ calls', p2))))"

definition readChatSseBody :: "(js_exn + string) list \<Rightarrow> sse_parser \<Rightarrow>
    (js_exn + stream_terminal option) \<times> handler_call list" where
  "readChatSseBody chunks p =
     (case read_loop chunks p of
        (Inl e, calls, p1) \<Rightarrow> (Inl e, calls)
      | (Inr terminal, calls, p1) \<Rightarrow>
          (case apply_flushed (fst (flush p1)) terminal of (t, calls') \<Rightarrow> (Inr t, calls @ calls')))"

section \<open>Lemmas\<close>

definition terminal_of :: "sse_event \<Rightarrow> stream_terminal option" where
  "terminal_of e = fst (applyParsedStreamEvent (parseChatSseData e))"

definition calls_of :: "sse_event \<Rightarrow> handler_call list" where
  "calls_of e = snd (applyParsedStreamEvent (parseChatSseData e))"

lemma apply_chunk_step:
  "apply_chunk (e # es) = (case terminal_of e of Some t \<Rightarrow> (Some t, calls_of e)
     | None \<Rightarrow> (fst (apply_chunk es), calls_of e @ snd (apply_chunk es)))"
  by (simp add: terminal_of_def calls_of_def split_beta split: option.splits)

lemma apply_flushed_step:
  "apply_flushed (e # es) t =
    (let r = apply_flushed es (case terminal_of e of Some t' \<Rightarrow> Some t' | None \<Rightarrow> t)
     in (fst r, calls_of e @ snd r))"
  by (simp add: terminal_of_def calls_of_def split_beta Let_def)

lemma terminal_no_calls: "terminal_of e = Some t \<Longrightarrow> calls_of e = []"
  by (auto simp: terminal_of_def calls_of_def applyParsedStreamEvent_def split: chat_event.splits)

declare apply_chunk.simps(2) [simp del] apply_flushed.simps(2) [simp del]

lemma apply_chunk_plain:
  "\<forall>e\<in>set es. terminal_of e = None \<Longrightarrow> apply_chunk es = (None, concat (map calls_of es))"
  by (induction es) (simp_all add: apply_chunk_step)

lemma apply_chunk_terminal:
  "\<forall>e\<in>set es. terminal_of e = None \<Longrightarrow> terminal_of fin = Some t \<Longrightarrow>
   apply_chunk (es @ fin # rest) = (Some t, concat (map calls_of es))"
  by (induction es) (simp_all add: apply_chunk_step terminal_no_calls)

lemma read_loop_plain:
  "push_all cs p = (es, p') \<Longrightarrow> \<forall>e\<in>set es. terminal_of e = None \<Longrightarrow>
   read_loop (map Inr cs @ rs) p =
     (case read_loop rs p' of (res, calls', p2) \<Rightarrow> (res, concat (map calls_of es) @ calls', p2))"
proof (induction cs arbitrary: p es)
  case (Cons c cs)
  obtain e1 p1 where 1: "push c p = (e1, p1)" by fastforce
  obtain e2 where 2: "push_all cs p1 = (e2, p')" and es: "es = e1 @ e2"
    using Cons.prems(1) 1 by (auto split: prod.splits)
  with Cons.prems have "apply_chunk e1 = (None, concat (map calls_of e1))"
    by (intro apply_chunk_plain) simp
  with 1 Cons.IH [OF 2] es Cons.prems(2) show ?case by (simp split: prod.split)
qed simp


lemma push_all_snoc:
  "push_all (cs @ [c]) p = (case push_all cs p of (es, p1) \<Rightarrow>
     (case push c p1 of (es', p2) \<Rightarrow> (es @ es', p2)))"
  by (induction cs arbitrary: p) (simp_all split: prod.split)

lemma flush_initial: "flush createSseParser = ([], createSseParser)"
  by (simp add: flush_def createSseParser_def emitCurrent_def opt_list_def)

lemma push_initial_all: "\<forall>c\<in>set cs. c = [] \<Longrightarrow> push_all cs createSseParser = ([], createSseParser)"
proof (induction cs)
  case (Cons c cs)
  have "push [] createSseParser = ([], createSseParser)"
    by (intro push_empty) (simp add: createSseParser_def)
  with Cons show ?case by simp
qed simp

lemma read_loop_terminated:
  assumes wf: "\<forall>e\<in>set es. well_formed_event e" "well_formed_event fin"
    and plain: "\<forall>e\<in>set es. terminal_of e = None" and final: "terminal_of fin = Some t"
    and whole: "concat cs = concat (map sse_frame (es @ [fin]))"
  shows "read_loop (map Inr cs) createSseParser = (Inr (Some t), concat (map calls_of es), createSseParser)"
proof -
  let ?T = "concat (map sse_frame es) @ frame_body fin"
  have T: "concat cs = ?T @ [NL]" using whole by (simp add: sse_frame_def)
  then have "\<exists>c\<in>set cs. c \<noteq> []" by (metis concat_eq_Nil_conv snoc_eq_iff_butlast)
  then obtain cs1 c cs2 where cs: "cs = cs1 @ c # cs2" "c \<noteq> []" "\<forall>c\<in>set cs2. c = []"
    using split_list_last_prop [of cs "\<lambda>c. c \<noteq> []"] by auto
  have rest: "concat cs2 = []" using cs(3) by simp
  from T have c: "concat cs1 @ c = ?T @ [NL]"
    unfolding cs(1) concat_append concat.simps rest append_Nil2 .
  obtain c' where c': "c = c' @ [NL]" and pre: "concat cs1 @ c' = ?T"
    using c cs(2) by (metis append_butlast_last_id append_same_eq append.assoc last_appendR last_snoc)
  have init: "NL \<notin> set (sp_buffer createSseParser)" by (simp add: createSseParser_def)
  have "push_all (cs1 @ [c']) createSseParser = (es, pending_event fin)"
    using push_all_concat [OF init, of "cs1 @ [c']"] push_frames_and_body [OF wf] pre by simp
  then obtain e1 e2 p1 where p1: "push_all cs1 createSseParser = (e1, p1)" "push c' p1 = (e2, pending_event fin)"
    and es: "es = e1 @ e2"
    unfolding push_all_snoc by (auto split: prod.splits)
  have pc: "push c p1 = (e2 @ [fin], createSseParser)"
    using p1(2) push_end_of_frame [OF wf(2)] by (simp add: c' push_append)
  have ac: "apply_chunk (e2 @ [fin]) = (Some t, concat (map calls_of e2))"
    using plain es final by (intro apply_chunk_terminal) simp_all
  have "read_loop (map Inr (c # cs2)) p1 = (Inr (Some t), concat (map calls_of e2), createSseParser)"
    using pc ac by simp
  with read_loop_plain [OF p1(1), of "map Inr (c # cs2)"] plain es
  show ?thesis by (simp add: cs(1))
qed

section \<open>The events of the backend\<close>

text \<open>An event as the backend writes it; its data is a compact JSON object.\<close>

fun chat_frame :: "chat_event \<Rightarrow> sse_event" where
  "chat_frame (Conversation i) = \<lparr>ev_event = ''conversation'',
     ev_data = json_stringify (JObj [(''conversation_id'', JStr i)]), ev_id = None\<rparr>"
| "chat_frame (Token c) = \<lparr>ev_event = ''token'', ev_data = json_stringify (JObj [(''content'', JStr c)]), ev_id = None\<rparr>"
| "chat_frame (Heartbeat s) = \<lparr>ev_event = ''heartbeat'', ev_data = json_stringify (JObj [(''status'', JStr s)]), ev_id = None\<rparr>"
| "chat_frame (Completed m p) = \<lparr>ev_event = ''completed'',
     ev_data = json_stringify (JObj [(''message_id'', JStr m), (''provider'', JStr p)]), ev_id = None\<rparr>"
| "chat_frame (StreamError c m) = \<lparr>ev_event = ''error'',
     ev_data = json_stringify (JObj [(''code'', JStr c), (''message'', JStr m)]), ev_id = None\<rparr>"
| "chat_frame (Unknown n v) = \<lparr>ev_event = n, ev_data = json_stringify v, ev_id = None\<rparr>"

fun is_known :: "chat_event \<Rightarrow> bool" where
  "is_known (Unknown n v) = False"
| "is_known _ = True"

lemma parse_chat_frame: "is_known ev \<Longrightarrow> parseChatSseData (chat_frame ev) = ev"
  by (cases ev) (simp_all add: parseChatSseData_def json_of_text_stringify string_or_def as_string_def Let_def
      del: json_stringify.simps)


text \<open>The data of such an event is one line: control characters are escaped by the quoting.\<close>

lemma quote_char_line: "c \<in> set (quote_char x) \<Longrightarrow> c \<noteq> NL"
proof -
  have "hex_digit (char_code x div 16) \<noteq> NL" "hex_digit (char_code x mod 16) \<noteq> NL"
    using char_code_less_256 [of x]
    by (auto simp: hex_digit_def char_eq_char_code char_code_char_of) (simp_all add: char_code_def)
  moreover have "char_code NL = 10" by code_simp
  ultimately show "c \<in> set (quote_char x) \<Longrightarrow> c \<noteq> NL"
    by (auto simp: quote_char_def QUOTE_def BSLASH_def split: if_splits)
qed

lemma json_quote_line: "NL \<notin> set (json_quote s)"
  using quote_char_line by (auto simp: json_quote_def QUOTE_def)

lemma chat_frame_data:
  "is_known ev \<Longrightarrow> \<exists>s. ev_data (chat_frame ev) = ''{'' @ s @ ''}'' \<and> NL \<notin> set s"
  by (cases ev) (simp_all add: json_quote_line)

lemma chat_frame_wf: "is_known ev \<Longrightarrow> well_formed_event (chat_frame ev)"
proof -
  assume known: "is_known ev"
  then obtain s where s: "ev_data (chat_frame ev) = ''{'' @ s @ ''}''" "NL \<notin> set s"
    using chat_frame_data by blast
  then have "clean_line (ev_data (chat_frame ev))" by (simp add: clean_line_def ends_with_def)
  moreover have "split_on (\<lambda>c. c = NL) (ev_data (chat_frame ev)) = [ev_data (chat_frame ev)]"
    using s by (intro split_on_word) auto
  moreover have "clean_line ''conversation''" "clean_line ''token''" "clean_line ''heartbeat''"
    "clean_line ''completed''" "clean_line ''error''" by code_simp+
  then have "ev_event (chat_frame ev) \<noteq> []" "clean_line (ev_event (chat_frame ev))"
    "ev_id (chat_frame ev) = None" using known by (cases ev; simp)+
  ultimately show ?thesis by (simp add: well_formed_event_def)
qed

definition chat_terminal :: "chat_event \<Rightarrow> stream_terminal option" where
  "chat_terminal ev = (case ev of Completed m p \<Rightarrow> Some (TCompleted m p)
     | StreamError c m \<Rightarrow> Some (TError (plain_error 0 c m)) | _ \<Rightarrow> None)"

definition chat_calls :: "chat_event \<Rightarrow> handler_call list" where
  "chat_calls ev = (case ev of Conversation i \<Rightarrow> [OnConversation i] | Token c \<Rightarrow> [OnToken c] | _ \<Rightarrow> [])"

lemma chat_frame_effect:
  "is_known ev \<Longrightarrow> terminal_of (chat_frame ev) = chat_terminal ev"
  "is_known ev \<Longrightarrow> calls_of (chat_frame ev) = chat_calls ev"
  by (simp_all add: terminal_of_def calls_of_def parse_chat_frame applyParsedStreamEvent_def
      chat_terminal_def chat_calls_def split: chat_event.split)

lemma read_loop_chat:
  assumes "\<forall>ev\<in>set (evs @ [fin]). is_known ev" and "\<forall>ev\<in>set evs. chat_terminal ev = None"
    and "chat_terminal fin = Some t"
    and "concat cs = concat (map (\<lambda>ev. sse_frame (chat_frame ev)) (evs @ [fin]))"
  shows "read_loop (map Inr cs) createSseParser = (Inr (Some t), concat (map chat_calls evs), createSseParser)"
proof -
  have "read_loop (map Inr cs) createSseParser
      = (Inr (Some t), concat (map calls_of (map chat_frame evs)), createSseParser)"
    using assms by (intro read_loop_terminated [where fin = "chat_frame fin"])
      (auto simp: chat_frame_wf chat_frame_effect o_def)
  moreover have "map calls_of (map chat_frame evs) = map chat_calls evs"
    using assms(1) by (simp add: chat_frame_effect)
  ultimately show ?thesis by (simp only:)
qed

text \<open>C11: what the backend says is what the reader hears.  When the backend's events end with a
  completion or an error, and the network cuts their text into any chunks, the reading loop
  returns that end, and has called the handlers with exactly the conversation and the tokens
  that were sent, in order and unchanged, heartbeats left out.\<close>

theorem chat_stream_delivers:
  assumes "\<forall>ev\<in>set (evs @ [fin]). is_known ev" and "\<forall>ev\<in>set evs. chat_terminal ev = None"
    and "chat_terminal fin = Some t"
    and "concat cs = concat (map (\<lambda>ev. sse_frame (chat_frame ev)) (evs @ [fin]))"
  shows "readChatSseBody (map Inr cs) createSseParser = (Inr (Some t), concat (map chat_calls evs))"
  using read_loop_chat [OF assms] by (simp add: readChatSseBody_def flush_initial)

definition ex_chat :: "chat_event list" where
  "ex_chat = [Conversation ''c1'', Token (''Hi'' @ [NL]), Heartbeat ''active'', Token (QUOTE # ''you'')]"

lemma chat_stream_delivers_witness:
  "let s = concat (map (\<lambda>ev. sse_frame (chat_frame ev)) (ex_chat @ [Completed ''m'' ''llama''])) in
   readChatSseBody (map Inr [take 20 s, drop 20 s]) createSseParser =
     (Inr (Some (TCompleted ''m'' ''llama'')), [OnConversation ''c1'', OnToken (''Hi'' @ [NL]), OnToken (QUOTE # ''you'')])"
proof -
  let ?s = "concat (map (\<lambda>ev. sse_frame (chat_frame ev)) (ex_chat @ [Completed ''m'' ''llama'']))"
  have "\<forall>ev\<in>set (ex_chat @ [Completed ''m'' ''llama'']). is_known ev" by code_simp
  moreover have "\<forall>ev\<in>set ex_chat. chat_terminal ev = None" by code_simp
  moreover have "chat_terminal (Completed ''m'' ''llama'') = Some (TCompleted ''m'' ''llama'')" by code_simp
  moreover have "concat [take 20 ?s, drop 20 ?s] = ?s"
    by (simp only: concat.simps append_Nil2 append_take_drop_id)
  ultimately have "readChatSseBody (map Inr [take 20 ?s, drop 20 ?s]) createSseParser =
      (Inr (Some (TCompleted ''m'' ''llama'')), concat (map chat_calls ex_chat))"
    by (rule chat_stream_delivers)
  moreover have "concat (map chat_calls ex_chat) = [OnConversation ''c1'', OnToken (''Hi'' @ [NL]), OnToken (QUOTE # ''you'')]"
    by code_simp
  ultimately show ?thesis by (simp only: Let_def)
qed

end
