(* ===== verification/Streaming_Chat.thy ===== *)
theory Streaming_Chat
  imports Chat_Stream Endpoints
begin

text \<open>
  hooks/use-streaming-chat.ts: the state machine behind the chat page.  The record \<open>hook\<close>
  holds the React state and the refs of the hook; every call of \<open>start\<close> makes a run with a
  controller of its own, and \<open>h_runs\<close> says at which \<open>await\<close> each run stands.  One event of
  \<open>hook_event\<close> is one macro task: a call of the component, a timer, or the settling of the
  promise a run waits for.  Between two awaits a run is not interrupted.
\<close>

section \<open>State\<close>

datatype chat_status = Idle | Sending | Streaming | SCompleted | SCancelled | SError

record chat_state =
  cs_status :: chat_status
  cs_tokens :: string
  cs_conversationId :: "string option"
  cs_error :: "api_error option"
  cs_provider :: "string option"
  cs_messageId :: "string option"

definition initialState :: chat_state where
  "initialState = \<lparr>cs_status = Idle, cs_tokens = [], cs_conversationId = None, cs_error = None,
     cs_provider = None, cs_messageId = None\<rparr>"

record start_input =
  si_message :: string
  si_conversationId :: "string option"
  si_organizationId :: "string option"
  si_provider :: string

datatype run_phase =
    AwaitResponse
  | AwaitErrorText http_response
  | Reading sse_parser
  | Finished

record hook =
  h_state :: chat_state
  h_abortRef :: "nat option"
  h_tokenBuffer :: string
  h_flushTimer :: bool
  h_raf :: bool
  h_aborted :: "nat list"
  h_runs :: "run_phase list"
  h_requests :: "http_request list"

definition initial_hook :: hook where
  "initial_hook = \<lparr>h_state = initialState, h_abortRef = None, h_tokenBuffer = [], h_flushTimer = False,
     h_raf = False, h_aborted = [], h_runs = [], h_requests = []\<rparr>"

section \<open>Timers and tokens\<close>

definition clearFlushTimers :: "hook \<Rightarrow> hook" where
  "clearFlushTimers h = h\<lparr>h_flushTimer := False, h_raf := False\<rparr>"

definition flushTokens :: "hook \<Rightarrow> hook" where
  "flushTokens h =
     (let h1 = clearFlushTimers h; nxt = h_tokenBuffer h1
      in if cs_tokens (h_state h1) = nxt then h1
         else h1\<lparr>h_state := (h_state h1)\<lparr>cs_tokens := nxt\<rparr>\<rparr>)"

text \<open>A browser has \<open>requestAnimationFrame\<close>; where it is missing the timer starts at once.\<close>

definition scheduleTokenFlush :: "bool \<Rightarrow> hook \<Rightarrow> hook" where
  "scheduleTokenFlush has_raf h =
     (if h_flushTimer h \<or> h_raf h then h
      else if has_raf then h\<lparr>h_raf := True\<rparr> else h\<lparr>h_flushTimer := True\<rparr>)"

definition raf_fires :: "hook \<Rightarrow> hook" where
  "raf_fires h = (if h_raf h then h\<lparr>h_raf := False, h_flushTimer := True\<rparr> else h)"

definition timer_fires :: "hook \<Rightarrow> hook" where
  "timer_fires h = (if h_flushTimer h then flushTokens (h\<lparr>h_flushTimer := False\<rparr>) else h)"

definition handle_call :: "bool \<Rightarrow> handler_call \<Rightarrow> hook \<Rightarrow> hook" where
  "handle_call has_raf c h =
     (case c of
        OnConversation i \<Rightarrow> h\<lparr>h_state := (h_state h)\<lparr>cs_conversationId := Some i\<rparr>\<rparr>
      | OnToken t \<Rightarrow> scheduleTokenFlush has_raf (h\<lparr>h_tokenBuffer := h_tokenBuffer h @ t\<rparr>))"

definition handler_calls :: "bool \<Rightarrow> handler_call list \<Rightarrow> hook \<Rightarrow> hook" where
  "handler_calls has_raf cs h = fold (handle_call has_raf) cs h"

section \<open>Calls of the component\<close>

text \<open>\<open>abortRef.current?.abort()\<close>\<close>

definition abort_current :: "hook \<Rightarrow> hook" where
  "abort_current h = (case h_abortRef h of None \<Rightarrow> h | Some i \<Rightarrow> h\<lparr>h_aborted := i # h_aborted h\<rparr>)"

definition stop :: "hook \<Rightarrow> hook" where
  "stop h =
     (let h1 = clearFlushTimers ((abort_current h)\<lparr>h_abortRef := None\<rparr>); s = h_state h1
      in if cs_status s \<noteq> Sending \<and> cs_status s \<noteq> Streaming then h1
         else h1\<lparr>h_state := s\<lparr>cs_status := SCancelled, cs_tokens := h_tokenBuffer h1\<rparr>\<rparr>)"

definition reset :: "hook \<Rightarrow> hook" where
  "reset h = (clearFlushTimers ((abort_current h)\<lparr>h_abortRef := None\<rparr>))
     \<lparr>h_tokenBuffer := [], h_state := initialState\<rparr>"

definition unmount :: "hook \<Rightarrow> hook" where
  "unmount h = clearFlushTimers (abort_current h)"

definition opt_json :: "string option \<Rightarrow> json" where
  "opt_json v = (case v of Some s \<Rightarrow> JStr s | None \<Rightarrow> JNull)"

definition stream_request :: "start_input \<Rightarrow> http_request" where
  "stream_request inp =
     \<lparr>rq_url = ''/api/bff'' @ ep_chat_stream, rq_method = ''POST'',
      rq_headers = [(''Content-Type'', ''application/json''), (''Accept'', ''text/event-stream'')],
      rq_body = TextBody (json_stringify (JObj
        [(''message'', JStr (si_message inp)), (''conversation_id'', opt_json (si_conversationId inp)),
         (''organization_id'', opt_json (si_organizationId inp)), (''provider'', JStr (si_provider inp))]))\<rparr>"

text \<open>\<open>start\<close> up to its first \<open>await\<close>.\<close>

definition start :: "start_input \<Rightarrow> hook \<Rightarrow> hook" where
  "start inp h =
     (let h1 = (clearFlushTimers (abort_current h))\<lparr>h_tokenBuffer := []\<rparr>; i = length (h_runs h1)
      in h1\<lparr>h_abortRef := Some i, h_runs := h_runs h1 @ [AwaitResponse],
            h_requests := h_requests h1 @ [stream_request inp],
            h_state := \<lparr>cs_status = Sending, cs_tokens = [], cs_conversationId = si_conversationId inp,
              cs_error = None, cs_provider = Some (si_provider inp), cs_messageId = None\<rparr>\<rparr>)"

section \<open>Runs\<close>

definition set_phase :: "nat \<Rightarrow> run_phase \<Rightarrow> hook \<Rightarrow> hook" where
  "set_phase i ph h = h\<lparr>h_runs := (h_runs h)[i := ph]\<rparr>"

definition set_state :: "(chat_state \<Rightarrow> chat_state) \<Rightarrow> hook \<Rightarrow> hook" where
  "set_state f h = h\<lparr>h_state := f (h_state h)\<rparr>"

text \<open>The \<open>finally\<close> block.\<close>

definition end_run :: "nat \<Rightarrow> hook \<Rightarrow> hook" where
  "end_run i h = set_phase i Finished (if h_abortRef h = Some i then h\<lparr>h_abortRef := None\<rparr> else h)"

definition fail_run :: "nat \<Rightarrow> js_exn \<Rightarrow> hook \<Rightarrow> hook" where
  "fail_run i e h =
     (let h1 = clearFlushTimers h
      in end_run i (if i \<in> set (h_aborted h1)
           then set_state (\<lambda>s. s\<lparr>cs_status := SCancelled, cs_tokens := h_tokenBuffer h1\<rparr>) h1
           else set_state (\<lambda>s. s\<lparr>cs_status := SError, cs_tokens := h_tokenBuffer h1,
                                  cs_error := Some (toStreamApiError e)\<rparr>) h1))"

definition stream_incomplete :: api_error where
  "stream_incomplete = plain_error 0 ''STREAM_INCOMPLETE'' ''The stream ended before the response completed.''"

definition finish_run :: "nat \<Rightarrow> stream_terminal option \<Rightarrow> hook \<Rightarrow> hook" where
  "finish_run i terminal h =
     (let h1 = clearFlushTimers h; finalTokens = h_tokenBuffer h1
      in end_run i
          (if i \<in> set (h_aborted h1) then
             set_state (\<lambda>s. s\<lparr>cs_status := SCancelled, cs_tokens := finalTokens\<rparr>) h1
           else case terminal of
             Some (TError err) \<Rightarrow>
               set_state (\<lambda>s. s\<lparr>cs_status := SError, cs_tokens := finalTokens, cs_error := Some err\<rparr>) h1
           | Some (TCompleted m p) \<Rightarrow>
               set_state (\<lambda>s. s\<lparr>cs_status := SCompleted, cs_tokens := finalTokens, cs_provider := Some p,
                                cs_messageId := Some m, cs_error := None\<rparr>) h1
           | None \<Rightarrow>
               set_state (\<lambda>s. s\<lparr>cs_status := SError, cs_tokens := finalTokens,
                                cs_error := Some stream_incomplete\<rparr>) h1))"

text \<open>After the reading loop: the parser is flushed, then the run finishes.\<close>

definition finish_reading :: "bool \<Rightarrow> nat \<Rightarrow> sse_parser \<Rightarrow> stream_terminal option \<Rightarrow> hook \<Rightarrow> hook" where
  "finish_reading has_raf i p terminal h =
     (case apply_flushed (fst (flush p)) terminal of
        (t, calls) \<Rightarrow> finish_run i t (handler_calls has_raf calls h))"

definition response_arrives :: "nat \<Rightarrow> http_response \<Rightarrow> bool \<Rightarrow> hook \<Rightarrow> hook" where
  "response_arrives i r has_body h =
     (if \<not> response_ok r then set_phase i (AwaitErrorText r) h
      else if \<not> has_body then
        fail_run i (ApiClientErr (plain_error (rs_status r) ''STREAM_UNAVAILABLE''
          ''Streaming response body was empty.'')) h
      else set_phase i (Reading createSseParser) (set_state (\<lambda>s. s\<lparr>cs_status := Streaming\<rparr>) h))"

definition chunk_arrives :: "bool \<Rightarrow> nat \<Rightarrow> sse_parser \<Rightarrow> string \<Rightarrow> hook \<Rightarrow> hook" where
  "chunk_arrives has_raf i p chunk h =
     (case push chunk p of (events, p1) \<Rightarrow>
        (case apply_chunk events of
           (Some t, calls) \<Rightarrow> finish_reading has_raf i p1 (Some t) (handler_calls has_raf calls h)
         | (None, calls) \<Rightarrow> set_phase i (Reading p1) (handler_calls has_raf calls h)))"

section \<open>Steps\<close>

datatype hook_event =
    Start start_input | Stop | Reset | Unmount | RafFires | TimerFires
  | ResponseArrives nat http_response bool
  | ErrorTextRead nat
  | ChunkArrives nat string
  | BodyEnds nat
  | RunRejects nat js_exn

definition phase_of :: "nat \<Rightarrow> hook \<Rightarrow> run_phase" where
  "phase_of i h = (if i < length (h_runs h) then h_runs h ! i else Finished)"

fun hook_step :: "bool \<Rightarrow> hook_event \<Rightarrow> hook \<Rightarrow> hook" where
  "hook_step raf (Start inp) h = start inp h"
| "hook_step raf Stop h = stop h"
| "hook_step raf Reset h = reset h"
| "hook_step raf Unmount h = unmount h"
| "hook_step raf RafFires h = raf_fires h"
| "hook_step raf TimerFires h = timer_fires h"
| "hook_step raf (ResponseArrives i r has_body) h =
     (case phase_of i h of AwaitResponse \<Rightarrow> response_arrives i r has_body h | _ \<Rightarrow> h)"
| "hook_step raf (ErrorTextRead i) h =
     (case phase_of i h of
        AwaitErrorText r \<Rightarrow>
          (case throwIfStreamHttpError r of Some e \<Rightarrow> fail_run i e h | None \<Rightarrow> h)
      | _ \<Rightarrow> h)"
| "hook_step raf (ChunkArrives i chunk) h =
     (case phase_of i h of Reading p \<Rightarrow> chunk_arrives raf i p chunk h | _ \<Rightarrow> h)"
| "hook_step raf (BodyEnds i) h =
     (case phase_of i h of Reading p \<Rightarrow> finish_reading raf i p None h | _ \<Rightarrow> h)"
| "hook_step raf (RunRejects i e) h =
     (case phase_of i h of AwaitResponse \<Rightarrow> fail_run i e h | Reading _ \<Rightarrow> fail_run i e h | _ \<Rightarrow> h)"

definition hook_run :: "bool \<Rightarrow> hook_event list \<Rightarrow> hook \<Rightarrow> hook" where
  "hook_run raf es h = fold (hook_step raf) es h"

definition isBusy :: "hook \<Rightarrow> bool" where
  "isBusy h = (cs_status (h_state h) = Sending \<or> cs_status (h_state h) = Streaming)"


section \<open>What the handlers change\<close>

fun call_tokens :: "handler_call list \<Rightarrow> string" where
  "call_tokens [] = []"
| "call_tokens (OnToken t # cs) = t @ call_tokens cs"
| "call_tokens (OnConversation i # cs) = call_tokens cs"

fun call_conversation :: "handler_call list \<Rightarrow> string option \<Rightarrow> string option" where
  "call_conversation [] d = d"
| "call_conversation (OnToken t # cs) d = call_conversation cs d"
| "call_conversation (OnConversation i # cs) d = call_conversation cs (Some i)"

lemma call_tokens_append [simp]: "call_tokens (cs @ ds) = call_tokens cs @ call_tokens ds"
  by (induction cs rule: call_tokens.induct) simp_all

lemma call_conversation_append [simp]:
  "call_conversation (cs @ ds) d = call_conversation ds (call_conversation cs d)"
  by (induction cs d rule: call_conversation.induct) simp_all

lemma handler_calls_simps [simp]:
  "handler_calls raf [] h = h"
  "handler_calls raf (c # cs) h = handler_calls raf cs (handle_call raf c h)"
  by (simp_all add: handler_calls_def)

lemma schedule_frame:
  "\<exists>a b. scheduleTokenFlush raf h = h\<lparr>h_flushTimer := a, h_raf := b\<rparr> \<and>
     (\<not> (h_flushTimer h \<and> h_raf h) \<longrightarrow> \<not> (a \<and> b))"
  by (rule exI [of _ "h_flushTimer (scheduleTokenFlush raf h)"],
      rule exI [of _ "h_raf (scheduleTokenFlush raf h)"]) (simp add: scheduleTokenFlush_def)

text \<open>The calls of a chunk touch the tokens, the conversation and the two timers only.\<close>

lemma handler_calls_frame:
  "\<exists>a b. handler_calls raf cs h =
     h\<lparr>h_state := (h_state h)\<lparr>cs_conversationId := call_conversation cs (cs_conversationId (h_state h))\<rparr>,
       h_tokenBuffer := h_tokenBuffer h @ call_tokens cs, h_flushTimer := a, h_raf := b\<rparr>
     \<and> (\<not> (h_flushTimer h \<and> h_raf h) \<longrightarrow> \<not> (a \<and> b))"
proof (induction cs arbitrary: h)
  case Nil
  show ?case by (intro exI [of _ "h_flushTimer h"] exI [of _ "h_raf h"]) simp
next
  case (Cons c cs)
  show ?case
  proof (cases c)
    case (OnConversation i)
    with Cons [of "h\<lparr>h_state := (h_state h)\<lparr>cs_conversationId := Some i\<rparr>\<rparr>"] show ?thesis
      by (simp add: handle_call_def)
  next
    case (OnToken t)
    let ?h = "h\<lparr>h_tokenBuffer := h_tokenBuffer h @ t\<rparr>"
    obtain a b where ab: "scheduleTokenFlush raf ?h = ?h\<lparr>h_flushTimer := a, h_raf := b\<rparr>"
      "\<not> (h_flushTimer h \<and> h_raf h) \<longrightarrow> \<not> (a \<and> b)"
      using schedule_frame [of raf ?h] by auto
    with Cons [of "?h\<lparr>h_flushTimer := a, h_raf := b\<rparr>"] OnToken show ?thesis
      by (auto simp: handle_call_def)
  qed
qed

section \<open>The invariant\<close>

definition timers_ok :: "hook \<Rightarrow> bool" where "timers_ok h = (\<not> (h_flushTimer h \<and> h_raf h))"

definition live_ok :: "hook \<Rightarrow> bool" where
  "live_ok h = (length (h_requests h) = length (h_runs h) \<and>
     (\<forall>i<length (h_runs h). h_runs h ! i \<noteq> Finished \<longrightarrow> i \<in> set (h_aborted h) \<or> h_abortRef h = Some i))"

definition outcome_ok :: "hook \<Rightarrow> bool" where
  "outcome_ok h =
     ((cs_status (h_state h) = SCompleted \<longrightarrow>
         cs_error (h_state h) = None \<and> cs_messageId (h_state h) \<noteq> None \<and> cs_provider (h_state h) \<noteq> None)
      \<and> (cs_status (h_state h) = SError \<longrightarrow> cs_error (h_state h) \<noteq> None))"

definition tokens_ok :: "hook \<Rightarrow> bool" where
  "tokens_ok h = (\<exists>rest. h_tokenBuffer h = cs_tokens (h_state h) @ rest)"

definition hook_inv :: "hook \<Rightarrow> bool" where
  "hook_inv h = (timers_ok h \<and> live_ok h \<and> outcome_ok h \<and> tokens_ok h)"

lemmas hook_inv_defs = hook_inv_def timers_ok_def live_ok_def outcome_ok_def tokens_ok_def

lemmas hook_op_defs = clearFlushTimers_def flushTokens_def abort_current_def set_phase_def set_state_def
  end_run_def Let_def

lemma inv_timers: "hook_inv h \<Longrightarrow> hook_inv (raf_fires h)" "hook_inv h \<Longrightarrow> hook_inv (timer_fires h)"
  by (auto simp: hook_inv_defs raf_fires_def timer_fires_def hook_op_defs)

lemma inv_stop: "hook_inv h \<Longrightarrow> hook_inv (stop h)"
  by (auto simp: hook_inv_defs stop_def hook_op_defs split: option.split)

lemma inv_reset: "hook_inv h \<Longrightarrow> hook_inv (reset h)"
  by (auto simp: hook_inv_defs reset_def hook_op_defs initialState_def split: option.split)

lemma inv_unmount: "hook_inv h \<Longrightarrow> hook_inv (unmount h)"
  by (auto simp: hook_inv_defs unmount_def hook_op_defs split: option.split)

lemma inv_start: "hook_inv h \<Longrightarrow> hook_inv (start inp h)"
  by (auto simp: hook_inv_defs start_def hook_op_defs nth_append less_Suc_eq split: option.split)

lemma inv_handler_calls: "hook_inv h \<Longrightarrow> hook_inv (handler_calls raf cs h)"
proof -
  obtain a b where "handler_calls raf cs h =
     h\<lparr>h_state := (h_state h)\<lparr>cs_conversationId := call_conversation cs (cs_conversationId (h_state h))\<rparr>,
       h_tokenBuffer := h_tokenBuffer h @ call_tokens cs, h_flushTimer := a, h_raf := b\<rparr>"
     "\<not> (h_flushTimer h \<and> h_raf h) \<longrightarrow> \<not> (a \<and> b)"
    using handler_calls_frame [of raf cs h] by blast
  then show "hook_inv h \<Longrightarrow> hook_inv (handler_calls raf cs h)" by (auto simp: hook_inv_defs)
qed

lemma inv_end_run:
  assumes "timers_ok h" "live_ok h" "outcome_ok h" "tokens_ok h"
  shows "hook_inv (end_run i h)"
proof -
  have nth: "j < length (h_runs h) \<Longrightarrow> (h_runs h)[i := Finished] ! j = (if i = j then Finished else h_runs h ! j)" for j
    by (cases "i = j") simp_all
  show ?thesis using assms by (auto simp: hook_inv_defs hook_op_defs nth split: if_splits)
qed

lemma inv_fail_run: "hook_inv h \<Longrightarrow> hook_inv (fail_run i e h)"
  unfolding fail_run_def Let_def
  by (rule inv_end_run) (auto simp: hook_inv_defs clearFlushTimers_def set_state_def)

lemma inv_finish_run: "hook_inv h \<Longrightarrow> hook_inv (finish_run i t h)"
  unfolding finish_run_def Let_def
  by (rule inv_end_run) (auto simp: hook_inv_defs clearFlushTimers_def set_state_def
      split: option.split stream_terminal.split)

lemma inv_finish_reading: "hook_inv h \<Longrightarrow> hook_inv (finish_reading raf i p t h)"
  by (simp add: finish_reading_def inv_finish_run inv_handler_calls split: prod.split)

lemma inv_set_phase:
  "hook_inv h \<Longrightarrow> phase_of i h \<noteq> Finished \<Longrightarrow> hook_inv (set_phase i ph h)"
proof -
  assume h: "hook_inv h" "phase_of i h \<noteq> Finished"
  then have "i < length (h_runs h)" "h_runs h ! i \<noteq> Finished"
    by (metis phase_of_def)+
  with h(1) show ?thesis by (auto simp: hook_inv_defs set_phase_def nth_list_update)
qed

lemma phase_of_handler_calls [simp]: "phase_of i (handler_calls raf cs h) = phase_of i h"
  using handler_calls_frame [of raf cs h] by (auto simp: phase_of_def)

lemma inv_response: "hook_inv h \<Longrightarrow> phase_of i h \<noteq> Finished \<Longrightarrow> hook_inv (response_arrives i r b h)"
proof -
  assume h: "hook_inv h" "phase_of i h \<noteq> Finished"
  have "hook_inv (set_state (\<lambda>s. s\<lparr>cs_status := Streaming\<rparr>) h)"
    using h(1) by (auto simp: hook_inv_defs set_state_def)
  moreover have "phase_of i (set_state (\<lambda>s. s\<lparr>cs_status := Streaming\<rparr>) h) = phase_of i h"
    by (simp add: set_state_def phase_of_def)
  ultimately show ?thesis using h by (simp add: response_arrives_def inv_set_phase inv_fail_run)
qed

lemma inv_chunk: "hook_inv h \<Longrightarrow> phase_of i h \<noteq> Finished \<Longrightarrow> hook_inv (chunk_arrives raf i p c h)"
  by (simp add: chunk_arrives_def inv_set_phase inv_finish_reading inv_handler_calls
      split: prod.split option.split)

lemma inv_step: "hook_inv h \<Longrightarrow> hook_inv (hook_step raf ev h)"
  by (cases ev)
     (simp_all add: inv_timers inv_stop inv_reset inv_unmount inv_start inv_response inv_chunk
        inv_fail_run inv_finish_reading split: run_phase.split option.split)

lemma inv_run: "hook_inv h \<Longrightarrow> hook_inv (hook_run raf es h)"
  unfolding hook_run_def by (induction es arbitrary: h) (simp_all add: inv_step)

lemma inv_initial: "hook_inv initial_hook"
  by (simp add: hook_inv_defs initial_hook_def initialState_def)

text \<open>C5: after any interleaving of calls, timers and answers: the text shown is a prefix of the
  tokens received; every run made one request and every run still going is either aborted or
  the one \<open>stop\<close> would abort, so at most one live stream exists; a completed chat has a message
  id and no error, a failed one has an error; and at most one flush is pending.\<close>

theorem streaming_chat_invariant: "hook_inv (hook_run raf events initial_hook)"
  by (rule inv_run [OF inv_initial])


section \<open>One run from start to end\<close>

definition outcome :: "stream_terminal \<Rightarrow> string \<Rightarrow> string option \<Rightarrow> string option \<Rightarrow> chat_state" where
  "outcome t tokens conversation provider =
     (case t of
        TCompleted m p \<Rightarrow> \<lparr>cs_status = SCompleted, cs_tokens = tokens, cs_conversationId = conversation,
          cs_error = None, cs_provider = Some p, cs_messageId = Some m\<rparr>
      | TError e \<Rightarrow> \<lparr>cs_status = SError, cs_tokens = tokens, cs_conversationId = conversation,
          cs_error = Some e, cs_provider = provider, cs_messageId = None\<rparr>)"

text \<open>The first run is reading; what it has received so far.\<close>

definition running :: "sse_parser \<Rightarrow> string \<Rightarrow> string option \<Rightarrow> string option \<Rightarrow> hook \<Rightarrow> bool" where
  "running p tokens conversation provider h =
     (h_runs h = [Reading p] \<and> h_aborted h = [] \<and> h_tokenBuffer h = tokens
      \<and> (\<exists>shown. h_state h = \<lparr>cs_status = Streaming, cs_tokens = shown, cs_conversationId = conversation,
            cs_error = None, cs_provider = provider, cs_messageId = None\<rparr>))"

definition ended :: "chat_state \<Rightarrow> hook \<Rightarrow> bool" where
  "ended s h = (h_runs h = [Finished] \<and> h_state h = s \<and> h_tokenBuffer h = cs_tokens s)"

definition quiet :: "hook_event \<Rightarrow> bool" where
  "quiet ev = (ev = RafFires \<or> ev = TimerFires \<or> (\<exists>c. ev = ChunkArrives 0 c))"

fun chunk_texts :: "hook_event list \<Rightarrow> string list" where
  "chunk_texts [] = []"
| "chunk_texts (ChunkArrives i c # es) = c # chunk_texts es"
| "chunk_texts (_ # es) = chunk_texts es"

lemma hook_run_simps [simp]:
  "hook_run raf [] h = h" "hook_run raf (e # es) h = hook_run raf es (hook_step raf e h)"
  by (simp_all add: hook_run_def)

lemma running_timers:
  "running p tb conv prov h \<Longrightarrow> running p tb conv prov (raf_fires h)"
  "running p tb conv prov h \<Longrightarrow> running p tb conv prov (timer_fires h)"
  by (auto simp: running_def raf_fires_def timer_fires_def hook_op_defs)

lemma running_calls:
  assumes "running p tb conv prov h"
  shows "running p (tb @ call_tokens cs) (call_conversation cs conv) prov (handler_calls raf cs h)"
proof -
  obtain a b where "handler_calls raf cs h =
     h\<lparr>h_state := (h_state h)\<lparr>cs_conversationId := call_conversation cs (cs_conversationId (h_state h))\<rparr>,
       h_tokenBuffer := h_tokenBuffer h @ call_tokens cs, h_flushTimer := a, h_raf := b\<rparr>"
    using handler_calls_frame [of raf cs h] by blast
  with assms show ?thesis by (auto simp: running_def)
qed

lemma running_finish:
  "running p tb conv prov h \<Longrightarrow> ended (outcome t tb conv prov) (finish_run 0 (Some t) h)"
  by (auto simp: running_def ended_def outcome_def finish_run_def hook_op_defs split: stream_terminal.split)

lemma running_phase: "running p tb conv prov h \<Longrightarrow> phase_of 0 h = Reading p"
  by (auto simp: running_def phase_of_def)

lemma running_chunk:
  assumes "running p tb conv prov h" and "push c p = (events, p1)" and "apply_chunk events = (t, calls)"
  shows "case t of
      None \<Rightarrow> running p1 (tb @ call_tokens calls) (call_conversation calls conv) prov
                (hook_step raf (ChunkArrives 0 c) h)
    | Some t0 \<Rightarrow> (case apply_flushed (fst (flush p1)) (Some t0) of (t', calls') \<Rightarrow> t' = Some tt \<longrightarrow>
         ended (outcome tt (tb @ call_tokens (calls @ calls')) (call_conversation (calls @ calls') conv) prov)
           (hook_step raf (ChunkArrives 0 c) h))"
proof (cases t)
  case None
  from running_calls [OF assms(1), where cs = calls and raf = raf] show ?thesis
    using assms(2,3) None running_phase [OF assms(1)]
    by (auto simp: chunk_arrives_def running_def set_phase_def)
next
  case (Some t0)
  obtain t' calls' where f: "apply_flushed (fst (flush p1)) (Some t0) = (t', calls')" by fastforce
  note r = running_finish [OF running_calls [OF running_calls [OF assms(1), where cs = calls and raf = raf],
        where cs = calls' and raf = raf]]
  show ?thesis
    using assms(2,3) Some running_phase [OF assms(1)] f r [of tt]
    by (simp add: chunk_arrives_def finish_reading_def)
qed

lemma ended_quiet: "ended s h \<Longrightarrow> quiet ev \<Longrightarrow> ended s (hook_step raf ev h)"
  by (auto simp: ended_def quiet_def phase_of_def raf_fires_def timer_fires_def hook_op_defs)

lemma ended_quiet_run: "ended s h \<Longrightarrow> \<forall>ev\<in>set es. quiet ev \<Longrightarrow> ended s (hook_run raf es h)"
  by (induction es arbitrary: h) (simp_all add: ended_quiet)

lemma running_run:
  assumes "running p tb conv prov h" and "\<forall>ev\<in>set es. quiet ev"
    and "read_loop (map Inr (chunk_texts es)) p = (Inr (Some t), calls, createSseParser)"
  shows "ended (outcome t (tb @ call_tokens calls) (call_conversation calls conv) prov) (hook_run raf es h)"
  using assms
proof (induction es arbitrary: p tb conv h calls)
  case (Cons ev es)
  from Cons.prems(2) consider "ev = RafFires" | "ev = TimerFires" | c where "ev = ChunkArrives 0 c"
    by (auto simp: quiet_def)
  then show ?case
  proof cases
    case 1
    with Cons.IH [OF running_timers(1) [OF Cons.prems(1)]] Cons.prems show ?thesis by simp
  next
    case 2
    with Cons.IH [OF running_timers(2) [OF Cons.prems(1)]] Cons.prems show ?thesis by simp
  next
    case 3
    obtain events p1 where p: "push c p = (events, p1)" by fastforce
    obtain t0 calls0 where a: "apply_chunk events = (t0, calls0)" by fastforce
    note step = running_chunk [OF Cons.prems(1) p a]
    show ?thesis
    proof (cases t0)
      case None
      obtain calls1 where "read_loop (map Inr (chunk_texts es)) p1 = (Inr (Some t), calls1, createSseParser)"
        and calls: "calls = calls0 @ calls1"
        using Cons.prems(3) 3 p a None by (auto split: prod.splits)
      with Cons.IH [of p1 "tb @ call_tokens calls0" "call_conversation calls0 conv"
          "hook_step raf ev h" calls1] step None 3 Cons.prems(2)
      show ?thesis by simp
    next
      case (Some t1)
      then have "t1 = t" "calls0 = calls" "p1 = createSseParser"
        using Cons.prems(3) 3 p a by simp_all
      moreover have "apply_flushed (fst (flush createSseParser)) (Some t) = (Some t, [])"
        by (simp add: flush_initial)
      ultimately have "ended (outcome t (tb @ call_tokens calls) (call_conversation calls conv) prov)
          (hook_step raf ev h)"
        using step [where tt = t and raf = raf] Some 3 by simp
      with ended_quiet_run Cons.prems(2) show ?thesis by simp
    qed
  qed
qed simp


lemma running_started:
  assumes "response_ok r"
  shows "running createSseParser [] (si_conversationId inp) (Some (si_provider inp))
    (hook_run raf [Start inp, ResponseArrives 0 r True] initial_hook)"
  using assms
  by (simp add: running_def start_def initial_hook_def hook_op_defs phase_of_def response_arrives_def)

text \<open>C7: a chat from the request to the screen.  The user sends a message, the stream opens,
  the backend sends any conversation, token and heartbeat events and then a completion or an
  error, the network cuts the text anywhere and the flush timers fire at any moments: the page
  ends with exactly the tokens of the backend concatenated, the last conversation id, and
  the outcome the backend announced.\<close>

theorem chat_shows_the_answer:
  assumes "response_ok r" and "\<forall>ev\<in>set events. quiet ev"
    and "\<forall>ev\<in>set (evs @ [fin]). is_known ev" and "\<forall>ev\<in>set evs. chat_terminal ev = None"
    and "chat_terminal fin = Some t"
    and "concat (chunk_texts events) = concat (map (\<lambda>ev. sse_frame (chat_frame ev)) (evs @ [fin]))"
  shows "h_state (hook_run raf (Start inp # ResponseArrives 0 r True # events) initial_hook) =
    outcome t (call_tokens (concat (map chat_calls evs)))
      (call_conversation (concat (map chat_calls evs)) (si_conversationId inp)) (Some (si_provider inp))"
proof -
  from running_run [OF running_started [OF assms(1)] assms(2) read_loop_chat [OF assms(3-6)]]
  show ?thesis by (simp add: ended_def)
qed

definition ex_input :: start_input where
  "ex_input = \<lparr>si_message = ''hi'', si_conversationId = None, si_organizationId = None, si_provider = ''gemini''\<rparr>"

definition ex_ok :: http_response where
  "ex_ok = \<lparr>rs_status = 200, rs_statusText = [], rs_headers = [], rs_body = Inr []\<rparr>"

definition ex_stream :: string where
  "ex_stream = concat (map (\<lambda>ev. sse_frame (chat_frame ev)) (ex_chat @ [Completed ''m'' ''llama'']))"

lemma chat_shows_the_answer_witness:
  "cs_tokens (h_state (hook_run True [Start ex_input, ResponseArrives 0 ex_ok True,
      ChunkArrives 0 (take 90 ex_stream), RafFires, TimerFires, ChunkArrives 0 (drop 90 ex_stream)] initial_hook))
   = ''Hi'' @ [NL, QUOTE] @ ''you''"
proof -
  let ?es = "[ChunkArrives 0 (take 90 ex_stream), RafFires, TimerFires, ChunkArrives 0 (drop 90 ex_stream)]"
  have "response_ok ex_ok" by code_simp
  moreover have "\<forall>ev\<in>set ?es. quiet ev" by (simp add: quiet_def)
  moreover have "\<forall>ev\<in>set (ex_chat @ [Completed ''m'' ''llama'']). is_known ev" by code_simp
  moreover have "\<forall>ev\<in>set ex_chat. chat_terminal ev = None" by code_simp
  moreover have "chat_terminal (Completed ''m'' ''llama'') = Some (TCompleted ''m'' ''llama'')" by code_simp
  moreover have "concat (chunk_texts ?es)
      = concat (map (\<lambda>ev. sse_frame (chat_frame ev)) (ex_chat @ [Completed ''m'' ''llama'']))"
    by (simp only: chunk_texts.simps concat.simps append_Nil2 append_take_drop_id ex_stream_def)
  ultimately have "h_state (hook_run True (Start ex_input # ResponseArrives 0 ex_ok True # ?es) initial_hook) =
    outcome (TCompleted ''m'' ''llama'') (call_tokens (concat (map chat_calls ex_chat)))
      (call_conversation (concat (map chat_calls ex_chat)) (si_conversationId ex_input)) (Some (si_provider ex_input))"
    by (rule chat_shows_the_answer)
  moreover have "call_tokens (concat (map chat_calls ex_chat)) = ''Hi'' @ [NL, QUOTE] @ ''you''" by code_simp
  ultimately show ?thesis by (simp add: outcome_def)
qed

section \<open>Late answers of aborted runs\<close>

text \<open>
  The catch block of an aborted run writes to the state without asking whether the state is
  still its own: after \<open>reset\<close>, and after a second \<open>start\<close>, the rejection of the first run
  arrives later and turns the fresh state into a cancelled one.
\<close>

definition abort_error :: js_exn where "abort_error = DomException ''AbortError'' ''The operation was aborted.''"

lemma reset_is_overwritten:
  "h_state (hook_run True [Start ex_input, Reset] initial_hook) = initialState"
  "cs_status (h_state (hook_run True [Start ex_input, Reset, RunRejects 0 abort_error] initial_hook)) = SCancelled"
  by code_simp+

lemma restart_is_overwritten:
  "isBusy (hook_run True [Start ex_input, Start ex_input] initial_hook)"
  "let h = hook_run True [Start ex_input, Start ex_input, RunRejects 0 abort_error] initial_hook
   in \<not> isBusy h \<and> h_abortRef h = Some 1 \<and> h_runs h = [Finished, AwaitResponse]"
  by code_simp+

section \<open>After a stop\<close>

definition all_aborted :: "hook \<Rightarrow> bool" where
  "all_aborted h = ((\<forall>i. phase_of i h \<noteq> Finished \<longrightarrow> i \<in> set (h_aborted h)) \<and> h_abortRef h = None
     \<and> cs_status (h_state h) \<noteq> SCompleted \<and> cs_status (h_state h) \<noteq> SError)"

definition no_start :: "hook_event \<Rightarrow> bool" where "no_start ev = (\<forall>inp. ev \<noteq> Start inp)"

lemma phase_of_set_phase: "phase_of j (set_phase i ph h) \<noteq> Finished \<Longrightarrow> j = i \<or> phase_of j h \<noteq> Finished"
  by (auto simp: phase_of_def set_phase_def split: if_splits)

lemma aborted_calls: "all_aborted h \<Longrightarrow> all_aborted (handler_calls raf cs h)"
  using handler_calls_frame [of raf cs h] by (auto simp: all_aborted_def phase_of_def)

lemma aborted_phase:
  "all_aborted h \<Longrightarrow> phase_of i h \<noteq> Finished \<Longrightarrow> all_aborted (set_phase i ph h)"
proof -
  assume h: "all_aborted h" "phase_of i h \<noteq> Finished"
  have "h_aborted (set_phase i ph h) = h_aborted h" "h_abortRef (set_phase i ph h) = h_abortRef h"
    "h_state (set_phase i ph h) = h_state h" by (simp_all add: set_phase_def)
  with h phase_of_set_phase show ?thesis unfolding all_aborted_def by metis
qed

lemma aborted_end: "all_aborted h \<Longrightarrow> phase_of i h \<noteq> Finished \<Longrightarrow> all_aborted (end_run i h)"
  using aborted_phase [of h i] by (simp add: end_run_def) (simp add: all_aborted_def)

lemma aborted_status:
  "all_aborted h \<Longrightarrow> cs_status (f (h_state h)) \<noteq> SCompleted \<Longrightarrow> cs_status (f (h_state h)) \<noteq> SError \<Longrightarrow>
   all_aborted (set_state f (clearFlushTimers h))"
  "all_aborted h \<Longrightarrow> cs_status (f (h_state h)) \<noteq> SCompleted \<Longrightarrow> cs_status (f (h_state h)) \<noteq> SError \<Longrightarrow>
   all_aborted (set_state f h)"
  "phase_of i (set_state f h) = phase_of i h" "phase_of i (clearFlushTimers h) = phase_of i h"
  by (auto simp: all_aborted_def set_state_def clearFlushTimers_def phase_of_def)

lemma aborted_mem: "all_aborted h \<Longrightarrow> phase_of i h \<noteq> Finished \<Longrightarrow> i \<in> set (h_aborted h)"
  by (simp add: all_aborted_def)

lemma aborted_fail: "all_aborted h \<Longrightarrow> phase_of i h \<noteq> Finished \<Longrightarrow> all_aborted (fail_run i e h)"
  using aborted_mem [of h i]
  by (auto simp: fail_run_def Let_def clearFlushTimers_def intro!: aborted_end
      aborted_status(1) [unfolded clearFlushTimers_def] simp: aborted_status(3,4) [unfolded clearFlushTimers_def])

lemma aborted_finish: "all_aborted h \<Longrightarrow> phase_of i h \<noteq> Finished \<Longrightarrow> all_aborted (finish_run i t h)"
  using aborted_mem [of h i]
  by (auto simp: finish_run_def Let_def clearFlushTimers_def intro!: aborted_end
      aborted_status(1) [unfolded clearFlushTimers_def] simp: aborted_status(3,4) [unfolded clearFlushTimers_def])

lemma aborted_finish_reading:
  "all_aborted h \<Longrightarrow> phase_of i h \<noteq> Finished \<Longrightarrow> all_aborted (finish_reading raf i p t h)"
  by (simp add: finish_reading_def aborted_finish aborted_calls split: prod.split)

lemma aborted_response:
  "all_aborted h \<Longrightarrow> phase_of i h \<noteq> Finished \<Longrightarrow> all_aborted (response_arrives i r b h)"
  by (simp add: response_arrives_def aborted_phase aborted_fail aborted_status)

lemma aborted_chunk:
  "all_aborted h \<Longrightarrow> phase_of i h \<noteq> Finished \<Longrightarrow> all_aborted (chunk_arrives raf i p c h)"
  by (simp add: chunk_arrives_def aborted_phase aborted_finish_reading aborted_calls
      split: prod.split option.split)

lemma aborted_plain:
  assumes "all_aborted h"
  shows "all_aborted (raf_fires h)" "all_aborted (timer_fires h)" "all_aborted (stop h)"
    "all_aborted (reset h)" "all_aborted (unmount h)"
  using assms by (auto simp: all_aborted_def phase_of_def raf_fires_def timer_fires_def stop_def reset_def
      unmount_def initialState_def hook_op_defs)

lemma aborted_step: "all_aborted h \<Longrightarrow> no_start ev \<Longrightarrow> all_aborted (hook_step raf ev h)"
  by (cases ev)
     (simp_all add: no_start_def aborted_plain aborted_response aborted_chunk
        aborted_fail aborted_finish_reading split: run_phase.split option.split)

lemma aborted_run: "all_aborted h \<Longrightarrow> \<forall>ev\<in>set es. no_start ev \<Longrightarrow> all_aborted (hook_run raf es h)"
  by (induction es arbitrary: h) (simp_all add: aborted_step)

text \<open>C8: a stop is final: once the user has stopped a chat that was under way, nothing that
  arrives later (an answer, more chunks, the end of the stream, an error, a timer) turns it
  into a completed or a failed one; the state at the stop is cancelled and shows every token
  received by then.\<close>

theorem stop_is_final:
  assumes "isBusy h" and "h = hook_run raf before initial_hook"
    and "\<forall>ev\<in>set later. no_start ev"
  shows "cs_status (h_state (stop h)) = SCancelled \<and> cs_tokens (h_state (stop h)) = h_tokenBuffer h
    \<and> cs_status (h_state (hook_run raf later (stop h))) \<notin> {SCompleted, SError}"
proof -
  have "hook_inv h" unfolding assms(2) by (rule inv_run [OF inv_initial])
  then have live: "phase_of i h \<noteq> Finished \<Longrightarrow> i \<in> set (h_aborted h) \<or> h_abortRef h = Some i" for i
    unfolding hook_inv_def live_ok_def by (metis phase_of_def)
  have st: "cs_status (h_state (stop h)) = SCancelled" "cs_tokens (h_state (stop h)) = h_tokenBuffer h"
    using assms(1) by (auto simp: stop_def isBusy_def hook_op_defs split: option.split)
  have ph: "phase_of i (stop h) = phase_of i h" for i
    by (simp add: stop_def phase_of_def hook_op_defs split: option.split)
  have ab: "i \<in> set (h_aborted h) \<or> h_abortRef h = Some i \<Longrightarrow> i \<in> set (h_aborted (stop h))" for i
    by (auto simp: stop_def hook_op_defs split: option.split)
  have "h_abortRef (stop h) = None" by (simp add: stop_def hook_op_defs split: option.split)
  then have "all_aborted (stop h)" using live ph ab st(1) by (simp add: all_aborted_def)
  from aborted_run [OF this assms(3)] st show ?thesis by (simp add: all_aborted_def)
qed

lemma stop_is_final_witness:
  "let h = hook_run True [Start ex_input, ResponseArrives 0 ex_ok True, ChunkArrives 0 (take 90 ex_stream)] initial_hook
   in cs_status (h_state (hook_run True [ChunkArrives 0 (drop 90 ex_stream)] (stop h))) \<notin> {SCompleted, SError}"
proof -
  let ?h = "hook_run True [Start ex_input, ResponseArrives 0 ex_ok True, ChunkArrives 0 (take 90 ex_stream)] initial_hook"
  have "isBusy ?h" by code_simp
  moreover have "\<forall>ev\<in>set [ChunkArrives 0 (drop 90 ex_stream)]. no_start ev" by (simp add: no_start_def)
  ultimately show ?thesis using stop_is_final [OF _ refl] unfolding Let_def by blast
qed

end
