(* ===== verification/Rbac.thy ===== *)
theory Rbac
  imports Js_Json
begin

text \<open>
  lib/permissions/rbac.ts with its counterpart app/services/rbac.py of the backend, and the
  role lookup of components/app-shell/use-org-role.ts: which actions the interface offers.
\<close>

section \<open>Roles and permissions\<close>

datatype OrgRole = Owner | Admin | Member | Viewer

datatype Permission =
    OrganizationRead | OrganizationUpdate | OrganizationDelete | MemberManage
  | ArtifactRead | ArtifactWrite | PolicyRead | PolicyManage | AuditRead | TaskCancel | ResourceCreate

text \<open>The roles are ordered by the power they carry.\<close>

fun role_rank :: "OrgRole \<Rightarrow> nat" where
  "role_rank Viewer = 0" | "role_rank Member = 1" | "role_rank Admin = 2" | "role_rank Owner = 3"

instantiation OrgRole :: linorder
begin

definition less_eq_OrgRole :: "OrgRole \<Rightarrow> OrgRole \<Rightarrow> bool" where
  "less_eq_OrgRole r s = (role_rank r \<le> role_rank s)"

definition less_OrgRole :: "OrgRole \<Rightarrow> OrgRole \<Rightarrow> bool" where
  "less_OrgRole r s = (role_rank r < role_rank s)"

instance
proof
  fix r s t :: OrgRole
  show "r \<le> s \<Longrightarrow> s \<le> r \<Longrightarrow> r = s" by (cases r; cases s) (simp_all add: less_eq_OrgRole_def)
qed (auto simp: less_eq_OrgRole_def less_OrgRole_def)

end

definition ALL_PERMISSIONS :: "Permission list" where
  "ALL_PERMISSIONS =
     [OrganizationRead, OrganizationUpdate, OrganizationDelete, MemberManage, ArtifactRead, ArtifactWrite,
      PolicyRead, PolicyManage, AuditRead, TaskCancel, ResourceCreate]"

fun ROLE_PERMISSIONS :: "OrgRole \<Rightarrow> Permission set" where
  "ROLE_PERMISSIONS Owner = set ALL_PERMISSIONS"
| "ROLE_PERMISSIONS Admin =
     set [OrganizationRead, OrganizationUpdate, MemberManage, ArtifactRead, ArtifactWrite, PolicyRead,
          PolicyManage, AuditRead, TaskCancel, ResourceCreate]"
| "ROLE_PERMISSIONS Member =
     set [OrganizationRead, ArtifactRead, ArtifactWrite, PolicyRead, ResourceCreate, TaskCancel]"
| "ROLE_PERMISSIONS Viewer = set [OrganizationRead, ArtifactRead, PolicyRead]"

definition can :: "OrgRole \<Rightarrow> Permission \<Rightarrow> bool" where
  "can role permission = (permission \<in> ROLE_PERMISSIONS role)"

definition hasAnyPermission :: "OrgRole \<Rightarrow> Permission list \<Rightarrow> bool" where
  "hasAnyPermission role permissions = list_ex (can role) permissions"

definition hasAllPermissions :: "OrgRole \<Rightarrow> Permission list \<Rightarrow> bool" where
  "hasAllPermissions role permissions = list_all (can role) permissions"

section \<open>The backend\<close>

text \<open>\<open>set(Permission)\<close> is the set of all members of the enumeration.\<close>

fun backend_ROLE_PERMISSIONS :: "OrgRole \<Rightarrow> Permission list" where
  "backend_ROLE_PERMISSIONS Owner =
     [OrganizationRead, OrganizationUpdate, OrganizationDelete, MemberManage, ArtifactRead, ArtifactWrite,
      PolicyRead, PolicyManage, AuditRead, TaskCancel, ResourceCreate]"
| "backend_ROLE_PERMISSIONS Admin =
     [OrganizationRead, OrganizationUpdate, MemberManage, ArtifactRead, ArtifactWrite, PolicyRead,
      PolicyManage, AuditRead, TaskCancel, ResourceCreate]"
| "backend_ROLE_PERMISSIONS Member =
     [OrganizationRead, ArtifactRead, ArtifactWrite, PolicyRead, ResourceCreate, TaskCancel]"
| "backend_ROLE_PERMISSIONS Viewer = [OrganizationRead, ArtifactRead, PolicyRead]"

definition role_has_permission :: "OrgRole \<Rightarrow> Permission \<Rightarrow> bool" where
  "role_has_permission role permission = (permission \<in> set (backend_ROLE_PERMISSIONS role))"

section \<open>The role of the signed-in user\<close>

definition role_of_name :: "string \<Rightarrow> OrgRole option" where
  "role_of_name s =
     (if s = ''owner'' then Some Owner else if s = ''admin'' then Some Admin
      else if s = ''member'' then Some Member else if s = ''viewer'' then Some Viewer else None)"

record org_member =
  om_user_id :: string
  om_role :: OrgRole

text \<open>
  The query runs for a selected organization and a signed-in user; \<open>items\<close> is the page of
  members it has loaded, if any.
\<close>

definition role_query_enabled :: "string option \<Rightarrow> string option \<Rightarrow> bool" where
  "role_query_enabled organizationId userId = (truthy_str organizationId \<and> truthy_str userId)"

definition useOrganizationRole :: "string option \<Rightarrow> string option \<Rightarrow> org_member list option \<Rightarrow> OrgRole option" where
  "useOrganizationRole organizationId userId items =
     (if \<not> truthy_str organizationId \<or> \<not> truthy_str userId then None
      else case items of None \<Rightarrow> None
        | Some ms \<Rightarrow> map_option om_role (find (\<lambda>m. Some (om_user_id m) = userId) ms))"

section \<open>Lemmas and properties\<close>

lemma all_permissions: "p \<in> set ALL_PERMISSIONS"
  by (cases p) (simp_all add: ALL_PERMISSIONS_def)

lemma can_iff_backend: "can role permission = role_has_permission role permission"
  by (cases role) (simp_all add: can_def role_has_permission_def ALL_PERMISSIONS_def)

lemma role_permissions_mono: "r \<le> s \<Longrightarrow> ROLE_PERMISSIONS r \<subseteq> ROLE_PERMISSIONS s"
  by (cases r; cases s) (auto simp: less_eq_OrgRole_def ALL_PERMISSIONS_def)

text \<open>The interface offers an action exactly when the backend grants it: the two permission
  tables agree for every role and permission.\<close>

theorem frontend_mirrors_backend:
  "can role permission = role_has_permission role permission
   \<and> hasAllPermissions role ps = list_all (role_has_permission role) ps
   \<and> hasAnyPermission role ps = list_ex (role_has_permission role) ps"
  by (simp add: can_iff_backend hasAllPermissions_def hasAnyPermission_def cong: list_all_cong list_ex_cong)

text \<open>A more powerful role can do everything a lesser one can, the order of the roles is the
  inclusion of their permissions (so no two roles are equal in power), and only the owner
  can delete an organization.\<close>

theorem roles_are_a_chain:
  "(r \<le> s) = (\<forall>p. can r p \<longrightarrow> can s p) \<and> can r OrganizationDelete = (r = Owner) \<and> can Owner p"
proof -
  have "ROLE_PERMISSIONS r \<subseteq> ROLE_PERMISSIONS s \<Longrightarrow> r \<le> s"
    by (cases r; cases s) (auto simp: less_eq_OrgRole_def ALL_PERMISSIONS_def)
  moreover have "(p \<in> ROLE_PERMISSIONS Owner)" using all_permissions by simp
  moreover have "(OrganizationDelete \<in> ROLE_PERMISSIONS r) = (r = Owner)"
    by (cases r) (simp_all add: ALL_PERMISSIONS_def)
  ultimately show ?thesis using role_permissions_mono [of r s] by (auto simp: can_def)
qed

lemma roles_are_a_chain_witness:
  "(Member \<le> Admin) = (\<forall>p. can Member p \<longrightarrow> can Admin p)"
  using roles_are_a_chain [of Member Admin ArtifactRead] by blast

end
