(* ===== verification/Nav_Config.thy ===== *)
theory Nav_Config
  imports Rbac Routing
begin

text \<open>
  components/app-shell/nav-config.ts: the sidebar, the breadcrumbs and the command menu.
  Icons are left out.  A label that needs the ellipsis character or the decoding of an
  arbitrary path segment is kept as a constructor of its own.
\<close>

section \<open>The configuration\<close>

record nav_context =
  nc_organizationId :: "string option"
  nc_orgRole :: "OrgRole option"

datatype nav_href = Static string | Resolve "nav_context \<Rightarrow> string option"

record nav_item =
  ni_id :: string
  ni_title :: string
  ni_href :: nav_href
  ni_permission :: "Permission option"
  ni_requiresOrganization :: bool

record nav_group =
  ng_id :: string
  ng_title :: string
  ng_items :: "nav_item list"

definition plain_item :: "string \<Rightarrow> string \<Rightarrow> string \<Rightarrow> nav_item" where
  "plain_item i title href = \<lparr>ni_id = i, ni_title = title, ni_href = Static href,
     ni_permission = None, ni_requiresOrganization = False\<rparr>"

definition org_page :: "string \<Rightarrow> nav_context \<Rightarrow> string option" where
  "org_page page ctx = (case nonempty_opt (nc_organizationId ctx) of
      Some i \<Rightarrow> Some (''/organizations/'' @ i @ page) | None \<Rightarrow> None)"

definition NAV_GROUPS :: "nav_group list" where
  "NAV_GROUPS =
     [\<lparr>ng_id = ''overview'', ng_title = ''Overview'',
       ng_items = [plain_item ''dashboard'' ''Dashboard'' ''/dashboard'']\<rparr>,
      \<lparr>ng_id = ''ai-operations'', ng_title = ''AI Operations'',
       ng_items = [plain_item ''chat'' ''Chat'' ''/chat'', plain_item ''logs'' ''Log Analyzer'' ''/logs'',
         plain_item ''reviews'' ''Configuration Review'' ''/reviews'']\<rparr>,
      \<lparr>ng_id = ''generators'', ng_title = ''Generators'',
       ng_items = [plain_item ''dockerfile'' ''Dockerfile'' ''/generators/dockerfile'',
         plain_item ''kubernetes'' ''Kubernetes'' ''/generators/kubernetes'',
         plain_item ''pipeline'' ''CI/CD Pipeline'' ''/generators/pipeline'',
         plain_item ''command'' ''Shell Command'' ''/generators/command'']\<rparr>,
      \<lparr>ng_id = ''workspace'', ng_title = ''Workspace'',
       ng_items = [plain_item ''artifacts'' ''Artifacts'' ''/artifacts'',
         plain_item ''organizations'' ''Organizations'' ''/organizations'',
         plain_item ''tasks'' ''Tasks'' ''/tasks'', plain_item ''usage'' ''Usage'' ''/usage'']\<rparr>,
      \<lparr>ng_id = ''administration'', ng_title = ''Administration'',
       ng_items = [plain_item ''getting-started'' ''Getting started'' ''/onboarding'',
         \<lparr>ni_id = ''policy-packs'', ni_title = ''Policy Packs'',
          ni_href = Resolve (\<lambda>ctx. case org_page ''/policies'' ctx of Some h \<Rightarrow> Some h | None \<Rightarrow> Some ''/organizations''),
          ni_permission = None, ni_requiresOrganization = False\<rparr>,
         \<lparr>ni_id = ''audit-logs'', ni_title = ''Audit Logs'', ni_href = Resolve (org_page ''/audit''),
          ni_permission = Some AuditRead, ni_requiresOrganization = True\<rparr>,
         \<lparr>ni_id = ''providers'', ni_title = ''Providers'', ni_href = Resolve (org_page ''/providers''),
          ni_permission = Some OrganizationUpdate, ni_requiresOrganization = True\<rparr>]\<rparr>,
      \<lparr>ng_id = ''account'', ng_title = ''Account'',
       ng_items = [plain_item ''settings'' ''Settings'' ''/settings/profile'']\<rparr>]"

section \<open>Resolving\<close>

record resolved_item =
  ri_id :: string
  ri_title :: string
  ri_href :: string
  ri_permission :: "Permission option"

record resolved_group =
  rg_id :: string
  rg_title :: string
  rg_items :: "resolved_item list"

definition resolve_item :: "nav_context \<Rightarrow> nav_item \<Rightarrow> resolved_item option" where
  "resolve_item ctx item =
     (if ni_requiresOrganization item \<and> \<not> truthy_str (nc_organizationId ctx) then None
      else if (case ni_permission item of None \<Rightarrow> False
               | Some p \<Rightarrow> (case nc_orgRole ctx of None \<Rightarrow> True | Some r \<Rightarrow> \<not> can r p)) then None
      else case nonempty_opt (case ni_href item of Static h \<Rightarrow> Some h | Resolve f \<Rightarrow> f ctx) of
             None \<Rightarrow> None
           | Some href \<Rightarrow> Some \<lparr>ri_id = ni_id item, ri_title = ni_title item, ri_href = href,
                              ri_permission = ni_permission item\<rparr>)"

definition resolve_group :: "nav_context \<Rightarrow> nav_group \<Rightarrow> resolved_group" where
  "resolve_group ctx g = \<lparr>rg_id = ng_id g, rg_title = ng_title g,
     rg_items = List.map_filter (resolve_item ctx) (ng_items g)\<rparr>"

definition resolveNavGroups :: "nav_context \<Rightarrow> resolved_group list" where
  "resolveNavGroups ctx = filter (\<lambda>g. rg_items g \<noteq> []) (map (resolve_group ctx) NAV_GROUPS)"

definition isNavItemActive :: "string \<Rightarrow> string \<Rightarrow> bool" where
  "isNavItemActive pathname href =
     (if pathname = href then True
      else if href = ''/dashboard'' then False
      else starts_with pathname (href @ ''/''))"

section \<open>Breadcrumbs\<close>

definition SEGMENT_LABELS :: "(string \<times> string) list" where
  "SEGMENT_LABELS =
     [(''dashboard'', ''Dashboard''), (''chat'', ''Chat''), (''logs'', ''Log Analyzer''),
      (''reviews'', ''Configuration Review''), (''generators'', ''Generators''),
      (''dockerfile'', ''Dockerfile''), (''kubernetes'', ''Kubernetes''), (''pipeline'', ''CI/CD Pipeline''),
      (''command'', ''Shell Command''), (''artifacts'', ''Artifacts''), (''organizations'', ''Organizations''),
      (''members'', ''Members''), (''policies'', ''Policy Packs''), (''audit'', ''Audit Logs''),
      (''tasks'', ''Tasks''), (''usage'', ''Usage''), (''onboarding'', ''Getting started''),
      (''providers'', ''Providers''), (''settings'', ''Settings''), (''profile'', ''Profile''),
      (''appearance'', ''Appearance''), (''security'', ''Security'')]"

text \<open>\<open>Builtin n\<close> is an inherited property instead of a label, \<open>Truncated s\<close> is \<open>s\<close> followed by an ellipsis, \<open>Decoded s\<close> is \<open>decodeURIComponent(s)\<close>.\<close>

datatype crumb_label = Known string | Builtin string | Truncated string | Decoded string

definition crumb_label :: "string \<Rightarrow> crumb_label" where
  "crumb_label part =
     (case record_lookup SEGMENT_LABELS part of Own l \<Rightarrow> Known l | Inherited n \<Rightarrow> Builtin n
      | Absent \<Rightarrow> (if length part > 20 then Truncated (take 8 part) else Decoded part))"

fun crumbs :: "string list \<Rightarrow> string \<Rightarrow> (crumb_label \<times> string) list" where
  "crumbs [] href = []"
| "crumbs (part # parts) href =
     (let href' = href @ ''/'' @ part in (crumb_label part, href') # crumbs parts href')"

definition breadcrumbSegments :: "string \<Rightarrow> (crumb_label \<times> string) list" where
  "breadcrumbSegments pathname =
     crumbs (filter (\<lambda>p. p \<noteq> []) (split_on (\<lambda>c. c = CHR ''/'') pathname)) []"

text \<open>\<open>\b\w\<close>: a word character that follows none.\<close>

definition is_word_char :: "char \<Rightarrow> bool" where
  "is_word_char c = (is_digit c \<or> is_lower_az c \<or> is_upper_az c \<or> c = CHR ''_'')"

fun upper_words :: "bool \<Rightarrow> string \<Rightarrow> string" where
  "upper_words after_word [] = []"
| "upper_words after_word (c # cs) =
     (if is_word_char c \<and> \<not> after_word then char_upper c else c) # upper_words (is_word_char c) cs"

definition humanizeSegment :: "string \<Rightarrow> string looked_up" where
  "humanizeSegment segment =
     (case record_lookup SEGMENT_LABELS segment of Own l \<Rightarrow> Own l | Inherited n \<Rightarrow> Inherited n
      | Absent \<Rightarrow> Own (upper_words False (map (\<lambda>c. if c = CHR ''-'' \<or> c = CHR ''_'' then CHR '' '' else c) segment)))"

section \<open>The command menu\<close>

record command_action =
  ca_id :: string
  ca_label :: string
  ca_href :: "string option"
  ca_keywords :: "string list"

definition COMMAND_ACTIONS :: "command_action list" where
  "COMMAND_ACTIONS =
     [\<lparr>ca_id = ''new-chat'', ca_label = ''New chat'', ca_href = Some ''/chat'', ca_keywords = [''conversation'', ''ai'']\<rparr>,
      \<lparr>ca_id = ''analyze-logs'', ca_label = ''Analyze logs'', ca_href = Some ''/logs'', ca_keywords = [''log'', ''analyzer'']\<rparr>,
      \<lparr>ca_id = ''generate-dockerfile'', ca_label = ''Generate Dockerfile'', ca_href = Some ''/generators/dockerfile'',
       ca_keywords = [''docker'', ''container'']\<rparr>,
      \<lparr>ca_id = ''generate-kubernetes'', ca_label = ''Generate Kubernetes'', ca_href = Some ''/generators/kubernetes'',
       ca_keywords = [''k8s'', ''manifest'']\<rparr>,
      \<lparr>ca_id = ''review-config'', ca_label = ''Review config'', ca_href = Some ''/reviews'',
       ca_keywords = [''configuration'', ''review'']\<rparr>,
      \<lparr>ca_id = ''artifacts'', ca_label = ''Artifacts'', ca_href = Some ''/artifacts'', ca_keywords = [''files'', ''versions'']\<rparr>,
      \<lparr>ca_id = ''usage'', ca_label = ''Usage & quotas'', ca_href = Some ''/usage'',
       ca_keywords = [''tokens'', ''limits'', ''billing'']\<rparr>,
      \<lparr>ca_id = ''onboarding'', ca_label = ''Getting started'', ca_href = Some ''/onboarding'',
       ca_keywords = [''setup'', ''welcome'', ''tour'']\<rparr>,
      \<lparr>ca_id = ''switch-org'', ca_label = ''Switch organization'', ca_href = None,
       ca_keywords = [''workspace'', ''org'', ''organization'']\<rparr>,
      \<lparr>ca_id = ''settings'', ca_label = ''Settings'', ca_href = Some ''/settings/profile'',
       ca_keywords = [''account'', ''profile'']\<rparr>]"

section \<open>Lemmas and properties\<close>

definition nav_items :: "nav_context \<Rightarrow> resolved_item list" where
  "nav_items ctx = concat (map rg_items (resolveNavGroups ctx))"

lemma concat_map_filter_ne: "concat (map f (filter (\<lambda>x. f x \<noteq> []) xs)) = concat (map f xs)"
  by (induction xs) simp_all

lemma set_map_filter: "x \<in> set (List.map_filter f xs) \<longleftrightarrow> (\<exists>y\<in>set xs. f y = Some x)"
  by (induction xs) (auto simp: List.map_filter_simps split: option.split)

lemma nav_items_mem:
  "it \<in> set (nav_items ctx) \<longleftrightarrow> (\<exists>g\<in>set NAV_GROUPS. \<exists>item\<in>set (ng_items g). resolve_item ctx item = Some it)"
  unfolding nav_items_def resolveNavGroups_def concat_map_filter_ne
  by (simp add: resolve_group_def set_map_filter)

lemma resolve_item_permitted:
  "resolve_item ctx item = Some it \<Longrightarrow> ri_permission it = Some p \<Longrightarrow> \<exists>r. nc_orgRole ctx = Some r \<and> can r p"
  by (auto simp: resolve_item_def split: if_splits option.splits)

definition item_hrefs :: "nav_item \<Rightarrow> nav_context \<Rightarrow> string option" where
  "item_hrefs item ctx = (case ni_href item of Static h \<Rightarrow> Some h | Resolve f \<Rightarrow> f ctx)"

lemma resolve_item_href:
  "resolve_item ctx item = Some it \<Longrightarrow> item_hrefs item ctx = Some (ri_href it)"
  by (auto simp: resolve_item_def item_hrefs_def nonempty_opt_def split: if_splits option.splits nav_href.splits)

lemma protected_prefix: "p \<in> set PROTECTED_PREFIXES \<Longrightarrow> isProtectedPath (p @ ''/'' @ r)"
  unfolding isProtectedPath_def by (metis append.assoc starts_with_append)

lemma org_pages_protected: "org_page page ctx = Some h \<Longrightarrow> isProtectedPath h"
proof -
  assume "org_page page ctx = Some h"
  then obtain i where h: "h = ''/organizations'' @ ''/'' @ (i @ page)"
    by (auto simp: org_page_def split: option.splits)
  have "''/organizations'' \<in> set PROTECTED_PREFIXES" by code_simp
  from protected_prefix [OF this] h show ?thesis by blast
qed

lemma static_links_protected:
  "list_all isProtectedPath [''/dashboard'', ''/chat'', ''/logs'', ''/reviews'', ''/generators/dockerfile'',
     ''/generators/kubernetes'', ''/generators/pipeline'', ''/generators/command'', ''/artifacts'',
     ''/organizations'', ''/tasks'', ''/usage'', ''/onboarding'', ''/settings/profile'']"
  by code_simp

lemma nav_hrefs_protected:
  assumes "g \<in> set NAV_GROUPS" "item \<in> set (ng_items g)" "item_hrefs item ctx = Some h"
  shows "isProtectedPath h"
  using assms static_links_protected org_pages_protected
  by (auto simp: NAV_GROUPS_def plain_item_def item_hrefs_def split: option.splits)

text \<open>The sidebar offers a link only to those who may use it: an item that needs a permission
  appears only for a role that has it, every link leads to a page the middleware protects,
  and no empty group is shown.\<close>

theorem nav_links_permitted_and_protected:
  "list_all (\<lambda>it. isProtectedPath (ri_href it) \<and>
      (case ri_permission it of None \<Rightarrow> True
       | Some p \<Rightarrow> (case nc_orgRole ctx of None \<Rightarrow> False | Some r \<Rightarrow> can r p))) (nav_items ctx)
   \<and> list_all (\<lambda>g. rg_items g \<noteq> []) (resolveNavGroups ctx)"
proof -
  have "isProtectedPath (ri_href it) \<and> (case ri_permission it of None \<Rightarrow> True
       | Some p \<Rightarrow> (case nc_orgRole ctx of None \<Rightarrow> False | Some r \<Rightarrow> can r p))"
    if it: "it \<in> set (nav_items ctx)" for it
  proof -
    obtain g item where g: "g \<in> set NAV_GROUPS" "item \<in> set (ng_items g)" "resolve_item ctx item = Some it"
      using it unfolding nav_items_mem by blast
    have "isProtectedPath (ri_href it)"
      by (rule nav_hrefs_protected [OF g(1,2) resolve_item_href [OF g(3)]])
    moreover have "case ri_permission it of None \<Rightarrow> True
       | Some p \<Rightarrow> (case nc_orgRole ctx of None \<Rightarrow> False | Some r \<Rightarrow> can r p)"
      using resolve_item_permitted [OF g(3)] by (auto split: option.split)
    ultimately show ?thesis by blast
  qed
  then show ?thesis by (simp add: list_all_iff resolveNavGroups_def)
qed

lemma crumbs_hrefs:
  "map snd (crumbs parts base) = map (\<lambda>n. base @ concat (map (\<lambda>p. ''/'' @ p) (take (Suc n) parts))) [0..<length parts]"
proof (induction parts base rule: crumbs.induct)
  case (2 part parts href)
  have up: "[0..<Suc (length parts)] = 0 # map Suc [0..<length parts]"
    by (simp add: upt_conv_Cons map_Suc_upt del: upt_Suc)
  from 2 show ?case by (simp add: Let_def up o_def del: upt_Suc)
qed simp

text \<open>Breadcrumb \<open>n\<close> links to the path cut after its segment \<open>n\<close>, so each crumb extends the one
  before it and the last one is the page itself (without empty segments).\<close>

theorem breadcrumb_links:
  "let parts = filter (\<lambda>p. p \<noteq> []) (split_on (\<lambda>c. c = CHR ''/'') pathname) in
     map snd (breadcrumbSegments pathname) =
       map (\<lambda>n. concat (map (\<lambda>p. ''/'' @ p) (take (Suc n) parts))) [0..<length parts]
     \<and> map fst (breadcrumbSegments pathname) = map crumb_label parts"
proof -
  have "map fst (crumbs parts base) = map crumb_label parts" for parts base
    by (induction parts base rule: crumbs.induct) (simp_all add: Let_def)
  then show ?thesis by (simp add: Let_def breadcrumbSegments_def crumbs_hrefs)
qed

end
