(* ===== verification/Text_Utils.thy ===== *)
theory Text_Utils
  imports Js_Json
begin

text \<open>
  Pure text functions: lib/utils/filename.ts (names of downloads), features/organizations/slugify.ts
  (slugs of organizations) and features/audit/redact.ts (secrets in audit metadata).
\<close>

section \<open>\<open>sanitizeFilename\<close>\<close>

definition is_control :: "char \<Rightarrow> bool" where
  "is_control c = (char_code c < 32 \<or> char_code c = 127)"

definition is_reserved :: "char \<Rightarrow> bool" where
  "is_reserved c = (c \<in> set ''<>:|?*'' \<or> c = CHR 0x22)"

definition last_index :: "char \<Rightarrow> string \<Rightarrow> nat option" where
  "last_index c s = (if c \<in> set s then Some (length s - 1 - length (takeWhile (\<lambda>x. x \<noteq> c) (rev s))) else None)"

text \<open>The part of the name that is used: after the last slash, cleaned.\<close>

definition clean_name :: "string \<Rightarrow> string" where
  "clean_name name =
     (let slashed = map (\<lambda>c. if c = CHR 0x5C then CHR ''/'' else c) (filter (\<lambda>c. c \<noteq> CHR 0x00) name);
          base = last (split_on (\<lambda>c. c = CHR ''/'') slashed);
          printable = filter (\<lambda>c. \<not> is_control c) base;
          safe = map (\<lambda>c. if is_reserved c then CHR ''_'' else c) printable
      in js_trim (dropWhile (\<lambda>c. c = CHR ''.'') safe))"

definition limit_name :: "string \<Rightarrow> string" where
  "limit_name base =
     (if length base > 200 then
        (let ext = (case last_index (CHR ''.'') base of
                      Some dot \<Rightarrow> (if dot > 0 \<and> int dot > int (length base) - 12 then drop dot base else [])
                    | None \<Rightarrow> []);
             stem = take (200 - length ext) base
         in stem @ ext)
      else base)"

definition sanitizeFilename :: "string \<Rightarrow> string \<Rightarrow> string" where
  "sanitizeFilename name fallback =
     (if name = [] then fallback
      else (let base = clean_name name
            in if base = [] \<or> base = ''.'' \<or> base = ''..'' then fallback
               else (let limited = limit_name base in if limited = [] then fallback else limited)))"

section \<open>\<open>slugify\<close>\<close>

definition is_slug_char :: "char \<Rightarrow> bool" where "is_slug_char c = (is_lower_az c \<or> is_digit c)"

text \<open>\<open>replace(/[^a-z0-9]+/g, "-")\<close>: a run of other characters becomes one dash.\<close>

fun dash_runs :: "bool \<Rightarrow> string \<Rightarrow> string" where
  "dash_runs in_run [] = []"
| "dash_runs in_run (c # cs) =
     (if is_slug_char c then c # dash_runs False cs
      else if in_run then dash_runs True cs else CHR ''-'' # dash_runs True cs)"

definition trim_dashes :: "string \<Rightarrow> string" where
  "trim_dashes s = rev (dropWhile (\<lambda>c. c = CHR ''-'') (rev (dropWhile (\<lambda>c. c = CHR ''-'') s)))"

definition slug_text :: "string \<Rightarrow> string" where
  "slug_text v = trim_dashes (dash_runs False
     (filter (\<lambda>c. c \<noteq> CHR 0x27 \<and> c \<noteq> CHR 0x22) (js_lower (js_trim v))))"

definition slugify :: "string \<Rightarrow> string" where
  "slugify v = take 64 (slug_text v)"

text \<open>The slugs the organization form accepts: \<open>/^[a-z0-9]+(?:-[a-z0-9]+)*$/\<close>.\<close>

definition valid_slug :: "string \<Rightarrow> bool" where
  "valid_slug s = list_all (\<lambda>w. w \<noteq> [] \<and> list_all is_slug_char w) (split_on (\<lambda>c. c = CHR ''-'') s)"

section \<open>\<open>labelRedactedMetadata\<close>\<close>

text \<open>The pattern of sensitive keys, matched anywhere and in any case.\<close>

definition REDACTED_KEY_WORDS :: "string list" where
  "REDACTED_KEY_WORDS =
     [''password'', ''secret'', ''token'', ''apikey'', ''api_key'', ''api-key'', ''authorization'',
      ''credential'', ''privatekey'', ''private_key'', ''private-key'']"

definition redacted_key :: "string \<Rightarrow> bool" where
  "redacted_key key = list_ex (str_includes (js_lower key)) REDACTED_KEY_WORDS"

definition REDACTED :: string where "REDACTED = ''[REDACTED]''"

fun labelRedactedMetadata :: "json \<Rightarrow> json" where
  "labelRedactedMetadata (JArr vs) = JArr (map labelRedactedMetadata vs)"
| "labelRedactedMetadata (JObj kvs) =
     JObj (map (\<lambda>(k, v). (k, if redacted_key k then JStr REDACTED else labelRedactedMetadata v)) kvs)"
| "labelRedactedMetadata (JStr s) = (if s = REDACTED \<or> s = ''***'' then JStr REDACTED else JStr s)"
| "labelRedactedMetadata v = v"

section \<open>Lemmas\<close>

lemma set_dropWhile: "set (dropWhile p s) \<subseteq> set s"
  by (induction s) auto

lemma split_on_subset: "w \<in> set (split_on p s) \<Longrightarrow> set w \<subseteq> set s"
proof (induction s arbitrary: w)
  case (Cons c s)
  obtain v vs where s: "split_on p s = v # vs" by (cases "split_on p s") simp_all
  with Cons.prems consider "w = []" | "w \<in> set (split_on p s)" | "w = c # v"
    by (auto split: if_splits)
  then show ?case
  proof cases
    case 3
    with Cons.IH [of v] s show ?thesis by auto
  qed (use Cons.IH [of w] in auto)
qed simp

lemma clean_name_chars:
  "c \<in> set (clean_name name) \<Longrightarrow> c \<noteq> CHR ''/'' \<and> c \<noteq> CHR 0x5C \<and> \<not> is_control c \<and> \<not> is_reserved c"
proof -
  let ?base = "last (split_on (\<lambda>c. c = CHR ''/'')
      (map (\<lambda>c. if c = CHR 0x5C then CHR ''/'' else c) (filter (\<lambda>c. c \<noteq> CHR 0x00) name)))"
  assume c: "c \<in> set (clean_name name)"
  then have "c \<in> set (map (\<lambda>c. if is_reserved c then CHR ''_'' else c) (filter (\<lambda>c. \<not> is_control c) ?base))"
    unfolding clean_name_def Let_def by (rule subsetD [OF subset_trans [OF set_js_trim set_dropWhile]])
  then obtain b where b: "b \<in> set ?base" "\<not> is_control b" "c = (if is_reserved b then CHR ''_'' else b)"
    by auto
  have us: "\<not> is_control (CHR ''_'')" "\<not> is_reserved (CHR ''_'')" by code_simp+
  have "b \<noteq> CHR ''/''" using b(1) last_split_on_no_sep [of b "\<lambda>c. c = CHR ''/''"] by blast
  moreover have "b \<noteq> CHR 0x5C"
  proof -
    have "set ?base \<subseteq> set (map (\<lambda>c. if c = CHR 0x5C then CHR ''/'' else c) (filter (\<lambda>c. c \<noteq> CHR 0x00) name))"
      by (rule split_on_subset) (rule last_in_set [OF split_on_ne])
    with b(1) show ?thesis by auto
  qed
  ultimately show ?thesis using b us by (auto split: if_splits)
qed

lemma limit_name_length: "length (limit_name base) \<le> 200"
proof (cases "length base > 200")
  case True
  have "length (drop dot base) \<le> 12" if "int dot > int (length base) - 12" for dot
    using that by simp
  with True show ?thesis by (auto simp: limit_name_def Let_def min_def split: option.splits)
qed (simp add: limit_name_def)

lemma limit_name_chars: "set (limit_name base) \<subseteq> set base"
  by (auto simp: limit_name_def Let_def dest: in_set_takeD in_set_dropD split: option.splits if_splits)

lemma limit_name_ne: "base \<noteq> [] \<Longrightarrow> limit_name base \<noteq> []"
  by (auto simp: limit_name_def Let_def split: option.splits if_splits)

text \<open>The name of a download is safe: the result is the fallback or a name of 1 to 200
  characters without slash, backslash, control or reserved character, and not one of the
  two dot names, so it can name neither another directory nor a device stream.\<close>

theorem sanitized_filename_safe:
  "sanitizeFilename name fallback = fallback \<or>
   (let r = sanitizeFilename name fallback in
      0 < length r \<and> length r \<le> 200
      \<and> list_all (\<lambda>c. c \<noteq> CHR ''/'' \<and> c \<noteq> CHR 0x5C \<and> \<not> is_control c \<and> \<not> is_reserved c) r)"
proof (cases "name = [] \<or> clean_name name = [] \<or> clean_name name = ''.'' \<or> clean_name name = ''..''")
  case True
  then show ?thesis by (auto simp: sanitizeFilename_def Let_def)
next
  case False
  then have "sanitizeFilename name fallback = limit_name (clean_name name)"
    using limit_name_ne [of "clean_name name"] by (simp add: sanitizeFilename_def Let_def)
  then show ?thesis
    using False limit_name_ne [of "clean_name name"] limit_name_length [of "clean_name name"]
      limit_name_chars [of "clean_name name"] clean_name_chars
    by (auto simp: Let_def list_all_iff)
qed

text \<open>A leading blank hides the leading dot from the check that comes before the trimming.\<close>

lemma hidden_file_name: "sanitizeFilename '' .htaccess'' fallback = ''.htaccess''"
  by code_simp


section \<open>Slugs\<close>

text \<open>Words of slug characters with single dashes between them, read from the left; the flag says
  that a word must begin here.\<close>

fun slug_tail :: "bool \<Rightarrow> string \<Rightarrow> bool" where
  "slug_tail must [] = (\<not> must)"
| "slug_tail must (c # cs) =
     (if c = CHR ''-'' then \<not> must \<and> slug_tail True cs else is_slug_char c \<and> slug_tail False cs)"

fun single_dashes :: "bool \<Rightarrow> string \<Rightarrow> bool" where
  "single_dashes must [] = True"
| "single_dashes must (c # cs) =
     (if c = CHR ''-'' then \<not> must \<and> single_dashes True cs else is_slug_char c \<and> single_dashes False cs)"

lemma slug_tail_split:
  "slug_tail must s = ((must \<longrightarrow> hd (split_on (\<lambda>c. c = CHR ''-'') s) \<noteq> [])
     \<and> list_all is_slug_char (hd (split_on (\<lambda>c. c = CHR ''-'') s))
     \<and> list_all (\<lambda>w. w \<noteq> [] \<and> list_all is_slug_char w) (tl (split_on (\<lambda>c. c = CHR ''-'') s)))"
proof (induction s arbitrary: must)
  case (Cons c s)
  obtain w ws where "split_on (\<lambda>c. c = CHR ''-'') s = w # ws" by (cases "split_on (\<lambda>c. c = CHR ''-'') s") simp_all
  with Cons [of True] Cons [of False] show ?case by auto
qed simp

lemma valid_slug_tail: "valid_slug s = slug_tail True s"
  by (cases "split_on (\<lambda>c. c = CHR ''-'') s") (simp_all add: valid_slug_def slug_tail_split)

lemma dash_not_slug: "\<not> is_slug_char (CHR ''-'')" by code_simp

lemma dash_runs_single: "single_dashes in_run (dash_runs in_run cs)"
  by (induction in_run cs rule: dash_runs.induct) (auto simp: dash_not_slug)

lemma single_dashes_drop: "single_dashes must s \<Longrightarrow> single_dashes True (dropWhile (\<lambda>c. c = CHR ''-'') s)"
  by (induction must s rule: single_dashes.induct) auto

lemma single_dashes_prefix: "single_dashes must (s @ t) \<Longrightarrow> single_dashes must s"
  by (induction must s rule: single_dashes.induct) (auto split: if_splits)

lemma single_dashes_tail:
  "single_dashes must s \<Longrightarrow> (s = [] \<longrightarrow> \<not> must) \<Longrightarrow> (s \<noteq> [] \<longrightarrow> last s \<noteq> CHR ''-'') \<Longrightarrow> slug_tail must s"
proof (induction must s rule: single_dashes.induct)
  case (2 must c cs)
  then show ?case by (cases cs) (auto split: if_splits)
qed simp

lemma trim_dashes_valid:
  assumes "single_dashes must d"
  shows "trim_dashes d = [] \<or> valid_slug (trim_dashes d)"
proof -
  define a where "a = dropWhile (\<lambda>c. c = CHR ''-'') d"
  define b where "b = rev (dropWhile (\<lambda>c. c = CHR ''-'') (rev a))"
  have b: "trim_dashes d = b" by (simp add: trim_dashes_def a_def b_def)
  have "single_dashes True a" unfolding a_def by (rule single_dashes_drop [OF assms])
  moreover have "a = b @ rev (takeWhile (\<lambda>c. c = CHR ''-'') (rev a))"
    unfolding b_def by (metis rev_append rev_rev_ident takeWhile_dropWhile_id)
  ultimately have single: "single_dashes True b" by (metis single_dashes_prefix)
  have "last b \<noteq> CHR ''-''" if "b \<noteq> []"
    using that hd_dropWhile [of "\<lambda>c. c = CHR ''-''" "rev a"] unfolding b_def by (simp add: last_rev)
  with single single_dashes_tail [of True b] b show ?thesis by (auto simp: valid_slug_tail)
qed

lemma slug_text_valid: "slug_text v = [] \<or> valid_slug (slug_text v)"
  unfolding slug_text_def by (rule trim_dashes_valid [OF dash_runs_single])

text \<open>The slug proposed for an organization name is accepted by the form (or empty, when the
  name has no letter or digit), as long as the name makes at most 64 characters of slug.\<close>

theorem slug_is_valid:
  assumes "length (slug_text v) \<le> 64"
  shows "slugify v = [] \<or> valid_slug (slugify v)"
  using assms slug_text_valid [of v] by (simp add: slugify_def)

lemma slug_is_valid_witness: "valid_slug (slugify '' Ada's  Team!! '')"
proof -
  have "length (slug_text '' Ada's  Team!! '') \<le> 64" "slugify '' Ada's  Team!! '' \<noteq> []" by code_simp+
  with slug_is_valid [of "'' Ada's  Team!! ''"] show ?thesis by blast
qed

text \<open>A longer one is cut after the dashes at its ends were removed, and may end in a dash.\<close>

lemma long_slug_invalid: "\<not> valid_slug (slugify (replicate 63 (CHR ''a'') @ '' b''))"
  by code_simp

section \<open>Redaction\<close>

text \<open>No sensitive key, at any depth, has another value than the marker.\<close>

fun no_secrets :: "json \<Rightarrow> bool" where
  "no_secrets (JArr vs) = list_all no_secrets vs"
| "no_secrets (JObj kvs) = list_all (\<lambda>(k, v). (redacted_key k \<longrightarrow> v = JStr REDACTED) \<and> no_secrets v) kvs"
| "no_secrets _ = True"

text \<open>The secrets of a value: the strings below a sensitive key.\<close>

lemma labelled_no_secrets: "no_secrets (labelRedactedMetadata v)"
  by (induction v rule: labelRedactedMetadata.induct) (auto simp: list_all_iff)

lemma labelled_idem: "labelRedactedMetadata (labelRedactedMetadata v) = labelRedactedMetadata v"
proof (induction v rule: labelRedactedMetadata.induct)
  case (2 kvs)
  then show ?case by (auto simp: REDACTED_def)
qed (auto simp: REDACTED_def)

text \<open>Metadata shown in the audit log reveals no value of a sensitive key at any depth; keys,
  order and structure are kept, and labelling what is labelled changes nothing.\<close>

theorem audit_metadata_redacted:
  "no_secrets (labelRedactedMetadata v)
   \<and> labelRedactedMetadata (labelRedactedMetadata v) = labelRedactedMetadata v
   \<and> (case v of JObj kvs \<Rightarrow> (\<exists>kvs'. labelRedactedMetadata v = JObj kvs' \<and> map fst kvs' = map fst kvs) | _ \<Rightarrow> True)"
  using labelled_no_secrets labelled_idem by (auto split: json.split)

end
