(* ===== verification/Feature_Rules.thy ===== *)
theory Feature_Rules
  imports Js_Json App_Constants
begin

text \<open>
  The small decision functions of the features: uploads (features/logs/file-validation.ts),
  polling of tasks (features/tasks/polling.ts, features/logs/task-utils.ts), onboarding
  (features/onboarding/progress.ts), usage limits (features/usage/schemas.ts), owners
  (features/organizations/hooks.ts), policy rules (features/policies/constants.ts and
  schemas.ts) and labels (features/artifacts/constants.ts, features/providers/constants.ts).
\<close>

section \<open>Log uploads\<close>

definition ALLOWED_LOG_EXTENSIONS :: "string list" where
  "ALLOWED_LOG_EXTENSIONS = [''.log'', ''.txt'']"

definition MAX_BYTES :: nat where "MAX_BYTES = MAX_UPLOAD_MB * 1024 * 1024"

record upload_file =
  uf_name :: string
  uf_size :: nat

definition hasAllowedExtension :: "string \<Rightarrow> bool" where
  "hasAllowedExtension name = list_ex (ends_with (js_lower name)) ALLOWED_LOG_EXTENSIONS"

text \<open>The error (code and message) or the accepted file.\<close>

definition validateLogFile :: "upload_file option \<Rightarrow> (string \<times> string) + upload_file" where
  "validateLogFile f =
     (case f of None \<Rightarrow> Inl (''empty'', ''Select a non-empty .log or .txt file.'')
      | Some file \<Rightarrow>
         if uf_size file = 0 then Inl (''empty'', ''Select a non-empty .log or .txt file.'')
         else if \<not> hasAllowedExtension (uf_name file) then
           Inl (''extension'', ''Unsupported file type. Only .log and .txt files are allowed.'')
         else if uf_size file > MAX_BYTES then
           Inl (''size'', ''File exceeds maximum size of '' @ show_nat MAX_UPLOAD_MB @ '' MB.'')
         else Inr file)"

definition text_byte :: "char \<Rightarrow> bool" where
  "text_byte c = (let code = char_code c in
     code = 9 \<or> code = 10 \<or> code = 13 \<or> (32 \<le> code \<and> code < 127))"

text \<open>The ratio of the source is compared in integers.\<close>

definition looksLikeBinaryText :: "string \<Rightarrow> bool" where
  "looksLikeBinaryText sample =
     (if sample = [] then False
      else if str_includes sample [CHR 0x00] then True
      else (let slice = take 8192 sample; disallowed = length (filter (\<lambda>c. \<not> text_byte c) slice)
            in 10 * disallowed > 3 * length slice))"

section \<open>Polling\<close>

definition ACTIVE_STATUSES :: "string list" where "ACTIVE_STATUSES = [''queued'', ''running'']"

definition isActiveTaskStatus :: "string \<Rightarrow> bool" where
  "isActiveTaskStatus status = (status \<in> set ACTIVE_STATUSES)"

text \<open>\<open>None\<close> is \<open>false\<close>: no polling.\<close>

definition getTasksRefetchInterval :: "string list \<Rightarrow> nat option" where
  "getTasksRefetchInterval statuses =
     (let active = filter isActiveTaskStatus statuses in
      if active = [] then None
      else if list_ex (\<lambda>s. s = ''running'') active then Some 3000 else Some 8000)"

definition taskPollInterval :: "string option \<Rightarrow> nat option" where
  "taskPollInterval status =
     (if status = Some ''queued'' then Some 2000
      else if status = Some ''running'' then Some 3000 else None)"

definition isTaskActive :: "string option \<Rightarrow> bool" where
  "isTaskActive status = (case status of None \<Rightarrow> False | Some s \<Rightarrow> s \<in> set [''queued'', ''running''])"

section \<open>Onboarding\<close>

record checklist_item =
  cl_key :: string
  cl_label :: string
  cl_description :: string
  cl_href :: string

definition ONBOARDING_CHECKLIST_ITEMS :: "checklist_item list" where
  "ONBOARDING_CHECKLIST_ITEMS =
     [\<lparr>cl_key = ''welcome_dismissed'', cl_label = ''Dismiss welcome banner'',
       cl_description = ''Close the dashboard welcome message when you're ready.'', cl_href = ''/dashboard''\<rparr>,
      \<lparr>cl_key = ''profile_completed'', cl_label = ''Review your profile'',
       cl_description = ''Confirm your account details in settings.'', cl_href = ''/settings/profile''\<rparr>,
      \<lparr>cl_key = ''first_chat_completed'', cl_label = ''Start a chat'',
       cl_description = ''Ask the assistant a DevOps question.'', cl_href = ''/chat''\<rparr>,
      \<lparr>cl_key = ''first_artifact_created'', cl_label = ''Create an artifact'',
       cl_description = ''Save generated configs for version control.'', cl_href = ''/artifacts''\<rparr>,
      \<lparr>cl_key = ''organization_created'', cl_label = ''Create or join an organization'',
       cl_description = ''Set up a workspace for your team.'', cl_href = ''/organizations''\<rparr>,
      \<lparr>cl_key = ''invite_team_completed'', cl_label = ''Invite a teammate'',
       cl_description = ''Collaborate with others in your organization.'', cl_href = ''/organizations''\<rparr>,
      \<lparr>cl_key = ''tour_completed'', cl_label = ''Complete the product tour'',
       cl_description = ''Mark the tour done when you've explored the app.'', cl_href = ''/onboarding''\<rparr>]"

record onboarding_progress =
  op_completed :: nat
  op_total :: nat
  op_percent :: nat
  op_isComplete :: bool

text \<open>The flags of \<open>UserOnboardingResponse\<close>, by name.\<close>

type_synonym onboarding = "string \<Rightarrow> bool"

text \<open>\<open>Math.round\<close> of a ratio in percent, half up.\<close>

definition round_percent :: "nat \<Rightarrow> nat \<Rightarrow> nat" where
  "round_percent a b = (2 * 100 * a + b) div (2 * b)"

definition computeOnboardingProgress :: "onboarding option \<Rightarrow> onboarding_progress" where
  "computeOnboardingProgress ob =
     (let total = length ONBOARDING_CHECKLIST_ITEMS in
      case ob of None \<Rightarrow> \<lparr>op_completed = 0, op_total = total, op_percent = 0, op_isComplete = False\<rparr>
      | Some o' \<Rightarrow>
         (let completed = length (filter (\<lambda>item. o' (cl_key item)) ONBOARDING_CHECKLIST_ITEMS)
          in \<lparr>op_completed = completed, op_total = total,
              op_percent = (if total > 0 then round_percent completed total else 0),
              op_isComplete = (o' ''onboarding_completed'' \<or> completed = total)\<rparr>))"

definition isChecklistItemDone :: "onboarding option \<Rightarrow> string \<Rightarrow> bool" where
  "isChecklistItemDone ob key = (case ob of None \<Rightarrow> False | Some o' \<Rightarrow> o' key)"

section \<open>Usage limits and owners\<close>

datatype usage_status = UsageOk | UsageWarning | UsageOver

definition getUsageLimitStatus :: "nat \<Rightarrow> int option \<Rightarrow> usage_status" where
  "getUsageLimitStatus used limit =
     (case limit of None \<Rightarrow> UsageOk
      | Some l \<Rightarrow>
         if l \<le> 0 then UsageOk
         else (let ratio = (of_nat used :: rat) / of_int l in
               if ratio \<ge> 1 then UsageOver else if ratio \<ge> 8 / 10 then UsageWarning else UsageOk))"

definition countOwners :: "string list option \<Rightarrow> nat" where
  "countOwners roles = (case roles of None \<Rightarrow> 0 | Some rs \<Rightarrow> length (filter (\<lambda>r. r = ''owner'') rs))"

definition isSoleOwner :: "string \<Rightarrow> string list option \<Rightarrow> bool" where
  "isSoleOwner role roles = (role = ''owner'' \<and> countOwners roles \<le> 1)"

section \<open>Policy rules\<close>

definition SUPPORTED_RULE_KEYS :: "string list" where
  "SUPPORTED_RULE_KEYS =
     [''require_non_root_container'', ''forbid_privileged_container'', ''forbid_latest_image_tag'',
      ''require_resource_limits'', ''require_liveness_probe'', ''require_readiness_probe'',
      ''require_image_digest'', ''allowed_container_registries'', ''forbid_host_network'',
      ''forbid_host_path'', ''required_kubernetes_labels'', ''forbid_github_write_all'',
      ''require_pinned_github_actions'', ''require_terraform_encryption'', ''forbid_public_cloud_storage'']"

definition RULE_KEYS_WITH_LIST_CONFIG :: "string list" where
  "RULE_KEYS_WITH_LIST_CONFIG = [''allowed_container_registries'', ''required_kubernetes_labels'']"

definition isListConfigRuleKey :: "string \<Rightarrow> bool" where
  "isListConfigRuleKey k = (k \<in> set RULE_KEYS_WITH_LIST_CONFIG)"

definition listConfigFieldName :: "string \<Rightarrow> string" where
  "listConfigFieldName k = (if k = ''allowed_container_registries'' then ''registries'' else ''labels'')"

definition RULE_KEY_LABELS :: "(string \<times> string) list" where
  "RULE_KEY_LABELS =
     [(''require_non_root_container'', ''Require non-root container''),
      (''forbid_privileged_container'', ''Forbid privileged container''),
      (''forbid_latest_image_tag'', ''Forbid latest image tag''),
      (''require_resource_limits'', ''Require resource limits''),
      (''require_liveness_probe'', ''Require liveness probe''),
      (''require_readiness_probe'', ''Require readiness probe''),
      (''require_image_digest'', ''Require image digest''),
      (''allowed_container_registries'', ''Allowed container registries''),
      (''forbid_host_network'', ''Forbid host network''), (''forbid_host_path'', ''Forbid host path''),
      (''required_kubernetes_labels'', ''Required Kubernetes labels''),
      (''forbid_github_write_all'', ''Forbid GitHub write-all''),
      (''require_pinned_github_actions'', ''Require pinned GitHub Actions''),
      (''require_terraform_encryption'', ''Require Terraform encryption''),
      (''forbid_public_cloud_storage'', ''Forbid public cloud storage'')]"

definition POLICY_RESOURCE_TYPES :: "string list" where
  "POLICY_RESOURCE_TYPES =
     [''dockerfile'', ''kubernetes'', ''terraform'', ''github-actions'', ''gitlab-ci'', ''jenkins'', ''general'']"

definition POLICY_SEVERITIES :: "string list" where
  "POLICY_SEVERITIES = [''low'', ''medium'', ''high'', ''critical'']"

text \<open>The items of the text area: split at line breaks and commas, trimmed, blanks dropped.\<close>

definition list_items_of :: "string option \<Rightarrow> string list" where
  "list_items_of v =
     filter (\<lambda>i. i \<noteq> [])
       (map js_trim (split_on (\<lambda>c. c = CHR 0x0A \<or> c = CHR '','')
          (case v of Some s \<Rightarrow> s | None \<Rightarrow> [])))"

text \<open>The issue \<open>superRefine\<close> adds, if any.\<close>

definition list_items_issue :: "string \<Rightarrow> string option \<Rightarrow> string option" where
  "list_items_issue rule_key list_items =
     (if rule_key = ''allowed_container_registries'' \<or> rule_key = ''required_kubernetes_labels'' then
        (if list_items_of list_items = [] then
           Some (if rule_key = ''allowed_container_registries'' then ''Add at least one registry''
                 else ''Add at least one label'')
         else None)
      else None)"

definition configurationFromRuleForm :: "string \<Rightarrow> string option \<Rightarrow> json" where
  "configurationFromRuleForm rule_key list_items =
     (if rule_key = ''allowed_container_registries'' then
        JObj [(''registries'', JArr (map JStr (list_items_of list_items)))]
      else if rule_key = ''required_kubernetes_labels'' then
        JObj [(''labels'', JArr (map JStr (list_items_of list_items)))]
      else JObj [])"

section \<open>Labels\<close>

definition ARTIFACT_TYPES :: "string list" where
  "ARTIFACT_TYPES =
     [''dockerfile'', ''kubernetes'', ''github-actions'', ''gitlab-ci'', ''jenkins'', ''terraform'',
      ''shell-command'', ''incident-report'', ''runbook'', ''pipeline'', ''command'', ''review'', ''other'']"

definition ARTIFACT_TYPE_LABELS :: "(string \<times> string) list" where
  "ARTIFACT_TYPE_LABELS =
     [(''dockerfile'', ''Dockerfile''), (''kubernetes'', ''Kubernetes''), (''github-actions'', ''GitHub Actions''),
      (''gitlab-ci'', ''GitLab CI''), (''jenkins'', ''Jenkins''), (''terraform'', ''Terraform''),
      (''shell-command'', ''Shell command''), (''incident-report'', ''Incident report''), (''runbook'', ''Runbook''),
      (''pipeline'', ''Pipeline''), (''command'', ''Command''), (''review'', ''Review''), (''other'', ''Other'')]"

definition artifactTypeLabel :: "string \<Rightarrow> string looked_up" where
  "artifactTypeLabel t = (case record_lookup ARTIFACT_TYPE_LABELS t of Absent \<Rightarrow> Own t | l \<Rightarrow> l)"

definition OPERATION_LABELS :: "(string \<times> string) list" where
  "OPERATION_LABELS =
     [(''chat'', ''Chat''), (''log_analysis'', ''Log analysis''),
      (''configuration_review'', ''Configuration review''),
      (''dockerfile_generation'', ''Dockerfile generation''), (''kubernetes'', ''Kubernetes generation'')]"

definition operationLabel :: "string \<Rightarrow> string looked_up" where
  "operationLabel operation =
     (case record_lookup OPERATION_LABELS operation of
        Absent \<Rightarrow> Own (map (\<lambda>c. if c = CHR ''_'' then CHR '' '' else c) operation) | l \<Rightarrow> l)"

section \<open>Properties\<close>

text \<open>The client accepts a log file exactly when it has content, at most five megabytes and
  one of the two extensions in any case, and hands it on unchanged.\<close>

theorem log_file_accepted:
  "(case validateLogFile f of
      Inr g \<Rightarrow> f = Some g \<and> 0 < uf_size g \<and> uf_size g \<le> 5242880
               \<and> (ends_with (js_lower (uf_name g)) ''.log'' \<or> ends_with (js_lower (uf_name g)) ''.txt'')
    | Inl (code, message) \<Rightarrow> code \<in> {''empty'', ''extension'', ''size''} \<and> message \<noteq> []
        \<and> (f = None \<or> uf_size (the f) = 0 \<or> uf_size (the f) > 5242880
           \<or> (ends_with (js_lower (uf_name (the f))) ''.log'' = False
              \<and> ends_with (js_lower (uf_name (the f))) ''.txt'' = False)))"
  by (auto simp: validateLogFile_def hasAllowedExtension_def ALLOWED_LOG_EXTENSIONS_def MAX_BYTES_def
      MAX_UPLOAD_MB_def split: option.split)

text \<open>The task list polls exactly while a task is active, every three seconds when one is
  running and every eight when all active ones are queued.\<close>

theorem polling_interval:
  "getTasksRefetchInterval statuses =
     (if ''running'' \<in> set statuses then Some 3000
      else if ''queued'' \<in> set statuses then Some 8000 else None)"
  by (auto simp: getTasksRefetchInterval_def Let_def isActiveTaskStatus_def ACTIVE_STATUSES_def
      filter_empty_conv list_ex_iff)

lemma round_percent_7:
  assumes "k \<le> 7"
  shows "round_percent k 7 \<le> 100 \<and> (round_percent k 7 = 100 \<longleftrightarrow> k = 7) \<and> (round_percent k 7 = 0 \<longleftrightarrow> k = 0)"
proof -
  from assms have "k \<in> {0, 1, 2, 3, 4, 5, 6, 7}" by auto
  then show ?thesis by (auto simp: round_percent_def)
qed

lemma checklist_length: "length ONBOARDING_CHECKLIST_ITEMS = 7"
  by (simp add: ONBOARDING_CHECKLIST_ITEMS_def)

text \<open>The onboarding bar is consistent with the checklist: it counts the items shown as done,
  its percentage lies between 0 and 100, is 100 exactly when every item is done and 0 exactly
  when none is, and a finished checklist always counts as complete.\<close>

theorem onboarding_progress_consistent:
  "let p = computeOnboardingProgress ob in
     op_total p = 7
     \<and> op_completed p = length (filter (\<lambda>item. isChecklistItemDone ob (cl_key item)) ONBOARDING_CHECKLIST_ITEMS)
     \<and> op_percent p \<le> 100 \<and> (op_percent p = 100) = (op_completed p = 7) \<and> (op_percent p = 0) = (op_completed p = 0)
     \<and> op_isComplete p = (op_completed p = 7 \<or> isChecklistItemDone ob ''onboarding_completed'')"
proof (cases ob)
  case None
  then show ?thesis by (simp add: computeOnboardingProgress_def checklist_length isChecklistItemDone_def)
next
  case (Some ob')
  let ?k = "length (filter (\<lambda>item. ob' (cl_key item)) ONBOARDING_CHECKLIST_ITEMS)"
  have "?k \<le> 7" using length_filter_le [of _ ONBOARDING_CHECKLIST_ITEMS] by (simp add: checklist_length)
  from round_percent_7 [OF this] Some show ?thesis
    by (auto simp: computeOnboardingProgress_def checklist_length isChecklistItemDone_def Let_def)
qed

lemma usage_status_bounds:
  "l > 0 \<Longrightarrow> getUsageLimitStatus used (Some l) =
     (if l \<le> int used then UsageOver else if 4 * l \<le> 5 * int used then UsageWarning else UsageOk)"
proof -
  assume l: "l > 0"
  then have pos: "(0 :: rat) < of_int l" by simp
  have u: "(of_nat used :: rat) = of_int (int used)" by simp
  have "(1 \<le> (of_nat used :: rat) / of_int l) = (of_int l \<le> (of_int (int used) :: rat))"
    unfolding u using pos by (rule le_divide_eq_1_pos)
  then have "(1 \<le> (of_nat used :: rat) / of_int l) = (l \<le> int used)" by (simp only: of_int_le_iff)
  moreover have "(8 / 10 \<le> (of_nat used :: rat) / of_int l) = (8 / 10 * of_int l \<le> (of_int (int used) :: rat))"
    unfolding u using pos by (rule pos_le_divide_eq)
  then have "(8 / 10 \<le> (of_nat used :: rat) / of_int l) = (of_int (4 * l) \<le> (of_int (5 * int used) :: rat))"
    by (simp add: mult.commute)
  then have "(8 / 10 \<le> (of_nat used :: rat) / of_int l) = (4 * l \<le> 5 * int used)" by (simp only: of_int_le_iff)
  ultimately show ?thesis using l by (simp add: getUsageLimitStatus_def Let_def)
qed

text \<open>A positive limit is reported as exceeded from the limit on, as a warning from four fifths
  of it on, and as fine below; no limit, or one of zero or less, is always fine.\<close>

theorem usage_status_thresholds:
  "getUsageLimitStatus used limit =
     (case limit of None \<Rightarrow> UsageOk
      | Some l \<Rightarrow> if l \<le> 0 then UsageOk
          else if l \<le> int used then UsageOver else if 4 * l \<le> 5 * int used then UsageWarning else UsageOk)"
  using usage_status_bounds [of _ used] by (auto simp: getUsageLimitStatus_def split: option.split)

lemma list_items_clean:
  "i \<in> set (list_items_of v) \<Longrightarrow> i \<noteq> [] \<and> js_trim i = i \<and> CHR 0x0A \<notin> set i \<and> CHR '','' \<notin> set i"
proof -
  let ?p = "\<lambda>c. c = CHR 0x0A \<or> c = CHR '',''"
  assume "i \<in> set (list_items_of v)"
  then obtain w where w: "w \<in> set (split_on ?p (case v of Some s \<Rightarrow> s | None \<Rightarrow> []))" "i = js_trim w" "i \<noteq> []"
    by (auto simp: list_items_of_def)
  from split_on_no_sep [OF w(1)] set_js_trim [of w] w(2,3) show ?thesis by auto
qed

text \<open>The form and the request of a policy rule agree: for the two rules that need a list the
  form is accepted exactly when the configuration sent has at least one item, under the field
  the rule expects, and every item is trimmed, not blank and free of separators.\<close>

theorem policy_list_configuration:
  assumes "isListConfigRuleKey k"
  shows "configurationFromRuleForm k v = JObj [(listConfigFieldName k, JArr (map JStr (list_items_of v)))]
    \<and> (list_items_issue k v = None) = (list_items_of v \<noteq> [])
    \<and> list_all (\<lambda>i. i \<noteq> [] \<and> js_trim i = i \<and> CHR 0x0A \<notin> set i \<and> CHR '','' \<notin> set i) (list_items_of v)"
proof -
  have "k = ''allowed_container_registries'' \<or> k = ''required_kubernetes_labels''"
    using assms by (simp add: isListConfigRuleKey_def RULE_KEYS_WITH_LIST_CONFIG_def)
  moreover have "list_all (\<lambda>i. i \<noteq> [] \<and> js_trim i = i \<and> CHR 0x0A \<notin> set i \<and> CHR '','' \<notin> set i) (list_items_of v)"
    using list_items_clean by (simp add: list_all_iff)
  ultimately show ?thesis
    by (auto simp: configurationFromRuleForm_def list_items_issue_def listConfigFieldName_def)
qed

lemma policy_list_configuration_witness:
  "configurationFromRuleForm ''required_kubernetes_labels'' (Some '' app, ,team '') =
     JObj [(''labels'', JArr [JStr ''app'', JStr ''team''])]"
proof -
  have "isListConfigRuleKey ''required_kubernetes_labels''"
    "listConfigFieldName ''required_kubernetes_labels'' = ''labels''"
    "list_items_of (Some '' app, ,team '') = [''app'', ''team'']" by code_simp+
  with policy_list_configuration [of "''required_kubernetes_labels''" "Some '' app, ,team ''"] show ?thesis by simp
qed

text \<open>A type that no table knows is shown as it is, but the name of an inherited property is
  replaced by that property.\<close>

lemma label_of_inherited_name:
  "artifactTypeLabel ''helm-chart'' = Own ''helm-chart''" "artifactTypeLabel ''constructor'' = Inherited ''constructor''"
  by code_simp+

end
