(* ===== verification/Query_String.thy ===== *)
theory Query_String
  imports Js_Url
begin

text \<open>
  lib/api/query-string.ts: a query string out of a filter object.  The entries come in the
  order \<open>Object.entries\<close> gives (the filters have no integer-like keys).
\<close>

text \<open>Filter values; numbers of filters are integers below the range of exponents.\<close>

datatype qvalue = QStr string | QInt int | QBool bool | QList "string list" | QNull | QUndef

text \<open>\<open>String(value)\<close> for the scalar values.\<close>

fun qvalue_string :: "qvalue \<Rightarrow> string" where
  "qvalue_string (QStr s) = s"
| "qvalue_string (QInt i) = show_int i"
| "qvalue_string (QBool b) = (if b then ''true'' else ''false'')"
| "qvalue_string _ = []"

fun append_items :: "string \<Rightarrow> string list \<Rightarrow> search_params \<Rightarrow> search_params" where
  "append_items key [] acc = acc"
| "append_items key (item # items) acc =
     (if item \<noteq> [] then append_items key items (usp_append key item acc)
      else append_items key items acc)"

definition add_entry :: "string \<times> qvalue \<Rightarrow> search_params \<Rightarrow> search_params" where
  "add_entry kv acc =
     (case kv of (key, v) \<Rightarrow>
        if v = QNull \<or> v = QUndef \<or> v = QStr [] then acc
        else case v of QList items \<Rightarrow> append_items key items acc
           | _ \<Rightarrow> usp_set key (qvalue_string v) acc)"

definition add_entries :: "(string \<times> qvalue) list \<Rightarrow> search_params \<Rightarrow> search_params" where
  "add_entries params acc = fold add_entry params acc"

definition buildQueryString :: "(string \<times> qvalue) list \<Rightarrow> string" where
  "buildQueryString params =
     (let qs = usp_toString (add_entries params []) in if qs \<noteq> [] then ''?'' @ qs else [])"

section \<open>What reaches the server\<close>

definition entry_pairs :: "string \<times> qvalue \<Rightarrow> (string \<times> string) list" where
  "entry_pairs kv = (case snd kv of
       QNull \<Rightarrow> [] | QUndef \<Rightarrow> []
     | QStr s \<Rightarrow> (if s = [] then [] else [(fst kv, s)])
     | QList items \<Rightarrow> map (Pair (fst kv)) (filter (\<lambda>i. i \<noteq> []) items)
     | v \<Rightarrow> [(fst kv, qvalue_string v)])"

lemma append_items_eq:
  "append_items key items acc = acc @ map (Pair key) (filter (\<lambda>i. i \<noteq> []) items)"
  by (induction key items acc rule: append_items.induct) (simp_all add: usp_append_def)

lemma usp_set_fresh: "k \<notin> fst ` set acc \<Longrightarrow> usp_set k v acc = acc @ [(k, v)]"
  by (induction k v acc rule: usp_set.induct) auto

lemma entry_pairs_keys: "p \<in> set (entry_pairs kv) \<Longrightarrow> fst p = fst kv"
  by (auto simp: entry_pairs_def split: qvalue.splits if_splits)

lemma add_entry_fresh: "fst kv \<notin> fst ` set acc \<Longrightarrow> add_entry kv acc = acc @ entry_pairs kv"
  by (cases kv; cases "snd kv")
     (simp_all add: add_entry_def entry_pairs_def append_items_eq usp_set_fresh)

lemma add_entries_eq:
  "distinct (map fst params) \<Longrightarrow> fst ` set params \<inter> fst ` set acc = {} \<Longrightarrow>
   add_entries params acc = acc @ concat (map entry_pairs params)"
proof (induction params arbitrary: acc)
  case (Cons kv rest)
  have "fst ` set (entry_pairs kv) \<subseteq> {fst kv}" using entry_pairs_keys [of _ kv] by blast
  then have "fst ` set (entry_pairs kv) = {} \<or> fst ` set (entry_pairs kv) = {fst kv}" by (rule subset_singletonD)
  moreover have "fst kv \<notin> fst ` set rest" "fst ` set rest \<inter> fst ` set acc = {}" using Cons.prems by auto
  ultimately have "fst ` set rest \<inter> fst ` set (acc @ entry_pairs kv) = {}"
    by (elim disjE) (simp_all only: set_append image_Un Int_Un_distrib, simp_all)
  with Cons add_entry_fresh [of kv acc] show ?case by (simp add: add_entries_def)
qed (simp add: add_entries_def)

text \<open>A query string read back by the server holds exactly the filters that are set, in
  order: absent, null and empty values are left out, a list gives one pair for each of its
  non-empty items, and every key and value survives the encoding unchanged.\<close>

theorem query_string_roundtrip:
  assumes "distinct (map fst params)"
  shows "usp_parse (buildQueryString params) = concat (map entry_pairs params)"
proof -
  have eq: "add_entries params [] = concat (map entry_pairs params)"
    using add_entries_eq [OF assms, of "[]"] by simp
  have "usp_parse (''?'' @ s) = usp_parse s" if "\<not> starts_with s ''?''" for s
    using that by (simp add: usp_parse_def)
  then show ?thesis
    by (cases "usp_toString (add_entries params []) = []")
       (simp_all add: buildQueryString_def usp_toString_no_question usp_roundtrip flip: eq,
        metis usp_roundtrip)
qed

lemma query_string_roundtrip_witness:
  "usp_parse (buildQueryString [(''page'', QInt 2), (''q'', QStr ''a&b c''), (''tag'', QList [''x'', '''', ''y'']),
     (''z'', QNull)]) = [(''page'', ''2''), (''q'', ''a&b c''), (''tag'', ''x''), (''tag'', ''y'')]"
proof -
  let ?p = "[(''page'', QInt 2), (''q'', QStr ''a&b c''), (''tag'', QList [''x'', '''', ''y'']), (''z'', QNull)]"
  have "concat (map entry_pairs ?p) = [(''page'', ''2''), (''q'', ''a&b c''), (''tag'', ''x''), (''tag'', ''y'')]"
    by code_simp
  with query_string_roundtrip [of ?p] show ?thesis by simp
qed

end
