(* ===== verification/Feature_Apis.thy ===== *)
theory Feature_Apis
  imports Api_Client Endpoints Query_String
begin

text \<open>
  The \<open>api.ts\<close> files of features/: each function is the call of \<open>apiFetch\<close> it makes, a path
  with the options, in the order and with the defaults of the code.  \<open>run_call\<close> makes the
  call.  Objects of filters are lists of named values, where an absent name is \<open>undefined\<close>.
\<close>

section \<open>Calls\<close>

type_synonym api_call = "string \<times> request_options"

definition run_call ::
  "env \<Rightarrow> network \<Rightarrow> api_call \<Rightarrow> 'z world_scheme \<Rightarrow> (js_exn + json) \<times> 'z world_scheme" where
  "run_call env net c w = apiFetch False env net (fst c) (snd c) w"

definition call_request :: "env \<Rightarrow> api_call \<Rightarrow> http_request" where
  "call_request env c = apiFetch_request False env (fst c) (snd c)"

definition get_call :: "string \<Rightarrow> api_call" where
  "get_call path = (path, default_options)"

definition method_call :: "string \<Rightarrow> string \<Rightarrow> api_call" where
  "method_call meth path = (path, default_options\<lparr>ro_method := Some meth\<rparr>)"

definition body_call :: "string \<Rightarrow> string \<Rightarrow> json \<Rightarrow> api_call" where
  "body_call meth path body = (path, default_options\<lparr>ro_method := Some meth, ro_body := Some body\<rparr>)"

definition with_timeout :: "int \<Rightarrow> api_call \<Rightarrow> api_call" where
  "with_timeout ms c = (fst c, (snd c)\<lparr>ro_timeoutMs := Some ms\<rparr>)"

section \<open>Filter objects\<close>

type_synonym filters = "(string \<times> qvalue) list"

definition param :: "filters \<Rightarrow> string \<Rightarrow> qvalue" where
  "param ps k = (case map_of ps k of Some v \<Rightarrow> v | None \<Rightarrow> QUndef)"

text \<open>\<open>v ?? d\<close>, \<open>v ? true : undefined\<close>, \<open>v || undefined\<close>, \<open>v?.trim() || undefined\<close> and
  \<open>v?.length ? v : undefined\<close>.\<close>

definition nullish_or :: "qvalue \<Rightarrow> qvalue \<Rightarrow> qvalue" where
  "nullish_or v d = (case v of QNull \<Rightarrow> d | QUndef \<Rightarrow> d | _ \<Rightarrow> v)"

definition q_truthy :: "qvalue \<Rightarrow> bool" where
  "q_truthy v = (case v of QStr s \<Rightarrow> s \<noteq> [] | QInt i \<Rightarrow> i \<noteq> 0 | QBool b \<Rightarrow> b | QList _ \<Rightarrow> True
     | QNull \<Rightarrow> False | QUndef \<Rightarrow> False)"

definition flag :: "qvalue \<Rightarrow> qvalue" where
  "flag v = (if q_truthy v then QBool True else QUndef)"

definition or_undefined :: "qvalue \<Rightarrow> qvalue" where
  "or_undefined v = (if q_truthy v then v else QUndef)"

definition trimmed :: "qvalue \<Rightarrow> qvalue" where
  "trimmed v = (case v of QStr s \<Rightarrow> or_undefined (QStr (js_trim s)) | _ \<Rightarrow> QUndef)"

definition nonempty_list :: "qvalue \<Rightarrow> qvalue" where
  "nonempty_list v = (case v of QList (x # xs) \<Rightarrow> v | _ \<Rightarrow> QUndef)"

text \<open>The window of a page, with the default size of the resource.\<close>

definition page_params :: "int \<Rightarrow> filters \<Rightarrow> filters" where
  "page_params dflt ps = [(''limit'', nullish_or (param ps ''limit'') (QInt dflt)),
                          (''offset'', nullish_or (param ps ''offset'') (QInt 0))]"

section \<open>Artifacts\<close>

definition listArtifacts :: "filters \<Rightarrow> api_call" where
  "listArtifacts ps = get_call (ep_artifacts_list @ buildQueryString
     [(''organization_id'', nullish_or (param ps ''organization_id'') QUndef),
      (''limit'', nullish_or (param ps ''limit'') (QInt 20)),
      (''offset'', nullish_or (param ps ''offset'') (QInt 0)),
      (''search'', trimmed (param ps ''search'')),
      (''tags'', nonempty_list (param ps ''tags'')),
      (''favorites_only'', flag (param ps ''favorites_only'')),
      (''include_archived'', flag (param ps ''include_archived'')),
      (''archived_only'', flag (param ps ''archived_only'')),
      (''artifact_type'', param ps ''artifact_type''),
      (''created_from'', param ps ''created_from''),
      (''created_to'', param ps ''created_to''),
      (''updated_from'', param ps ''updated_from''),
      (''updated_to'', param ps ''updated_to''),
      (''sort_by'', param ps ''sort_by''),
      (''sort_order'', param ps ''sort_order'')])"

definition getArtifact :: "string \<Rightarrow> api_call" where
  "getArtifact artifactId = get_call (ep_artifacts_detail artifactId)"

definition createArtifact :: "json \<Rightarrow> api_call" where
  "createArtifact body = body_call ''POST'' ep_artifacts_list body"

definition updateArtifact :: "string \<Rightarrow> json \<Rightarrow> api_call" where
  "updateArtifact artifactId body = body_call ''PATCH'' (ep_artifacts_detail artifactId) body"

definition deleteArtifact :: "string \<Rightarrow> api_call" where
  "deleteArtifact artifactId = method_call ''DELETE'' (ep_artifacts_detail artifactId)"

definition listVersions :: "string \<Rightarrow> filters \<Rightarrow> api_call" where
  "listVersions artifactId ps =
     get_call (ep_artifacts_versions artifactId @ buildQueryString (page_params 50 ps))"

definition getVersion :: "string \<Rightarrow> int \<Rightarrow> api_call" where
  "getVersion artifactId versionNumber = get_call (ep_artifacts_version artifactId (show_int versionNumber))"

definition createVersion :: "string \<Rightarrow> json \<Rightarrow> api_call" where
  "createVersion artifactId body = body_call ''POST'' (ep_artifacts_versions artifactId) body"

definition restoreVersion :: "string \<Rightarrow> int \<Rightarrow> api_call" where
  "restoreVersion artifactId versionNumber =
     method_call ''POST'' (ep_artifacts_restore artifactId (show_int versionNumber))"

definition diffVersions :: "string \<Rightarrow> int \<Rightarrow> int \<Rightarrow> api_call" where
  "diffVersions artifactId fromVersion toVersion =
     get_call (ep_artifacts_diff artifactId @ buildQueryString
       [(''from_version'', QInt fromVersion), (''to_version'', QInt toVersion)])"

text \<open>The one filter of the tag calls.\<close>

definition tag_params :: "filters \<Rightarrow> filters" where
  "tag_params ps = [(''organization_id'', nullish_or (param ps ''organization_id'') QUndef)]"

definition listTags :: "filters \<Rightarrow> api_call" where
  "listTags ps = get_call (ep_artifacts_tagsList @ buildQueryString (tag_params ps))"

definition createTag :: "json \<Rightarrow> filters \<Rightarrow> api_call" where
  "createTag body ps = body_call ''POST'' (ep_artifacts_tags @ buildQueryString (tag_params ps)) body"

definition addArtifactTag :: "string \<Rightarrow> json \<Rightarrow> api_call" where
  "addArtifactTag artifactId body = body_call ''POST'' (ep_artifacts_artifactTags artifactId) body"

definition removeArtifactTag :: "string \<Rightarrow> string \<Rightarrow> api_call" where
  "removeArtifactTag artifactId tagId = method_call ''DELETE'' (ep_artifacts_artifactTag artifactId tagId)"

definition favoriteArtifact :: "string \<Rightarrow> api_call" where
  "favoriteArtifact artifactId = method_call ''POST'' (ep_artifacts_favorite artifactId)"

definition unfavoriteArtifact :: "string \<Rightarrow> api_call" where
  "unfavoriteArtifact artifactId = method_call ''DELETE'' (ep_artifacts_favorite artifactId)"

definition archiveArtifact :: "string \<Rightarrow> api_call" where
  "archiveArtifact artifactId = method_call ''POST'' (ep_artifacts_archive artifactId)"

definition unarchiveArtifact :: "string \<Rightarrow> api_call" where
  "unarchiveArtifact artifactId = method_call ''POST'' (ep_artifacts_unarchive artifactId)"

section \<open>Organizations\<close>

definition listOrganizations :: "filters \<Rightarrow> api_call" where
  "listOrganizations ps = get_call (ep_organizations_list @ buildQueryString (page_params 20 ps))"

definition getOrganization :: "string \<Rightarrow> api_call" where
  "getOrganization organizationId = get_call (ep_organizations_detail organizationId)"

definition createOrganization :: "json \<Rightarrow> api_call" where
  "createOrganization body = body_call ''POST'' ep_organizations_list body"

definition updateOrganization :: "string \<Rightarrow> json \<Rightarrow> api_call" where
  "updateOrganization organizationId body = body_call ''PATCH'' (ep_organizations_detail organizationId) body"

definition deleteOrganization :: "string \<Rightarrow> api_call" where
  "deleteOrganization organizationId = method_call ''DELETE'' (ep_organizations_detail organizationId)"

definition listMembers :: "string \<Rightarrow> filters \<Rightarrow> api_call" where
  "listMembers organizationId ps =
     get_call (ep_organizations_members organizationId @ buildQueryString (page_params 50 ps))"

definition addMember :: "string \<Rightarrow> json \<Rightarrow> api_call" where
  "addMember organizationId body = body_call ''POST'' (ep_organizations_members organizationId) body"

definition updateMember :: "string \<Rightarrow> string \<Rightarrow> json \<Rightarrow> api_call" where
  "updateMember organizationId userId body =
     body_call ''PATCH'' (ep_organizations_member organizationId userId) body"

definition removeMember :: "string \<Rightarrow> string \<Rightarrow> api_call" where
  "removeMember organizationId userId =
     method_call ''DELETE'' (ep_organizations_member organizationId userId)"

definition listInvitations :: "string \<Rightarrow> filters \<Rightarrow> api_call" where
  "listInvitations organizationId ps =
     get_call (ep_organizations_invitations organizationId @ buildQueryString (page_params 50 ps))"

definition createInvitation :: "string \<Rightarrow> json \<Rightarrow> api_call" where
  "createInvitation organizationId body =
     body_call ''POST'' (ep_organizations_invitations organizationId) body"

definition resendInvitation :: "string \<Rightarrow> string \<Rightarrow> api_call" where
  "resendInvitation organizationId invitationId =
     method_call ''POST'' (ep_organizations_resendInvitation organizationId invitationId)"

definition revokeInvitation :: "string \<Rightarrow> string \<Rightarrow> api_call" where
  "revokeInvitation organizationId invitationId =
     method_call ''DELETE'' (ep_organizations_invitation organizationId invitationId)"

section \<open>Policies\<close>

definition listPolicyPacks :: "string \<Rightarrow> filters \<Rightarrow> api_call" where
  "listPolicyPacks organizationId ps =
     get_call (ep_policies_packs organizationId @ buildQueryString (page_params 20 ps))"

definition getPolicyPack :: "string \<Rightarrow> string \<Rightarrow> api_call" where
  "getPolicyPack organizationId policyPackId = get_call (ep_policies_pack organizationId policyPackId)"

definition createPolicyPack :: "string \<Rightarrow> json \<Rightarrow> api_call" where
  "createPolicyPack organizationId body = body_call ''POST'' (ep_policies_packs organizationId) body"

definition updatePolicyPack :: "string \<Rightarrow> string \<Rightarrow> json \<Rightarrow> api_call" where
  "updatePolicyPack organizationId policyPackId body =
     body_call ''PATCH'' (ep_policies_pack organizationId policyPackId) body"

definition deletePolicyPack :: "string \<Rightarrow> string \<Rightarrow> api_call" where
  "deletePolicyPack organizationId policyPackId =
     method_call ''DELETE'' (ep_policies_pack organizationId policyPackId)"

definition createPolicyRule :: "string \<Rightarrow> string \<Rightarrow> json \<Rightarrow> api_call" where
  "createPolicyRule organizationId policyPackId body =
     body_call ''POST'' (ep_policies_rules organizationId policyPackId) body"

definition updatePolicyRule :: "string \<Rightarrow> string \<Rightarrow> string \<Rightarrow> json \<Rightarrow> api_call" where
  "updatePolicyRule organizationId policyPackId ruleId body =
     body_call ''PATCH'' (ep_policies_rule organizationId policyPackId ruleId) body"

definition deletePolicyRule :: "string \<Rightarrow> string \<Rightarrow> string \<Rightarrow> api_call" where
  "deletePolicyRule organizationId policyPackId ruleId =
     method_call ''DELETE'' (ep_policies_rule organizationId policyPackId ruleId)"

section \<open>Tasks, logs, generators and reviews\<close>

definition listTasks :: "filters \<Rightarrow> api_call" where
  "listTasks ps = get_call (ep_tasks_list @ buildQueryString
     [(''status'', nullish_or (param ps ''status'') QUndef),
      (''task_type'', nullish_or (param ps ''task_type'') QUndef),
      (''organization_id'', nullish_or (param ps ''organization_id'') QUndef),
      (''limit'', nullish_or (param ps ''limit'') (QInt 20)),
      (''offset'', nullish_or (param ps ''offset'') (QInt 0))])"

definition getTask :: "string \<Rightarrow> api_call" where
  "getTask taskId = get_call (ep_tasks_detail taskId)"

definition cancelTask :: "string \<Rightarrow> api_call" where
  "cancelTask taskId = method_call ''POST'' (ep_tasks_cancel taskId)"

text \<open>A request for an analysis: content, provider and an organization that may be absent.\<close>

record log_request =
  lr_content :: string
  lr_provider :: string
  lr_organization_id :: "string option"

definition analyzeLogs :: "log_request \<Rightarrow> api_call" where
  "analyzeLogs r = with_timeout 120000 (body_call ''POST'' ep_logs_analyze
     (JObj [(''content'', JStr (lr_content r)), (''provider'', JStr (lr_provider r)),
            (''async_mode'', JBool False),
            (''organization_id'', case lr_organization_id r of Some i \<Rightarrow> JStr i | None \<Rightarrow> JNull)]))"

text \<open>The content of the file stands for the \<open>File\<close> object.\<close>

definition analyzeLogsUpload :: "string \<Rightarrow> string \<Rightarrow> api_call" where
  "analyzeLogsUpload file provider =
     (ep_logs_analyzeUpload, default_options\<lparr>ro_method := Some ''POST'',
        ro_formData := Some [(''file'', file), (''provider'', provider)], ro_timeoutMs := Some 120000\<rparr>)"

definition analyzeLogsAsync :: "log_request \<Rightarrow> string option \<Rightarrow> api_call" where
  "analyzeLogsAsync r idempotencyKey =
     (ep_logs_analyzeAsync, default_options\<lparr>ro_method := Some ''POST'',
        ro_body := Some (JObj ([(''content'', JStr (lr_content r)), (''provider'', JStr (lr_provider r)),
                                (''async_mode'', JBool True)] @
          (case nonempty_opt (lr_organization_id r) of Some i \<Rightarrow> [(''organization_id'', JStr i)] | None \<Rightarrow> []))),
        ro_headers := (case nonempty_opt idempotencyKey of
          Some k \<Rightarrow> [(''Idempotency-Key'', k)] | None \<Rightarrow> []),
        ro_timeoutMs := Some 60000\<rparr>)"

definition fetchTaskDetail :: "string \<Rightarrow> api_call" where
  "fetchTaskDetail taskId = with_timeout 30000 (get_call (ep_tasks_detail taskId))"

definition generateDockerfile :: "json \<Rightarrow> api_call" where
  "generateDockerfile body = with_timeout 120000 (body_call ''POST'' ep_generate_dockerfile body)"

definition generateKubernetes :: "json \<Rightarrow> api_call" where
  "generateKubernetes body = with_timeout 120000 (body_call ''POST'' ep_generate_kubernetes body)"

definition generatePipeline :: "json \<Rightarrow> api_call" where
  "generatePipeline body = with_timeout 120000 (body_call ''POST'' ep_generate_pipeline body)"

definition generateCommand :: "json \<Rightarrow> api_call" where
  "generateCommand body = with_timeout 120000 (body_call ''POST'' ep_generate_command body)"

definition reviewConfiguration :: "json \<Rightarrow> api_call" where
  "reviewConfiguration body = with_timeout 120000 (body_call ''POST'' ep_review body)"

section \<open>Providers, usage, onboarding, audit and profile\<close>

definition listAdminProviderConfigs :: api_call where
  "listAdminProviderConfigs = get_call ep_admin_providers_configs"

definition patchAdminProviderConfig :: "string \<Rightarrow> json \<Rightarrow> api_call" where
  "patchAdminProviderConfig providerName body = body_call ''PATCH'' (ep_admin_providers_config providerName) body"

definition listAdminProviderRouting :: api_call where
  "listAdminProviderRouting = get_call ep_admin_providers_routing"

definition patchAdminProviderRouting :: "string \<Rightarrow> json \<Rightarrow> api_call" where
  "patchAdminProviderRouting operation body =
     body_call ''PATCH'' (ep_admin_providers_routingOperation operation) body"

definition fetchAdminProviderHealth :: api_call where
  "fetchAdminProviderHealth = get_call ep_admin_providers_health"

definition listOrgProviderConfigs :: "string \<Rightarrow> api_call" where
  "listOrgProviderConfigs organizationId = get_call (ep_organizations_providers_configs organizationId)"

definition patchOrgProviderConfig :: "string \<Rightarrow> string \<Rightarrow> json \<Rightarrow> api_call" where
  "patchOrgProviderConfig organizationId providerName body =
     body_call ''PATCH'' (ep_organizations_providers_config organizationId providerName) body"

definition listOrgProviderRouting :: "string \<Rightarrow> api_call" where
  "listOrgProviderRouting organizationId = get_call (ep_organizations_providers_routing organizationId)"

definition patchOrgProviderRouting :: "string \<Rightarrow> string \<Rightarrow> json \<Rightarrow> api_call" where
  "patchOrgProviderRouting organizationId operation body =
     body_call ''PATCH'' (ep_organizations_providers_routingOperation organizationId operation) body"

definition fetchMyUsage :: api_call where
  "fetchMyUsage = get_call ep_usage_me"

definition fetchOrganizationUsage :: "string \<Rightarrow> api_call" where
  "fetchOrganizationUsage organizationId = get_call (ep_organizations_usage organizationId)"

definition fetchOrganizationQuotas :: "string \<Rightarrow> api_call" where
  "fetchOrganizationQuotas organizationId = get_call (ep_organizations_quotas organizationId)"

definition patchOrganizationQuotas :: "string \<Rightarrow> json \<Rightarrow> api_call" where
  "patchOrganizationQuotas organizationId body = body_call ''PATCH'' (ep_organizations_quotas organizationId) body"

definition fetchOnboarding :: api_call where
  "fetchOnboarding = get_call ep_users_meOnboarding"

definition patchOnboarding :: "json \<Rightarrow> api_call" where
  "patchOnboarding body = body_call ''PATCH'' ep_users_meOnboarding body"

definition listAuditEvents :: "string \<Rightarrow> filters \<Rightarrow> api_call" where
  "listAuditEvents organizationId ps = get_call (ep_audit_events organizationId @ buildQueryString
     (map (\<lambda>k. (k, nullish_or (param ps k) QUndef))
        [''action'', ''actor_user_id'', ''resource_type'', ''resource_id'', ''created_from'', ''created_to'']
      @ page_params 20 ps))"

definition fetchProfile :: api_call where
  "fetchProfile = get_call ep_users_me"

definition updateProfile :: "json \<Rightarrow> api_call" where
  "updateProfile body = body_call ''PATCH'' ep_users_me body"

section \<open>Chat\<close>

definition listConversations_call :: "filters \<Rightarrow> api_call" where
  "listConversations_call f = get_call (ep_chat_conversations @ buildQueryString
     [(''limit'', nullish_or (param f ''limit'') (QInt 30)),
      (''offset'', nullish_or (param f ''offset'') (QInt 0)),
      (''search'', trimmed (param f ''search'')),
      (''provider'', or_undefined (param f ''provider'')),
      (''organization_id'', nullish_or (param f ''organization_id'') QUndef),
      (''created_from'', param f ''created_from''),
      (''created_to'', param f ''created_to''),
      (''sort_by'', nullish_or (param f ''sort_by'') (QStr ''updated_at'')),
      (''sort_order'', nullish_or (param f ''sort_order'') (QStr ''desc''))])"

definition getConversation_call :: "string \<Rightarrow> api_call" where
  "getConversation_call conversationId = get_call (ep_chat_conversation conversationId)"

definition deleteConversation :: "string \<Rightarrow> api_call" where
  "deleteConversation conversationId = method_call ''DELETE'' (ep_chat_deleteConversation conversationId)"

definition sendChat :: "json \<Rightarrow> api_call" where
  "sendChat request = body_call ''POST'' ep_chat_chat request"

text \<open>Reading a field of \<open>null\<close> throws, and so does \<open>map\<close> on anything but an array.\<close>

definition js_type_error :: js_exn where "js_type_error = ErrorExn ''TypeError''"

definition items_or_empty :: "json option \<Rightarrow> js_exn + json list" where
  "items_or_empty v = (case v of None \<Rightarrow> Inr [] | Some JNull \<Rightarrow> Inr [] | Some (JArr xs) \<Rightarrow> Inr xs
     | Some _ \<Rightarrow> Inl js_type_error)"

fun map_items :: "(json \<Rightarrow> 'a) \<Rightarrow> json list \<Rightarrow> js_exn + 'a list" where
  "map_items f [] = Inr []"
| "map_items f (x # xs) =
     (if x = JNull then Inl js_type_error
      else case map_items f xs of Inl e \<Rightarrow> Inl e | Inr ys \<Rightarrow> Inr (f x # ys))"

record chat_message_view =
  mv_id :: "json option"
  mv_role :: string
  mv_content :: "json option"
  mv_createdAt :: "json option"

definition mapMessage :: "json \<Rightarrow> chat_message_view" where
  "mapMessage m =
     \<lparr>mv_id = js_prop m ''id'',
      mv_role = (case js_prop m ''role'' of
          Some (JStr r) \<Rightarrow> if r \<in> set [''user'', ''assistant'', ''system''] then r else ''assistant''
        | _ \<Rightarrow> ''assistant''),
      mv_content = js_prop m ''content'', mv_createdAt = js_prop m ''created_at''\<rparr>"

record conversation_item =
  ci_id :: "json option"
  ci_title :: "json option"
  ci_provider :: "json option"
  ci_createdAt :: "json option"
  ci_updatedAt :: "json option"
  ci_organizationId :: "json option"

definition mapSummary :: "json \<Rightarrow> conversation_item" where
  "mapSummary item =
     \<lparr>ci_id = js_prop item ''id'', ci_title = js_prop item ''title'',
      ci_provider = js_prop item ''provider'', ci_createdAt = js_prop item ''created_at'',
      ci_updatedAt = js_prop item ''updated_at'', ci_organizationId = js_prop item ''organization_id''\<rparr>"

record conversations_page =
  cp_items :: "conversation_item list"
  cp_total :: "json option"
  cp_limit :: "json option"
  cp_offset :: "json option"

definition conversations_page_of :: "json \<Rightarrow> js_exn + conversations_page" where
  "conversations_page_of data =
     (if data = JNull then Inl js_type_error
      else case items_or_empty (js_prop data ''items'') of Inl e \<Rightarrow> Inl e
        | Inr items \<Rightarrow> (case map_items mapSummary items of Inl e \<Rightarrow> Inl e
            | Inr views \<Rightarrow> Inr \<lparr>cp_items = views, cp_total = js_prop data ''total'',
                cp_limit = js_prop data ''limit'', cp_offset = js_prop data ''offset''\<rparr>))"

definition listConversations ::
  "env \<Rightarrow> network \<Rightarrow> filters \<Rightarrow> 'z world_scheme \<Rightarrow> (js_exn + conversations_page) \<times> 'z world_scheme" where
  "listConversations env net f w =
     (case run_call env net (listConversations_call f) w of
        (Inl e, w') \<Rightarrow> (Inl e, w') | (Inr data, w') \<Rightarrow> (conversations_page_of data, w'))"

definition conversation_detail_of :: "json \<Rightarrow> js_exn + conversation_item \<times> chat_message_view list" where
  "conversation_detail_of data =
     (if data = JNull then Inl js_type_error
      else case items_or_empty (js_prop data ''messages'') of Inl e \<Rightarrow> Inl e
        | Inr messages \<Rightarrow> (case map_items mapMessage messages of Inl e \<Rightarrow> Inl e
            | Inr views \<Rightarrow> Inr (mapSummary data, views)))"

definition getConversation ::
  "env \<Rightarrow> network \<Rightarrow> string \<Rightarrow> 'z world_scheme \<Rightarrow>
   (js_exn + conversation_item \<times> chat_message_view list) \<times> 'z world_scheme" where
  "getConversation env net conversationId w =
     (case run_call env net (getConversation_call conversationId) w of
        (Inl e, w') \<Rightarrow> (Inl e, w') | (Inr data, w') \<Rightarrow> (conversation_detail_of data, w'))"

end
