(* ===== verification/Query_Cache.thy ===== *)
theory Query_Cache
  imports Feature_Apis
begin

text \<open>
  lib/api/query-keys.ts and the cache the keys address.  The cache is TanStack Query, a library:
  it is a parameter of the model, the record \<open>'c cache_ops\<close> of the operations the frontend
  calls, with the laws its documentation gives as the locale \<open>query_cache\<close>; a list of entries
  is an instance of it.
\<close>

section \<open>Keys\<close>

text \<open>A part of a key is a string, a number, \<open>null\<close> or an object of filters.\<close>

datatype key_part = KStr string | KNum int | KNull | KObj filters

type_synonym query_key = "key_part list"

definition qk_auth_all :: query_key where "qk_auth_all = [KStr ''auth'']"
definition qk_auth_currentUser :: query_key where "qk_auth_currentUser = [KStr ''auth'', KStr ''currentUser'']"
definition qk_auth_sessions :: query_key where "qk_auth_sessions = [KStr ''auth'', KStr ''sessions'']"

definition qk_conversations_all :: query_key where "qk_conversations_all = [KStr ''conversations'']"
definition qk_conversations_list :: "filters \<Rightarrow> query_key" where
  "qk_conversations_list f = [KStr ''conversations'', KStr ''list'', KObj f]"
definition qk_conversations_detail :: "string \<Rightarrow> query_key" where
  "qk_conversations_detail i = [KStr ''conversations'', KStr ''detail'', KStr i]"

definition qk_dashboard_all :: query_key where "qk_dashboard_all = [KStr ''dashboard'']"
definition qk_dashboard_summary :: "filters \<Rightarrow> query_key" where
  "qk_dashboard_summary f = [KStr ''dashboard'', KStr ''summary'', KObj f]"
definition qk_dashboard_activity :: "filters \<Rightarrow> query_key" where
  "qk_dashboard_activity f = [KStr ''dashboard'', KStr ''activity'', KObj f]"
definition qk_dashboard_findings :: "filters \<Rightarrow> query_key" where
  "qk_dashboard_findings f = [KStr ''dashboard'', KStr ''findings'', KObj f]"
definition qk_dashboard_tasks :: "filters \<Rightarrow> query_key" where
  "qk_dashboard_tasks f = [KStr ''dashboard'', KStr ''tasks'', KObj f]"
definition qk_dashboard_snapshot :: "filters \<Rightarrow> query_key" where
  "qk_dashboard_snapshot f = [KStr ''dashboard'', KStr ''snapshot'', KStr ''v2'', KObj f]"

definition qk_organizations_all :: query_key where "qk_organizations_all = [KStr ''organizations'']"
definition qk_organizations_list :: "filters \<Rightarrow> query_key" where
  "qk_organizations_list f = [KStr ''organizations'', KStr ''list'', KObj f]"
definition qk_organizations_detail :: "string \<Rightarrow> query_key" where
  "qk_organizations_detail i = [KStr ''organizations'', KStr ''detail'', KStr i]"

definition qk_members_all :: "string \<Rightarrow> query_key" where
  "qk_members_all organizationId = [KStr ''members'', KStr organizationId]"
definition qk_members_list :: "string \<Rightarrow> filters \<Rightarrow> query_key" where
  "qk_members_list organizationId f = [KStr ''members'', KStr organizationId, KStr ''list'', KObj f]"

definition qk_invitations_all :: "string \<Rightarrow> query_key" where
  "qk_invitations_all organizationId = [KStr ''invitations'', KStr organizationId]"
definition qk_invitations_list :: "string \<Rightarrow> filters \<Rightarrow> query_key" where
  "qk_invitations_list organizationId f = [KStr ''invitations'', KStr organizationId, KStr ''list'', KObj f]"

definition qk_artifacts_all :: query_key where "qk_artifacts_all = [KStr ''artifacts'']"
definition qk_artifacts_list :: "filters \<Rightarrow> query_key" where
  "qk_artifacts_list f = [KStr ''artifacts'', KStr ''list'', KObj f]"
definition qk_artifacts_detail :: "string \<Rightarrow> query_key" where
  "qk_artifacts_detail i = [KStr ''artifacts'', KStr ''detail'', KStr i]"
definition qk_artifacts_tags :: "filters \<Rightarrow> query_key" where
  "qk_artifacts_tags f = [KStr ''artifacts'', KStr ''tags'', KObj f]"

definition qk_versions_all :: "string \<Rightarrow> query_key" where
  "qk_versions_all artifactId = [KStr ''versions'', KStr artifactId]"
definition qk_versions_list :: "string \<Rightarrow> filters \<Rightarrow> query_key" where
  "qk_versions_list artifactId f = [KStr ''versions'', KStr artifactId, KStr ''list'', KObj f]"
definition qk_versions_detail :: "string \<Rightarrow> key_part \<Rightarrow> query_key" where
  "qk_versions_detail artifactId versionNumber =
     [KStr ''versions'', KStr artifactId, KStr ''detail'', versionNumber]"

definition qk_policyPacks_all :: "string \<Rightarrow> query_key" where
  "qk_policyPacks_all organizationId = [KStr ''policyPacks'', KStr organizationId]"
definition qk_policyPacks_list :: "string \<Rightarrow> filters \<Rightarrow> query_key" where
  "qk_policyPacks_list organizationId f = [KStr ''policyPacks'', KStr organizationId, KStr ''list'', KObj f]"
definition qk_policyPacks_detail :: "string \<Rightarrow> string \<Rightarrow> query_key" where
  "qk_policyPacks_detail organizationId packId =
     [KStr ''policyPacks'', KStr organizationId, KStr ''detail'', KStr packId]"

definition qk_tasks_all :: query_key where "qk_tasks_all = [KStr ''tasks'']"
definition qk_tasks_list :: "filters \<Rightarrow> query_key" where
  "qk_tasks_list f = [KStr ''tasks'', KStr ''list'', KObj f]"
definition qk_tasks_detail :: "string \<Rightarrow> query_key" where
  "qk_tasks_detail i = [KStr ''tasks'', KStr ''detail'', KStr i]"

definition qk_auditEvents_all :: "string \<Rightarrow> query_key" where
  "qk_auditEvents_all organizationId = [KStr ''auditEvents'', KStr organizationId]"
definition qk_auditEvents_list :: "string \<Rightarrow> filters \<Rightarrow> query_key" where
  "qk_auditEvents_list organizationId f = [KStr ''auditEvents'', KStr organizationId, KStr ''list'', KObj f]"

definition qk_onboarding_all :: query_key where "qk_onboarding_all = [KStr ''onboarding'']"
definition qk_onboarding_me :: query_key where "qk_onboarding_me = [KStr ''onboarding'', KStr ''me'']"

definition qk_usage_all :: query_key where "qk_usage_all = [KStr ''usage'']"
definition qk_usage_me :: query_key where "qk_usage_me = [KStr ''usage'', KStr ''me'']"
definition qk_usage_org :: "string \<Rightarrow> query_key" where
  "qk_usage_org organizationId = [KStr ''usage'', KStr ''org'', KStr organizationId]"
definition qk_usage_quotas :: "string \<Rightarrow> query_key" where
  "qk_usage_quotas organizationId = [KStr ''usage'', KStr ''quotas'', KStr organizationId]"

definition qk_providers_all :: query_key where "qk_providers_all = [KStr ''providers'']"
definition qk_providers_adminConfigs :: query_key where
  "qk_providers_adminConfigs = [KStr ''providers'', KStr ''admin'', KStr ''configs'']"
definition qk_providers_adminRouting :: query_key where
  "qk_providers_adminRouting = [KStr ''providers'', KStr ''admin'', KStr ''routing'']"
definition qk_providers_adminHealth :: query_key where
  "qk_providers_adminHealth = [KStr ''providers'', KStr ''admin'', KStr ''health'']"
definition qk_providers_orgConfigs :: "string \<Rightarrow> query_key" where
  "qk_providers_orgConfigs organizationId = [KStr ''providers'', KStr ''org'', KStr organizationId, KStr ''configs'']"
definition qk_providers_orgRouting :: "string \<Rightarrow> query_key" where
  "qk_providers_orgRouting organizationId = [KStr ''providers'', KStr ''org'', KStr organizationId, KStr ''routing'']"

lemmas query_key_defs =
  qk_auth_all_def qk_auth_currentUser_def qk_auth_sessions_def qk_conversations_all_def
  qk_conversations_list_def qk_conversations_detail_def qk_dashboard_all_def qk_dashboard_summary_def
  qk_dashboard_activity_def qk_dashboard_findings_def qk_dashboard_tasks_def qk_dashboard_snapshot_def
  qk_organizations_all_def qk_organizations_list_def qk_organizations_detail_def qk_members_all_def
  qk_members_list_def qk_invitations_all_def qk_invitations_list_def qk_artifacts_all_def
  qk_artifacts_list_def qk_artifacts_detail_def qk_artifacts_tags_def qk_versions_all_def
  qk_versions_list_def qk_versions_detail_def qk_policyPacks_all_def qk_policyPacks_list_def
  qk_policyPacks_detail_def qk_tasks_all_def qk_tasks_list_def qk_tasks_detail_def
  qk_auditEvents_all_def qk_auditEvents_list_def qk_onboarding_all_def qk_onboarding_me_def
  qk_usage_all_def qk_usage_me_def qk_usage_org_def qk_usage_quotas_def qk_providers_all_def
  qk_providers_adminConfigs_def qk_providers_adminRouting_def qk_providers_adminHealth_def
  qk_providers_orgConfigs_def qk_providers_orgRouting_def

section \<open>When two keys are the same, and what a key covers\<close>

text \<open>
  The documented comparison of keys: objects are compared by their properties whatever their
  order, and properties that are \<open>undefined\<close> do not count.
\<close>

definition same_filters :: "filters \<Rightarrow> filters \<Rightarrow> bool" where
  "same_filters f g = list_all (\<lambda>k. param f k = param g k) (map fst f @ map fst g)"

fun part_same :: "key_part \<Rightarrow> key_part \<Rightarrow> bool" where
  "part_same (KObj f) (KObj g) = same_filters f g"
| "part_same p q = (p = q)"

definition key_same :: "query_key \<Rightarrow> query_key \<Rightarrow> bool" where
  "key_same k k' = list_all2 part_same k k'"

fun scalar_part :: "key_part \<Rightarrow> bool" where
  "scalar_part (KObj _) = False"
| "scalar_part _ = True"

lemma param_absent: "k \<notin> fst ` set f \<Longrightarrow> param f k = QUndef"
  by (simp add: param_def map_of_eq_None_iff [THEN iffD2])

lemma same_filters_iff: "same_filters f g = (param f = param g)"
proof
  assume s: "same_filters f g"
  show "param f = param g"
  proof
    fix k
    show "param f k = param g k"
    proof (cases "k \<in> fst ` set f \<union> fst ` set g")
      case True
      with s show ?thesis by (auto simp: same_filters_def list_all_iff)
    next
      case False
      then show ?thesis by (simp add: param_absent)
    qed
  qed
qed (simp add: same_filters_def list_all_iff)

lemma part_same_refl [simp]: "part_same p p"
  by (cases p) (simp_all add: same_filters_iff)

lemma part_same_sym: "part_same p q = part_same q p"
  by (cases p; cases q) (auto simp: same_filters_iff)

lemma part_same_trans: "part_same p q \<Longrightarrow> part_same q r \<Longrightarrow> part_same p r"
  by (cases p; cases q; cases r) (auto simp: same_filters_iff)

lemma key_same_refl [simp]: "key_same k k"
  by (simp add: key_same_def list.rel_refl)

lemma key_same_sym: "key_same k k' \<Longrightarrow> key_same k' k"
  by (auto simp: key_same_def list_all2_conv_all_nth part_same_sym)

lemma key_same_trans: "key_same k k' \<Longrightarrow> key_same k' k'' \<Longrightarrow> key_same k k''"
  unfolding key_same_def by (rule list_all2_trans [where ?P1.0 = part_same and ?P2.0 = part_same]) (auto intro: part_same_trans)

lemma part_same_scalar: "scalar_part p \<Longrightarrow> part_same p q = (q = p)"
  by (cases p; cases q) auto

section \<open>The interface of the cache\<close>

record 'c cache_ops =
  qc_get :: "'c \<Rightarrow> query_key \<Rightarrow> json option"
  qc_stale :: "'c \<Rightarrow> query_key \<Rightarrow> bool"
  qc_set :: "query_key \<Rightarrow> json \<Rightarrow> 'c \<Rightarrow> 'c"
  qc_invalidate :: "query_key \<Rightarrow> 'c \<Rightarrow> 'c"
  qc_remove :: "(query_key \<Rightarrow> bool) \<Rightarrow> 'c \<Rightarrow> 'c"
  qc_within :: "query_key \<Rightarrow> query_key \<Rightarrow> bool"

text \<open>
  \<open>getQueryData\<close>, whether the data is marked as invalid, \<open>setQueryData\<close>, \<open>invalidateQueries\<close>
  by a key, \<open>removeQueries\<close> by a predicate, and the matching of a key by a shorter one.  A key
  matches its extensions, and a matched key has the same strings and numbers at its start.
\<close>

definition respects_same :: "(query_key \<Rightarrow> bool) \<Rightarrow> bool" where
  "respects_same P = (\<forall>k k'. key_same k k' \<longrightarrow> P k = P k')"

locale query_cache =
  fixes ops :: "'c cache_ops"
  assumes get_set: "qc_get ops (qc_set ops k v c) k' = (if key_same k k' then Some v else qc_get ops c k')"
    and stale_set: "qc_stale ops (qc_set ops k v c) k' = (\<not> key_same k k' \<and> qc_stale ops c k')"
    and get_invalidate: "qc_get ops (qc_invalidate ops k c) k' = qc_get ops c k'"
    and stale_invalidate: "qc_get ops c k' \<noteq> None \<Longrightarrow>
      qc_stale ops (qc_invalidate ops k c) k' = (qc_stale ops c k' \<or> qc_within ops k k')"
    and get_remove: "respects_same P \<Longrightarrow> qc_get ops (qc_remove ops P c) k' = (if P k' then None else qc_get ops c k')"
    and stale_remove: "respects_same P \<Longrightarrow> \<not> P k' \<Longrightarrow> qc_stale ops (qc_remove ops P c) k' = qc_stale ops c k'"
    and within_extension: "key_same k k1 \<Longrightarrow> qc_within ops k (k1 @ r)"
    and within_prefix: "qc_within ops k k' \<Longrightarrow> i < length k \<Longrightarrow>
      i < length k' \<and> (scalar_part (k ! i) \<longrightarrow> k' ! i = k ! i)"
begin

lemma within_iff:
  assumes "list_all scalar_part k"
  shows "qc_within ops k k' = (\<exists>r. k' = k @ r)"
proof
  assume w: "qc_within ops k k'"
  have len: "length k \<le> length k'"
  proof (cases "length k")
    case (Suc n)
    with within_prefix [OF w, of n] show ?thesis by simp
  qed simp
  have "k = take (length k) k'"
    using within_prefix [OF w] assms len by (auto simp: list_eq_iff_nth_eq list_all_length)
  then have "k' = k @ drop (length k) k'" by (metis append_take_drop_id)
  then show "\<exists>r. k' = k @ r" ..
next
  assume "\<exists>r. k' = k @ r"
  then show "qc_within ops k k'" using within_extension [OF key_same_refl] by blast
qed

lemma get_fold_invalidate: "qc_get ops (fold (qc_invalidate ops) ks c) k' = qc_get ops c k'"
  by (induction ks arbitrary: c) (simp_all add: get_invalidate)

lemma stale_fold_invalidate:
  "qc_get ops c k' \<noteq> None \<Longrightarrow> qc_stale ops (fold (qc_invalidate ops) ks c) k' =
     (qc_stale ops c k' \<or> (\<exists>k\<in>set ks. qc_within ops k k'))"
  by (induction ks arbitrary: c) (auto simp: get_invalidate stale_invalidate)

end

section \<open>An instance\<close>

type_synonym mem_cache = "(query_key \<times> json \<times> bool) list"

fun mem_find :: "mem_cache \<Rightarrow> query_key \<Rightarrow> (json \<times> bool) option" where
  "mem_find [] k = None"
| "mem_find ((k1, v, s) # c) k = (if key_same k1 k then Some (v, s) else mem_find c k)"

definition mem_put :: "query_key \<Rightarrow> json \<Rightarrow> mem_cache \<Rightarrow> mem_cache" where
  "mem_put k v c = (k, v, False) # filter (\<lambda>e. \<not> key_same (fst e) k) c"

fun part_within :: "key_part \<Rightarrow> key_part \<Rightarrow> bool" where
  "part_within (KObj f) (KObj g) = list_all (\<lambda>k. param f k = param g k) (map fst f)"
| "part_within p q = (p = q)"

definition key_within :: "query_key \<Rightarrow> query_key \<Rightarrow> bool" where
  "key_within k k' = (length k \<le> length k' \<and> list_all2 part_within k (take (length k) k'))"

definition mem_mark :: "query_key \<Rightarrow> mem_cache \<Rightarrow> mem_cache" where
  "mem_mark k c = map (\<lambda>(k1, v, s). (k1, v, s \<or> key_within k k1)) c"

definition mem_cache_ops :: "mem_cache cache_ops" where
  "mem_cache_ops = \<lparr>qc_get = (\<lambda>c k. map_option fst (mem_find c k)),
     qc_stale = (\<lambda>c k. case mem_find c k of Some (v, s) \<Rightarrow> s | None \<Rightarrow> False),
     qc_set = mem_put, qc_invalidate = mem_mark,
     qc_remove = (\<lambda>P. filter (\<lambda>e. \<not> P (fst e))), qc_within = key_within\<rparr>"

lemma part_within_same: "part_same q q' \<Longrightarrow> part_within p q = part_within p q'"
  by (cases p; cases q; cases q') (auto simp: same_filters_iff)

lemma part_same_within: "part_same p q \<Longrightarrow> part_within p q"
  by (cases p; cases q) (auto simp: same_filters_iff list_all_iff)

lemma key_within_same: "key_same k1 k2 \<Longrightarrow> key_within k k1 = key_within k k2"
proof -
  assume s: "key_same k1 k2"
  have "part_within (k ! i) (k1 ! i) = part_within (k ! i) (k2 ! i)" if "i < length k1" for i
    using s that by (intro part_within_same) (simp add: key_same_def list_all2_conv_all_nth)
  moreover have "length k1 = length k2" using s by (simp add: key_same_def list_all2_lengthD)
  ultimately show ?thesis by (auto simp: key_within_def list_all2_conv_all_nth)
qed

lemma mem_find_same: "key_same k k' \<Longrightarrow> mem_find c k = mem_find c k'"
  by (induction c k rule: mem_find.induct) (auto intro: key_same_trans key_same_sym)

lemma mem_find_filter:
  "\<forall>k1 k2. key_same k1 k2 \<longrightarrow> Q k1 = Q k2 \<Longrightarrow>
   mem_find (filter (\<lambda>e. Q (fst e)) c) k = (if Q k then mem_find c k else None)"
  by (induction c) auto

lemma mem_find_put: "mem_find (mem_put k v c) k' = (if key_same k k' then Some (v, False) else mem_find c k')"
proof -
  have "\<forall>k1 k2. key_same k1 k2 \<longrightarrow> (\<not> key_same k1 k) = (\<not> key_same k2 k)"
    by (blast intro: key_same_trans key_same_sym)
  from mem_find_filter [OF this, of c k'] show ?thesis
    by (auto simp: mem_put_def dest: key_same_sym)
qed

lemma mem_find_mark:
  "mem_find (mem_mark k c) k' = map_option (\<lambda>(v, s). (v, s \<or> key_within k k')) (mem_find c k')"
  by (induction c k' rule: mem_find.induct) (auto simp: mem_mark_def dest: key_within_same)

lemma key_within_prefix:
  "key_within k k' \<Longrightarrow> i < length k \<Longrightarrow> i < length k' \<and> (scalar_part (k ! i) \<longrightarrow> k' ! i = k ! i)"
proof -
  assume w: "key_within k k'" and i: "i < length k"
  then have "part_within (k ! i) (k' ! i)" "i < length k'"
    by (auto simp: key_within_def list_all2_conv_all_nth)
  moreover have "scalar_part p \<Longrightarrow> part_within p q \<Longrightarrow> q = p" for p q by (cases p; cases q) auto
  ultimately show ?thesis by blast
qed

interpretation mem_cache: query_cache mem_cache_ops
proof unfold_locales
  fix P k' and c :: mem_cache
  assume "respects_same P"
  then have q: "\<forall>k1 k2. key_same k1 k2 \<longrightarrow> (\<not> P k1) = (\<not> P k2)" by (simp add: respects_same_def)
  show "qc_get mem_cache_ops (qc_remove mem_cache_ops P c) k' = (if P k' then None else qc_get mem_cache_ops c k')"
    by (simp add: mem_cache_ops_def mem_find_filter [OF q])
  show "\<not> P k' \<Longrightarrow> qc_stale mem_cache_ops (qc_remove mem_cache_ops P c) k' = qc_stale mem_cache_ops c k'"
    by (simp add: mem_cache_ops_def mem_find_filter [OF q])
next
  fix k k1 r
  assume "key_same k k1"
  then have "length k = length k1" "list_all2 part_within k k1"
    by (auto simp: key_same_def part_same_within dest: list_all2_lengthD elim: list_all2_mono)
  then show "qc_within mem_cache_ops k (k1 @ r)" by (simp add: mem_cache_ops_def key_within_def)
qed (auto simp: mem_cache_ops_def mem_find_put mem_find_mark option.map_comp comp_def case_prod_beta
    dest: key_within_prefix split: option.splits)

end
