(* ===== verification/Dashboard.thy ===== *)
theory Dashboard
  imports Api_Client Endpoints Query_String
begin

text \<open>
  features/dashboard/api.ts: four requests made side by side, whose answers are accepted in
  an envelope or bare, and whose failures do not affect each other.
\<close>

record dashboard_filters =
  df_organization_id :: "string option"
  df_time_range :: "string option"

definition isCountRecord :: "json \<Rightarrow> bool" where
  "isCountRecord v = (case v of JObj kvs \<Rightarrow> list_all (\<lambda>(k, x). case x of JNum _ \<Rightarrow> True | _ \<Rightarrow> False) kvs | _ \<Rightarrow> False)"

text \<open>\<open>Number(record.k) || 0\<close> for a record of numbers.\<close>

definition count_of :: "json \<Rightarrow> string \<Rightarrow> rat" where
  "count_of v k = (case js_prop v k of Some (JNum q) \<Rightarrow> q | _ \<Rightarrow> 0)"

record finding_counts =
  fc_critical :: rat
  fc_high :: rat
  fc_medium :: rat
  fc_low :: rat

record task_counts =
  tc_queued :: rat
  tc_running :: rat
  tc_succeeded :: rat
  tc_failed :: rat

lemma size_map_of_json: "map_of kvs k = Some v \<Longrightarrow> size v < size (JObj kvs)"
  by (induction kvs) (auto split: if_splits)

function finding_counts_of :: "json \<Rightarrow> finding_counts option" where
  "finding_counts_of v =
     (if isCountRecord v \<and> js_prop v ''critical'' \<noteq> None \<and> js_prop v ''high'' \<noteq> None then
        Some \<lparr>fc_critical = count_of v ''critical'', fc_high = count_of v ''high'',
              fc_medium = count_of v ''medium'', fc_low = count_of v ''low''\<rparr>
      else case js_prop v ''counts'' of Some w \<Rightarrow> finding_counts_of w | None \<Rightarrow> None)"
  by pat_completeness auto

lemma size_js_prop: "js_prop v k = Some w \<Longrightarrow> size w < size v"
  by (cases v) (auto simp: js_prop_def dest: size_map_of_json)

termination finding_counts_of
  by (relation "measure size") (simp_all add: size_js_prop)

function task_counts_of :: "json \<Rightarrow> task_counts option" where
  "task_counts_of v =
     (if isCountRecord v \<and> js_prop v ''queued'' \<noteq> None \<and> js_prop v ''running'' \<noteq> None then
        Some \<lparr>tc_queued = count_of v ''queued'', tc_running = count_of v ''running'',
              tc_succeeded = count_of v ''succeeded'', tc_failed = count_of v ''failed''\<rparr>
      else case js_prop v ''counts'' of Some w \<Rightarrow> task_counts_of w | None \<Rightarrow> None)"
  by pat_completeness auto

termination task_counts_of
  by (relation "measure size") (simp_all add: size_js_prop)

declare finding_counts_of.simps [simp del] task_counts_of.simps [simp del]

text \<open>\<open>None\<close> is \<open>undefined\<close>.\<close>

definition normalizeFindingCounts :: "json option \<Rightarrow> finding_counts option" where
  "normalizeFindingCounts v = (case v of None \<Rightarrow> None | Some w \<Rightarrow> finding_counts_of w)"

definition normalizeTaskCounts :: "json option \<Rightarrow> task_counts option" where
  "normalizeTaskCounts v = (case v of None \<Rightarrow> None | Some w \<Rightarrow> task_counts_of w)"

definition normalizeActivityItems :: "json \<Rightarrow> json list" where
  "normalizeActivityItems v =
     (case v of JArr items \<Rightarrow> items
      | _ \<Rightarrow> (case js_prop v ''items'' of Some (JArr items) \<Rightarrow> items | _ \<Rightarrow> []))"

definition dashboardUrl :: "string \<Rightarrow> dashboard_filters \<Rightarrow> string" where
  "dashboardUrl path f = path @ buildQueryString
     [(''organization_id'', case df_organization_id f of Some i \<Rightarrow> QStr i | None \<Rightarrow> QUndef),
      (''time_range'', QStr (case df_time_range f of Some t \<Rightarrow> t | None \<Rightarrow> ''7d''))]"

record dashboard_snapshot =
  ds_summary :: "json option"
  ds_activity :: "json list"
  ds_findings :: "finding_counts option"
  ds_tasks :: "task_counts option"
  ds_fail_summary :: bool
  ds_fail_activity :: bool
  ds_fail_findings :: bool
  ds_fail_tasks :: bool

definition settledValue :: "js_exn + 'a \<Rightarrow> 'a \<Rightarrow> 'a" where
  "settledValue r fallback = (case r of Inr v \<Rightarrow> v | Inl _ \<Rightarrow> fallback)"

definition rejected :: "js_exn + 'a \<Rightarrow> bool" where
  "rejected r = (case r of Inl _ \<Rightarrow> True | Inr _ \<Rightarrow> False)"

text \<open>The four calls are started in this order, before any answer arrives.\<close>

definition fetchDashboardSnapshot ::
  "env \<Rightarrow> network \<Rightarrow> dashboard_filters \<Rightarrow> 'z world_scheme \<Rightarrow> dashboard_snapshot \<times> 'z world_scheme" where
  "fetchDashboardSnapshot env net f w0 =
     (let (summary, w1) = apiFetch False env net (dashboardUrl ep_dashboard_summary f) default_options w0;
          (activity, w2) = apiFetch False env net (dashboardUrl ep_dashboard_activity f) default_options w1;
          (findings, w3) = apiFetch False env net (dashboardUrl ep_dashboard_findings f) default_options w2;
          (tasks, w4) = apiFetch False env net (dashboardUrl ep_dashboard_tasks f) default_options w3
      in (\<lparr>ds_summary = settledValue (map_sum id Some summary) None,
           ds_activity = normalizeActivityItems (settledValue activity (JObj [(''items'', JArr [])])),
           ds_findings = normalizeFindingCounts (settledValue (map_sum id Some findings) None),
           ds_tasks = normalizeTaskCounts (settledValue (map_sum id Some tasks) None),
           ds_fail_summary = rejected summary, ds_fail_activity = rejected activity,
           ds_fail_findings = rejected findings, ds_fail_tasks = rejected tasks\<rparr>, w4))"

section \<open>Lemmas\<close>

lemma finding_counts_envelope:
  "finding_counts_of (JObj [(''counts'', v)]) = finding_counts_of v"
proof -
  have "js_prop (JObj [(''counts'', v)]) ''critical'' = None" "js_prop (JObj [(''counts'', v)]) ''counts'' = Some v"
    by (simp_all add: js_prop_def)
  then show ?thesis by (subst finding_counts_of.simps) simp
qed

lemma task_counts_envelope: "task_counts_of (JObj [(''counts'', v)]) = task_counts_of v"
proof -
  have "js_prop (JObj [(''counts'', v)]) ''queued'' = None" "js_prop (JObj [(''counts'', v)]) ''counts'' = Some v"
    by (simp_all add: js_prop_def)
  then show ?thesis by (subst task_counts_of.simps) simp
qed

definition dashboard_request :: "env \<Rightarrow> string \<Rightarrow> dashboard_filters \<Rightarrow> http_request" where
  "dashboard_request env path f = apiFetch_request False env (dashboardUrl path f) default_options"

text \<open>The outcome of the request for one resource after the requests for others.\<close>

definition dashboard_answer ::
  "env \<Rightarrow> network \<Rightarrow> dashboard_filters \<Rightarrow> http_request list \<Rightarrow> string list \<Rightarrow> string \<Rightarrow> js_exn + json" where
  "dashboard_answer env net f log0 before p =
     (case net (log0 @ map (\<lambda>q. dashboard_request env q f) before) (dashboard_request env p f) of
        Inl e \<Rightarrow> Inl e | Inr r \<Rightarrow> apiFetch_result False r)"

lemma dashboard_apiFetch:
  "apiFetch False env net (dashboardUrl p f) default_options (w\<lparr>sent := past @ map (\<lambda>q. dashboard_request env q f) before\<rparr>)
   = (dashboard_answer env net f past before p, w\<lparr>sent := past @ map (\<lambda>q. dashboard_request env q f) (before @ [p])\<rparr>)"
proof -
  have raw: "ro_raw default_options = False" by (simp add: default_options_def)
  show ?thesis
    by (rule prod_eqI) (simp_all add: apiFetch_fst apiFetch_world dashboard_answer_def dashboard_request_def raw
        cong: sum.case_cong)
qed

lemma settled_opt: "settledValue (map_sum id Some r) None = (case r of Inr v \<Rightarrow> Some v | Inl _ \<Rightarrow> None)"
  by (cases r) (simp_all add: settledValue_def)

lemma settled_activity:
  "normalizeActivityItems (settledValue r (JObj [(''items'', JArr [])])) =
   (case r of Inr v \<Rightarrow> normalizeActivityItems v | Inl _ \<Rightarrow> [])"
  by (cases r) (simp_all add: settledValue_def normalizeActivityItems_def js_prop_def)

lemma settled_counts:
  "normalizeFindingCounts (case r of Inl _ \<Rightarrow> None | Inr v \<Rightarrow> Some v) = (case r of Inl _ \<Rightarrow> None | Inr v \<Rightarrow> finding_counts_of v)"
  "normalizeTaskCounts (case r of Inl _ \<Rightarrow> None | Inr v \<Rightarrow> Some v) = (case r of Inl _ \<Rightarrow> None | Inr v \<Rightarrow> task_counts_of v)"
  by (cases r; simp add: normalizeFindingCounts_def normalizeTaskCounts_def)+

text \<open>The dashboard is loaded with four requests, one per resource with the same filters, and
  each part is computed from its own answer alone: a part is marked as failed exactly when
  its request was rejected, and the others are shown as if nothing had happened; counts are
  accepted bare or in an envelope.\<close>

theorem dashboard_parts_independent:
  "let answer = dashboard_answer env net f (sent w);
       s = answer [] ep_dashboard_summary;
       a = answer [ep_dashboard_summary] ep_dashboard_activity;
       c = answer [ep_dashboard_summary, ep_dashboard_activity] ep_dashboard_findings;
       t = answer [ep_dashboard_summary, ep_dashboard_activity, ep_dashboard_findings] ep_dashboard_tasks;
       (d, w') = fetchDashboardSnapshot env net f w
   in sent w' = sent w @ map (\<lambda>p. dashboard_request env p f)
        [ep_dashboard_summary, ep_dashboard_activity, ep_dashboard_findings, ep_dashboard_tasks]
      \<and> ds_fail_summary d = rejected s \<and> ds_summary d = (case s of Inr v \<Rightarrow> Some v | Inl _ \<Rightarrow> None)
      \<and> ds_fail_activity d = rejected a \<and> ds_activity d = (case a of Inr v \<Rightarrow> normalizeActivityItems v | Inl _ \<Rightarrow> [])
      \<and> ds_fail_findings d = rejected c \<and> ds_findings d = (case c of Inr v \<Rightarrow> finding_counts_of v | Inl _ \<Rightarrow> None)
      \<and> ds_fail_tasks d = rejected t \<and> ds_tasks d = (case t of Inr v \<Rightarrow> task_counts_of v | Inl _ \<Rightarrow> None)
      \<and> finding_counts_of (JObj [(''counts'', x)]) = finding_counts_of x
      \<and> task_counts_of (JObj [(''counts'', x)]) = task_counts_of x"
proof -
  let ?log = "\<lambda>ps. w\<lparr>sent := sent w @ map (\<lambda>q. dashboard_request env q f) ps\<rparr>"
  have w: "w = ?log []" by simp
  have 1: "apiFetch False env net (dashboardUrl ep_dashboard_summary f) default_options w =
      (dashboard_answer env net f (sent w) [] ep_dashboard_summary, ?log [ep_dashboard_summary])"
    using dashboard_apiFetch [where w = w and past = "sent w" and before = "[]" and p = ep_dashboard_summary] by simp
  note step = dashboard_apiFetch [where w = w]
  show ?thesis
    unfolding fetchDashboardSnapshot_def 1 Let_def split_beta fst_conv snd_conv step append.simps
    by (simp add: settled_opt settled_activity settled_counts finding_counts_envelope task_counts_envelope)
qed

end
