(* ===== verification/Feature_Hooks.thy ===== *)
theory Feature_Hooks
  imports Query_Cache Dashboard Rbac
begin

text \<open>
  The hooks of features/: a query hook is the key of its data, the calls that load it and
  whether it is enabled; a mutation hook is its call and the keys it invalidates when the call
  succeeded.  The last definitions of each group are the queries and mutations written out in
  components (conversation sidebar and workspace, dashboard, profile).
\<close>

record hook_query =
  hq_key :: query_key
  hq_calls :: "api_call list"
  hq_enabled :: bool

record hook_mutation =
  hm_call :: api_call
  hm_invalidates :: "query_key list"

text \<open>A version number in a key, which may be \<open>null\<close>.\<close>

definition num_part :: "int option \<Rightarrow> key_part" where
  "num_part v = (case v of Some n \<Rightarrow> KNum n | None \<Rightarrow> KNull)"

text \<open>The filters of the dashboard as the object that is part of its key.\<close>

definition dashboard_filter_object :: "dashboard_filters \<Rightarrow> filters" where
  "dashboard_filter_object f =
     [(''organization_id'', case df_organization_id f of Some i \<Rightarrow> QStr i | None \<Rightarrow> QNull),
      (''time_range'', case df_time_range f of Some t \<Rightarrow> QStr t | None \<Rightarrow> QUndef)]"

section \<open>Queries\<close>

definition useArtifacts :: "filters \<Rightarrow> hook_query" where
  "useArtifacts params = \<lparr>hq_key = qk_artifacts_list params,
     hq_calls = [listArtifacts params], hq_enabled = (True)\<rparr>"

definition useArtifact :: "string \<Rightarrow> hook_query" where
  "useArtifact artifactId = \<lparr>hq_key = qk_artifacts_detail artifactId,
     hq_calls = [getArtifact artifactId], hq_enabled = (artifactId \<noteq> [])\<rparr>"

definition useArtifactTags :: "filters \<Rightarrow> hook_query" where
  "useArtifactTags params = \<lparr>hq_key = qk_artifacts_tags params,
     hq_calls = [listTags params], hq_enabled = (True)\<rparr>"

definition useArtifactVersions :: "string \<Rightarrow> filters \<Rightarrow> hook_query" where
  "useArtifactVersions artifactId params = \<lparr>hq_key = qk_versions_list artifactId params,
     hq_calls = [listVersions artifactId params], hq_enabled = (artifactId \<noteq> [])\<rparr>"

definition useArtifactVersion :: "string \<Rightarrow> int option \<Rightarrow> hook_query" where
  "useArtifactVersion artifactId versionNumber = \<lparr>hq_key = qk_versions_detail artifactId (case versionNumber of Some n \<Rightarrow> KNum n | None \<Rightarrow> KStr ''none''),
     hq_calls = (case versionNumber of Some n \<Rightarrow> [getVersion artifactId n] | None \<Rightarrow> []), hq_enabled = (artifactId \<noteq> [] \<and> versionNumber \<noteq> None)\<rparr>"

definition useArtifactDiff :: "string \<Rightarrow> int option \<Rightarrow> int option \<Rightarrow> hook_query" where
  "useArtifactDiff artifactId fromVersion toVersion = \<lparr>hq_key = [KStr ''versions'', KStr artifactId, KStr ''diff'', num_part fromVersion, num_part toVersion],
     hq_calls = (case (fromVersion, toVersion) of (Some a, Some b) \<Rightarrow> [diffVersions artifactId a b] | _ \<Rightarrow> []), hq_enabled = (artifactId \<noteq> [] \<and> fromVersion \<noteq> None \<and> toVersion \<noteq> None)\<rparr>"

definition useOrganizations :: "filters \<Rightarrow> hook_query" where
  "useOrganizations params = \<lparr>hq_key = qk_organizations_list params,
     hq_calls = [listOrganizations params], hq_enabled = (True)\<rparr>"

definition useOrganization :: "string \<Rightarrow> hook_query" where
  "useOrganization organizationId = \<lparr>hq_key = qk_organizations_detail organizationId,
     hq_calls = [getOrganization organizationId], hq_enabled = (organizationId \<noteq> [])\<rparr>"

definition useMembers :: "string \<Rightarrow> filters \<Rightarrow> hook_query" where
  "useMembers organizationId params = \<lparr>hq_key = qk_members_list organizationId params,
     hq_calls = [listMembers organizationId params], hq_enabled = (organizationId \<noteq> [])\<rparr>"

definition useInvitations :: "string \<Rightarrow> filters \<Rightarrow> hook_query" where
  "useInvitations organizationId params = \<lparr>hq_key = qk_invitations_list organizationId params,
     hq_calls = [listInvitations organizationId params], hq_enabled = (organizationId \<noteq> [])\<rparr>"

definition usePolicyPacks :: "string \<Rightarrow> filters \<Rightarrow> hook_query" where
  "usePolicyPacks organizationId params = \<lparr>hq_key = qk_policyPacks_list organizationId params,
     hq_calls = [listPolicyPacks organizationId params], hq_enabled = (organizationId \<noteq> [])\<rparr>"

definition usePolicyPack :: "string \<Rightarrow> string \<Rightarrow> hook_query" where
  "usePolicyPack organizationId policyPackId = \<lparr>hq_key = qk_policyPacks_detail organizationId policyPackId,
     hq_calls = [getPolicyPack organizationId policyPackId], hq_enabled = (organizationId \<noteq> [] \<and> policyPackId \<noteq> [])\<rparr>"

definition useTasks :: "filters \<Rightarrow> hook_query" where
  "useTasks params = \<lparr>hq_key = qk_tasks_list params,
     hq_calls = [listTasks params], hq_enabled = (True)\<rparr>"

definition useTask :: "string \<Rightarrow> hook_query" where
  "useTask taskId = \<lparr>hq_key = qk_tasks_detail taskId,
     hq_calls = [getTask taskId], hq_enabled = (taskId \<noteq> [])\<rparr>"

definition useLogAnalysisTask :: "string option \<Rightarrow> hook_query" where
  "useLogAnalysisTask taskId = \<lparr>hq_key = qk_tasks_detail (or_else_str (nonempty_opt taskId) ''none''),
     hq_calls = (case nonempty_opt taskId of Some i \<Rightarrow> [fetchTaskDetail i] | None \<Rightarrow> []), hq_enabled = (nonempty_opt taskId \<noteq> None)\<rparr>"

definition useAuditEvents :: "string \<Rightarrow> filters \<Rightarrow> hook_query" where
  "useAuditEvents organizationId params = \<lparr>hq_key = qk_auditEvents_list organizationId params,
     hq_calls = [listAuditEvents organizationId params], hq_enabled = (organizationId \<noteq> [])\<rparr>"

definition useOnboarding :: hook_query where
  "useOnboarding = \<lparr>hq_key = qk_onboarding_me,
     hq_calls = [fetchOnboarding], hq_enabled = (True)\<rparr>"

definition useMyUsage :: hook_query where
  "useMyUsage = \<lparr>hq_key = qk_usage_me,
     hq_calls = [fetchMyUsage], hq_enabled = (True)\<rparr>"

definition useOrganizationUsage :: "string option \<Rightarrow> hook_query" where
  "useOrganizationUsage organizationId = \<lparr>hq_key = qk_usage_org (case organizationId of Some i \<Rightarrow> i | None \<Rightarrow> ''none''),
     hq_calls = (case organizationId of Some i \<Rightarrow> [fetchOrganizationUsage i] | None \<Rightarrow> []), hq_enabled = (nonempty_opt organizationId \<noteq> None)\<rparr>"

definition useOrganizationQuotas :: "string option \<Rightarrow> hook_query" where
  "useOrganizationQuotas organizationId = \<lparr>hq_key = qk_usage_quotas (case organizationId of Some i \<Rightarrow> i | None \<Rightarrow> ''none''),
     hq_calls = (case organizationId of Some i \<Rightarrow> [fetchOrganizationQuotas i] | None \<Rightarrow> []), hq_enabled = (nonempty_opt organizationId \<noteq> None)\<rparr>"

definition useAdminProviderConfigs :: hook_query where
  "useAdminProviderConfigs = \<lparr>hq_key = qk_providers_adminConfigs,
     hq_calls = [listAdminProviderConfigs], hq_enabled = (True)\<rparr>"

definition useAdminProviderRouting :: hook_query where
  "useAdminProviderRouting = \<lparr>hq_key = qk_providers_adminRouting,
     hq_calls = [listAdminProviderRouting], hq_enabled = (True)\<rparr>"

definition useAdminProviderHealth :: hook_query where
  "useAdminProviderHealth = \<lparr>hq_key = qk_providers_adminHealth,
     hq_calls = [fetchAdminProviderHealth], hq_enabled = (True)\<rparr>"

definition useOrgProviderConfigs :: "string \<Rightarrow> hook_query" where
  "useOrgProviderConfigs organizationId = \<lparr>hq_key = qk_providers_orgConfigs organizationId,
     hq_calls = [listOrgProviderConfigs organizationId], hq_enabled = (organizationId \<noteq> [])\<rparr>"

definition useOrgProviderRouting :: "string \<Rightarrow> hook_query" where
  "useOrgProviderRouting organizationId = \<lparr>hq_key = qk_providers_orgRouting organizationId,
     hq_calls = [listOrgProviderRouting organizationId], hq_enabled = (organizationId \<noteq> [])\<rparr>"

definition conversationsQuery :: "filters \<Rightarrow> hook_query" where
  "conversationsQuery f = \<lparr>hq_key = qk_conversations_list f,
     hq_calls = [listConversations_call f], hq_enabled = (True)\<rparr>"

definition conversationQuery :: "string option \<Rightarrow> hook_query" where
  "conversationQuery conversationId = \<lparr>hq_key = qk_conversations_detail (case conversationId of Some i \<Rightarrow> i | None \<Rightarrow> []),
     hq_calls = (case conversationId of Some i \<Rightarrow> [getConversation_call i] | None \<Rightarrow> []), hq_enabled = (nonempty_opt conversationId \<noteq> None)\<rparr>"

definition dashboardQuery :: "dashboard_filters \<Rightarrow> hook_query" where
  "dashboardQuery f = \<lparr>hq_key = qk_dashboard_snapshot (dashboard_filter_object f),
     hq_calls = map (\<lambda>p. get_call (dashboardUrl p f)) [ep_dashboard_summary, ep_dashboard_activity, ep_dashboard_findings, ep_dashboard_tasks], hq_enabled = (True)\<rparr>"

definition profileQuery :: hook_query where
  "profileQuery = \<lparr>hq_key = qk_auth_currentUser,
     hq_calls = [fetchProfile], hq_enabled = (True)\<rparr>"

definition taskIndicatorQuery :: hook_query where
  "taskIndicatorQuery = \<lparr>hq_key = qk_tasks_list [(''active'', QBool True)],
     hq_calls = [get_call (ep_tasks_list @ ''?limit=20&offset=0'')], hq_enabled = (True)\<rparr>"

text \<open>
  The queries written out in components without filters: the members the role is looked up in
  (use-org-role.ts), the organizations of the switcher, and the policy packs offered by the form
  of a generator and by the review, which asks only while the policies are included.
\<close>

definition roleQuery :: "string option \<Rightarrow> string option \<Rightarrow> hook_query" where
  "roleQuery organizationId userId = \<lparr>hq_key = qk_members_list (case organizationId of Some i \<Rightarrow> i | None \<Rightarrow> ''none'') [],
     hq_calls = (case organizationId of Some i \<Rightarrow> [get_call (ep_organizations_members i)] | None \<Rightarrow> []),
     hq_enabled = role_query_enabled organizationId userId\<rparr>"

definition switcherQuery :: hook_query where
  "switcherQuery = \<lparr>hq_key = qk_organizations_list [], hq_calls = [get_call ep_organizations_list], hq_enabled = True\<rparr>"

definition savePacksQuery :: "string option \<Rightarrow> hook_query" where
  "savePacksQuery organizationId = \<lparr>hq_key = qk_policyPacks_list (case organizationId of Some i \<Rightarrow> i | None \<Rightarrow> ''none'') [],
     hq_calls = (case organizationId of Some i \<Rightarrow> [get_call (ep_policies_packs i @ ''?limit=100&offset=0'')] | None \<Rightarrow> []),
     hq_enabled = (nonempty_opt organizationId \<noteq> None)\<rparr>"

definition reviewPacksQuery :: "string option \<Rightarrow> bool \<Rightarrow> hook_query" where
  "reviewPacksQuery organizationId includePolicies =
     \<lparr>hq_key = qk_policyPacks_list (case organizationId of Some i \<Rightarrow> i | None \<Rightarrow> ''none'') [],
      hq_calls = (case organizationId of Some i \<Rightarrow> [get_call (ep_policies_packs i @ ''?limit=100&offset=0'')] | None \<Rightarrow> []),
      hq_enabled = (nonempty_opt organizationId \<noteq> None \<and> includePolicies)\<rparr>"

section \<open>Mutations\<close>

definition useCreateArtifact :: "json \<Rightarrow> hook_mutation" where
  "useCreateArtifact body = \<lparr>hm_call = createArtifact body,
     hm_invalidates = [qk_artifacts_all]\<rparr>"

definition useUpdateArtifact :: "string \<Rightarrow> json \<Rightarrow> hook_mutation" where
  "useUpdateArtifact artifactId body = \<lparr>hm_call = updateArtifact artifactId body,
     hm_invalidates = [qk_artifacts_all, qk_artifacts_detail artifactId]\<rparr>"

definition useDeleteArtifact :: "string \<Rightarrow> hook_mutation" where
  "useDeleteArtifact artifactId = \<lparr>hm_call = deleteArtifact artifactId,
     hm_invalidates = [qk_artifacts_all]\<rparr>"

definition useCreateVersion :: "string \<Rightarrow> json \<Rightarrow> hook_mutation" where
  "useCreateVersion artifactId body = \<lparr>hm_call = createVersion artifactId body,
     hm_invalidates = [qk_artifacts_detail artifactId, qk_versions_all artifactId]\<rparr>"

definition useRestoreVersion :: "string \<Rightarrow> int \<Rightarrow> hook_mutation" where
  "useRestoreVersion artifactId versionNumber = \<lparr>hm_call = restoreVersion artifactId versionNumber,
     hm_invalidates = [qk_artifacts_detail artifactId, qk_versions_all artifactId]\<rparr>"

definition useCreateTag :: "filters \<Rightarrow> json \<Rightarrow> hook_mutation" where
  "useCreateTag params body = \<lparr>hm_call = createTag body params,
     hm_invalidates = [qk_artifacts_tags params]\<rparr>"

definition useAddArtifactTag :: "string \<Rightarrow> json \<Rightarrow> hook_mutation" where
  "useAddArtifactTag artifactId body = \<lparr>hm_call = addArtifactTag artifactId body,
     hm_invalidates = [qk_artifacts_all, qk_artifacts_detail artifactId]\<rparr>"

definition useRemoveArtifactTag :: "string \<Rightarrow> string \<Rightarrow> hook_mutation" where
  "useRemoveArtifactTag artifactId tagId = \<lparr>hm_call = removeArtifactTag artifactId tagId,
     hm_invalidates = [qk_artifacts_all, qk_artifacts_detail artifactId]\<rparr>"

definition useFavoriteArtifact :: "string \<Rightarrow> bool \<Rightarrow> hook_mutation" where
  "useFavoriteArtifact artifactId favorited = \<lparr>hm_call = (if favorited then unfavoriteArtifact artifactId else favoriteArtifact artifactId),
     hm_invalidates = [qk_artifacts_all, qk_artifacts_detail artifactId]\<rparr>"

definition useArchiveArtifact :: "string \<Rightarrow> bool \<Rightarrow> hook_mutation" where
  "useArchiveArtifact artifactId archived = \<lparr>hm_call = (if archived then unarchiveArtifact artifactId else archiveArtifact artifactId),
     hm_invalidates = [qk_artifacts_all, qk_artifacts_detail artifactId]\<rparr>"

definition useCreateOrganization :: "json \<Rightarrow> hook_mutation" where
  "useCreateOrganization body = \<lparr>hm_call = createOrganization body,
     hm_invalidates = [qk_organizations_all]\<rparr>"

definition useUpdateOrganization :: "string \<Rightarrow> json \<Rightarrow> hook_mutation" where
  "useUpdateOrganization organizationId body = \<lparr>hm_call = updateOrganization organizationId body,
     hm_invalidates = [qk_organizations_all, qk_organizations_detail organizationId]\<rparr>"

definition useDeleteOrganization :: "string \<Rightarrow> hook_mutation" where
  "useDeleteOrganization organizationId = \<lparr>hm_call = deleteOrganization organizationId,
     hm_invalidates = [qk_organizations_all]\<rparr>"

definition useAddMember :: "string \<Rightarrow> json \<Rightarrow> hook_mutation" where
  "useAddMember organizationId body = \<lparr>hm_call = addMember organizationId body,
     hm_invalidates = [qk_members_all organizationId]\<rparr>"

definition useUpdateMember :: "string \<Rightarrow> string \<Rightarrow> json \<Rightarrow> hook_mutation" where
  "useUpdateMember organizationId userId body = \<lparr>hm_call = updateMember organizationId userId body,
     hm_invalidates = [qk_members_all organizationId]\<rparr>"

definition useRemoveMember :: "string \<Rightarrow> string \<Rightarrow> hook_mutation" where
  "useRemoveMember organizationId userId = \<lparr>hm_call = removeMember organizationId userId,
     hm_invalidates = [qk_members_all organizationId]\<rparr>"

definition useCreateInvitation :: "string \<Rightarrow> json \<Rightarrow> hook_mutation" where
  "useCreateInvitation organizationId body = \<lparr>hm_call = createInvitation organizationId body,
     hm_invalidates = [qk_invitations_all organizationId]\<rparr>"

definition useResendInvitation :: "string \<Rightarrow> string \<Rightarrow> hook_mutation" where
  "useResendInvitation organizationId invitationId = \<lparr>hm_call = resendInvitation organizationId invitationId,
     hm_invalidates = [qk_invitations_all organizationId]\<rparr>"

definition useRevokeInvitation :: "string \<Rightarrow> string \<Rightarrow> hook_mutation" where
  "useRevokeInvitation organizationId invitationId = \<lparr>hm_call = revokeInvitation organizationId invitationId,
     hm_invalidates = [qk_invitations_all organizationId]\<rparr>"

definition useCreatePolicyPack :: "string \<Rightarrow> json \<Rightarrow> hook_mutation" where
  "useCreatePolicyPack organizationId body = \<lparr>hm_call = createPolicyPack organizationId body,
     hm_invalidates = [qk_policyPacks_all organizationId]\<rparr>"

definition useUpdatePolicyPack :: "string \<Rightarrow> string \<Rightarrow> json \<Rightarrow> hook_mutation" where
  "useUpdatePolicyPack organizationId policyPackId body = \<lparr>hm_call = updatePolicyPack organizationId policyPackId body,
     hm_invalidates = [qk_policyPacks_all organizationId, qk_policyPacks_detail organizationId policyPackId]\<rparr>"

definition useDeletePolicyPack :: "string \<Rightarrow> string \<Rightarrow> hook_mutation" where
  "useDeletePolicyPack organizationId policyPackId = \<lparr>hm_call = deletePolicyPack organizationId policyPackId,
     hm_invalidates = [qk_policyPacks_all organizationId]\<rparr>"

definition useCreatePolicyRule :: "string \<Rightarrow> string \<Rightarrow> json \<Rightarrow> hook_mutation" where
  "useCreatePolicyRule organizationId policyPackId body = \<lparr>hm_call = createPolicyRule organizationId policyPackId body,
     hm_invalidates = [qk_policyPacks_detail organizationId policyPackId]\<rparr>"

definition useUpdatePolicyRule :: "string \<Rightarrow> string \<Rightarrow> string \<Rightarrow> json \<Rightarrow> hook_mutation" where
  "useUpdatePolicyRule organizationId policyPackId ruleId body = \<lparr>hm_call = updatePolicyRule organizationId policyPackId ruleId body,
     hm_invalidates = [qk_policyPacks_detail organizationId policyPackId]\<rparr>"

definition useDeletePolicyRule :: "string \<Rightarrow> string \<Rightarrow> string \<Rightarrow> hook_mutation" where
  "useDeletePolicyRule organizationId policyPackId ruleId = \<lparr>hm_call = deletePolicyRule organizationId policyPackId ruleId,
     hm_invalidates = [qk_policyPacks_detail organizationId policyPackId]\<rparr>"

definition useCancelTask :: "string \<Rightarrow> hook_mutation" where
  "useCancelTask taskId = \<lparr>hm_call = cancelTask taskId,
     hm_invalidates = [qk_tasks_all]\<rparr>"

definition usePatchOrganizationQuotas :: "string \<Rightarrow> json \<Rightarrow> hook_mutation" where
  "usePatchOrganizationQuotas organizationId body = \<lparr>hm_call = patchOrganizationQuotas organizationId body,
     hm_invalidates = [qk_usage_org organizationId, qk_usage_quotas organizationId]\<rparr>"

definition usePatchAdminProviderConfig :: "string \<Rightarrow> json \<Rightarrow> hook_mutation" where
  "usePatchAdminProviderConfig providerName body = \<lparr>hm_call = patchAdminProviderConfig providerName body,
     hm_invalidates = [qk_providers_adminConfigs, qk_providers_adminHealth]\<rparr>"

definition usePatchAdminProviderRouting :: "string \<Rightarrow> json \<Rightarrow> hook_mutation" where
  "usePatchAdminProviderRouting operation body = \<lparr>hm_call = patchAdminProviderRouting operation body,
     hm_invalidates = [qk_providers_adminRouting]\<rparr>"

definition usePatchOrgProviderConfig :: "string \<Rightarrow> string \<Rightarrow> json \<Rightarrow> hook_mutation" where
  "usePatchOrgProviderConfig organizationId providerName body = \<lparr>hm_call = patchOrgProviderConfig organizationId providerName body,
     hm_invalidates = [qk_providers_orgConfigs organizationId]\<rparr>"

definition usePatchOrgProviderRouting :: "string \<Rightarrow> string \<Rightarrow> json \<Rightarrow> hook_mutation" where
  "usePatchOrgProviderRouting organizationId operation body = \<lparr>hm_call = patchOrgProviderRouting organizationId operation body,
     hm_invalidates = [qk_providers_orgRouting organizationId]\<rparr>"

definition useAnalyzeLogsMutation :: "log_request \<Rightarrow> hook_mutation" where
  "useAnalyzeLogsMutation r = \<lparr>hm_call = analyzeLogs r,
     hm_invalidates = []\<rparr>"

definition useAnalyzeLogsUploadMutation :: "string \<Rightarrow> string \<Rightarrow> hook_mutation" where
  "useAnalyzeLogsUploadMutation file provider = \<lparr>hm_call = analyzeLogsUpload file provider,
     hm_invalidates = []\<rparr>"

definition useAnalyzeLogsAsyncMutation :: "log_request \<Rightarrow> string option \<Rightarrow> hook_mutation" where
  "useAnalyzeLogsAsyncMutation r idempotencyKey = \<lparr>hm_call = analyzeLogsAsync r idempotencyKey,
     hm_invalidates = []\<rparr>"

definition useGenerateDockerfile :: "json \<Rightarrow> hook_mutation" where
  "useGenerateDockerfile body = \<lparr>hm_call = generateDockerfile body,
     hm_invalidates = []\<rparr>"

definition useGenerateKubernetes :: "json \<Rightarrow> hook_mutation" where
  "useGenerateKubernetes body = \<lparr>hm_call = generateKubernetes body,
     hm_invalidates = []\<rparr>"

definition useGeneratePipeline :: "json \<Rightarrow> hook_mutation" where
  "useGeneratePipeline body = \<lparr>hm_call = generatePipeline body,
     hm_invalidates = []\<rparr>"

definition useGenerateCommand :: "json \<Rightarrow> hook_mutation" where
  "useGenerateCommand body = \<lparr>hm_call = generateCommand body,
     hm_invalidates = []\<rparr>"

definition useReviewConfiguration :: "json \<Rightarrow> hook_mutation" where
  "useReviewConfiguration body = \<lparr>hm_call = reviewConfiguration body,
     hm_invalidates = []\<rparr>"

definition deleteMutation :: "string \<Rightarrow> hook_mutation" where
  "deleteMutation conversationId = \<lparr>hm_call = deleteConversation conversationId,
     hm_invalidates = [qk_conversations_all]\<rparr>"

definition updateMutation :: "json \<Rightarrow> hook_mutation" where
  "updateMutation body = \<lparr>hm_call = updateProfile body,
     hm_invalidates = [qk_auth_currentUser]\<rparr>"

section \<open>All queries and all mutations\<close>

datatype (plugins only: code) feature_query =
    Q_Artifacts filters
  | Q_Artifact string
  | Q_ArtifactTags filters
  | Q_ArtifactVersions string filters
  | Q_ArtifactVersion string "int option"
  | Q_ArtifactDiff string "int option" "int option"
  | Q_Organizations filters
  | Q_Organization string
  | Q_Members string filters
  | Q_Invitations string filters
  | Q_PolicyPacks string filters
  | Q_PolicyPack string string
  | Q_Tasks filters
  | Q_Task string
  | Q_LogAnalysisTask "string option"
  | Q_AuditEvents string filters
  | Q_Onboarding
  | Q_MyUsage
  | Q_OrganizationUsage "string option"
  | Q_OrganizationQuotas "string option"
  | Q_AdminProviderConfigs
  | Q_AdminProviderRouting
  | Q_AdminProviderHealth
  | Q_OrgProviderConfigs string
  | Q_OrgProviderRouting string
  | Q_ConversationsQuery filters
  | Q_ConversationQuery "string option"
  | Q_DashboardQuery dashboard_filters
  | Q_ProfileQuery
  | Q_TaskIndicatorQuery
  | Q_RoleQuery "string option" "string option"
  | Q_SwitcherQuery
  | Q_SavePacksQuery "string option"
  | Q_ReviewPacksQuery "string option" bool

definition hook_of :: "feature_query \<Rightarrow> hook_query" where
  "hook_of x =
     (case x of
        Q_Artifacts params \<Rightarrow> useArtifacts params
      | Q_Artifact artifactId \<Rightarrow> useArtifact artifactId
      | Q_ArtifactTags params \<Rightarrow> useArtifactTags params
      | Q_ArtifactVersions artifactId params \<Rightarrow> useArtifactVersions artifactId params
      | Q_ArtifactVersion artifactId versionNumber \<Rightarrow> useArtifactVersion artifactId versionNumber
      | Q_ArtifactDiff artifactId fromVersion toVersion \<Rightarrow> useArtifactDiff artifactId fromVersion toVersion
      | Q_Organizations params \<Rightarrow> useOrganizations params
      | Q_Organization organizationId \<Rightarrow> useOrganization organizationId
      | Q_Members organizationId params \<Rightarrow> useMembers organizationId params
      | Q_Invitations organizationId params \<Rightarrow> useInvitations organizationId params
      | Q_PolicyPacks organizationId params \<Rightarrow> usePolicyPacks organizationId params
      | Q_PolicyPack organizationId policyPackId \<Rightarrow> usePolicyPack organizationId policyPackId
      | Q_Tasks params \<Rightarrow> useTasks params
      | Q_Task taskId \<Rightarrow> useTask taskId
      | Q_LogAnalysisTask taskId \<Rightarrow> useLogAnalysisTask taskId
      | Q_AuditEvents organizationId params \<Rightarrow> useAuditEvents organizationId params
      | Q_Onboarding \<Rightarrow> useOnboarding
      | Q_MyUsage \<Rightarrow> useMyUsage
      | Q_OrganizationUsage organizationId \<Rightarrow> useOrganizationUsage organizationId
      | Q_OrganizationQuotas organizationId \<Rightarrow> useOrganizationQuotas organizationId
      | Q_AdminProviderConfigs \<Rightarrow> useAdminProviderConfigs
      | Q_AdminProviderRouting \<Rightarrow> useAdminProviderRouting
      | Q_AdminProviderHealth \<Rightarrow> useAdminProviderHealth
      | Q_OrgProviderConfigs organizationId \<Rightarrow> useOrgProviderConfigs organizationId
      | Q_OrgProviderRouting organizationId \<Rightarrow> useOrgProviderRouting organizationId
      | Q_ConversationsQuery f \<Rightarrow> conversationsQuery f
      | Q_ConversationQuery conversationId \<Rightarrow> conversationQuery conversationId
      | Q_DashboardQuery f \<Rightarrow> dashboardQuery f
      | Q_ProfileQuery \<Rightarrow> profileQuery
      | Q_TaskIndicatorQuery \<Rightarrow> taskIndicatorQuery
      | Q_RoleQuery organizationId userId \<Rightarrow> roleQuery organizationId userId
      | Q_SwitcherQuery \<Rightarrow> switcherQuery
      | Q_SavePacksQuery organizationId \<Rightarrow> savePacksQuery organizationId
      | Q_ReviewPacksQuery organizationId includePolicies \<Rightarrow> reviewPacksQuery organizationId includePolicies)"

datatype (plugins only: code) feature_mutation =
    M_CreateArtifact json
  | M_UpdateArtifact string json
  | M_DeleteArtifact string
  | M_CreateVersion string json
  | M_RestoreVersion string int
  | M_CreateTag filters json
  | M_AddArtifactTag string json
  | M_RemoveArtifactTag string string
  | M_FavoriteArtifact string bool
  | M_ArchiveArtifact string bool
  | M_CreateOrganization json
  | M_UpdateOrganization string json
  | M_DeleteOrganization string
  | M_AddMember string json
  | M_UpdateMember string string json
  | M_RemoveMember string string
  | M_CreateInvitation string json
  | M_ResendInvitation string string
  | M_RevokeInvitation string string
  | M_CreatePolicyPack string json
  | M_UpdatePolicyPack string string json
  | M_DeletePolicyPack string string
  | M_CreatePolicyRule string string json
  | M_UpdatePolicyRule string string string json
  | M_DeletePolicyRule string string string
  | M_CancelTask string
  | M_PatchOrganizationQuotas string json
  | M_PatchAdminProviderConfig string json
  | M_PatchAdminProviderRouting string json
  | M_PatchOrgProviderConfig string string json
  | M_PatchOrgProviderRouting string string json
  | M_AnalyzeLogsMutation log_request
  | M_AnalyzeLogsUploadMutation string string
  | M_AnalyzeLogsAsyncMutation log_request "string option"
  | M_GenerateDockerfile json
  | M_GenerateKubernetes json
  | M_GeneratePipeline json
  | M_GenerateCommand json
  | M_ReviewConfiguration json
  | M_DeleteMutation string
  | M_UpdateMutation json

definition mutation_of :: "feature_mutation \<Rightarrow> hook_mutation" where
  "mutation_of x =
     (case x of
        M_CreateArtifact body \<Rightarrow> useCreateArtifact body
      | M_UpdateArtifact artifactId body \<Rightarrow> useUpdateArtifact artifactId body
      | M_DeleteArtifact artifactId \<Rightarrow> useDeleteArtifact artifactId
      | M_CreateVersion artifactId body \<Rightarrow> useCreateVersion artifactId body
      | M_RestoreVersion artifactId versionNumber \<Rightarrow> useRestoreVersion artifactId versionNumber
      | M_CreateTag params body \<Rightarrow> useCreateTag params body
      | M_AddArtifactTag artifactId body \<Rightarrow> useAddArtifactTag artifactId body
      | M_RemoveArtifactTag artifactId tagId \<Rightarrow> useRemoveArtifactTag artifactId tagId
      | M_FavoriteArtifact artifactId favorited \<Rightarrow> useFavoriteArtifact artifactId favorited
      | M_ArchiveArtifact artifactId archived \<Rightarrow> useArchiveArtifact artifactId archived
      | M_CreateOrganization body \<Rightarrow> useCreateOrganization body
      | M_UpdateOrganization organizationId body \<Rightarrow> useUpdateOrganization organizationId body
      | M_DeleteOrganization organizationId \<Rightarrow> useDeleteOrganization organizationId
      | M_AddMember organizationId body \<Rightarrow> useAddMember organizationId body
      | M_UpdateMember organizationId userId body \<Rightarrow> useUpdateMember organizationId userId body
      | M_RemoveMember organizationId userId \<Rightarrow> useRemoveMember organizationId userId
      | M_CreateInvitation organizationId body \<Rightarrow> useCreateInvitation organizationId body
      | M_ResendInvitation organizationId invitationId \<Rightarrow> useResendInvitation organizationId invitationId
      | M_RevokeInvitation organizationId invitationId \<Rightarrow> useRevokeInvitation organizationId invitationId
      | M_CreatePolicyPack organizationId body \<Rightarrow> useCreatePolicyPack organizationId body
      | M_UpdatePolicyPack organizationId policyPackId body \<Rightarrow> useUpdatePolicyPack organizationId policyPackId body
      | M_DeletePolicyPack organizationId policyPackId \<Rightarrow> useDeletePolicyPack organizationId policyPackId
      | M_CreatePolicyRule organizationId policyPackId body \<Rightarrow> useCreatePolicyRule organizationId policyPackId body
      | M_UpdatePolicyRule organizationId policyPackId ruleId body \<Rightarrow> useUpdatePolicyRule organizationId policyPackId ruleId body
      | M_DeletePolicyRule organizationId policyPackId ruleId \<Rightarrow> useDeletePolicyRule organizationId policyPackId ruleId
      | M_CancelTask taskId \<Rightarrow> useCancelTask taskId
      | M_PatchOrganizationQuotas organizationId body \<Rightarrow> usePatchOrganizationQuotas organizationId body
      | M_PatchAdminProviderConfig providerName body \<Rightarrow> usePatchAdminProviderConfig providerName body
      | M_PatchAdminProviderRouting operation body \<Rightarrow> usePatchAdminProviderRouting operation body
      | M_PatchOrgProviderConfig organizationId providerName body \<Rightarrow> usePatchOrgProviderConfig organizationId providerName body
      | M_PatchOrgProviderRouting organizationId operation body \<Rightarrow> usePatchOrgProviderRouting organizationId operation body
      | M_AnalyzeLogsMutation r \<Rightarrow> useAnalyzeLogsMutation r
      | M_AnalyzeLogsUploadMutation file provider \<Rightarrow> useAnalyzeLogsUploadMutation file provider
      | M_AnalyzeLogsAsyncMutation r idempotencyKey \<Rightarrow> useAnalyzeLogsAsyncMutation r idempotencyKey
      | M_GenerateDockerfile body \<Rightarrow> useGenerateDockerfile body
      | M_GenerateKubernetes body \<Rightarrow> useGenerateKubernetes body
      | M_GeneratePipeline body \<Rightarrow> useGeneratePipeline body
      | M_GenerateCommand body \<Rightarrow> useGenerateCommand body
      | M_ReviewConfiguration body \<Rightarrow> useReviewConfiguration body
      | M_DeleteMutation conversationId \<Rightarrow> deleteMutation conversationId
      | M_UpdateMutation body \<Rightarrow> updateMutation body)"

lemmas query_defs =   useArtifacts_def useArtifact_def useArtifactTags_def useArtifactVersions_def
  useArtifactVersion_def useArtifactDiff_def useOrganizations_def useOrganization_def useMembers_def
  useInvitations_def usePolicyPacks_def usePolicyPack_def useTasks_def useTask_def
  useLogAnalysisTask_def useAuditEvents_def useOnboarding_def useMyUsage_def
  useOrganizationUsage_def useOrganizationQuotas_def useAdminProviderConfigs_def
  useAdminProviderRouting_def useAdminProviderHealth_def useOrgProviderConfigs_def
  useOrgProviderRouting_def conversationsQuery_def conversationQuery_def dashboardQuery_def
  profileQuery_def taskIndicatorQuery_def roleQuery_def switcherQuery_def savePacksQuery_def reviewPacksQuery_def

lemmas mutation_defs =   useCreateArtifact_def useUpdateArtifact_def useDeleteArtifact_def
  useCreateVersion_def useRestoreVersion_def useCreateTag_def useAddArtifactTag_def
  useRemoveArtifactTag_def useFavoriteArtifact_def useArchiveArtifact_def useCreateOrganization_def
  useUpdateOrganization_def useDeleteOrganization_def useAddMember_def useUpdateMember_def
  useRemoveMember_def useCreateInvitation_def useResendInvitation_def useRevokeInvitation_def
  useCreatePolicyPack_def useUpdatePolicyPack_def useDeletePolicyPack_def useCreatePolicyRule_def
  useUpdatePolicyRule_def useDeletePolicyRule_def useCancelTask_def usePatchOrganizationQuotas_def
  usePatchAdminProviderConfig_def usePatchAdminProviderRouting_def usePatchOrgProviderConfig_def
  usePatchOrgProviderRouting_def useAnalyzeLogsMutation_def useAnalyzeLogsUploadMutation_def
  useAnalyzeLogsAsyncMutation_def useGenerateDockerfile_def useGenerateKubernetes_def
  useGeneratePipeline_def useGenerateCommand_def useReviewConfiguration_def deleteMutation_def
  updateMutation_def

end
