(* ===== verification/Cache_Rules.thy ===== *)
theory Cache_Rules
  imports Feature_Hooks
begin

text \<open>
  What the keys of the hooks guarantee: data cached under a key is the answer to one request,
  mutations refresh the views of what they changed and nothing of another organization, the
  optimistic update of the onboarding state rolls back, and switching the organization
  removes the data of the previous one.
\<close>

section \<open>A key determines the requests\<close>

lemma call_request_timeout [simp]: "call_request env (with_timeout ms c) = call_request env c"
  by (simp add: call_request_def with_timeout_def apiFetch_request_def cong: option.case_cong)

lemma same_filters_param: "same_filters f g \<Longrightarrow> param f = param g"
  by (simp add: same_filters_iff)

lemma same_filters_calls:
  assumes "same_filters f g"
  shows "listArtifacts f = listArtifacts g" "listTags f = listTags g"
    "listVersions i f = listVersions i g" "listOrganizations f = listOrganizations g"
    "listMembers i f = listMembers i g" "listInvitations i f = listInvitations i g"
    "listPolicyPacks i f = listPolicyPacks i g" "listTasks f = listTasks g"
    "listAuditEvents i f = listAuditEvents i g" "listConversations_call f = listConversations_call g"
  using same_filters_param [OF assms]
  by (simp_all add: listArtifacts_def listTags_def tag_params_def listVersions_def page_params_def
      listOrganizations_def listMembers_def listInvitations_def listPolicyPacks_def listTasks_def
      listAuditEvents_def listConversations_call_def)

lemma dashboard_filter_object_inj:
  "same_filters (dashboard_filter_object f) (dashboard_filter_object g) \<Longrightarrow> f = g"
proof -
  assume "same_filters (dashboard_filter_object f) (dashboard_filter_object g)"
  then have p: "param (dashboard_filter_object f) k = param (dashboard_filter_object g) k" for k
    by (simp add: same_filters_iff)
  show ?thesis
    using p [of "''organization_id''"] p [of "''time_range''"]
    by (auto simp: dashboard_filter_object_def param_def split: option.splits
        intro!: dashboard_filters.equality)
qed

lemma num_part_simps [simp]:
  "num_part (Some n) = KNum n" "num_part None = KNull"
  by (simp_all add: num_part_def)

lemma key_same_simps [simp]:
  "key_same [] [] = True" "key_same (p # k) (q # k') = (part_same p q \<and> key_same k k')"
  "key_same [] (q # k') = False" "key_same (p # k) [] = False"
  by (simp_all add: key_same_def)

definition query_requests :: "env \<Rightarrow> hook_query \<Rightarrow> http_request list" where
  "query_requests env q = map (call_request env) (hq_calls q)"

lemma indicator_call:
  "listTasks [(''active'', QBool True)] = get_call (ep_tasks_list @ ''?limit=20&offset=0'')"
proof -
  have "buildQueryString [(''status'', QUndef), (''task_type'', QUndef), (''organization_id'', QUndef),
      (''limit'', QInt 20), (''offset'', QInt 0)] = ''?limit=20&offset=0''" by code_simp
  then show ?thesis by (simp add: listTasks_def param_def nullish_or_def)
qed

lemma indicator_same:
  "same_filters f [(''active'', QBool True)] \<Longrightarrow> listTasks f = get_call (ep_tasks_list @ ''?limit=20&offset=0'')"
  "same_filters [(''active'', QBool True)] f \<Longrightarrow> listTasks f = get_call (ep_tasks_list @ ''?limit=20&offset=0'')"
  using same_filters_calls(8) [of f "[(''active'', QBool True)]"]
    same_filters_calls(8) [of "[(''active'', QBool True)]" f] by (simp_all add: indicator_call)

text \<open>
  The three lists that components also load without filters are asked for with a limit wherever
  the application calls their hooks (members-page.tsx, organizations-page.tsx, log-analyzer.tsx,
  policy-packs-page.tsx).
\<close>

definition paged :: "feature_query \<Rightarrow> bool" where
  "paged q = (case q of Q_Members _ f \<Rightarrow> param f ''limit'' \<noteq> QUndef | Q_Organizations f \<Rightarrow> param f ''limit'' \<noteq> QUndef
     | Q_PolicyPacks _ f \<Rightarrow> param f ''limit'' \<noteq> QUndef | _ \<Rightarrow> True)"

lemma same_filters_nil:
  "same_filters f [] \<Longrightarrow> param f k = QUndef" "same_filters [] f \<Longrightarrow> param f k = QUndef"
  by (auto simp: same_filters_iff param_absent dest: fun_cong [of _ _ k])


text \<open>The proviso is needed: each of the three lists without filters has the key of another query.\<close>

lemma unpaged_lists_collide:
  "key_same (hq_key (roleQuery (Some ''o1'') (Some ''u1''))) (hq_key (useMembers ''o1'' []))
   \<and> hq_calls (useMembers ''o1'' []) \<noteq> hq_calls (roleQuery (Some ''o1'') (Some ''u1''))
   \<and> key_same (hq_key switcherQuery) (hq_key (useOrganizations []))
   \<and> hq_calls (useOrganizations []) \<noteq> hq_calls switcherQuery
   \<and> key_same (hq_key (savePacksQuery (Some ''o1''))) (hq_key (usePolicyPacks ''o1'' []))
   \<and> hq_calls (usePolicyPacks ''o1'' []) \<noteq> hq_calls (savePacksQuery (Some ''o1''))"
  by (intro conjI; code_simp)

section \<open>What a mutation refreshes\<close>

definition mutation_done :: "'c cache_ops \<Rightarrow> hook_mutation \<Rightarrow> 'c \<Rightarrow> 'c" where
  "mutation_done ops m c = fold (qc_invalidate ops) (hm_invalidates m) c"

text \<open>The queries below each of the keys that mutations invalidate.\<close>

definition artifact_view :: "feature_query \<Rightarrow> bool" where
  "artifact_view q = (case q of Q_Artifacts _ \<Rightarrow> True | Q_Artifact _ \<Rightarrow> True | Q_ArtifactTags _ \<Rightarrow> True | _ \<Rightarrow> False)"

definition artifact_item :: "string \<Rightarrow> feature_query \<Rightarrow> bool" where
  "artifact_item i q = (q = Q_Artifact i)"

definition version_view :: "string \<Rightarrow> feature_query \<Rightarrow> bool" where
  "version_view i q = (case q of Q_ArtifactVersions j _ \<Rightarrow> j = i | Q_ArtifactVersion j _ \<Rightarrow> j = i
     | Q_ArtifactDiff j _ _ \<Rightarrow> j = i | _ \<Rightarrow> False)"

definition organization_view :: "feature_query \<Rightarrow> bool" where
  "organization_view q = (case q of Q_Organizations _ \<Rightarrow> True | Q_SwitcherQuery \<Rightarrow> True | Q_Organization _ \<Rightarrow> True | _ \<Rightarrow> False)"

definition member_view :: "string \<Rightarrow> feature_query \<Rightarrow> bool" where
  "member_view i q = (case q of Q_Members j _ \<Rightarrow> j = i | Q_RoleQuery j _ \<Rightarrow> j = Some i | _ \<Rightarrow> False)"

definition invitation_view :: "string \<Rightarrow> feature_query \<Rightarrow> bool" where
  "invitation_view i q = (case q of Q_Invitations j _ \<Rightarrow> j = i | _ \<Rightarrow> False)"

definition policy_view :: "string \<Rightarrow> feature_query \<Rightarrow> bool" where
  "policy_view i q = (case q of Q_PolicyPacks j _ \<Rightarrow> j = i | Q_PolicyPack j _ \<Rightarrow> j = i
     | Q_SavePacksQuery j \<Rightarrow> j = Some i | Q_ReviewPacksQuery j _ \<Rightarrow> j = Some i | _ \<Rightarrow> False)"

definition policy_item :: "string \<Rightarrow> string \<Rightarrow> feature_query \<Rightarrow> bool" where
  "policy_item i p q = (q = Q_PolicyPack i p)"

definition task_view :: "feature_query \<Rightarrow> bool" where
  "task_view q = (case q of Q_Tasks _ \<Rightarrow> True | Q_Task _ \<Rightarrow> True | Q_LogAnalysisTask _ \<Rightarrow> True | Q_TaskIndicatorQuery \<Rightarrow> True | _ \<Rightarrow> False)"

definition usage_view :: "string \<Rightarrow> feature_query \<Rightarrow> bool" where
  "usage_view i q = (q = Q_OrganizationUsage (Some i) \<or> q = Q_OrganizationQuotas (Some i))"

definition conversation_view :: "feature_query \<Rightarrow> bool" where
  "conversation_view q = (case q of Q_ConversationsQuery _ \<Rightarrow> True | Q_ConversationQuery _ \<Rightarrow> True | _ \<Rightarrow> False)"

definition refreshed :: "feature_mutation \<Rightarrow> feature_query \<Rightarrow> bool" where
  "refreshed m q = (case m of
     M_CreateArtifact _ \<Rightarrow> artifact_view q | M_UpdateArtifact _ _ \<Rightarrow> artifact_view q
   | M_DeleteArtifact _ \<Rightarrow> artifact_view q | M_AddArtifactTag _ _ \<Rightarrow> artifact_view q
   | M_RemoveArtifactTag _ _ \<Rightarrow> artifact_view q | M_FavoriteArtifact _ _ \<Rightarrow> artifact_view q
   | M_ArchiveArtifact _ _ \<Rightarrow> artifact_view q
   | M_CreateVersion i _ \<Rightarrow> artifact_item i q \<or> version_view i q
   | M_RestoreVersion i _ \<Rightarrow> artifact_item i q \<or> version_view i q
   | M_CreateOrganization _ \<Rightarrow> organization_view q | M_UpdateOrganization _ _ \<Rightarrow> organization_view q
   | M_DeleteOrganization _ \<Rightarrow> organization_view q
   | M_AddMember i _ \<Rightarrow> member_view i q | M_UpdateMember i _ _ \<Rightarrow> member_view i q
   | M_RemoveMember i _ \<Rightarrow> member_view i q
   | M_CreateInvitation i _ \<Rightarrow> invitation_view i q | M_ResendInvitation i _ \<Rightarrow> invitation_view i q
   | M_RevokeInvitation i _ \<Rightarrow> invitation_view i q
   | M_CreatePolicyPack i _ \<Rightarrow> policy_view i q | M_UpdatePolicyPack i _ _ \<Rightarrow> policy_view i q
   | M_DeletePolicyPack i _ \<Rightarrow> policy_view i q
   | M_CreatePolicyRule i p _ \<Rightarrow> policy_item i p q | M_UpdatePolicyRule i p _ _ \<Rightarrow> policy_item i p q
   | M_DeletePolicyRule i p _ \<Rightarrow> policy_item i p q
   | M_CancelTask _ \<Rightarrow> task_view q
   | M_PatchOrganizationQuotas i _ \<Rightarrow> usage_view i q
   | M_PatchAdminProviderConfig _ _ \<Rightarrow> q = Q_AdminProviderConfigs \<or> q = Q_AdminProviderHealth
   | M_PatchAdminProviderRouting _ _ \<Rightarrow> q = Q_AdminProviderRouting
   | M_PatchOrgProviderConfig i _ _ \<Rightarrow> q = Q_OrgProviderConfigs i
   | M_PatchOrgProviderRouting i _ _ \<Rightarrow> q = Q_OrgProviderRouting i
   | M_DeleteMutation _ \<Rightarrow> conversation_view q | M_UpdateMutation _ \<Rightarrow> q = Q_ProfileQuery
   | _ \<Rightarrow> False)"

text \<open>Which queries extend each of the invalidated keys.\<close>

lemma key_extends:
  assumes "hq_enabled (hook_of q)"
  shows "(\<exists>r. hq_key (hook_of q) = qk_artifacts_all @ r) = artifact_view q"
    and "(\<exists>r. hq_key (hook_of q) = qk_artifacts_detail i @ r) = artifact_item i q"
    and "(\<exists>r. hq_key (hook_of q) = qk_versions_all i @ r) = version_view i q"
    and "(\<exists>r. hq_key (hook_of q) = qk_organizations_all @ r) = organization_view q"
    and "(\<exists>r. hq_key (hook_of q) = qk_organizations_detail i @ r) = (q = Q_Organization i)"
    and "(\<exists>r. hq_key (hook_of q) = qk_members_all i @ r) = member_view i q"
    and "(\<exists>r. hq_key (hook_of q) = qk_invitations_all i @ r) = invitation_view i q"
    and "(\<exists>r. hq_key (hook_of q) = qk_policyPacks_all i @ r) = policy_view i q"
    and "(\<exists>r. hq_key (hook_of q) = qk_policyPacks_detail i p @ r) = policy_item i p q"
    and "(\<exists>r. hq_key (hook_of q) = qk_tasks_all @ r) = task_view q"
    and "(\<exists>r. hq_key (hook_of q) = qk_usage_org i @ r) = (q = Q_OrganizationUsage (Some i))"
    and "(\<exists>r. hq_key (hook_of q) = qk_usage_quotas i @ r) = (q = Q_OrganizationQuotas (Some i))"
    and "(\<exists>r. hq_key (hook_of q) = qk_providers_adminConfigs @ r) = (q = Q_AdminProviderConfigs)"
    and "(\<exists>r. hq_key (hook_of q) = qk_providers_adminHealth @ r) = (q = Q_AdminProviderHealth)"
    and "(\<exists>r. hq_key (hook_of q) = qk_providers_adminRouting @ r) = (q = Q_AdminProviderRouting)"
    and "(\<exists>r. hq_key (hook_of q) = qk_providers_orgConfigs i @ r) = (q = Q_OrgProviderConfigs i)"
    and "(\<exists>r. hq_key (hook_of q) = qk_providers_orgRouting i @ r) = (q = Q_OrgProviderRouting i)"
    and "(\<exists>r. hq_key (hook_of q) = qk_conversations_all @ r) = conversation_view q"
    and "(\<exists>r. hq_key (hook_of q) = qk_auth_currentUser @ r) = (q = Q_ProfileQuery)"
  using assms
  by (cases q; auto simp: hook_of_def query_defs query_key_defs artifact_view_def artifact_item_def
      version_view_def organization_view_def member_view_def invitation_view_def policy_view_def
      policy_item_def task_view_def conversation_view_def nonempty_opt_def role_query_enabled_def truthy_str_def
      split: option.splits if_splits)+

lemma invalidated_keys_scalar:
  assumes "\<And>ps b. m \<noteq> M_CreateTag ps b" and "k \<in> set (hm_invalidates (mutation_of m))"
  shows "list_all scalar_part k"
  using assms by (cases m) (auto simp: mutation_of_def mutation_defs query_key_defs)

lemma refreshed_iff:
  assumes "hq_enabled (hook_of q)" and "\<And>ps b. m \<noteq> M_CreateTag ps b"
  shows "(\<exists>k\<in>set (hm_invalidates (mutation_of m)). \<exists>r. hq_key (hook_of q) = k @ r) = refreshed m q"
proof (cases m)
  case (M_CreateTag ps b)
  with assms(2) show ?thesis by blast
qed (auto simp: mutation_of_def mutation_defs refreshed_def key_extends [OF assms(1)]
    artifact_view_def artifact_item_def organization_view_def policy_view_def policy_item_def usage_view_def)

lemma mutation_done_effect:
  assumes "query_cache ops" and "hq_enabled (hook_of q)" and "\<forall>ps b. m \<noteq> M_CreateTag ps b"
    and "qc_get ops c (hq_key (hook_of q)) \<noteq> None"
  shows "qc_get ops (mutation_done ops (mutation_of m) c) (hq_key (hook_of q)) = qc_get ops c (hq_key (hook_of q))"
    and "qc_stale ops (mutation_done ops (mutation_of m) c) (hq_key (hook_of q)) =
       (qc_stale ops c (hq_key (hook_of q)) \<or> refreshed m q)"
proof -
  have "(\<exists>k\<in>set (hm_invalidates (mutation_of m)). qc_within ops k (hq_key (hook_of q))) = refreshed m q"
    unfolding refreshed_iff [OF assms(2) assms(3) [rule_format], symmetric]
    by (rule bex_cong [OF refl query_cache.within_iff
          [OF assms(1) invalidated_keys_scalar [OF assms(3) [rule_format]]]])
  then show "qc_stale ops (mutation_done ops (mutation_of m) c) (hq_key (hook_of q)) =
       (qc_stale ops c (hq_key (hook_of q)) \<or> refreshed m q)"
    using query_cache.stale_fold_invalidate [OF assms(1,4)] by (simp add: mutation_done_def)
qed (simp add: mutation_done_def query_cache.get_fold_invalidate [OF assms(1)])

section \<open>What a mutation changes and what a query displays\<close>

text \<open>
  The rows and lists of the backend.  A row is what a list shows of one thing; a list also tells
  which things there are.  A version, once made, never changes, and neither does a comparison.
\<close>

datatype (plugins only: code) resource =
    R_Artifacts | R_Artifact string | R_Tags | R_Versions string
  | R_Organizations | R_Organization string | R_Members string | R_Invitations string
  | R_Packs string | R_Pack string string | R_Rules string string
  | R_Tasks | R_Task string | R_Quota string | R_Usage
  | R_PlatformConfigs | R_PlatformRouting | R_OrgConfigs string | R_OrgRouting string
  | R_Conversations | R_Conversation string | R_Profile | R_Onboarding

text \<open>
  What the answer to a query is made of, by the schemas of the backend: the summary of an artifact
  has its tags, its star and the number of its current version, that of a pack its version number,
  that of a member the name of the user, the state of the providers is computed from their platform
  settings, and the usage of an organization holds its quota.  The dashboard and the audit log are
  left out here: see \<open>summary_query\<close>.
\<close>

definition displays :: "feature_query \<Rightarrow> resource \<Rightarrow> bool" where
  "displays q r = (case q of
     Q_Artifacts _ \<Rightarrow> (case r of R_Artifacts \<Rightarrow> True | R_Artifact _ \<Rightarrow> True | _ \<Rightarrow> False)
   | Q_Artifact i \<Rightarrow> r = R_Artifact i
   | Q_ArtifactTags _ \<Rightarrow> r = R_Tags
   | Q_ArtifactVersions i _ \<Rightarrow> r = R_Versions i
   | Q_Organizations _ \<Rightarrow> (case r of R_Organizations \<Rightarrow> True | R_Organization _ \<Rightarrow> True | _ \<Rightarrow> False)
   | Q_SwitcherQuery \<Rightarrow> (case r of R_Organizations \<Rightarrow> True | R_Organization _ \<Rightarrow> True | _ \<Rightarrow> False)
   | Q_Organization i \<Rightarrow> r = R_Organization i
   | Q_Members i _ \<Rightarrow> r = R_Members i \<or> r = R_Profile
   | Q_RoleQuery i _ \<Rightarrow> (case i of Some j \<Rightarrow> r = R_Members j \<or> r = R_Profile | None \<Rightarrow> False)
   | Q_Invitations i _ \<Rightarrow> r = R_Invitations i
   | Q_PolicyPacks i _ \<Rightarrow> r = R_Packs i \<or> (case r of R_Pack j _ \<Rightarrow> j = i | _ \<Rightarrow> False)
   | Q_SavePacksQuery i \<Rightarrow> (case r of R_Packs j \<Rightarrow> i = Some j | R_Pack j _ \<Rightarrow> i = Some j | _ \<Rightarrow> False)
   | Q_ReviewPacksQuery i _ \<Rightarrow> (case r of R_Packs j \<Rightarrow> i = Some j | R_Pack j _ \<Rightarrow> i = Some j | _ \<Rightarrow> False)
   | Q_PolicyPack i p \<Rightarrow> r = R_Pack i p \<or> r = R_Rules i p
   | Q_Tasks _ \<Rightarrow> (case r of R_Tasks \<Rightarrow> True | R_Task _ \<Rightarrow> True | _ \<Rightarrow> False)
   | Q_TaskIndicatorQuery \<Rightarrow> (case r of R_Tasks \<Rightarrow> True | R_Task _ \<Rightarrow> True | _ \<Rightarrow> False)
   | Q_Task i \<Rightarrow> r = R_Task i
   | Q_LogAnalysisTask i \<Rightarrow> (case i of Some j \<Rightarrow> r = R_Task j | None \<Rightarrow> False)
   | Q_MyUsage \<Rightarrow> r = R_Usage
   | Q_OrganizationUsage i \<Rightarrow> r = R_Usage \<or> (case i of Some j \<Rightarrow> r = R_Quota j | None \<Rightarrow> False)
   | Q_OrganizationQuotas i \<Rightarrow> (case i of Some j \<Rightarrow> r = R_Quota j | None \<Rightarrow> False)
   | Q_AdminProviderConfigs \<Rightarrow> r = R_PlatformConfigs
   | Q_AdminProviderHealth \<Rightarrow> r = R_PlatformConfigs
   | Q_AdminProviderRouting \<Rightarrow> r = R_PlatformRouting
   | Q_OrgProviderConfigs i \<Rightarrow> r = R_OrgConfigs i
   | Q_OrgProviderRouting i \<Rightarrow> r = R_OrgRouting i
   | Q_ConversationsQuery _ \<Rightarrow> (case r of R_Conversations \<Rightarrow> True | R_Conversation _ \<Rightarrow> True | _ \<Rightarrow> False)
   | Q_ConversationQuery i \<Rightarrow> (case i of Some j \<Rightarrow> r = R_Conversation j | None \<Rightarrow> False)
   | Q_ProfileQuery \<Rightarrow> r = R_Profile
   | Q_Onboarding \<Rightarrow> r = R_Onboarding
   | _ \<Rightarrow> False)"

text \<open>
  What the backend writes for a mutation (services/*.py).  A new version and a restored one become
  the current version of the artifact; a change of a rule raises the version of its pack; assigning
  a tag makes one that does not exist; a call of a model is counted as usage, one that saves its
  result makes an artifact, and an analysis in the background makes a task.  The first artifact,
  organization, invitation and change of the profile set flags of the onboarding.  What belonged to
  a thing that is deleted does not count as changed.
\<close>

definition changes :: "feature_mutation \<Rightarrow> resource \<Rightarrow> bool" where
  "changes m r = (case m of
     M_CreateArtifact _ \<Rightarrow> r = R_Artifacts \<or> r = R_Onboarding
   | M_UpdateArtifact i _ \<Rightarrow> r = R_Artifact i
   | M_DeleteArtifact i \<Rightarrow> r = R_Artifacts \<or> r = R_Artifact i
   | M_CreateVersion i _ \<Rightarrow> r = R_Artifact i \<or> r = R_Versions i
   | M_RestoreVersion i _ \<Rightarrow> r = R_Artifact i \<or> r = R_Versions i
   | M_CreateTag _ _ \<Rightarrow> r = R_Tags
   | M_AddArtifactTag i _ \<Rightarrow> r = R_Artifact i \<or> r = R_Tags
   | M_RemoveArtifactTag i _ \<Rightarrow> r = R_Artifact i
   | M_FavoriteArtifact i _ \<Rightarrow> r = R_Artifact i
   | M_ArchiveArtifact i _ \<Rightarrow> r = R_Artifact i
   | M_CreateOrganization _ \<Rightarrow> r = R_Organizations \<or> r = R_Onboarding
   | M_UpdateOrganization i _ \<Rightarrow> r = R_Organization i
   | M_DeleteOrganization i \<Rightarrow> r = R_Organizations \<or> r = R_Organization i
   | M_AddMember i _ \<Rightarrow> r = R_Members i | M_UpdateMember i _ _ \<Rightarrow> r = R_Members i
   | M_RemoveMember i _ \<Rightarrow> r = R_Members i
   | M_CreateInvitation i _ \<Rightarrow> r = R_Invitations i \<or> r = R_Onboarding | M_ResendInvitation i _ \<Rightarrow> r = R_Invitations i
   | M_RevokeInvitation i _ \<Rightarrow> r = R_Invitations i
   | M_CreatePolicyPack i _ \<Rightarrow> r = R_Packs i
   | M_UpdatePolicyPack i p _ \<Rightarrow> r = R_Pack i p
   | M_DeletePolicyPack i p \<Rightarrow> r = R_Packs i \<or> r = R_Pack i p
   | M_CreatePolicyRule i p _ \<Rightarrow> r = R_Rules i p \<or> r = R_Pack i p
   | M_UpdatePolicyRule i p _ _ \<Rightarrow> r = R_Rules i p \<or> r = R_Pack i p
   | M_DeletePolicyRule i p _ \<Rightarrow> r = R_Rules i p \<or> r = R_Pack i p
   | M_CancelTask i \<Rightarrow> r = R_Task i
   | M_PatchOrganizationQuotas i _ \<Rightarrow> r = R_Quota i
   | M_PatchAdminProviderConfig _ _ \<Rightarrow> r = R_PlatformConfigs
   | M_PatchAdminProviderRouting _ _ \<Rightarrow> r = R_PlatformRouting
   | M_PatchOrgProviderConfig i _ _ \<Rightarrow> r = R_OrgConfigs i
   | M_PatchOrgProviderRouting i _ _ \<Rightarrow> r = R_OrgRouting i
   | M_AnalyzeLogsMutation _ \<Rightarrow> r = R_Usage
   | M_AnalyzeLogsUploadMutation _ _ \<Rightarrow> r = R_Usage
   | M_AnalyzeLogsAsyncMutation _ _ \<Rightarrow> r = R_Usage \<or> r = R_Tasks
   | M_GenerateDockerfile _ \<Rightarrow> r = R_Usage \<or> r = R_Artifacts \<or> r = R_Onboarding
   | M_GenerateKubernetes _ \<Rightarrow> r = R_Usage \<or> r = R_Artifacts \<or> r = R_Onboarding
   | M_GeneratePipeline _ \<Rightarrow> r = R_Usage \<or> r = R_Artifacts \<or> r = R_Onboarding
   | M_GenerateCommand _ \<Rightarrow> r = R_Usage \<or> r = R_Artifacts \<or> r = R_Onboarding
   | M_ReviewConfiguration _ \<Rightarrow> r = R_Usage
   | M_DeleteMutation i \<Rightarrow> r = R_Conversations \<or> r = R_Conversation i
   | M_UpdateMutation _ \<Rightarrow> r = R_Profile \<or> r = R_Onboarding)"

text \<open>The dashboard and the audit log, which nearly every change of the others changes too.\<close>

definition summary_query :: "feature_query \<Rightarrow> bool" where
  "summary_query q = (case q of Q_DashboardQuery _ \<Rightarrow> True | Q_AuditEvents _ _ \<Rightarrow> True | _ \<Rightarrow> False)"

text \<open>
  The views that mutations overlook: the list of artifacts after a new or restored version, the
  lists of packs after a change of a rule, the members after a change of the own name, the
  onboarding after a change that sets one of its flags, and every view after a call of a model.
\<close>

definition overlooked :: "feature_mutation \<Rightarrow> feature_query \<Rightarrow> bool" where
  "overlooked m q =
     (let artifact_list = (case q of Q_Artifacts _ \<Rightarrow> True | _ \<Rightarrow> False);
          packs_of = (\<lambda>i. case q of Q_PolicyPacks j _ \<Rightarrow> j = i | Q_SavePacksQuery j \<Rightarrow> j = Some i
                        | Q_ReviewPacksQuery j _ \<Rightarrow> j = Some i | _ \<Rightarrow> False);
          members = (case q of Q_Members _ _ \<Rightarrow> True | Q_RoleQuery _ _ \<Rightarrow> True | _ \<Rightarrow> False);
          onboarding = (q = Q_Onboarding)
      in (case m of
            M_CreateVersion _ _ \<Rightarrow> artifact_list | M_RestoreVersion _ _ \<Rightarrow> artifact_list
          | M_CreatePolicyRule i _ _ \<Rightarrow> packs_of i | M_UpdatePolicyRule i _ _ _ \<Rightarrow> packs_of i
          | M_DeletePolicyRule i _ _ \<Rightarrow> packs_of i
          | M_CreateArtifact _ \<Rightarrow> onboarding | M_CreateOrganization _ \<Rightarrow> onboarding | M_CreateInvitation _ _ \<Rightarrow> onboarding
          | M_UpdateMutation _ \<Rightarrow> members \<or> onboarding
          | M_AnalyzeLogsMutation _ \<Rightarrow> True | M_AnalyzeLogsUploadMutation _ _ \<Rightarrow> True
          | M_AnalyzeLogsAsyncMutation _ _ \<Rightarrow> True | M_GenerateDockerfile _ \<Rightarrow> True
          | M_GenerateKubernetes _ \<Rightarrow> True | M_GeneratePipeline _ \<Rightarrow> True | M_GenerateCommand _ \<Rightarrow> True
          | M_ReviewConfiguration _ \<Rightarrow> True
          | _ \<Rightarrow> False))"

text \<open>The organization a mutation is made in, and the one whose page a query loads.\<close>

definition mutation_organization :: "feature_mutation \<Rightarrow> string option" where
  "mutation_organization m = (case m of
     M_AddMember i _ \<Rightarrow> Some i | M_UpdateMember i _ _ \<Rightarrow> Some i | M_RemoveMember i _ \<Rightarrow> Some i
   | M_CreateInvitation i _ \<Rightarrow> Some i | M_ResendInvitation i _ \<Rightarrow> Some i | M_RevokeInvitation i _ \<Rightarrow> Some i
   | M_CreatePolicyPack i _ \<Rightarrow> Some i | M_UpdatePolicyPack i _ _ \<Rightarrow> Some i | M_DeletePolicyPack i _ \<Rightarrow> Some i
   | M_CreatePolicyRule i _ _ \<Rightarrow> Some i | M_UpdatePolicyRule i _ _ _ \<Rightarrow> Some i | M_DeletePolicyRule i _ _ \<Rightarrow> Some i
   | M_PatchOrganizationQuotas i _ \<Rightarrow> Some i
   | M_PatchOrgProviderConfig i _ _ \<Rightarrow> Some i | M_PatchOrgProviderRouting i _ _ \<Rightarrow> Some i
   | _ \<Rightarrow> None)"

definition query_organization :: "feature_query \<Rightarrow> string option" where
  "query_organization q = (case q of
     Q_Organization i \<Rightarrow> Some i | Q_Members i _ \<Rightarrow> Some i | Q_RoleQuery i _ \<Rightarrow> i | Q_Invitations i _ \<Rightarrow> Some i
   | Q_PolicyPacks i _ \<Rightarrow> Some i | Q_PolicyPack i _ \<Rightarrow> Some i | Q_SavePacksQuery i \<Rightarrow> i | Q_ReviewPacksQuery i _ \<Rightarrow> i
   | Q_AuditEvents i _ \<Rightarrow> Some i | Q_OrganizationUsage i \<Rightarrow> i | Q_OrganizationQuotas i \<Rightarrow> i
   | Q_OrgProviderConfigs i \<Rightarrow> Some i | Q_OrgProviderRouting i \<Rightarrow> Some i
   | _ \<Rightarrow> None)"

lemmas view_defs = artifact_view_def artifact_item_def version_view_def organization_view_def member_view_def
  invitation_view_def policy_view_def policy_item_def task_view_def usage_view_def conversation_view_def

lemma shown_change_refreshed:
  "\<forall>ps b. m \<noteq> M_CreateTag ps b \<Longrightarrow> changes m r \<Longrightarrow> displays q r \<Longrightarrow> overlooked m q \<or> refreshed m q"
  by (cases m; cases q; auto simp: changes_def displays_def overlooked_def refreshed_def view_defs Let_def
      split: resource.splits option.splits)

lemma overlooked_not_refreshed: "overlooked m q \<Longrightarrow> \<not> refreshed m q"
  by (cases m; cases q; auto simp: overlooked_def refreshed_def view_defs Let_def)

lemma summary_not_refreshed: "summary_query q \<Longrightarrow> \<not> refreshed m q"
  by (cases q; cases m; auto simp: summary_query_def refreshed_def view_defs)

lemma other_organization_not_refreshed:
  "mutation_organization m = Some i \<Longrightarrow> query_organization q = Some j \<Longrightarrow> i \<noteq> j \<Longrightarrow> \<not> refreshed m q"
  by (cases m; cases q; auto simp: mutation_organization_def query_organization_def refreshed_def view_defs)


text \<open>So the number of the current version in the list of artifacts is the old one until a reload.\<close>

lemma version_overlooks_list:
  "changes (M_CreateVersion i body) (R_Artifact i) \<and> displays (Q_Artifacts f) (R_Artifact i)
   \<and> overlooked (M_CreateVersion i body) (Q_Artifacts f)"
  by (simp add: changes_def displays_def overlooked_def)

definition ex_cache :: mem_cache where
  "ex_cache = [(qk_members_list ''o1'' [(''limit'', QInt 20)], JStr ''old'', False),
     (qk_members_list ''o2'' [(''limit'', QInt 20)], JStr ''other'', False)]"

lemma query_cache_mem: "query_cache mem_cache_ops"
  by unfold_locales



end
