(* ===== verification/Cache_Flows.thy ===== *)
theory Cache_Flows
  imports Cache_Rules
begin

text \<open>
  Two flows over the cache: the optimistic update of the onboarding state
  (features/onboarding/hooks.ts), with any interleaving of mutations and reloads, and the
  switch of the organization (components/app-shell/organization-switcher.tsx).
\<close>

section \<open>The optimistic update\<close>

text \<open>\<open>{ ...previous, ...body }\<close> for objects.\<close>

definition entries_of :: "json \<Rightarrow> json_obj" where
  "entries_of v = (case v of JObj kvs \<Rightarrow> kvs | _ \<Rightarrow> [])"

definition spread :: "json \<Rightarrow> json \<Rightarrow> json" where
  "spread previous body = JObj (fold (\<lambda>(k, v). obj_set k v) (entries_of body) (entries_of previous))"

text \<open>
  The state around the hook: the cache, the contexts of the mutations in flight (what
  \<open>onMutate\<close> returned), whether a reload of the onboarding query is running, whether a
  component that uses the query is mounted, and, for the statements, the last data the server gave.
\<close>

record 'c onboarding_state =
  os_cache :: 'c
  os_contexts :: "(nat \<times> json option) list"
  os_fetching :: bool
  os_active :: bool
  os_confirmed :: "json option"

definition onboarding_data :: "'c cache_ops \<Rightarrow> 'c onboarding_state \<Rightarrow> json option" where
  "onboarding_data ops s = qc_get ops (os_cache s) qk_onboarding_me"

text \<open>\<open>cancelQueries\<close> drops a running reload; the data is replaced only when there is some.\<close>

definition onMutate :: "'c cache_ops \<Rightarrow> nat \<Rightarrow> json \<Rightarrow> 'c onboarding_state \<Rightarrow> 'c onboarding_state" where
  "onMutate ops i body s =
     (let previous = onboarding_data ops s in
      s\<lparr>os_fetching := False,
        os_cache := (if truthy previous then qc_set ops qk_onboarding_me (spread (the previous) body) (os_cache s)
                     else os_cache s),
        os_contexts := (i, previous) # os_contexts s\<rparr>)"

definition onError :: "'c cache_ops \<Rightarrow> nat \<Rightarrow> 'c onboarding_state \<Rightarrow> 'c onboarding_state" where
  "onError ops i s =
     (case map_of (os_contexts s) i of
        Some previous \<Rightarrow> (if truthy previous then s\<lparr>os_cache := qc_set ops qk_onboarding_me (the previous) (os_cache s)\<rparr> else s)
      | None \<Rightarrow> s)"

text \<open>
  Invalidating the key marks the data and reloads a query that is in use; the mutation is no longer
  in flight.
\<close>

definition onSettled :: "'c cache_ops \<Rightarrow> nat \<Rightarrow> 'c onboarding_state \<Rightarrow> 'c onboarding_state" where
  "onSettled ops i s =
     s\<lparr>os_cache := qc_invalidate ops qk_onboarding_me (os_cache s), os_fetching := os_active s \<or> os_fetching s,
       os_contexts := filter (\<lambda>c. fst c \<noteq> i) (os_contexts s)\<rparr>"

datatype onboarding_event =
    Mutate nat json | Succeeds nat | Fails nat
  | Refetch | Reloaded json | ReloadFails
  | Mounted | Unmounted

definition in_flight :: "nat \<Rightarrow> 'c onboarding_state \<Rightarrow> bool" where
  "in_flight i s = (map_of (os_contexts s) i \<noteq> None)"

text \<open>
  A mutation has its own number; an answer of a cancelled reload is dropped, and one that fails
  leaves the data and its mark.  A component that mounts reloads data that is missing or marked; a
  reload for another reason (the age of the data, the focus, the connection) is \<open>Refetch\<close>.
\<close>

fun onboarding_step :: "'c cache_ops \<Rightarrow> onboarding_event \<Rightarrow> 'c onboarding_state \<Rightarrow> 'c onboarding_state" where
  "onboarding_step ops (Mutate i body) s = (if in_flight i s then s else onMutate ops i body s)"
| "onboarding_step ops (Succeeds i) s = (if in_flight i s then onSettled ops i s else s)"
| "onboarding_step ops (Fails i) s = (if in_flight i s then onSettled ops i (onError ops i s) else s)"
| "onboarding_step ops (Reloaded v) s =
     (if os_fetching s
      then s\<lparr>os_cache := qc_set ops qk_onboarding_me v (os_cache s), os_fetching := False, os_confirmed := Some v\<rparr>
      else s)"
| "onboarding_step ops ReloadFails s = s\<lparr>os_fetching := False\<rparr>"
| "onboarding_step ops Refetch s = (if os_active s then s\<lparr>os_fetching := True\<rparr> else s)"
| "onboarding_step ops Mounted s =
     s\<lparr>os_active := True,
       os_fetching := os_fetching s \<or> onboarding_data ops s = None \<or> qc_stale ops (os_cache s) qk_onboarding_me\<rparr>"
| "onboarding_step ops Unmounted s = s\<lparr>os_active := False\<rparr>"

definition onboarding_start :: "'c cache_ops \<Rightarrow> 'c \<Rightarrow> 'c onboarding_state" where
  "onboarding_start ops c = \<lparr>os_cache = c, os_contexts = [], os_fetching = False, os_active = False,
     os_confirmed = qc_get ops c qk_onboarding_me\<rparr>"

inductive onboarding_reachable :: "'c cache_ops \<Rightarrow> 'c \<Rightarrow> 'c onboarding_state \<Rightarrow> bool" for ops c where
  start: "onboarding_reachable ops c (onboarding_start ops c)"
| step: "onboarding_reachable ops c s \<Longrightarrow> onboarding_reachable ops c (onboarding_step ops e s)"

text \<open>With no update in flight, data that is not marked as out of date is what the server said last.\<close>

definition onboarding_settled :: "'c cache_ops \<Rightarrow> 'c onboarding_state \<Rightarrow> bool" where
  "onboarding_settled ops s =
     ((os_contexts s = [] \<and> \<not> qc_stale ops (os_cache s) qk_onboarding_me \<longrightarrow> onboarding_data ops s = os_confirmed s)
      \<and> (onboarding_data ops s = None \<longrightarrow> os_confirmed s = None))"

text \<open>A mutation that fails gives back what was there, one that succeeds keeps the update.\<close>

lemma truthy_Some: "truthy v \<Longrightarrow> \<exists>x. v = Some x"
  by (cases v) (simp_all add: truthy_def)

context query_cache
begin

lemma within_itself: "qc_within ops k k"
  using within_extension [OF key_same_refl, of k "[]"] by simp

lemma settled_start: "onboarding_settled ops (onboarding_start ops c)"
  by (simp add: onboarding_settled_def onboarding_start_def onboarding_data_def)

lemma settled_after:
  assumes "onboarding_data ops s = None \<longrightarrow> os_confirmed s = None"
  shows "onboarding_settled ops (onSettled ops i s)"
  using assms
  by (cases "qc_get ops (os_cache s) qk_onboarding_me")
     (auto simp: onboarding_settled_def onSettled_def onboarding_data_def get_invalidate stale_invalidate within_itself)

lemma settled_step: "onboarding_settled ops s \<Longrightarrow> onboarding_settled ops (onboarding_step ops e s)"
proof -
  assume settled: "onboarding_settled ops s"
  then have confirmed: "onboarding_data ops s = None \<longrightarrow> os_confirmed s = None" by (simp add: onboarding_settled_def)
  then have "onboarding_data ops (onError ops i s) = None \<longrightarrow> os_confirmed (onError ops i s) = None" for i
    by (auto simp: onError_def onboarding_data_def get_set split: option.split)
  with settled confirmed show ?thesis
    by (cases e)
       (auto simp: onMutate_def Let_def get_set truthy_def settled_after,
         auto simp: onboarding_settled_def onboarding_data_def get_set split: option.splits)
qed

lemma settled_reachable: "onboarding_reachable ops c s \<Longrightarrow> onboarding_settled ops s"
  by (induction rule: onboarding_reachable.induct) (auto intro: settled_start settled_step)

text \<open>An update that ends is followed by a reload where the query is in use, and marked until then.\<close>

lemma ended_marked:
  assumes "in_flight i s" and "e = Succeeds i \<or> e = Fails i"
  shows "os_active s \<longrightarrow> os_fetching (onboarding_step ops e s)"
    and "onboarding_data ops (onboarding_step ops e s) \<noteq> None \<longrightarrow>
      qc_stale ops (os_cache (onboarding_step ops e s)) qk_onboarding_me"
  using assms
  by (auto simp: onSettled_def onError_def onboarding_data_def get_invalidate stale_invalidate within_itself
      split: option.splits)

lemma reload_effect:
  "os_fetching s \<Longrightarrow> onboarding_data ops (onboarding_step ops (Reloaded v) s) = Some v
     \<and> os_confirmed (onboarding_step ops (Reloaded v) s) = Some v"
  "os_cache (onboarding_step ops ReloadFails s) = os_cache s"
  "qc_stale ops (os_cache s) qk_onboarding_me \<Longrightarrow> os_fetching (onboarding_step ops Mounted s)"
  by (simp_all add: onboarding_data_def get_set)

lemma rollback:
  assumes "\<not> in_flight i s"
  shows "onboarding_data ops (onboarding_step ops (Fails i) (onboarding_step ops (Mutate i body) s)) = onboarding_data ops s"
    and "onboarding_data ops (onboarding_step ops (Succeeds i) (onboarding_step ops (Mutate i body) s)) =
         map_option (\<lambda>v. if js_truthy v then spread v body else v) (onboarding_data ops s)"
  using assms
  by (auto simp: onMutate_def onError_def onSettled_def onboarding_data_def in_flight_def Let_def get_set
      get_invalidate truthy_def split: option.splits)

lemma other_keys_kept:
  assumes "\<not> key_same qk_onboarding_me k" and "qc_get ops (os_cache s) k \<noteq> None"
    and "\<not> qc_within ops qk_onboarding_me k"
  shows "qc_get ops (os_cache (onboarding_step ops e s)) k = qc_get ops (os_cache s) k
     \<and> qc_stale ops (os_cache (onboarding_step ops e s)) k = qc_stale ops (os_cache s) k"
  using assms
  by (cases e) (auto simp: onMutate_def onError_def onSettled_def Let_def get_set stale_set
      get_invalidate stale_invalidate split: option.splits)

end

text \<open>C18: the optimistic onboarding update never shows unmarked data the server did not confirm: in
  every interleaving of updates, their answers, reloads that succeed, fail or are cancelled, and
  components that come and go, data that is not marked as out of date while no update is in flight
  is what the server said last.  An update that ends, well or not, leaves its data marked, and
  reloads it at once where the query is in use; the answer of a reload is what is shown, a reload
  that fails leaves data and mark, and the next component that mounts reloads marked data.  An update
  that fails with none started in between gives back exactly the data shown before it.\<close>

theorem onboarding_consistent:
  assumes "query_cache ops" and "onboarding_reachable ops c s"
  shows "(os_contexts s = [] \<and> \<not> qc_stale ops (os_cache s) qk_onboarding_me \<longrightarrow> onboarding_data ops s = os_confirmed s)
    \<and> (in_flight i s \<and> (e = Succeeds i \<or> e = Fails i) \<longrightarrow>
        (let s' = onboarding_step ops e s in
          (os_active s \<longrightarrow> os_fetching s')
          \<and> (onboarding_data ops s' \<noteq> None \<longrightarrow> qc_stale ops (os_cache s') qk_onboarding_me)))
    \<and> (os_fetching s \<longrightarrow> onboarding_data ops (onboarding_step ops (Reloaded v) s) = Some v)
    \<and> os_cache (onboarding_step ops ReloadFails s) = os_cache s
    \<and> (qc_stale ops (os_cache s) qk_onboarding_me \<longrightarrow> os_fetching (onboarding_step ops Mounted s))
    \<and> (\<not> in_flight i s \<longrightarrow>
        onboarding_data ops (onboarding_step ops (Fails i) (onboarding_step ops (Mutate i body) s)) = onboarding_data ops s)"
  using query_cache.settled_reachable [OF assms] query_cache.ended_marked [OF assms(1), of i s e]
    query_cache.reload_effect [OF assms(1)] query_cache.rollback(1) [OF assms(1)]
  by (auto simp: onboarding_settled_def Let_def simp del: onboarding_step.simps)

definition ex_onboarding :: mem_cache where
  "ex_onboarding = [(qk_onboarding_me, JObj [(''tour_completed'', JBool False)], False)]"

lemma onboarding_consistent_witness:
  "onboarding_data mem_cache_ops (onboarding_step mem_cache_ops (Fails 1)
     (onboarding_step mem_cache_ops (Mutate 1 (JObj [(''tour_completed'', JBool True)])) (onboarding_start mem_cache_ops ex_onboarding)))
   = Some (JObj [(''tour_completed'', JBool False)])"
proof -
  have data: "onboarding_data mem_cache_ops (onboarding_start mem_cache_ops ex_onboarding) = Some (JObj [(''tour_completed'', JBool False)])"
    by code_simp
  have "\<not> in_flight 1 (onboarding_start mem_cache_ops ex_onboarding)" by (simp add: in_flight_def onboarding_start_def)
  with onboarding_consistent [OF query_cache_mem onboarding_reachable.start] data
  show ?thesis by metis
qed

text \<open>
  With a second update in between, the failure of the first one also takes back the second,
  although that one succeeded, until the reload.
\<close>

lemma overlapping_rollback_loses_update:
  "onboarding_data mem_cache_ops (fold (onboarding_step mem_cache_ops)
     [Mutate 1 (JObj [(''tour_completed'', JBool True)]), Mutate 2 (JObj [(''profile_completed'', JBool True)]),
      Succeeds 2, Fails 1] (onboarding_start mem_cache_ops ex_onboarding))
   = Some (JObj [(''tour_completed'', JBool False)])"
  by code_simp

section \<open>Switching the organization\<close>

definition mentions_organization :: "string \<Rightarrow> query_key \<Rightarrow> bool" where
  "mentions_organization organizationId k = list_ex (\<lambda>part.
     case part of KStr s \<Rightarrow> s = organizationId
       | KObj f \<Rightarrow> param f ''organizationId'' = QStr organizationId \<or> param f ''organization_id'' = QStr organizationId
       | _ \<Rightarrow> False) k"

definition clearOrganizationScopedQueries :: "'c cache_ops \<Rightarrow> string option \<Rightarrow> 'c \<Rightarrow> 'c" where
  "clearOrganizationScopedQueries ops organizationId c =
     (case nonempty_opt organizationId of None \<Rightarrow> c | Some i \<Rightarrow> qc_remove ops (mentions_organization i) c)"

text \<open>The workspace is the id of the current organization, \<open>None\<close> for the personal one.\<close>

definition switchTo :: "'c cache_ops \<Rightarrow> string option \<Rightarrow> string option \<times> 'c \<Rightarrow> string option \<times> 'c" where
  "switchTo ops nextId s =
     (case s of (previousId, c) \<Rightarrow>
        if previousId = nextId then s else (nextId, clearOrganizationScopedQueries ops previousId c))"

lemma mentions_respects_same: "respects_same (mentions_organization i)"
proof -
  have "mentions_organization i k = mentions_organization i k'" if "key_same k k'" for k k'
    using that unfolding key_same_def
  proof (induction rule: list_all2_induct)
    case (Cons p k q k')
    then show ?case
      by (cases p; cases q) (auto simp: mentions_organization_def same_filters_iff)
  qed (simp add: mentions_organization_def)
  then show ?thesis by (simp add: respects_same_def)
qed

text \<open>
  The organization whose data a query loads: the one in its path or its filter, and for one artifact,
  task or conversation the one \<open>owner\<close> says it belongs to.  A list without an organization is that
  of the user.
\<close>

definition organization_of :: "(string \<Rightarrow> string option) \<Rightarrow> feature_query \<Rightarrow> string option" where
  "organization_of owner q = (case q of
       Q_Organization i \<Rightarrow> Some i | Q_Members i _ \<Rightarrow> Some i | Q_RoleQuery i _ \<Rightarrow> i | Q_Invitations i _ \<Rightarrow> Some i
     | Q_PolicyPacks i _ \<Rightarrow> Some i | Q_PolicyPack i _ \<Rightarrow> Some i | Q_AuditEvents i _ \<Rightarrow> Some i
     | Q_SavePacksQuery i \<Rightarrow> i | Q_ReviewPacksQuery i _ \<Rightarrow> i
     | Q_OrganizationUsage i \<Rightarrow> i | Q_OrganizationQuotas i \<Rightarrow> i
     | Q_OrgProviderConfigs i \<Rightarrow> Some i | Q_OrgProviderRouting i \<Rightarrow> Some i
     | Q_Artifacts f \<Rightarrow> (case param f ''organization_id'' of QStr i \<Rightarrow> Some i | _ \<Rightarrow> None)
     | Q_ArtifactTags f \<Rightarrow> (case param f ''organization_id'' of QStr i \<Rightarrow> Some i | _ \<Rightarrow> None)
     | Q_Tasks f \<Rightarrow> (case param f ''organization_id'' of QStr i \<Rightarrow> Some i | _ \<Rightarrow> None)
     | Q_ConversationsQuery f \<Rightarrow> (case param f ''organization_id'' of QStr i \<Rightarrow> Some i | _ \<Rightarrow> None)
     | Q_DashboardQuery f \<Rightarrow> df_organization_id f
     | Q_Artifact i \<Rightarrow> owner i | Q_ArtifactVersions i _ \<Rightarrow> owner i | Q_ArtifactVersion i _ \<Rightarrow> owner i
     | Q_ArtifactDiff i _ _ \<Rightarrow> owner i | Q_Task i \<Rightarrow> owner i
     | Q_LogAnalysisTask i \<Rightarrow> Option.bind i owner | Q_ConversationQuery i \<Rightarrow> Option.bind i owner
     | _ \<Rightarrow> None)"

text \<open>The queries for one artifact, task or conversation, whose keys hold its own id only.\<close>

definition single_item :: "feature_query \<Rightarrow> bool" where
  "single_item q = (case q of
       Q_Artifact _ \<Rightarrow> True | Q_ArtifactVersions _ _ \<Rightarrow> True | Q_ArtifactVersion _ _ \<Rightarrow> True | Q_ArtifactDiff _ _ _ \<Rightarrow> True
     | Q_Task _ \<Rightarrow> True | Q_LogAnalysisTask _ \<Rightarrow> True | Q_ConversationQuery _ \<Rightarrow> True
     | _ \<Rightarrow> False)"

lemma organization_mentioned:
  "organization_of owner q = Some i \<Longrightarrow> \<not> single_item q \<Longrightarrow> mentions_organization i (hq_key (hook_of q))"
  by (cases q) (auto simp: organization_of_def single_item_def hook_of_def query_defs query_key_defs mentions_organization_def
      dashboard_filter_object_def param_def split: qvalue.splits option.splits)

text \<open>C19: switching away from an organization empties the cache of its pages and lists: each query
  that loads the organization, its members, invitations, packs, audit log, usage or providers, or a
  list or the dashboard restricted to it, has no data left, whatever its filters.  What does not name
  the organization in its key is kept as it was, and that includes every artifact, version, task and
  conversation that was opened by its own id, although it belongs to the organization.\<close>

theorem switch_forgets_organization:
  assumes "query_cache ops" and "prev \<noteq> []" and "nextId \<noteq> Some prev"
    and "switchTo ops nextId (Some prev, c) = (current, c')"
  shows "current = nextId
    \<and> (organization_of owner q = Some prev \<and> \<not> single_item q \<longrightarrow> qc_get ops c' (hq_key (hook_of q)) = None)
    \<and> (\<not> mentions_organization prev k \<longrightarrow> qc_get ops c' k = qc_get ops c k \<and> qc_stale ops c' k = qc_stale ops c k)"
proof -
  have c': "current = nextId" "c' = qc_remove ops (mentions_organization prev) c"
    using assms(2-4) by (auto simp: switchTo_def clearOrganizationScopedQueries_def nonempty_opt_def split: if_splits)
  show ?thesis
    using query_cache.get_remove [OF assms(1) mentions_respects_same]
      query_cache.stale_remove [OF assms(1) mentions_respects_same] organization_mentioned
    by (auto simp: c')
qed

lemma switch_forgets_organization_witness:
  "qc_get mem_cache_ops (snd (switchTo mem_cache_ops None (Some ''o1'', ex_cache)))
     (hq_key (hook_of (Q_Members ''o1'' [(''limit'', QInt 20)]))) = None
   \<and> qc_get mem_cache_ops (snd (switchTo mem_cache_ops None (Some ''o1'', ex_cache)))
     (qk_members_list ''o2'' [(''limit'', QInt 20)]) = Some (JStr ''other'')"
proof -
  have ne: "''o1'' \<noteq> []" "None \<noteq> Some ''o1''" by simp_all
  have keep: "\<not> mentions_organization ''o1'' (qk_members_list ''o2'' [(''limit'', QInt 20)])"
    "qc_get mem_cache_ops ex_cache (qk_members_list ''o2'' [(''limit'', QInt 20)]) = Some (JStr ''other'')"
    by code_simp+
  have org: "organization_of (\<lambda>_. None) (Q_Members ''o1'' [(''limit'', QInt 20)]) = Some ''o1''"
    "\<not> single_item (Q_Members ''o1'' [(''limit'', QInt 20)])"
    by (simp_all add: organization_of_def single_item_def)
  show ?thesis
    using switch_forgets_organization [OF query_cache_mem ne surjective_pairing, of ex_cache "\<lambda>_. None"
        "Q_Members ''o1'' [(''limit'', QInt 20)]" "qk_members_list ''o2'' [(''limit'', QInt 20)]"]
      keep org by simp
qed

text \<open>An artifact of the organization that was open stays in the cache.\<close>

lemma open_artifact_survives_switch:
  "organization_of (\<lambda>i. if i = ''a1'' then Some ''o1'' else None) (Q_Artifact ''a1'') = Some ''o1''
   \<and> qc_get mem_cache_ops (snd (switchTo mem_cache_ops None (Some ''o1'', [(qk_artifacts_detail ''a1'', JStr ''secret'', False)])))
       (hq_key (hook_of (Q_Artifact ''a1''))) = Some (JStr ''secret'')"
  by code_simp

end
