(* ===== verification/Auth_Client.thy ===== *)
theory Auth_Client
  imports Auth_Routes Feature_Apis
begin

text \<open>
  features/auth/api.ts: the browser's calls of the route handlers of app/api/auth, which do not
  go through \<open>apiFetch\<close>; providers/auth-provider.tsx, the signed-in user of the page; and the
  composition of both ends of a sign-in.
\<close>

section \<open>Reading an answer\<close>

definition throwFromResponse :: "nat \<Rightarrow> json \<Rightarrow> headers \<Rightarrow> js_exn" where
  "throwFromResponse status v h = ApiClientErr (parseErrorResponse status v (Some h))"

definition unwrapEnvelopeData :: "json \<Rightarrow> json" where
  "unwrapEnvelopeData v = (case js_prop v ''data'' of Some d \<Rightarrow> d | None \<Rightarrow> v)"

text \<open>The common part: the parsed body of a 2xx answer, an error otherwise.\<close>

definition read_answer :: "http_response \<Rightarrow> js_exn + json" where
  "read_answer r =
     (case parseJsonSafe r of Inl e \<Rightarrow> Inl e
      | Inr v \<Rightarrow> if \<not> response_ok r then Inl (throwFromResponse (rs_status r) v (rs_headers r)) else Inr v)"

definition browser_request :: "string \<Rightarrow> string \<Rightarrow> json option \<Rightarrow> http_request" where
  "browser_request path meth body =
     \<lparr>rq_url = path, rq_method = meth,
      rq_headers = (case body of Some _ \<Rightarrow> json_headers | None \<Rightarrow> [(''Accept'', ''application/json'')]),
      rq_body = (case body of Some v \<Rightarrow> TextBody (json_stringify v) | None \<Rightarrow> NoBody)\<rparr>"

definition answered ::
  "(http_response \<Rightarrow> js_exn + 'a) \<Rightarrow> (js_exn + http_response) \<times> 'w \<Rightarrow> (js_exn + 'a) \<times> 'w" where
  "answered f a = (case a of (Inl e, w) \<Rightarrow> (Inl e, w) | (Inr r, w) \<Rightarrow> (f r, w))"

definition authRouteFetch ::
  "network \<Rightarrow> string \<Rightarrow> string \<Rightarrow> json option \<Rightarrow> 'z world_scheme \<Rightarrow> (js_exn + json) \<times> 'z world_scheme" where
  "authRouteFetch net path meth body w =
     answered (\<lambda>r. map_sum id unwrapEnvelopeData (read_answer r)) (fetch net (browser_request path meth body) w)"

section \<open>The calls\<close>

definition loginRequest :: "network \<Rightarrow> json \<Rightarrow> 'z world_scheme \<Rightarrow> (js_exn + json) \<times> 'z world_scheme" where
  "loginRequest net values w =
     answered read_answer (fetch net (browser_request ''/api/auth/login'' ''POST'' (Some values)) w)"

definition registerRequest :: "network \<Rightarrow> json \<Rightarrow> 'z world_scheme \<Rightarrow> (js_exn + json) \<times> 'z world_scheme" where
  "registerRequest net values w =
     answered (\<lambda>r. map_sum id unwrapEnvelopeData (read_answer r))
       (fetch net (browser_request ''/api/auth/register'' ''POST'' (Some values)) w)"

text \<open>The calls that sign out send no headers and read the body of a failure only.\<close>

definition bare_post :: "string \<Rightarrow> http_request" where
  "bare_post path = \<lparr>rq_url = path, rq_method = ''POST'', rq_headers = [], rq_body = NoBody\<rparr>"

definition read_failure :: "http_response \<Rightarrow> js_exn + unit" where
  "read_failure r = (if response_ok r then Inr () else map_sum id (\<lambda>_. ()) (read_answer r))"

definition logoutRequest :: "network \<Rightarrow> 'z world_scheme \<Rightarrow> (js_exn + unit) \<times> 'z world_scheme" where
  "logoutRequest net w = answered read_failure (fetch net (bare_post ''/api/auth/logout'') w)"

definition logoutAllRequest :: "network \<Rightarrow> 'z world_scheme \<Rightarrow> (js_exn + unit) \<times> 'z world_scheme" where
  "logoutAllRequest net w = answered read_failure (fetch net (bare_post ''/api/auth/logout-all'') w)"

text \<open>\<open>null\<close> is the answer when nobody is signed in.\<close>

definition read_user :: "http_response \<Rightarrow> js_exn + json" where
  "read_user r = (if rs_status r = 401 then Inr JNull else map_sum id unwrapEnvelopeData (read_answer r))"

definition fetchCurrentUser :: "network \<Rightarrow> 'z world_scheme \<Rightarrow> (js_exn + json) \<times> 'z world_scheme" where
  "fetchCurrentUser net w = answered read_user (fetch net
     \<lparr>rq_url = ''/api/auth/me'', rq_method = ''GET'', rq_headers = [], rq_body = NoBody\<rparr> w)"

definition forgotPasswordRequest :: "network \<Rightarrow> json \<Rightarrow> 'z world_scheme \<Rightarrow> (js_exn + json) \<times> 'z world_scheme" where
  "forgotPasswordRequest net values = authRouteFetch net ''/api/auth/forgot-password'' ''POST'' (Some values)"

definition resetPasswordRequest ::
  "network \<Rightarrow> string \<Rightarrow> string \<Rightarrow> 'z world_scheme \<Rightarrow> (js_exn + json) \<times> 'z world_scheme" where
  "resetPasswordRequest net token new_password = authRouteFetch net ''/api/auth/reset-password'' ''POST''
     (Some (JObj [(''token'', JStr token), (''new_password'', JStr new_password)]))"

definition verifyEmailRequest :: "network \<Rightarrow> string \<Rightarrow> 'z world_scheme \<Rightarrow> (js_exn + json) \<times> 'z world_scheme" where
  "verifyEmailRequest net token = authRouteFetch net ''/api/auth/verify-email'' ''POST''
     (Some (JObj [(''token'', JStr token)]))"

definition sendVerificationRequest :: "network \<Rightarrow> 'z world_scheme \<Rightarrow> (js_exn + json) \<times> 'z world_scheme" where
  "sendVerificationRequest net = authRouteFetch net ''/api/auth/send-verification'' ''POST'' None"

definition changePasswordRequest ::
  "network \<Rightarrow> string \<Rightarrow> string \<Rightarrow> 'z world_scheme \<Rightarrow> (js_exn + json) \<times> 'z world_scheme" where
  "changePasswordRequest net current_password new_password =
     authRouteFetch net ''/api/auth/change-password'' ''POST''
       (Some (JObj [(''current_password'', JStr current_password), (''new_password'', JStr new_password)]))"

definition requestEmailChange :: "json \<Rightarrow> api_call" where
  "requestEmailChange values = body_call ''POST'' ep_users_emailChangeRequest values"

definition confirmEmailChange :: "network \<Rightarrow> string \<Rightarrow> 'z world_scheme \<Rightarrow> (js_exn + json) \<times> 'z world_scheme" where
  "confirmEmailChange net token = authRouteFetch net ''/api/auth/confirm-email-change'' ''POST''
     (Some (JObj [(''token'', JStr token)]))"

definition listSessionsRequest :: "network \<Rightarrow> 'z world_scheme \<Rightarrow> (js_exn + json) \<times> 'z world_scheme" where
  "listSessionsRequest net = authRouteFetch net ''/api/auth/sessions'' ''GET'' None"

definition revokeSessionRequest :: "network \<Rightarrow> string \<Rightarrow> 'z world_scheme \<Rightarrow> (js_exn + json) \<times> 'z world_scheme" where
  "revokeSessionRequest net sessionId =
     authRouteFetch net (''/api/auth/sessions/'' @ encodeURIComponent sessionId) ''DELETE'' None"

definition acceptInvitationRequest :: "string \<Rightarrow> api_call" where
  "acceptInvitationRequest token = body_call ''POST'' ep_invitations_accept (JObj [(''token'', JStr token)])"

definition declineInvitationRequest :: "string \<Rightarrow> api_call" where
  "declineInvitationRequest token = body_call ''POST'' ep_invitations_decline (JObj [(''token'', JStr token)])"

section \<open>The signed-in user of the page\<close>

text \<open>
  \<open>user\<close> is \<open>None\<close> for \<open>null\<close>; the redirects are the calls of \<open>router.replace\<close>.  The events are
  the ends of the asynchronous calls, in any order: the load on mount, a refresh, a
  sign-out, the storage event another tab causes, and the unmount.
\<close>

record auth_context =
  ac_user :: "json option"
  ac_isLoading :: bool
  ac_cancelled :: bool
  ac_redirects :: "string list"
  ac_marked :: nat

definition initial_auth :: auth_context where
  "initial_auth = \<lparr>ac_user = None, ac_isLoading = True, ac_cancelled = False, ac_redirects = [], ac_marked = 0\<rparr>"

definition user_of :: "js_exn + json \<Rightarrow> json option" where
  "user_of outcome = (case outcome of Inl _ \<Rightarrow> None | Inr v \<Rightarrow> if v = JNull then None else Some v)"

datatype auth_event =
    MountLoaded "js_exn + json"
  | Refreshed "js_exn + json"
  | LoggedOut "js_exn + unit" bool
  | StorageKey "string option"
  | Unmounted

definition LOGOUT_STORAGE_KEY :: string where "LOGOUT_STORAGE_KEY = ''ada-logout''"

definition refreshUser :: "js_exn + json \<Rightarrow> auth_context \<Rightarrow> auth_context" where
  "refreshUser outcome s = s\<lparr>ac_user := user_of outcome\<rparr>"

definition mount_loaded :: "js_exn + json \<Rightarrow> auth_context \<Rightarrow> auth_context" where
  "mount_loaded outcome s =
     (if ac_cancelled s then s else s\<lparr>ac_user := user_of outcome, ac_isLoading := False\<rparr>)"

definition onStorage :: "string option \<Rightarrow> auth_context \<Rightarrow> auth_context" where
  "onStorage key s =
     (if key = Some LOGOUT_STORAGE_KEY \<and> \<not> ac_cancelled s
      then s\<lparr>ac_user := None, ac_redirects := ac_redirects s @ [''/login'']\<rparr> else s)"

text \<open>The outcome of the call does not matter, nor does a failing \<open>localStorage\<close>.\<close>

definition logout :: "js_exn + unit \<Rightarrow> bool \<Rightarrow> auth_context \<Rightarrow> auth_context" where
  "logout outcome storage_ok s =
     s\<lparr>ac_user := None, ac_marked := ac_marked s + (if storage_ok then 1 else 0),
       ac_redirects := ac_redirects s @ [''/login'']\<rparr>"

fun auth_step :: "auth_event \<Rightarrow> auth_context \<Rightarrow> auth_context" where
  "auth_step (MountLoaded r) s = mount_loaded r s"
| "auth_step (Refreshed r) s = refreshUser r s"
| "auth_step (LoggedOut r ok) s = logout r ok s"
| "auth_step (StorageKey k) s = onStorage k s"
| "auth_step Unmounted s = s\<lparr>ac_cancelled := True\<rparr>"

definition auth_run :: "auth_event list \<Rightarrow> auth_context" where
  "auth_run es = fold auth_step es initial_auth"

text \<open>What the page shows is decided by the last event that says who is signed in.\<close>

fun says_user :: "auth_event \<Rightarrow> bool \<Rightarrow> json option option" where
  "says_user (MountLoaded r) cancelled = (if cancelled then None else Some (user_of r))"
| "says_user (Refreshed r) cancelled = Some (user_of r)"
| "says_user (LoggedOut r ok) cancelled = Some None"
| "says_user (StorageKey k) cancelled = (if k = Some LOGOUT_STORAGE_KEY \<and> \<not> cancelled then Some None else None)"
| "says_user Unmounted cancelled = None"

lemma auth_run_snoc: "auth_run (es @ [e]) = auth_step e (auth_run es)"
  by (simp add: auth_run_def)

lemma auth_cancelled: "ac_cancelled (auth_run es) = (Unmounted \<in> set es)"
proof (induction es rule: rev_induct)
  case (snoc e es)
  then show ?case
    by (cases e) (auto simp: auth_run_snoc mount_loaded_def refreshUser_def logout_def onStorage_def)
qed (simp add: auth_run_def initial_auth_def)

lemma auth_user_snoc:
  "ac_user (auth_run (es @ [e])) =
   (case says_user e (Unmounted \<in> set es) of Some u \<Rightarrow> u | None \<Rightarrow> ac_user (auth_run es))"
  by (cases e) (auto simp: auth_run_snoc mount_loaded_def refreshUser_def logout_def onStorage_def auth_cancelled)

definition no_load :: "auth_event \<Rightarrow> bool" where
  "no_load e = (case e of MountLoaded r \<Rightarrow> user_of r = None | Refreshed r \<Rightarrow> user_of r = None | _ \<Rightarrow> True)"

lemma no_load_says: "no_load e \<Longrightarrow> says_user e b = None \<or> says_user e b = Some None"
  by (cases e) (auto simp: no_load_def)

lemma silent_tail_keeps_user:
  "list_all no_load es \<Longrightarrow> ac_user (auth_run past) = None \<Longrightarrow> ac_user (auth_run (past @ es)) = None"
proof (induction es rule: rev_induct)
  case (snoc e es)
  then have none: "ac_user (auth_run (past @ es)) = None" by simp
  from snoc.prems(1) have "no_load e" by simp
  from no_load_says [OF this, of "Unmounted \<in> set (past @ es)"] show ?case
    unfolding append_assoc [symmetric] auth_user_snoc by (elim disjE) (simp_all only: none option.case)
qed simp

lemma auth_redirects: "set (ac_redirects (auth_run es)) \<subseteq> {''/login''}"
proof (induction es rule: rev_induct)
  case (snoc e es)
  then show ?case
    by (cases e) (auto simp: auth_run_snoc mount_loaded_def refreshUser_def logout_def onStorage_def)
qed (simp add: auth_run_def initial_auth_def)

lemma auth_loading: "ac_isLoading (auth_run es) =
    (\<not> list_ex (\<lambda>e. case e of MountLoaded _ \<Rightarrow> True | _ \<Rightarrow> False) (takeWhile (\<lambda>e. e \<noteq> Unmounted) es))"
proof (induction es rule: rev_induct)
  case (snoc e es)
  then show ?case
    by (cases e) (auto simp: auth_run_snoc mount_loaded_def refreshUser_def logout_def onStorage_def
        auth_cancelled takeWhile_append list_ex_iff takeWhile_eq_all_conv [THEN iffD2])
qed (simp add: auth_run_def initial_auth_def)

text \<open>C33: signing out on a page ends with no user whether or not the call, or the storage, failed:
  from then on the page shows nobody until a load that was answered with a user arrives,
  and the page is sent to the sign-in form, the only place it is ever sent to; the loading
  indicator ends with the first load, unless the page was left before.\<close>

theorem sign_out_ends_page_session:
  assumes "list_all no_load es"
  shows "ac_user (auth_run (past @ LoggedOut r ok # es)) = None
    \<and> ac_redirects (auth_run (past @ [LoggedOut r ok])) = ac_redirects (auth_run past) @ [''/login'']
    \<and> set (ac_redirects (auth_run (past @ LoggedOut r ok # es))) \<subseteq> {''/login''}
    \<and> ac_isLoading (auth_run past) =
        (\<not> list_ex (\<lambda>e. case e of MountLoaded _ \<Rightarrow> True | _ \<Rightarrow> False) (takeWhile (\<lambda>e. e \<noteq> Unmounted) past))"
proof -
  have "ac_user (auth_run (past @ [LoggedOut r ok])) = None" by (simp add: auth_run_snoc logout_def)
  from silent_tail_keeps_user [OF assms this] show ?thesis
    using auth_redirects by (simp add: auth_loading auth_run_snoc logout_def)
qed

lemma sign_out_ends_page_session_witness:
  "ac_user (auth_run ([MountLoaded (Inr (JStr ''ada''))] @ LoggedOut (Inl OtherThrown) False # [Refreshed (Inr JNull)])) = None"
proof -
  have "list_all no_load [Refreshed (Inr JNull)]" by (simp add: no_load_def user_of_def)
  from sign_out_ends_page_session [OF this] show ?thesis by blast
qed

text \<open>A load that was in flight when the user signed out brings the user back.\<close>

lemma late_load_restores_user:
  "ac_user (auth_run [MountLoaded (Inr (JStr ''ada'')), LoggedOut (Inr ()) True, Refreshed (Inr (JStr ''ada''))])
   = Some (JStr ''ada'')"
  by (simp add: auth_run_def refreshUser_def user_of_def)

section \<open>The browser's calls and the route handlers together\<close>

text \<open>A handler that throws is answered with a 500 by the framework.\<close>

definition route_answer :: "http_response \<Rightarrow> handler_result \<Rightarrow> http_response" where
  "route_answer crash result = (case result of Inl _ \<Rightarrow> crash | Inr p \<Rightarrow> wire_of p)"

text \<open>
  Which handler a request of the browser reaches: the path is the directory below app that holds
  the file route.ts, the method the name of the function it exports.  A request without a handler
  gets the framework's own answer.  The route of a single session, whose path ends in a
  parameter, is \<open>delete_session\<close> and left out of this table.
\<close>

definition auth_route ::
  "'j jar_ops \<Rightarrow> env \<Rightarrow> network \<Rightarrow> http_request \<Rightarrow> 'j server \<Rightarrow> (handler_result \<times> 'j server) option" where
  "auth_route ops env net rq w =
     (let path = rq_url rq; text = (case rq_body rq of TextBody t \<Rightarrow> t | _ \<Rightarrow> []) in
      if rq_method rq = ''POST'' then
        (if path = ''/api/auth/login'' then Some (post_login ops env net text w)
         else if path = ''/api/auth/register'' then Some (post_register env net text w)
         else if path = ''/api/auth/logout'' then Some (post_logout ops env net w)
         else if path = ''/api/auth/logout-all'' then Some (post_logout_all ops env net w)
         else if path = ''/api/auth/change-password'' then Some (post_change_password ops env net text w)
         else if path = ''/api/auth/confirm-email-change'' then Some (post_confirm_email_change env net text w)
         else if path = ''/api/auth/forgot-password'' then Some (post_forgot_password env net text w)
         else if path = ''/api/auth/verify-email'' then Some (post_verify_email env net text w)
         else if path = ''/api/auth/reset-password'' then Some (post_reset_password env net text w)
         else if path = ''/api/auth/send-verification'' then Some (post_send_verification ops env net w)
         else None)
      else if rq_method rq = ''GET'' then
        (if path = ''/api/auth/me'' then Some (get_me ops env net w)
         else if path = ''/api/auth/sessions'' then Some (get_sessions ops env net w)
         else None)
      else None)"

record framework =
  fw_crash :: http_response
  fw_missing :: http_response

definition route_response :: "framework \<Rightarrow> (handler_result \<times> 'j server) option \<Rightarrow> http_response" where
  "route_response fw answer =
     (case answer of Some a \<Rightarrow> route_answer (fw_crash fw) (fst a) | None \<Rightarrow> fw_missing fw)"

text \<open>A call of features/auth/api.ts, which sends one request, run against the server.\<close>

definition browser_call ::
  "framework \<Rightarrow> 'j jar_ops \<Rightarrow> env \<Rightarrow> network \<Rightarrow> (network \<Rightarrow> world \<Rightarrow> (js_exn + json) \<times> world) \<Rightarrow>
   'j server \<Rightarrow> (js_exn + json) \<times> 'j server" where
  "browser_call fw ops env net call w =
     (case call (\<lambda>_ rq. Inr (route_response fw (auth_route ops env net rq w))) \<lparr>sent = []\<rparr> of
        (result, b) \<Rightarrow>
          (result, fold (\<lambda>rq v. case auth_route ops env net rq v of Some a \<Rightarrow> snd a | None \<Rightarrow> v) (sent b) w))"

lemma browser_call_answered:
  "browser_call fw ops env net (\<lambda>n. \<lambda>b. answered f (fetch n (browser_request path meth body) b)) w =
     (f (route_response fw (auth_route ops env net (browser_request path meth body) w)),
      case auth_route ops env net (browser_request path meth body) w of Some a \<Rightarrow> snd a | None \<Rightarrow> w)"
  by (simp add: browser_call_def answered_def fetch_def)

lemma browser_request_simps [simp]:
  "rq_url (browser_request path meth body) = path" "rq_method (browser_request path meth body) = meth"
  "rq_body (browser_request path meth (Some v)) = TextBody (json_stringify v)"
  "rq_body (browser_request path meth None) = NoBody"
  by (simp_all add: browser_request_def)

lemma read_answer_json:
  "plain_json v \<Longrightarrow> read_answer (wire_of (json_reply st h v)) =
     (if 200 \<le> st \<and> st < 300 then Inr v else Inl (throwFromResponse st v h))"
  by (simp add: read_answer_def parseJsonSafe_def wire_of_def json_reply_def json_of_text_stringify
      response_ok_def)

text \<open>An error reply of a handler, as the browser reads it.\<close>

definition plain_details :: "http_response \<Rightarrow> json \<Rightarrow> bool" where
  "plain_details r v = (case ae_details (parseErrorResponse (rs_status r) v (Some (rs_headers r))) of
     Some d \<Rightarrow> plain_json d | None \<Rightarrow> True)"

lemma refusal_read:
  assumes "400 \<le> rs_status r" and "plain_details r v"
  shows "read_answer (wire_of (errorJsonResponse (rs_status r) v (Some (rs_headers r)))) =
    Inl (ApiClientErr (carried_error (rs_status r) v (Some (rs_headers r))))"
  using error_reply_read [OF assms(2) [unfolded plain_details_def]] assms(1)
  by (simp add: read_answer_def response_ok_def throwFromResponse_def)

section \<open>A sign-in from the form to the cookies\<close>

definition sign_in ::
  "framework \<Rightarrow> 'j jar_ops \<Rightarrow> env \<Rightarrow> network \<Rightarrow> json \<Rightarrow> 'j server \<Rightarrow> (js_exn + json) \<times> 'j server" where
  "sign_in fw ops env net values w = browser_call fw ops env net (\<lambda>n. loginRequest n values) w"

lemma sign_in_eq:
  "sign_in fw ops env net values w =
     (read_answer (route_answer (fw_crash fw) (fst (post_login ops env net (json_stringify values) w))),
      snd (post_login ops env net (json_stringify values) w))"
proof -
  have "auth_route ops env net (browser_request ''/api/auth/login'' ''POST'' (Some values)) w
      = Some (post_login ops env net (json_stringify values) w)"
    by (simp add: auth_route_def)
  then show ?thesis
    unfolding sign_in_def loginRequest_def browser_call_answered by (simp add: route_response_def)
qed

lemma post_login_plain:
  assumes "values = JObj [(''username'', JStr u), (''password'', JStr p)]" "js_trim u \<noteq> []" "p \<noteq> []"
  shows "post_login ops env net (json_stringify values) w =
    login_outcome ops env (net (sent w) (login_request env (js_trim u) p))
      (w\<lparr>sent := sent w @ [login_request env (js_trim u) p]\<rparr>)"
proof -
  have "json_parse (json_stringify values) = Some values" by (rule json_roundtrip) (simp add: assms(1))
  then show ?thesis using assms
    by (simp add: post_login_def with_json_body_def string_field_def Let_def fetch_def as_string_def)
qed

text \<open>C32: a sign-in, composed of \<open>loginRequest\<close> in the browser, the route it reaches, its handler
  and the backend: with a name that is not blank and a password, the backend is asked exactly once, with the
  trimmed name; when it accepts with both tokens the form gets the success object and the
  jar holds these tokens; when it refuses, the form gets the status, code, message, details
  and request id of the refusal, and the cookies are what they were.\<close>

theorem sign_in_end_to_end:
  assumes "cookie_store ops" and "js_trim u \<noteq> []" and "p \<noteq> []"
    and "net (sent w) (login_request env (js_trim u) p) = Inr r" and "rs_body r = Inr body"
    and "sign_in fw ops env net (JObj [(''username'', JStr u), (''password'', JStr p)]) w = (result, w')"
  shows "sent w' = sent w @ [login_request env (js_trim u) p]
    \<and> (response_ok r \<longrightarrow> (case read_token_pair (json_of_text body) of
          Some t \<Rightarrow> (plain_json (at_expires_in t) \<longrightarrow>
                       result = Inr (JObj [(''success'', JBool True), (''expires_in'', at_expires_in t)]))
               \<and> getAccessToken ops w' = Some (at_access t) \<and> getRefreshToken ops w' = Some (at_refresh t)
        | None \<Rightarrow> jar w' = jar w \<and> (\<exists>e. result = Inl (ApiClientErr e) \<and> ae_status e = 502 \<and> ae_code e = ''UNKNOWN_ERROR'')))
    \<and> (400 \<le> rs_status r \<longrightarrow> jar w' = jar w \<and>
        (plain_details r (json_of_text body) \<longrightarrow>
          result = Inl (ApiClientErr (carried_error (rs_status r) (json_of_text body) (Some (rs_headers r))))))"
proof -
  let ?rq = "login_request env (js_trim u) p" and ?v = "json_of_text body"
  have post: "post_login ops env net (json_stringify (JObj [(''username'', JStr u), (''password'', JStr p)])) w =
      login_outcome ops env (Inr r) (w\<lparr>sent := sent w @ [?rq]\<rparr>)"
    unfolding post_login_plain [OF refl assms(2,3)] by (simp add: assms(4))
  have out: "result = read_answer (route_answer (fw_crash fw) (fst (login_outcome ops env (Inr r) (w\<lparr>sent := sent w @ [?rq]\<rparr>))))"
    "w' = snd (login_outcome ops env (Inr r) (w\<lparr>sent := sent w @ [?rq]\<rparr>))"
    using assms(6) unfolding sign_in_eq post by simp_all
  have v: "parseJsonSafe r = Inr ?v" by (simp add: parseJsonSafe_def assms(5))
  have bad: "read_answer (wire_of (json_reply 502 [] (error_envelope ''UNKNOWN_ERROR'' m))) =
      Inl (throwFromResponse 502 (error_envelope ''UNKNOWN_ERROR'' m) [])" for m
    by (rule trans [OF read_answer_json]) (simp_all add: error_envelope_def)
  have code: "ae_code (parseErrorResponse 502 (error_envelope ''UNKNOWN_ERROR'' ''Invalid login response'') (Some [])) = ''UNKNOWN_ERROR''"
    by code_simp
  show ?thesis
  proof (cases "response_ok r")
    case True
    then show ?thesis
      using cookie_store.get_after_setAuthCookies [OF assms(1)]
      by (auto simp: out login_outcome_def v route_answer_def bad code throwFromResponse_def read_answer_json
          response_ok_def split: option.splits)
  next
    case False
    then show ?thesis using refusal_read [of r ?v] by (auto simp: out login_outcome_def v route_answer_def)
  qed
qed

definition ex_framework :: framework where
  "ex_framework = \<lparr>fw_crash = ex_response 500 [], fw_missing = ex_response 404 []\<rparr>"

lemma sign_in_end_to_end_witness:
  "getAccessToken mem_ops (snd (sign_in ex_framework mem_ops ex_env ex_login_net
     (JObj [(''username'', JStr '' ada ''), (''password'', JStr ''pw'')]) ex_server)) = Some ''new''"
proof -
  let ?body = "json_stringify (JObj [(''access_token'', JStr ''new''), (''refresh_token'', JStr ''r2'')])"
  have h: "js_trim '' ada '' \<noteq> []" "''pw'' \<noteq> []"
    "ex_login_net (sent ex_server) (login_request ex_env (js_trim '' ada '') ''pw'') = Inr (ex_response 200 ?body)"
    "rs_body (ex_response 200 ?body) = Inr ?body"
    by (code_simp, simp, simp add: ex_login_net_def, simp add: ex_response_def)
  have t: "read_token_pair (json_of_text ?body) = Some \<lparr>at_access = ''new'', at_refresh = ''r2'', at_expires_in = JNum 900\<rparr>"
    by code_simp
  have ok: "response_ok (ex_response 200 ?body)" by (simp add: response_ok_def ex_response_def)
  show ?thesis
    using sign_in_end_to_end [where ops = mem_ops and u = "'' ada ''" and p = "''pw''" and net = ex_login_net
        and w = ex_server and env = ex_env and r = "ex_response 200 ?body" and body = ?body
        and fw = ex_framework, OF cookie_store_mem h prod.collapse [symmetric]] ok t
    by simp
qed

section \<open>An error on its way to the browser\<close>

text \<open>The calls that go through the two proxies of lib/auth/upstream.ts, with a body their handlers accept.\<close>

definition public_calls ::
  "string \<Rightarrow> string \<Rightarrow> string \<Rightarrow> (network \<Rightarrow> world \<Rightarrow> (js_exn + json) \<times> world) list" where
  "public_calls email token password =
     [\<lambda>n. forgotPasswordRequest n (JObj [(''email'', JStr email)]), \<lambda>n. verifyEmailRequest n token,
      \<lambda>n. confirmEmailChange n token, \<lambda>n. resetPasswordRequest n token password]"

definition authenticated_calls ::
  "string \<Rightarrow> string \<Rightarrow> (network \<Rightarrow> world \<Rightarrow> (js_exn + json) \<times> world) list" where
  "authenticated_calls current password =
     [\<lambda>n. changePasswordRequest n current password, \<lambda>n. sendVerificationRequest n, \<lambda>n. listSessionsRequest n]"

lemma auth_fetch_refused:
  assumes "auth_route ops env net (browser_request path meth body) w
      = Some (Inr (errorJsonResponse (rs_status r) v (Some (rs_headers r))), w')"
    and "400 \<le> rs_status r" and "plain_details r v"
  shows "fst (browser_call fw ops env net (\<lambda>n. authRouteFetch n path meth body) w) =
    Inl (ApiClientErr (carried_error (rs_status r) v (Some (rs_headers r))))"
  unfolding authRouteFetch_def browser_call_answered assms(1)
  using refusal_read [OF assms(2,3)] by (simp add: route_response_def route_answer_def)

lemma register_refused:
  assumes "400 \<le> rs_status r" and "plain_details r v"
  shows "read_answer (wire_of ((errorJsonResponse (rs_status r) v (Some (rs_headers r)))\<lparr>rp_headers := []\<rparr>)) =
    Inl (ApiClientErr (let e = carried_error (rs_status r) v (Some (rs_headers r))
                       in e\<lparr>ae_requestId := readRequestId (ae_details e) None\<rparr>))"
proof -
  let ?e = "parseErrorResponse (rs_status r) v (Some (rs_headers r))"
  have reply: "(errorJsonResponse (rs_status r) v (Some (rs_headers r)))\<lparr>rp_headers := []\<rparr>
      = json_reply (rs_status r) [] (error_body ?e)"
    by (simp add: errorJsonResponse_eq json_reply_def)
  have plain: "plain_json (error_body ?e)"
    using assms(2) by (simp add: plain_error_body plain_details_def)
  have none: "readRequestId d (Some []) = readRequestId d None"
    "readRetryAfterSeconds d (Some []) = readRetryAfterSeconds d None" for d
    by (simp_all add: readRequestId_def readRetryAfterSeconds_def opt_header_def headers_get_def split: option.split)
  have "parseErrorResponse (rs_status r) (error_body ?e) (Some []) = ?e\<lparr>
      ae_requestId := readRequestId (ae_details ?e) None, ae_retryAfter := readRetryAfterSeconds (ae_details ?e) None\<rparr>"
    unfolding parse_error_body [OF parseErrorResponse_nonempty parseErrorResponse_details_not_null] none
    by (rule api_error.equality) simp_all
  then show ?thesis
    unfolding reply read_answer_json [OF plain] using assms(1)
    by (simp add: throwFromResponse_def carried_error_def Let_def)
qed

lemma pass_json_refused:
  "400 \<le> rs_status r \<Longrightarrow> rs_body r = Inr body \<Longrightarrow>
   pass_json (Inr r) = Inr (errorJsonResponse (rs_status r) (json_of_text body) (Some (rs_headers r)))"
  by (simp add: pass_json_def parseJsonSafe_def response_ok_def)


definition ex_refusal :: http_response where
  "ex_refusal = \<lparr>rs_status = 429, rs_statusText = [], rs_headers = [(''retry-after'', ''7''), (''x-request-id'', ''r-1'')],
     rs_body = Inr (json_stringify (JObj [(''detail'', JStr ''slow down'')]))\<rparr>"


end
