(* ===== verification/Chat_Protocol.thy ===== *)
theory Chat_Protocol
  imports Streaming_Chat
begin

text \<open>
  What the chat hook promises, without buffers, timers, parsers and controllers: a status, the
  number of runs started and the set of runs that are open.  Every step of the hook of
  Streaming_Chat is a step of this protocol.
\<close>

record protocol =
  pr_status :: chat_status
  pr_started :: nat
  pr_open :: "nat set"

text \<open>
  A run is opened once, by \<open>start\<close>, and closed once, with one of the three final statuses; the
  component can stop a busy chat and clear it at any time; while a run is open its answer may
  begin to stream.
\<close>

inductive protocol_step :: "protocol \<Rightarrow> protocol \<Rightarrow> bool" where
  skip: "protocol_step p p"
| begin_run: "protocol_step p (p\<lparr>pr_status := Sending, pr_started := Suc (pr_started p),
      pr_open := insert (pr_started p) (pr_open p)\<rparr>)"
| clear: "protocol_step p (p\<lparr>pr_status := Idle\<rparr>)"
| cancel: "pr_status p \<in> {Sending, Streaming} \<Longrightarrow> protocol_step p (p\<lparr>pr_status := SCancelled\<rparr>)"
| answer: "i \<in> pr_open p \<Longrightarrow> protocol_step p (p\<lparr>pr_status := Streaming\<rparr>)"
| close: "i \<in> pr_open p \<Longrightarrow> s \<in> {SCompleted, SError, SCancelled} \<Longrightarrow>
    protocol_step p (p\<lparr>pr_status := s, pr_open := pr_open p - {i}\<rparr>)"

inductive protocol_steps :: "protocol \<Rightarrow> protocol \<Rightarrow> bool" where
  refl: "protocol_steps p p"
| trans: "protocol_steps p q \<Longrightarrow> protocol_step q r \<Longrightarrow> protocol_steps p r"

inductive_cases protocol_stepE: "protocol_step p q"

definition protocol_start :: protocol where
  "protocol_start = \<lparr>pr_status = Idle, pr_started = 0, pr_open = {}\<rparr>"

definition protocol_of :: "hook \<Rightarrow> protocol" where
  "protocol_of h = \<lparr>pr_status = cs_status (h_state h), pr_started = length (h_runs h),
     pr_open = {i. phase_of i h \<noteq> Finished}\<rparr>"

lemma protocol_eqI:
  "pr_status p = pr_status q \<Longrightarrow> pr_started p = pr_started q \<Longrightarrow> pr_open p = pr_open q \<Longrightarrow> p = (q :: protocol)"
  by simp

lemma protocol_of_sel [simp]:
  "pr_status (protocol_of h) = cs_status (h_state h)"
  "pr_started (protocol_of h) = length (h_runs h)"
  "pr_open (protocol_of h) = {i. phase_of i h \<noteq> Finished}"
  by (simp_all add: protocol_of_def)

lemma protocol_of_cong:
  "cs_status (h_state h) = cs_status (h_state g) \<Longrightarrow> h_runs h = h_runs g \<Longrightarrow> protocol_of h = protocol_of g"
  by (simp add: protocol_of_def phase_of_def)

text \<open>The parts of the operations the protocol sees.\<close>

lemma runs_frame [simp]:
  "h_runs (clearFlushTimers h) = h_runs h" "h_runs (abort_current h) = h_runs h"
  "cs_status (h_state (clearFlushTimers h)) = cs_status (h_state h)"
  "cs_status (h_state (abort_current h)) = cs_status (h_state h)"
  by (simp_all add: clearFlushTimers_def abort_current_def split: option.split)

lemma flush_frame [simp]: "h_runs (flushTokens h) = h_runs h"
  "cs_status (h_state (flushTokens h)) = cs_status (h_state h)"
  by (simp_all add: flushTokens_def Let_def)

lemma calls_frame [simp]: "h_runs (handler_calls raf cs h) = h_runs h"
  "cs_status (h_state (handler_calls raf cs h)) = cs_status (h_state h)"
  using handler_calls_frame [of raf cs h] by auto

lemma phase_after_set:
  "phase_of j (set_phase i ph h) = (if i = j \<and> i < length (h_runs h) then ph else phase_of j h)"
  by (simp add: phase_of_def set_phase_def)

lemma open_set_phase:
  "phase_of i h \<noteq> Finished \<Longrightarrow> ph \<noteq> Finished \<Longrightarrow>
   {j. phase_of j (set_phase i ph h) \<noteq> Finished} = {j. phase_of j h \<noteq> Finished}"
  by (auto simp: phase_after_set)

lemma end_run_protocol:
  "protocol_of (end_run i h) = (protocol_of h)\<lparr>pr_open := {j. phase_of j h \<noteq> Finished} - {i}\<rparr>"
proof (rule protocol_eqI)
  have "phase_of j (end_run i h) = (if j = i then Finished else phase_of j h)" for j
    by (cases "j = i") (simp_all add: end_run_def phase_of_def set_phase_def nth_list_update)
  then show "pr_open (protocol_of (end_run i h)) = pr_open ((protocol_of h)\<lparr>pr_open := {j. phase_of j h \<noteq> Finished} - {i}\<rparr>)"
    by auto
qed (simp_all add: end_run_def set_phase_def)

lemma phase_of_runs: "h_runs h = h_runs g \<Longrightarrow> phase_of i h = phase_of i g"
  by (simp add: phase_of_def)

lemma ends_step:
  assumes "phase_of i h \<noteq> Finished" and "h_runs g = h_runs h"
    and "cs_status (h_state g) \<in> {SCompleted, SError, SCancelled}"
  shows "protocol_step (protocol_of h) (protocol_of (end_run i g))"
proof -
  have "protocol_of (end_run i g) =
      (protocol_of h)\<lparr>pr_status := cs_status (h_state g), pr_open := pr_open (protocol_of h) - {i}\<rparr>"
    unfolding end_run_protocol by (rule protocol_eqI) (simp_all add: assms(2) phase_of_runs [OF assms(2)])
  with protocol_step.close [of i "protocol_of h", OF _ assms(3)] assms(1) show ?thesis by simp
qed

lemma fail_run_step: "phase_of i h \<noteq> Finished \<Longrightarrow> protocol_step (protocol_of h) (protocol_of (fail_run i e h))"
  unfolding fail_run_def Let_def by (rule ends_step) (simp_all add: set_state_def)

lemma finish_run_step:
  "phase_of i h \<noteq> Finished \<Longrightarrow> h_runs g = h_runs h \<Longrightarrow>
   protocol_step (protocol_of h) (protocol_of (finish_run i t g))"
  unfolding finish_run_def Let_def
  by (rule ends_step) (simp_all add: set_state_def split: option.split stream_terminal.split)

lemma finish_reading_step:
  "phase_of i h \<noteq> Finished \<Longrightarrow> h_runs g = h_runs h \<Longrightarrow>
   protocol_step (protocol_of h) (protocol_of (finish_reading raf i p t g))"
  by (simp add: finish_reading_def finish_run_step split: prod.split)

lemma skip_step: "protocol_of g = protocol_of h \<Longrightarrow> protocol_step (protocol_of h) (protocol_of g)"
  using protocol_step.skip [of "protocol_of h"] by simp

lemma start_step: "protocol_step (protocol_of h) (protocol_of (start inp h))"
proof -
  have runs: "h_runs (start inp h) = h_runs h @ [AwaitResponse]"
    "cs_status (h_state (start inp h)) = Sending" by (simp_all add: start_def Let_def)
  have "protocol_of (start inp h) = (protocol_of h)\<lparr>pr_status := Sending,
      pr_started := Suc (pr_started (protocol_of h)),
      pr_open := insert (pr_started (protocol_of h)) (pr_open (protocol_of h))\<rparr>"
    by (rule protocol_eqI) (auto simp: runs phase_of_def nth_append less_Suc_eq)
  then show ?thesis using protocol_step.begin_run [of "protocol_of h"] by simp
qed

lemma stop_step: "protocol_step (protocol_of h) (protocol_of (stop h))"
proof (cases "cs_status (h_state h) \<in> {Sending, Streaming}")
  case True
  then have "protocol_of (stop h) = (protocol_of h)\<lparr>pr_status := SCancelled\<rparr>"
    by (intro protocol_eqI) (auto simp: stop_def Let_def phase_of_def clearFlushTimers_def abort_current_def split: option.splits)
  with protocol_step.cancel [of "protocol_of h"] True show ?thesis by simp
next
  case False
  then show ?thesis
    by (intro skip_step protocol_of_cong)
       (auto simp: stop_def Let_def clearFlushTimers_def abort_current_def split: option.splits)
qed

lemma reset_step: "protocol_step (protocol_of h) (protocol_of (reset h))"
proof -
  have "protocol_of (reset h) = (protocol_of h)\<lparr>pr_status := Idle\<rparr>"
    by (rule protocol_eqI)
      (auto simp: reset_def initialState_def phase_of_def clearFlushTimers_def abort_current_def split: option.splits)
  then show ?thesis using protocol_step.clear [of "protocol_of h"] by simp
qed

lemma response_step:
  assumes "phase_of i h \<noteq> Finished"
  shows "protocol_step (protocol_of h) (protocol_of (response_arrives i r b h))"
proof -
  let ?g = "set_state (\<lambda>s. s\<lparr>cs_status := Streaming\<rparr>) h"
  have "protocol_of (set_phase i (AwaitErrorText r) h) = protocol_of h"
    by (rule protocol_eqI) (simp_all add: open_set_phase assms, simp_all add: set_phase_def)
  moreover have same: "phase_of j ?g = phase_of j h" for j
    by (rule phase_of_runs) (simp add: set_state_def)
  have "phase_of i ?g \<noteq> Finished" using assms by (simp add: same)
  then have "protocol_of (set_phase i (Reading createSseParser) ?g) = (protocol_of h)\<lparr>pr_status := Streaming\<rparr>"
    by (intro protocol_eqI) (simp_all add: open_set_phase same, simp_all add: set_phase_def set_state_def)
  ultimately show ?thesis
    using skip_step fail_run_step [OF assms] protocol_step.answer [of i "protocol_of h"] assms
    by (simp add: response_arrives_def)
qed

lemma chunk_step:
  assumes "phase_of i h \<noteq> Finished"
  shows "protocol_step (protocol_of h) (protocol_of (chunk_arrives raf i p c h))"
proof -
  have "protocol_of (set_phase i (Reading q) (handler_calls raf cs h)) = protocol_of h" for q cs
    by (rule protocol_eqI) (simp_all add: open_set_phase assms, simp_all add: set_phase_def)
  then show ?thesis
    by (auto simp: chunk_arrives_def finish_reading_step [OF assms] intro: skip_step
        split: prod.split option.split)
qed

lemma hook_step_protocol: "protocol_step (protocol_of h) (protocol_of (hook_step raf ev h))"
proof (cases ev)
  case RafFires
  then show ?thesis by (auto simp: raf_fires_def intro!: skip_step protocol_of_cong)
next
  case TimerFires
  then show ?thesis by (auto simp: timer_fires_def intro!: skip_step protocol_of_cong)
next
  case Unmount
  then show ?thesis by (auto simp: unmount_def intro!: skip_step protocol_of_cong)
qed (auto simp: start_step stop_step reset_step response_step chunk_step fail_run_step finish_reading_step
    protocol_step.skip split: run_phase.split option.split)

text \<open>C6: the hook refines the protocol: after any sequence of calls, timers and answers the state it
  shows is one the protocol can reach, step by step.  Hence a run is started once and ends at
  most once, with completion, an error or a cancellation, and nothing but an open run can
  complete the chat or fail it.\<close>

theorem hook_refines_protocol:
  "protocol_steps protocol_start (protocol_of (hook_run raf events initial_hook))
   \<and> pr_open (protocol_of (hook_run raf events initial_hook)) \<subseteq>
       {..<pr_started (protocol_of (hook_run raf events initial_hook))}
   \<and> protocol_step (protocol_of h) (protocol_of (hook_step raf ev h))"
proof (intro conjI)
  have init: "protocol_of initial_hook = protocol_start"
    by (rule protocol_eqI) (simp_all add: protocol_start_def initial_hook_def initialState_def phase_of_def)
  show "protocol_steps protocol_start (protocol_of (hook_run raf events initial_hook))"
  proof (induction events rule: rev_induct)
    case Nil
    show ?case by (simp add: hook_run_def init protocol_steps.refl)
  next
    case (snoc ev events)
    then show ?case
      using protocol_steps.trans [OF snoc hook_step_protocol] by (simp add: hook_run_def)
  qed
qed (auto simp: phase_of_def hook_step_protocol split: if_splits)

end
