(* ===== verification/Query_Client.thy ===== *)
theory Query_Client
  imports Api_Client
begin

text \<open>
  providers/query-provider.tsx: how often a query is tried.  The library calls the \<open>retry\<close>
  function with the number of failures before the present one and tries again when it says so;
  mutations are never tried again.
\<close>

definition NO_RETRY_STATUSES :: "nat list" where
  "NO_RETRY_STATUSES = [401, 403, 404, 409, 422, 429]"

definition query_retry :: "nat \<Rightarrow> js_exn \<Rightarrow> bool" where
  "query_retry failureCount error =
     (case error of
        ApiClientErr e \<Rightarrow>
          if ae_status e \<in> set NO_RETRY_STATUSES then False
          else if shouldRetryStatus (ae_status e) then failureCount < 2 else False
      | _ \<Rightarrow> failureCount < 2)"

lemma query_retry_bound: "query_retry n e \<Longrightarrow> n < 2"
  by (auto simp: query_retry_def split: js_exn.splits if_splits)

text \<open>An error that another try may mend: the gateway errors and what is no answer at all.\<close>

definition transient :: "js_exn \<Rightarrow> bool" where
  "transient e = (case e of ApiClientErr x \<Rightarrow> ae_status x \<in> {502, 503, 504} | _ \<Rightarrow> True)"

lemma query_retry_transient: "query_retry n e = (n < 2 \<and> transient e)"
  by (auto simp: query_retry_def transient_def shouldRetryStatus_def NO_RETRY_STATUSES_def split: js_exn.split)

text \<open>
  The library around it (TanStack Query, not part of the repository) is a parameter: given the
  outcome of every try, \<open>run answer n\<close> makes try \<open>n\<close> and asks \<open>retry\<close> after a failure.  The result
  carries the number of tries made.
\<close>

locale query_retrier =
  fixes run :: "(nat \<Rightarrow> js_exn + 'a) \<Rightarrow> nat \<Rightarrow> (js_exn + 'a) \<times> nat"
  assumes run_step: "run answer n =
     (case answer n of
        Inr v \<Rightarrow> (Inr v, Suc n)
      | Inl e \<Rightarrow> if query_retry n e then run answer (Suc n) else (Inl e, Suc n))"

context query_retrier
begin

lemma run_tries:
  assumes "run answer n = (r, k)" and "n \<le> 2"
  shows "n < k \<and> k \<le> 3 \<and> r = answer (k - 1)
    \<and> (\<forall>i. n \<le> i \<and> i < k - 1 \<longrightarrow> (\<exists>e. answer i = Inl e \<and> transient e))
    \<and> (\<forall>e. r = Inl e \<and> transient e \<longrightarrow> k = 3)"
  using assms
proof (induction "2 - n" arbitrary: n rule: less_induct)
  case less
  show ?case
  proof (cases "answer n")
    case (Inr v)
    with less.prems show ?thesis by (auto simp: run_step [of answer n])
  next
    case (Inl e)
    show ?thesis
    proof (cases "query_retry n e")
      case True
      with Inl less.prems(1) have run: "run answer (Suc n) = (r, k)" by (simp add: run_step [of answer n])
      have "Suc n \<le> 2" using query_retry_bound [OF True] by simp
      have ih: "Suc n < k \<and> k \<le> 3 \<and> r = answer (k - 1)
        \<and> (\<forall>i. Suc n \<le> i \<and> i < k - 1 \<longrightarrow> (\<exists>e. answer i = Inl e \<and> transient e))
        \<and> (\<forall>e. r = Inl e \<and> transient e \<longrightarrow> k = 3)"
        by (rule less.hyps [OF _ run]) (use \<open>Suc n \<le> 2\<close> in simp_all)
      have early: "\<forall>i. Suc n \<le> i \<and> i < k - 1 \<longrightarrow> (\<exists>e. answer i = Inl e \<and> transient e)"
        using ih by (elim conjE)
      have first: "answer n = Inl e \<and> transient e" using Inl True by (simp add: query_retry_transient)
      have "\<exists>e. answer i = Inl e \<and> transient e" if "n \<le> i" "i < k - 1" for i
      proof (cases "i = n")
        case True
        with first show ?thesis by (intro exI [of _ e]) simp
      next
        case False
        with that have "Suc n \<le> i \<and> i < k - 1" by simp
        with early [rule_format, of i] show ?thesis by simp
      qed
      then have tries: "\<forall>i. n \<le> i \<and> i < k - 1 \<longrightarrow> (\<exists>e. answer i = Inl e \<and> transient e)"
        by (intro allI impI) (elim conjE)
      have "n < k" using ih by (elim conjE) (rule Suc_lessD)
      with ih tries show ?thesis by (elim conjE) (intro conjI; assumption)
    next
      case False
      with Inl less.prems show ?thesis by (auto simp: run_step [of answer n] query_retry_transient)
    qed
  qed
qed

end

text \<open>The loop written out is such a run: it ends because \<open>query_retry\<close> gives up.\<close>

function run_query :: "(nat \<Rightarrow> js_exn + 'a) \<Rightarrow> nat \<Rightarrow> (js_exn + 'a) \<times> nat" where
  "run_query answer n =
     (case answer n of
        Inr v \<Rightarrow> (Inr v, Suc n)
      | Inl e \<Rightarrow> if query_retry n e then run_query answer (Suc n) else (Inl e, Suc n))"
  by pat_completeness auto

termination run_query
  by (relation "measure (\<lambda>(answer, n). 2 - n)") (auto dest: query_retry_bound)

declare run_query.simps [simp del]

interpretation retrier: query_retrier run_query
  by unfold_locales (rule run_query.simps)

text \<open>C36: a query ends after at most three tries, whatever the backend does: the result is the
  outcome of the last try; every earlier one failed in a way another try may mend (a network
  failure or a 502, 503 or 504), so a refusal such as 401, 404 or 429 is never repeated; and
  a transient failure is reported only after the third try.  The loop is the library's, here
  any \<open>run\<close> that asks the program's \<open>query_retry\<close> after each failure.\<close>

theorem query_tries:
  assumes "query_retrier run"
  shows "case run answer 0 of (r, k) \<Rightarrow>
     0 < k \<and> k \<le> 3 \<and> r = answer (k - 1)
     \<and> list_all (\<lambda>i. case answer i of Inl e \<Rightarrow> transient e \<and> query_retry i e | Inr _ \<Rightarrow> False) [0..<k - 1]
     \<and> (case r of Inl e \<Rightarrow> \<not> query_retry (k - 1) e | Inr _ \<Rightarrow> True)"
proof -
  obtain r k where run: "run answer 0 = (r, k)" by (cases "run answer 0")
  from query_retrier.run_tries [OF assms run] show ?thesis
    by (fastforce simp: run list_all_iff query_retry_transient split: sum.split)
qed

text \<open>A gateway error, then a refusal: two tries.\<close>

definition ex_failure :: "nat \<Rightarrow> js_exn" where
  "ex_failure s = ApiClientErr \<lparr>ae_status = s, ae_code = [], ae_message = [], ae_details = None,
     ae_requestId = None, ae_retryAfter = None\<rparr>"

lemma query_tries_witness:
  "run_query (\<lambda>i. Inl (ex_failure (if i = 0 then 502 else 403)) :: js_exn + nat) 0 = (Inl (ex_failure 403), 2)
   \<and> transient (ex_failure 502) \<and> \<not> query_retry 1 (ex_failure 403)"
proof -
  let ?a = "\<lambda>i. Inl (ex_failure (if i = 0 then 502 else 403)) :: js_exn + nat"
  have "run_query ?a 0 = (Inl (ex_failure 403), 2)" by code_simp
  with query_tries [OF retrier.query_retrier_axioms, of ?a] show ?thesis
    by simp
qed

end
