(* ===== verification/Form_Schemas.thy ===== *)
theory Form_Schemas
  imports Auth_Routes Text_Utils Feature_Rules
begin

text \<open>
  The form schemas of features/.  A schema is a value here as it is in the source; what it
  means is the library's business (zod), so the parser is a parameter, with the documented
  meaning of each constructor as the locale \<open>zod\<close> and an executable instance.  The formats of
  the library (\<open>email\<close>, \<open>uuid\<close>, \<open>url\<close>) are a parameter too.  Messages are kept where the code
  itself adds the issue.
\<close>

section \<open>Schemas\<close>

datatype string_check =
    Trim | MinLength nat | MaxLength nat | Pattern "string \<Rightarrow> bool" | Format string

datatype schema =
    ZString "string_check list"
  | ZInt int "int option"
  | ZNumber
  | ZBool
  | ZEnum "string list"
  | ZLiteral string
  | ZArray schema
  | ZOptional schema
  | ZNullable schema
  | ZDefault schema json
  | ZOr schema schema
  | ZObject "(string \<times> schema) list"
  | ZRefine schema "json \<Rightarrow> bool"

type_synonym formats = "string \<Rightarrow> string \<Rightarrow> bool"

text \<open>The checks of a string run in order; \<open>trim\<close> changes the value.\<close>

fun run_checks :: "formats \<Rightarrow> string_check list \<Rightarrow> string \<Rightarrow> string option" where
  "run_checks fmt [] s = Some s"
| "run_checks fmt (c # cs) s =
     (case c of
        Trim \<Rightarrow> run_checks fmt cs (js_trim s)
      | MinLength n \<Rightarrow> if n \<le> length s then run_checks fmt cs s else None
      | MaxLength n \<Rightarrow> if length s \<le> n then run_checks fmt cs s else None
      | Pattern p \<Rightarrow> if p s then run_checks fmt cs s else None
      | Format f \<Rightarrow> if fmt f s then run_checks fmt cs s else None)"

definition int_in :: "int \<Rightarrow> int option \<Rightarrow> json \<Rightarrow> bool" where
  "int_in lo hi v = (case v of JNum q \<Rightarrow> q = of_int \<lfloor>q\<rfloor> \<and> of_int lo \<le> q
       \<and> (case hi of Some h \<Rightarrow> q \<le> of_int h | None \<Rightarrow> True) | _ \<Rightarrow> False)"

fun all_some :: "('a \<Rightarrow> 'b option) \<Rightarrow> 'a list \<Rightarrow> 'b list option" where
  "all_some f [] = Some []"
| "all_some f (x # xs) =
     (case f x of None \<Rightarrow> None | Some y \<Rightarrow> (case all_some f xs of None \<Rightarrow> None | Some ys \<Rightarrow> Some (y # ys)))"

lemma all_some_cong [fundef_cong]:
  "xs = ys \<Longrightarrow> (\<And>x. x \<in> set ys \<Longrightarrow> f x = g x) \<Longrightarrow> all_some f xs = all_some g ys"
  by (induction xs arbitrary: ys) (auto cong: option.case_cong)

text \<open>The fields of an object: a field whose parsed value is \<open>undefined\<close> is left out.\<close>

definition defined_fields :: "(string \<times> json option) list \<Rightarrow> json_obj" where
  "defined_fields fs = concat (map (\<lambda>(k, v). case v of Some x \<Rightarrow> [(k, x)] | None \<Rightarrow> []) fs)"

text \<open>
  A value that may be \<open>undefined\<close> goes in, and the parsed value comes out unless there are
  issues.
\<close>

type_synonym parser = "schema \<Rightarrow> json option \<Rightarrow> json option option"

locale zod =
  fixes fmt :: formats and parse :: parser
  assumes string_law: "parse (ZString cs) v =
      (case v of Some (JStr s) \<Rightarrow> map_option (\<lambda>t. Some (JStr t)) (run_checks fmt cs s) | _ \<Rightarrow> None)"
    and int_law: "parse (ZInt lo hi) v = (case v of Some x \<Rightarrow> if int_in lo hi x then Some (Some x) else None | None \<Rightarrow> None)"
    and number_law: "parse ZNumber v = (case v of Some (JNum q) \<Rightarrow> Some (Some (JNum q)) | _ \<Rightarrow> None)"
    and bool_law: "parse ZBool v = (case v of Some (JBool b) \<Rightarrow> Some (Some (JBool b)) | _ \<Rightarrow> None)"
    and enum_law: "parse (ZEnum ss) v = (case v of Some (JStr s) \<Rightarrow> if s \<in> set ss then Some (Some (JStr s)) else None | _ \<Rightarrow> None)"
    and literal_law: "parse (ZLiteral s) v = (if v = Some (JStr s) then Some v else None)"
    and array_law: "parse (ZArray z) v =
      (case v of Some (JArr xs) \<Rightarrow> map_option (\<lambda>ys. Some (JArr ys)) (all_some (\<lambda>x. Option.bind (parse z (Some x)) id) xs) | _ \<Rightarrow> None)"
    and optional_law: "parse (ZOptional z) v = (if v = None then Some None else parse z v)"
    and nullable_law: "parse (ZNullable z) v = (if v = Some JNull then Some v else parse z v)"
    and default_law: "parse (ZDefault z d) v = (if v = None then Some (Some d) else parse z v)"
    and or_law: "parse (ZOr a b) v = (case parse a v of Some x \<Rightarrow> Some x | None \<Rightarrow> parse b v)"
    and object_law: "parse (ZObject fs) v =
      (case v of Some (JObj kvs) \<Rightarrow>
         map_option (\<lambda>xs. Some (JObj (defined_fields xs)))
           (all_some (\<lambda>(k, z). map_option (Pair k) (parse z (map_of kvs k))) fs)
       | _ \<Rightarrow> None)"
    and refine_law: "parse (ZRefine z p) v =
      (case parse z v of Some (Some x) \<Rightarrow> if p x then Some (Some x) else None | r \<Rightarrow> r)"

text \<open>An executable instance.\<close>

function zparse :: "formats \<Rightarrow> schema \<Rightarrow> json option \<Rightarrow> json option option" where
  "zparse fmt (ZString cs) v =
     (case v of Some (JStr s) \<Rightarrow> map_option (\<lambda>t. Some (JStr t)) (run_checks fmt cs s) | _ \<Rightarrow> None)"
| "zparse fmt (ZInt lo hi) v = (case v of Some x \<Rightarrow> if int_in lo hi x then Some (Some x) else None | None \<Rightarrow> None)"
| "zparse fmt ZNumber v = (case v of Some (JNum q) \<Rightarrow> Some (Some (JNum q)) | _ \<Rightarrow> None)"
| "zparse fmt ZBool v = (case v of Some (JBool b) \<Rightarrow> Some (Some (JBool b)) | _ \<Rightarrow> None)"
| "zparse fmt (ZEnum ss) v = (case v of Some (JStr s) \<Rightarrow> if s \<in> set ss then Some (Some (JStr s)) else None | _ \<Rightarrow> None)"
| "zparse fmt (ZLiteral s) v = (if v = Some (JStr s) then Some v else None)"
| "zparse fmt (ZArray z) v =
     (case v of Some (JArr xs) \<Rightarrow> map_option (\<lambda>ys. Some (JArr ys)) (all_some (\<lambda>x. Option.bind (zparse fmt z (Some x)) id) xs) | _ \<Rightarrow> None)"
| "zparse fmt (ZOptional z) v = (if v = None then Some None else zparse fmt z v)"
| "zparse fmt (ZNullable z) v = (if v = Some JNull then Some v else zparse fmt z v)"
| "zparse fmt (ZDefault z d) v = (if v = None then Some (Some d) else zparse fmt z v)"
| "zparse fmt (ZOr a b) v = (case zparse fmt a v of Some x \<Rightarrow> Some x | None \<Rightarrow> zparse fmt b v)"
| "zparse fmt (ZObject fs) v =
     (case v of Some (JObj kvs) \<Rightarrow>
        map_option (\<lambda>xs. Some (JObj (defined_fields xs)))
          (all_some (\<lambda>(k, z). map_option (Pair k) (zparse fmt z (map_of kvs k))) fs)
      | _ \<Rightarrow> None)"
| "zparse fmt (ZRefine z p) v =
     (case zparse fmt z v of Some (Some x) \<Rightarrow> if p x then Some (Some x) else None | r \<Rightarrow> r)"
  by pat_completeness auto

lemma size_field: "(k, z) \<in> set fs \<Longrightarrow> size z < Suc (size_list (size_prod (\<lambda>_. 0) size) fs)"
  by (induction fs) auto

termination zparse
  by (relation "measure (\<lambda>(fmt, z, v). size z)") (auto dest: size_field)

interpretation zparse: zod fmt "zparse fmt" for fmt
  by unfold_locales simp_all

section \<open>The schemas\<close>

text \<open>Fields that several forms share.\<close>

definition emailField :: schema where
  "emailField = ZString [Trim, MinLength 1, Format ''email'']"

definition nameField :: schema where
  "nameField = ZString [Trim, MinLength 1, MaxLength 200]"

definition requiredField :: schema where
  "requiredField = ZString [Trim, MinLength 1]"

definition optionalText :: "nat \<Rightarrow> schema" where
  "optionalText n = ZOr (ZOptional (ZString [Trim, MaxLength n])) (ZLiteral [])"

definition providerSchema :: schema where
  "providerSchema = ZEnum LLM_PROVIDERS"

text \<open>features/auth/schemas.ts\<close>

definition is_username_char :: "char \<Rightarrow> bool" where
  "is_username_char c = (is_lower_az c \<or> is_upper_az c \<or> is_digit c \<or> c = CHR ''_'' \<or> c = CHR ''-'')"

definition loginSchema :: schema where
  "loginSchema = ZObject [(''username'', ZString [Trim, MinLength 1, MaxLength 100]), (''password'', ZString [MinLength 1])]"

definition passwordField :: schema where
  "passwordField = ZString [MinLength PASSWORD_MIN, MaxLength PASSWORD_MAX]"

definition registerSchema :: schema where
  "registerSchema = ZObject
     [(''email'', emailField),
      (''username'', ZString [Trim, MinLength 3, MaxLength 100,
         Pattern (\<lambda>s. s \<noteq> [] \<and> list_all (\<lambda>c. is_username_char c \<or> c = CHR ''.'') s)]),
      (''password'', passwordField)]"

definition forgotPasswordSchema :: schema where
  "forgotPasswordSchema = ZObject [(''email'', emailField)]"

definition passwords_match :: "json \<Rightarrow> bool" where
  "passwords_match v = (js_prop v ''new_password'' = js_prop v ''confirm_password'')"

definition resetPasswordSchema :: schema where
  "resetPasswordSchema = ZRefine
     (ZObject [(''new_password'', passwordField), (''confirm_password'', ZString [MinLength 1])]) passwords_match"

definition changePasswordSchema :: schema where
  "changePasswordSchema = ZRefine (ZRefine
     (ZObject [(''current_password'', ZString [MinLength 1]), (''new_password'', passwordField),
               (''confirm_password'', ZString [MinLength 1])]) passwords_match)
     (\<lambda>v. js_prop v ''new_password'' \<noteq> js_prop v ''current_password'')"

definition emailChangeRequestSchema :: schema where
  "emailChangeRequestSchema = ZObject [(''new_email'', emailField), (''password'', ZString [MinLength 1])]"

text \<open>features/chat, logs, reviews and settings\<close>

definition chatComposerSchema :: schema where
  "chatComposerSchema = ZObject
     [(''message'', ZString [Trim, MinLength 1, MaxLength CHAT_MESSAGE_MAX]), (''provider'', providerSchema)]"

definition LOG_CONTENT_MIN :: nat where "LOG_CONTENT_MIN = 1"
definition LOG_CONTENT_MAX :: nat where "LOG_CONTENT_MAX = 500000"
definition LOG_ASYNC_THRESHOLD :: nat where "LOG_ASYNC_THRESHOLD = 80000"

definition logWorkspaceSchema :: schema where
  "logWorkspaceSchema = ZEnum [''personal'', ''organization'']"

definition logAnalyzePasteSchema :: schema where
  "logAnalyzePasteSchema = ZObject
     [(''content'', ZString [MinLength LOG_CONTENT_MIN, MaxLength LOG_CONTENT_MAX]),
      (''provider'', providerSchema), (''async_mode'', ZBool), (''workspace'', logWorkspaceSchema)]"

definition string_list_field :: schema where
  "string_list_field = ZDefault (ZOptional (ZArray (ZString []))) (JArr [])"

definition logAnalyzeResultSchema :: schema where
  "logAnalyzeResultSchema = ZObject
     [(''summary'', ZString []), (''severity'', ZEnum [''low'', ''medium'', ''high'', ''critical'']),
      (''detected_errors'', string_list_field), (''possible_causes'', string_list_field),
      (''recommended_actions'', string_list_field), (''diagnostic_commands'', string_list_field),
      (''confidence'', ZNumber), (''disclaimer'', ZString [])]"

text \<open>features/logs/task-utils.ts: what is no result is \<open>null\<close>.\<close>

definition parseTaskLogResult :: "parser \<Rightarrow> json option \<Rightarrow> json option" where
  "parseTaskLogResult parse resultJson =
     (if \<not> truthy resultJson then None
      else case parse logAnalyzeResultSchema resultJson of Some v \<Rightarrow> v | None \<Rightarrow> None)"

definition reviewTypeSchema :: schema where
  "reviewTypeSchema = ZEnum [''dockerfile'', ''kubernetes'', ''terraform'', ''github-actions'', ''gitlab-ci'', ''jenkins'']"

definition reviewFormSchema :: schema where
  "reviewFormSchema = ZObject
     [(''type'', reviewTypeSchema), (''content'', ZString [MinLength 1, MaxLength 500000]),
      (''provider'', providerSchema),
      (''organization_id'', ZNullable (ZOptional (ZString [Format ''uuid'']))),
      (''policy_pack_ids'', ZArray (ZString [Format ''uuid'']))]"

definition profileSettingsSchema :: schema where
  "profileSettingsSchema = ZObject
     [(''display_name'', optionalText 100),
      (''username'', ZString [Trim, MinLength 3, MaxLength 50, Pattern (\<lambda>s. s \<noteq> [] \<and> list_all is_username_char s)]),
      (''timezone'', optionalText 64), (''job_title'', optionalText 100),
      (''avatar_url'', ZOr (ZOptional (ZString [Trim, Format ''url'', Pattern (\<lambda>s. starts_with s ''https://'')])) (ZLiteral []))]"

text \<open>features/organizations, artifacts, policies, providers and usage\<close>

definition orgRoles :: "string list" where
  "orgRoles = [''owner'', ''admin'', ''member'', ''viewer'']"

definition organizationFormSchema :: schema where
  "organizationFormSchema = ZObject
     [(''name'', nameField),
      (''slug'', ZOptional (ZString [Trim, MaxLength 64, Pattern (\<lambda>s. s = [] \<or> valid_slug s)]))]"

definition addMemberSchema :: schema where
  "addMemberSchema = ZObject [(''email'', ZString [Trim, Format ''email'']), (''role'', ZEnum orgRoles)]"

definition updateMemberSchema :: schema where
  "updateMemberSchema = ZObject [(''role'', ZEnum orgRoles)]"

definition inviteMemberSchema :: schema where
  "inviteMemberSchema = ZObject [(''email'', emailField), (''role'', ZEnum orgRoles)]"

definition artifactCreateSchema :: schema where
  "artifactCreateSchema = ZObject
     [(''name'', nameField), (''description'', optionalText 2000),
      (''artifact_type'', ZEnum ARTIFACT_TYPES), (''content'', ZString [MinLength 1])]"

definition artifactUpdateSchema :: schema where
  "artifactUpdateSchema = ZObject [(''name'', nameField), (''description'', optionalText 2000)]"

definition artifactVersionSchema :: schema where
  "artifactVersionSchema = ZObject [(''content'', ZString [MinLength 1])]"

definition policyPackFormSchema :: schema where
  "policyPackFormSchema = ZObject [(''name'', nameField), (''description'', optionalText 2000), (''is_active'', ZBool)]"

definition policyRuleFormSchema :: schema where
  "policyRuleFormSchema = ZRefine (ZObject
     [(''rule_key'', ZEnum SUPPORTED_RULE_KEYS), (''name'', nameField), (''description'', requiredField),
      (''resource_type'', ZEnum POLICY_RESOURCE_TYPES), (''severity'', ZEnum POLICY_SEVERITIES),
      (''remediation'', ZOr (ZOptional (ZString [Trim])) (ZLiteral [])),
      (''is_enabled'', ZBool), (''list_items'', ZOptional (ZString []))])
     (\<lambda>v. list_items_issue (string_field v ''rule_key'') (as_string (js_prop v ''list_items'')) = None)"

definition providerConfigFields :: "(string \<times> schema) list" where
  "providerConfigFields =
     [(''enabled'', ZBool), (''default_model'', ZString [Trim, MinLength 1, MaxLength 120]),
      (''timeout_seconds'', ZInt 1 (Some 600)), (''max_retries'', ZInt 0 (Some 10)),
      (''priority'', ZInt 0 (Some 1000)), (''max_output_tokens'', ZInt 1 (Some 128000))]"

definition providerConfigPatchSchema :: schema where
  "providerConfigPatchSchema = ZObject providerConfigFields"

definition PROVIDER_NAMES :: "string list" where
  "PROVIDER_NAMES = [''gemini'', ''llama'', ''mistral'']"

definition LLM_OPERATIONS :: "string list" where
  "LLM_OPERATIONS = [''chat'', ''log_analysis'', ''configuration_review'', ''dockerfile_generation'', ''kubernetes'']"

definition providerRoutingPatchSchema :: schema where
  "providerRoutingPatchSchema = ZObject
     [(''primary_provider'', ZEnum PROVIDER_NAMES), (''fallback_providers'', ZArray (ZEnum PROVIDER_NAMES))]"

definition adminProviderConfigPatchSchema :: schema where
  "adminProviderConfigPatchSchema = ZObject (providerConfigFields @
     [(''secret_env_key'', optionalText 120), (''base_url_env_key'', optionalText 120),
      (''model_env_key'', optionalText 120)])"

definition operationEnum :: schema where "operationEnum = ZEnum LLM_OPERATIONS"

definition limitField :: schema where "limitField = ZNullable (ZInt 0 None)"

definition quotaFormSchema :: schema where
  "quotaFormSchema = ZObject
     [(''daily_token_limit'', limitField), (''daily_request_limit'', limitField),
      (''monthly_token_limit'', limitField), (''monthly_request_limit'', limitField),
      (''enforce_quotas'', ZBool), (''clear_daily_limits'', ZOptional ZBool),
      (''clear_monthly_limits'', ZOptional ZBool)]"

section \<open>Generators\<close>

definition saveOptionsFields :: "(string \<times> schema) list" where
  "saveOptionsFields =
     [(''save_artifact'', ZBool), (''artifact_name'', ZString [Trim, MaxLength 200]),
      (''artifact_description'', ZString [Trim, MaxLength 2000]),
      (''organization_id'', ZOptional (ZNullable (ZString [Format ''uuid'']))),
      (''policy_pack_ids'', ZArray (ZString [Format ''uuid''])), (''validate_policies'', ZBool)]"

text \<open>The issues \<open>refineSaveOptions\<close> adds: paths and messages.\<close>

definition refineSaveOptions :: "json \<Rightarrow> (string \<times> string) list" where
  "refineSaveOptions v =
     (if truthy (js_prop v ''save_artifact'') then
        (if js_trim (string_field v ''artifact_name'') = []
         then [(''artifact_name'', ''Artifact name is required when saving'')] else [])
        @ (if \<not> truthy (js_prop v ''organization_id'')
           then [(''organization_id'', ''Select an organization to save an artifact'')] else [])
      else [])
     @ (if truthy (js_prop v ''validate_policies'') \<and> \<not> truthy (js_prop v ''organization_id'')
        then [(''validate_policies'', ''Select an organization to validate policies'')] else [])"

definition with_save_options :: "(string \<times> schema) list \<Rightarrow> schema" where
  "with_save_options fs = ZRefine (ZObject (saveOptionsFields @ fs)) (\<lambda>v. refineSaveOptions v = [])"

definition saveOptionsSchema :: schema where
  "saveOptionsSchema = with_save_options []"

definition dockerfileFormSchema :: schema where
  "dockerfileFormSchema = with_save_options
     [(''language'', ZString [Trim, MinLength 1, MaxLength 100]), (''framework'', ZString [Trim, MaxLength 100]),
      (''python_version'', requiredField), (''port'', ZInt 1 (Some 65535)), (''use_multistage'', ZBool),
      (''run_as_non_root'', ZBool), (''provider'', providerSchema)]"

definition dns_label :: "string \<Rightarrow> bool" where
  "dns_label s = (s \<noteq> [] \<and> is_slug_char (hd s) \<and> is_slug_char (last s)
     \<and> list_all (\<lambda>c. is_slug_char c \<or> c = CHR ''-'') s)"

definition kubernetesFormSchema :: schema where
  "kubernetesFormSchema = with_save_options
     [(''application_name'', ZString [Trim, MinLength 1, MaxLength 100, Pattern dns_label]),
      (''image'', ZString [Trim, MinLength 1, MaxLength 500]), (''replicas'', ZInt 1 (Some 100)),
      (''container_port'', ZInt 1 (Some 65535)), (''service_type'', ZEnum [''ClusterIP'', ''NodePort'', ''LoadBalancer'']),
      (''include_ingress'', ZBool), (''include_configmap'', ZBool), (''include_hpa'', ZBool),
      (''cpu_request'', requiredField), (''cpu_limit'', requiredField), (''memory_request'', requiredField),
      (''memory_limit'', requiredField), (''provider'', providerSchema)]"

definition pipelineFormSchema :: schema where
  "pipelineFormSchema = with_save_options
     [(''platform'', ZEnum [''github-actions'', ''gitlab-ci'', ''jenkins'']), (''language'', requiredField),
      (''framework'', ZString [Trim, MaxLength 100]), (''test_command'', requiredField),
      (''build_docker_image'', ZBool), (''deploy_target'', ZEnum [''none'', ''kubernetes'', ''docker-host'']),
      (''provider'', providerSchema)]"

definition commandFormSchema :: schema where
  "commandFormSchema = with_save_options
     [(''request'', ZString [Trim, MinLength 1, MaxLength 4000]),
      (''operating_system'', ZEnum [''linux'', ''macos'', ''windows'']),
      (''shell'', ZEnum [''bash'', ''zsh'', ''sh'', ''powershell'']), (''provider'', providerSchema)]"

definition defaultSaveOptions :: json where
  "defaultSaveOptions = JObj
     [(''save_artifact'', JBool False), (''artifact_name'', JStr []), (''artifact_description'', JStr []),
      (''organization_id'', JNull), (''policy_pack_ids'', JArr []), (''validate_policies'', JBool False)]"

text \<open>\<open>s.trim() || null\<close>\<close>

definition trim_or_null :: "string \<Rightarrow> json" where
  "trim_or_null s = (if js_trim s = [] then JNull else JStr (js_trim s))"

definition toSavePayload :: "json \<Rightarrow> json_obj" where
  "toSavePayload v =
     (let save = truthy (js_prop v ''save_artifact'') in
      [(''save_artifact'', coalesce (js_prop v ''save_artifact'') JNull),
       (''artifact_name'', if save then trim_or_null (string_field v ''artifact_name'') else JNull),
       (''artifact_description'', if save then trim_or_null (string_field v ''artifact_description'') else JNull),
       (''organization_id'', coalesce (js_prop v ''organization_id'') JNull),
       (''policy_pack_ids'', coalesce (js_prop v ''policy_pack_ids'') (JArr [])),
       (''validate_policies'', coalesce (js_prop v ''validate_policies'') JNull)])"

end
