(* ===== verification/Form_Rules.thy ===== *)
theory Form_Rules
  imports Form_Schemas Auth_Client
begin

text \<open>
  What the forms guarantee to the code that receives their values: the route handlers of
  app/api/auth, the payload of the generators and the configuration of a policy rule.
\<close>

section \<open>Fields of accepted objects\<close>

lemma all_some_Some:
  "all_some f xs = Some ys \<Longrightarrow> list_all2 (\<lambda>x y. f x = Some y) xs ys"
  by (induction xs arbitrary: ys) (auto split: option.splits)

lemma defined_fields_keys: "k \<notin> fst ` set xs \<Longrightarrow> map_of (defined_fields xs) k = None"
  by (induction xs) (auto simp: defined_fields_def split: option.splits)

lemma map_of_defined_fields:
  "distinct (map fst xs) \<Longrightarrow> (k, v) \<in> set xs \<Longrightarrow> map_of (defined_fields xs) k = v"
proof (induction xs)
  case (Cons x xs)
  obtain k1 v1 where x: "x = (k1, v1)" by (cases x)
  have step: "defined_fields ((k1, v1) # xs) = (case v1 of Some w \<Rightarrow> [(k1, w)] | None \<Rightarrow> []) @ defined_fields xs"
    by (simp add: defined_fields_def)
  show ?case
  proof (cases "k = k1")
    case True
    with Cons.prems x have "v = v1" "k1 \<notin> fst ` set xs" by (auto simp: rev_image_eqI)
    with True show ?thesis by (simp add: x step defined_fields_keys split: option.split)
  next
    case False
    with Cons show ?thesis by (simp add: step x split: option.split)
  qed
qed simp

lemma run_checks_simps [simp]:
  "run_checks fmt (Trim # cs) s = run_checks fmt cs (js_trim s)"
  "run_checks fmt (MinLength n # cs) s = (if n \<le> length s then run_checks fmt cs s else None)"
  "run_checks fmt (MaxLength n # cs) s = (if length s \<le> n then run_checks fmt cs s else None)"
  "run_checks fmt (Pattern p # cs) s = (if p s then run_checks fmt cs s else None)"
  "run_checks fmt (Format f # cs) s = (if fmt f s then run_checks fmt cs s else None)"
  by simp_all

context zod
begin

lemma object_field:
  assumes "parse (ZObject fs) (Some v) = Some (Some v')" and "distinct (map fst fs)" and "(k, z) \<in> set fs"
  shows "parse z (js_prop v k) = Some (js_prop v' k)"
proof -
  from assms(1) obtain kvs xs where v: "v = JObj kvs"
    and xs: "all_some (\<lambda>(k, z). map_option (Pair k) (parse z (map_of kvs k))) fs = Some xs"
    and v': "v' = JObj (defined_fields xs)"
    by (auto simp: object_law split: json.splits option.splits)
  from all_some_Some [OF xs] have rel: "list_all2 (\<lambda>(k, z) y. \<exists>u. parse z (map_of kvs k) = Some u \<and> y = (k, u)) fs xs"
    by (rule list_all2_mono) auto
  then have keys: "map fst xs = map fst fs"
    by (induction rule: list_all2_induct) auto
  from rel assms(3) have "\<exists>u. parse z (map_of kvs k) = Some u \<and> (k, u) \<in> set xs"
    by (induction rule: list_all2_induct) auto
  then show ?thesis
    using map_of_defined_fields [of xs k] assms(2) by (auto simp: v v' keys)
qed

lemma string_value: "parse (ZString cs) v = Some u \<Longrightarrow> \<exists>s t. v = Some (JStr s) \<and> run_checks fmt cs s = Some t \<and> u = Some (JStr t)"
  by (auto simp: string_law split: option.splits json.splits)

lemma refined: "parse (ZRefine z p) v = Some (Some x) \<Longrightarrow> parse z v = Some (Some x) \<and> p x"
  by (auto simp: refine_law split: option.splits if_splits)

lemma password_value:
  "parse passwordField u = Some x \<Longrightarrow> \<exists>p. x = Some (JStr p) \<and> PASSWORD_MIN \<le> length p \<and> length p \<le> PASSWORD_MAX"
  by (auto simp: passwordField_def dest!: string_value split: if_splits)

lemma login_value:
  assumes "parse loginSchema (Some v) = Some (Some v')"
  shows "\<exists>u p. js_prop v' ''username'' = Some (JStr u) \<and> js_prop v' ''password'' = Some (JStr p) \<and>
    js_trim u = u \<and> u \<noteq> [] \<and> p \<noteq> []"
proof -
  note f = object_field [OF assms [unfolded loginSchema_def]]
  have "parse (ZString [Trim, MinLength 1, MaxLength 100]) (js_prop v ''username'') = Some (js_prop v' ''username'')"
    "parse (ZString [MinLength 1]) (js_prop v ''password'') = Some (js_prop v' ''password'')"
    by (rule f; simp)+
  then show ?thesis by (fastforce dest!: string_value split: if_splits)
qed

lemma reset_value:
  assumes "parse resetPasswordSchema (Some v) = Some (Some v')"
  shows "\<exists>p. js_prop v' ''new_password'' = Some (JStr p) \<and> js_prop v' ''confirm_password'' = Some (JStr p)
    \<and> PASSWORD_MIN \<le> length p \<and> length p \<le> PASSWORD_MAX"
proof -
  note r = refined [OF assms [unfolded resetPasswordSchema_def]]
  have "parse passwordField (js_prop v ''new_password'') = Some (js_prop v' ''new_password'')"
    by (rule object_field [OF conjunct1 [OF r]]) simp_all
  with r show ?thesis by (auto simp: passwords_match_def dest!: password_value)
qed

lemma change_value:
  assumes "parse changePasswordSchema (Some v) = Some (Some v')"
  shows "\<exists>c p. js_prop v' ''current_password'' = Some (JStr c) \<and> js_prop v' ''new_password'' = Some (JStr p)
    \<and> c \<noteq> [] \<and> p \<noteq> c \<and> PASSWORD_MIN \<le> length p"
proof -
  note r = refined [OF assms [unfolded changePasswordSchema_def]]
  note o = conjunct1 [OF refined [OF conjunct1 [OF r]]]
  have "parse passwordField (js_prop v ''new_password'') = Some (js_prop v' ''new_password'')"
    "parse (ZString [MinLength 1]) (js_prop v ''current_password'') = Some (js_prop v' ''current_password'')"
    by (rule object_field [OF o]; simp)+
  with conjunct2 [OF r] show ?thesis
    by (auto dest!: password_value string_value split: if_splits)
qed

end

section \<open>Forms and route handlers\<close>

text \<open>C37: the forms and the route handlers agree: what the sign-in form accepts reaches the backend
  with the same name and password; what the reset form accepts, sent with a token that is not
  blank, is forwarded with the password that was confirmed; and what the change form accepts is
  passed on with two different passwords.  No accepted form is refused by the handler's own
  checks.\<close>

theorem accepted_forms_pass_routes:
  assumes "zod fmt parse" and "plain_json v'"
  shows "(parse loginSchema (Some v) = Some (Some v') \<longrightarrow>
       sent (snd (post_login ops env net (json_stringify v') w)) =
       sent w @ [login_request env (string_field v' ''username'') (string_field v' ''password'')])
    \<and> (parse resetPasswordSchema (Some v) = Some (Some v') \<longrightarrow> js_trim token \<noteq> [] \<longrightarrow>
       sent (snd (post_reset_password env net (json_stringify
          (JObj [(''token'', JStr token), (''new_password'', JStr (string_field v' ''new_password''))])) w)) =
       sent w @ [json_post (server_base env @ ep_auth_resetPassword)
          (JObj [(''token'', JStr (js_trim token)), (''new_password'', JStr (string_field v' ''confirm_password''))])])
    \<and> (parse changePasswordSchema (Some v) = Some (Some v') \<longrightarrow>
       string_field v' ''new_password'' \<noteq> string_field v' ''current_password'' \<and>
       post_change_password ops env net (json_stringify (JObj
          [(''current_password'', JStr (string_field v' ''current_password'')),
           (''new_password'', JStr (string_field v' ''new_password''))])) w =
       proxyAuthenticatedAuth ops env net
         \<lparr>ac_method = ''POST'', ac_upstreamPath = ep_auth_changePassword,
          ac_body = Some (JObj [(''current_password'', JStr (string_field v' ''current_password'')),
                                (''new_password'', JStr (string_field v' ''new_password''))]),
          ac_includeRefreshHeader = True\<rparr> w)"
proof (intro conjI impI)
  assume a: "parse loginSchema (Some v) = Some (Some v')"
  obtain u p where f: "js_prop v' ''username'' = Some (JStr u)" "js_prop v' ''password'' = Some (JStr p)"
    "js_trim u = u" "u \<noteq> []" "p \<noteq> []" using zod.login_value [OF assms(1) a] by blast
  then have "v' \<noteq> JNull" by auto
  with f show "sent (snd (post_login ops env net (json_stringify v') w)) =
       sent w @ [login_request env (string_field v' ''username'') (string_field v' ''password'')]"
    by (simp add: post_login_def with_json_body_def json_roundtrip [OF assms(2)] string_field_def Let_def fetch_def)
next
  assume a: "parse resetPasswordSchema (Some v) = Some (Some v')" and t: "js_trim token \<noteq> []"
  let ?body = "\<lambda>p. JObj [(''token'', JStr token), (''new_password'', JStr p)]"
  obtain p where p: "string_field v' ''new_password'' = p" "string_field v' ''confirm_password'' = p" "PASSWORD_MIN \<le> length p"
    using zod.reset_value [OF assms(1) a] by (auto simp: string_field_def)
  have body: "json_parse (json_stringify (?body p)) = Some (?body p)" by (rule json_roundtrip) simp
  show "sent (snd (post_reset_password env net (json_stringify (?body (string_field v' ''new_password''))) w)) =
       sent w @ [json_post (server_base env @ ep_auth_resetPassword)
          (JObj [(''token'', JStr (js_trim token)), (''new_password'', JStr (string_field v' ''confirm_password''))])]"
    unfolding p(1,2) reset_password_sent body using t p(3) by (simp add: string_field_def)
next
  assume a: "parse changePasswordSchema (Some v) = Some (Some v')"
  obtain c p where p: "string_field v' ''current_password'' = c" "string_field v' ''new_password'' = p"
    "c \<noteq> []" "p \<noteq> c" "PASSWORD_MIN \<le> length p"
    using zod.change_value [OF assms(1) a] by (auto simp: string_field_def)
  let ?body = "JObj [(''current_password'', JStr c), (''new_password'', JStr p)]"
  have body: "json_parse (json_stringify ?body) = Some ?body" by (rule json_roundtrip) simp
  show "string_field v' ''new_password'' \<noteq> string_field v' ''current_password''" using p by simp
  have ne: "p \<noteq> []" using p(5) by (auto simp: PASSWORD_MIN_def)
  show "post_change_password ops env net (json_stringify (JObj
          [(''current_password'', JStr (string_field v' ''current_password'')),
           (''new_password'', JStr (string_field v' ''new_password''))])) w =
       proxyAuthenticatedAuth ops env net
         \<lparr>ac_method = ''POST'', ac_upstreamPath = ep_auth_changePassword,
          ac_body = Some (JObj [(''current_password'', JStr (string_field v' ''current_password'')),
                                (''new_password'', JStr (string_field v' ''new_password''))]),
          ac_includeRefreshHeader = True\<rparr> w"
    unfolding p(1,2) post_change_password_def with_json_body_def body using p(3,5) ne
    by (simp add: string_field_def bad_new_password_def)
qed

text \<open>A form for the examples: every string has every format.\<close>

definition ex_parse :: parser where
  "ex_parse = zparse (\<lambda>_ _. True)"

lemma zod_ex: "zod (\<lambda>_ _. True) ex_parse"
  unfolding ex_parse_def by unfold_locales

lemma accepted_forms_pass_routes_witness:
  "sent (snd (post_login mem_ops ex_env ex_login_net
     (json_stringify (JObj [(''username'', JStr ''ada''), (''password'', JStr ''pw'')])) ex_server))
   = [login_request ex_env ''ada'' ''pw'']"
proof -
  let ?v = "JObj [(''username'', JStr ''ada''), (''password'', JStr ''pw'')]"
  have p: "ex_parse loginSchema (Some (JObj [(''username'', JStr '' ada ''), (''password'', JStr ''pw'')])) = Some (Some ?v)"
    "string_field ?v ''username'' = ''ada''" "string_field ?v ''password'' = ''pw''" "sent ex_server = []"
    by code_simp+
  have "plain_json ?v" by simp
  from accepted_forms_pass_routes [OF zod_ex this] p show ?thesis by (metis append_Nil)
qed

section \<open>The payload of a generator\<close>

context zod
begin

lemma save_field:
  assumes "parse (with_save_options fs) (Some v) = Some (Some v')" and "distinct (map fst (saveOptionsFields @ fs))"
    and "(k, z) \<in> set saveOptionsFields"
  shows "parse z (js_prop v k) = Some (js_prop v' k)"
  using refined [OF assms(1) [unfolded with_save_options_def]] assms(2,3)
  by (auto intro: object_field)

lemma bool_value: "parse ZBool u = Some x \<Longrightarrow> \<exists>b. x = Some (JBool b)"
  by (auto simp: bool_law split: option.splits json.splits)

lemma organization_value:
  "parse (ZOptional (ZNullable (ZString [Format f]))) u = Some x \<Longrightarrow>
   x = None \<or> x = Some JNull \<or> (\<exists>s. x = Some (JStr s) \<and> fmt f s)"
  by (auto simp: optional_law nullable_law string_law split: if_splits option.splits json.splits)

lemma save_value:
  assumes "parse (with_save_options fs) (Some v) = Some (Some v')" and "distinct (map fst (saveOptionsFields @ fs))"
  shows "\<exists>s n d p. js_prop v' ''save_artifact'' = Some (JBool s) \<and> js_prop v' ''validate_policies'' = Some (JBool p)
    \<and> js_prop v' ''artifact_name'' = Some (JStr n) \<and> js_trim n = n \<and> length n \<le> 200
    \<and> js_prop v' ''artifact_description'' = Some (JStr d)
    \<and> (js_prop v' ''organization_id'' = None \<or> js_prop v' ''organization_id'' = Some JNull
       \<or> (\<exists>i. js_prop v' ''organization_id'' = Some (JStr i) \<and> fmt ''uuid'' i))
    \<and> refineSaveOptions v' = []"
proof -
  note f = save_field [OF assms]
  have "parse ZBool (js_prop v ''save_artifact'') = Some (js_prop v' ''save_artifact'')"
    "parse ZBool (js_prop v ''validate_policies'') = Some (js_prop v' ''validate_policies'')"
    "parse (ZString [Trim, MaxLength 200]) (js_prop v ''artifact_name'') = Some (js_prop v' ''artifact_name'')"
    "parse (ZString [Trim, MaxLength 2000]) (js_prop v ''artifact_description'') = Some (js_prop v' ''artifact_description'')"
    "parse (ZOptional (ZNullable (ZString [Format ''uuid'']))) (js_prop v ''organization_id'') = Some (js_prop v' ''organization_id'')"
    by (rule f; simp add: saveOptionsFields_def)+
  then have "\<exists>s. js_prop v' ''save_artifact'' = Some (JBool s)" "\<exists>p. js_prop v' ''validate_policies'' = Some (JBool p)"
    "\<exists>n. js_prop v' ''artifact_name'' = Some (JStr n) \<and> js_trim n = n \<and> length n \<le> 200"
    "\<exists>d. js_prop v' ''artifact_description'' = Some (JStr d)"
    "js_prop v' ''organization_id'' = None \<or> js_prop v' ''organization_id'' = Some JNull
       \<or> (\<exists>i. js_prop v' ''organization_id'' = Some (JStr i) \<and> fmt ''uuid'' i)"
    by (auto dest!: bool_value string_value dest: organization_value split: if_splits)
  moreover have "refineSaveOptions v' = []"
    using refined [OF assms(1) [unfolded with_save_options_def]] by simp
  ultimately show ?thesis by blast
qed

end

definition generator_schemas :: "schema list" where
  "generator_schemas = [saveOptionsSchema, dockerfileFormSchema, kubernetesFormSchema, pipelineFormSchema, commandFormSchema]"

lemma generator_fields_distinct:
  assumes "z \<in> set generator_schemas"
  shows "\<exists>fs. z = with_save_options fs \<and> distinct (map fst (saveOptionsFields @ fs))"
proof -
  have some: "\<exists>fs. with_save_options gs = with_save_options fs \<and> distinct (map fst (saveOptionsFields @ fs))"
    if "distinct (map fst (saveOptionsFields @ gs))" for gs
    using that by blast
  from assms consider "z = saveOptionsSchema" | "z = dockerfileFormSchema" | "z = kubernetesFormSchema"
    | "z = pipelineFormSchema" | "z = commandFormSchema" unfolding generator_schemas_def by auto
  then show ?thesis
    by cases (simp only: saveOptionsSchema_def dockerfileFormSchema_def kubernetesFormSchema_def
      pipelineFormSchema_def commandFormSchema_def, rule some, simp add: saveOptionsFields_def)+
qed

text \<open>Whatever generator form is accepted, the request built of it is complete: an artifact that
  is to be saved has a name, trimmed and of at most 200 characters, and an organization id of
  the right format; policies are validated only with an organization; and without saving,
  name and description are sent as null, whatever was typed before.\<close>

theorem save_payload_complete:
  assumes "zod fmt parse" and "z \<in> set generator_schemas" and "parse z (Some v) = Some (Some v')"
  shows "\<exists>save validate. map_of (toSavePayload v') ''save_artifact'' = Some (JBool save)
    \<and> map_of (toSavePayload v') ''validate_policies'' = Some (JBool validate)
    \<and> (save \<longrightarrow> (\<exists>n. map_of (toSavePayload v') ''artifact_name'' = Some (JStr n) \<and> n \<noteq> [] \<and> js_trim n = n \<and> length n \<le> 200))
    \<and> (save \<or> validate \<longrightarrow> (\<exists>i. map_of (toSavePayload v') ''organization_id'' = Some (JStr i) \<and> fmt ''uuid'' i))
    \<and> (\<not> save \<longrightarrow> map_of (toSavePayload v') ''artifact_name'' = Some JNull
                 \<and> map_of (toSavePayload v') ''artifact_description'' = Some JNull)"
proof -
  obtain fs where fs: "z = with_save_options fs" "distinct (map fst (saveOptionsFields @ fs))"
    using generator_fields_distinct [OF assms(2)] by blast
  let ?org = "js_prop v' ''organization_id''"
  from zod.save_value [OF assms(1) assms(3) [unfolded fs(1)] fs(2)] obtain s n d p
    where f: "js_prop v' ''save_artifact'' = Some (JBool s)" "js_prop v' ''validate_policies'' = Some (JBool p)"
      "js_prop v' ''artifact_name'' = Some (JStr n)" "js_prop v' ''artifact_description'' = Some (JStr d)"
      and n: "js_trim n = n" "length n \<le> 200"
      and org: "?org = None \<or> ?org = Some JNull \<or> (\<exists>i. ?org = Some (JStr i) \<and> fmt ''uuid'' i)"
      and refined: "refineSaveOptions v' = []"
    by (elim exE conjE)
  note v = truthy_def js_truthy_def string_field_def coalesce_def
  have payload: "map_of (toSavePayload v') ''save_artifact'' = Some (JBool s)"
    "map_of (toSavePayload v') ''validate_policies'' = Some (JBool p)"
    "map_of (toSavePayload v') ''artifact_name'' = Some (if s then trim_or_null n else JNull)"
    "map_of (toSavePayload v') ''artifact_description'' = Some (if s then trim_or_null d else JNull)"
    "map_of (toSavePayload v') ''organization_id'' = Some (coalesce ?org JNull)"
    by (simp_all add: toSavePayload_def Let_def f v)
  have sound: "s \<longrightarrow> n \<noteq> []" "s \<or> p \<longrightarrow> truthy ?org"
    using refined f n(1) by (auto simp: refineSaveOptions_def string_field_def truthy_def [of "Some _"] js_truthy_def split: if_splits)
  have "\<exists>i. coalesce ?org JNull = JStr i \<and> fmt ''uuid'' i" if "truthy ?org"
    using that org by (auto simp: v)
  with sound n show ?thesis unfolding payload by (auto simp: trim_or_null_def)
qed

lemma save_payload_complete_witness:
  "\<exists>n. map_of (toSavePayload (JObj [(''save_artifact'', JBool True), (''artifact_name'', JStr ''web''),
      (''artifact_description'', JStr []), (''organization_id'', JStr ''o1''), (''policy_pack_ids'', JArr []),
      (''validate_policies'', JBool False)])) ''artifact_name'' = Some (JStr n) \<and> n \<noteq> []"
proof -
  let ?v = "JObj [(''save_artifact'', JBool True), (''artifact_name'', JStr ''web''),
      (''artifact_description'', JStr []), (''organization_id'', JStr ''o1''), (''policy_pack_ids'', JArr []),
      (''validate_policies'', JBool False)]"
  have z: "saveOptionsSchema \<in> set generator_schemas" by (simp add: generator_schemas_def)
  have p: "ex_parse saveOptionsSchema (Some ?v) = Some (Some ?v)" by code_simp
  have s: "map_of (toSavePayload ?v) ''save_artifact'' = Some (JBool True)" by code_simp
  from save_payload_complete [OF zod_ex z p] s show ?thesis by auto
qed

section \<open>Policy rules\<close>

text \<open>A rule form that is accepted names a supported rule, and for the two rules that need a
  list the configuration sent holds it under the field the rule expects: at least one item,
  each trimmed, not blank and free of separators.\<close>

theorem policy_rule_form_complete:
  assumes "zod fmt parse" and "parse policyRuleFormSchema (Some v) = Some (Some v')"
    and "string_field v' ''rule_key'' = key" and "as_string (js_prop v' ''list_items'') = items"
  shows "key \<in> set SUPPORTED_RULE_KEYS
    \<and> (if isListConfigRuleKey key
       then configurationFromRuleForm key items = JObj [(listConfigFieldName key, JArr (map JStr (list_items_of items)))]
          \<and> list_items_of items \<noteq> []
          \<and> list_all (\<lambda>i. i \<noteq> [] \<and> js_trim i = i \<and> CHR 0x0A \<notin> set i \<and> CHR '','' \<notin> set i) (list_items_of items)
       else configurationFromRuleForm key items = JObj [])"
proof -
  note r = zod.refined [OF assms(1) assms(2) [unfolded policyRuleFormSchema_def]]
  have "parse (ZEnum SUPPORTED_RULE_KEYS) (js_prop v ''rule_key'') = Some (js_prop v' ''rule_key'')"
    by (rule zod.object_field [OF assms(1) conjunct1 [OF r]]) simp_all
  then obtain x where x: "js_prop v' ''rule_key'' = Some (JStr x)" "x \<in> set SUPPORTED_RULE_KEYS"
    by (auto simp: zod.enum_law [OF assms(1)] simp del: set_simps split: option.splits json.splits if_splits dest!: sym [of "Some _"])
  with assms(3) have key: "key \<in> set SUPPORTED_RULE_KEYS"
    by (simp add: string_field_def)
  have "list_items_issue key items = None" using conjunct2 [OF r] assms(3,4) by simp
  moreover have "configurationFromRuleForm key items = JObj []" if "\<not> isListConfigRuleKey key"
    using that by (auto simp: isListConfigRuleKey_def RULE_KEYS_WITH_LIST_CONFIG_def configurationFromRuleForm_def)
  ultimately show ?thesis using key policy_list_configuration by auto
qed

lemma policy_rule_form_complete_witness:
  "configurationFromRuleForm ''required_kubernetes_labels'' (Some ''app'') \<noteq> JObj []"
proof -
  let ?v = "JObj [(''rule_key'', JStr ''required_kubernetes_labels''), (''name'', JStr ''n''), (''description'', JStr ''d''),
     (''resource_type'', JStr ''kubernetes''), (''severity'', JStr ''low''), (''remediation'', JStr []),
     (''is_enabled'', JBool True), (''list_items'', JStr ''app'')]"
  have p: "ex_parse policyRuleFormSchema (Some ?v) = Some (Some ?v)"
    and k: "string_field ?v ''rule_key'' = ''required_kubernetes_labels''"
    and i: "as_string (js_prop ?v ''list_items'') = Some ''app''" by code_simp+
  have l: "isListConfigRuleKey ''required_kubernetes_labels''" by code_simp
  from policy_rule_form_complete [OF zod_ex p k i] l show ?thesis by simp
qed

end
