(* ===== verification/Ui_Actions.thy ===== *)
theory Ui_Actions
  imports Api_Client
begin

text \<open>
  What the pages do besides rendering: notices (\<open>toast\<close> of the library sonner), navigation, and
  the message shown for a failed call, \<open>isApiClientError(error) ? error.message : fallback\<close>.
\<close>

datatype notice = Success string | Failure string | Info string

definition error_text :: "js_exn \<Rightarrow> string \<Rightarrow> string" where
  "error_text e fallback = (case e of ApiClientErr x \<Rightarrow> ae_message x | _ \<Rightarrow> fallback)"

text \<open>The status of a failed call, \<open>None\<close> when the failure is no answer of the backend.\<close>

definition error_status :: "js_exn \<Rightarrow> nat option" where
  "error_status e = (case e of ApiClientErr x \<Rightarrow> Some (ae_status x) | _ \<Rightarrow> None)"

lemma error_text_simps [simp]:
  "error_text (ApiClientErr x) d = ae_message x" "error_text (DomException a b) d = d"
  "error_text (ErrorExn a) d = d" "error_text OtherThrown d = d"
  by (simp_all add: error_text_def)

lemma error_status_simps [simp]:
  "error_status (ApiClientErr x) = Some (ae_status x)" "error_status (DomException a b) = None"
  "error_status (ErrorExn a) = None" "error_status OtherThrown = None"
  by (simp_all add: error_status_def)

text \<open>A failure that an answer of the backend caused always says something.\<close>

definition says_something :: "js_exn \<Rightarrow> bool" where
  "says_something e = (case e of ApiClientErr x \<Rightarrow> ae_message x \<noteq> [] | _ \<Rightarrow> True)"

lemma error_text_ne: "says_something e \<Longrightarrow> d \<noteq> [] \<Longrightarrow> error_text e d \<noteq> []"
  by (cases e) (simp_all add: says_something_def)

definition is_failure :: "notice \<Rightarrow> bool" where
  "is_failure n = (case n of Failure _ \<Rightarrow> True | _ \<Rightarrow> False)"

lemma is_failure_simps [simp]:
  "is_failure (Failure m)" "\<not> is_failure (Success m)" "\<not> is_failure (Info m)"
  by (simp_all add: is_failure_def)

end
