(* ===== verification/Page_Contract.thy ===== *)
theory Page_Contract
  imports Ui_Actions Rbac
begin

text \<open>
  The contract of a page that calls the backend: every event keeps an invariant of the page and
  leads to at most one call, which the state and the event justify.  The pages that interpret it
  get the whole session: whatever the events were, every call in the log was justified at the
  moment it was made.  The second locale adds a gate: a page that can call only when it is armed,
  by opening a dialog that a permission offers, makes no call unless the permission was there before.
\<close>

text \<open>permissions/permission-gate.tsx: whether the children are shown.\<close>

definition PermissionGate :: "Permission \<Rightarrow> OrgRole option \<Rightarrow> bool" where
  "PermissionGate permission role = (case role of Some r \<Rightarrow> can r permission | None \<Rightarrow> False)"

definition justified ::
  "('e \<Rightarrow> 's \<Rightarrow> 's) \<Rightarrow> ('s \<Rightarrow> 'e \<Rightarrow> 'c \<Rightarrow> bool) \<Rightarrow> 's \<Rightarrow> 'e list \<Rightarrow> 'c \<Rightarrow> bool" where
  "justified step allowed s es c \<longleftrightarrow> (\<exists>n<length es. allowed (fold step (take n es) s) (es ! n) c)"

lemma justified_append: "justified step allowed s es c \<Longrightarrow> justified step allowed s (es @ fs) c"
proof -
  assume "justified step allowed s es c"
  then obtain n where "n < length es" "allowed (fold step (take n es) s) (es ! n) c" by (auto simp: justified_def)
  then have "n < length (es @ fs)" "allowed (fold step (take n (es @ fs)) s) ((es @ fs) ! n) c"
    by (simp_all add: nth_append)
  then show ?thesis unfolding justified_def by blast
qed

lemma justified_last: "allowed (fold step es s) ev c \<Longrightarrow> justified step allowed s (es @ [ev]) c"
  unfolding justified_def by (intro exI [of _ "length es"]) simp

text \<open>An event that makes no call, or one.\<close>

lemma no_new: "cs' = cs \<Longrightarrow> \<exists>new. cs' = cs @ new \<and> length new \<le> 1 \<and> list_all P new"
  by (intro exI [of _ "[]"]) simp

lemma one_new: "cs' = cs @ [c] \<Longrightarrow> P c \<Longrightarrow> \<exists>new. cs' = cs @ new \<and> length new \<le> 1 \<and> list_all P new"
  by (intro exI [of _ "[c]"]) simp

locale guarded_page =
  fixes step :: "'e \<Rightarrow> 's \<Rightarrow> 's" and calls :: "'s \<Rightarrow> 'c list" and kept :: "'s \<Rightarrow> bool"
    and allowed :: "'s \<Rightarrow> 'e \<Rightarrow> 'c \<Rightarrow> bool"
  assumes kept_step: "kept s \<Longrightarrow> kept (step ev s)"
    and calls_step: "kept s \<Longrightarrow> \<exists>new. calls (step ev s) = calls s @ new \<and> length new \<le> 1 \<and> list_all (allowed s ev) new"
begin

lemma kept_run: "kept s \<Longrightarrow> kept (fold step es s)"
  by (induction es arbitrary: s) (simp_all add: kept_step)

lemma run_calls:
  assumes "kept s"
  shows "\<exists>new. calls (fold step es s) = calls s @ new \<and> length new \<le> length es
    \<and> list_all (justified step allowed s es) new"
proof (induction es rule: rev_induct)
  case (snoc ev es)
  then obtain new where new: "calls (fold step es s) = calls s @ new" "length new \<le> length es"
    "list_all (justified step allowed s es) new" by blast
  obtain more where more: "calls (step ev (fold step es s)) = calls (fold step es s) @ more" "length more \<le> 1"
    "list_all (allowed (fold step es s) ev) more"
    using calls_step [OF kept_run [OF assms]] by blast
  have "list_all (justified step allowed s (es @ [ev])) (new @ more)"
    using new(3) more(3) justified_append justified_last by (fastforce simp: list_all_iff)
  with new more show ?case by (intro exI [of _ "new @ more"]) simp
qed simp

lemma session_justified:
  assumes "kept s" and "calls s = []"
  shows "list_all (justified step allowed s es) (calls (fold step es s))"
  using run_calls [OF assms(1)] assms(2) by auto

end

definition offered_before ::
  "('e \<Rightarrow> 's \<Rightarrow> 's) \<Rightarrow> ('s \<Rightarrow> bool) \<Rightarrow> ('s \<Rightarrow> 'e \<Rightarrow> 'c \<Rightarrow> bool) \<Rightarrow> 's \<Rightarrow> 'e list \<Rightarrow> 'c \<Rightarrow> bool" where
  "offered_before step gate allowed s es c \<longleftrightarrow>
     (\<exists>n<length es. \<exists>m\<le>n. gate (fold step (take m es) s) \<and> allowed (fold step (take n es) s) (es ! n) c)"

lemma offered_justified: "offered_before step gate allowed s es c \<Longrightarrow> justified step allowed s es c"
  unfolding offered_before_def justified_def by blast

locale gated_page = guarded_page +
  fixes gate :: "'a \<Rightarrow> bool" and armed :: "'a \<Rightarrow> bool"
  assumes armed_step: "kept s \<Longrightarrow> armed (step ev s) \<Longrightarrow> armed s \<or> gate s"
    and allowed_armed: "kept s \<Longrightarrow> allowed s ev c \<Longrightarrow> armed s"
begin

lemma armed_run:
  assumes "kept s" "\<not> armed s" "armed (fold step es s)"
  shows "\<exists>m<length es. gate (fold step (take m es) s)"
  using assms(3)
proof (induction es rule: rev_induct)
  case (snoc ev es)
  then have "armed (fold step es s) \<or> gate (fold step es s)" using armed_step [OF kept_run [OF assms(1)]] by simp
  then show ?case
  proof
    assume "armed (fold step es s)"
    from snoc.IH [OF this] obtain m where m: "m < length es" "gate (fold step (take m es) s)" by blast
    then show ?thesis by (intro exI [of _ m]) simp
  next
    assume "gate (fold step es s)"
    then show ?thesis by (intro exI [of _ "length es"]) simp
  qed
qed (use assms in simp)

lemma session_offered:
  assumes "kept s" "\<not> armed s" "calls s = []"
  shows "list_all (offered_before step gate allowed s es) (calls (fold step es s))"
proof -
  have "offered_before step gate allowed s es c" if "justified step allowed s es c" for c
  proof -
    from that obtain n where n: "n < length es" "allowed (fold step (take n es) s) (es ! n) c"
      by (auto simp: justified_def)
    from allowed_armed [OF kept_run [OF assms(1)] n(2)] armed_run [OF assms(1,2)]
    obtain m where m: "m < length (take n es)" "gate (fold step (take m (take n es)) s)" by blast
    then have "m \<le> n" "gate (fold step (take m es) s)" by (simp_all add: min_def split: if_splits)
    with n show ?thesis unfolding offered_before_def by blast
  qed
  with session_justified [OF assms(1,3)] show ?thesis by (auto simp: list_all_iff)
qed

end

end
