(* ===== verification/Log_Workspace.thy ===== *)
theory Log_Workspace
  imports Page_Contract Form_Rules Feature_Apis Feature_Rules Rbac
begin

text \<open>
  components/logs/log-analyzer.tsx: the page that analyzes logs, as a state machine.  Its events
  are the user's input, the changes of the selected organization and of the role in it, the
  answers of the calls in flight, in any order, and the data of the polled task.  A call in
  flight is a job with a number; the log of the calls made is kept beside the state.
\<close>

section \<open>State\<close>

record log_form =
  lf_content :: string
  lf_provider :: string
  lf_async_mode :: bool
  lf_workspace :: string

datatype log_job =
    Analyzing
  | Queueing "string option"
  | ReadingFile string
  | Uploading

record log_page =
  lp_form :: log_form
  lp_suggestAsync :: bool
  lp_organizationId :: "string option"
  lp_canCreate :: bool
  lp_result :: "json option"
  lp_taskId :: "string option"
  lp_taskData :: "json option"
  lp_queuedOrganizationId :: "string option"
  lp_uploadError :: "string option"
  lp_selectedFile :: "upload_file option"
  lp_uploadProvider :: string
  lp_jobs :: "(nat \<times> log_job) list"
  lp_started :: nat
  lp_notices :: "notice list"
  lp_calls :: "api_call list"

definition initial_form :: log_form where
  "initial_form = \<lparr>lf_content = [], lf_provider = ''gemini'', lf_async_mode = False, lf_workspace = ''personal''\<rparr>"

definition initial_log_page :: "string option \<Rightarrow> bool \<Rightarrow> log_page" where
  "initial_log_page organizationId canCreate =
     \<lparr>lp_form = initial_form, lp_suggestAsync = False, lp_organizationId = organizationId,
      lp_canCreate = canCreate, lp_result = None, lp_taskId = None, lp_taskData = None,
      lp_queuedOrganizationId = None, lp_uploadError = None, lp_selectedFile = None,
      lp_uploadProvider = ''gemini'', lp_jobs = [], lp_started = 0, lp_notices = [], lp_calls = []\<rparr>"

text \<open>\<open>Boolean(orgRole && can(orgRole, "resource.create"))\<close>\<close>

definition canCreateOrgAnalysis :: "OrgRole option \<Rightarrow> bool" where
  "canCreateOrgAnalysis orgRole = (case orgRole of Some r \<Rightarrow> can r ResourceCreate | None \<Rightarrow> False)"

text \<open>Another task id asks for other data, which is not there yet.\<close>

definition setTaskId :: "string option \<Rightarrow> log_page \<Rightarrow> log_page" where
  "setTaskId i s = s\<lparr>lp_taskId := i, lp_taskData := None\<rparr>"

definition notify :: "notice \<Rightarrow> log_page \<Rightarrow> log_page" where
  "notify n s = s\<lparr>lp_notices := lp_notices s @ [n]\<rparr>"

definition start_job :: "log_job \<Rightarrow> log_page \<Rightarrow> log_page" where
  "start_job j s = s\<lparr>lp_jobs := lp_jobs s @ [(lp_started s, j)], lp_started := Suc (lp_started s)\<rparr>"

definition end_job :: "nat \<Rightarrow> log_page \<Rightarrow> log_page" where
  "end_job i s = s\<lparr>lp_jobs := filter (\<lambda>(k, _). k \<noteq> i) (lp_jobs s)\<rparr>"

definition make_call :: "api_call \<Rightarrow> log_page \<Rightarrow> log_page" where
  "make_call c s = s\<lparr>lp_calls := lp_calls s @ [c]\<rparr>"

text \<open>A file that is being read is no pending mutation.\<close>

definition isPending :: "log_page \<Rightarrow> bool" where
  "isPending s = (list_ex (\<lambda>(_, j). case j of ReadingFile _ \<Rightarrow> False | _ \<Rightarrow> True) (lp_jobs s)
     \<or> isTaskActive (as_string (opt_prop (lp_taskData s) ''status'')))"

section \<open>Effects\<close>

text \<open>The first effect runs when \<open>suggestAsync\<close> changes.\<close>

definition suggest_effect :: "log_page \<Rightarrow> log_page" where
  "suggest_effect s =
     (let suggest = LOG_ASYNC_THRESHOLD \<le> length (lf_content (lp_form s)) in
      if suggest = lp_suggestAsync s then s
      else if suggest \<and> \<not> lf_async_mode (lp_form s)
      then s\<lparr>lp_suggestAsync := suggest, lp_form := (lp_form s)\<lparr>lf_async_mode := True\<rparr>\<rparr>
      else s\<lparr>lp_suggestAsync := suggest\<rparr>)"

text \<open>The second runs when the organization or the permission changes.\<close>

definition organization_effect :: "log_page \<Rightarrow> log_page" where
  "organization_effect s =
     (let s1 = (setTaskId None s)\<lparr>lp_queuedOrganizationId := None, lp_result := None\<rparr> in
      if \<not> lp_canCreate s1 \<and> lf_workspace (lp_form s1) = ''organization''
      then s1\<lparr>lp_form := (lp_form s1)\<lparr>lf_workspace := ''personal''\<rparr>\<rparr> else s1)"

definition organization_changes :: "string option \<Rightarrow> bool \<Rightarrow> log_page \<Rightarrow> log_page" where
  "organization_changes organizationId canCreate s =
     (if organizationId = lp_organizationId s \<and> canCreate = lp_canCreate s then s
      else organization_effect (s\<lparr>lp_organizationId := organizationId, lp_canCreate := canCreate\<rparr>))"

text \<open>The third runs when the data of the polled task change.\<close>

definition forget_task :: "log_page \<Rightarrow> log_page" where
  "forget_task s = (setTaskId None s)\<lparr>lp_queuedOrganizationId := None\<rparr>"

definition task_effect :: "parser \<Rightarrow> json \<Rightarrow> log_page \<Rightarrow> log_page" where
  "task_effect parse task s =
     (case as_string (js_prop task ''status'') of
        Some status \<Rightarrow>
          if status = ''succeeded'' then
            forget_task
              (case parseTaskLogResult parse (js_prop task ''result_json'') of
                 Some r \<Rightarrow> notify (Success ''Log analysis complete'') (s\<lparr>lp_result := Some r\<rparr>)
               | None \<Rightarrow> notify (Failure ''Task finished but result could not be parsed'') s)
          else if status = ''failed'' \<or> status = ''cancelled'' then
            forget_task (notify (Failure (case as_string (js_prop task ''error_message'') of
              Some m \<Rightarrow> m | None \<Rightarrow> ''Analysis '' @ status)) s)
          else s
      | None \<Rightarrow> s)"

definition task_arrives :: "parser \<Rightarrow> string \<Rightarrow> json \<Rightarrow> log_page \<Rightarrow> log_page" where
  "task_arrives parse i task s =
     (if lp_taskId s = Some i then task_effect parse task (s\<lparr>lp_taskData := Some task\<rparr>) else s)"

section \<open>Pasted logs\<close>

definition form_json :: "log_form \<Rightarrow> json" where
  "form_json f = JObj
     [(''content'', JStr (lf_content f)), (''provider'', JStr (lf_provider f)),
      (''async_mode'', JBool (lf_async_mode f)), (''workspace'', JStr (lf_workspace f))]"

definition organization_denied :: string where
  "organization_denied = ''Your role cannot create organization log analyses.''"

definition organization_missing :: string where
  "organization_missing = ''Select an organization in the workspace switcher first.''"

text \<open>\<open>onPasteSubmit\<close> up to its call; \<open>values\<close> are what the schema made of the form.\<close>

definition onPasteSubmit :: "string \<Rightarrow> json \<Rightarrow> log_page \<Rightarrow> log_page" where
  "onPasteSubmit idempotencyKey values s =
     (let s1 = (setTaskId None s)\<lparr>lp_result := None, lp_queuedOrganizationId := None\<rparr>;
          forOrganization = (js_prop values ''workspace'' = Some (JStr ''organization''));
          selected = (if forOrganization \<and> lp_canCreate s then lp_organizationId s else None);
          request = \<lparr>lr_content = (case as_string (js_prop values ''content'') of Some c \<Rightarrow> c | None \<Rightarrow> []),
                     lr_provider = (case as_string (js_prop values ''provider'') of Some p \<Rightarrow> p | None \<Rightarrow> []),
                     lr_organization_id = selected\<rparr>
      in if forOrganization \<and> \<not> lp_canCreate s then notify (Failure organization_denied) s1
         else if forOrganization \<and> nonempty_opt (lp_organizationId s) = None
         then notify (Failure organization_missing) s1
         else if truthy (js_prop values ''async_mode'')
         then start_job (Queueing selected) (make_call (analyzeLogsAsync request (Some idempotencyKey)) s1)
         else start_job Analyzing (make_call (analyzeLogs request) s1))"

text \<open>\<open>form.handleSubmit\<close>: the handler runs on values the schema accepts; the button is disabled
  while something is pending.\<close>

definition submit_paste :: "parser \<Rightarrow> string \<Rightarrow> log_page \<Rightarrow> log_page" where
  "submit_paste parse idempotencyKey s =
     (if isPending s then s
      else case parse logAnalyzePasteSchema (Some (form_json (lp_form s))) of
        Some (Some values) \<Rightarrow> onPasteSubmit idempotencyKey values s
      | _ \<Rightarrow> s)"

definition retry_text :: "js_exn \<Rightarrow> string" where
  "retry_text e =
     (case e of
        ApiClientErr x \<Rightarrow>
          (if ae_status x = 429 then
             (case ae_retryAfter x of
                Some n \<Rightarrow> ae_message x @ '' Try again in '' @ show_rat n @ ''s.''
              | None \<Rightarrow> ae_message x)
           else ae_message x)
      | _ \<Rightarrow> ''Failed to analyze logs'')"

section \<open>Uploaded logs\<close>

definition submit_upload :: "log_page \<Rightarrow> log_page" where
  "submit_upload s =
     (if isPending s \<or> lp_selectedFile s = None then s
      else (let s1 = (setTaskId None s)\<lparr>lp_uploadError := None, lp_result := None\<rparr> in
            case validateLogFile (lp_selectedFile s) of
              Inl (code, message) \<Rightarrow> s1\<lparr>lp_uploadError := Some message\<rparr>
            | Inr file \<Rightarrow> start_job (ReadingFile (lp_uploadProvider s)) s1))"

definition upload_fails :: "js_exn \<Rightarrow> log_page \<Rightarrow> log_page" where
  "upload_fails e s =
     (let message = error_text e ''Failed to analyze uploaded log'' in
      notify (Failure message) (s\<lparr>lp_uploadError := Some message\<rparr>))"

text \<open>The text of the file is read; the provider is the one chosen at the submission.\<close>

definition file_read :: "nat \<Rightarrow> string \<Rightarrow> js_exn + string \<Rightarrow> log_page \<Rightarrow> log_page" where
  "file_read i provider outcome s =
     (case outcome of
        Inl e \<Rightarrow> upload_fails e (end_job i s)
      | Inr content \<Rightarrow>
          if looksLikeBinaryText content
          then (end_job i s)\<lparr>lp_uploadError := Some ''Uploaded file appears to be binary, not text.''\<rparr>
          else if LOG_CONTENT_MAX < length content
          then (end_job i s)\<lparr>lp_uploadError :=
                 Some (''File content exceeds '' @ show_nat LOG_CONTENT_MAX @ '' characters.'')\<rparr>
          else make_call (analyzeLogsUpload content provider)
                 (s\<lparr>lp_jobs := map (\<lambda>(k, j). (k, if k = i then Uploading else j)) (lp_jobs s)\<rparr>))"

section \<open>Answers\<close>

definition log_answered :: "nat \<Rightarrow> js_exn + json \<Rightarrow> log_page \<Rightarrow> log_page" where
  "log_answered i outcome s =
     (case map_of (lp_jobs s) i of
        Some Analyzing \<Rightarrow>
          (case outcome of
             Inr r \<Rightarrow> notify (Success ''Log analysis complete'') ((end_job i s)\<lparr>lp_result := Some r\<rparr>)
           | Inl e \<Rightarrow> notify (Failure (retry_text e)) (end_job i s))
      | Some (Queueing selected) \<Rightarrow>
          (case outcome of
             Inr r \<Rightarrow>
               (let task = (case as_string (js_prop r ''task_id'') of Some t \<Rightarrow> t | None \<Rightarrow> []) in
                notify (Info ''Analysis queued'')
                  ((setTaskId (Some task) (end_job i s))\<lparr>lp_queuedOrganizationId :=
                     (case as_string (js_prop r ''organization_id'') of Some o1 \<Rightarrow> Some o1 | None \<Rightarrow> selected)\<rparr>))
           | Inl e \<Rightarrow> notify (Failure (retry_text e)) (end_job i s))
      | Some Uploading \<Rightarrow>
          (case outcome of
             Inr r \<Rightarrow> notify (Success ''Log analysis complete'') ((end_job i s)\<lparr>lp_result := Some r\<rparr>)
           | Inl e \<Rightarrow> upload_fails e (end_job i s))
      | _ \<Rightarrow> s)"

section \<open>Events\<close>

datatype log_event =
    SetContent string | SetProvider string | SetAsync bool | SetWorkspace string
  | SelectFile "upload_file option" | SetUploadProvider string
  | OrganizationChanges "string option" bool
  | SubmitPaste string | SubmitUpload
  | FileRead nat "js_exn + string"
  | Answered nat "js_exn + json"
  | TaskArrives string json

fun log_step :: "parser \<Rightarrow> log_event \<Rightarrow> log_page \<Rightarrow> log_page" where
  "log_step parse (SetContent c) s = suggest_effect (s\<lparr>lp_form := (lp_form s)\<lparr>lf_content := c\<rparr>\<rparr>)"
| "log_step parse (SetProvider p) s = s\<lparr>lp_form := (lp_form s)\<lparr>lf_provider := p\<rparr>\<rparr>"
| "log_step parse (SetAsync b) s = s\<lparr>lp_form := (lp_form s)\<lparr>lf_async_mode := b\<rparr>\<rparr>"
| "log_step parse (SetWorkspace w) s =
     (if lp_taskId s = None then s\<lparr>lp_form := (lp_form s)\<lparr>lf_workspace := w\<rparr>\<rparr> else s)"
| "log_step parse (SelectFile f) s = s\<lparr>lp_uploadError := None, lp_selectedFile := f\<rparr>"
| "log_step parse (SetUploadProvider p) s = s\<lparr>lp_uploadProvider := p\<rparr>"
| "log_step parse (OrganizationChanges i c) s = organization_changes i c s"
| "log_step parse (SubmitPaste key) s = submit_paste parse key s"
| "log_step parse SubmitUpload s = submit_upload s"
| "log_step parse (FileRead i outcome) s =
     (case map_of (lp_jobs s) i of Some (ReadingFile p) \<Rightarrow> file_read i p outcome s | _ \<Rightarrow> s)"
| "log_step parse (Answered i outcome) s = log_answered i outcome s"
| "log_step parse (TaskArrives i task) s = task_arrives parse i task s"

definition log_run :: "parser \<Rightarrow> log_event list \<Rightarrow> log_page \<Rightarrow> log_page" where
  "log_run parse events s = fold (log_step parse) events s"

section \<open>What is asked of the backend\<close>

definition log_call_organization :: "api_call \<Rightarrow> string option" where
  "log_call_organization c =
     (case ro_body (snd c) of Some b \<Rightarrow> as_string (js_prop b ''organization_id'') | None \<Rightarrow> None)"

definition log_call_content :: "api_call \<Rightarrow> string" where
  "log_call_content c =
     (case ro_formData (snd c) of Some fd \<Rightarrow> (case map_of fd ''file'' of Some t \<Rightarrow> t | None \<Rightarrow> [])
      | None \<Rightarrow> (case ro_body (snd c) of
          Some b \<Rightarrow> (case as_string (js_prop b ''content'') of Some t \<Rightarrow> t | None \<Rightarrow> []) | None \<Rightarrow> []))"

lemma log_call_simps [simp]:
  "log_call_organization (analyzeLogs r) = lr_organization_id r"
  "log_call_content (analyzeLogs r) = lr_content r"
  "log_call_organization (analyzeLogsUpload t p) = None"
  "log_call_content (analyzeLogsUpload t p) = t"
  "log_call_organization (analyzeLogsAsync r k) = nonempty_opt (lr_organization_id r)"
  "log_call_content (analyzeLogsAsync r k) = lr_content r"
  by (simp_all add: log_call_organization_def log_call_content_def analyzeLogs_def analyzeLogsUpload_def
      analyzeLogsAsync_def with_timeout_def body_call_def default_options_def nonempty_opt_def split: option.split)

lemma log_calls_frame [simp]:
  "lp_calls (setTaskId i s) = lp_calls s" "lp_calls (notify n s) = lp_calls s"
  "lp_calls (start_job j s) = lp_calls s" "lp_calls (end_job k s) = lp_calls s"
  "lp_calls (make_call c s) = lp_calls s @ [c]" "lp_calls (forget_task s) = lp_calls s"
  "lp_calls (suggest_effect s) = lp_calls s" "lp_calls (organization_changes g b s) = lp_calls s"
  "lp_calls (task_arrives parse t v s) = lp_calls s" "lp_calls (upload_fails e s) = lp_calls s"
  by (auto simp: setTaskId_def notify_def start_job_def end_job_def make_call_def forget_task_def
      suggest_effect_def organization_changes_def organization_effect_def task_arrives_def task_effect_def
      upload_fails_def Let_def split: option.split)

lemma answered_calls [simp]: "lp_calls (log_answered i outcome s) = lp_calls s"
  by (auto simp: log_answered_def Let_def split: option.split log_job.split sum.split)

context zod
begin

lemma log_form_values:
  assumes "parse logAnalyzePasteSchema (Some (form_json f)) = Some (Some v)"
  shows "js_prop v ''content'' = Some (JStr (lf_content f)) \<and> js_prop v ''workspace'' = Some (JStr (lf_workspace f))
    \<and> js_prop v ''async_mode'' = Some (JBool (lf_async_mode f))
    \<and> 0 < length (lf_content f) \<and> length (lf_content f) \<le> LOG_CONTENT_MAX"
proof -
  note g = object_field [OF assms [unfolded logAnalyzePasteSchema_def]]
  have "parse (ZString [MinLength LOG_CONTENT_MIN, MaxLength LOG_CONTENT_MAX]) (js_prop (form_json f) ''content'')
      = Some (js_prop v ''content'')"
    "parse logWorkspaceSchema (js_prop (form_json f) ''workspace'') = Some (js_prop v ''workspace'')"
    "parse ZBool (js_prop (form_json f) ''async_mode'') = Some (js_prop v ''async_mode'')"
    by (rule g; simp)+
  then show ?thesis
    by (auto simp: form_json_def logWorkspaceSchema_def enum_law bool_law LOG_CONTENT_MIN_def dest!: string_value
        split: if_splits)
qed

end

definition reads_file :: "log_event \<Rightarrow> bool" where
  "reads_file ev = (case ev of FileRead _ _ \<Rightarrow> True | _ \<Rightarrow> False)"

definition log_call_allowed :: "log_page \<Rightarrow> bool \<Rightarrow> api_call \<Rightarrow> bool" where
  "log_call_allowed s from_file c =
     (length (log_call_content c) \<le> LOG_CONTENT_MAX
      \<and> (if from_file then log_call_organization c = None
          else \<not> isPending s \<and> log_call_content c \<noteq> [] \<and>
            (if lf_workspace (lp_form s) = ''organization''
             then lp_canCreate s \<and> nonempty_opt (lp_organizationId s) \<noteq> None
                  \<and> log_call_organization c = lp_organizationId s
             else log_call_organization c = None)))"

lemma submit_paste_calls:
  assumes "zod fmt parse"
  shows "\<exists>new. lp_calls (submit_paste parse key s) = lp_calls s @ new \<and> length new \<le> 1
     \<and> list_all (log_call_allowed s False) new"
proof (cases "isPending s")
  case True
  then show ?thesis by (simp add: submit_paste_def)
next
  case pending: False
  show ?thesis
  proof (cases "\<exists>v. parse logAnalyzePasteSchema (Some (form_json (lp_form s))) = Some (Some v)")
    case True
    then obtain v where v: "parse logAnalyzePasteSchema (Some (form_json (lp_form s))) = Some (Some v)" by blast
    then have run: "submit_paste parse key s = onPasteSubmit key v s" using pending by (simp add: submit_paste_def)
    show ?thesis
      using zod.log_form_values [OF assms v] pending unfolding run
      by (cases "lf_workspace (lp_form s) = ''organization''"; cases "nonempty_opt (lp_organizationId s)")
         (auto simp: onPasteSubmit_def Let_def log_call_allowed_def nonempty_opt_def split: option.splits if_splits)
  next
    case False
    then have "submit_paste parse key s = s" by (auto simp: submit_paste_def split: option.split)
    then show ?thesis by simp
  qed
qed

lemma file_read_calls:
  "\<exists>new. lp_calls (file_read i p outcome s) = lp_calls s @ new \<and> length new \<le> 1
     \<and> list_all (log_call_allowed s True) new"
  by (auto simp: file_read_def log_call_allowed_def split: sum.split)

definition log_call_ok :: "log_page \<Rightarrow> log_event \<Rightarrow> api_call \<Rightarrow> bool" where
  "log_call_ok s ev c = log_call_allowed s (reads_file ev) c"

lemma log_call_ok_simps: "log_call_ok s ev = log_call_allowed s (reads_file ev)"
  by (simp add: fun_eq_iff log_call_ok_def)

lemma log_calls_step:
  assumes "zod fmt parse"
  shows "\<exists>new. lp_calls (log_step parse ev s) = lp_calls s @ new \<and> length new \<le> 1 \<and> list_all (log_call_ok s ev) new"
proof (cases ev)
  case (SubmitPaste key)
  with submit_paste_calls [OF assms, of key s] show ?thesis by (simp add: reads_file_def log_call_ok_simps)
next
  case (FileRead i outcome)
  then show ?thesis
    using file_read_calls [of i _ outcome s]
    by (auto simp: reads_file_def log_call_ok_simps split: option.split log_job.split)
next
  case SubmitUpload
  then show ?thesis by (auto simp: submit_upload_def Let_def split: sum.split)
qed simp_all

lemma log_guarded:
  assumes "zod fmt parse"
  shows "guarded_page (log_step parse) lp_calls (\<lambda>_. True) log_call_ok"
  by unfold_locales (rule TrueI, rule log_calls_step [OF assms])

interpretation log_page: guarded_page "log_step (zparse fmt)" lp_calls "\<lambda>_. True" log_call_ok for fmt
  by (rule log_guarded) unfold_locales


lemmas log_exec = log_run_def initial_log_page_def initial_form_def suggest_effect_def submit_paste_def
  onPasteSubmit_def organization_changes_def organization_effect_def log_answered_def setTaskId_def notify_def
  start_job_def end_job_def make_call_def form_json_def isPending_def isTaskActive_def logAnalyzePasteSchema_def
  logWorkspaceSchema_def providerSchema_def LLM_PROVIDERS_def LOG_ASYNC_THRESHOLD_def LOG_CONTENT_MIN_def LOG_CONTENT_MAX_def
  ex_parse_def int_in_def defined_fields_def nonempty_opt_def truthy_def js_truthy_def opt_prop_def Let_def

definition ex_log_events :: "log_event list" where
  "ex_log_events = [SetContent ''oom'', SetWorkspace ''organization'', SubmitPaste ''k'']"


section \<open>The selected organization\<close>

text \<open>A change of the organization clears what is shown.\<close>

lemma organization_change_clears:
  assumes "(i, c) \<noteq> (lp_organizationId s, lp_canCreate s)"
  shows "lp_result (organization_changes i c s) = None \<and> lp_taskId (organization_changes i c s) = None
    \<and> lp_queuedOrganizationId (organization_changes i c s) = None"
  using assms by (auto simp: organization_changes_def organization_effect_def setTaskId_def Let_def)

text \<open>
  It does not cancel the call in flight: an analysis asked for in one organization is shown in
  the next one, when its answer comes after the switch; a queued one is even polled there.
\<close>

lemma late_answer_crosses_organizations:
  "let s = log_run ex_parse (ex_log_events @ [OrganizationChanges (Some ''org-b'') True, Answered 0 (Inr (JObj []))])
             (initial_log_page (Some ''org-a'') True)
   in map log_call_organization (lp_calls s) = [Some ''org-a''] \<and> lp_organizationId s = Some ''org-b''
      \<and> lp_result s = Some (JObj [])"
  "let s = log_run ex_parse ([SetAsync True] @ ex_log_events @ [OrganizationChanges (Some ''org-b'') True,
             Answered 0 (Inr (JObj [(''task_id'', JStr ''t'')]))]) (initial_log_page (Some ''org-a'') True)
   in lp_organizationId s = Some ''org-b'' \<and> lp_taskId s = Some ''t'' \<and> lp_queuedOrganizationId s = Some ''org-a''"
  by (simp_all add: ex_log_events_def log_exec)

section \<open>The end of a task\<close>

definition task_ended :: "json \<Rightarrow> bool" where
  "task_ended task = (as_string (js_prop task ''status'') \<in> {Some ''succeeded'', Some ''failed'', Some ''cancelled''})"

lemma ended_not_active: "task_ended task \<Longrightarrow> \<not> isTaskActive (as_string (js_prop task ''status''))"
  by (auto simp: task_ended_def isTaskActive_def)

text \<open>Polling ends with the task: when the data of the task polled say that it has ended, the page
  forgets the task and tells the user exactly once, with a success when and only when the
  result could be read, which is then shown; before that the data change nothing that is
  shown, and data of any other task change nothing at all.\<close>

theorem task_end_is_reported:
  "if lp_taskId s \<noteq> Some i then task_arrives parse i task s = s
   else if task_ended task then
     lp_taskId (task_arrives parse i task s) = None
     \<and> lp_taskData (task_arrives parse i task s) = None
     \<and> (\<exists>n. lp_notices (task_arrives parse i task s) = lp_notices s @ [n]
          \<and> (if is_failure n then lp_result (task_arrives parse i task s) = lp_result s
              else as_string (js_prop task ''status'') = Some ''succeeded''
                \<and> lp_result (task_arrives parse i task s) = parseTaskLogResult parse (js_prop task ''result_json'')
                \<and> lp_result (task_arrives parse i task s) \<noteq> None))
   else task_arrives parse i task s = s\<lparr>lp_taskData := Some task\<rparr>"
  by (auto simp: task_arrives_def task_effect_def task_ended_def forget_task_def setTaskId_def notify_def
      split: option.split)

end
