(* ===== verification/Member_Admin.thy ===== *)
theory Member_Admin
  imports Ui_Actions Feature_Apis Feature_Rules Rbac
begin

text \<open>
  components/organizations/members-page.tsx: the page that administers the members of an
  organization, together with the list the backend keeps.  The page shows one page of that list
  as it was when it was loaded; a request changes the list when the backend accepts it, and the
  page learns of it when the list is loaded again.
\<close>

section \<open>State\<close>

record member =
  m_user_id :: string
  m_email :: string
  m_role :: string

record invitation =
  in_id :: string
  in_email :: string

datatype member_call =
    UpdateRole member string
  | Remove member
  | Invite string string
  | Resend invitation
  | Revoke invitation

record members_page =
  mp_server :: "member list"
  mp_members :: "member list"
  mp_canManage :: bool
  mp_pendingRole :: "(member \<times> string) option"
  mp_pendingRemove :: "member option"
  mp_pendingRevoke :: "invitation option"
  mp_inviteOpen :: bool
  mp_flight :: "member_call list"
  mp_notices :: "notice list"

text \<open>The request of a call.\<close>

definition member_api :: "string \<Rightarrow> member_call \<Rightarrow> api_call" where
  "member_api organizationId c =
     (case c of
        UpdateRole m r \<Rightarrow> updateMember organizationId (m_user_id m) (JObj [(''role'', JStr r)])
      | Remove m \<Rightarrow> removeMember organizationId (m_user_id m)
      | Invite email r \<Rightarrow> createInvitation organizationId (JObj [(''email'', JStr email), (''role'', JStr r)])
      | Resend i \<Rightarrow> resendInvitation organizationId (in_id i)
      | Revoke i \<Rightarrow> revokeInvitation organizationId (in_id i))"

text \<open>What an accepted call does to the members.\<close>

definition apply_call :: "member_call \<Rightarrow> member list \<Rightarrow> member list" where
  "apply_call c ms =
     (case c of
        UpdateRole m r \<Rightarrow> map (\<lambda>x. if m_user_id x = m_user_id m then x\<lparr>m_role := r\<rparr> else x) ms
      | Remove m \<Rightarrow> filter (\<lambda>x. m_user_id x \<noteq> m_user_id m) ms
      | _ \<Rightarrow> ms)"

definition owners :: "member list \<Rightarrow> nat" where
  "owners ms = countOwners (Some (map m_role ms))"

definition sole :: "member \<Rightarrow> members_page \<Rightarrow> bool" where
  "sole m s = isSoleOwner (m_role m) (Some (map m_role (mp_members s)))"

definition tell :: "notice \<Rightarrow> members_page \<Rightarrow> members_page" where
  "tell n s = s\<lparr>mp_notices := mp_notices s @ [n]\<rparr>"

definition send :: "member_call \<Rightarrow> members_page \<Rightarrow> members_page" where
  "send c s = s\<lparr>mp_flight := mp_flight s @ [c]\<rparr>"

section \<open>Handlers\<close>

definition final_owner_demotion :: string where
  "final_owner_demotion = ''Cannot demote the final owner. Transfer ownership first.''"

definition final_owner_removal :: string where
  "final_owner_removal = ''Cannot remove the final owner. Transfer ownership first.''"

definition requestRoleChange :: "member \<Rightarrow> string \<Rightarrow> members_page \<Rightarrow> members_page" where
  "requestRoleChange m nextRole s =
     (if m_role m = nextRole then s
      else if sole m s \<and> nextRole \<noteq> ''owner'' then tell (Failure final_owner_demotion) s
      else if m_role m = ''owner'' \<and> nextRole \<noteq> ''owner'' then s\<lparr>mp_pendingRole := Some (m, nextRole)\<rparr>
      else send (UpdateRole m nextRole) s)"

definition requestRemove :: "member \<Rightarrow> members_page \<Rightarrow> members_page" where
  "requestRemove m s =
     (if sole m s then tell (Failure final_owner_removal) s else s\<lparr>mp_pendingRemove := Some m\<rparr>)"

definition confirmRole :: "members_page \<Rightarrow> members_page" where
  "confirmRole s = (case mp_pendingRole s of Some (m, r) \<Rightarrow> send (UpdateRole m r) s | None \<Rightarrow> s)"

definition confirmRemove :: "members_page \<Rightarrow> members_page" where
  "confirmRemove s = (case mp_pendingRemove s of Some m \<Rightarrow> send (Remove m) s | None \<Rightarrow> s)"

definition confirmRevokeInvitation :: "members_page \<Rightarrow> members_page" where
  "confirmRevokeInvitation s = (case mp_pendingRevoke s of Some i \<Rightarrow> send (Revoke i) s | None \<Rightarrow> s)"

text \<open>What follows the \<open>await\<close> of each handler.\<close>

definition after_success :: "member_call \<Rightarrow> members_page \<Rightarrow> members_page" where
  "after_success c s =
     (case c of
        UpdateRole m r \<Rightarrow> (tell (Success (''Updated role for '' @ m_email m)) s)\<lparr>mp_pendingRole := None\<rparr>
      | Remove m \<Rightarrow> (tell (Success (''Removed '' @ m_email m)) s)\<lparr>mp_pendingRemove := None\<rparr>
      | Invite email r \<Rightarrow> (tell (Success (''Invitation sent to '' @ email)) s)\<lparr>mp_inviteOpen := False\<rparr>
      | Resend i \<Rightarrow> tell (Success (''Invitation resent to '' @ in_email i)) s
      | Revoke i \<Rightarrow> (tell (Success (''Revoked invitation for '' @ in_email i)) s)\<lparr>mp_pendingRevoke := None\<rparr>)"

definition failure_text :: "member_call \<Rightarrow> string" where
  "failure_text c =
     (case c of UpdateRole _ _ \<Rightarrow> ''Failed to update member'' | Remove _ \<Rightarrow> ''Failed to remove member''
      | Invite _ _ \<Rightarrow> ''Failed to send invitation'' | Resend _ \<Rightarrow> ''Failed to resend invitation''
      | Revoke _ \<Rightarrow> ''Failed to revoke invitation'')"

definition call_answered :: "member_call \<Rightarrow> js_exn option \<Rightarrow> members_page \<Rightarrow> members_page" where
  "call_answered c failed s =
     (let s1 = s\<lparr>mp_flight := remove1 c (mp_flight s)\<rparr> in
      case failed of
        None \<Rightarrow> after_success c (s1\<lparr>mp_server := apply_call c (mp_server s1)\<rparr>)
      | Some e \<Rightarrow> tell (Failure (error_text e (failure_text c))) s1)"

section \<open>What the page offers\<close>

text \<open>The mutations that are pending disable their buttons, an open dialog covers the page.\<close>

definition updatePending :: "members_page \<Rightarrow> bool" where
  "updatePending s = list_ex (\<lambda>c. case c of UpdateRole _ _ \<Rightarrow> True | _ \<Rightarrow> False) (mp_flight s)"

definition removePending :: "members_page \<Rightarrow> bool" where
  "removePending s = list_ex (\<lambda>c. case c of Remove _ \<Rightarrow> True | _ \<Rightarrow> False) (mp_flight s)"

definition dialog_open :: "members_page \<Rightarrow> bool" where
  "dialog_open s = (mp_pendingRole s \<noteq> None \<or> mp_pendingRemove s \<noteq> None \<or> mp_pendingRevoke s \<noteq> None \<or> mp_inviteOpen s)"

definition PAGE_SIZE :: nat where "PAGE_SIZE = 50"

definition loaded :: "nat \<Rightarrow> members_page \<Rightarrow> members_page" where
  "loaded pageIndex s = s\<lparr>mp_members := take PAGE_SIZE (drop (pageIndex * PAGE_SIZE) (mp_server s))\<rparr>"

text \<open>The label marks what the user does with a row of the table.\<close>

inductive page_step :: "bool \<Rightarrow> members_page \<Rightarrow> members_page \<Rightarrow> bool" where
  select_role: "mp_canManage s \<Longrightarrow> \<not> dialog_open s \<Longrightarrow> m \<in> set (mp_members s) \<Longrightarrow> \<not> sole m s \<Longrightarrow>
    \<not> updatePending s \<Longrightarrow> page_step True s (requestRoleChange m r s)"
| click_remove: "mp_canManage s \<Longrightarrow> \<not> dialog_open s \<Longrightarrow> m \<in> set (mp_members s) \<Longrightarrow> \<not> sole m s \<Longrightarrow>
    \<not> removePending s \<Longrightarrow> page_step True s (requestRemove m s)"
| confirm_role: "\<not> updatePending s \<Longrightarrow> page_step False s (confirmRole s)"
| confirm_remove: "\<not> removePending s \<Longrightarrow> page_step False s (confirmRemove s)"
| close_role: "page_step False s (s\<lparr>mp_pendingRole := None\<rparr>)"
| close_remove: "page_step False s (s\<lparr>mp_pendingRemove := None\<rparr>)"
| invite: "\<not> dialog_open s \<Longrightarrow> page_step False s (s\<lparr>mp_inviteOpen := True\<rparr>)"
| submit_invite: "mp_inviteOpen s \<Longrightarrow> page_step False s (send (Invite email r) s)"
| close_invite: "page_step False s (s\<lparr>mp_inviteOpen := False\<rparr>)"
| resend: "mp_canManage s \<Longrightarrow> \<not> dialog_open s \<Longrightarrow> page_step False s (send (Resend i) s)"
| revoke: "mp_canManage s \<Longrightarrow> \<not> dialog_open s \<Longrightarrow> page_step False s (s\<lparr>mp_pendingRevoke := Some i\<rparr>)"
| confirm_revoke: "page_step False s (confirmRevokeInvitation s)"
| close_revoke: "page_step False s (s\<lparr>mp_pendingRevoke := None\<rparr>)"
| answer: "c \<in> set (mp_flight s) \<Longrightarrow> page_step False s (call_answered c failed s)"
| load: "page_step False s (loaded k s)"

section \<open>The final owner\<close>

definition member_change :: "member_call \<Rightarrow> bool" where
  "member_change c = (case c of UpdateRole _ _ \<Rightarrow> True | Remove _ \<Rightarrow> True | _ \<Rightarrow> False)"

lemma member_change_simps [simp]:
  "member_change (UpdateRole m r)" "member_change (Remove m)" "\<not> member_change (Invite e r)"
  "\<not> member_change (Resend i)" "\<not> member_change (Revoke i)"
  by (simp_all add: member_change_def)

lemma apply_no_change [simp]: "\<not> member_change c \<Longrightarrow> apply_call c ms = ms"
  by (cases c) (simp_all add: apply_call_def)

text \<open>The list is up to date: it is a page of the members there are, and no change is on its way.\<close>

definition fresh :: "members_page \<Rightarrow> bool" where
  "fresh s = ((\<exists>k. mp_members s = take PAGE_SIZE (drop (k * PAGE_SIZE) (mp_server s)))
     \<and> filter member_change (mp_flight s) = [])"

text \<open>A user who acts on a row only while the list is up to date.\<close>

inductive careful :: "members_page \<Rightarrow> members_page \<Rightarrow> bool" where
  start: "careful s s"
| step: "careful s0 s \<Longrightarrow> page_step row s s' \<Longrightarrow> row \<longrightarrow> fresh s \<Longrightarrow> careful s0 s'"

definition opened :: "member list \<Rightarrow> bool \<Rightarrow> members_page" where
  "opened ms canManage =
     \<lparr>mp_server = ms, mp_members = [], mp_canManage = canManage, mp_pendingRole = None,
      mp_pendingRemove = None, mp_pendingRevoke = None, mp_inviteOpen = False, mp_flight = [], mp_notices = []\<rparr>"

definition well_kept :: "member list \<Rightarrow> bool" where
  "well_kept ms = (distinct (map m_user_id ms) \<and> 1 \<le> owners ms)"

text \<open>The changes the page may still ask for, and those on their way.\<close>

definition waiting :: "members_page \<Rightarrow> member_call list" where
  "waiting s = (case mp_pendingRole s of Some (m, r) \<Rightarrow> [UpdateRole m r] | None \<Rightarrow> [])
     @ (case mp_pendingRemove s of Some m \<Rightarrow> [Remove m] | None \<Rightarrow> [])"

definition guarded :: "members_page \<Rightarrow> bool" where
  "guarded s = (well_kept (mp_server s)
     \<and> (\<exists>c. waiting s \<in> {[], [c]} \<and> filter member_change (mp_flight s) \<in> {[], [c]}
            \<and> well_kept (apply_call c (mp_server s))))"

lemma owners_simps [simp]:
  "owners [] = 0" "owners (m # ms) = (if m_role m = ''owner'' then Suc (owners ms) else owners ms)"
  "owners (ms @ ns) = owners ms + owners ns"
  by (simp_all add: owners_def countOwners_def)

lemma owners_page: "owners (take n (drop k ms)) \<le> owners ms"
proof -
  have "owners ms = owners (take k ms) + (owners (take n (drop k ms)) + owners (drop n (drop k ms)))"
    by (metis append_take_drop_id owners_simps(3))
  then show ?thesis by simp
qed

lemma owners_others:
  "distinct (map m_user_id ms) \<Longrightarrow> m \<in> set ms \<Longrightarrow>
   owners ms = owners (filter (\<lambda>x. m_user_id x \<noteq> m_user_id m) ms) + (if m_role m = ''owner'' then 1 else 0)"
proof (induction ms)
  case (Cons x ms)
  have "filter (\<lambda>y. m_user_id y \<noteq> m_user_id x) ms = ms"
    using Cons.prems(1) by (auto simp: filter_id_conv rev_image_eqI)
  with Cons show ?case by (auto simp: rev_image_eqI)
qed simp

lemma owners_update:
  "owners (filter (\<lambda>x. m_user_id x \<noteq> i) ms) \<le> owners (map (\<lambda>x. if m_user_id x = i then x\<lparr>m_role := r\<rparr> else x) ms)"
  by (induction ms) auto

lemma ids_apply:
  "distinct (map m_user_id ms) \<Longrightarrow> distinct (map m_user_id (apply_call c ms))"
proof (cases c)
  case (UpdateRole m r)
  have "map m_user_id (apply_call c ms) = map m_user_id ms" by (simp add: apply_call_def UpdateRole o_def if_distrib cong: if_cong)
  then show "distinct (map m_user_id ms) \<Longrightarrow> ?thesis" by simp
qed (simp_all add: apply_call_def distinct_map_filter)

text \<open>A member that is not the only owner shown can be demoted or removed.\<close>

lemma not_sole_safe:
  assumes s: "well_kept (mp_server s)" and f: "fresh s" and m: "m \<in> set (mp_members s)" and n: "\<not> sole m s"
  shows "well_kept (apply_call (UpdateRole m r) (mp_server s)) \<and> well_kept (apply_call (Remove m) (mp_server s))"
proof -
  obtain k where k: "mp_members s = take PAGE_SIZE (drop (k * PAGE_SIZE) (mp_server s))"
    using f by (auto simp: fresh_def)
  have mem: "m \<in> set (mp_server s)" using m unfolding k by (meson in_set_dropD in_set_takeD)
  have "2 \<le> owners (mp_server s)" if "m_role m = ''owner''"
  proof -
    have "2 \<le> owners (mp_members s)" using n that by (simp add: sole_def isSoleOwner_def owners_def)
    with owners_page [of PAGE_SIZE "k * PAGE_SIZE" "mp_server s"] show ?thesis by (simp add: k)
  qed
  then have "1 \<le> owners (filter (\<lambda>x. m_user_id x \<noteq> m_user_id m) (mp_server s))"
    using owners_others [OF _ mem] s by (auto simp: well_kept_def split: if_splits)
  then show ?thesis
    using owners_update [of "m_user_id m" "mp_server s" r] ids_apply s
    by (auto simp: well_kept_def apply_call_def distinct_map_filter ids_apply [of _ "UpdateRole m r", unfolded apply_call_def, simplified])
qed

lemma guardedI:
  "well_kept (mp_server s) \<Longrightarrow> waiting s \<in> {[], [c]} \<Longrightarrow> filter member_change (mp_flight s) \<in> {[], [c]} \<Longrightarrow>
   well_kept (apply_call c (mp_server s)) \<Longrightarrow> guarded s"
  by (auto simp: guarded_def)

lemma guarded_idle:
  assumes "well_kept (mp_server s)" "waiting s = []" "filter member_change (mp_flight s) = []"
  shows "guarded s"
proof (rule guardedI [where c = "Invite [] []"])
  show "waiting s \<in> {[], [Invite [] []]}" and "filter member_change (mp_flight s) \<in> {[], [Invite [] []]}"
    using assms(2,3) by simp_all
qed (simp_all add: assms)

lemma guardedE:
  assumes "guarded s"
  obtains c where "well_kept (mp_server s)" "waiting s \<in> {[], [c]}" "filter member_change (mp_flight s) \<in> {[], [c]}"
    "well_kept (apply_call c (mp_server s))"
  using assms unfolding guarded_def by blast

text \<open>A step that leaves the members alone and asks for no more changes.\<close>

lemma guarded_frame:
  assumes "guarded s" and "mp_server s' = mp_server s" and "waiting s' = waiting s \<or> waiting s' = []"
    and "filter member_change (mp_flight s') = filter member_change (mp_flight s) \<or> filter member_change (mp_flight s') = []"
  shows "guarded s'"
proof -
  obtain c where "well_kept (mp_server s)" "waiting s \<in> {[], [c]}" "filter member_change (mp_flight s) \<in> {[], [c]}"
    "well_kept (apply_call c (mp_server s))" using assms(1) by (rule guardedE)
  with assms(2-4) show ?thesis by (intro guardedI [of s' c]) auto
qed

lemma change_in_flight:
  assumes "filter P xs \<in> {[], [c]}" and "d \<in> set xs" and "P d"
  shows "d = c \<and> filter P xs = [c]"
proof -
  have "d \<in> set (filter P xs)" using assms(2,3) by simp
  with assms(1) show ?thesis by (cases "filter P xs = []") auto
qed

lemma waiting_simps [simp]:
  "waiting (tell n s) = waiting s" "waiting (send c s) = waiting s"
  "waiting (s\<lparr>mp_inviteOpen := b\<rparr>) = waiting s" "waiting (s\<lparr>mp_pendingRevoke := v\<rparr>) = waiting s"
  "waiting (s\<lparr>mp_members := ms\<rparr>) = waiting s" "waiting (s\<lparr>mp_server := ms\<rparr>) = waiting s"
  "waiting (s\<lparr>mp_flight := cs\<rparr>) = waiting s"
  by (simp_all add: waiting_def tell_def send_def)

lemma state_simps [simp]:
  "mp_server (tell n s) = mp_server s" "mp_server (send c s) = mp_server s"
  "mp_flight (tell n s) = mp_flight s" "mp_flight (send c s) = mp_flight s @ [c]"
  by (simp_all add: tell_def send_def)

lemma guarded_select:
  assumes g: "guarded s" and f: "fresh s" and d: "\<not> dialog_open s" and m: "m \<in> set (mp_members s)" and n: "\<not> sole m s"
  shows "guarded (requestRoleChange m r s)" and "guarded (requestRemove m s)"
proof -
  have k: "well_kept (mp_server s)" using g by (rule guardedE)
  note safe = not_sole_safe [OF k f m n, of r]
  have p: "mp_pendingRole s = None" "mp_pendingRemove s = None" using d unfolding dialog_open_def by blast+
  then have w: "waiting s = []" by (simp add: waiting_def)
  have c: "filter member_change (mp_flight s) = []" using f by (simp add: fresh_def)
  have told: "guarded (tell x s)" for x by (rule guarded_frame [OF g]) simp_all
  have asked: "guarded (s\<lparr>mp_pendingRole := Some (m, r)\<rparr>)"
    by (rule guardedI [where c = "UpdateRole m r"]) (use safe k c p in \<open>simp_all add: waiting_def\<close>)
  have sent: "guarded (send (UpdateRole m r) s)"
    by (rule guardedI [where c = "UpdateRole m r"]) (use safe k c w in simp_all)
  from told asked sent g show "guarded (requestRoleChange m r s)" by (simp add: requestRoleChange_def)
  have "guarded (s\<lparr>mp_pendingRemove := Some m\<rparr>)"
    by (rule guardedI [where c = "Remove m"]) (use safe k c p in \<open>simp_all add: waiting_def\<close>)
  with told show "guarded (requestRemove m s)" by (simp add: requestRemove_def)
qed

lemma guarded_confirm:
  assumes g: "guarded s"
  shows "\<not> updatePending s \<Longrightarrow> guarded (confirmRole s)" and "\<not> removePending s \<Longrightarrow> guarded (confirmRemove s)"
proof -
  obtain c where c: "well_kept (mp_server s)" "waiting s \<in> {[], [c]}" "filter member_change (mp_flight s) \<in> {[], [c]}"
    "well_kept (apply_call c (mp_server s))" using g by (rule guardedE)
  have in_flight: "c \<in> set (mp_flight s)" if "filter member_change (mp_flight s) \<noteq> []"
    using that c(3) by (metis empty_iff filter_is_subset insert_iff list.set_intros(1) subsetD)
  show "guarded (confirmRole s)" if u: "\<not> updatePending s"
  proof (cases "mp_pendingRole s")
    case (Some x)
    then obtain m r where x: "mp_pendingRole s = Some (m, r)" by (cases x) simp
    with c(2) have cr: "c = UpdateRole m r" "waiting s = [UpdateRole m r]" by (auto simp: waiting_def)
    have "UpdateRole m r \<notin> set (mp_flight s)" using u by (auto simp: updatePending_def list_ex_iff)
    then have "filter member_change (mp_flight s) = []" using in_flight cr(1) by blast
    with c cr show ?thesis by (intro guardedI [where c = c]) (simp_all add: confirmRole_def x)
  qed (simp add: confirmRole_def g)
  show "guarded (confirmRemove s)" if u: "\<not> removePending s"
  proof (cases "mp_pendingRemove s")
    case (Some m)
    with c(2) have cr: "c = Remove m" "waiting s = [Remove m]" by (auto simp: waiting_def split: option.splits)
    have "Remove m \<notin> set (mp_flight s)" using u by (auto simp: removePending_def list_ex_iff)
    then have "filter member_change (mp_flight s) = []" using in_flight cr(1) by blast
    with c cr show ?thesis by (intro guardedI [where c = c]) (simp_all add: confirmRemove_def Some)
  qed (simp add: confirmRemove_def g)
qed

lemma guarded_answer:
  assumes g: "guarded s" and i: "c0 \<in> set (mp_flight s)"
  shows "guarded (call_answered c0 failed s)"
proof (cases "failed = None \<and> member_change c0")
  case True
  obtain c where c: "waiting s \<in> {[], [c]}" "filter member_change (mp_flight s) \<in> {[], [c]}"
    "well_kept (apply_call c (mp_server s))" using g by (rule guardedE)
  with True change_in_flight [OF c(2) i] have c0: "c = c0" "filter member_change (mp_flight s) = [c0]" by auto
  then have "filter member_change (remove1 c0 (mp_flight s)) = []" by (simp add: filter_remove1)
  moreover have "waiting (after_success c0 t) = []" if "waiting t = waiting s" for t
    using that c(1) True c0(1) by (cases c0) (auto simp: after_success_def waiting_def tell_def split: option.splits)
  ultimately show ?thesis
    using c(3) True c0(1)
    by (intro guarded_idle) (cases c0; simp add: call_answered_def Let_def; simp add: after_success_def)+
next
  case False
  have "filter member_change (remove1 c0 (mp_flight s)) = filter member_change (mp_flight s)
      \<or> filter member_change (remove1 c0 (mp_flight s)) = []"
    using g by (rule guardedE) (auto simp: filter_remove1 remove1_idem split: if_splits)
  moreover have "mp_server (call_answered c0 failed s) = mp_server s"
      "mp_flight (call_answered c0 failed s) = remove1 c0 (mp_flight s)"
    using False by (cases c0; cases failed; simp add: call_answered_def Let_def after_success_def)+
  moreover have "waiting (call_answered c0 failed s) = waiting s"
    using False by (cases c0; cases failed; simp add: call_answered_def Let_def after_success_def)
  ultimately show ?thesis by (intro guarded_frame [OF g]) simp_all
qed

lemma guarded_step:
  assumes "guarded s" and "page_step row s s'" and "row \<longrightarrow> fresh s"
  shows "guarded s'"
  using assms(2)
proof cases
  case (select_role m r)
  with guarded_select(1) [OF assms(1)] assms(3) show ?thesis by blast
next
  case (click_remove m)
  with guarded_select(2) [OF assms(1)] assms(3) show ?thesis by blast
next
  case confirm_role
  with guarded_confirm(1) [OF assms(1)] show ?thesis by blast
next
  case confirm_remove
  with guarded_confirm(2) [OF assms(1)] show ?thesis by blast
next
  case (answer c failed)
  with guarded_answer [OF assms(1)] show ?thesis by blast
next
  case close_role
  with assms(1) show ?thesis by (auto elim!: guardedE intro!: guarded_frame [OF assms(1)] simp: waiting_def split: option.splits)
next
  case close_remove
  with assms(1) show ?thesis by (auto elim!: guardedE intro!: guarded_frame [OF assms(1)] simp: waiting_def split: option.splits)
qed (auto intro!: guarded_frame [OF assms(1)] simp: confirmRevokeInvitation_def loaded_def split: option.split)

text \<open>C21: the organization never loses its last owner: starting with the members there are, one of
  them an owner, whatever a single user of the page does, closes, confirms or retries, in any
  order with the answers and the loads, there is an owner left, and the pending dialog and the
  request on its way, if any, leave one too; provided the user picks a row only while the
  table is up to date.\<close>

theorem final_owner_stays:
  assumes "careful (opened ms canManage) s" and "well_kept ms"
  shows "1 \<le> owners (mp_server s)
    \<and> list_all (\<lambda>c. 1 \<le> owners (apply_call c (mp_server s))) (waiting s @ mp_flight s)"
proof -
  from assms(1) have "guarded s"
  proof (induction "opened ms canManage" s rule: careful.induct)
    case start
    show ?case by (rule guarded_idle) (simp_all add: opened_def assms(2) waiting_def)
  next
    case (step s row s')
    show ?case by (rule guarded_step [OF step.hyps(2-4)])
  qed
  then obtain c where c: "well_kept (mp_server s)" "waiting s \<in> {[], [c]}" "filter member_change (mp_flight s) \<in> {[], [c]}"
    "well_kept (apply_call c (mp_server s))" by (rule guardedE)
  have "1 \<le> owners (apply_call d (mp_server s))" if "d \<in> set (waiting s @ mp_flight s)" for d
  proof (cases "member_change d")
    case True
    then have "d = c" using that c(2) change_in_flight [OF c(3), of d] by auto
    with c(4) show ?thesis by (simp add: well_kept_def)
  qed (use c(1) in \<open>simp add: well_kept_def\<close>)
  with c(1) show ?thesis by (simp add: well_kept_def list_all_iff)
qed

definition ex_ann :: member where
  "ex_ann = \<lparr>m_user_id = ''1'', m_email = ''ann@x'', m_role = ''owner''\<rparr>"

definition ex_bob :: member where
  "ex_bob = \<lparr>m_user_id = ''2'', m_email = ''bob@x'', m_role = ''owner''\<rparr>"

lemmas member_exec = ex_ann_def ex_bob_def opened_def loaded_def PAGE_SIZE_def requestRemove_def requestRoleChange_def
  confirmRemove_def confirmRole_def call_answered_def after_success_def apply_call_def sole_def isSoleOwner_def
  countOwners_def send_def tell_def dialog_open_def updatePending_def removePending_def Let_def

text \<open>Ann, one of two owners, is removed; then Bob is the final owner.\<close>

definition ex_removed :: members_page where
  "ex_removed = call_answered (Remove ex_ann) None
     (confirmRemove (requestRemove ex_ann (loaded 0 (opened [ex_ann, ex_bob] True))))"

lemma careful_removed: "careful (opened [ex_ann, ex_bob] True) ex_removed"
proof -
  let ?o = "opened [ex_ann, ex_bob] True"
  have 1: "careful ?o (loaded 0 ?o)" by (rule careful.step [OF careful.start page_step.load]) simp
  have f: "fresh (loaded 0 ?o)" unfolding fresh_def by (intro conjI exI [of _ 0]) (simp_all add: member_exec)
  have 2: "careful ?o (requestRemove ex_ann (loaded 0 ?o))"
    by (rule careful.step [OF 1 page_step.click_remove]) (use f in \<open>simp_all add: member_exec\<close>)
  have 3: "careful ?o (confirmRemove (requestRemove ex_ann (loaded 0 ?o)))"
    by (rule careful.step [OF 2 page_step.confirm_remove]) (simp_all add: member_exec)
  show ?thesis
    unfolding ex_removed_def by (rule careful.step [OF 3 page_step.answer]) (simp_all add: member_exec)
qed

lemma final_owner_stays_witness: "mp_server ex_removed = [ex_bob] \<and> 1 \<le> owners (mp_server ex_removed)"
proof -
  have "well_kept [ex_ann, ex_bob]" by (simp add: well_kept_def ex_ann_def ex_bob_def)
  from final_owner_stays [OF careful_removed this] show ?thesis by (simp add: ex_removed_def member_exec)
qed

text \<open>
  The proviso is needed: the table still shows the removed owner until it is loaded again, and
  then the page offers to demote the final one; the backend has to refuse.
\<close>

lemma stale_table_offers_last_owner:
  "page_step True ex_removed (requestRoleChange ex_bob ''member'' ex_removed)"
  "mp_pendingRole (requestRoleChange ex_bob ''member'' ex_removed) = Some (ex_bob, ''member'')"
  "owners (apply_call (UpdateRole ex_bob ''member'') (mp_server ex_removed)) = 0"
  by (rule page_step.select_role; simp add: ex_removed_def member_exec)
     (simp_all add: ex_removed_def member_exec)

text \<open>
  The guard counts the owners of the page shown: the only owner of a later page cannot be
  demoted or removed there, however many owners the pages before it have.
\<close>

lemma sole_on_its_page:
  "length ms = PAGE_SIZE \<Longrightarrow> m_role m = ''owner'' \<Longrightarrow> sole m (loaded 1 (opened (ms @ [m]) canManage))"
  by (simp add: member_exec)

end
