(* ===== verification/Chat_Workspace.thy ===== *)
theory Chat_Workspace
  imports Ui_Actions Form_Schemas Streaming_Chat
begin

text \<open>
  components/chat/chat-workspace.tsx and chat-composer.tsx: the chat page over the hook of
  Streaming_Chat.  An event changes the React state; then the component renders, adjusting its
  state while it does, and the effects whose dependencies have changed run.  Creation times of
  messages are left out.
\<close>

section \<open>State\<close>

record message =
  ms_id :: string
  ms_role :: string
  ms_content :: string
  ms_provider :: "string option"

record conversation =
  cv_id :: string
  cv_provider :: string
  cv_messages :: "message list"

type_synonym navigation_deps = "string option \<times> string option \<times> chat_status"

record chat_page =
  cw_conversationId :: "string option"
  cw_active :: "string option"
  cw_providerOverride :: "string option"
  cw_draftMessages :: "message list"
  cw_pendingRetry :: "string option"
  cw_committedStreamKey :: "string option"
  cw_navigated :: "string option"
  cw_invalidated :: "string option"
  cw_detail :: "conversation option"
  cw_organizationId :: "string option"
  cw_stream :: hook
  cw_deps :: "(string option \<times> string option \<times> navigation_deps) option"
  cw_shown_urls :: "string list"
  cw_replaced_urls :: "string list"
  cw_invalidations :: nat

definition chat_opened :: "string option \<Rightarrow> string option \<Rightarrow> chat_page" where
  "chat_opened conversationId organizationId =
     \<lparr>cw_conversationId = conversationId, cw_active = conversationId, cw_providerOverride = None,
      cw_draftMessages = [], cw_pendingRetry = None, cw_committedStreamKey = None, cw_navigated = None,
      cw_invalidated = None, cw_detail = None, cw_organizationId = organizationId, cw_stream = initial_hook,
      cw_deps = None, cw_shown_urls = [], cw_replaced_urls = [], cw_invalidations = 0\<rparr>"

abbreviation stream_state :: "chat_page \<Rightarrow> chat_state" where
  "stream_state w \<equiv> h_state (cw_stream w)"

section \<open>What a render computes\<close>

definition asProvider :: "string option \<Rightarrow> string option" where
  "asProvider v = (if v \<in> {Some ''gemini'', Some ''llama'', Some ''mistral''} then v else None)"

definition serverMessages :: "chat_page \<Rightarrow> message list" where
  "serverMessages w =
     (case (nonempty_opt (cw_conversationId w), cw_detail w) of
        (Some i, Some d) \<Rightarrow> if cv_id d = i then cv_messages d else []
      | _ \<Rightarrow> [])"

definition page_provider :: "chat_page \<Rightarrow> string" where
  "page_provider w =
     (case cw_providerOverride w of Some p \<Rightarrow> p
      | None \<Rightarrow> (case asProvider (map_option cv_provider (cw_detail w)) of Some p \<Rightarrow> p | None \<Rightarrow> ''gemini''))"

definition completedAssistant :: "chat_state \<Rightarrow> message option" where
  "completedAssistant s =
     (case nonempty_opt (cs_conversationId s) of
        Some c \<Rightarrow>
          if cs_status s = SCompleted \<and> cs_tokens s \<noteq> [] then
            Some \<lparr>ms_id = (case cs_messageId s of Some m \<Rightarrow> m | None \<Rightarrow> ''assistant-'' @ c),
                  ms_role = ''assistant'', ms_content = cs_tokens s, ms_provider = cs_provider s\<rparr>
          else None
      | None \<Rightarrow> None)"

definition commitKey :: "chat_state \<Rightarrow> string option" where
  "commitKey s =
     (case completedAssistant s of
        None \<Rightarrow> None
      | Some _ \<Rightarrow> Some (case cs_messageId s of Some m \<Rightarrow> m
          | None \<Rightarrow> (case cs_conversationId s of Some c \<Rightarrow> c | None \<Rightarrow> []) @ '':'' @ show_nat (length (cs_tokens s)) @ '':''
                    @ (case cs_provider s of Some p \<Rightarrow> p | None \<Rightarrow> [])))"

text \<open>The condition \<open>commitKey && completedAssistant\<close>.\<close>

definition to_commit :: "chat_state \<Rightarrow> (string \<times> message) option" where
  "to_commit s =
     (case (nonempty_opt (commitKey s), completedAssistant s) of (Some k, Some a) \<Rightarrow> Some (k, a) | _ \<Rightarrow> None)"

definition with_message :: "message \<Rightarrow> message list \<Rightarrow> message list" where
  "with_message m ms = (if list_ex (\<lambda>x. ms_id x = ms_id m) ms then ms else ms @ [m])"

definition localMessages :: "chat_page \<Rightarrow> message list" where
  "localMessages w =
     (let base = (if cw_draftMessages w \<noteq> [] then cw_draftMessages w else serverMessages w) in
      case completedAssistant (stream_state w) of Some a \<Rightarrow> with_message a base | None \<Rightarrow> base)"

text \<open>
  One call of the component.  The updates it queues are applied before the next call, which React
  makes at once; both conditions read the state this call began with.
\<close>

definition render_pass :: "chat_page \<Rightarrow> chat_page" where
  "render_pass w =
     (let w1 = (if cw_conversationId w \<noteq> cw_active w
                then w\<lparr>cw_active := cw_conversationId w, cw_committedStreamKey := None,
                       cw_draftMessages := [], cw_providerOverride := None\<rparr>
                else w)
      in case to_commit (stream_state w) of
           Some (k, a) \<Rightarrow>
             if cw_committedStreamKey w \<noteq> Some k
             then w1\<lparr>cw_committedStreamKey := Some k, cw_draftMessages := with_message a (cw_draftMessages w1)\<rparr>
             else w1
         | None \<Rightarrow> w1)"

definition render :: "chat_page \<Rightarrow> chat_page" where
  "render w = render_pass (render_pass w)"

section \<open>Effects\<close>

text \<open>The three effects of one render; what they read of the stream is the state rendered.\<close>

definition route_effect :: "chat_page \<Rightarrow> chat_page" where
  "route_effect w = w\<lparr>cw_navigated := None, cw_invalidated := None, cw_stream := reset (cw_stream w)\<rparr>"

definition invalidate_effect :: "string option \<Rightarrow> chat_page \<Rightarrow> chat_page" where
  "invalidate_effect key w =
     (case nonempty_opt key of
        Some k \<Rightarrow> if cw_invalidated w = Some k then w
                  else w\<lparr>cw_invalidated := Some k, cw_invalidations := Suc (cw_invalidations w)\<rparr>
      | None \<Rightarrow> w)"

definition navigate_effect :: "chat_state \<Rightarrow> chat_page \<Rightarrow> chat_page" where
  "navigate_effect s w =
     (case nonempty_opt (cs_conversationId s) of
        Some c \<Rightarrow>
          if nonempty_opt (cw_conversationId w) \<noteq> None \<or> cw_navigated w = Some c then w
          else (let w1 = w\<lparr>cw_navigated := Some c\<rparr> in
                if cs_status s = Streaming \<or> cs_status s = Sending
                then w1\<lparr>cw_shown_urls := cw_shown_urls w1 @ [''/chat/'' @ c]\<rparr>
                else if cs_status s = SCompleted then w1\<lparr>cw_replaced_urls := cw_replaced_urls w1 @ [''/chat/'' @ c]\<rparr>
                else w1)
      | None \<Rightarrow> w)"

definition page_deps :: "chat_page \<Rightarrow> string option \<times> string option \<times> navigation_deps" where
  "page_deps w = (cw_conversationId w, commitKey (stream_state w),
     (cw_conversationId w, cs_conversationId (stream_state w), cs_status (stream_state w)))"

text \<open>The dependencies of the render before.\<close>

definition rendered_route :: "chat_page \<Rightarrow> string option option" where
  "rendered_route w = map_option fst (cw_deps w)"

definition rendered_key :: "chat_page \<Rightarrow> string option option" where
  "rendered_key w = map_option (\<lambda>d. fst (snd d)) (cw_deps w)"

definition rendered_navigation :: "chat_page \<Rightarrow> navigation_deps option" where
  "rendered_navigation w = map_option (\<lambda>d. snd (snd d)) (cw_deps w)"

definition effects :: "chat_page \<Rightarrow> chat_page" where
  "effects w =
     (let s = stream_state w; deps = page_deps w;
          w1 = (if rendered_route w \<noteq> Some (fst deps) then route_effect w else w);
          w2 = (if rendered_key w \<noteq> Some (fst (snd deps))
                then invalidate_effect (commitKey s) w1 else w1);
          w3 = (if rendered_navigation w \<noteq> Some (snd (snd deps)) then navigate_effect s w2 else w2)
      in w3\<lparr>cw_deps := Some deps\<rparr>)"

text \<open>The reset of the first effect renders once more.\<close>

definition settle :: "chat_page \<Rightarrow> chat_page" where
  "settle w = effects (render (effects (render w)))"

section \<open>Events\<close>

definition sendMessage :: "string \<Rightarrow> string \<Rightarrow> string \<Rightarrow> chat_page \<Rightarrow> chat_page" where
  "sendMessage userId text provider w =
     (let user = \<lparr>ms_id = userId, ms_role = ''user'', ms_content = text, ms_provider = None\<rparr>;
          base = (if cw_draftMessages w \<noteq> [] then cw_draftMessages w else serverMessages w)
      in w\<lparr>cw_draftMessages := base @ [user], cw_pendingRetry := Some text, cw_providerOverride := Some provider,
           cw_stream := start \<lparr>si_message = text,
             si_conversationId = (case cw_conversationId w of Some c \<Rightarrow> Some c | None \<Rightarrow> cs_conversationId (stream_state w)),
             si_organizationId = cw_organizationId w, si_provider = provider\<rparr> (cw_stream w)\<rparr>)"

datatype chat_page_event =
    Send string string string
  | StreamEvent hook_event
  | ConversationChanges "string option" "conversation option"
  | DetailLoaded conversation
  | ProviderChosen string

fun chat_page_step :: "bool \<Rightarrow> chat_page_event \<Rightarrow> chat_page \<Rightarrow> chat_page" where
  "chat_page_step raf (Send userId text provider) w = settle (sendMessage userId text provider w)"
| "chat_page_step raf (StreamEvent ev) w = settle (w\<lparr>cw_stream := hook_step raf ev (cw_stream w)\<rparr>)"
| "chat_page_step raf (ConversationChanges c d) w = settle (w\<lparr>cw_conversationId := c, cw_detail := d\<rparr>)"
| "chat_page_step raf (DetailLoaded d) w = settle (w\<lparr>cw_detail := Some d\<rparr>)"
| "chat_page_step raf (ProviderChosen p) w = settle (w\<lparr>cw_providerOverride := Some p\<rparr>)"

definition chat_page_run :: "bool \<Rightarrow> chat_page_event list \<Rightarrow> chat_page \<Rightarrow> chat_page" where
  "chat_page_run raf es w = fold (chat_page_step raf) es (settle w)"

text \<open>\<open>handleSubmit\<close> of the composer: the error to show, or the message to send.\<close>

definition composer_submit ::
  "parser \<Rightarrow> bool \<Rightarrow> bool \<Rightarrow> string \<Rightarrow> string \<Rightarrow> (unit + (string \<times> string)) option" where
  "composer_submit parse busy disabled text provider =
     (if busy \<or> disabled then None
      else case parse chatComposerSchema (Some (JObj [(''message'', JStr text), (''provider'', JStr provider)])) of
        Some (Some v) \<Rightarrow> Some (Inr
          (case as_string (js_prop v ''message'') of Some m \<Rightarrow> m | None \<Rightarrow> [],
           case as_string (js_prop v ''provider'') of Some p \<Rightarrow> p | None \<Rightarrow> []))
      | _ \<Rightarrow> Some (Inl ()))"

lemma no_answer [simp]: "cs_status s \<noteq> SCompleted \<Longrightarrow> completedAssistant s = None"
  by (simp add: completedAssistant_def split: option.split)

lemma initial_stream [simp]:
  "cs_status (h_state initial_hook) = Idle" "cs_conversationId (h_state initial_hook) = None"
  by (simp_all add: initial_hook_def initialState_def)

section \<open>Rendering settles\<close>

text \<open>The component never renders without end: two calls reach a state a third one keeps.\<close>

lemma render_settles: "render_pass (render w) = render w"
proof (cases "to_commit (stream_state w)")
  case None
  then show ?thesis by (simp add: render_def render_pass_def Let_def)
next
  case (Some x)
  then show ?thesis
    by (cases x; cases "cw_conversationId w = cw_active w"; cases "cw_committedStreamKey w = Some (fst x)")
       (simp_all add: render_def render_pass_def Let_def)
qed

section \<open>From a message to the thread\<close>

text \<open>What rendering depends on and changes.\<close>

definition core :: "chat_page \<Rightarrow> string option \<times> string option \<times> string option \<times> message list \<times> hook" where
  "core w = (cw_conversationId w, cw_active w, cw_committedStreamKey w, cw_draftMessages w, cw_stream w)"

lemma core_render_pass: "core w = core v \<Longrightarrow> core (render_pass w) = core (render_pass v)"
  by (auto simp: core_def render_pass_def Let_def split: option.split)

lemma core_render: "core w = core v \<Longrightarrow> core (render w) = core (render v)"
  unfolding render_def by (intro core_render_pass)

lemma render_render: "render (render w) = render w"
  by (metis render_def render_settles)

definition same_route :: "chat_page \<Rightarrow> bool" where
  "same_route w = (cw_conversationId w = cw_active w \<and> rendered_route w = Some (cw_conversationId w))"

lemma effect_frames [simp]:
  "core (invalidate_effect k w) = core w" "core (navigate_effect s w) = core w"
  "core (w\<lparr>cw_deps := d\<rparr>) = core w"
  by (auto simp: invalidate_effect_def navigate_effect_def core_def Let_def split: option.split)

lemma effects_core: "rendered_route w = Some (cw_conversationId w) \<Longrightarrow> core (effects w) = core w"
  by (simp add: effects_def Let_def page_deps_def)

lemma effects_deps: "rendered_route (effects w) = Some (cw_conversationId w)"
  by (simp add: effects_def Let_def rendered_route_def page_deps_def)

lemma render_frame [simp]:
  "rendered_route (render w) = rendered_route w" "rendered_route (w\<lparr>cw_stream := h\<rparr>) = rendered_route w"
  "cw_conversationId (render w) = cw_conversationId w" "cw_deps (render w) = cw_deps w"
  "cw_active (render w) = cw_conversationId w" "cw_stream (render w) = cw_stream w" "cw_detail (render w) = cw_detail w"
  by (auto simp: render_def render_pass_def Let_def rendered_route_def split: option.split)

lemma rendered_route_simps [simp]:
  "rendered_route (w\<lparr>cw_draftMessages := ms\<rparr>) = rendered_route w"
  "rendered_route (w\<lparr>cw_pendingRetry := t\<rparr>) = rendered_route w"
  "rendered_route (w\<lparr>cw_providerOverride := t\<rparr>) = rendered_route w"
  by (simp_all add: rendered_route_def)

lemma core_sel:
  "core w = core v \<Longrightarrow> cw_conversationId w = cw_conversationId v \<and> cw_active w = cw_active v
     \<and> cw_committedStreamKey w = cw_committedStreamKey v \<and> cw_draftMessages w = cw_draftMessages v \<and> cw_stream w = cw_stream v"
  by (simp add: core_def)

lemma settle_core:
  assumes "same_route w"
  shows "core (settle w) = core (render w)" and "same_route (settle w)"
proof -
  have e1: "core (effects (render w)) = core (render w)"
    using assms by (intro effects_core) (simp add: same_route_def)
  have d1: "rendered_route (effects (render w)) = Some (cw_conversationId w)"
    by (simp add: effects_deps)
  have c: "cw_conversationId (effects (render w)) = cw_conversationId w" using core_sel [OF e1] by simp
  have "core (settle w) = core (render (effects (render w)))"
    unfolding settle_def by (rule effects_core) (simp add: d1 c)
  also have "\<dots> = core (render (render w))" by (rule core_render [OF e1])
  finally show core: "core (settle w) = core (render w)" by (simp add: render_render)
  have "rendered_route (settle w) = Some (cw_conversationId w)"
    unfolding settle_def effects_deps by (simp add: c)
  with core_sel [OF core] show "same_route (settle w)" by (simp add: same_route_def)
qed

text \<open>
  The thread after the messages \<open>ms\<close>: no answer yet, or the answer, which is in the drafts
  exactly when it has been committed.
\<close>

definition thread :: "message list \<Rightarrow> chat_page \<Rightarrow> bool" where
  "thread ms w = (same_route w \<and>
     (case completedAssistant (stream_state w) of
        None \<Rightarrow> cw_draftMessages w = ms \<and> cw_committedStreamKey w = None
      | Some a \<Rightarrow> (cw_draftMessages w = ms \<and> cw_committedStreamKey w = None)
          \<or> (cw_draftMessages w = ms @ [a] \<and> cw_committedStreamKey w = commitKey (stream_state w))))"

definition new_answer :: "message list \<Rightarrow> chat_state \<Rightarrow> bool" where
  "new_answer ms s = (case completedAssistant s of Some a \<Rightarrow> \<not> list_ex (\<lambda>m. ms_id m = ms_id a) ms | None \<Rightarrow> True)"

lemma thread_step:
  assumes "thread ms w" and "new_answer ms (h_state h)"
    and "completedAssistant (stream_state w) = None \<or> h_state h = stream_state w"
  shows "thread ms (settle (w\<lparr>cw_stream := h\<rparr>))"
proof -
  let ?w = "w\<lparr>cw_stream := h\<rparr>"
  have r: "same_route ?w" using assms(1) by (simp add: thread_def same_route_def)
  note c = core_sel [OF settle_core(1) [OF r]]
  have "thread ms (render ?w)"
  proof (cases "completedAssistant (h_state h)")
    case None
    with assms show ?thesis
      by (auto simp: thread_def same_route_def render_def render_pass_def commitKey_def to_commit_def nonempty_opt_def)
  next
    case (Some a)
    have k: "\<exists>k. commitKey (h_state h) = Some k" using Some by (simp add: commitKey_def)
    then obtain k where k: "commitKey (h_state h) = Some k" by blast
    from Some assms(2) have n: "with_message a ms = ms @ [a]" "with_message a (ms @ [a]) = ms @ [a]"
      by (simp_all add: new_answer_def with_message_def)
    have "cw_draftMessages w = ms \<and> cw_committedStreamKey w = None
        \<or> cw_draftMessages w = ms @ [a] \<and> cw_committedStreamKey w = Some k"
      using assms(1,3) Some k by (auto simp: thread_def)
    moreover have "cw_conversationId w = cw_active w" "rendered_route w = Some (cw_conversationId w)"
      using assms(1) by (simp_all add: thread_def same_route_def)
    ultimately show ?thesis
      by (cases "k = []"; elim disjE conjE)
         (simp_all add: thread_def same_route_def rendered_route_def Some k n render_def render_pass_def to_commit_def nonempty_opt_def Let_def)
  qed
  with c settle_core(2) [OF r] show ?thesis by (auto simp: thread_def split: option.splits)
qed

lemma thread_shows:
  assumes "thread ms w" and "ms \<noteq> []" and "completedAssistant (stream_state w) = Some a"
    and "new_answer ms (stream_state w)"
  shows "localMessages w = ms @ [a]"
  using assms by (auto simp: thread_def localMessages_def new_answer_def with_message_def Let_def)

text \<open>The stream under a sequence of chunks and timers: reading, then at its end.\<close>

definition live :: "hook \<Rightarrow> bool" where
  "live h = ((\<exists>p tb conv prov. running p tb conv prov h) \<or> (\<exists>s. ended s h))"

lemma apply_flushed_Some: "\<exists>t' calls. apply_flushed es (Some t) = (Some t', calls)"
proof -
  have "\<exists>t'. fst (apply_flushed es (Some t)) = Some t'"
  proof (induction es arbitrary: t)
    case (Cons e es)
    obtain t' where "fst (apply_flushed es (case fst (applyParsedStreamEvent (parseChatSseData e)) of
        Some t' \<Rightarrow> Some t' | None \<Rightarrow> Some t)) = Some t'"
      using Cons.IH by (cases "fst (applyParsedStreamEvent (parseChatSseData e))") auto
    then show ?case by (simp add: apply_flushed.simps split_def)
  qed simp
  then show ?thesis by (metis prod.collapse)
qed

lemma live_step:
  assumes "live h" and "quiet ev"
  shows "live (hook_step raf ev h)"
    and "completedAssistant (h_state h) = None \<or> h_state (hook_step raf ev h) = h_state h"
proof -
  consider (run) p tb conv prov where "running p tb conv prov h" | (over) s where "ended s h"
    using assms(1) unfolding live_def by blast
  then show "live (hook_step raf ev h)"
  proof cases
    case run
    from assms(2) consider "ev = RafFires" | "ev = hook_event.TimerFires" | c where "ev = ChunkArrives 0 c" by (auto simp: quiet_def)
    then show ?thesis
    proof cases
      case 3
      obtain events p1 where e: "push c p = (events, p1)" by fastforce
      obtain t calls where a: "apply_chunk events = (t, calls)" by fastforce
      note chunk = running_chunk [OF run e a]
      show ?thesis
      proof (cases t)
        case None
        with chunk [where raf = raf] 3 show ?thesis unfolding live_def by auto
      next
        case (Some t0)
        obtain t' calls' where "apply_flushed (fst (flush p1)) (Some t0) = (Some t', calls')"
          using apply_flushed_Some by blast
        with chunk [where raf = raf and tt = t'] Some 3 show ?thesis unfolding live_def by auto
      qed
    qed (use running_timers [OF run] in \<open>auto simp: live_def\<close>)
  next
    case over
    from ended_quiet [OF over assms(2)] show ?thesis unfolding live_def by blast
  qed
  show "completedAssistant (h_state h) = None \<or> h_state (hook_step raf ev h) = h_state h"
    using assms(1) unfolding live_def
  proof (elim disjE exE)
    fix p tb conv prov
    assume "running p tb conv prov h"
    then show ?thesis by (auto simp: running_def)
  next
    fix s
    assume e: "ended s h"
    from ended_quiet [OF e assms(2), of raf] e show ?thesis by (simp add: ended_def)
  qed
qed

lemma thread_run:
  assumes "thread ms w" and "live (cw_stream w)" and "\<forall>ev\<in>set es. quiet ev"
    and "ended S (hook_run raf es (cw_stream w))" and "new_answer ms S"
  shows "thread ms (fold (chat_page_step raf) (map StreamEvent es) w)
    \<and> cw_stream (fold (chat_page_step raf) (map StreamEvent es) w) = hook_run raf es (cw_stream w)"
  using assms
proof (induction es arbitrary: w)
  case (Cons ev es)
  let ?h = "hook_step raf ev (cw_stream w)"
  let ?w = "settle (w\<lparr>cw_stream := ?h\<rparr>)"
  have q: "quiet ev" "\<forall>ev\<in>set es. quiet ev" using Cons.prems(3) by simp_all
  have l: "live ?h" and same: "completedAssistant (stream_state w) = None \<or> h_state ?h = stream_state w"
    using live_step [OF Cons.prems(2) q(1), of raf] by simp_all
  have e: "ended S (hook_run raf es ?h)" using Cons.prems(4) by simp
  have new: "new_answer ms (h_state ?h)"
    using l unfolding live_def
  proof (elim disjE exE)
    fix p tb conv prov
    assume "running p tb conv prov ?h"
    then show ?thesis by (auto simp: running_def new_answer_def)
  next
    fix s
    assume s: "ended s ?h"
    from ended_quiet_run [OF s q(2), of raf] e have "s = S" by (simp add: ended_def)
    with s Cons.prems(5) show ?thesis by (simp add: ended_def)
  qed
  note t = thread_step [OF Cons.prems(1) new same]
  have r: "same_route (w\<lparr>cw_stream := ?h\<rparr>)" using Cons.prems(1) by (simp add: thread_def same_route_def)
  have c: "cw_stream ?w = ?h" using core_sel [OF settle_core(1) [OF r]] by simp
  from Cons.IH [OF t] l q(2) e Cons.prems(5) show ?case by (simp add: c)
qed simp

lemma settle_opened:
  "settle (chat_opened conversationId organizationId) =
   (chat_opened conversationId organizationId)\<lparr>cw_deps := Some (conversationId, None, conversationId, None, Idle)\<rparr>"
  by (simp add: settle_def chat_opened_def render_def render_pass_def to_commit_def commitKey_def completedAssistant_def
      effects_def rendered_route_def rendered_key_def rendered_navigation_def route_effect_def invalidate_effect_def
      navigate_effect_def page_deps_def initial_hook_def initialState_def reset_def clearFlushTimers_def abort_current_def
      nonempty_opt_def Let_def)

definition loaded_events :: "conversation option \<Rightarrow> chat_page_event list" where
  "loaded_events d = (case d of Some c \<Rightarrow> [DetailLoaded c] | None \<Rightarrow> [])"

text \<open>The page of a conversation, with its messages once they are loaded.\<close>

definition chat_ready :: "bool \<Rightarrow> string option \<Rightarrow> string option \<Rightarrow> conversation option \<Rightarrow> chat_page" where
  "chat_ready raf conversationId organizationId d =
     chat_page_run raf (loaded_events d) (chat_opened conversationId organizationId)"

lemma loaded_page:
  "thread [] (chat_ready raf conversationId organizationId d)
    \<and> cw_stream (chat_ready raf conversationId organizationId d) = initial_hook
    \<and> cw_conversationId (chat_ready raf conversationId organizationId d) = conversationId
    \<and> cw_organizationId (chat_ready raf conversationId organizationId d) = organizationId
    \<and> cw_draftMessages (chat_ready raf conversationId organizationId d) = []
    \<and> cw_detail (chat_ready raf conversationId organizationId d) = d"
proof -
  have none: "completedAssistant (h_state initial_hook) = None" by simp
  have c: "commitKey (h_state initial_hook) = None" by (simp add: commitKey_def none)
  have k: "to_commit (h_state initial_hook) = None" by (simp add: to_commit_def c none nonempty_opt_def)
  show ?thesis
  proof (cases d)
    case None
    then show ?thesis
      by (simp add: chat_ready_def chat_page_run_def loaded_events_def settle_opened thread_def same_route_def
          rendered_route_def, simp add: chat_opened_def none)
  next
    case (Some e)
    let ?w = "(chat_opened conversationId organizationId)\<lparr>cw_deps := Some (conversationId, None, conversationId, None, Idle),
        cw_detail := Some e\<rparr>"
    have "settle ?w = ?w"
      by (simp add: chat_opened_def settle_def render_def render_pass_def k c effects_def page_deps_def
          rendered_route_def rendered_key_def rendered_navigation_def Let_def)
    with Some show ?thesis
      by (simp add: chat_ready_def chat_page_run_def loaded_events_def settle_opened thread_def same_route_def
          rendered_route_def, simp add: chat_opened_def none)
  qed
qed

text \<open>C12: from the composer to the thread: a message sent in a new or a loaded conversation, followed
  by any stream the backend completes with a non-empty answer, cut anywhere by the network and
  flushed at any moments, leaves a thread that shows the messages there were, the message, and
  exactly once the answer: the tokens of the backend concatenated, under the id and the
  provider the backend announced.\<close>

theorem sent_message_is_answered:
  assumes "response_ok r" and "\<forall>ev\<in>set events. quiet ev"
    and "\<forall>ev\<in>set (evs @ [Completed mid prov]). is_known ev" and "\<forall>ev\<in>set evs. chat_terminal ev = None"
    and "concat (chunk_texts events) = concat (map (\<lambda>ev. sse_frame (chat_frame ev)) (evs @ [Completed mid prov]))"
    and "call_tokens (concat (map chat_calls evs)) \<noteq> []"
    and "nonempty_opt (call_conversation (concat (map chat_calls evs)) conversationId) \<noteq> None"
    and "\<not> list_ex (\<lambda>m. ms_id m = mid) (serverMessages (chat_ready raf conversationId organizationId d))" and "mid \<noteq> uid"
  shows "localMessages (fold (chat_page_step raf)
       (Send uid content p # StreamEvent (ResponseArrives 0 r True) # map StreamEvent events)
       (chat_ready raf conversationId organizationId d)) =
     serverMessages (chat_ready raf conversationId organizationId d) @
     [\<lparr>ms_id = uid, ms_role = ''user'', ms_content = content, ms_provider = None\<rparr>,
      \<lparr>ms_id = mid, ms_role = ''assistant'', ms_content = call_tokens (concat (map chat_calls evs)), ms_provider = Some prov\<rparr>]"
proof -
  let ?w = "chat_ready raf conversationId organizationId d"
  let ?user = "\<lparr>ms_id = uid, ms_role = ''user'', ms_content = content, ms_provider = None\<rparr>"
  let ?ms = "serverMessages ?w @ [?user]"
  let ?a = "\<lparr>ms_id = mid, ms_role = ''assistant'', ms_content = call_tokens (concat (map chat_calls evs)), ms_provider = Some prov\<rparr>"
  let ?inp = "\<lparr>si_message = content, si_conversationId = conversationId, si_organizationId = organizationId, si_provider = p\<rparr>"
  let ?S = "outcome (TCompleted mid prov) (call_tokens (concat (map chat_calls evs)))
      (call_conversation (concat (map chat_calls evs)) conversationId) (Some p)"
  note w = loaded_page [of raf conversationId organizationId d]
  have none: "completedAssistant (h_state initial_hook) = None" by simp
  let ?v = "?w\<lparr>cw_draftMessages := ?ms, cw_pendingRetry := Some content, cw_providerOverride := Some p\<rparr>"
  have v: "thread ?ms ?v" "stream_state ?v = h_state initial_hook"
    using w by (auto simp: thread_def same_route_def)
  have sending: "completedAssistant (h_state (start ?inp initial_hook)) = None"
    by (simp add: start_def Let_def)
  have send: "sendMessage uid content p ?w = ?v\<lparr>cw_stream := start ?inp initial_hook\<rparr>"
    using w by (auto simp: sendMessage_def Let_def split: option.split)
  define w1 where "w1 = chat_page_step raf (Send uid content p) ?w"
  define h2 where "h2 = hook_run raf [Start ?inp, ResponseArrives 0 r True] initial_hook"
  define w2 where "w2 = chat_page_step raf (StreamEvent (ResponseArrives 0 r True)) w1"
  have t1: "thread ?ms w1"
    unfolding w1_def chat_page_step.simps send
    by (rule thread_step [OF v(1)]) (use w in \<open>simp_all add: new_answer_def sending\<close>)
  have c1: "cw_stream w1 = start ?inp initial_hook"
  proof -
    have "same_route (?v\<lparr>cw_stream := start ?inp initial_hook\<rparr>)"
      using v(1) by (simp add: thread_def same_route_def)
    from core_sel [OF settle_core(1) [OF this]] show ?thesis by (simp add: send w1_def)
  qed
  have w2: "w2 = settle (w1\<lparr>cw_stream := h2\<rparr>)" by (simp add: w2_def h2_def c1)
  note run = running_started [OF assms(1), of ?inp raf, folded h2_def]
  have reading: "completedAssistant (h_state h2) = None"
    using run by (auto simp: running_def)
  have t2: "thread ?ms w2"
    unfolding w2 by (rule thread_step [OF t1]) (simp_all add: new_answer_def reading c1 sending)
  have c2: "cw_stream w2 = h2"
  proof -
    have "same_route (w1\<lparr>cw_stream := h2\<rparr>)" using t1 by (simp add: thread_def same_route_def)
    from core_sel [OF settle_core(1) [OF this]] show ?thesis by (simp add: w2)
  qed
  have ended: "ended ?S (hook_run raf events (cw_stream w2))"
    unfolding c2 using running_run [OF run assms(2) read_loop_chat [OF assms(3,4) _ assms(5)]]
    by (simp add: chat_terminal_def)
  have answer: "completedAssistant ?S = Some ?a"
    using assms(6,7) by (auto simp: completedAssistant_def outcome_def split: option.splits)
  have new: "new_answer ?ms ?S" using assms(8,9) by (simp add: new_answer_def answer)
  have "live (cw_stream w2)" unfolding c2 live_def using run by blast
  note final = thread_run [OF t2 this assms(2) ended new]
  have state: "stream_state (fold (chat_page_step raf) (map StreamEvent events) w2) = ?S"
    using final ended by (simp add: ended_def)
  have "localMessages (fold (chat_page_step raf) (map StreamEvent events) w2) = ?ms @ [?a]"
    by (rule thread_shows [OF conjunct1 [OF final]]) (simp_all add: state answer new)
  then show ?thesis by (simp add: w2_def w1_def)
qed

lemma sent_message_is_answered_witness:
  "map ms_content (localMessages (fold (chat_page_step True)
     ([Send ''u1'' ''hello'' ''gemini'', StreamEvent (ResponseArrives 0 ex_ok True)] @
      map StreamEvent [ChunkArrives 0 (take 90 ex_stream), RafFires, hook_event.TimerFires, ChunkArrives 0 (drop 90 ex_stream)])
     (chat_ready True None None None))) = [''hello'', ''Hi'' @ [NL, QUOTE] @ ''you'']"
proof -
  let ?es = "[ChunkArrives 0 (take 90 ex_stream), RafFires, hook_event.TimerFires, ChunkArrives 0 (drop 90 ex_stream)]"
  let ?calls = "concat (map chat_calls ex_chat)"
  have ok: "response_ok ex_ok" by code_simp
  have quiet: "\<forall>ev\<in>set ?es. quiet ev" by (simp add: quiet_def)
  have known: "\<forall>ev\<in>set (ex_chat @ [Completed ''m'' ''llama'']). is_known ev" by code_simp
  have going: "\<forall>ev\<in>set ex_chat. chat_terminal ev = None" by code_simp
  have sent: "concat (chunk_texts ?es) = concat (map (\<lambda>ev. sse_frame (chat_frame ev)) (ex_chat @ [Completed ''m'' ''llama'']))"
    by (simp only: chunk_texts.simps concat.simps append_Nil2 append_take_drop_id ex_stream_def)
  have tokens: "call_tokens ?calls = ''Hi'' @ [NL, QUOTE] @ ''you''" and ne: "call_tokens ?calls \<noteq> []"
    and conv: "nonempty_opt (call_conversation ?calls None) \<noteq> None" by code_simp+
  have none: "serverMessages (chat_ready True None None None) = []"
    using loaded_page [of True None None None] by (simp add: serverMessages_def nonempty_opt_def)
  have fresh: "\<not> list_ex (\<lambda>m. ms_id m = ''m'') (serverMessages (chat_ready True None None None))" by (simp add: none)
  have "''m'' \<noteq> ''u1''" by simp
  from sent_message_is_answered [OF ok quiet known going sent ne conv fresh this, where content = "''hello''" and p = "''gemini''"]
  show ?thesis by (simp add: none tokens)
qed

section \<open>Another conversation in the same component\<close>

text \<open>
  When the conversation of the component changes while the stream of the last one is completed,
  the state of the drafts is cleared and then, in the same render, filled with the answer of
  the old conversation, before the effect resets the stream: the thread shows that answer
  instead of the messages of the new conversation.  Without a new conversation the page even
  goes back to the old one.  The pages of the app mount the component anew for each route, so
  that the change of the property is not taken there.
\<close>

lemma reset_state [simp]: "h_state (reset h) = initialState"
  by (simp add: reset_def)

lemma initialState_simps [simp]: "cs_status initialState = Idle" "cs_conversationId initialState = None"
  by (simp_all add: initialState_def)

lemma switch_keeps_old_answer:
  assumes "completedAssistant (stream_state w) = Some a" and "nonempty_opt (commitKey (stream_state w)) = Some k"
    and "cw_active w = cw_conversationId w" and "c \<noteq> cw_conversationId w" and "rendered_route w = Some (cw_conversationId w)"
  shows "localMessages (chat_page_step raf (ConversationChanges c d) w) = [a]"
proof -
  let ?w = "w\<lparr>cw_conversationId := c, cw_detail := d\<rparr>"
  have k: "to_commit (stream_state w) = Some (k, a)" by (simp add: to_commit_def assms(1,2))
  have none: "to_commit initialState = None" by (simp add: to_commit_def split: option.split)
  have r: "cw_conversationId (render ?w) = c \<and> cw_active (render ?w) = c \<and> cw_draftMessages (render ?w) = [a]
      \<and> cw_stream (render ?w) = cw_stream w \<and> rendered_route (render ?w) = Some (cw_conversationId w)"
    using assms(3,4,5)
    by (cases "cw_committedStreamKey w = Some k")
       (simp_all add: render_def render_pass_def k with_message_def rendered_route_def Let_def)
  let ?e = "effects (render ?w)"
  have frame: "cw_conversationId (navigate_effect st v) = cw_conversationId v \<and> cw_active (navigate_effect st v) = cw_active v
     \<and> cw_draftMessages (navigate_effect st v) = cw_draftMessages v \<and> cw_stream (navigate_effect st v) = cw_stream v" for st v
    by (auto simp: navigate_effect_def Let_def split: option.split)
  have frame2: "cw_conversationId (invalidate_effect st v) = cw_conversationId v \<and> cw_active (invalidate_effect st v) = cw_active v
     \<and> cw_draftMessages (invalidate_effect st v) = cw_draftMessages v \<and> cw_stream (invalidate_effect st v) = cw_stream v" for st v
    by (auto simp: invalidate_effect_def split: option.split)
  have e: "cw_conversationId ?e = c \<and> cw_active ?e = c \<and> cw_draftMessages ?e = [a] \<and> h_state (cw_stream ?e) = initialState"
    using r assms(4) by (simp add: effects_def Let_def page_deps_def frame frame2 route_effect_def)
  then have same: "render ?e = ?e" by (simp add: render_def render_pass_def none)
  have route: "rendered_route ?e = Some c" using r by (simp add: effects_deps)
  have "core (effects ?e) = core ?e" by (rule effects_core) (simp add: route e)
  from core_sel [OF this] e show ?thesis
    by (simp add: settle_def same localMessages_def)
qed

end
