(* ===== verification/Auth_Pages.thy ===== *)
theory Auth_Pages
  imports Ui_Actions Routing Auth_Client
begin

text \<open>
  components/auth, components/organizations/invitation-accept-content.tsx and the handlers of
  components/settings/security-settings.tsx: what the pages around sign-in do with the end of
  the call they made, and the pages that act on the token of a link in an email.
\<close>

section \<open>Forms\<close>

datatype page_effect =
    Notify notice
  | Push string
  | ReplaceUrl string
  | RefreshRoute
  | ReloadUser
  | ReloadSessions
  | ResetForm

text \<open>The end of a submission: the error shown in the form, and what is done.\<close>

type_synonym submission = "string option \<times> page_effect list"

definition too_many_attempts :: string where
  "too_many_attempts = ''Too many attempts. Please try again later.''"

text \<open>login-form.tsx; \<open>returnUrl\<close> is the search parameter.\<close>

definition login_submitted :: "string option \<Rightarrow> js_exn + json \<Rightarrow> submission" where
  "login_submitted returnUrl outcome =
     (case outcome of
        Inr _ \<Rightarrow> (None, [ReloadUser, Push (getSafeReturnUrl returnUrl default_return), RefreshRoute])
      | Inl e \<Rightarrow>
          (Some (case e of
             ApiClientErr x \<Rightarrow>
               if ae_status x = 429 then
                 (case ae_retryAfter x of
                    Some n \<Rightarrow> if n \<noteq> 0 then ''Too many attempts. Please try again in '' @ show_rat n @ '' seconds.''
                              else too_many_attempts
                  | None \<Rightarrow> too_many_attempts)
               else ''Invalid username or password. Please try again.''
           | _ \<Rightarrow> ''Invalid username or password. Please try again.''), []))"

text \<open>The common part of the other forms: \<open>429\<close> has a text of its own.\<close>

definition rate_limited_or :: "js_exn \<Rightarrow> string \<Rightarrow> string" where
  "rate_limited_or e message = (if error_status e = Some 429 then too_many_attempts else message)"

definition register_submitted :: "js_exn + json \<Rightarrow> submission" where
  "register_submitted outcome =
     (case outcome of
        Inr _ \<Rightarrow> (None, [Notify (Success ''Account created''), Push ''/login''])
      | Inl e \<Rightarrow>
          (Some (rate_limited_or e
             (if error_status e = Some 409 \<and> error_text e [] = []
              then ''An account with those details already exists.''
              else error_text e ''Registration failed. Please try again.'')), []))"

text \<open>reset-password-form.tsx and forgot-password-form.tsx show another view when they are done.\<close>

definition reset_submitted :: "js_exn + json \<Rightarrow> string option \<times> bool" where
  "reset_submitted outcome =
     (case outcome of
        Inr _ \<Rightarrow> (None, True)
      | Inl e \<Rightarrow> (Some (rate_limited_or e
          (error_text e ''Unable to reset password. The link may have expired.'')), False))"

definition forgot_submitted :: "js_exn + json \<Rightarrow> string option \<times> bool" where
  "forgot_submitted outcome =
     (case outcome of
        Inr _ \<Rightarrow> (None, True)
      | Inl e \<Rightarrow> (Some (rate_limited_or e
          (error_text e ''Unable to send reset email. Please try again.'')), False))"

section \<open>The token of a link\<close>

text \<open>\<open>searchParams.get("token")?.trim() ?? ""\<close>\<close>

definition link_token :: "search_params \<Rightarrow> string" where
  "link_token ps = (case usp_get ps ''token'' of Some t \<Rightarrow> js_trim t | None \<Rightarrow> [])"

text \<open>
  verify-email-content.tsx and confirm-email-change-content.tsx: the token is used once, when the
  page opens, and again when the user retries after a failure.
\<close>

datatype verify_status = VIdle | VLoading | VSuccess | VError

record token_page =
  tp_token :: string
  tp_status :: verify_status
  tp_error :: "string option"
  tp_attempted :: "string option"
  tp_requests :: nat
  tp_effects :: "page_effect list"

definition token_page_opened :: "search_params \<Rightarrow> token_page" where
  "token_page_opened ps =
     \<lparr>tp_token = link_token ps, tp_status = (if link_token ps \<noteq> [] then VLoading else VIdle), tp_error = None,
      tp_attempted = None, tp_requests = 0, tp_effects = []\<rparr>"

definition ask :: "token_page \<Rightarrow> token_page" where
  "ask s = s\<lparr>tp_status := VLoading, tp_requests := Suc (tp_requests s)\<rparr>"

text \<open>The effect, which also runs again when its dependencies change.\<close>

definition token_effect :: "token_page \<Rightarrow> token_page" where
  "token_effect s =
     (if tp_token s = [] \<or> tp_attempted s = Some (tp_token s) then s
      else ask (s\<lparr>tp_attempted := Some (tp_token s), tp_error := None\<rparr>))"

definition verify_failed_text :: string where
  "verify_failed_text = ''Unable to verify email. The link may be invalid or expired.''"

definition verify_answered :: "js_exn + json \<Rightarrow> token_page \<Rightarrow> token_page" where
  "verify_answered outcome s =
     (case outcome of
        Inr _ \<Rightarrow> s\<lparr>tp_status := VSuccess, tp_effects := tp_effects s @ [ReloadUser]\<rparr>
      | Inl e \<Rightarrow> s\<lparr>tp_status := VError, tp_error := Some (error_text e verify_failed_text)\<rparr>)"

text \<open>The retry of the verification calls directly; that of the change of address runs the effect.\<close>

definition verify_retry :: "token_page \<Rightarrow> token_page" where
  "verify_retry s = ask (s\<lparr>tp_attempted := None\<rparr>)"

definition confirm_failed_text :: string where
  "confirm_failed_text = ''Unable to confirm your email change. The link may be invalid or expired.''"

definition confirm_answered :: "js_exn + json \<Rightarrow> token_page \<Rightarrow> token_page" where
  "confirm_answered outcome s =
     (case outcome of
        Inr _ \<Rightarrow> s\<lparr>tp_status := VSuccess\<rparr>
      | Inl e \<Rightarrow> s\<lparr>tp_status := VError, tp_error := Some (error_text e confirm_failed_text)\<rparr>)"

definition confirm_retry :: "token_page \<Rightarrow> token_page" where
  "confirm_retry s = token_effect (s\<lparr>tp_attempted := None\<rparr>)"

text \<open>\<open>handleResend\<close> of the verification page: the notice.\<close>

definition resend_answered :: "js_exn + json \<Rightarrow> notice" where
  "resend_answered outcome =
     (case outcome of Inr _ \<Rightarrow> Success ''Verification email sent''
      | Inl e \<Rightarrow> Failure (error_text e ''Unable to send verification email.''))"

section \<open>Invitations\<close>

definition invitation_return_url :: "string \<Rightarrow> string" where
  "invitation_return_url token =
     getSafeReturnUrl (Some (if token \<noteq> [] then ''/invitations/accept?token='' @ encodeURIComponent token
                             else ''/invitations/accept'')) default_return"

definition sign_in_link :: "string \<Rightarrow> string" where
  "sign_in_link token = ''/login?returnUrl='' @ encodeURIComponent (invitation_return_url token)"

datatype invitation_action = Accept | Decline

record invitation_page =
  ip_token :: string
  ip_loadingAction :: "invitation_action option"
  ip_acceptedOrg :: "string option"
  ip_declined :: bool
  ip_errorMessage :: "string option"
  ip_calls :: "api_call list"
  ip_notices :: "notice list"

definition handleAccept :: "invitation_page \<Rightarrow> invitation_page" where
  "handleAccept s =
     (if ip_token s = [] then s
      else s\<lparr>ip_loadingAction := Some Accept, ip_errorMessage := None,
             ip_calls := ip_calls s @ [acceptInvitationRequest (ip_token s)]\<rparr>)"

definition handleDecline :: "invitation_page \<Rightarrow> invitation_page" where
  "handleDecline s =
     (if ip_token s = [] then s
      else s\<lparr>ip_loadingAction := Some Decline, ip_errorMessage := None,
             ip_calls := ip_calls s @ [declineInvitationRequest (ip_token s)]\<rparr>)"

definition invitation_answered :: "invitation_action \<Rightarrow> js_exn + json \<Rightarrow> invitation_page \<Rightarrow> invitation_page" where
  "invitation_answered a outcome s =
     (let s1 = s\<lparr>ip_loadingAction := None\<rparr> in
      case (a, outcome) of
        (Accept, Inr r) \<Rightarrow>
          (let name = (case as_string (js_prop r ''organization_name'') of Some n \<Rightarrow> n | None \<Rightarrow> []) in
           s1\<lparr>ip_acceptedOrg := Some name, ip_notices := ip_notices s @ [Success (''Joined '' @ name)]\<rparr>)
      | (Decline, Inr r) \<Rightarrow> s1\<lparr>ip_declined := True, ip_notices := ip_notices s @ [Success ''Invitation declined'']\<rparr>
      | (Accept, Inl e) \<Rightarrow> s1\<lparr>ip_errorMessage := Some (error_text e ''Unable to accept this invitation.'')\<rparr>
      | (Decline, Inl e) \<Rightarrow> s1\<lparr>ip_errorMessage := Some (error_text e ''Unable to decline this invitation.'')\<rparr>)"

section \<open>Security settings\<close>

text \<open>The end of a sign-out of this session or of all; in both cases the dialog closes.\<close>

definition signed_out :: "string \<Rightarrow> string \<Rightarrow> js_exn + unit \<Rightarrow> page_effect list" where
  "signed_out done_text failed_text outcome =
     (case outcome of
        Inr _ \<Rightarrow> [ReloadUser, Notify (Success done_text), ReplaceUrl ''/login'', RefreshRoute]
      | Inl e \<Rightarrow> [Notify (Failure (error_text e failed_text))])"

definition handleLogout :: "js_exn + unit \<Rightarrow> page_effect list" where
  "handleLogout = signed_out ''Signed out'' ''Failed to sign out''"

definition handleLogoutAll :: "js_exn + unit \<Rightarrow> page_effect list" where
  "handleLogoutAll = signed_out ''Signed out of all sessions'' ''Failed to sign out everywhere''"

definition handleChangePassword :: "js_exn + json \<Rightarrow> page_effect list" where
  "handleChangePassword outcome =
     (case outcome of
        Inr _ \<Rightarrow> [ResetForm, Notify (Success ''Password updated''), ReloadSessions]
      | Inl e \<Rightarrow> [Notify (Failure (error_text e ''Failed to change password''))])"

definition handleEmailChange :: "js_exn + json \<Rightarrow> page_effect list" where
  "handleEmailChange outcome =
     (case outcome of
        Inr _ \<Rightarrow> [ResetForm, Notify (Success ''Confirmation email sent'')]
      | Inl e \<Rightarrow> [Notify (Failure (error_text e ''Failed to request email change''))])"

text \<open>The session to revoke and whether it is the current one; the result says whether the dialog
  closes.\<close>

definition confirmRevokeSession :: "bool \<Rightarrow> js_exn + json \<Rightarrow> page_effect list \<times> bool" where
  "confirmRevokeSession is_current outcome =
     (case outcome of
        Inr _ \<Rightarrow>
          ([Notify (Success (if is_current then ''Current session revoked'' else ''Session revoked''))]
           @ (if is_current then [ReloadUser, ReplaceUrl ''/login'', RefreshRoute] else []), True)
      | Inl e \<Rightarrow> ([Notify (Failure (error_text e ''Failed to revoke session''))], False))"

section \<open>The alphabet of an encoded component\<close>

lemma uri_alphabet:
  assumes "c \<in> set (encodeURIComponent s)"
  shows "is_alnum c \<or> c \<in> set ''-_.!~*()%'' \<or> c = CHR 0x27"
proof -
  have "is_alnum c \<or> c \<in> set ''-_.!~*()%'' \<or> c = CHR 0x27" if "c \<in> set (uri_byte b)" for b
  proof -
    have "is_alnum (hex_upper (char_code b div 16))" "is_alnum (hex_upper (char_code b mod 16))"
      using char_code_less_256 [of b] by (simp_all add: is_alnum_hex_upper)
    with that show ?thesis
      unfolding uri_byte_def percent_byte_def
      by (cases "is_alnum b \<or> b \<in> set ''-_.!~*()'' \<or> b = CHR 0x27") auto
  qed
  moreover from assms obtain b where "c \<in> set (uri_byte b)" unfolding encodeURIComponent_def by auto
  ultimately show ?thesis .
qed

lemma alnum_plain:
  assumes "is_alnum c"
  shows "\<not> is_ws c" and "c \<noteq> CHR '':''" and "c \<noteq> CHR ''/''" and "c \<noteq> CHR 0x5C" and "c \<noteq> CHR 0x00"
proof -
  show "\<not> is_ws c"
    using assms by (auto simp: is_alnum_def is_digit_def is_lower_az_def is_upper_az_def is_ws_def Let_def)
  have "\<not> is_alnum (CHR '':'')" "\<not> is_alnum (CHR ''/'')" "\<not> is_alnum (CHR 0x5C)" "\<not> is_alnum (CHR 0x00)"
    by code_simp+
  with assms show "c \<noteq> CHR '':''" "c \<noteq> CHR ''/''" "c \<noteq> CHR 0x5C" "c \<noteq> CHR 0x00" by metis+
qed

lemma uri_plain:
  assumes "c \<in> set (encodeURIComponent s)"
  shows "\<not> is_ws c \<and> c \<noteq> CHR '':'' \<and> c \<noteq> CHR ''/'' \<and> c \<noteq> CHR 0x5C \<and> c \<noteq> CHR 0x00"
proof -
  have "\<forall>c \<in> set ''-_.!~*()%''. \<not> is_ws c \<and> c \<noteq> CHR '':'' \<and> c \<noteq> CHR ''/'' \<and> c \<noteq> CHR 0x5C \<and> c \<noteq> CHR 0x00"
    "\<not> is_ws (CHR 0x27) \<and> CHR 0x27 \<noteq> CHR '':'' \<and> CHR 0x27 \<noteq> CHR ''/'' \<and> CHR 0x27 \<noteq> CHR 0x5C \<and> CHR 0x27 \<noteq> CHR 0x00"
    by code_simp+
  with uri_alphabet [OF assms] alnum_plain [of c] show ?thesis by metis
qed

text \<open>A path followed by an encoded component is a safe return path, as it is.\<close>

lemma encoded_path_safe:
  assumes "starts_with p ''/''" and "\<not> starts_with p ''//''" and "\<forall>c\<in>set p. \<not> is_ws c \<and> c \<noteq> CHR '':'' \<and> c \<noteq> CHR 0x5C \<and> c \<noteq> CHR 0x00"
    and "2 \<le> length p"
  shows "getSafeReturnUrl (Some (p @ encodeURIComponent t)) fb = p @ encodeURIComponent t"
proof -
  let ?u = "p @ encodeURIComponent t"
  have chars: "\<forall>c\<in>set ?u. \<not> is_ws c \<and> c \<noteq> CHR '':'' \<and> c \<noteq> CHR 0x5C \<and> c \<noteq> CHR 0x00"
    using assms(3) uri_plain by auto
  have ne: "?u \<noteq> []" using assms(4) by auto
  have ends: "\<not> is_ws (hd ?u)" "\<not> is_ws (last ?u)"
    using bspec [OF chars hd_in_set [OF ne]] bspec [OF chars last_in_set [OF ne]] by simp_all
  have trim: "js_trim ?u = ?u" by (rule js_trim_id [OF ne ends])
  have start: "starts_with ?u ''/''" "\<not> starts_with ?u ''//''"
    using assms(1,2,4) by (auto simp: starts_with_def)
  have colon: "\<not> str_includes ?u ''://''"
  proof
    assume "str_includes ?u ''://''"
    then obtain a b where "?u = a @ ''://'' @ b" unfolding includes_iff by blast
    then have "CHR '':'' \<in> set ?u" by simp
    with chars show False by blast
  qed
  have free: "CHR 0x5C \<notin> set ?u" "CHR 0x00 \<notin> set ?u" using chars by blast+
  show ?thesis
    unfolding getSafeReturnUrl_def option.case Let_def trim includes_singleton
    using start colon free ne by simp
qed

section \<open>Properties\<close>

lemma js_trim_Nil: "js_trim [] = []"
  by (simp add: js_trim_def)

lemma token_query: "usp_get (usp_parse (''?token='' @ encodeURIComponent t)) ''token'' = Some t"
proof -
  have "form_decode ''token'' = ''token''" by code_simp
  from usp_parse_single [OF this, of t] show ?thesis by (simp add: usp_get_def)
qed

text \<open>C34: an invitation survives the sign-in: a visitor who opens the link of an invitation and follows
  the link to sign in is, after a successful sign-in, taken to the page of the invitation,
  which no redirect of the middleware keeps from being shown, and that page reads the token the
  email had, whatever characters it is made of.\<close>

theorem invitation_survives_sign_in:
  assumes "link_token ps \<noteq> []"
  shows "\<exists>search query. sign_in_link (link_token ps) = ''/login'' @ search
    \<and> login_submitted (usp_get (usp_parse search) ''returnUrl'') (Inr v)
        = (None, [ReloadUser, Push (''/invitations/accept'' @ query), RefreshRoute])
    \<and> link_token (usp_parse query) = link_token ps
    \<and> middleware \<lparr>pr_pathname = ''/invitations/accept'', pr_search = query, pr_cookies = cookies\<rparr> = Next"
proof -
  let ?t = "link_token ps"
  let ?p = "''/invitations/accept?token=''"
  let ?query = "''?token='' @ encodeURIComponent ?t"
  let ?search = "''?returnUrl='' @ encodeURIComponent (?p @ encodeURIComponent ?t)"
  have p: "starts_with ?p ''/''" "\<not> starts_with ?p ''//''" "2 \<le> length ?p"
    "\<forall>c\<in>set ?p. \<not> is_ws c \<and> c \<noteq> CHR '':'' \<and> c \<noteq> CHR 0x5C \<and> c \<noteq> CHR 0x00" by code_simp+
  note safe = encoded_path_safe [OF p(1,2,4,3), of ?t default_return]
  have link: "sign_in_link ?t = ''/login'' @ ?search"
    using assms by (simp add: sign_in_link_def invitation_return_url_def safe [simplified])
  have login: "login_submitted (usp_get (usp_parse ?search) ''returnUrl'') (Inr v)
      = (None, [ReloadUser, Push (''/invitations/accept'' @ ?query), RefreshRoute])"
    unfolding return_query by (simp add: login_submitted_def safe [simplified])
  have token: "link_token (usp_parse ?query) = ?t"
    unfolding link_token_def token_query by (cases "usp_get ps ''token''") (simp_all add: js_trim_Nil)
  have "skipped_path ''/invitations/accept'' = False" "isProtectedPath ''/invitations/accept'' = False"
    "''/invitations/accept'' \<notin> set AUTH_PAGES" by code_simp+
  then have "middleware \<lparr>pr_pathname = ''/invitations/accept'', pr_search = ?query, pr_cookies = cookies\<rparr> = Next"
    by (simp add: middleware_def)
  with link login token show ?thesis by blast
qed

lemma invitation_survives_sign_in_witness:
  "\<exists>search query. sign_in_link ''a/b+c'' = ''/login'' @ search \<and> link_token (usp_parse query) = ''a/b+c''
     \<and> login_submitted (usp_get (usp_parse search) ''returnUrl'') (Inr JNull)
        = (None, [ReloadUser, Push (''/invitations/accept'' @ query), RefreshRoute])"
proof -
  have "link_token [(''token'', '' a/b+c'')] = ''a/b+c''" by code_simp
  note token = this
  have "link_token [(''token'', '' a/b+c'')] \<noteq> []" by (simp only: token) simp
  from invitation_survives_sign_in [OF this, of JNull Map.empty] show ?thesis
    unfolding token by (elim exE conjE) (intro exI conjI)
qed

text \<open>The sign-in form keeps what it knows to itself: any two failures that are not rate limits
  show the same text, so that it tells neither whether the user exists nor what went wrong; a
  rate limit shows at most the waiting time; and only a success leaves the page, to a path the
  return check accepts.\<close>

theorem login_form_reveals_nothing:
  "case outcome of
     Inl e \<Rightarrow> snd (login_submitted returnUrl outcome) = []
       \<and> (if error_status e = Some 429
          then \<exists>after. fst (login_submitted returnUrl outcome) = Some (''Too many attempts. Please try again '' @ after)
            \<and> (after = ''later.'' \<or> (\<exists>n. after = ''in '' @ show_rat n @ '' seconds.''))
          else fst (login_submitted returnUrl outcome) = Some ''Invalid username or password. Please try again.'')
   | Inr v \<Rightarrow> login_submitted returnUrl outcome
       = (None, [ReloadUser, Push (getSafeReturnUrl returnUrl default_return), RefreshRoute])"
  by (auto simp: login_submitted_def too_many_attempts_def split: sum.split js_exn.split option.split)

section \<open>Tokens are used once\<close>

datatype token_event = Effect | Answer "js_exn + json" | Retry

text \<open>The button to retry is shown after a failure.\<close>

fun verify_step :: "token_event \<Rightarrow> token_page \<Rightarrow> token_page" where
  "verify_step Effect s = token_effect s"
| "verify_step (Answer r) s = (if tp_status s = VLoading then verify_answered r s else s)"
| "verify_step Retry s = (if tp_status s = VError then verify_retry s else s)"

fun confirm_step :: "token_event \<Rightarrow> token_page \<Rightarrow> token_page" where
  "confirm_step Effect s = token_effect s"
| "confirm_step (Answer r) s = (if tp_status s = VLoading then confirm_answered r s else s)"
| "confirm_step Retry s = (if tp_status s = VError then confirm_retry s else s)"

text \<open>What both pages keep: a page without a token stays idle, and a token not yet tried was not sent.\<close>

definition token_page_ok :: "nat \<Rightarrow> token_page \<Rightarrow> bool" where
  "token_page_ok retries s \<longleftrightarrow>
     tp_requests s \<le> (if tp_token s = [] then 0 else Suc retries)
     \<and> (if tp_token s = [] then tp_status s = VIdle else tp_status s \<noteq> VIdle)
     \<and> (tp_attempted s = None \<longrightarrow> tp_requests s = 0)
     \<and> (tp_attempted s = None \<or> tp_attempted s = Some (tp_token s))"

lemma token_effect_ok: "token_page_ok n s \<Longrightarrow> token_page_ok n (token_effect s)"
  by (auto simp: token_page_ok_def token_effect_def ask_def split: if_splits)

lemma confirm_retry_ok:
  "token_page_ok n s \<Longrightarrow> tp_status s = VError \<Longrightarrow> token_page_ok (Suc n) (confirm_retry s)"
  by (auto simp: token_page_ok_def token_effect_def ask_def confirm_retry_def split: if_splits)

lemma confirm_answered_ok:
  "token_page_ok n s \<Longrightarrow> tp_status s = VLoading \<Longrightarrow> token_page_ok n (confirm_answered r s)"
  by (auto simp: token_page_ok_def confirm_answered_def split: if_splits sum.splits)

lemma token_page_ok_mono: "token_page_ok n s \<Longrightarrow> token_page_ok (Suc n) s"
  by (auto simp: token_page_ok_def split: if_splits)

lemma confirm_step_ok:
  assumes "token_page_ok n s"
  shows "token_page_ok (if e = Retry then Suc n else n) (confirm_step e s)"
  using assms
  by (cases e) (auto intro: token_effect_ok confirm_retry_ok confirm_answered_ok token_page_ok_mono)

lemma confirm_step_token: "tp_token (confirm_step e s) = tp_token s"
  by (cases e) (auto simp: token_effect_def ask_def confirm_retry_def confirm_answered_def split: sum.split)

lemma token_page_ok_requests:
  "token_page_ok n s \<Longrightarrow> tp_requests s \<le> (if tp_token s = [] then 0 else Suc n)"
  by (simp add: token_page_ok_def)

definition retries :: "token_event list \<Rightarrow> nat" where
  "retries es = length (filter (\<lambda>e. e = Retry) es)"

lemma confirm_run_ok:
  "token_page_ok (retries es) (fold confirm_step es (token_page_opened ps))
   \<and> tp_token (fold confirm_step es (token_page_opened ps)) = link_token ps"
proof (induction es rule: rev_induct)
  case Nil
  then show ?case by (simp add: token_page_ok_def token_page_opened_def retries_def)
next
  case (snoc e es)
  then show ?case
    using confirm_step_ok [of "retries es" "fold confirm_step es (token_page_opened ps)" e]
    by (simp add: confirm_step_token retries_def split: if_splits)
qed

text \<open>C35: the token of a link is sent once: however often the effect of the page that confirms a change
  of address runs, and in whatever order the answers and the clicks on the retry button come, the
  page has made at most one request and one more for each click; without a token it makes none.\<close>

theorem link_token_sent_once:
  "tp_requests (fold confirm_step es (token_page_opened ps))
     \<le> (if link_token ps = [] then 0 else Suc (retries es))"
  using token_page_ok_requests [OF conjunct1 [OF confirm_run_ok]] unfolding conjunct2 [OF confirm_run_ok] .

end
