(* ===== verification/Artifact_List.thy ===== *)
theory Artifact_List
  imports Ui_Actions List_Query Feature_Hooks
begin

text \<open>
  components/artifacts/artifacts-page.tsx and hooks/use-debounced-value.ts: the filters of the list
  of artifacts, which live in the state of the page and in its address.  An event changes the
  state; then the component renders and the effects whose dependencies have changed run.  A timer,
  an animation frame and a change of the address that was asked for are pending work, done by
  events of their own.
\<close>

section \<open>State\<close>

record list_view =
  av_pageIndex :: nat
  av_searchInput :: string
  av_typeFilter :: string
  av_tagFilter :: string
  av_favoritesOnly :: bool
  av_includeArchived :: bool
  av_sortBy :: string
  av_sortOrder :: sort_order

record artifacts_page =
  al_view :: list_view
  al_debouncedSearch :: string
  al_searchParams :: search_params
  al_timer :: "string option"
  al_frame :: "list_query option"
  al_replace :: "string option"

definition opt_string :: "string \<Rightarrow> string option \<Rightarrow> string" where
  "opt_string d v = (case v of Some s \<Rightarrow> s | None \<Rightarrow> d)"

text \<open>What the initial state and the effect on the address set from \<open>urlState\<close>.\<close>

definition view_of :: "list_query \<Rightarrow> list_view" where
  "view_of q =
     \<lparr>av_pageIndex = lq_page q - 1, av_searchInput = opt_string [] (lq_search q),
      av_typeFilter = opt_string ''all'' (lq_artifactType q), av_tagFilter = opt_string ''all'' (lq_tag q),
      av_favoritesOnly = lq_favoritesOnly q, av_includeArchived = lq_includeArchived q,
      av_sortBy = opt_string ''updated_at'' (lq_sortBy q),
      av_sortOrder = (case lq_sortOrder q of Some d \<Rightarrow> d | None \<Rightarrow> Desc)\<rparr>"

definition urlState :: "artifacts_page \<Rightarrow> list_query" where
  "urlState s = parseListQuery (al_searchParams s)"

definition url_search :: "artifacts_page \<Rightarrow> string" where
  "url_search s = opt_string [] (lq_search (urlState s))"

text \<open>The first render asks for a frame and starts the timer of the debounced value.\<close>

definition artifacts_opened :: "search_params \<Rightarrow> artifacts_page" where
  "artifacts_opened sp =
     (let q = parseListQuery sp; v = view_of q in
      \<lparr>al_view = v, al_debouncedSearch = av_searchInput v, al_searchParams = sp,
       al_timer = Some (av_searchInput v), al_frame = Some q, al_replace = None\<rparr>)"

section \<open>The address\<close>

definition no_update :: list_update where
  "no_update = \<lparr>up_page = None, up_search = None, up_artifactType = None, up_tag = None,
     up_favoritesOnly = None, up_includeArchived = None, up_sortBy = None, up_sortOrder = None\<rparr>"

text \<open>The router keeps the last address asked for.\<close>

definition updateUrl :: "list_update \<Rightarrow> artifacts_page \<Rightarrow> artifacts_page" where
  "updateUrl up s = s\<lparr>al_replace := Some (serializeListQuery up (al_searchParams s))\<rparr>"

definition search_update :: "string \<Rightarrow> list_update" where
  "search_update search = no_update\<lparr>up_search := Some (nonempty_opt (Some search)), up_page := Some (Some 1)\<rparr>"

section \<open>Effects\<close>

text \<open>\<open>useDebouncedValue\<close>: a new value starts the timer anew.\<close>

definition debounce_effect :: "artifacts_page \<Rightarrow> artifacts_page \<Rightarrow> artifacts_page" where
  "debounce_effect old s =
     (if av_searchInput (al_view s) = av_searchInput (al_view old) then s
      else s\<lparr>al_timer := Some (av_searchInput (al_view s))\<rparr>)"

text \<open>The dependencies are the fields of \<open>urlState\<close>; the clean-up cancels the frame before.\<close>

definition frame_effect :: "artifacts_page \<Rightarrow> artifacts_page \<Rightarrow> artifacts_page" where
  "frame_effect old s = (if urlState s = urlState old then s else s\<lparr>al_frame := Some (urlState s)\<rparr>)"

text \<open>\<open>updateUrl\<close>, a dependency, is new when the parameters of the address are.\<close>

definition search_effect :: "artifacts_page \<Rightarrow> artifacts_page \<Rightarrow> artifacts_page" where
  "search_effect old s =
     (if al_debouncedSearch s = al_debouncedSearch old \<and> al_searchParams s = al_searchParams old then s
      else if al_debouncedSearch s \<noteq> url_search s then updateUrl (search_update (al_debouncedSearch s)) s
      else s)"

definition run_effects :: "artifacts_page \<Rightarrow> artifacts_page \<Rightarrow> artifacts_page" where
  "run_effects old s = search_effect old (frame_effect old (debounce_effect old s))"

section \<open>Events\<close>

datatype filter_event =
    SetType string | SetTag string | SetFavorites bool | SetArchived bool
  | SetSort string sort_order | ClearFilters | GoToPage nat

text \<open>\<open>value === "all" ? undefined : value\<close>\<close>

definition unless_all :: "string \<Rightarrow> string option" where
  "unless_all v = (if v = ''all'' then None else Some v)"

fun choose_filter :: "filter_event \<Rightarrow> artifacts_page \<Rightarrow> artifacts_page" where
  "choose_filter (SetType v) s = updateUrl (no_update\<lparr>up_artifactType := Some (unless_all v), up_page := Some (Some 1)\<rparr>)
     (s\<lparr>al_view := (al_view s)\<lparr>av_typeFilter := v, av_pageIndex := 0\<rparr>\<rparr>)"
| "choose_filter (SetTag v) s = updateUrl (no_update\<lparr>up_tag := Some (unless_all v), up_page := Some (Some 1)\<rparr>)
     (s\<lparr>al_view := (al_view s)\<lparr>av_tagFilter := v, av_pageIndex := 0\<rparr>\<rparr>)"
| "choose_filter (SetFavorites b) s = updateUrl (no_update\<lparr>up_favoritesOnly := Some (Some b), up_page := Some (Some 1)\<rparr>)
     (s\<lparr>al_view := (al_view s)\<lparr>av_favoritesOnly := b, av_pageIndex := 0\<rparr>\<rparr>)"
| "choose_filter (SetArchived b) s = updateUrl (no_update\<lparr>up_includeArchived := Some (Some b), up_page := Some (Some 1)\<rparr>)
     (s\<lparr>al_view := (al_view s)\<lparr>av_includeArchived := b, av_pageIndex := 0\<rparr>\<rparr>)"
| "choose_filter (SetSort k d) s =
     updateUrl (no_update\<lparr>up_sortBy := Some (Some k), up_sortOrder := Some (Some d), up_page := Some (Some 1)\<rparr>)
     (s\<lparr>al_view := (al_view s)\<lparr>av_sortBy := k, av_sortOrder := d, av_pageIndex := 0\<rparr>\<rparr>)"
| "choose_filter ClearFilters s =
     s\<lparr>al_view := \<lparr>av_pageIndex = 0, av_searchInput = [], av_typeFilter = ''all'', av_tagFilter = ''all'',
         av_favoritesOnly = False, av_includeArchived = False, av_sortBy = ''updated_at'', av_sortOrder = Desc\<rparr>,
       al_replace := Some []\<rparr>"
| "choose_filter (GoToPage n) s = updateUrl (no_update\<lparr>up_page := Some (Some (n + 1))\<rparr>)
     (s\<lparr>al_view := (al_view s)\<lparr>av_pageIndex := n\<rparr>\<rparr>)"

datatype list_event = TypeSearch string | Choose filter_event | TimerDone | FrameDone | AddressShown
  | Navigated search_params

text \<open>The state before the effects.\<close>

fun list_change :: "list_event \<Rightarrow> artifacts_page \<Rightarrow> artifacts_page" where
  "list_change (TypeSearch t) s = s\<lparr>al_view := (al_view s)\<lparr>av_searchInput := t\<rparr>\<rparr>"
| "list_change (Choose f) s = choose_filter f s"
| "list_change TimerDone s =
     (case al_timer s of Some v \<Rightarrow> s\<lparr>al_debouncedSearch := v, al_timer := None\<rparr> | None \<Rightarrow> s)"
| "list_change FrameDone s =
     (case al_frame s of Some q \<Rightarrow> s\<lparr>al_view := view_of q, al_frame := None\<rparr> | None \<Rightarrow> s)"
| "list_change AddressShown s =
     (case al_replace s of Some q \<Rightarrow> s\<lparr>al_searchParams := usp_parse q, al_replace := None\<rparr> | None \<Rightarrow> s)"
| "list_change (Navigated sp) s = s\<lparr>al_searchParams := sp, al_replace := None\<rparr>"

definition list_step :: "list_event \<Rightarrow> artifacts_page \<Rightarrow> artifacts_page" where
  "list_step ev s = run_effects s (list_change ev s)"

definition list_run :: "list_event list \<Rightarrow> artifacts_page \<Rightarrow> artifacts_page" where
  "list_run es s = fold list_step es s"

section \<open>The request\<close>

definition ARTIFACTS_PAGE_SIZE :: nat where "ARTIFACTS_PAGE_SIZE = 20"

definition artifact_filters :: "string option \<Rightarrow> list_view \<Rightarrow> string \<Rightarrow> filters" where
  "artifact_filters organizationId v search =
     [(''organization_id'', case organizationId of Some i \<Rightarrow> QStr i | None \<Rightarrow> QNull),
      (''limit'', QInt (int ARTIFACTS_PAGE_SIZE)),
      (''offset'', QInt (int (av_pageIndex v * ARTIFACTS_PAGE_SIZE))),
      (''search'', if search \<noteq> [] then QStr search else QUndef),
      (''tags'', if av_tagFilter v \<noteq> ''all'' then QList [av_tagFilter v] else QUndef),
      (''favorites_only'', QBool (av_favoritesOnly v)),
      (''include_archived'', QBool (av_includeArchived v)),
      (''artifact_type'', if av_typeFilter v \<noteq> ''all'' then QStr (av_typeFilter v) else QUndef),
      (''sort_by'', QStr (av_sortBy v)),
      (''sort_order'', QStr (sort_order_string (av_sortOrder v)))]"

definition list_request :: "string option \<Rightarrow> artifacts_page \<Rightarrow> hook_query" where
  "list_request organizationId s =
     useArtifacts (artifact_filters organizationId (al_view s) (al_debouncedSearch s))"

text \<open>What the address alone asks for.\<close>

definition address_request :: "string option \<Rightarrow> search_params \<Rightarrow> hook_query" where
  "address_request organizationId sp =
     (let v = view_of (parseListQuery sp) in useArtifacts (artifact_filters organizationId v (av_searchInput v)))"

definition list_settled :: "artifacts_page \<Rightarrow> bool" where
  "list_settled s = (al_timer s = None \<and> al_frame s = None \<and> al_replace s = None)"

section \<open>One update and the view it leads to\<close>

lemma show_one: "show_nat n = ''1'' \<longleftrightarrow> n = 1"
proof -
  have "show_nat 1 = ''1''" by code_simp
  then show ?thesis by (metis show_nat_inj)
qed

definition page_read :: "string option \<Rightarrow> nat" where
  "page_read v = asPositiveInt v 1"

lemma page_read_simps [simp]: "page_read None = 1" "page_read (Some (show_nat n)) = (if 0 < n then n else 1)"
  unfolding page_read_def asPositiveInt_show by (simp_all add: asPositiveInt_def is_integer_num_def)

lemma page_written: "0 < n \<Longrightarrow> page_read (usp_get (write_param ''page'' (Some (LNum n)) (Some ''1'') []) ''page'') = n"
  by (simp add: usp_get_write show_one del: show_nat.simps)

lemma get_keys_update:
  "usp_get (updateListQuery up ps) ''search'' = (case up_search up of None \<Rightarrow> usp_get ps ''search''
     | Some v \<Rightarrow> nonempty_opt v)"
  "usp_get (updateListQuery up ps) ''artifact_type'' = (case up_artifactType up of None \<Rightarrow> usp_get ps ''artifact_type''
     | Some v \<Rightarrow> nonempty_opt v)"
  "usp_get (updateListQuery up ps) ''tag'' = (case up_tag up of None \<Rightarrow> usp_get ps ''tag'' | Some v \<Rightarrow> nonempty_opt v)"
  "usp_get (updateListQuery up ps) ''sort_by'' = (case up_sortBy up of None \<Rightarrow> usp_get ps ''sort_by''
     | Some v \<Rightarrow> nonempty_opt v)"
  by (auto simp: get_update usp_get_write nonempty_opt_def split: option.split)

lemma get_flags_update:
  "usp_get (updateListQuery up ps) ''favorites_only'' = (case up_favoritesOnly up of
     None \<Rightarrow> usp_get ps ''favorites_only'' | Some v \<Rightarrow> if v = Some True then Some ''true'' else None)"
  "usp_get (updateListQuery up ps) ''include_archived'' = (case up_includeArchived up of
     None \<Rightarrow> usp_get ps ''include_archived'' | Some v \<Rightarrow> if v = Some True then Some ''true'' else None)"
  "usp_get (updateListQuery up ps) ''sort_order'' = (case up_sortOrder up of
     None \<Rightarrow> usp_get ps ''sort_order'' | Some v \<Rightarrow> map_option sort_order_string v)"
  by (auto simp: get_update usp_get_write sort_order_string_def split: option.split sort_order.split)

lemma page_update:
  "up_page up = None \<Longrightarrow> page_read (usp_get (updateListQuery up ps) ''page'') = page_read (usp_get ps ''page'')"
  "up_page up = Some (Some n) \<Longrightarrow> 0 < n \<Longrightarrow> page_read (usp_get (updateListQuery up ps) ''page'') = n"
  by (simp_all add: get_update page_written)

lemmas parse_update = parseListQuery_def [folded page_read_def] get_keys_update get_flags_update page_update

lemma no_update_simps [simp]:
  "up_page no_update = None" "up_search no_update = None" "up_artifactType no_update = None" "up_tag no_update = None"
  "up_favoritesOnly no_update = None" "up_includeArchived no_update = None" "up_sortBy no_update = None"
  "up_sortOrder no_update = None"
  by (simp_all add: no_update_def)

lemma parse_search_update:
  "parseListQuery (updateListQuery (search_update t) ps) =
     (parseListQuery ps)\<lparr>lq_page := 1, lq_search := nonempty_opt (Some t)\<rparr>"
  by (simp add: search_update_def parse_update nonempty_opt_id)

section \<open>The page and its address\<close>

text \<open>The filters shown, the text of the search apart.\<close>

definition same_filters_shown :: "list_view \<Rightarrow> list_view \<Rightarrow> bool" where
  "same_filters_shown v w = (v\<lparr>av_searchInput := []\<rparr> = w\<lparr>av_searchInput := []\<rparr>)"

text \<open>The selects have no empty option.\<close>

definition possible_choice :: "filter_event \<Rightarrow> bool" where
  "possible_choice f = (case f of SetType v \<Rightarrow> v \<noteq> [] | SetTag v \<Rightarrow> v \<noteq> [] | SetSort k _ \<Rightarrow> k \<noteq> [] | _ \<Rightarrow> True)"

lemma opt_string_simps [simp]: "opt_string d None = d" "opt_string d (Some s) = s"
  by (simp_all add: opt_string_def)

lemma unless_all_shown: "v \<noteq> [] \<Longrightarrow> opt_string ''all'' (nonempty_opt (unless_all v)) = v"
  by (simp add: unless_all_def nonempty_opt_def)

lemma sort_order_read:
  "(if sort_order_string d = ''asc'' then Some Asc else if sort_order_string d = ''desc'' then Some Desc else None) = Some d"
  by (cases d) (simp_all add: sort_order_string_def)

lemma choose_filter_frame [simp]:
  "al_searchParams (choose_filter f s) = al_searchParams s" "al_debouncedSearch (choose_filter f s) = al_debouncedSearch s"
  "al_frame (choose_filter f s) = al_frame s" "al_timer (choose_filter f s) = al_timer s"
  by (cases f; simp add: updateUrl_def)+

text \<open>What a choice writes into the address leads back to the filters it shows.\<close>

lemma unless_all_read: "v \<noteq> [] \<Longrightarrow> nonempty_opt (unless_all v) = unless_all v"
  "v \<noteq> [] \<Longrightarrow> opt_string ''all'' (unless_all v) = v"
  by (simp_all add: unless_all_def nonempty_opt_def)

definition choice_update :: "filter_event \<Rightarrow> list_update" where
  "choice_update f =
     (case f of
        SetType v \<Rightarrow> no_update\<lparr>up_artifactType := Some (unless_all v), up_page := Some (Some 1)\<rparr>
      | SetTag v \<Rightarrow> no_update\<lparr>up_tag := Some (unless_all v), up_page := Some (Some 1)\<rparr>
      | SetFavorites b \<Rightarrow> no_update\<lparr>up_favoritesOnly := Some (Some b), up_page := Some (Some 1)\<rparr>
      | SetArchived b \<Rightarrow> no_update\<lparr>up_includeArchived := Some (Some b), up_page := Some (Some 1)\<rparr>
      | SetSort k d \<Rightarrow> no_update\<lparr>up_sortBy := Some (Some k), up_sortOrder := Some (Some d), up_page := Some (Some 1)\<rparr>
      | ClearFilters \<Rightarrow> no_update
      | GoToPage n \<Rightarrow> no_update\<lparr>up_page := Some (Some (n + 1))\<rparr>)"

definition choice_query :: "filter_event \<Rightarrow> list_query \<Rightarrow> list_query" where
  "choice_query f q =
     (case f of
        SetType v \<Rightarrow> q\<lparr>lq_artifactType := unless_all v, lq_page := 1\<rparr>
      | SetTag v \<Rightarrow> q\<lparr>lq_tag := unless_all v, lq_page := 1\<rparr>
      | SetFavorites b \<Rightarrow> q\<lparr>lq_favoritesOnly := b, lq_page := 1\<rparr>
      | SetArchived b \<Rightarrow> q\<lparr>lq_includeArchived := b, lq_page := 1\<rparr>
      | SetSort k d \<Rightarrow> q\<lparr>lq_sortBy := Some k, lq_sortOrder := Some d, lq_page := 1\<rparr>
      | ClearFilters \<Rightarrow> q
      | GoToPage n \<Rightarrow> q\<lparr>lq_page := n + 1\<rparr>)"

lemma parse_choice:
  "possible_choice f \<Longrightarrow> parseListQuery (updateListQuery (choice_update f) ps) = choice_query f (parseListQuery ps)"
proof (cases f)
  case (SetSort k d)
  then show "possible_choice f \<Longrightarrow> ?thesis"
    by (cases d) (simp_all add: choice_update_def choice_query_def possible_choice_def parse_update
        sort_order_string_def nonempty_opt_id del: One_nat_def)
qed (simp_all add: choice_update_def choice_query_def possible_choice_def parse_update unless_all_read
    nonempty_opt_id del: One_nat_def)

lemma choice_replace:
  "f \<noteq> ClearFilters \<Longrightarrow> al_replace (choose_filter f s) = Some (serializeListQuery (choice_update f) (al_searchParams s))"
  by (cases f) (simp_all add: updateUrl_def choice_update_def)

lemma choice_view:
  assumes "possible_choice f" "f \<noteq> ClearFilters" "same_filters_shown (al_view s) (view_of q)"
  shows "same_filters_shown (al_view (choose_filter f s)) (view_of (choice_query f q))"
  using assms
  by (cases f; cases "al_view s")
     (simp_all add: updateUrl_def choice_query_def possible_choice_def same_filters_shown_def view_of_def unless_all_read)

lemma empty_query: "parseListQuery (usp_parse []) =
    \<lparr>lq_page = 1, lq_search = None, lq_artifactType = None, lq_tag = None, lq_favoritesOnly = False,
     lq_includeArchived = False, lq_sortBy = None, lq_sortOrder = None\<rparr>"
proof -
  have "usp_parse [] = []" by code_simp
  then show ?thesis by (simp add: parse_update usp_get_def nonempty_opt_def del: One_nat_def)
qed

lemma chosen_shown:
  assumes "possible_choice f" and "same_filters_shown (al_view s) (view_of (urlState s))"
  obtains q where "al_replace (choose_filter f s) = Some q"
    and "same_filters_shown (al_view (choose_filter f s)) (view_of (parseListQuery (usp_parse q)))"
proof (cases "f = ClearFilters")
  case True
  then show ?thesis by (intro that [of "[]"]) (simp_all add: empty_query same_filters_shown_def view_of_def)
next
  case False
  from choice_view [OF assms(1) False assms(2)] choice_replace [OF False] show ?thesis
    by (intro that) (auto simp: serialize_parse parse_choice [OF assms(1)] urlState_def)
qed

section \<open>What is kept\<close>

text \<open>
  The timer holds the text typed; the frame the state of the address; the search acts on what the
  address says, or another address is on its way; and so do the filters, when no frame is waiting.
\<close>

definition address_changes :: "artifacts_page \<Rightarrow> bool" where
  "address_changes s = (case al_replace s of None \<Rightarrow> False | Some q \<Rightarrow> parseListQuery (usp_parse q) \<noteq> urlState s)"

definition timer_kept :: "artifacts_page \<Rightarrow> bool" where
  "timer_kept s = (case al_timer s of None \<Rightarrow> al_debouncedSearch s = av_searchInput (al_view s)
     | Some v \<Rightarrow> v = av_searchInput (al_view s))"

definition frame_kept :: "artifacts_page \<Rightarrow> bool" where
  "frame_kept s = (case al_frame s of None \<Rightarrow> same_filters_shown (al_view s) (view_of (urlState s)) \<or> address_changes s
     | Some q \<Rightarrow> q = urlState s)"

definition search_kept :: "artifacts_page \<Rightarrow> bool" where
  "search_kept s = (al_debouncedSearch s = url_search s
     \<or> (case al_replace s of None \<Rightarrow> False | Some q \<Rightarrow> usp_parse q \<noteq> al_searchParams s))"

definition page_kept :: "artifacts_page \<Rightarrow> bool" where
  "page_kept s = (timer_kept s \<and> frame_kept s \<and> search_kept s)"

lemma kept_opened: "page_kept (artifacts_opened sp)"
  by (simp add: page_kept_def timer_kept_def frame_kept_def search_kept_def artifacts_opened_def Let_def
      urlState_def url_search_def view_of_def)

lemma search_update_changes:
  assumes "al_debouncedSearch s \<noteq> url_search s"
  shows "address_changes (updateUrl (search_update (al_debouncedSearch s)) s)"
    and "search_kept (updateUrl (search_update (al_debouncedSearch s)) s)"
proof -
  let ?q = "parseListQuery (updateListQuery (search_update (al_debouncedSearch s)) (al_searchParams s))"
  have "opt_string [] (lq_search ?q) = al_debouncedSearch s"
    unfolding parse_search_update by (simp add: nonempty_opt_def opt_string_def)
  with assms have "?q \<noteq> urlState s" by (auto simp: url_search_def)
  then show "address_changes (updateUrl (search_update (al_debouncedSearch s)) s)"
    and "search_kept (updateUrl (search_update (al_debouncedSearch s)) s)"
    by (auto simp: address_changes_def search_kept_def updateUrl_def serialize_parse urlState_def)
qed

lemma kept_effects:
  assumes t: "av_searchInput (al_view s) = av_searchInput (al_view old) \<Longrightarrow> timer_kept s"
    and f: "urlState s = urlState old \<Longrightarrow> frame_kept s"
    and d: "al_debouncedSearch s = al_debouncedSearch old \<Longrightarrow> al_searchParams s = al_searchParams old \<Longrightarrow> search_kept s"
  shows "page_kept (run_effects old s)"
proof -
  define s1 where "s1 = frame_effect old (debounce_effect old s)"
  have fields: "al_view s1 = al_view s" "al_searchParams s1 = al_searchParams s"
    "al_debouncedSearch s1 = al_debouncedSearch s" "al_replace s1 = al_replace s" "urlState s1 = urlState s"
    "url_search s1 = url_search s"
    by (simp_all add: s1_def frame_effect_def debounce_effect_def urlState_def url_search_def)
  have t1: "timer_kept s1"
    using t by (auto simp: s1_def frame_effect_def debounce_effect_def timer_kept_def split: option.splits)
  have f1: "frame_kept s1"
    using f by (auto simp: s1_def frame_effect_def debounce_effect_def frame_kept_def urlState_def address_changes_def
        split: option.splits)
  have e: "run_effects old s = search_effect old s1" by (simp add: run_effects_def s1_def)
  show ?thesis
  proof (cases "al_debouncedSearch s1 \<noteq> url_search s1
      \<and> \<not> (al_debouncedSearch s1 = al_debouncedSearch old \<and> al_searchParams s1 = al_searchParams old)")
    case True
    let ?s = "updateUrl (search_update (al_debouncedSearch s1)) s1"
    have "search_effect old s1 = ?s" using True by (auto simp: search_effect_def)
    moreover have "timer_kept ?s" using t1 by (auto simp: timer_kept_def updateUrl_def split: option.splits)
    moreover have "frame_kept ?s"
      using f1 search_update_changes(1) [of s1] True
      by (auto simp: frame_kept_def updateUrl_def urlState_def split: option.splits)
    ultimately show ?thesis using search_update_changes(2) [of s1] True by (simp add: page_kept_def e)
  next
    case False
    then have "search_effect old s1 = s1" by (auto simp: search_effect_def)
    moreover have "search_kept s1 = search_kept s" unfolding search_kept_def fields by (rule refl)
    moreover have "search_kept s"
    proof (cases "al_debouncedSearch s = url_search s")
      case True
      then show ?thesis by (simp add: search_kept_def)
    qed (use False d in \<open>simp add: fields\<close>)
    ultimately show ?thesis using t1 f1 by (simp add: page_kept_def e)
  qed
qed

text \<open>The user, or a link, acts on the filters only when no address is on its way.\<close>

definition touches_filters :: "list_event \<Rightarrow> bool" where
  "touches_filters ev = (case ev of Choose _ \<Rightarrow> True | Navigated _ \<Rightarrow> True | _ \<Rightarrow> False)"

definition list_event_ok :: "list_event \<Rightarrow> artifacts_page \<Rightarrow> bool" where
  "list_event_ok ev s =
     ((touches_filters ev \<longrightarrow> al_replace s = None) \<and> (case ev of Choose f \<Rightarrow> possible_choice f | _ \<Rightarrow> True))"

lemma kept_choose:
  assumes "page_kept s" "possible_choice f" "al_replace s = None"
  shows "page_kept (list_step (Choose f) s)"
  unfolding list_step_def list_change.simps
proof (rule kept_effects)
  show "timer_kept (choose_filter f s)" if "av_searchInput (al_view (choose_filter f s)) = av_searchInput (al_view s)"
    using assms(1) that by (auto simp: page_kept_def timer_kept_def split: option.splits)
  show "frame_kept (choose_filter f s)"
  proof (cases "al_frame s")
    case None
    then have shown: "same_filters_shown (al_view s) (view_of (urlState s))"
      using assms(1,3) by (simp add: page_kept_def frame_kept_def address_changes_def)
    from chosen_shown [OF assms(2) this] obtain q where q: "al_replace (choose_filter f s) = Some q"
      "same_filters_shown (al_view (choose_filter f s)) (view_of (parseListQuery (usp_parse q)))" .
    then show ?thesis using None by (auto simp: frame_kept_def address_changes_def urlState_def)
  next
    case (Some q)
    then show ?thesis using assms(1) by (simp add: page_kept_def frame_kept_def urlState_def)
  qed
  show "search_kept (choose_filter f s)"
    using assms(1,3) by (simp add: page_kept_def search_kept_def url_search_def urlState_def)
qed

lemma kept_address:
  assumes "page_kept s" "\<And>q. parseListQuery sp = urlState s \<Longrightarrow> al_replace s = Some q \<Longrightarrow> parseListQuery (usp_parse q) = urlState s"
    and "sp = al_searchParams s \<Longrightarrow> al_debouncedSearch s = url_search s"
  shows "page_kept (run_effects s (s\<lparr>al_searchParams := sp, al_replace := None\<rparr>))"
proof (rule kept_effects)
  let ?s = "s\<lparr>al_searchParams := sp, al_replace := None\<rparr>"
  show "timer_kept ?s"
    using assms(1) by (auto simp: page_kept_def timer_kept_def split: option.splits)
  show "frame_kept ?s" if "urlState ?s = urlState s"
    using assms(1) that assms(2)
    by (auto simp: page_kept_def frame_kept_def urlState_def address_changes_def split: option.splits)
  show "search_kept ?s" if "al_searchParams ?s = al_searchParams s"
    using assms(3) that by (simp add: search_kept_def url_search_def urlState_def)
qed

lemma kept_step:
  assumes k: "page_kept s" and ok: "list_event_ok ev s"
  shows "page_kept (list_step ev s)"
proof (cases ev)
  case (TypeSearch t)
  show ?thesis
    unfolding list_step_def TypeSearch list_change.simps
    by (rule kept_effects)
       (use k in \<open>auto simp: page_kept_def timer_kept_def frame_kept_def search_kept_def urlState_def url_search_def
          address_changes_def same_filters_shown_def split: option.splits\<close>)
next
  case (Choose f)
  with ok kept_choose [OF k, of f] show ?thesis by (simp add: list_event_ok_def touches_filters_def)
next
  case TimerDone
  show ?thesis
    unfolding list_step_def TimerDone list_change.simps
    by (rule kept_effects)
       (use k in \<open>auto simp: page_kept_def timer_kept_def frame_kept_def search_kept_def urlState_def url_search_def
          address_changes_def split: option.splits\<close>)
next
  case FrameDone
  show ?thesis
    unfolding list_step_def FrameDone list_change.simps
    by (rule kept_effects)
       (use k in \<open>auto simp: page_kept_def timer_kept_def frame_kept_def search_kept_def urlState_def url_search_def
          address_changes_def same_filters_shown_def split: option.splits\<close>)
next
  case AddressShown
  show ?thesis
  proof (cases "al_replace s")
    case None
    have "page_kept (run_effects s s)" by (rule kept_effects) (use k in \<open>simp_all add: page_kept_def\<close>)
    with None show ?thesis by (simp add: list_step_def AddressShown)
  next
    case (Some q)
    have "page_kept (run_effects s (s\<lparr>al_searchParams := usp_parse q, al_replace := None\<rparr>))"
      by (rule kept_address [OF k]) (use Some k in \<open>auto simp: page_kept_def search_kept_def\<close>)
    with Some show ?thesis by (simp add: list_step_def AddressShown)
  qed
next
  case (Navigated sp)
  have "page_kept (run_effects s (s\<lparr>al_searchParams := sp, al_replace := None\<rparr>))"
    by (rule kept_address [OF k])
       (use ok k in \<open>auto simp: Navigated list_event_ok_def touches_filters_def page_kept_def search_kept_def\<close>)
  then show ?thesis by (simp add: list_step_def Navigated)
qed

inductive unhurried :: "artifacts_page \<Rightarrow> artifacts_page \<Rightarrow> bool" where
  start: "unhurried s s"
| step: "unhurried s0 s \<Longrightarrow> list_event_ok ev s \<Longrightarrow> unhurried s0 (list_step ev s)"

lemma unhurried_kept: "unhurried s0 s \<Longrightarrow> page_kept s0 \<Longrightarrow> page_kept s"
  by (induction rule: unhurried.induct) (auto intro: kept_step)

lemma settled_view:
  assumes "page_kept s" "list_settled s"
  shows "al_view s = view_of (urlState s) \<and> al_debouncedSearch s = av_searchInput (al_view s)"
proof -
  have d: "al_debouncedSearch s = av_searchInput (al_view s)"
    using assms by (simp add: page_kept_def timer_kept_def list_settled_def)
  moreover have u: "al_debouncedSearch s = url_search s"
    using assms by (simp add: page_kept_def search_kept_def list_settled_def)
  moreover have "same_filters_shown (al_view s) (view_of (urlState s))"
    using assms by (simp add: page_kept_def frame_kept_def address_changes_def list_settled_def)
  moreover from d u have "av_searchInput (al_view s) = av_searchInput (view_of (urlState s))"
    by (simp add: view_of_def url_search_def)
  ultimately show ?thesis
    by (cases "al_view s"; cases "view_of (urlState s)") (simp add: same_filters_shown_def)
qed

text \<open>C13: the list shows what its address says: from any address, whatever the user types, chooses,
  clears or follows, and in whatever order the timer, the frames and the router do their work,
  once no work is left the filters shown are those of the address and the page loads exactly the
  artifacts the address asks for, so that the address can be shared or reloaded; the choices are
  taken to be made while no other address is on its way.\<close>

theorem list_shows_its_address:
  assumes "unhurried (artifacts_opened sp) s" and "list_settled s"
  shows "al_view s = view_of (parseListQuery (al_searchParams s))
    \<and> list_request organizationId s = address_request organizationId (al_searchParams s)"
  using settled_view [OF unhurried_kept [OF assms(1) kept_opened] assms(2)]
  by (simp add: list_request_def address_request_def urlState_def Let_def)

section \<open>A search that is typed\<close>

definition resting :: "search_params \<Rightarrow> artifacts_page" where
  "resting sp = \<lparr>al_view = view_of (parseListQuery sp), al_debouncedSearch = av_searchInput (view_of (parseListQuery sp)),
     al_searchParams = sp, al_timer = None, al_frame = None, al_replace = None\<rparr>"

lemma settled_resting: "page_kept s \<Longrightarrow> list_settled s \<Longrightarrow> s = resting (al_searchParams s)"
  using settled_view [of s] by (cases s) (simp add: list_settled_def resting_def urlState_def)

lemma view_search [simp]: "av_searchInput (view_of q) = opt_string [] (lq_search q)"
  by (simp add: view_of_def)

lemma opt_nonempty [simp]: "opt_string [] (nonempty_opt (Some t)) = t"
  by (simp add: nonempty_opt_def)

lemmas list_exec = list_step_def run_effects_def debounce_effect_def frame_effect_def search_effect_def
  updateUrl_def urlState_def url_search_def serialize_parse

text \<open>The page by its parts, and one event at a time.\<close>

definition page_of :: "list_view \<Rightarrow> string \<Rightarrow> search_params \<Rightarrow> string option \<Rightarrow> list_query option \<Rightarrow> string option \<Rightarrow>
    artifacts_page" where
  "page_of v d u t f r = \<lparr>al_view = v, al_debouncedSearch = d, al_searchParams = u, al_timer = t, al_frame = f,
     al_replace = r\<rparr>"

definition searched :: "list_query \<Rightarrow> string" where
  "searched q = opt_string [] (lq_search q)"

definition ask_search :: "string \<Rightarrow> search_params \<Rightarrow> string option \<Rightarrow> string option" where
  "ask_search d u r = (if d = searched (parseListQuery u) then r else Some (serializeListQuery (search_update d) u))"

definition show_address :: "search_params \<Rightarrow> list_view \<Rightarrow> string \<Rightarrow> search_params \<Rightarrow> string option \<Rightarrow>
    list_query option \<Rightarrow> artifacts_page" where
  "show_address u' v d u t f =
     page_of v d u' t (if parseListQuery u' = parseListQuery u then f else Some (parseListQuery u'))
       (if u' = u then None else ask_search d u' None)"

lemma list_steps:
  "list_step (TypeSearch x) (page_of v d u t f r) =
     page_of (v\<lparr>av_searchInput := x\<rparr>) d u (if x = av_searchInput v then t else Some x) f r"
  "list_step TimerDone (page_of v d u (Some x) f r) = page_of v x u None f (if x = d then r else ask_search x u r)"
  "list_step FrameDone (page_of v d u t (Some q) r) =
     page_of (view_of q) d u (if searched q = av_searchInput v then t else Some (searched q)) None r"
  "list_step AddressShown (page_of v d u t f (Some a)) = show_address (usp_parse a) v d u t f"
  "list_step (Navigated u') (page_of v d u t f r) = show_address u' v d u t f"
  by (simp_all add: page_of_def list_step_def run_effects_def debounce_effect_def frame_effect_def search_effect_def
      updateUrl_def urlState_def url_search_def searched_def ask_search_def show_address_def)

lemma resting_page:
  "resting u = page_of (view_of (parseListQuery u)) (searched (parseListQuery u)) u None None None"
  by (simp add: resting_def page_of_def searched_def)

lemma opened_page:
  "artifacts_opened u = page_of (view_of (parseListQuery u)) (searched (parseListQuery u)) u
     (Some (searched (parseListQuery u))) (Some (parseListQuery u)) None"
  by (simp add: artifacts_opened_def page_of_def searched_def Let_def)

lemma view_input [simp]: "av_searchInput (view_of q) = searched q"
  by (simp add: searched_def)

lemma same_view: "(view_of q)\<lparr>av_searchInput := searched q\<rparr> = view_of q"
  by (simp add: view_of_def searched_def)

lemma list_idle:
  "list_step TimerDone (page_of v d u None f r) = page_of v d u None f r"
  "list_step FrameDone (page_of v d u t None r) = page_of v d u t None r"
  "list_step AddressShown (page_of v d u t f None) = page_of v d u t f None"
  by (simp_all add: page_of_def list_step_def run_effects_def debounce_effect_def frame_effect_def search_effect_def)

lemma settled_page: "list_settled (page_of v d u t f r) = (t = None \<and> f = None \<and> r = None)"
  by (simp add: list_settled_def page_of_def)

lemmas list_runs = list_run_def fold_simps list_steps show_address_def ask_search_def resting_page

lemma parse_searched:
  "searched (parseListQuery (updateListQuery (search_update t) u)) = t"
  unfolding parse_search_update searched_def by simp

lemma typed_search:
  assumes "t \<noteq> searched (parseListQuery u)"
  shows "list_run [TypeSearch t, TimerDone, AddressShown, FrameDone] (resting u) =
    resting (updateListQuery (search_update t) u)"
proof -
  have "parseListQuery (updateListQuery (search_update t) u) \<noteq> parseListQuery u"
    using parse_searched [of t u] assms by metis
  moreover from this have "updateListQuery (search_update t) u \<noteq> u" by metis
  ultimately show ?thesis
    using assms by (simp add: list_runs serialize_parse parse_searched del: view_search)
qed

lemma opened_settles: "list_run [FrameDone, TimerDone] (artifacts_opened sp) = resting sp"
  by (simp add: opened_page list_runs del: view_search)

text \<open>C14: a search that is typed reaches the address: on a page at rest, when the text typed has been
  left alone for the time of the timer and the router has shown the address asked for, the page is
  at rest again, and its address is the one before with that search, on the first page; all other
  filters and parameters are kept, and a text equal to the present search changes nothing.\<close>

theorem typed_search_reaches_address:
  assumes "unhurried (artifacts_opened sp0) s" and "list_settled s"
  shows "list_run [TypeSearch t, TimerDone, AddressShown, FrameDone] s =
     resting (if t = url_search s then al_searchParams s else updateListQuery (search_update t) (al_searchParams s))"
proof -
  have s: "s = resting (al_searchParams s)"
    by (rule settled_resting [OF unhurried_kept [OF assms(1) kept_opened] assms(2)])
  show ?thesis
  proof (cases "t = url_search s")
    case True
    have "list_run [TypeSearch t, TimerDone, AddressShown, FrameDone] (resting (al_searchParams s)) = resting (al_searchParams s)"
      unfolding True url_search_def urlState_def searched_def [symmetric]
      by (simp add: list_runs same_view list_idle del: view_search)
    with True s show ?thesis by simp
  next
    case False
    with typed_search [of t "al_searchParams s"] s show ?thesis by (simp add: url_search_def urlState_def searched_def)
  qed
qed

section \<open>Examples\<close>

lemma unhurried_run: "list_all (\<lambda>ev. \<not> touches_filters ev) es \<Longrightarrow> unhurried s (list_run es s)"
proof (induction es rule: rev_induct)
  case (snoc ev es)
  then have "unhurried s (list_run es s)" "list_event_ok ev (list_run es s)"
    by (auto simp: list_event_ok_def touches_filters_def split: list_event.split)
  then show ?case using unhurried.step by (simp add: list_run_def)
qed (simp add: list_run_def unhurried.start)

lemma unhurried_opened: "unhurried (artifacts_opened sp) (resting sp)"
  using unhurried_run [of "[FrameDone, TimerDone]" "artifacts_opened sp"]
  by (simp add: opened_settles touches_filters_def)

lemma resting_settled [simp]: "list_settled (resting sp)" "al_searchParams (resting sp) = sp"
  by (simp_all add: list_settled_def resting_def)

definition search_a :: search_params where
  "search_a = [(''search'', ''a'')]"

lemma search_a_facts:
  "updateListQuery (search_update ''a'') [] = search_a" "updateListQuery (search_update []) search_a = []"
  "searched (parseListQuery search_a) = ''a''" "searched (parseListQuery []) = []" "search_a \<noteq> []"
  "[] \<noteq> search_a"
  "parseListQuery search_a \<noteq> parseListQuery []" "parseListQuery [] \<noteq> parseListQuery search_a"
  by (code_simp, code_simp)
     (simp_all add: parseListQuery_def search_a_def usp_get_def nonempty_opt_def searched_def)

lemma list_shows_its_address_witness:
  "list_request None (resting search_a) = address_request None search_a"
  using list_shows_its_address [OF unhurried_opened resting_settled(1), of search_a None] by simp

lemma typed_search_reaches_address_witness:
  "list_run [TypeSearch ''a'', TimerDone, AddressShown, FrameDone] (resting []) = resting search_a"
  using typed_search_reaches_address [OF unhurried_opened resting_settled(1), of "''a''" "[]"]
  by (simp add: search_a_facts url_search_def urlState_def searched_def [symmetric])

text \<open>
  A link to another search of the same page is undone, since the debounced text still is the old
  one; and where the router takes longer than the timer, both chase each other for ever: six
  events, none of them the user's, lead back to the same state.
\<close>

lemma followed_link_is_undone:
  "list_run [Navigated search_a, FrameDone, AddressShown, FrameDone, TimerDone] (resting []) = resting []"
  by (simp add: list_runs serialize_parse search_a_facts del: view_search)

lemma search_chases_address:
  "list_run [FrameDone, TimerDone, AddressShown, FrameDone, TimerDone, AddressShown]
     (list_step (Navigated search_a) (resting [])) = list_step (Navigated search_a) (resting [])"
  "\<not> list_settled (list_step (Navigated search_a) (resting []))"
  by (simp_all add: list_runs serialize_parse search_a_facts settled_page del: view_search)

text \<open>What is typed while an earlier text reaches the address is lost.\<close>

lemma late_keys_are_lost:
  "list_run [TypeSearch ''a'', TimerDone, TypeSearch ''ab'', AddressShown, FrameDone, TimerDone] (resting []) =
     resting search_a"
  by (simp add: list_runs serialize_parse search_a_facts del: view_search)

text \<open>The proviso is needed: a choice made while another is on its way drops that one's address.\<close>

lemma hasty_choices_diverge:
  "av_typeFilter (al_view (list_run [Choose (SetType ''x''), Choose (GoToPage 0), AddressShown] (resting []))) = ''x''"
  "al_searchParams (list_run [Choose (SetType ''x''), Choose (GoToPage 0), AddressShown] (resting [])) = []"
  "list_settled (list_run [Choose (SetType ''x''), Choose (GoToPage 0), AddressShown] (resting []))"
  by code_simp+

end
