(* ===== verification/Generator_Pages.thy ===== *)
theory Generator_Pages
  imports Page_Contract Form_Rules Feature_Apis Rbac
begin

text \<open>
  components/generators: the four generator forms with the options they share (save-options-fields.tsx),
  as a state machine over the user's input, the organization of the switcher, the policy packs of
  that organization and the answer of the call that is pending.
\<close>

section \<open>State\<close>

datatype generator = GDockerfile | GKubernetes | GPipeline | GCommand

record save_form =
  sf_save_artifact :: bool
  sf_artifact_name :: string
  sf_artifact_description :: string
  sf_organization_id :: "string option"
  sf_policy_pack_ids :: "string list"
  sf_validate_policies :: bool

record generator_page =
  gp_generator :: generator
  gp_fields :: json_obj
  gp_form :: save_form
  gp_organizationId :: "string option"
  gp_role :: "OrgRole option"
  gp_packs :: "string list"
  gp_result :: "json option"
  gp_isPending :: bool
  gp_notices :: "notice list"
  gp_calls :: "api_call list"

definition default_save_form :: save_form where
  "default_save_form = \<lparr>sf_save_artifact = False, sf_artifact_name = [], sf_artifact_description = [],
     sf_organization_id = None, sf_policy_pack_ids = [], sf_validate_policies = False\<rparr>"

text \<open>The default values of each form; the organization is that of the switcher.\<close>

definition dockerfile_defaults :: json_obj where
  "dockerfile_defaults =
     [(''language'', JStr ''python''), (''framework'', JStr []), (''python_version'', JStr ''3.12''),
      (''port'', JNum 8000), (''use_multistage'', JBool True), (''run_as_non_root'', JBool True),
      (''provider'', JStr ''gemini'')]"

definition kubernetes_defaults :: json_obj where
  "kubernetes_defaults =
     [(''application_name'', JStr ''my-app''), (''image'', JStr ''ghcr.io/example/my-app:latest''), (''replicas'', JNum 2),
      (''container_port'', JNum 8000), (''service_type'', JStr ''ClusterIP''), (''include_ingress'', JBool False),
      (''include_configmap'', JBool True), (''include_hpa'', JBool True), (''cpu_request'', JStr ''100m''),
      (''cpu_limit'', JStr ''500m''), (''memory_request'', JStr ''128Mi''), (''memory_limit'', JStr ''512Mi''),
      (''provider'', JStr ''gemini'')]"

definition pipeline_defaults :: json_obj where
  "pipeline_defaults =
     [(''platform'', JStr ''github-actions''), (''language'', JStr ''python''), (''framework'', JStr ''fastapi''),
      (''test_command'', JStr ''pytest''), (''build_docker_image'', JBool True), (''deploy_target'', JStr ''kubernetes''),
      (''provider'', JStr ''gemini'')]"

definition command_defaults :: json_obj where
  "command_defaults =
     [(''request'', JStr []), (''operating_system'', JStr ''linux''), (''shell'', JStr ''bash''),
      (''provider'', JStr ''gemini'')]"

definition default_fields :: "generator \<Rightarrow> json_obj" where
  "default_fields g =
     (case g of GDockerfile \<Rightarrow> dockerfile_defaults | GKubernetes \<Rightarrow> kubernetes_defaults
      | GPipeline \<Rightarrow> pipeline_defaults | GCommand \<Rightarrow> command_defaults)"

definition generator_opened :: "generator \<Rightarrow> string option \<Rightarrow> OrgRole option \<Rightarrow> generator_page" where
  "generator_opened g organizationId orgRole =
     \<lparr>gp_generator = g, gp_fields = default_fields g,
      gp_form = default_save_form\<lparr>sf_organization_id := organizationId\<rparr>, gp_organizationId = organizationId, gp_role = orgRole,
      gp_packs = [], gp_result = None, gp_isPending = False, gp_notices = [], gp_calls = []\<rparr>"

section \<open>The form as the resolver sees it\<close>

definition save_values :: "save_form \<Rightarrow> json_obj" where
  "save_values f =
     [(''save_artifact'', JBool (sf_save_artifact f)), (''artifact_name'', JStr (sf_artifact_name f)),
      (''artifact_description'', JStr (sf_artifact_description f)),
      (''organization_id'', case sf_organization_id f of Some i \<Rightarrow> JStr i | None \<Rightarrow> JNull),
      (''policy_pack_ids'', JArr (map JStr (sf_policy_pack_ids f))),
      (''validate_policies'', JBool (sf_validate_policies f))]"

definition form_values :: "generator_page \<Rightarrow> json" where
  "form_values s = JObj (save_values (gp_form s) @ gp_fields s)"

definition generator_schema :: "generator \<Rightarrow> schema" where
  "generator_schema g =
     (case g of GDockerfile \<Rightarrow> dockerfileFormSchema | GKubernetes \<Rightarrow> kubernetesFormSchema
      | GPipeline \<Rightarrow> pipelineFormSchema | GCommand \<Rightarrow> commandFormSchema)"

section \<open>The request\<close>

text \<open>Fields passed on as they are; \<open>undefined\<close> is dropped by \<open>JSON.stringify\<close>.\<close>

definition passed_on :: "json \<Rightarrow> string list \<Rightarrow> json_obj" where
  "passed_on v ks = List.map_filter (\<lambda>k. map_option (Pair k) (js_prop v k)) ks"

definition dockerfile_body :: "json \<Rightarrow> json_obj" where
  "dockerfile_body v = toSavePayload v @ passed_on v [''language''] @
     [(''framework'', trim_or_null (string_field v ''framework''))]
     @ passed_on v [''python_version'', ''port'', ''use_multistage'', ''run_as_non_root'', ''provider'']"

definition kubernetes_body :: "json \<Rightarrow> json_obj" where
  "kubernetes_body v = toSavePayload v @ passed_on v [''application_name'', ''image'', ''replicas'', ''container_port'',
     ''service_type'', ''include_ingress'', ''include_configmap'', ''include_hpa'', ''cpu_request'', ''cpu_limit'',
     ''memory_request'', ''memory_limit'', ''provider'']"

definition pipeline_body :: "json \<Rightarrow> json_obj" where
  "pipeline_body v = toSavePayload v @ passed_on v [''platform'', ''language''] @
     [(''framework'', trim_or_null (string_field v ''framework''))]
     @ passed_on v [''test_command'', ''build_docker_image'', ''deploy_target'', ''provider'']"

definition command_body :: "json \<Rightarrow> json_obj" where
  "command_body v = toSavePayload v @ passed_on v [''request'', ''operating_system'', ''shell'', ''provider'']"

definition generator_body :: "generator \<Rightarrow> json \<Rightarrow> json" where
  "generator_body g v = JObj
     (case g of GDockerfile \<Rightarrow> dockerfile_body v | GKubernetes \<Rightarrow> kubernetes_body v
      | GPipeline \<Rightarrow> pipeline_body v | GCommand \<Rightarrow> command_body v)"

definition generator_call :: "generator \<Rightarrow> json \<Rightarrow> api_call" where
  "generator_call g body =
     (case g of GDockerfile \<Rightarrow> generateDockerfile body | GKubernetes \<Rightarrow> generateKubernetes body
      | GPipeline \<Rightarrow> generatePipeline body | GCommand \<Rightarrow> generateCommand body)"

definition generated_text :: "generator \<Rightarrow> bool \<Rightarrow> string" where
  "generated_text g saved =
     (case g of GDockerfile \<Rightarrow> if saved then ''Dockerfile generated and saved'' else ''Dockerfile generated''
      | GKubernetes \<Rightarrow> if saved then ''Manifests generated and saved'' else ''Manifests generated''
      | GPipeline \<Rightarrow> if saved then ''Pipeline generated and saved'' else ''Pipeline generated''
      | GCommand \<Rightarrow> if saved then ''Command generated and saved'' else ''Command generated'')"

definition generation_failed_text :: "generator \<Rightarrow> string" where
  "generation_failed_text g =
     (case g of GDockerfile \<Rightarrow> ''Failed to generate Dockerfile'' | GKubernetes \<Rightarrow> ''Failed to generate Kubernetes manifests''
      | GPipeline \<Rightarrow> ''Failed to generate pipeline'' | GCommand \<Rightarrow> ''Failed to generate command'')"

section \<open>Operations\<close>

text \<open>Submit and regenerate run the same handler; both are disabled while a call is pending.\<close>

definition submit_generator :: "parser \<Rightarrow> generator_page \<Rightarrow> generator_page" where
  "submit_generator parse s =
     (if gp_isPending s then s
      else case parse (generator_schema (gp_generator s)) (Some (form_values s)) of
        Some (Some v) \<Rightarrow>
          s\<lparr>gp_isPending := True, gp_calls := gp_calls s @ [generator_call (gp_generator s) (generator_body (gp_generator s) v)]\<rparr>
      | _ \<Rightarrow> s)"

definition generator_answered :: "js_exn + json \<Rightarrow> generator_page \<Rightarrow> generator_page" where
  "generator_answered outcome s =
     (if \<not> gp_isPending s then s
      else let s1 = s\<lparr>gp_isPending := False\<rparr> in
        case outcome of
          Inr r \<Rightarrow> s1\<lparr>gp_result := Some r,
            gp_notices := gp_notices s @ [Success (generated_text (gp_generator s) (truthy (js_prop r ''saved_artifact_id'')))]\<rparr>
        | Inl e \<Rightarrow> s1\<lparr>gp_notices := gp_notices s @ [Failure (error_text e (generation_failed_text (gp_generator s)))]\<rparr>)"

text \<open>The effect of every generator; the packs are those the query has for the organization.\<close>

definition generator_organization :: "string option \<Rightarrow> string list \<Rightarrow> generator_page \<Rightarrow> generator_page" where
  "generator_organization i packs s =
     s\<lparr>gp_organizationId := i, gp_packs := packs, gp_form := (gp_form s)\<lparr>sf_organization_id := i\<rparr>\<rparr>"

definition with_organization :: "bool \<Rightarrow> generator_page \<Rightarrow> save_form \<Rightarrow> save_form" where
  "with_organization checked s f =
     (case nonempty_opt (gp_organizationId s) of
        Some i \<Rightarrow> if checked then f\<lparr>sf_organization_id := Some i\<rparr> else f
      | None \<Rightarrow> f)"

definition check_save :: "bool \<Rightarrow> generator_page \<Rightarrow> generator_page" where
  "check_save checked s =
     (if nonempty_opt (gp_organizationId s) = None \<or> \<not> PermissionGate ArtifactWrite (gp_role s) then s
      else s\<lparr>gp_form := with_organization checked s ((gp_form s)\<lparr>sf_save_artifact := checked\<rparr>)\<rparr>)"

definition save_fields_shown :: "generator_page \<Rightarrow> bool" where
  "save_fields_shown s = (sf_save_artifact (gp_form s) \<and> PermissionGate ArtifactWrite (gp_role s))"

definition check_validate :: "bool \<Rightarrow> generator_page \<Rightarrow> generator_page" where
  "check_validate checked s =
     (if nonempty_opt (gp_organizationId s) = None then s
      else s\<lparr>gp_form := with_organization checked s ((gp_form s)\<lparr>sf_validate_policies := checked\<rparr>)\<rparr>)"

definition toggle_pack :: "string \<Rightarrow> bool \<Rightarrow> string list \<Rightarrow> string list" where
  "toggle_pack i checked selected = (if checked then selected @ [i] else filter (\<lambda>k. k \<noteq> i) selected)"

text \<open>The boxes of the packs are shown with the validation, and a click changes the box.\<close>

definition check_pack :: "string \<Rightarrow> generator_page \<Rightarrow> generator_page" where
  "check_pack i s =
     (if sf_validate_policies (gp_form s) \<and> i \<in> set (gp_packs s)
      then s\<lparr>gp_form := (gp_form s)\<lparr>sf_policy_pack_ids :=
             toggle_pack i (i \<notin> set (sf_policy_pack_ids (gp_form s))) (sf_policy_pack_ids (gp_form s))\<rparr>\<rparr>
      else s)"

datatype generator_event =
    SetField string json | CheckSave bool | SetArtifactName string | SetArtifactDescription string
  | CheckValidate bool | CheckPack string | SwitchOrganization "string option" "string list" | RoleLoaded "OrgRole option"
  | PacksLoaded "string list" | Generate | Generated "js_exn + json" | ClearOutput

fun generator_step :: "parser \<Rightarrow> generator_event \<Rightarrow> generator_page \<Rightarrow> generator_page" where
  "generator_step parse (SetField k v) s =
     (if k \<in> fst ` set (gp_fields s)
      then s\<lparr>gp_fields := map (\<lambda>(k', v'). (k', if k' = k then v else v')) (gp_fields s)\<rparr> else s)"
| "generator_step parse (CheckSave b) s = check_save b s"
| "generator_step parse (SetArtifactName n) s =
     (if save_fields_shown s then s\<lparr>gp_form := (gp_form s)\<lparr>sf_artifact_name := n\<rparr>\<rparr> else s)"
| "generator_step parse (SetArtifactDescription d) s =
     (if save_fields_shown s then s\<lparr>gp_form := (gp_form s)\<lparr>sf_artifact_description := d\<rparr>\<rparr> else s)"
| "generator_step parse (CheckValidate b) s = check_validate b s"
| "generator_step parse (CheckPack i) s = check_pack i s"
| "generator_step parse (SwitchOrganization i packs) s = generator_organization i packs s"
| "generator_step parse (RoleLoaded r) s = s\<lparr>gp_role := r\<rparr>"
| "generator_step parse (PacksLoaded packs) s = s\<lparr>gp_packs := packs\<rparr>"
| "generator_step parse Generate s = submit_generator parse s"
| "generator_step parse (Generated outcome) s = generator_answered outcome s"
| "generator_step parse ClearOutput s = s\<lparr>gp_result := None\<rparr>"

definition generator_run :: "parser \<Rightarrow> generator_event list \<Rightarrow> generator_page \<Rightarrow> generator_page" where
  "generator_run parse es s = fold (generator_step parse) es s"

section \<open>What the schema makes of the form\<close>

context zod
begin

lemma string_kept: "parse (ZString [Format f]) (Some (JStr t)) = Some x \<Longrightarrow> x = Some (JStr t)"
  by (auto simp: string_law split: if_splits)

lemma strings_kept:
  assumes "parse (ZArray (ZString [Format f])) (Some (JArr (map JStr ts))) = Some x"
  shows "x = Some (JArr (map JStr ts))"
proof -
  have "ys = map JStr ts" if "all_some (\<lambda>x. Option.bind (parse (ZString [Format f]) (Some x)) id) (map JStr ts) = Some ys" for ys
    using that
    by (induction ts arbitrary: ys) (auto simp: string_law split: option.splits if_splits)
  with assms show ?thesis by (auto simp: array_law)
qed

lemma generator_values:
  assumes z: "z = with_save_options fs" and d: "distinct (map fst (saveOptionsFields @ fs))"
    and p: "parse z (Some (JObj (save_values f @ rest))) = Some (Some v)"
  shows "js_prop v ''organization_id'' = Some (case sf_organization_id f of Some i \<Rightarrow> JStr i | None \<Rightarrow> JNull)
    \<and> js_prop v ''policy_pack_ids'' = Some (JArr (map JStr (sf_policy_pack_ids f)))
    \<and> js_prop v ''save_artifact'' = Some (JBool (sf_save_artifact f))
    \<and> js_prop v ''validate_policies'' = Some (JBool (sf_validate_policies f))
    \<and> js_prop v ''artifact_name'' = Some (JStr (js_trim (sf_artifact_name f)))"
proof -
  note g = save_field [OF p [unfolded z] d]
  let ?v = "JObj (save_values f @ rest)"
  have "parse (ZOptional (ZNullable (ZString [Format ''uuid'']))) (js_prop ?v ''organization_id'') = Some (js_prop v ''organization_id'')"
    "parse (ZArray (ZString [Format ''uuid''])) (js_prop ?v ''policy_pack_ids'') = Some (js_prop v ''policy_pack_ids'')"
    "parse ZBool (js_prop ?v ''save_artifact'') = Some (js_prop v ''save_artifact'')"
    "parse ZBool (js_prop ?v ''validate_policies'') = Some (js_prop v ''validate_policies'')"
    "parse (ZString [Trim, MaxLength 200]) (js_prop ?v ''artifact_name'') = Some (js_prop v ''artifact_name'')"
    by (rule g; simp add: saveOptionsFields_def)+
  moreover have "js_prop ?v ''organization_id'' = Some (case sf_organization_id f of Some i \<Rightarrow> JStr i | None \<Rightarrow> JNull)"
    "js_prop ?v ''policy_pack_ids'' = Some (JArr (map JStr (sf_policy_pack_ids f)))"
    "js_prop ?v ''save_artifact'' = Some (JBool (sf_save_artifact f))"
    "js_prop ?v ''validate_policies'' = Some (JBool (sf_validate_policies f))"
    "js_prop ?v ''artifact_name'' = Some (JStr (sf_artifact_name f))"
    by (simp_all add: save_values_def js_prop_def)
  ultimately show ?thesis
    using strings_kept [of "''uuid''" "sf_policy_pack_ids f"]
    by (auto simp: optional_law nullable_law bool_law string_law split: option.splits if_splits)
qed

end

section \<open>What is asked of the backend\<close>

definition generator_body_ok :: "generator_page \<Rightarrow> json \<Rightarrow> bool" where
  "generator_body_ok s b =
     (let f = gp_form s in
      js_prop b ''organization_id'' = Some (case gp_organizationId s of Some i \<Rightarrow> JStr i | None \<Rightarrow> JNull)
      \<and> js_prop b ''save_artifact'' = Some (JBool (sf_save_artifact f))
      \<and> js_prop b ''validate_policies'' = Some (JBool (sf_validate_policies f))
      \<and> js_prop b ''artifact_name'' = Some (if sf_save_artifact f then JStr (js_trim (sf_artifact_name f)) else JNull)
      \<and> js_prop b ''policy_pack_ids'' = Some (JArr (map JStr (sf_policy_pack_ids f)))
      \<and> distinct (sf_policy_pack_ids f)
      \<and> (if sf_save_artifact f then js_trim (sf_artifact_name f) \<noteq> [] else True)
      \<and> (if sf_save_artifact f \<or> sf_validate_policies f then nonempty_opt (gp_organizationId s) \<noteq> None else True))"

definition generator_call_ok :: "generator_page \<Rightarrow> generator_event \<Rightarrow> api_call \<Rightarrow> bool" where
  "generator_call_ok s ev c =
     (ev = Generate \<and> \<not> gp_isPending s \<and> (\<exists>b. c = generator_call (gp_generator s) b \<and> generator_body_ok s b))"

definition form_kept :: "generator_page \<Rightarrow> bool" where
  "form_kept s = (sf_organization_id (gp_form s) = gp_organizationId s \<and> distinct (sf_policy_pack_ids (gp_form s)))"

lemma with_organization_simps [simp]:
  "sf_policy_pack_ids (with_organization b s f) = sf_policy_pack_ids f"
  "sf_organization_id (with_organization b s f) =
     (if b \<and> nonempty_opt (gp_organizationId s) \<noteq> None then gp_organizationId s else sf_organization_id f)"
  by (auto simp: with_organization_def nonempty_opt_def split: option.split)

lemma form_kept_step: "form_kept s \<Longrightarrow> form_kept (generator_step parse ev s)"
  by (cases ev) (auto simp: form_kept_def check_save_def check_validate_def check_pack_def toggle_pack_def
      generator_organization_def submit_generator_def generator_answered_def Let_def split: option.split sum.split)

lemma generator_schema_listed: "generator_schema g \<in> set generator_schemas"
  by (cases g) (simp_all add: generator_schema_def generator_schemas_def)

lemma payload_props: "k \<in> fst ` set (toSavePayload v) \<Longrightarrow>
    js_prop (generator_body g v) k = map_of (toSavePayload v) k"
  by (cases g) (auto simp: js_prop_def generator_body_def dockerfile_body_def kubernetes_body_def pipeline_body_def
      command_body_def map_of_append dom_map_of_conv_image_fst map_add_dom_app_simps)

lemma body_ok:
  assumes "zod fmt parse" "form_kept s"
    and p: "parse (generator_schema (gp_generator s)) (Some (form_values s)) = Some (Some v)"
  shows "generator_body_ok s (generator_body (gp_generator s) v)"
proof -
  obtain fs where fs: "generator_schema (gp_generator s) = with_save_options fs" "distinct (map fst (saveOptionsFields @ fs))"
    using generator_fields_distinct [OF generator_schema_listed] by blast
  let ?f = "gp_form s"
  note v = zod.generator_values [OF assms(1) fs p [unfolded form_values_def]]
  from zod.save_value [OF assms(1) p [unfolded fs(1)] fs(2)] have refined: "refineSaveOptions v = []" by blast
  have org: "sf_organization_id ?f = gp_organizationId s" and ids: "distinct (sf_policy_pack_ids ?f)"
    using assms(2) by (simp_all add: form_kept_def)
  have named: "sf_save_artifact ?f \<Longrightarrow> js_trim (sf_artifact_name ?f) \<noteq> []"
    using refined v by (auto simp: refineSaveOptions_def truthy_def js_truthy_def string_field_def as_string_def split: if_splits)
  have chosen: "sf_save_artifact ?f \<or> sf_validate_policies ?f \<Longrightarrow> nonempty_opt (gp_organizationId s) \<noteq> None"
    using refined v org
    by (auto simp: refineSaveOptions_def truthy_def js_truthy_def nonempty_opt_def split: if_splits option.splits)
  have keys: "k \<in> fst ` set (toSavePayload v)" if "k \<in> {''save_artifact'', ''artifact_name'', ''organization_id'',
      ''policy_pack_ids'', ''validate_policies''}" for k
    using that by (auto simp: toSavePayload_def Let_def)
  show ?thesis
    unfolding generator_body_ok_def Let_def
    using v named chosen ids org
    by (auto simp: payload_props keys toSavePayload_def Let_def truthy_def js_truthy_def coalesce_def string_field_def
        as_string_def trim_or_null_def split: option.splits)
qed

lemma generator_calls_step:
  assumes "zod fmt parse" "form_kept s"
  shows "\<exists>new. gp_calls (generator_step parse ev s) = gp_calls s @ new \<and> length new \<le> 1
    \<and> list_all (generator_call_ok s ev) new"
proof (cases "ev = Generate \<and> \<not> gp_isPending s
    \<and> (\<exists>v. parse (generator_schema (gp_generator s)) (Some (form_values s)) = Some (Some v))")
  case True
  then obtain v where v: "parse (generator_schema (gp_generator s)) (Some (form_values s)) = Some (Some v)" by blast
  let ?c = "generator_call (gp_generator s) (generator_body (gp_generator s) v)"
  have "generator_call_ok s ev ?c" using True body_ok [OF assms v] by (auto simp: generator_call_ok_def)
  with True v show ?thesis by (intro exI [of _ "[?c]"]) (simp add: submit_generator_def)
next
  case False
  then have "gp_calls (generator_step parse ev s) = gp_calls s"
    by (cases ev) (auto simp: check_save_def check_validate_def check_pack_def generator_organization_def
        submit_generator_def generator_answered_def Let_def split: option.split sum.split)
  then show ?thesis by (intro exI [of _ "[]"]) simp
qed

lemma generator_guarded:
  assumes "zod fmt parse"
  shows "guarded_page (generator_step parse) gp_calls form_kept generator_call_ok"
  by unfold_locales (rule form_kept_step, assumption, rule generator_calls_step [OF assms])

interpretation generator: guarded_page "generator_step (zparse fmt)" gp_calls form_kept generator_call_ok for fmt
  by (rule generator_guarded) unfold_locales

lemma generator_opened_kept:
  "form_kept (generator_opened g organizationId orgRole)" "gp_calls (generator_opened g organizationId orgRole) = []"
  by (simp_all add: form_kept_def generator_opened_def default_save_form_def)

text \<open>C31: a generator asks only for what its form says, and only for the organization of the switcher:
  whatever the user did, and however the organization and the role changed meanwhile, every
  request of a session was made by a click on the button while no other request was pending, and
  its body carries the organization selected at that moment, the boxes as they were checked and
  no pack twice; it asks to save only with an organization and a name that is not blank, and to
  validate only with an organization.\<close>

theorem generator_calls_sound:
  assumes "zod fmt parse"
  shows "list_all (justified (generator_step parse) generator_call_ok (generator_opened g organizationId orgRole) es)
    (gp_calls (generator_run parse es (generator_opened g organizationId orgRole)))"
  unfolding generator_run_def
  by (rule guarded_page.session_justified [OF generator_guarded [OF assms] generator_opened_kept])

definition ex_generator_events :: "generator_event list" where
  "ex_generator_events = [SetField ''request'' (JStr ''free space''), CheckSave True, SetArtifactName '' disk '',
     CheckValidate True, PacksLoaded [''p1'', ''p2''], CheckPack ''p2'']"

definition ex_generator :: generator_page where
  "ex_generator = generator_run ex_parse ex_generator_events (generator_opened GCommand (Some ''o1'') (Some Owner))"

lemma generator_calls_sound_witness:
  "\<exists>c. gp_calls (generator_run ex_parse (ex_generator_events @ [Generate]) (generator_opened GCommand (Some ''o1'') (Some Owner))) = [c]
     \<and> justified (generator_step ex_parse) generator_call_ok (generator_opened GCommand (Some ''o1'') (Some Owner))
         (ex_generator_events @ [Generate]) c"
proof -
  have "length (gp_calls (generator_run ex_parse (ex_generator_events @ [Generate])
      (generator_opened GCommand (Some ''o1'') (Some Owner)))) = 1" by code_simp
  with generator_calls_sound [OF zod_ex, of GCommand "Some ''o1''" "Some Owner" "ex_generator_events @ [Generate]"]
  show ?thesis by (auto simp: length_Suc_conv)
qed

text \<open>
  The packs that were chosen stay when the organization changes: the request then names packs of
  another organization.  The box to save stays checked, too, for a role that may not save.
\<close>

lemma packs_cross_organizations:
  "sf_policy_pack_ids (gp_form (generator_step ex_parse (SwitchOrganization (Some ''o2'') [''q1'']) ex_generator)) = [''p2'']"
  "length (gp_calls (generator_step ex_parse Generate
     (generator_step ex_parse (SwitchOrganization (Some ''o2'') [''q1'']) ex_generator))) = 1"
  "length (gp_calls (generator_step ex_parse Generate
     (generator_step ex_parse (RoleLoaded (Some Viewer)) ex_generator))) = 1"
  by code_simp+

end
