(* ===== verification/Review_Page.thy ===== *)
theory Review_Page
  imports Generator_Pages
begin

text \<open>
  components/reviews/review-workspace.tsx: the review of a configuration.  The page merges the
  findings of the answer into one list, shows those that pass the filters, and asks for a review
  with or without the policies of the organization.
\<close>

section \<open>Findings\<close>

definition finding_list :: "json option \<Rightarrow> json list" where
  "finding_list v = (case v of Some (JArr xs) \<Rightarrow> xs | _ \<Rightarrow> [])"

definition mergeFindings :: "json \<Rightarrow> json list" where
  "mergeFindings result =
     (if finding_list (js_prop result ''findings'') \<noteq> [] then finding_list (js_prop result ''findings'')
      else finding_list (js_prop result ''built_in_findings'')
           @ finding_list (js_prop result ''organization_policy_findings'')
           @ finding_list (js_prop result ''llm_findings''))"

record findings_filters =
  ff_severity :: string
  ff_source :: string

definition filterFindings :: "json list \<Rightarrow> findings_filters \<Rightarrow> json list" where
  "filterFindings findings f =
     filter (\<lambda>x.
       if ff_severity f \<noteq> ''all'' \<and> js_prop x ''severity'' \<noteq> Some (JStr (ff_severity f)) then False
       else if ff_source f \<noteq> ''all'' \<and> js_prop x ''source'' \<noteq> Some (JStr (ff_source f)) then False
       else True) findings"

datatype editor_language = EDockerfile | EYaml | EGroovy | EHcl | EPlaintext

definition editorLanguageFor :: "string \<Rightarrow> editor_language" where
  "editorLanguageFor type =
     (if type = ''dockerfile'' then EDockerfile
      else if type \<in> {''kubernetes'', ''github-actions'', ''gitlab-ci''} then EYaml
      else if type = ''jenkins'' then EGroovy else if type = ''terraform'' then EHcl else EPlaintext)"

section \<open>State\<close>

record review_page =
  rp_type :: string
  rp_content :: string
  rp_provider :: string
  rp_organization_id :: "string option"
  rp_policy_pack_ids :: "string list"
  rp_includePolicies :: bool
  rp_organizationId :: "string option"
  rp_packs :: "string list"
  rp_result :: "json option"
  rp_filters :: findings_filters
  rp_isPending :: bool
  rp_notices :: "notice list"
  rp_calls :: "api_call list"

definition no_filters :: findings_filters where
  "no_filters = \<lparr>ff_severity = ''all'', ff_source = ''all''\<rparr>"

definition review_opened :: "string option \<Rightarrow> review_page" where
  "review_opened organizationId =
     \<lparr>rp_type = ''dockerfile'', rp_content = [], rp_provider = ''gemini'', rp_organization_id = organizationId,
      rp_policy_pack_ids = [], rp_includePolicies = False, rp_organizationId = organizationId, rp_packs = [],
      rp_result = None, rp_filters = no_filters, rp_isPending = False, rp_notices = [], rp_calls = []\<rparr>"

definition null_or_string :: "string option \<Rightarrow> json" where
  "null_or_string v = (case v of Some i \<Rightarrow> JStr i | None \<Rightarrow> JNull)"

definition review_values :: "review_page \<Rightarrow> json" where
  "review_values s = JObj
     [(''type'', JStr (rp_type s)), (''content'', JStr (rp_content s)), (''provider'', JStr (rp_provider s)),
      (''organization_id'', null_or_string (rp_organization_id s)),
      (''policy_pack_ids'', JArr (map JStr (rp_policy_pack_ids s)))]"

text \<open>The request takes the organization of the page, not the one of the form.\<close>

definition review_body :: "review_page \<Rightarrow> json \<Rightarrow> json" where
  "review_body s v = JObj (passed_on v [''type'', ''content'', ''provider''] @
     [(''organization_id'', if rp_includePolicies s then null_or_string (rp_organizationId s) else JNull)] @
     (if rp_includePolicies s then passed_on v [''policy_pack_ids''] else [(''policy_pack_ids'', JArr [])]))"

definition submit_review :: "parser \<Rightarrow> review_page \<Rightarrow> review_page" where
  "submit_review parse s =
     (if rp_isPending s then s
      else case parse reviewFormSchema (Some (review_values s)) of
        Some (Some v) \<Rightarrow> s\<lparr>rp_isPending := True, rp_calls := rp_calls s @ [reviewConfiguration (review_body s v)]\<rparr>
      | _ \<Rightarrow> s)"

definition review_answered :: "js_exn + json \<Rightarrow> review_page \<Rightarrow> review_page" where
  "review_answered outcome s =
     (if \<not> rp_isPending s then s
      else case outcome of
        Inr r \<Rightarrow> s\<lparr>rp_isPending := False, rp_result := Some r, rp_filters := no_filters,
                  rp_notices := rp_notices s @ [Success ''Review complete'']\<rparr>
      | Inl e \<Rightarrow> s\<lparr>rp_isPending := False,
                  rp_notices := rp_notices s @ [Failure (error_text e ''Failed to review configuration'')]\<rparr>)"

definition check_include :: "bool \<Rightarrow> review_page \<Rightarrow> review_page" where
  "check_include enabled s =
     (if nonempty_opt (rp_organizationId s) = None then s
      else if enabled then s\<lparr>rp_includePolicies := True, rp_organization_id := rp_organizationId s\<rparr>
      else s\<lparr>rp_includePolicies := False\<rparr>)"

definition check_review_pack :: "string \<Rightarrow> review_page \<Rightarrow> review_page" where
  "check_review_pack i s =
     (if rp_includePolicies s \<and> i \<in> set (rp_packs s)
      then s\<lparr>rp_policy_pack_ids := toggle_pack i (i \<notin> set (rp_policy_pack_ids s)) (rp_policy_pack_ids s)\<rparr> else s)"

definition allFindings :: "review_page \<Rightarrow> json list" where
  "allFindings s = (case rp_result s of Some r \<Rightarrow> mergeFindings r | None \<Rightarrow> [])"

definition visibleFindings :: "review_page \<Rightarrow> json list" where
  "visibleFindings s = filterFindings (allFindings s) (rp_filters s)"

datatype review_event =
    SetReviewType string | SetReviewContent string | SetReviewProvider string | CheckInclude bool
  | CheckReviewPack string | ReviewOrganization "string option" "string list" | ReviewPacks "string list"
  | RunReview | Reviewed "js_exn + json" | SetFilters findings_filters

fun review_step :: "parser \<Rightarrow> review_event \<Rightarrow> review_page \<Rightarrow> review_page" where
  "review_step parse (SetReviewType t) s = s\<lparr>rp_type := t\<rparr>"
| "review_step parse (SetReviewContent c) s = s\<lparr>rp_content := c\<rparr>"
| "review_step parse (SetReviewProvider p) s = s\<lparr>rp_provider := p\<rparr>"
| "review_step parse (CheckInclude b) s = check_include b s"
| "review_step parse (CheckReviewPack i) s = check_review_pack i s"
| "review_step parse (ReviewOrganization i packs) s =
     s\<lparr>rp_organizationId := i, rp_organization_id := i, rp_packs := packs\<rparr>"
| "review_step parse (ReviewPacks packs) s = s\<lparr>rp_packs := packs\<rparr>"
| "review_step parse RunReview s = submit_review parse s"
| "review_step parse (Reviewed outcome) s = review_answered outcome s"
| "review_step parse (SetFilters f) s = s\<lparr>rp_filters := f\<rparr>"

definition review_run :: "parser \<Rightarrow> review_event list \<Rightarrow> review_page \<Rightarrow> review_page" where
  "review_run parse es s = fold (review_step parse) es s"

section \<open>What is shown\<close>

lemma filterFindings_iff:
  "x \<in> set (filterFindings xs f) \<longleftrightarrow> x \<in> set xs
     \<and> (ff_severity f = ''all'' \<or> js_prop x ''severity'' = Some (JStr (ff_severity f)))
     \<and> (ff_source f = ''all'' \<or> js_prop x ''source'' = Some (JStr (ff_source f)))"
  by (auto simp: filterFindings_def)

lemma filter_none [simp]: "filterFindings xs no_filters = xs"
  by (simp add: filterFindings_def no_filters_def)

text \<open>When a review succeeds all its findings are shown, whatever the filters were before; later a finding
  is hidden only if its severity or its source is not the one chosen, and two filters one after
  the other show what both together do.\<close>

lemma review_shows_every_finding:
  fixes parse r s
  defines "s' \<equiv> review_step parse (Reviewed (Inr r)) s"
  assumes "rp_isPending s"
  shows "visibleFindings s' = mergeFindings r"
    and "x \<in> set (mergeFindings r) \<Longrightarrow> x \<notin> set (visibleFindings (review_step parse (SetFilters f) s')) \<Longrightarrow>
      (ff_severity f \<noteq> ''all'' \<and> js_prop x ''severity'' \<noteq> Some (JStr (ff_severity f)))
      \<or> (ff_source f \<noteq> ''all'' \<and> js_prop x ''source'' \<noteq> Some (JStr (ff_source f)))"
    and "filterFindings (filterFindings xs (f\<lparr>ff_source := ''all''\<rparr>)) (f\<lparr>ff_severity := ''all''\<rparr>) = filterFindings xs f"
proof -
  have s': "rp_result s' = Some r" "rp_filters s' = no_filters"
    using assms(2) by (simp_all add: s'_def review_answered_def)
  show "visibleFindings s' = mergeFindings r"
    by (simp add: visibleFindings_def allFindings_def s')
  show "x \<in> set (mergeFindings r) \<Longrightarrow> x \<notin> set (visibleFindings (review_step parse (SetFilters f) s')) \<Longrightarrow>
      (ff_severity f \<noteq> ''all'' \<and> js_prop x ''severity'' \<noteq> Some (JStr (ff_severity f)))
      \<or> (ff_source f \<noteq> ''all'' \<and> js_prop x ''source'' \<noteq> Some (JStr (ff_source f)))"
    by (auto simp: visibleFindings_def allFindings_def s' filterFindings_iff)
  show "filterFindings (filterFindings xs (f\<lparr>ff_source := ''all''\<rparr>)) (f\<lparr>ff_severity := ''all''\<rparr>) = filterFindings xs f"
    by (auto simp: filterFindings_def intro!: filter_cong)
qed

section \<open>What is asked of the backend\<close>

definition review_form_kept :: "review_page \<Rightarrow> bool" where
  "review_form_kept s = (rp_organization_id s = rp_organizationId s \<and> distinct (rp_policy_pack_ids s))"

lemma review_form_kept_step: "review_form_kept s \<Longrightarrow> review_form_kept (review_step parse ev s)"
  by (cases ev) (auto simp: review_form_kept_def check_include_def check_review_pack_def toggle_pack_def
      submit_review_def review_answered_def split: option.split sum.split)

context zod
begin

lemma review_form_values:
  assumes "parse reviewFormSchema (Some (review_values s)) = Some (Some v)"
  shows "js_prop v ''content'' = Some (JStr (rp_content s)) \<and> rp_content s \<noteq> []
    \<and> js_prop v ''type'' = Some (JStr (rp_type s)) \<and> js_prop v ''provider'' = Some (JStr (rp_provider s))
    \<and> js_prop v ''policy_pack_ids'' = Some (JArr (map JStr (rp_policy_pack_ids s)))"
proof -
  note g = object_field [OF assms [unfolded reviewFormSchema_def]]
  have "parse reviewTypeSchema (js_prop (review_values s) ''type'') = Some (js_prop v ''type'')"
    "parse (ZString [MinLength 1, MaxLength 500000]) (js_prop (review_values s) ''content'') = Some (js_prop v ''content'')"
    "parse providerSchema (js_prop (review_values s) ''provider'') = Some (js_prop v ''provider'')"
    "parse (ZArray (ZString [Format ''uuid''])) (js_prop (review_values s) ''policy_pack_ids'') = Some (js_prop v ''policy_pack_ids'')"
    by (rule g; simp)+
  then show ?thesis
    using strings_kept [of "''uuid''" "rp_policy_pack_ids s"]
    by (auto simp: review_values_def js_prop_def reviewTypeSchema_def providerSchema_def enum_law string_law
        split: if_splits)
qed

end

definition review_body_ok :: "review_page \<Rightarrow> json \<Rightarrow> bool" where
  "review_body_ok s b =
     (js_prop b ''type'' = Some (JStr (rp_type s)) \<and> js_prop b ''provider'' = Some (JStr (rp_provider s))
      \<and> js_prop b ''content'' = Some (JStr (rp_content s)) \<and> rp_content s \<noteq> []
      \<and> (if rp_includePolicies s
         then js_prop b ''organization_id'' = Some (null_or_string (rp_organizationId s))
           \<and> js_prop b ''policy_pack_ids'' = Some (JArr (map JStr (rp_policy_pack_ids s))) \<and> distinct (rp_policy_pack_ids s)
         else js_prop b ''organization_id'' = Some JNull \<and> js_prop b ''policy_pack_ids'' = Some (JArr [])))"

lemma map_of_passed_on: "map_of (passed_on v ks @ kvs) k =
    (if k \<in> set ks then (case js_prop v k of Some x \<Rightarrow> Some x | None \<Rightarrow> map_of kvs k) else map_of kvs k)"
  by (induction ks) (auto simp: passed_on_def map_filter_simps split: option.split)

lemma review_body_sound:
  assumes "zod fmt parse" "review_form_kept s" "parse reviewFormSchema (Some (review_values s)) = Some (Some v)"
  shows "review_body_ok s (review_body s v)"
  using zod.review_form_values [OF assms(1,3)] assms(2)
  by (auto simp: review_body_ok_def review_body_def passed_on_def js_prop_def List.map_filter_def review_form_kept_def)

definition review_call_ok :: "review_page \<Rightarrow> review_event \<Rightarrow> api_call \<Rightarrow> bool" where
  "review_call_ok s ev c =
     (ev = RunReview \<and> \<not> rp_isPending s \<and> (\<exists>b. c = reviewConfiguration b \<and> review_body_ok s b))"

lemma review_calls_step:
  assumes "zod fmt parse" "review_form_kept s"
  shows "\<exists>new. rp_calls (review_step parse ev s) = rp_calls s @ new \<and> length new \<le> 1 \<and> list_all (review_call_ok s ev) new"
proof (cases "ev = RunReview \<and> \<not> rp_isPending s \<and> (\<exists>v. parse reviewFormSchema (Some (review_values s)) = Some (Some v))")
  case True
  then obtain v where v: "parse reviewFormSchema (Some (review_values s)) = Some (Some v)" by blast
  with True review_body_sound [OF assms v] show ?thesis
    by (intro exI [of _ "[reviewConfiguration (review_body s v)]"]) (auto simp: submit_review_def review_call_ok_def)
next
  case False
  then have "rp_calls (review_step parse ev s) = rp_calls s"
    by (cases ev) (auto simp: check_include_def check_review_pack_def submit_review_def review_answered_def
        split: option.split sum.split)
  then show ?thesis by (intro exI [of _ "[]"]) simp
qed

lemma review_guarded:
  assumes "zod fmt parse"
  shows "guarded_page (review_step parse) rp_calls review_form_kept review_call_ok"
  by unfold_locales (rule review_form_kept_step, assumption, rule review_calls_step [OF assms])

interpretation review: guarded_page "review_step (zparse fmt)" rp_calls review_form_kept review_call_ok for fmt
  by (rule review_guarded) unfold_locales

lemma review_opened_kept:
  "review_form_kept (review_opened organizationId)" "rp_calls (review_opened organizationId) = []"
  by (simp_all add: review_form_kept_def review_opened_def)

text \<open>A review tells the backend of the organization only when its policies are included: every
  review of a session was asked for by a click while none was pending, of exactly the
  configuration in the editor at that moment, which is not empty; with the policies it carries
  the organization of the switcher and the packs that are checked, each once, and without them it
  carries neither, whatever was checked before.\<close>

theorem review_calls_sound:
  assumes "zod fmt parse"
  shows "list_all (justified (review_step parse) review_call_ok (review_opened organizationId) es)
    (rp_calls (review_run parse es (review_opened organizationId)))"
  unfolding review_run_def
  by (rule guarded_page.session_justified [OF review_guarded [OF assms] review_opened_kept])

definition ex_review_events :: "review_event list" where
  "ex_review_events = [SetReviewContent ''FROM x'', CheckInclude True, ReviewPacks [''p1'', ''p2''], CheckReviewPack ''p2'']"

definition ex_review :: review_page where
  "ex_review = review_run ex_parse ex_review_events (review_opened (Some ''o1''))"

lemma ex_review_fields:
  "rp_type ex_review = ''dockerfile'' \<and> rp_content ex_review = ''FROM x'' \<and> rp_provider ex_review = ''gemini''
   \<and> rp_organization_id ex_review = Some ''o1'' \<and> rp_policy_pack_ids ex_review = [''p2''] \<and> rp_calls ex_review = []
   \<and> \<not> rp_isPending ex_review \<and> rp_includePolicies ex_review"
  by code_simp

lemma ex_review_accepted: "\<exists>v. ex_parse reviewFormSchema (Some (review_values ex_review)) = Some (Some v)"
  by (simp add: ex_review_fields review_values_def null_or_string_def reviewFormSchema_def reviewTypeSchema_def
      providerSchema_def LLM_PROVIDERS_def ex_parse_def)

lemma review_calls_sound_witness:
  "\<exists>c. rp_calls (review_run ex_parse (ex_review_events @ [RunReview]) (review_opened (Some ''o1''))) = [c]
     \<and> justified (review_step ex_parse) review_call_ok (review_opened (Some ''o1'')) (ex_review_events @ [RunReview]) c"
proof -
  have "review_run ex_parse (ex_review_events @ [RunReview]) (review_opened (Some ''o1'')) = submit_review ex_parse ex_review"
    by (simp add: review_run_def ex_review_def)
  then have "length (rp_calls (review_run ex_parse (ex_review_events @ [RunReview]) (review_opened (Some ''o1'')))) = 1"
    using ex_review_accepted by (auto simp: ex_review_fields submit_review_def)
  with review_calls_sound [OF zod_ex, of "Some ''o1''" "ex_review_events @ [RunReview]"]
  show ?thesis by (auto simp: length_Suc_conv)
qed

text \<open>Packs chosen for one organization go along with another, and with none.\<close>

lemma review_packs_cross_organizations:
  "js_prop (review_body (review_step ex_parse (ReviewOrganization (Some ''o2'') [''q1'']) ex_review) v) ''organization_id''
     = Some (JStr ''o2'')"
  "rp_policy_pack_ids (review_step ex_parse (ReviewOrganization (Some ''o2'') [''q1'']) ex_review) = [''p2'']"
  "rp_includePolicies (review_step ex_parse (ReviewOrganization None []) ex_review)"
  by (simp_all add: ex_review_fields review_body_def null_or_string_def js_prop_def [of "JObj _"] map_of_passed_on del: map_of_append)

end
