(* ===== verification/Paging.thy ===== *)
theory Paging
  imports Ui_Actions
begin

text \<open>
  components/data-display/data-table.tsx: the pager under a table, and what the pages with a pager
  rely on.  The locale \<open>pager\<close> is the contract of a pair of buttons that move over a list of rows
  in steps of one page; inside it, pressing Next from the first page until the button is disabled
  is proved to end and to show every row once, in order.
\<close>

section \<open>What a page has of its list\<close>

text \<open>The first load, a failure, or a page of the list.\<close>

datatype 'a query_state = Loading | LoadFailed js_exn | Loaded 'a

definition query_data :: "'a query_state \<Rightarrow> 'a option" where
  "query_data q = (case q of Loaded d \<Rightarrow> Some d | _ \<Rightarrow> None)"

section \<open>The contract\<close>

text \<open>The pages seen by pressing Next while it is enabled, \<open>fuel\<close> of them at most.\<close>

fun pages_seen :: "('s \<Rightarrow> 's option) \<Rightarrow> nat \<Rightarrow> 's \<Rightarrow> 's list" where
  "pages_seen step 0 s = []"
| "pages_seen step (Suc fuel) s = s # (case step s of None \<Rightarrow> [] | Some t \<Rightarrow> pages_seen step fuel t)"

lemma pages_seen_ne: "0 < n \<Longrightarrow> pages_seen f n s \<noteq> []"
  by (cases n) simp_all

lemma pages_seen_cong:
  assumes "P s" and "\<And>t. P t \<Longrightarrow> f t = g t" and "\<And>t u. P t \<Longrightarrow> g t = Some u \<Longrightarrow> P u"
  shows "pages_seen f n s = pages_seen g n s \<and> (\<forall>t\<in>set (pages_seen g n s). P t)"
  using assms(1)
proof (induction n arbitrary: s)
  case (Suc n)
  have same: "f s = g s" using assms(2) [OF Suc.prems] .
  show ?case
  proof (cases "g s")
    case None
    with same Suc.prems show ?thesis by simp
  next
    case (Some u)
    from Suc.IH [OF assms(3) [OF Suc.prems Some]] same Some Suc.prems show ?thesis by simp
  qed
qed simp

text \<open>The rows of a page that starts at an offset.\<close>

definition rows_at :: "int \<Rightarrow> int \<Rightarrow> 'r list \<Rightarrow> 'r list" where
  "rows_at limit offset rows = take (nat limit) (drop (nat offset) rows)"

locale pager =
  fixes starts :: "'s \<Rightarrow> int" and page_size :: int
    and next_page :: "int \<Rightarrow> 's \<Rightarrow> 's option" and previous_page :: "'s \<Rightarrow> 's option"
  assumes size_pos: "0 < page_size"
    and next_some: "0 \<le> starts s \<Longrightarrow> next_page n s = Some t \<Longrightarrow> starts t = starts s + page_size \<and> starts t < n"
    and next_none: "0 \<le> starts s \<Longrightarrow> next_page n s = None \<Longrightarrow> n \<le> starts s + page_size"
    and previous_some: "0 \<le> starts s \<Longrightarrow> previous_page s = Some t \<Longrightarrow> starts t = max 0 (starts s - page_size)"
    and previous_none: "0 \<le> starts s \<Longrightarrow> previous_page s = None \<longleftrightarrow> starts s = 0"
begin

lemma seen_rows:
  assumes "0 \<le> starts s" "length rows \<le> nat (starts s) + nat page_size * fuel" "0 < fuel"
  shows "concat (map (\<lambda>t. rows_at page_size (starts t) rows) (pages_seen (next_page (int (length rows))) fuel s))
      = drop (nat (starts s)) rows"
  using assms
proof (induction fuel arbitrary: s)
  case (Suc fuel)
  show ?case
  proof (cases "next_page (int (length rows)) s")
    case None
    from next_none [OF Suc.prems(1) None] have "length rows - nat (starts s) \<le> nat page_size" by linarith
    with None show ?thesis by (simp add: rows_at_def)
  next
    case (Some t)
    from next_some [OF Suc.prems(1) Some] have t: "starts t = starts s + page_size" "starts t < int (length rows)" by auto
    have nat_t: "nat (starts t) = nat (starts s) + nat page_size" using t(1) Suc.prems(1) size_pos by linarith
    have "0 \<le> starts t" using t(1) Suc.prems(1) size_pos by linarith
    moreover have enough: "length rows \<le> nat (starts t) + nat page_size * fuel" using Suc.prems(2) nat_t by simp
    moreover have "0 < fuel" using enough t(2) \<open>0 \<le> starts t\<close> by (cases fuel) auto
    ultimately have "concat (map (\<lambda>t. rows_at page_size (starts t) rows) (pages_seen (next_page (int (length rows))) fuel t))
      = drop (nat (starts t)) rows" by (rule Suc.IH)
    with Some nat_t show ?thesis
      by (simp add: rows_at_def add.commute flip: drop_drop)
  qed
qed simp

text \<open>The walk ends on a page whose Next is disabled, and no page of it is empty unless there are no rows.\<close>

lemma walk_ends:
  assumes "0 \<le> starts s" "n \<le> starts s + page_size * int fuel" "0 < fuel"
  shows "next_page n (List.last (pages_seen (next_page n) fuel s)) = None"
  using assms
proof (induction fuel arbitrary: s)
  case (Suc fuel)
  show ?case
  proof (cases "next_page n s")
    case (Some t)
    from next_some [OF Suc.prems(1) Some] have t: "starts t = starts s + page_size" "starts t < n" by auto
    have "0 \<le> starts t" using t(1) Suc.prems(1) size_pos by linarith
    moreover have enough: "n \<le> starts t + page_size * int fuel" using Suc.prems(2) t(1) by (simp add: algebra_simps)
    moreover have f: "0 < fuel" using enough t(2) by (cases fuel) auto
    ultimately have "next_page n (List.last (pages_seen (next_page n) fuel t)) = None" by (rule Suc.IH)
    with Some f show ?thesis by (cases fuel) auto
  qed simp
qed simp

lemma seen_nonempty:
  assumes "0 \<le> starts s" "starts s < int (length rows)"
  shows "\<forall>t\<in>set (pages_seen (next_page (int (length rows))) fuel s). rows_at page_size (starts t) rows \<noteq> []"
  using assms
proof (induction fuel arbitrary: s)
  case (Suc fuel)
  have "rows_at page_size (starts s) rows \<noteq> []" using Suc.prems size_pos by (auto simp: rows_at_def)
  moreover have "\<forall>t\<in>set (pages_seen (next_page (int (length rows))) fuel t). rows_at page_size (starts t) rows \<noteq> []"
    if "next_page (int (length rows)) s = Some t" for t
    using next_some [OF Suc.prems(1) that] size_pos Suc.prems(1) by (intro Suc.IH) linarith+
  ultimately show ?case by (cases "next_page (int (length rows)) s") auto
qed simp

text \<open>Previous undoes Next.\<close>

lemma previous_after_next:
  assumes "0 \<le> starts s" "next_page n s = Some t"
  shows "\<exists>u. previous_page t = Some u \<and> starts u = starts s"
proof -
  from next_some [OF assms] have t: "starts t = starts s + page_size" by simp
  with assms(1) size_pos have "0 \<le> starts t" "starts t \<noteq> 0" by linarith+
  then obtain u where u: "previous_page t = Some u" using previous_none by (cases "previous_page t") auto
  from previous_some [OF \<open>0 \<le> starts t\<close> u] t assms(1) have "starts u = starts s" by simp
  with u show ?thesis by blast
qed

end

section \<open>The pager of a table\<close>

record pagination =
  pg_pageIndex :: int
  pg_pageCount :: int
  pg_totalRows :: "int option"

text \<open>A button is \<open>None\<close> when it is disabled, otherwise the page \<open>onPageChange\<close> is called with.\<close>

definition previous_button :: "pagination \<Rightarrow> int option" where
  "previous_button p = (if pg_pageIndex p \<le> 0 then None else Some (max 0 (pg_pageIndex p - 1)))"

definition next_button :: "pagination \<Rightarrow> int option" where
  "next_button p =
     (if pg_pageIndex p \<ge> pg_pageCount p - 1 then None
      else Some (min (max (pg_pageCount p - 1) 0) (pg_pageIndex p + 1)))"

text \<open>\<open>Math.max(1, Math.ceil(total / PAGE_SIZE))\<close>\<close>

definition page_count :: "int \<Rightarrow> int \<Rightarrow> int" where
  "page_count l n = max 1 ((n + l - 1) div l)"

text \<open>The state of a page with a table is its \<open>pageIndex\<close>, \<open>onPageChange\<close> is \<open>setPageIndex\<close>.\<close>

definition table_pagination :: "int \<Rightarrow> int \<Rightarrow> int \<Rightarrow> pagination" where
  "table_pagination l n i = \<lparr>pg_pageIndex = i, pg_pageCount = page_count l n, pg_totalRows = Some n\<rparr>"

lemma index_last: "0 < l \<Longrightarrow> 0 \<le> i \<Longrightarrow> i \<ge> page_count l n - 1 \<longleftrightarrow> n \<le> (i + 1) * l"
proof -
  assume l: "0 < l" and i: "0 \<le> (i::int)"
  have "(n + l - 1) div l \<le> i + 1 \<longleftrightarrow> n \<le> (i + 1) * l"
  proof
    assume "(n + l - 1) div l \<le> i + 1"
    then have "(n + l - 1) div l * l \<le> (i + 1) * l" using l by (simp add: mult_right_mono)
    moreover have "(n + l - 1) - (n + l - 1) mod l = (n + l - 1) div l * l"
      by (simp add: minus_mod_eq_div_mult)
    moreover have "(n + l - 1) mod l \<le> l - 1" using pos_mod_bound [OF l, of "n + l - 1"] by linarith
    ultimately show "n \<le> (i + 1) * l" by linarith
  next
    assume "n \<le> (i + 1) * l"
    then have "(n + l - 1) div l \<le> ((i + 1) * l + (l - 1)) div l" using l by (intro zdiv_mono1) auto
    also have "\<dots> = i + 1" using l by (simp add: div_pos_pos_trivial)
    finally show "(n + l - 1) div l \<le> i + 1" .
  qed
  with i show ?thesis by (auto simp: page_count_def)
qed

text \<open>The table keeps the contract for every page size; the pages show 20 or 50 rows.\<close>

lemma table_pager:
  assumes "0 < l"
  shows "pager (\<lambda>i. l * i) l (\<lambda>n i. next_button (table_pagination l n i))
    (\<lambda>i. previous_button (table_pagination l m i))"
proof
  show "0 < l" by (rule assms)
next
  fix k s t :: int
  assume s: "0 \<le> l * s"
  with assms have i: "0 \<le> s" by (simp add: zero_le_mult_iff)
  show "l * t = l * s + l \<and> l * t < k" if "next_button (table_pagination l k s) = Some t"
  proof -
    from that have nl: "\<not> page_count l k - 1 \<le> s" and t: "t = min (max (page_count l k - 1) 0) (s + 1)"
      by (auto simp: next_button_def table_pagination_def split: if_splits)
    from nl t i have "t = s + 1" by (simp add: min_def max_def split: if_splits) 
    moreover have "\<not> k \<le> (s + 1) * l" using nl index_last [OF \<open>0 < l\<close> i] by simp
    ultimately show ?thesis by (simp add: algebra_simps)
  qed
  show "k \<le> l * s + l" if "next_button (table_pagination l k s) = None"
    using that index_last [OF \<open>0 < l\<close> i, of k]
    by (simp add: next_button_def table_pagination_def algebra_simps split: if_splits)
  show "l * t = max 0 (l * s - l)" if "previous_button (table_pagination l m s) = Some t"
    using that i \<open>0 < l\<close>
    by (auto simp: previous_button_def table_pagination_def algebra_simps max_def split: if_splits)
  show "previous_button (table_pagination l m s) = None \<longleftrightarrow> l * s = 0"
    using i \<open>0 < l\<close> by (auto simp: previous_button_def table_pagination_def)
qed

interpretation table20: pager "\<lambda>i. 20 * i" 20 "\<lambda>n i. next_button (table_pagination 20 n i)"
  "\<lambda>i. previous_button (table_pagination 20 m i)" for m
  by (rule table_pager) simp

interpretation table50: pager "\<lambda>i. 50 * i" 50 "\<lambda>n i. next_button (table_pagination 50 n i)"
  "\<lambda>i. previous_button (table_pagination 50 m i)" for m
  by (rule table_pager) simp

end
