(* ===== verification/Conversation_List.thy ===== *)
theory Conversation_List
  imports "HOL-Library.Multiset" Page_Contract Paging Feature_Hooks
begin

text \<open>
  components/chat/conversation-sidebar.tsx: the list of conversations, grouped by the day of their
  last change, with its filters, its pages and the deletion of a conversation.  Instants are
  milliseconds; \<open>stamp\<close> is \<open>new Date(s).getTime()\<close>.  The library date-fns is a parameter:
  \<open>parseISO\<close>, the number of the day an instant lies in for the user's time zone, and the instant a
  day starts, with the locale \<open>calendar\<close> as the law of the last two.
\<close>

section \<open>Groups\<close>

record listed_conversation =
  lc_id :: string
  lc_title :: string
  lc_provider :: string
  lc_updatedAt :: string

datatype date_label = Today | Yesterday | Previous7Days | Older

definition date_labels :: "date_label list" where
  "date_labels = [Today, Yesterday, Previous7Days, Older]"

definition label_of :: "(int \<Rightarrow> int) \<Rightarrow> (int \<Rightarrow> int) \<Rightarrow> int \<Rightarrow> int \<Rightarrow> date_label" where
  "label_of day startOfDay now t =
     (if day t = day now then Today
      else if day t = day now - 1 then Yesterday
      else if startOfDay (day now - 7) \<le> t then Previous7Days
      else Older)"

text \<open>The sort of the language is stable; the buckets are a map from labels to lists.\<close>

definition newest_first :: "(string \<Rightarrow> int) \<Rightarrow> listed_conversation list \<Rightarrow> listed_conversation list" where
  "newest_first stamp items = sort_key (\<lambda>x. - stamp (lc_updatedAt x)) items"

definition groupConversations ::
  "(string \<Rightarrow> int) \<Rightarrow> (string \<Rightarrow> int) \<Rightarrow> (int \<Rightarrow> int) \<Rightarrow> (int \<Rightarrow> int) \<Rightarrow> int \<Rightarrow> listed_conversation list
    \<Rightarrow> (date_label \<times> listed_conversation list) list" where
  "groupConversations stamp parseISO day startOfDay now items =
     (let buckets = fold (\<lambda>x m. let l = label_of day startOfDay now (parseISO (lc_updatedAt x)) in m(l := m l @ [x]))
                      (newest_first stamp items) (\<lambda>_. [])
      in filter (\<lambda>g. snd g \<noteq> []) (map (\<lambda>l. (l, buckets l)) date_labels))"

locale calendar =
  fixes day :: "int \<Rightarrow> int" and startOfDay :: "int \<Rightarrow> int"
  assumes start_iff: "startOfDay k \<le> t \<longleftrightarrow> k \<le> day t"
begin

lemma day_mono: "t \<le> u \<Longrightarrow> day t \<le> day u"
  using start_iff [of "day t" t] start_iff [of "day t" u] by simp

end

text \<open>The calendar of a zone with a fixed offset from UTC.\<close>

definition zone_day :: "int \<Rightarrow> int \<Rightarrow> int" where
  "zone_day offset t = (t + offset) div 86400000"

definition zone_start :: "int \<Rightarrow> int \<Rightarrow> int" where
  "zone_start offset k = k * 86400000 - offset"

lemma less_eq_div_iff_zone: "k * 86400000 - offset \<le> t \<longleftrightarrow> k \<le> (t + offset) div (86400000 :: int)"
proof
  assume "k * 86400000 - offset \<le> t"
  then have "k * 86400000 div 86400000 \<le> (t + offset) div 86400000" by (intro zdiv_mono1) auto
  then show "k \<le> (t + offset) div 86400000" by simp
next
  assume "k \<le> (t + offset) div 86400000"
  then have "k * 86400000 \<le> (t + offset) div 86400000 * 86400000" by (simp add: mult_right_mono)
  moreover have "(t + offset) div 86400000 * 86400000 \<le> t + offset"
    using pos_mod_sign [of 86400000 "t + offset"] by (simp add: minus_mod_eq_div_mult [symmetric])
  ultimately show "k * 86400000 - offset \<le> t" by linarith
qed

interpretation zone: calendar "zone_day offset" "zone_start offset" for offset
proof
  fix k t
  show "zone_start offset k \<le> t \<longleftrightarrow> k \<le> zone_day offset t"
    unfolding zone_start_def zone_day_def using less_eq_div_iff_zone by simp
qed

lemma bucket_filter:
  "fold (\<lambda>x m. let l = f x in m(l := m l @ [x])) xs m l = m l @ filter (\<lambda>x. f x = l) xs"
  by (induction xs arbitrary: m) (auto simp: Let_def)

text \<open>Consecutive classes of a list that is sorted by them give the list back.\<close>

lemma concat_classes:
  fixes r :: "'a \<Rightarrow> nat"
  assumes "sorted (map r xs)" and "\<forall>x\<in>set xs. r x < n"
  shows "concat (map (\<lambda>k. filter (\<lambda>x. r x = k) xs) [0..<n]) = xs"
  using assms
proof (induction xs)
  case Nil
  then show ?case by (induction n) auto
next
  case (Cons x xs)
  then have IH: "concat (map (\<lambda>k. filter (\<lambda>x. r x = k) xs) [0..<n]) = xs" by simp
  have lower: "filter (\<lambda>y. r y = k) xs = []" if "k < r x" for k
    using Cons.prems(1) that by (auto simp: filter_empty_conv)
  have split: "[0..<n] = [0..<r x] @ r x # [Suc (r x)..<n]"
    using Cons.prems(2) upt_add_eq_append [of 0 "r x" "n - r x"] upt_conv_Cons [of "r x" n] by simp
  have "concat (map (\<lambda>k. filter (\<lambda>y. r y = k) (x # xs)) [0..<n])
      = concat (map (\<lambda>k. filter (\<lambda>y. r y = k) xs) [0..<r x])
        @ (x # filter (\<lambda>y. r y = r x) xs) @ concat (map (\<lambda>k. filter (\<lambda>y. r y = k) xs) [Suc (r x)..<n])"
    unfolding split by (auto intro!: arg_cong [where f = concat] map_cong arg_cong2 [where f = append])
  moreover have "concat (map (\<lambda>k. filter (\<lambda>y. r y = k) xs) [0..<r x]) = []" using lower by auto
  moreover have "xs = filter (\<lambda>y. r y = r x) xs @ concat (map (\<lambda>k. filter (\<lambda>y. r y = k) xs) [Suc (r x)..<n])"
    using IH calculation(2) unfolding split by simp
  ultimately show ?case by simp
qed

section \<open>The groups and the order\<close>

definition rank :: "date_label \<Rightarrow> nat" where
  "rank l = (case l of Today \<Rightarrow> 0 | Yesterday \<Rightarrow> 1 | Previous7Days \<Rightarrow> 2 | Older \<Rightarrow> 3)"

lemma rank_inj: "rank a = rank b \<longleftrightarrow> a = b"
  by (cases a; cases b) (simp_all add: rank_def)

lemma rank_less: "rank l < 4"
  by (cases l) (simp_all add: rank_def)

context calendar
begin

lemma rank_antimono:
  assumes "u \<le> t" and "day t \<le> day now"
  shows "rank (label_of day startOfDay now t) \<le> rank (label_of day startOfDay now u)"
proof -
  have "day u \<le> day t" using assms(1) by (rule day_mono)
  with assms show ?thesis by (auto simp: label_of_def rank_def)
qed

lemma ranks_sorted:
  assumes "sorted (map (\<lambda>x. - f x) xs)" and "\<forall>x\<in>set xs. day (f x) \<le> day now"
  shows "sorted (map (\<lambda>x. rank (label_of day startOfDay now (f x))) xs)"
  using assms
proof (induction xs)
  case (Cons x xs)
  then show ?case by (auto intro!: rank_antimono)
qed simp

end

lemma labels_upt: "map rank date_labels = [0..<4]" by code_simp

lemma groups_concat:
  "concat (map snd (filter (\<lambda>g. snd g \<noteq> []) (map (\<lambda>l. (l, b l)) date_labels))) = concat (map b date_labels)"
  by (auto simp: date_labels_def)

lemma labels_concat:
  "concat (map (\<lambda>l. filter (\<lambda>x. f x = l) xs) date_labels) = concat (map (\<lambda>k. filter (\<lambda>x. rank (f x) = k) xs) [0..<4])"
proof -
  have "concat (map (\<lambda>l. filter (\<lambda>x. f x = l) xs) date_labels)
      = concat (map (\<lambda>k. filter (\<lambda>x. rank (f x) = k) xs) (map rank date_labels))"
    by (simp add: rank_inj comp_def)
  then show ?thesis by (simp add: labels_upt)
qed

lemma groups_unfold:
  "groupConversations stamp parseISO day startOfDay now items =
     filter (\<lambda>g. snd g \<noteq> []) (map (\<lambda>l. (l, filter (\<lambda>x. label_of day startOfDay now (parseISO (lc_updatedAt x)) = l)
       (newest_first stamp items))) date_labels)"
  by (simp add: groupConversations_def bucket_filter)

lemma labels_strict: "sorted_wrt (\<lambda>g h. rank (fst g) < rank (fst h)) (filter P (map (\<lambda>l. (l, b l)) date_labels))"
  by (rule sorted_wrt_filter) (simp add: date_labels_def rank_def)

text \<open>C22: the sidebar shows each conversation once, newest first: read from top to bottom, the groups
  are the stable sort of the conversations by the instant of their last change; no group is empty,
  the headings stand in the order Today, Yesterday, Previous 7 days, Older without repetition, and
  each conversation stands under the heading of its day.  The clock of the browser is assumed not
  to be behind a change by a day, and both ways of reading a date to agree.\<close>

theorem groups_in_order:
  assumes "calendar day startOfDay"
    and "\<forall>x\<in>set items. parseISO (lc_updatedAt x) = stamp (lc_updatedAt x)"
    and "\<forall>x\<in>set items. day (stamp (lc_updatedAt x)) \<le> day now"
  defines gs: "gs \<equiv> groupConversations stamp parseISO day startOfDay now items"
  shows "concat (map snd gs) = newest_first stamp items \<and> mset (concat (map snd gs)) = mset items
    \<and> sorted_wrt (\<lambda>g h. rank (fst g) < rank (fst h)) gs
    \<and> (\<forall>g\<in>set gs. snd g \<noteq> [] \<and> (\<forall>x\<in>set (snd g). label_of day startOfDay now (parseISO (lc_updatedAt x)) = fst g))"
proof -
  let ?l = "\<lambda>x. label_of day startOfDay now (parseISO (lc_updatedAt x))"
  let ?xs = "newest_first stamp items"
  have set_xs: "set ?xs = set items" by (simp add: newest_first_def)
  have same: "map (\<lambda>x. rank (?l x)) ?xs = map (\<lambda>x. rank (label_of day startOfDay now (stamp (lc_updatedAt x)))) ?xs"
    using assms(2) set_xs by simp
  have "sorted (map (\<lambda>x. - stamp (lc_updatedAt x)) ?xs)" by (simp add: newest_first_def)
  then have sorted: "sorted (map (\<lambda>x. rank (?l x)) ?xs)"
    unfolding same using assms(3) set_xs by (intro calendar.ranks_sorted [OF assms(1)]) simp_all
  have "concat (map snd gs) = ?xs"
    unfolding gs groups_unfold groups_concat labels_concat
    by (rule concat_classes [OF sorted]) (simp add: rank_less)
  moreover have "mset ?xs = mset items" by (simp add: newest_first_def)
  ultimately show ?thesis
    unfolding gs groups_unfold using labels_strict by auto
qed

text \<open>Four conversations and a clock in UTC: today, a week ago, last month, yesterday.\<close>

definition ex_stamp :: "string \<Rightarrow> int" where
  "ex_stamp t = (if t = ''a'' then 864000000 else if t = ''b'' then 345600000 else if t = ''c'' then 5
     else 799999999)"

definition ex_conversations :: "listed_conversation list" where
  "ex_conversations = map (\<lambda>t. \<lparr>lc_id = t, lc_title = t, lc_provider = ''gemini'', lc_updatedAt = t\<rparr>)
     [''c'', ''a'', ''b'', ''d'']"

lemma ex_groups: "map (\<lambda>g. (fst g, map lc_id (snd g)))
    (groupConversations ex_stamp ex_stamp (zone_day 0) (zone_start 0) 864000007 ex_conversations)
   = [(Today, [''a'']), (Yesterday, [''d'']), (Previous7Days, [''b'']), (Older, [''c''])]"
  by code_simp

lemma groups_in_order_witness:
  "concat (map snd (groupConversations ex_stamp ex_stamp (zone_day 0) (zone_start 0) 864000007 ex_conversations))
     = newest_first ex_stamp ex_conversations
   \<and> map lc_id (newest_first ex_stamp ex_conversations) = [''a'', ''d'', ''b'', ''c'']"
proof
  have "\<forall>x\<in>set ex_conversations. zone_day 0 (ex_stamp (lc_updatedAt x)) \<le> zone_day 0 864000007" by code_simp
  with groups_in_order [where parseISO = ex_stamp and stamp = ex_stamp and now = 864000007, OF zone.calendar_axioms]
  show "concat (map snd (groupConversations ex_stamp ex_stamp (zone_day 0) (zone_start 0) 864000007 ex_conversations))
     = newest_first ex_stamp ex_conversations" by blast
  show "map lc_id (newest_first ex_stamp ex_conversations) = [''a'', ''d'', ''b'', ''c'']" by code_simp
qed

text \<open>When the clock of the browser is behind the server across midnight, the conversation just
  changed goes to the days before yesterday, under the older ones of today.\<close>

lemma slow_clock_misplaces:
  "map (\<lambda>g. (fst g, map lc_id (snd g)))
     (groupConversations ex_stamp ex_stamp (zone_day 0) (zone_start 0) 863999999 ex_conversations)
   = [(Today, [''d'']), (Previous7Days, [''a'', ''b'']), (Older, [''c''])]"
  by code_simp

section \<open>The sidebar\<close>

text \<open>\<open>sb_deleting\<close> is the conversation of the deletion that is pending, if one is; the success of a
  deletion includes the refetch of the list that its callback waits for.\<close>

record sidebar =
  sb_search :: string
  sb_debouncedSearch :: string
  sb_timer :: "string option"
  sb_provider :: string
  sb_offset :: int
  sb_pendingDeleteId :: "string option"
  sb_deleting :: "string option"
  sb_calls :: "api_call list"
  sb_notices :: "notice list"
  sb_pushed :: "string list"

definition sidebar_opened :: sidebar where
  "sidebar_opened =
     \<lparr>sb_search = [], sb_debouncedSearch = [], sb_timer = Some [], sb_provider = ''all'', sb_offset = 0,
      sb_pendingDeleteId = None, sb_deleting = None, sb_calls = [], sb_notices = [], sb_pushed = []\<rparr>"

definition sidebar_filters :: "string option \<Rightarrow> sidebar \<Rightarrow> filters" where
  "sidebar_filters organizationId s =
     [(''limit'', QInt 30), (''offset'', QInt (sb_offset s)),
      (''search'', if sb_debouncedSearch s \<noteq> [] then QStr (sb_debouncedSearch s) else QUndef),
      (''provider'', if sb_provider s = ''all'' then QUndef else QStr (sb_provider s)),
      (''organization_id'', case organizationId of Some i \<Rightarrow> QStr i | None \<Rightarrow> QNull),
      (''sort_by'', QStr ''updated_at''), (''sort_order'', QStr ''desc'')]"

definition sidebar_query :: "string option \<Rightarrow> sidebar \<Rightarrow> hook_query" where
  "sidebar_query organizationId s = conversationsQuery (sidebar_filters organizationId s)"

text \<open>A page of the list as the query has it.\<close>

record conversation_data =
  cd_items :: "listed_conversation list"
  cd_total :: int
  cd_limit :: int

text \<open>The buttons of the sidebar; \<open>None\<close> when disabled, otherwise the state after the click.\<close>

definition sidebar_previous :: "bool \<Rightarrow> sidebar \<Rightarrow> sidebar option" where
  "sidebar_previous isFetching s =
     (if sb_offset s = 0 \<or> isFetching then None else Some (s\<lparr>sb_offset := max 0 (sb_offset s - 30)\<rparr>))"

definition sidebar_next :: "bool \<Rightarrow> conversation_data option \<Rightarrow> sidebar \<Rightarrow> sidebar option" where
  "sidebar_next isFetching data s =
     (case data of
        None \<Rightarrow> None
      | Some d \<Rightarrow> if sb_offset s + cd_limit d \<ge> cd_total d \<or> isFetching then None
                  else Some (s\<lparr>sb_offset := sb_offset s + 30\<rparr>))"

text \<open>What is shown below the filters.\<close>

datatype sidebar_body =
    Skeletons
  | LoadError string
  | NoConversations string
  | Groups "(date_label \<times> listed_conversation list) list" bool "int \<times> int \<times> int" bool

definition load_error_text :: "js_exn \<Rightarrow> string" where
  "load_error_text e =
     (case e of
        ApiClientErr x \<Rightarrow>
          ae_message x
          @ (case ae_retryAfter x of Some n \<Rightarrow> '' Try again in '' @ show_rat n @ ''s.'' | None \<Rightarrow> [])
          @ (case ae_requestId x of Some i \<Rightarrow> if i \<noteq> [] then '' (Request ID: '' @ i @ '')'' else [] | None \<Rightarrow> [])
      | _ \<Rightarrow> ''Could not load conversations.'')"

text \<open>The numbers of the first and the last row shown and of the rows there are.\<close>

definition pager_text :: "int \<Rightarrow> int \<Rightarrow> int \<times> int \<times> int" where
  "pager_text offset n = (offset + 1, min (offset + 30) n, n)"

definition sidebar_body_of ::
  "(listed_conversation list \<Rightarrow> (date_label \<times> listed_conversation list) list) \<Rightarrow> bool
    \<Rightarrow> conversation_data query_state \<Rightarrow> sidebar \<Rightarrow> sidebar_body" where
  "sidebar_body_of grouped isFetching q s =
     (case q of
        Loading \<Rightarrow> Skeletons
      | LoadFailed e \<Rightarrow> LoadError (load_error_text e)
      | Loaded d \<Rightarrow>
          (if grouped (cd_items d) = [] then
             NoConversations (if js_trim (sb_search s) \<noteq> [] then ''No conversations match your search.''
                              else ''Start a new chat to see it listed here.'')
           else Groups (grouped (cd_items d)) (sidebar_previous isFetching s \<noteq> None)
                  (pager_text (sb_offset s) (cd_total d)) (sidebar_next isFetching (Some d) s \<noteq> None)))"

text \<open>The events.  A press is one of a button that is shown; \<open>DeleteAnswered\<close> has the page the user
  is on when the callback runs.\<close>

datatype sidebar_event =
    TypeConversationSearch string
  | SearchSettled
  | ChooseProvider string
  | PressPrevious bool
  | PressNext bool "conversation_data option"
  | AskDelete string
  | CloseDelete
  | ConfirmDelete
  | DeleteAnswered string "js_exn option"

definition delete_succeeded :: "string \<Rightarrow> string \<Rightarrow> sidebar \<Rightarrow> sidebar" where
  "delete_succeeded pathname conversationId s =
     (let s1 = s\<lparr>sb_notices := sb_notices s @ [Success ''Conversation deleted'']\<rparr>;
          s2 = (if pathname = ''/chat/'' @ conversationId then s1\<lparr>sb_pushed := sb_pushed s1 @ [''/chat'']\<rparr> else s1)
      in s2\<lparr>sb_pendingDeleteId := None\<rparr>)"

fun sidebar_step :: "sidebar_event \<Rightarrow> sidebar \<Rightarrow> sidebar" where
  "sidebar_step (TypeConversationSearch t) s =
     s\<lparr>sb_search := t, sb_offset := 0, sb_timer := (if t = sb_search s then sb_timer s else Some t)\<rparr>"
| "sidebar_step SearchSettled s =
     (case sb_timer s of Some t \<Rightarrow> s\<lparr>sb_debouncedSearch := t, sb_timer := None\<rparr> | None \<Rightarrow> s)"
| "sidebar_step (ChooseProvider p) s = s\<lparr>sb_provider := p, sb_offset := 0\<rparr>"
| "sidebar_step (PressPrevious isFetching) s = (case sidebar_previous isFetching s of Some t \<Rightarrow> t | None \<Rightarrow> s)"
| "sidebar_step (PressNext isFetching data) s = (case sidebar_next isFetching data s of Some t \<Rightarrow> t | None \<Rightarrow> s)"
| "sidebar_step (AskDelete i) s = s\<lparr>sb_pendingDeleteId := Some i\<rparr>"
| "sidebar_step CloseDelete s = s\<lparr>sb_pendingDeleteId := None\<rparr>"
| "sidebar_step ConfirmDelete s =
     (case sb_pendingDeleteId s of
        Some i \<Rightarrow> if sb_deleting s = None \<and> i \<noteq> []
                   then s\<lparr>sb_deleting := Some i, sb_calls := sb_calls s @ [deleteConversation i]\<rparr> else s
      | None \<Rightarrow> s)"
| "sidebar_step (DeleteAnswered pathname failed) s =
     (case sb_deleting s of
        None \<Rightarrow> s
      | Some i \<Rightarrow>
          (case failed of
             None \<Rightarrow> delete_succeeded pathname i (s\<lparr>sb_deleting := None\<rparr>)
           | Some e \<Rightarrow> s\<lparr>sb_deleting := None,
                 sb_notices := sb_notices s @ [Failure (error_text e ''Could not delete conversation'')]\<rparr>))"

section \<open>Deletions\<close>

definition sidebar_call_ok :: "sidebar \<Rightarrow> sidebar_event \<Rightarrow> api_call \<Rightarrow> bool" where
  "sidebar_call_ok s ev c =
     (ev = ConfirmDelete \<and> sb_deleting s = None
      \<and> (\<exists>i. sb_pendingDeleteId s = Some i \<and> i \<noteq> [] \<and> c = deleteConversation i))"

definition sidebar_kept :: "sidebar \<Rightarrow> bool" where
  "sidebar_kept s = (0 \<le> sb_offset s \<and> sb_offset s mod 30 = 0)"

lemma sidebar_kept_step: "sidebar_kept s \<Longrightarrow> sidebar_kept (sidebar_step ev s)"
proof (cases ev)
  case (PressPrevious b)
  assume kept: "sidebar_kept s"
  then have "30 dvd sb_offset s" by (auto simp: sidebar_kept_def)
  with kept PressPrevious show ?thesis
    by (auto simp: sidebar_kept_def sidebar_previous_def max_def mod_eq_0_iff_dvd)
next
  case (DeleteAnswered p f)
  then show "sidebar_kept s \<Longrightarrow> ?thesis"
    by (auto simp: sidebar_kept_def delete_succeeded_def Let_def split: option.split)
qed (auto simp: sidebar_kept_def sidebar_next_def split: option.split)

lemma sidebar_calls_step:
  "\<exists>new. sb_calls (sidebar_step ev s) = sb_calls s @ new \<and> length new \<le> 1 \<and> list_all (sidebar_call_ok s ev) new"
proof (cases "ev = ConfirmDelete")
  case True
  then show ?thesis by (auto simp: sidebar_call_ok_def split: option.split)
next
  case False
  then have "sb_calls (sidebar_step ev s) = sb_calls s"
    by (cases ev) (auto simp: sidebar_previous_def sidebar_next_def delete_succeeded_def Let_def split: option.split)
  then show ?thesis by (intro exI [of _ "[]"]) simp
qed

interpretation sidebar: guarded_page sidebar_step sb_calls sidebar_kept sidebar_call_ok
  by unfold_locales (rule sidebar_kept_step, assumption, rule sidebar_calls_step)

text \<open>The sidebar deletes nothing by itself: whatever was typed, chosen and pressed since it was
  opened, every deletion sent was the confirmation of the dialog for that conversation, at a
  moment when no other deletion was pending; and the page shown always starts at a multiple of 30.\<close>

theorem deletions_are_confirmed:
  "list_all (justified sidebar_step sidebar_call_ok sidebar_opened es) (sb_calls (fold sidebar_step es sidebar_opened))
    \<and> sidebar_kept (fold sidebar_step es sidebar_opened)"
  using sidebar.session_justified [of sidebar_opened es] sidebar.kept_run [of sidebar_opened es]
  by (simp add: sidebar_opened_def sidebar_kept_def)

text \<open>The dialog can be left while the deletion is pending, and another one opened; the answer of the
  first closes the second, whose conversation is not deleted.\<close>

lemma answer_closes_other_dialog:
  "let s = fold sidebar_step [AskDelete ''a'', ConfirmDelete, CloseDelete, AskDelete ''b'', DeleteAnswered ''/'' None]
        sidebar_opened
   in sb_pendingDeleteId s = None \<and> sb_calls s = [deleteConversation ''a'']"
  by (simp add: sidebar_opened_def delete_succeeded_def Let_def)

section \<open>Pages of the list\<close>

abbreviation sidebar_data :: "int \<Rightarrow> conversation_data" where
  "sidebar_data n \<equiv> \<lparr>cd_items = [], cd_total = n, cd_limit = 30\<rparr>"

interpretation sidebar_pages: pager sb_offset 30 "\<lambda>n. sidebar_next False (Some (sidebar_data n))" "sidebar_previous False"
  by unfold_locales (auto simp: sidebar_next_def sidebar_previous_def split: if_splits)

text \<open>The backend answers with a slice of the conversations that fit the other filters.\<close>

definition serves_list ::
  "(filters \<Rightarrow> conversation_data) \<Rightarrow> string option \<Rightarrow> sidebar \<Rightarrow> listed_conversation list \<Rightarrow> bool" where
  "serves_list answer organizationId s rows =
     (\<forall>k. answer (sidebar_filters organizationId (s\<lparr>sb_offset := k\<rparr>)) =
        \<lparr>cd_items = rows_at 30 k rows, cd_total = int (length rows), cd_limit = 30\<rparr>)"

lemma served_walk:
  fixes s :: sidebar
  assumes "serves_list answer organizationId s rows"
  defines step: "step \<equiv> (\<lambda>t. sidebar_next False (Some (answer (sidebar_filters organizationId t))) t)"
  shows "pages_seen step fuel s = pages_seen (sidebar_next False (Some (sidebar_data (int (length rows))))) fuel s
    \<and> (\<forall>t\<in>set (pages_seen step fuel s). cd_items (answer (sidebar_filters organizationId t)) = rows_at 30 (sb_offset t) rows
      \<and> step t = sidebar_next False (Some (sidebar_data (int (length rows)))) t)"
proof -
  let ?P = "\<lambda>t. t = s\<lparr>sb_offset := sb_offset t\<rparr>"
  have answer: "answer (sidebar_filters organizationId t) =
      \<lparr>cd_items = rows_at 30 (sb_offset t) rows, cd_total = int (length rows), cd_limit = 30\<rparr>" if "?P t" for t
    using assms(1) that by (metis serves_list_def)
  have same: "step t = sidebar_next False (Some (sidebar_data (int (length rows)))) t" if "?P t" for t
    using answer [OF that] by (simp add: step sidebar_next_def)
  have "pages_seen step fuel s = pages_seen (sidebar_next False (Some (sidebar_data (int (length rows))))) fuel s
    \<and> (\<forall>t\<in>set (pages_seen (sidebar_next False (Some (sidebar_data (int (length rows))))) fuel s). ?P t)"
  proof (rule pages_seen_cong)
    show "step t = sidebar_next False (Some (sidebar_data (int (length rows)))) t" if "?P t" for t
      using that by (rule same)
    show "?P u" if "?P t" and "sidebar_next False (Some (sidebar_data (int (length rows)))) t = Some u" for t u
    proof -
      have "u = t\<lparr>sb_offset := sb_offset t + 30\<rparr>" using that(2) by (auto simp: sidebar_next_def split: if_splits)
      then have "u = s\<lparr>sb_offset := sb_offset t + 30\<rparr>" by (subst (asm) that(1)) simp
      then show ?thesis by simp
    qed
  qed simp
  with answer same show ?thesis by auto
qed

text \<open>C23: every conversation can be reached: from the first page, pressing Next until it is disabled
  shows each conversation that fits the filters exactly once and in the order of the backend; it
  ends within one press per 30 conversations, on a page whose Next is disabled, and none of the
  pages on the way is empty.\<close>

theorem sidebar_reaches_every_conversation:
  assumes "serves_list answer organizationId s rows" and "sb_offset s = 0"
    and "length rows \<le> 30 * fuel" and "0 < fuel"
  defines step: "step \<equiv> (\<lambda>t. sidebar_next False (Some (answer (sidebar_filters organizationId t))) t)"
  shows "concat (map (\<lambda>t. cd_items (answer (sidebar_filters organizationId t))) (pages_seen step fuel s)) = rows
    \<and> step (List.last (pages_seen step fuel s)) = None
    \<and> (rows = [] \<or> list_all (\<lambda>t. cd_items (answer (sidebar_filters organizationId t)) \<noteq> []) (pages_seen step fuel s))"
proof -
  let ?next = "sidebar_next False (Some (sidebar_data (int (length rows))))"
  from served_walk [OF assms(1), where fuel = fuel]
  have seen: "pages_seen step fuel s = pages_seen ?next fuel s"
    and items: "\<And>t. t \<in> set (pages_seen ?next fuel s) \<Longrightarrow> cd_items (answer (sidebar_filters organizationId t)) = rows_at 30 (sb_offset t) rows"
    and last_step: "\<And>t. t \<in> set (pages_seen ?next fuel s) \<Longrightarrow> step t = ?next t"
    by (auto simp: step)
  have "concat (map (\<lambda>t. cd_items (answer (sidebar_filters organizationId t))) (pages_seen ?next fuel s))
      = concat (map (\<lambda>t. rows_at 30 (sb_offset t) rows) (pages_seen ?next fuel s))"
    using items by (metis (no_types, lifting) map_cong)
  also have "\<dots> = rows" using sidebar_pages.seen_rows [of s rows fuel] assms(2-4) by simp
  finally have "concat (map (\<lambda>t. cd_items (answer (sidebar_filters organizationId t))) (pages_seen ?next fuel s)) = rows" .
  moreover have "step (List.last (pages_seen ?next fuel s)) = None"
    using last_step [OF last_in_set [OF pages_seen_ne [OF assms(4)]]]
      sidebar_pages.walk_ends [of s "int (length rows)" fuel] assms(2-4) by simp
  moreover have "rows = [] \<or> list_all (\<lambda>t. rows_at 30 (sb_offset t) rows \<noteq> []) (pages_seen ?next fuel s)"
    using sidebar_pages.seen_nonempty [of s rows fuel] assms(2) by (auto simp: list_all_iff)
  ultimately show ?thesis unfolding seen using items by (auto simp: list_all_iff)
qed

definition ex_answer :: "filters \<Rightarrow> conversation_data" where
  "ex_answer f = (case param f ''offset'' of
     QInt k \<Rightarrow> \<lparr>cd_items = rows_at 30 k (replicate 31 (ex_conversations ! 0)), cd_total = 31, cd_limit = 30\<rparr>
   | _ \<Rightarrow> sidebar_data 0)"

lemma sidebar_reaches_every_conversation_witness:
  "concat (map (\<lambda>t. cd_items (ex_answer (sidebar_filters None t)))
     (pages_seen (\<lambda>t. sidebar_next False (Some (ex_answer (sidebar_filters None t))) t) 2 sidebar_opened))
   = replicate 31 (ex_conversations ! 0)"
proof -
  have "serves_list ex_answer None sidebar_opened (replicate 31 (ex_conversations ! 0))"
    by (simp add: serves_list_def ex_answer_def sidebar_filters_def param_def)
  from sidebar_reaches_every_conversation [OF this, of 2] show ?thesis by (simp add: sidebar_opened_def)
qed

text \<open>A page that has become empty, its last conversation deleted or the organization changed, hides
  the buttons: the sidebar says there are no conversations although there are 30.\<close>

lemma empty_page_strands:
  assumes "length rows = 30"
  shows "sidebar_body_of (groupConversations stamp parseISO day startOfDay now) isFetching
      (Loaded \<lparr>cd_items = rows_at 30 30 rows, cd_total = 30, cd_limit = 30\<rparr>) (sidebar_opened\<lparr>sb_offset := 30\<rparr>)
    = NoConversations ''Start a new chat to see it listed here.''"
proof -
  have "js_trim [] = []" by code_simp
  then show ?thesis using assms
    by (simp add: sidebar_body_of_def rows_at_def groups_unfold newest_first_def date_labels_def sidebar_opened_def)
qed

text \<open>Next pressed before the search has settled moves the old list; the new one starts at row 31.\<close>

lemma hasty_next_skips_results:
  "let s = fold sidebar_step [TypeConversationSearch ''x'', PressNext False (Some (sidebar_data 60)), SearchSettled] sidebar_opened
   in sb_debouncedSearch s = ''x'' \<and> sb_offset s = 30"
  by (simp add: sidebar_opened_def sidebar_next_def)

end
