(* ===== verification/Task_Audit.thy ===== *)
theory Task_Audit
  imports Page_Contract Paging Feature_Rules Feature_Hooks Text_Utils
begin

text \<open>
  components/tasks/tasks-page.tsx and components/audit/audit-page.tsx: two lists with filters and a
  table with a pager.  The tasks page also cancels tasks: the button of a row opens a dialog, the
  dialog sends the call.
\<close>

section \<open>What a page with a table shows\<close>

record 'r page_data =
  pd_items :: "'r list"
  pd_total :: int

datatype 'r table_page =
    ShowLoading
  | ShowError string "string option"
  | ShowDenied
  | ShowEmpty
  | ShowTable "'r list" pagination

definition error_shown :: "js_exn \<Rightarrow> string \<Rightarrow> 'r table_page" where
  "error_shown e fallback =
     ShowError (error_text e fallback) (case e of ApiClientErr x \<Rightarrow> ae_requestId x | _ \<Rightarrow> None)"

definition table_shown :: "int \<Rightarrow> int \<Rightarrow> 'r page_data \<Rightarrow> 'r table_page" where
  "table_shown l pageIndex d =
     (if pd_items d = [] then ShowEmpty else ShowTable (pd_items d) (table_pagination l (pd_total d) pageIndex))"

section \<open>Tasks\<close>

definition TASKS_PAGE_SIZE :: int where "TASKS_PAGE_SIZE = 20"

record task_summary =
  ts_id :: string
  ts_task_type :: string
  ts_status :: string
  ts_progress :: int

record tasks_page =
  tk_role :: "OrgRole option"
  tk_pageIndex :: int
  tk_status :: string
  tk_taskType :: string
  tk_selectedTaskId :: "string option"
  tk_cancelTaskId :: "string option"
  tk_cancelling :: "string list"
  tk_calls :: "api_call list"
  tk_notices :: "notice list"

definition tasks_opened :: "OrgRole option \<Rightarrow> tasks_page" where
  "tasks_opened role =
     \<lparr>tk_role = role, tk_pageIndex = 0, tk_status = ''all'', tk_taskType = [], tk_selectedTaskId = None,
      tk_cancelTaskId = None, tk_cancelling = [], tk_calls = [], tk_notices = []\<rparr>"

definition or_null :: "string \<Rightarrow> qvalue" where
  "or_null v = (if v \<noteq> [] then QStr v else QNull)"

definition organization_value :: "string option \<Rightarrow> qvalue" where
  "organization_value i = (case i of Some s \<Rightarrow> QStr s | None \<Rightarrow> QNull)"

definition task_filters :: "string option \<Rightarrow> tasks_page \<Rightarrow> filters" where
  "task_filters organizationId s =
     [(''status'', if tk_status s = ''all'' then QNull else QStr (tk_status s)),
      (''task_type'', or_null (js_trim (tk_taskType s))),
      (''organization_id'', organization_value organizationId),
      (''limit'', QInt TASKS_PAGE_SIZE), (''offset'', QInt (tk_pageIndex s * TASKS_PAGE_SIZE))]"

definition tasks_query :: "string option \<Rightarrow> tasks_page \<Rightarrow> hook_query" where
  "tasks_query organizationId s = useTasks (task_filters organizationId s)"

definition task_detail_query :: "tasks_page \<Rightarrow> hook_query" where
  "task_detail_query s =
     (useTask (case tk_selectedTaskId s of Some i \<Rightarrow> i | None \<Rightarrow> []))
       \<lparr>hq_enabled := (case tk_selectedTaskId s of Some i \<Rightarrow> i \<noteq> [] | None \<Rightarrow> False)\<rparr>"

definition tasks_view :: "task_summary page_data query_state \<Rightarrow> tasks_page \<Rightarrow> task_summary table_page" where
  "tasks_view q s =
     (case q of
        Loading \<Rightarrow> ShowLoading
      | LoadFailed e \<Rightarrow> error_shown e ''Failed to load tasks''
      | Loaded d \<Rightarrow> table_shown TASKS_PAGE_SIZE (tk_pageIndex s) d)"

text \<open>Whether the row, or the sheet with the details, has the button.\<close>

definition cancel_offered :: "OrgRole option \<Rightarrow> task_summary \<Rightarrow> bool" where
  "cancel_offered role t = (isActiveTaskStatus (ts_status t) \<and> PermissionGate TaskCancel role)"

definition handleCancel :: "tasks_page \<Rightarrow> tasks_page" where
  "handleCancel s =
     (case tk_cancelTaskId s of
        None \<Rightarrow> s
      | Some i \<Rightarrow> if i = [] then s
                  else s\<lparr>tk_cancelling := tk_cancelling s @ [i], tk_calls := tk_calls s @ [cancelTask i]\<rparr>)"

definition cancel_answered :: "string \<Rightarrow> js_exn option \<Rightarrow> tasks_page \<Rightarrow> tasks_page" where
  "cancel_answered i failed s =
     (let s1 = s\<lparr>tk_cancelling := remove1 i (tk_cancelling s)\<rparr> in
      case failed of
        None \<Rightarrow> s1\<lparr>tk_notices := tk_notices s1 @ [Success ''Task cancelled''], tk_cancelTaskId := None\<rparr>
      | Some e \<Rightarrow> s1\<lparr>tk_notices := tk_notices s1 @ [Failure (error_text e ''Failed to cancel task'')]\<rparr>)"

datatype tasks_event =
    RoleChanged "OrgRole option"
  | SetStatus string
  | SetTaskType string
  | TablePrevious int
  | TableNext int
  | OpenTask string
  | CloseTask
  | AskCancel task_summary
  | CloseCancel
  | ConfirmCancel
  | CancelAnswered string "js_exn option"

text \<open>The dialog disables its button while a cancellation is pending.\<close>

fun tasks_step :: "tasks_event \<Rightarrow> tasks_page \<Rightarrow> tasks_page" where
  "tasks_step (RoleChanged r) s = s\<lparr>tk_role := r\<rparr>"
| "tasks_step (SetStatus v) s = s\<lparr>tk_status := v, tk_pageIndex := 0\<rparr>"
| "tasks_step (SetTaskType v) s = s\<lparr>tk_taskType := v, tk_pageIndex := 0\<rparr>"
| "tasks_step (TablePrevious n) s =
     (case previous_button (table_pagination TASKS_PAGE_SIZE n (tk_pageIndex s)) of Some i \<Rightarrow> s\<lparr>tk_pageIndex := i\<rparr> | None \<Rightarrow> s)"
| "tasks_step (TableNext n) s =
     (case next_button (table_pagination TASKS_PAGE_SIZE n (tk_pageIndex s)) of Some i \<Rightarrow> s\<lparr>tk_pageIndex := i\<rparr> | None \<Rightarrow> s)"
| "tasks_step (OpenTask i) s = s\<lparr>tk_selectedTaskId := Some i\<rparr>"
| "tasks_step CloseTask s = s\<lparr>tk_selectedTaskId := None\<rparr>"
| "tasks_step (AskCancel t) s = (if cancel_offered (tk_role s) t then s\<lparr>tk_cancelTaskId := Some (ts_id t)\<rparr> else s)"
| "tasks_step CloseCancel s = s\<lparr>tk_cancelTaskId := None\<rparr>"
| "tasks_step ConfirmCancel s = (if tk_cancelling s = [] then handleCancel s else s)"
| "tasks_step (CancelAnswered i failed) s = (if i \<in> set (tk_cancelling s) then cancel_answered i failed s else s)"

definition tasks_kept :: "tasks_page \<Rightarrow> bool" where
  "tasks_kept s = (0 \<le> tk_pageIndex s \<and> length (tk_cancelling s) \<le> 1)"

definition tasks_call_ok :: "tasks_page \<Rightarrow> tasks_event \<Rightarrow> api_call \<Rightarrow> bool" where
  "tasks_call_ok s ev c =
     (ev = ConfirmCancel \<and> tk_cancelling s = [] \<and> (\<exists>i. tk_cancelTaskId s = Some i \<and> i \<noteq> [] \<and> c = cancelTask i))"

lemma table_index_nonneg:
  "0 \<le> i \<Longrightarrow> previous_button (table_pagination l n i) = Some j \<Longrightarrow> 0 \<le> j"
  "0 \<le> i \<Longrightarrow> next_button (table_pagination l n i) = Some j \<Longrightarrow> 0 \<le> j"
  by (auto simp: previous_button_def next_button_def table_pagination_def split: if_splits)

lemma tasks_kept_step: "tasks_kept s \<Longrightarrow> tasks_kept (tasks_step ev s)"
  by (cases ev) (auto simp: tasks_kept_def handleCancel_def cancel_answered_def Let_def length_remove1
      dest: table_index_nonneg split: option.split)

lemma tasks_calls_step:
  "\<exists>new. tk_calls (tasks_step ev s) = tk_calls s @ new \<and> length new \<le> 1 \<and> list_all (tasks_call_ok s ev) new"
proof (cases "ev = ConfirmCancel")
  case True
  then show ?thesis by (auto simp: tasks_call_ok_def handleCancel_def split: option.split)
next
  case False
  then have "tk_calls (tasks_step ev s) = tk_calls s"
    by (cases ev) (auto simp: cancel_answered_def Let_def split: option.split)
  then show ?thesis by (intro exI [of _ "[]"]) simp
qed

interpretation tasks: gated_page tasks_step tk_calls tasks_kept tasks_call_ok
  "\<lambda>s. PermissionGate TaskCancel (tk_role s)" "\<lambda>s. tk_cancelTaskId s \<noteq> None"
proof
  show "tasks_kept (tasks_step ev s)" if "tasks_kept s" for s ev using that by (rule tasks_kept_step)
  show "\<exists>new. tk_calls (tasks_step ev s) = tk_calls s @ new \<and> length new \<le> 1 \<and> list_all (tasks_call_ok s ev) new" for s ev
    by (rule tasks_calls_step)
  show "tk_cancelTaskId s \<noteq> None \<or> PermissionGate TaskCancel (tk_role s)"
    if "tk_cancelTaskId (tasks_step ev s) \<noteq> None" for s ev
    using that by (cases ev) (auto simp: cancel_offered_def handleCancel_def cancel_answered_def Let_def split: option.splits if_splits)
  show "tk_cancelTaskId s \<noteq> None" if "tasks_call_ok s ev c" for s ev c using that by (auto simp: tasks_call_ok_def)
qed

text \<open>The tasks page cancels a task only on a confirmation, one at a time, and only after a moment
  at which the role of the user let the page offer it; the page of the list is never negative.\<close>

theorem cancels_were_offered:
  "list_all (offered_before tasks_step (\<lambda>s. PermissionGate TaskCancel (tk_role s)) tasks_call_ok (tasks_opened role) es)
      (tk_calls (fold tasks_step es (tasks_opened role)))
    \<and> tasks_kept (fold tasks_step es (tasks_opened role))"
  using tasks.session_offered [of "tasks_opened role" es] tasks.kept_run [of "tasks_opened role" es]
  by (simp add: tasks_opened_def tasks_kept_def)

text \<open>A member who may not cancel tasks cancels none.\<close>

lemma viewer_cancels_nothing:
  assumes "\<forall>m\<le>length es. \<not> PermissionGate TaskCancel (tk_role (fold tasks_step (take m es) (tasks_opened role)))"
  shows "tk_calls (fold tasks_step es (tasks_opened role)) = []"
proof (rule ccontr)
  assume "\<not> ?thesis"
  then obtain c where "c \<in> set (tk_calls (fold tasks_step es (tasks_opened role)))" by (meson list.set_sel(1))
  with tasks.session_offered [of "tasks_opened role" es]
  have "offered_before tasks_step (\<lambda>s. PermissionGate TaskCancel (tk_role s)) tasks_call_ok (tasks_opened role) es c"
    by (simp add: tasks_opened_def tasks_kept_def list_all_iff)
  then obtain n m where "n < length es" "m \<le> n" "PermissionGate TaskCancel (tk_role (fold tasks_step (take m es) (tasks_opened role)))"
    by (auto simp: offered_before_def)
  with assms show False by (meson le_trans less_imp_le)
qed

section \<open>Audit events\<close>

definition AUDIT_PAGE_SIZE :: int where "AUDIT_PAGE_SIZE = 20"

record audit_event =
  aud_id :: string
  aud_action :: string
  aud_resource_type :: string
  aud_metadata :: json

record audit_page =
  ap_organizationId :: string
  ap_role :: "OrgRole option"
  ap_pageIndex :: int
  ap_action :: string
  ap_resourceType :: string
  ap_actorUserId :: string
  ap_selected :: "audit_event option"

definition canRead :: "audit_page \<Rightarrow> bool" where
  "canRead s = (case ap_role s of Some r \<Rightarrow> can r AuditRead | None \<Rightarrow> False)"

definition audit_filters :: "audit_page \<Rightarrow> filters" where
  "audit_filters s =
     [(''action'', or_null (js_trim (ap_action s))),
      (''resource_type'', or_null (js_trim (ap_resourceType s))),
      (''actor_user_id'', or_null (js_trim (ap_actorUserId s))),
      (''limit'', QInt AUDIT_PAGE_SIZE), (''offset'', QInt (ap_pageIndex s * AUDIT_PAGE_SIZE))]"

definition audit_query :: "audit_page \<Rightarrow> hook_query" where
  "audit_query s =
     (useAuditEvents (ap_organizationId s) (audit_filters s))\<lparr>hq_enabled := ap_organizationId s \<noteq> [] \<and> canRead s\<rparr>"

definition audit_view :: "audit_event page_data query_state \<Rightarrow> audit_page \<Rightarrow> audit_event table_page" where
  "audit_view q s =
     (if ap_role s = None then ShowLoading
      else if \<not> canRead s then ShowDenied
      else case q of
        Loading \<Rightarrow> ShowLoading
      | LoadFailed e \<Rightarrow> error_shown e ''Failed to load audit events''
      | Loaded d \<Rightarrow> table_shown AUDIT_PAGE_SIZE (ap_pageIndex s) d)"

text \<open>The metadata of the sheet of the event selected.\<close>

definition metadata_shown :: "audit_page \<Rightarrow> json option" where
  "metadata_shown s = map_option (\<lambda>e. labelRedactedMetadata (aud_metadata e)) (ap_selected s)"

datatype audit_input = FilterAction string | FilterResource string | FilterActor string
  | AuditPrevious int | AuditNext int | SelectEvent audit_event | CloseEvent

fun audit_step :: "audit_input \<Rightarrow> audit_page \<Rightarrow> audit_page" where
  "audit_step (FilterAction v) s = s\<lparr>ap_action := v, ap_pageIndex := 0\<rparr>"
| "audit_step (FilterResource v) s = s\<lparr>ap_resourceType := v, ap_pageIndex := 0\<rparr>"
| "audit_step (FilterActor v) s = s\<lparr>ap_actorUserId := v, ap_pageIndex := 0\<rparr>"
| "audit_step (AuditPrevious n) s =
     (case previous_button (table_pagination AUDIT_PAGE_SIZE n (ap_pageIndex s)) of Some i \<Rightarrow> s\<lparr>ap_pageIndex := i\<rparr> | None \<Rightarrow> s)"
| "audit_step (AuditNext n) s =
     (case next_button (table_pagination AUDIT_PAGE_SIZE n (ap_pageIndex s)) of Some i \<Rightarrow> s\<lparr>ap_pageIndex := i\<rparr> | None \<Rightarrow> s)"
| "audit_step (SelectEvent e) s = s\<lparr>ap_selected := Some e\<rparr>"
| "audit_step CloseEvent s = s\<lparr>ap_selected := None\<rparr>"

text \<open>Only owners and admins load and see audit events; everyone else sees none, a member whose role
  is not known a page that keeps loading.\<close>

lemma audit_needs_permission:
  "hq_enabled (audit_query s) \<longleftrightarrow> ap_organizationId s \<noteq> [] \<and> (ap_role s = Some Owner \<or> ap_role s = Some Admin)"
  "audit_view q s = ShowTable rows p \<Longrightarrow> ap_role s = Some Owner \<or> ap_role s = Some Admin"
proof -
  have may: "can r AuditRead \<longleftrightarrow> r = Owner \<or> r = Admin" for r by (cases r) (simp_all add: can_def ALL_PERMISSIONS_def)
  show "hq_enabled (audit_query s) \<longleftrightarrow> ap_organizationId s \<noteq> [] \<and> (ap_role s = Some Owner \<or> ap_role s = Some Admin)"
    by (auto simp: audit_query_def canRead_def may split: option.splits)
  show "audit_view q s = ShowTable rows p \<Longrightarrow> ap_role s = Some Owner \<or> ap_role s = Some Admin"
    by (auto simp: audit_view_def canRead_def may split: option.splits if_splits)
qed

lemma no_role_loads_for_ever:
  "\<forall>es q. audit_view q (fold audit_step es (s\<lparr>ap_role := None\<rparr>)) = ShowLoading"
proof -
  have "ap_role (fold audit_step es t) = ap_role t" for es t
  proof (induction es arbitrary: t)
    case (Cons e es)
    have "ap_role (audit_step e t) = ap_role t" by (cases e) (auto split: option.split)
    with Cons show ?case by simp
  qed simp
  then show ?thesis by (simp add: audit_view_def)
qed

section \<open>The pages of a table\<close>

lemma table_reaches_every_row:
  assumes "length rows \<le> 20 * fuel" "0 < fuel"
  shows "concat (map (\<lambda>i. rows_at 20 (20 * i) rows)
      (pages_seen (\<lambda>i. next_button (table_pagination TASKS_PAGE_SIZE (int (length rows)) i)) fuel 0)) = rows"
  using table20.seen_rows [of 0 rows fuel] assms by (simp add: TASKS_PAGE_SIZE_def)

text \<open>A page that has become empty hides the pager: 20 tasks are left, the page says there are none.\<close>

lemma empty_task_page_strands:
  assumes "length rows = 20"
  shows "tasks_view (Loaded \<lparr>pd_items = rows_at 20 20 rows, pd_total = 20\<rparr>) (s\<lparr>tk_pageIndex := 1\<rparr>) = ShowEmpty"
  using assms by (simp add: tasks_view_def table_shown_def rows_at_def)

end
