(* ===== verification/Policy_Admin.thy ===== *)
theory Policy_Admin
  imports Page_Contract Paging Form_Rules Feature_Hooks
begin

text \<open>
  components/policies: rule-builder-form.tsx, the form of a rule; policy-pack-detail.tsx, the page
  of a pack with its rules; policy-packs-page.tsx, the list of packs.
\<close>

section \<open>The form of a rule\<close>

record policy_rule =
  pr_id :: string
  pr_rule_key :: string
  pr_name :: string
  pr_description :: string
  pr_resource_type :: string
  pr_severity :: string
  pr_configuration :: "json option"
  pr_remediation :: "string option"
  pr_is_enabled :: bool

record rule_form =
  rf_rule_key :: string
  rf_name :: string
  rf_description :: string
  rf_resource_type :: string
  rf_severity :: string
  rf_remediation :: string
  rf_is_enabled :: bool
  rf_list_items :: string

definition listItemsFromRule :: "policy_rule option \<Rightarrow> string" where
  "listItemsFromRule rule =
     (case rule of
        None \<Rightarrow> []
      | Some r \<Rightarrow>
          if \<not> isListConfigRuleKey (pr_rule_key r) then []
          else (case opt_prop (pr_configuration r) (listConfigFieldName (pr_rule_key r)) of
              Some (JArr vs) \<Rightarrow> js_join [CHR 0x0A] (map js_String vs)
            | _ \<Rightarrow> []))"

definition rule_form_opened :: "policy_rule option \<Rightarrow> rule_form" where
  "rule_form_opened initial =
     \<lparr>rf_rule_key = (case initial of Some r \<Rightarrow> pr_rule_key r | None \<Rightarrow> ''require_non_root_container''),
      rf_name = (case initial of Some r \<Rightarrow> pr_name r | None \<Rightarrow> []),
      rf_description = (case initial of Some r \<Rightarrow> pr_description r | None \<Rightarrow> []),
      rf_resource_type = (case initial of Some r \<Rightarrow> pr_resource_type r | None \<Rightarrow> ''dockerfile''),
      rf_severity = (case initial of Some r \<Rightarrow> pr_severity r | None \<Rightarrow> ''medium''),
      rf_remediation = (case initial of Some r \<Rightarrow> (case pr_remediation r of Some t \<Rightarrow> t | None \<Rightarrow> []) | None \<Rightarrow> []),
      rf_is_enabled = (case initial of Some r \<Rightarrow> pr_is_enabled r | None \<Rightarrow> True),
      rf_list_items = listItemsFromRule initial\<rparr>"

text \<open>The fields, with the effect that empties the items when the rule has none.\<close>

datatype rule_input =
    RuleKey string | RuleName string | RuleDescription string | RuleResource string | RuleSeverity string
  | RuleRemediation string | RuleEnabled bool | RuleItems string

fun rule_typed :: "bool \<Rightarrow> rule_input \<Rightarrow> rule_form \<Rightarrow> rule_form" where
  "rule_typed lockIdentity (RuleKey k) f =
     (if lockIdentity then f
      else f\<lparr>rf_rule_key := k, rf_list_items := (if isListConfigRuleKey k then rf_list_items f else [])\<rparr>)"
| "rule_typed lockIdentity (RuleName v) f = f\<lparr>rf_name := v\<rparr>"
| "rule_typed lockIdentity (RuleDescription v) f = f\<lparr>rf_description := v\<rparr>"
| "rule_typed lockIdentity (RuleResource v) f = (if lockIdentity then f else f\<lparr>rf_resource_type := v\<rparr>)"
| "rule_typed lockIdentity (RuleSeverity v) f = f\<lparr>rf_severity := v\<rparr>"
| "rule_typed lockIdentity (RuleRemediation v) f = f\<lparr>rf_remediation := v\<rparr>"
| "rule_typed lockIdentity (RuleEnabled b) f = f\<lparr>rf_is_enabled := b\<rparr>"
| "rule_typed lockIdentity (RuleItems v) f =
     (if isListConfigRuleKey (rf_rule_key f) then f\<lparr>rf_list_items := v\<rparr> else f)"

definition rule_values :: "rule_form \<Rightarrow> json" where
  "rule_values f = JObj
     [(''rule_key'', JStr (rf_rule_key f)), (''name'', JStr (rf_name f)),
      (''description'', JStr (rf_description f)), (''resource_type'', JStr (rf_resource_type f)),
      (''severity'', JStr (rf_severity f)), (''remediation'', JStr (rf_remediation f)),
      (''is_enabled'', JBool (rf_is_enabled f)), (''list_items'', JStr (rf_list_items f))]"

text \<open>\<open>form.handleSubmit\<close>: the parsed values and the configuration, if the form is accepted.\<close>

definition rule_submitted :: "parser \<Rightarrow> rule_form \<Rightarrow> (json \<times> json) option" where
  "rule_submitted parse f =
     (case parse policyRuleFormSchema (Some (rule_values f)) of
        Some (Some v) \<Rightarrow> Some (v, configurationFromRuleForm (string_field v ''rule_key'') (as_string (js_prop v ''list_items'')))
      | _ \<Rightarrow> None)"

text \<open>The bodies \<open>handleRuleSubmit\<close> sends.\<close>

definition js_field :: "json \<Rightarrow> string \<Rightarrow> (string \<times> json) list" where
  "js_field v k = (case js_prop v k of Some x \<Rightarrow> [(k, x)] | None \<Rightarrow> [])"

definition truthy_or_null :: "json option \<Rightarrow> json" where
  "truthy_or_null v = (case v of Some x \<Rightarrow> if js_truthy x then x else JNull | None \<Rightarrow> JNull)"

definition rule_update_body :: "json \<Rightarrow> json \<Rightarrow> json" where
  "rule_update_body v configuration = JObj
     (js_field v ''name'' @ js_field v ''description'' @ js_field v ''severity'' @ [(''configuration'', configuration)]
      @ [(''remediation'', truthy_or_null (js_prop v ''remediation''))] @ js_field v ''is_enabled'')"

definition rule_create_body :: "json \<Rightarrow> json \<Rightarrow> json" where
  "rule_create_body v configuration = JObj
     (js_field v ''rule_key'' @ js_field v ''name'' @ js_field v ''description'' @ js_field v ''resource_type''
      @ js_field v ''severity'' @ [(''configuration'', configuration)]
      @ [(''remediation'', truthy_or_null (js_prop v ''remediation''))] @ js_field v ''is_enabled'')"

section \<open>A rule that is opened and saved\<close>

definition good_item :: "string \<Rightarrow> bool" where
  "good_item i = (i \<noteq> [] \<and> js_trim i = i \<and> CHR 0x0A \<notin> set i \<and> CHR '','' \<notin> set i)"

lemma items_read_back:
  assumes "list_all good_item items"
  shows "list_items_of (Some (js_join [CHR 0x0A] items)) = items"
proof (cases "items = []")
  case True
  have "list_items_of (Some []) = []" by code_simp
  with True show ?thesis by simp
next
  case False
  have "split_on (\<lambda>c. c = CHR 0x0A \<or> c = CHR '','') (js_join [CHR 0x0A] items) = items"
    by (rule split_on_join) (use False assms in \<open>auto simp: list_all_iff good_item_def\<close>)
  moreover have "map js_trim items = items" "filter (\<lambda>i. i \<noteq> []) items = items"
    using assms by (auto simp: list_all_iff good_item_def intro!: map_idI)
  ultimately show ?thesis by (simp add: list_items_of_def)
qed

text \<open>A rule as the backend keeps it: within the bounds of the form, its configuration the items.\<close>

definition editable_rule :: "policy_rule \<Rightarrow> string list \<Rightarrow> bool" where
  "editable_rule r items =
     (pr_rule_key r \<in> set SUPPORTED_RULE_KEYS \<and> pr_resource_type r \<in> set POLICY_RESOURCE_TYPES
      \<and> pr_severity r \<in> set POLICY_SEVERITIES
      \<and> js_trim (pr_name r) = pr_name r \<and> pr_name r \<noteq> [] \<and> length (pr_name r) \<le> 200
      \<and> js_trim (pr_description r) = pr_description r \<and> pr_description r \<noteq> []
      \<and> (case pr_remediation r of Some t \<Rightarrow> js_trim t = t \<and> t \<noteq> [] | None \<Rightarrow> True)
      \<and> pr_configuration r = Some (configurationFromRuleForm (pr_rule_key r) (Some (js_join [CHR 0x0A] items)))
      \<and> (if isListConfigRuleKey (pr_rule_key r) then items \<noteq> [] \<and> list_all good_item items else items = []))"

lemma list_rule_keys: "isListConfigRuleKey k \<longleftrightarrow> k = ''allowed_container_registries'' \<or> k = ''required_kubernetes_labels''"
  by (simp add: isListConfigRuleKey_def RULE_KEYS_WITH_LIST_CONFIG_def)

lemma opened_items:
  assumes "editable_rule r items"
  shows "listItemsFromRule (Some r) = js_join [CHR 0x0A] items"
proof (cases "isListConfigRuleKey (pr_rule_key r)")
  case True
  then have "list_items_of (Some (js_join [CHR 0x0A] items)) = items"
    using assms by (intro items_read_back) (simp add: editable_rule_def)
  moreover have "pr_configuration r = Some (JObj [(listConfigFieldName (pr_rule_key r),
      JArr (map JStr (list_items_of (Some (js_join [CHR 0x0A] items)))))])"
    using assms True by (auto simp: editable_rule_def list_rule_keys configurationFromRuleForm_def listConfigFieldName_def)
  ultimately show ?thesis
    using True by (simp add: listItemsFromRule_def opt_prop_def js_prop_def comp_def)
next
  case False
  then show ?thesis using assms by (simp add: listItemsFromRule_def editable_rule_def)
qed

lemma issue_free:
  assumes "editable_rule r items"
  shows "list_items_issue (pr_rule_key r) (Some (js_join [CHR 0x0A] items)) = None"
proof (cases "isListConfigRuleKey (pr_rule_key r)")
  case True
  then have "list_items_of (Some (js_join [CHR 0x0A] items)) \<noteq> []"
    using assms items_read_back [of items] by (simp add: editable_rule_def)
  then show ?thesis by (simp add: list_items_issue_def)
next
  case False
  then show ?thesis by (simp add: list_items_issue_def list_rule_keys)
qed

lemma trim_empty: "js_trim [] = []" by code_simp

context zod
begin

lemma opened_rule_accepted:
  assumes "editable_rule r items"
  shows "parse policyRuleFormSchema (Some (rule_values (rule_form_opened (Some r)))) = Some (Some (rule_values (rule_form_opened (Some r))))"
proof -
  let ?f = "rule_form_opened (Some r)"
  have f: "rf_rule_key ?f = pr_rule_key r" "rf_name ?f = pr_name r" "rf_description ?f = pr_description r"
    "rf_resource_type ?f = pr_resource_type r" "rf_severity ?f = pr_severity r"
    "js_trim (rf_remediation ?f) = rf_remediation ?f" "rf_list_items ?f = js_join [CHR 0x0A] items"
    using assms opened_items [OF assms] by (auto simp: rule_form_opened_def editable_rule_def trim_empty split: option.splits)
  have fields: "parse (ZEnum SUPPORTED_RULE_KEYS) (Some (JStr (rf_rule_key ?f))) = Some (Some (JStr (rf_rule_key ?f)))"
    "parse nameField (Some (JStr (rf_name ?f))) = Some (Some (JStr (rf_name ?f)))"
    "parse requiredField (Some (JStr (rf_description ?f))) = Some (Some (JStr (rf_description ?f)))"
    "parse (ZEnum POLICY_RESOURCE_TYPES) (Some (JStr (rf_resource_type ?f))) = Some (Some (JStr (rf_resource_type ?f)))"
    "parse (ZEnum POLICY_SEVERITIES) (Some (JStr (rf_severity ?f))) = Some (Some (JStr (rf_severity ?f)))"
    "parse (ZOr (ZOptional (ZString [Trim])) (ZLiteral [])) (Some (JStr (rf_remediation ?f))) = Some (Some (JStr (rf_remediation ?f)))"
    "parse ZBool (Some (JBool b)) = Some (Some (JBool b))"
    "parse (ZOptional (ZString [])) (Some (JStr t)) = Some (Some (JStr t))" for b t
    using assms f by (simp_all add: enum_law string_law bool_law or_law optional_law nameField_def requiredField_def
        editable_rule_def Suc_le_eq del: set_simps)
  have issue: "list_items_issue (rf_rule_key ?f) (Some (rf_list_items ?f)) = None"
    using issue_free [OF assms] f by simp
  show ?thesis
    unfolding policyRuleFormSchema_def refine_law object_law rule_values_def
    by (simp add: fields defined_fields_def issue string_field_def js_prop_def as_string_def)
qed

end

text \<open>C25: opening a rule that has the shape the form edits and saving it without a change sends the
  rule as it is.  That shape is: a key, a resource type and a severity the form knows; a name of at
  most 200 characters and a description, neither empty nor with blanks at its ends; no remediation or
  such a one; and exactly the configuration the form writes for the key, whose items, if the key has
  any, are trimmed and hold no comma and no line break.  Then the form is accepted, the configuration
  computed from its text area is the one the rule had, item by item, and the body holds the name, the
  description, the severity, the remediation and the switch of the rule; its key and its resource type
  are not sent.  (An item with a comma is split, \<open>edited_item_splits\<close>.)\<close>

theorem saving_rule_keeps_it:
  assumes "zod fmt parse" and "editable_rule r items"
  shows "\<exists>v configuration. rule_submitted parse (rule_form_opened (Some r)) = Some (v, configuration)
    \<and> pr_configuration r = Some configuration
    \<and> rule_update_body v configuration = JObj
        [(''name'', JStr (pr_name r)), (''description'', JStr (pr_description r)), (''severity'', JStr (pr_severity r)),
         (''configuration'', configuration),
         (''remediation'', case pr_remediation r of Some t \<Rightarrow> JStr t | None \<Rightarrow> JNull),
         (''is_enabled'', JBool (pr_is_enabled r))]"
proof -
  let ?f = "rule_form_opened (Some r)"
  let ?v = "rule_values ?f"
  have fields: "js_prop ?v ''rule_key'' = Some (JStr (pr_rule_key r))" "js_prop ?v ''name'' = Some (JStr (pr_name r))"
    "js_prop ?v ''description'' = Some (JStr (pr_description r))" "js_prop ?v ''severity'' = Some (JStr (pr_severity r))"
    "js_prop ?v ''is_enabled'' = Some (JBool (pr_is_enabled r))"
    "js_prop ?v ''list_items'' = Some (JStr (js_join [CHR 0x0A] items))"
    "js_prop ?v ''remediation'' = Some (JStr (case pr_remediation r of Some t \<Rightarrow> t | None \<Rightarrow> []))"
    using opened_items [OF assms(2)] by (simp_all add: rule_values_def rule_form_opened_def js_prop_def)
  have rem: "truthy_or_null (js_prop ?v ''remediation'') = (case pr_remediation r of Some t \<Rightarrow> JStr t | None \<Rightarrow> JNull)"
    using assms(2) unfolding fields by (auto simp: truthy_or_null_def js_truthy_def editable_rule_def split: option.splits)
  have conf: "configurationFromRuleForm (string_field ?v ''rule_key'') (as_string (js_prop ?v ''list_items''))
      = configurationFromRuleForm (pr_rule_key r) (Some (js_join [CHR 0x0A] items))"
    by (simp add: fields string_field_def as_string_def)
  have "rule_submitted parse ?f = Some (?v, configurationFromRuleForm (pr_rule_key r) (Some (js_join [CHR 0x0A] items)))"
    using zod.opened_rule_accepted [OF assms] conf by (simp add: rule_submitted_def)
  moreover have "pr_configuration r = Some (configurationFromRuleForm (pr_rule_key r) (Some (js_join [CHR 0x0A] items)))"
    using assms(2) by (simp add: editable_rule_def)
  moreover have "rule_update_body ?v c = JObj
        [(''name'', JStr (pr_name r)), (''description'', JStr (pr_description r)), (''severity'', JStr (pr_severity r)),
         (''configuration'', c), (''remediation'', case pr_remediation r of Some t \<Rightarrow> JStr t | None \<Rightarrow> JNull),
         (''is_enabled'', JBool (pr_is_enabled r))]" for c
    unfolding rule_update_body_def rem by (simp add: js_field_def fields)
  ultimately show ?thesis by blast
qed

definition ex_rule :: policy_rule where
  "ex_rule = \<lparr>pr_id = ''r1'', pr_rule_key = ''required_kubernetes_labels'', pr_name = ''Labels'', pr_description = ''Owners'',
     pr_resource_type = ''kubernetes'', pr_severity = ''high'',
     pr_configuration = Some (JObj [(''labels'', JArr [JStr ''app'', JStr ''team''])]), pr_remediation = None,
     pr_is_enabled = True\<rparr>"

lemma ex_rule_editable: "editable_rule ex_rule [''app'', ''team'']"
  by code_simp

lemma saving_rule_keeps_it_witness:
  "\<exists>v configuration. rule_submitted ex_parse (rule_form_opened (Some ex_rule)) = Some (v, configuration)
    \<and> configuration = JObj [(''labels'', JArr [JStr ''app'', JStr ''team''])]"
  using saving_rule_keeps_it [OF zod_ex ex_rule_editable] by (auto simp: ex_rule_def)

text \<open>An item with a comma, which the backend accepts, becomes two items when the rule is saved.\<close>

lemma edited_item_splits:
  "listItemsFromRule (Some (ex_rule\<lparr>pr_configuration := Some (JObj [(''labels'', JArr [JStr ''a,b''])])\<rparr>)) = ''a,b''
   \<and> configurationFromRuleForm ''required_kubernetes_labels'' (Some ''a,b'') = JObj [(''labels'', JArr [JStr ''a'', JStr ''b''])]"
  by code_simp

section \<open>A field that is emptied\<close>

text \<open>The backend (repositories/policy_repo.py, \<open>update_rule\<close>) leaves a field alone whose value is
  \<open>None\<close>, and \<open>null\<close> in the body is \<open>None\<close>.\<close>

definition kept_or :: "'a \<Rightarrow> (json \<Rightarrow> 'a) \<Rightarrow> json option \<Rightarrow> 'a" where
  "kept_or old read v = (case v of None \<Rightarrow> old | Some JNull \<Rightarrow> old | Some x \<Rightarrow> read x)"

definition backend_update_rule :: "policy_rule \<Rightarrow> json \<Rightarrow> policy_rule" where
  "backend_update_rule r body =
     r\<lparr>pr_name := kept_or (pr_name r) js_String (js_prop body ''name''),
       pr_description := kept_or (pr_description r) js_String (js_prop body ''description''),
       pr_severity := kept_or (pr_severity r) js_String (js_prop body ''severity''),
       pr_configuration := kept_or (pr_configuration r) Some (js_prop body ''configuration''),
       pr_remediation := kept_or (pr_remediation r) (\<lambda>x. Some (js_String x)) (js_prop body ''remediation''),
       pr_is_enabled := kept_or (pr_is_enabled r) js_truthy (js_prop body ''is_enabled'')\<rparr>"

text \<open>Every field that is saved with a value has it afterwards; the remediation, once it is there, cannot
  be emptied.\<close>

lemma emptied_remediation_stays:
  assumes "js_prop v ''remediation'' = Some (JStr [])"
  shows "pr_remediation (backend_update_rule r (rule_update_body v configuration)) = pr_remediation r"
proof -
  have "truthy_or_null (js_prop v ''remediation'') = JNull" by (simp add: assms truthy_or_null_def js_truthy_def)
  then have "js_prop (rule_update_body v configuration) ''remediation'' = Some JNull"
    by (simp add: rule_update_body_def js_prop_def js_field_def split: option.split)
  then show ?thesis by (simp add: backend_update_rule_def kept_or_def)
qed

lemma emptying_sends_null:
  "rule_update_body (rule_values (rule_typed True (RuleRemediation []) (rule_form_opened (Some (ex_rule\<lparr>pr_remediation := Some ''x''\<rparr>))))) c
   = rule_update_body (rule_values (rule_form_opened (Some ex_rule))) c"
  by (simp add: rule_update_body_def rule_values_def rule_form_opened_def ex_rule_def listItemsFromRule_def js_field_def js_prop_def
      truthy_or_null_def js_truthy_def)

section \<open>The page of a pack\<close>

record policy_pack =
  pp_name :: string
  pp_description :: "string option"
  pp_is_active :: bool
  pp_rules :: "policy_rule list"

record pack_form =
  pf_name :: string
  pf_description :: string
  pf_is_active :: bool

text \<open>The mutations of the page.\<close>

datatype pack_call = UpdatePack | DeletePack | CreateRule | UpdateRule | DeleteRule

record pack_page =
  pd_organizationId :: string
  pd_policyPackId :: string
  pd_role :: "OrgRole option"
  pd_data :: "policy_pack option"
  pd_editOpen :: bool
  pd_deleteOpen :: bool
  pd_ruleOpen :: bool
  pd_editingRule :: "policy_rule option"
  pd_deletingRule :: "policy_rule option"
  pd_packForm :: pack_form
  pd_ruleForm :: rule_form
  pd_pending :: "pack_call list"
  pd_calls :: "api_call list"
  pd_notices :: "notice list"
  pd_pushed :: "string list"

definition pack_form_of :: "policy_pack option \<Rightarrow> pack_form" where
  "pack_form_of data =
     (case data of
        Some p \<Rightarrow> \<lparr>pf_name = pp_name p, pf_description = (case pp_description p of Some t \<Rightarrow> t | None \<Rightarrow> []),
                   pf_is_active = pp_is_active p\<rparr>
      | None \<Rightarrow> \<lparr>pf_name = [], pf_description = [], pf_is_active = True\<rparr>)"

definition pack_opened :: "string \<Rightarrow> string \<Rightarrow> OrgRole option \<Rightarrow> pack_page" where
  "pack_opened organizationId policyPackId role =
     \<lparr>pd_organizationId = organizationId, pd_policyPackId = policyPackId, pd_role = role, pd_data = None,
      pd_editOpen = False, pd_deleteOpen = False, pd_ruleOpen = False, pd_editingRule = None, pd_deletingRule = None,
      pd_packForm = pack_form_of None, pd_ruleForm = rule_form_opened None, pd_pending = [], pd_calls = [],
      pd_notices = [], pd_pushed = []\<rparr>"

definition pack_values :: "pack_form \<Rightarrow> json" where
  "pack_values f = JObj [(''name'', JStr (pf_name f)), (''description'', JStr (pf_description f)), (''is_active'', JBool (pf_is_active f))]"

text \<open>The body of an update and of a creation (policy-packs-page.tsx) are the same.\<close>

definition pack_body :: "json \<Rightarrow> json" where
  "pack_body v = JObj (js_field v ''name'' @ [(''description'', truthy_or_null (js_prop v ''description''))] @ js_field v ''is_active'')"

definition pack_ask :: "pack_call \<Rightarrow> api_call \<Rightarrow> pack_page \<Rightarrow> pack_page" where
  "pack_ask k c s = s\<lparr>pd_pending := pd_pending s @ [k], pd_calls := pd_calls s @ [c]\<rparr>"

definition handleUpdatePack :: "parser \<Rightarrow> pack_page \<Rightarrow> pack_page" where
  "handleUpdatePack parse s =
     (case parse policyPackFormSchema (Some (pack_values (pd_packForm s))) of
        Some (Some v) \<Rightarrow> pack_ask UpdatePack (updatePolicyPack (pd_organizationId s) (pd_policyPackId s) (pack_body v)) s
      | _ \<Rightarrow> s)"

definition handleDeletePack :: "pack_page \<Rightarrow> pack_page" where
  "handleDeletePack s = pack_ask DeletePack (deletePolicyPack (pd_organizationId s) (pd_policyPackId s)) s"

definition handleRuleSubmit :: "parser \<Rightarrow> pack_page \<Rightarrow> pack_page" where
  "handleRuleSubmit parse s =
     (case rule_submitted parse (pd_ruleForm s) of
        None \<Rightarrow> s
      | Some (v, configuration) \<Rightarrow>
          (case pd_editingRule s of
             Some r \<Rightarrow> pack_ask UpdateRule (updatePolicyRule (pd_organizationId s) (pd_policyPackId s) (pr_id r)
                          (rule_update_body v configuration)) s
           | None \<Rightarrow> pack_ask CreateRule (createPolicyRule (pd_organizationId s) (pd_policyPackId s)
                          (rule_create_body v configuration)) s))"

definition handleDeleteRule :: "pack_page \<Rightarrow> pack_page" where
  "handleDeleteRule s =
     (case pd_deletingRule s of
        None \<Rightarrow> s
      | Some r \<Rightarrow> pack_ask DeleteRule (deletePolicyRule (pd_organizationId s) (pd_policyPackId s) (pr_id r)) s)"

text \<open>What follows the \<open>await\<close> of each handler.\<close>

definition pack_succeeded :: "pack_call \<Rightarrow> pack_page \<Rightarrow> pack_page" where
  "pack_succeeded k s =
     (case k of
        UpdatePack \<Rightarrow> s\<lparr>pd_notices := pd_notices s @ [Success ''Policy pack updated''], pd_editOpen := False\<rparr>
      | DeletePack \<Rightarrow> s\<lparr>pd_notices := pd_notices s @ [Success ''Policy pack deleted''],
          pd_pushed := pd_pushed s @ [''/organizations/'' @ pd_organizationId s @ ''/policies'']\<rparr>
      | CreateRule \<Rightarrow> s\<lparr>pd_notices := pd_notices s @ [Success ''Rule created''], pd_ruleOpen := False, pd_editingRule := None\<rparr>
      | UpdateRule \<Rightarrow> s\<lparr>pd_notices := pd_notices s @ [Success ''Rule updated''], pd_ruleOpen := False, pd_editingRule := None\<rparr>
      | DeleteRule \<Rightarrow> s\<lparr>pd_notices := pd_notices s @ [Success ''Rule deleted''], pd_deletingRule := None\<rparr>)"

definition pack_failure_text :: "pack_call \<Rightarrow> string" where
  "pack_failure_text k =
     (case k of UpdatePack \<Rightarrow> ''Failed to update policy pack'' | DeletePack \<Rightarrow> ''Failed to delete policy pack''
      | CreateRule \<Rightarrow> ''Failed to save rule'' | UpdateRule \<Rightarrow> ''Failed to save rule''
      | DeleteRule \<Rightarrow> ''Failed to delete rule'')"

definition pack_answered :: "pack_call \<Rightarrow> js_exn option \<Rightarrow> pack_page \<Rightarrow> pack_page" where
  "pack_answered k failed s =
     (let s1 = s\<lparr>pd_pending := remove1 k (pd_pending s)\<rparr> in
      case failed of
        None \<Rightarrow> pack_succeeded k s1
      | Some e \<Rightarrow> s1\<lparr>pd_notices := pd_notices s1 @ [Failure (error_text e (pack_failure_text k))]\<rparr>)"

text \<open>The events; a button that is not shown or disabled does nothing.\<close>

datatype pack_event =
    PackRole "OrgRole option"
  | PackLoaded policy_pack
  | OpenEdit | CloseEdit | TypePackName string | TypePackDescription string | TypePackActive bool | SavePack
  | OpenNewRule | OpenRule policy_rule | CloseRule | TypeRule rule_input | SaveRule
  | AskDeleteRule policy_rule | CloseDeleteRule | ConfirmDeleteRule
  | AskDeletePack | CloseDeletePack | ConfirmDeletePack
  | PackAnswered pack_call "js_exn option"

definition pack_managed :: "pack_page \<Rightarrow> bool" where
  "pack_managed s = PermissionGate PolicyManage (pd_role s)"

definition rule_pending :: "pack_page \<Rightarrow> bool" where
  "rule_pending s = (CreateRule \<in> set (pd_pending s) \<or> UpdateRule \<in> set (pd_pending s))"

definition rule_listed :: "policy_rule \<Rightarrow> pack_page \<Rightarrow> bool" where
  "rule_listed r s = (case pd_data s of Some p \<Rightarrow> r \<in> set (pp_rules p) | None \<Rightarrow> False)"

definition type_pack :: "pack_page \<Rightarrow> (pack_form \<Rightarrow> pack_form) \<Rightarrow> pack_page" where
  "type_pack s f = (if pd_editOpen s \<and> UpdatePack \<notin> set (pd_pending s) then s\<lparr>pd_packForm := f (pd_packForm s)\<rparr> else s)"

fun pack_step :: "parser \<Rightarrow> pack_event \<Rightarrow> pack_page \<Rightarrow> pack_page" where
  "pack_step parse (PackRole r) s = s\<lparr>pd_role := r\<rparr>"
| "pack_step parse (PackLoaded p) s =
     s\<lparr>pd_data := Some p,
       pd_packForm := (if pd_editOpen s \<and> pd_data s \<noteq> Some p then pack_form_of (Some p) else pd_packForm s)\<rparr>"
| "pack_step parse OpenEdit s =
     (if pack_managed s \<and> pd_data s \<noteq> None \<and> \<not> pd_editOpen s
      then s\<lparr>pd_editOpen := True, pd_packForm := pack_form_of (pd_data s)\<rparr> else s)"
| "pack_step parse CloseEdit s = s\<lparr>pd_editOpen := False\<rparr>"
| "pack_step parse (TypePackName v) s = type_pack s (\<lambda>f. f\<lparr>pf_name := v\<rparr>)"
| "pack_step parse (TypePackDescription v) s = type_pack s (\<lambda>f. f\<lparr>pf_description := v\<rparr>)"
| "pack_step parse (TypePackActive b) s = type_pack s (\<lambda>f. f\<lparr>pf_is_active := b\<rparr>)"
| "pack_step parse SavePack s =
     (if pd_editOpen s \<and> UpdatePack \<notin> set (pd_pending s) then handleUpdatePack parse s else s)"
| "pack_step parse OpenNewRule s =
     (if pack_managed s \<and> pd_data s \<noteq> None \<and> \<not> pd_ruleOpen s
      then s\<lparr>pd_editingRule := None, pd_ruleOpen := True, pd_ruleForm := rule_form_opened None\<rparr> else s)"
| "pack_step parse (OpenRule r) s =
     (if pack_managed s \<and> rule_listed r s \<and> \<not> pd_ruleOpen s
      then s\<lparr>pd_editingRule := Some r, pd_ruleOpen := True, pd_ruleForm := rule_form_opened (Some r)\<rparr> else s)"
| "pack_step parse CloseRule s = s\<lparr>pd_ruleOpen := False, pd_editingRule := None\<rparr>"
| "pack_step parse (TypeRule i) s =
     (if pd_ruleOpen s \<and> \<not> rule_pending s
      then s\<lparr>pd_ruleForm := rule_typed (pd_editingRule s \<noteq> None) i (pd_ruleForm s)\<rparr> else s)"
| "pack_step parse SaveRule s = (if pd_ruleOpen s \<and> \<not> rule_pending s then handleRuleSubmit parse s else s)"
| "pack_step parse (AskDeleteRule r) s =
     (if pack_managed s \<and> rule_listed r s then s\<lparr>pd_deletingRule := Some r\<rparr> else s)"
| "pack_step parse CloseDeleteRule s = s\<lparr>pd_deletingRule := None\<rparr>"
| "pack_step parse ConfirmDeleteRule s = (if DeleteRule \<notin> set (pd_pending s) then handleDeleteRule s else s)"
| "pack_step parse AskDeletePack s = (if pack_managed s \<and> pd_data s \<noteq> None then s\<lparr>pd_deleteOpen := True\<rparr> else s)"
| "pack_step parse CloseDeletePack s = s\<lparr>pd_deleteOpen := False\<rparr>"
| "pack_step parse ConfirmDeletePack s =
     (if pd_deleteOpen s \<and> DeletePack \<notin> set (pd_pending s) then handleDeletePack s else s)"
| "pack_step parse (PackAnswered k failed) s = (if k \<in> set (pd_pending s) then pack_answered k failed s else s)"

section \<open>What the page asks for\<close>

definition pack_armed :: "pack_page \<Rightarrow> bool" where
  "pack_armed s = (pd_editOpen s \<or> pd_deleteOpen s \<or> pd_ruleOpen s \<or> pd_deletingRule s \<noteq> None)"

text \<open>While a rule is edited its form keeps the key and the resource type of the rule.\<close>

definition pack_kept :: "pack_page \<Rightarrow> bool" where
  "pack_kept s =
     (case pd_editingRule s of
        Some r \<Rightarrow> pd_ruleOpen s \<and> rf_rule_key (pd_ruleForm s) = pr_rule_key r \<and> rf_resource_type (pd_ruleForm s) = pr_resource_type r
      | None \<Rightarrow> True)"

lemma rule_typed_locked:
  "rf_rule_key (rule_typed True i f) = rf_rule_key f" "rf_resource_type (rule_typed True i f) = rf_resource_type f"
  by (cases i; simp)+

lemma pack_kept_step: "pack_kept s \<Longrightarrow> pack_kept (pack_step parse ev s)"
proof (cases ev)
  case (PackAnswered k f)
  then show "pack_kept s \<Longrightarrow> ?thesis"
    by (auto simp: pack_kept_def pack_answered_def pack_succeeded_def Let_def split: option.splits pack_call.split)
qed (auto simp: pack_kept_def rule_form_opened_def type_pack_def handleUpdatePack_def handleRuleSubmit_def handleDeleteRule_def
    handleDeletePack_def pack_ask_def rule_typed_locked split: option.splits)

text \<open>What a body says of the rule in the form.\<close>

definition rule_body_ok :: "rule_form \<Rightarrow> json \<Rightarrow> bool" where
  "rule_body_ok f body =
     (js_prop body ''configuration'' = Some (configurationFromRuleForm (rf_rule_key f) (Some (rf_list_items f)))
      \<and> rf_rule_key f \<in> set SUPPORTED_RULE_KEYS
      \<and> list_items_issue (rf_rule_key f) (Some (rf_list_items f)) = None
      \<and> js_prop body ''name'' = Some (JStr (js_trim (rf_name f))) \<and> js_trim (rf_name f) \<noteq> [])"

definition pack_call_ok :: "pack_page \<Rightarrow> pack_event \<Rightarrow> api_call \<Rightarrow> bool" where
  "pack_call_ok s ev c =
     (case ev of
        SavePack \<Rightarrow> pd_editOpen s \<and> (\<exists>body. c = updatePolicyPack (pd_organizationId s) (pd_policyPackId s) body
          \<and> js_prop body ''name'' = Some (JStr (js_trim (pf_name (pd_packForm s)))) \<and> js_trim (pf_name (pd_packForm s)) \<noteq> []
          \<and> js_prop body ''is_active'' = Some (JBool (pf_is_active (pd_packForm s))))
      | SaveRule \<Rightarrow> pd_ruleOpen s \<and> \<not> rule_pending s \<and> (\<exists>body. rule_body_ok (pd_ruleForm s) body
          \<and> (case pd_editingRule s of
               Some r \<Rightarrow> c = updatePolicyRule (pd_organizationId s) (pd_policyPackId s) (pr_id r) body
                 \<and> rf_rule_key (pd_ruleForm s) = pr_rule_key r \<and> js_prop body ''rule_key'' = None \<and> js_prop body ''resource_type'' = None
             | None \<Rightarrow> c = createPolicyRule (pd_organizationId s) (pd_policyPackId s) body
                 \<and> js_prop body ''rule_key'' = Some (JStr (rf_rule_key (pd_ruleForm s)))))
      | ConfirmDeleteRule \<Rightarrow> (\<exists>r. pd_deletingRule s = Some r \<and> c = deletePolicyRule (pd_organizationId s) (pd_policyPackId s) (pr_id r))
      | ConfirmDeletePack \<Rightarrow> pd_deleteOpen s \<and> c = deletePolicyPack (pd_organizationId s) (pd_policyPackId s)
      | _ \<Rightarrow> False)"

context zod
begin

lemma name_value: "parse nameField (Some (JStr s)) = Some u \<Longrightarrow> u = Some (JStr (js_trim s)) \<and> js_trim s \<noteq> []"
  by (auto simp: nameField_def string_law split: if_splits)

lemma rule_fields:
  assumes "rule_submitted parse f = Some (v, configuration)"
  shows "js_prop v ''rule_key'' = Some (JStr (rf_rule_key f)) \<and> rf_rule_key f \<in> set SUPPORTED_RULE_KEYS
    \<and> js_prop v ''name'' = Some (JStr (js_trim (rf_name f))) \<and> js_trim (rf_name f) \<noteq> []
    \<and> configuration = configurationFromRuleForm (rf_rule_key f) (Some (rf_list_items f))
    \<and> list_items_issue (rf_rule_key f) (Some (rf_list_items f)) = None"
proof -
  from assms have p: "parse policyRuleFormSchema (Some (rule_values f)) = Some (Some v)"
    and c: "configuration = configurationFromRuleForm (string_field v ''rule_key'') (as_string (js_prop v ''list_items''))"
    by (auto simp: rule_submitted_def split: option.splits)
  note r = refined [OF p [unfolded policyRuleFormSchema_def]]
  note g = object_field [OF conjunct1 [OF r]]
  have "parse (ZEnum SUPPORTED_RULE_KEYS) (js_prop (rule_values f) ''rule_key'') = Some (js_prop v ''rule_key'')"
    "parse nameField (js_prop (rule_values f) ''name'') = Some (js_prop v ''name'')"
    "parse (ZOptional (ZString [])) (js_prop (rule_values f) ''list_items'') = Some (js_prop v ''list_items'')"
    by (rule g; simp)+
  then have "js_prop v ''rule_key'' = Some (JStr (rf_rule_key f))" "rf_rule_key f \<in> set SUPPORTED_RULE_KEYS"
    "js_prop v ''name'' = Some (JStr (js_trim (rf_name f)))" "js_trim (rf_name f) \<noteq> []"
    "js_prop v ''list_items'' = Some (JStr (rf_list_items f))"
    using name_value by (auto simp: rule_values_def js_prop_def enum_law optional_law string_law simp del: set_simps split: if_splits)
  with c conjunct2 [OF r] show ?thesis by (simp add: string_field_def as_string_def)
qed

end

lemma map_of_js_field: "map_of (js_field v k @ kvs) j =
    (if j = k then (case js_prop v k of Some x \<Rightarrow> Some x | None \<Rightarrow> map_of kvs j) else map_of kvs j)"
  by (simp add: js_field_def split: option.split)

lemma rule_bodies_ok:
  assumes "zod fmt parse" "rule_submitted parse f = Some (v, configuration)"
  shows "rule_body_ok f (rule_update_body v configuration)" "rule_body_ok f (rule_create_body v configuration)"
    "js_prop (rule_update_body v configuration) ''rule_key'' = None"
    "js_prop (rule_update_body v configuration) ''resource_type'' = None"
    "js_prop (rule_create_body v configuration) ''rule_key'' = Some (JStr (rf_rule_key f))"
  using zod.rule_fields [OF assms]
  by (auto simp: rule_body_ok_def rule_update_body_def rule_create_body_def js_prop_JObj map_of_js_field
      simp del: set_simps split: option.split)
     (auto simp: js_field_def split: option.split)

lemma pack_body_ok:
  assumes "zod fmt parse" "parse policyPackFormSchema (Some (pack_values f)) = Some (Some v)"
  shows "js_prop (pack_body v) ''name'' = Some (JStr (js_trim (pf_name f))) \<and> js_trim (pf_name f) \<noteq> []
    \<and> js_prop (pack_body v) ''is_active'' = Some (JBool (pf_is_active f))"
proof -
  note g = zod.object_field [OF assms(1) assms(2) [unfolded policyPackFormSchema_def]]
  have "parse nameField (js_prop (pack_values f) ''name'') = Some (js_prop v ''name'')"
    "parse ZBool (js_prop (pack_values f) ''is_active'') = Some (js_prop v ''is_active'')"
    by (rule g; simp)+
  then have "js_prop v ''name'' = Some (JStr (js_trim (pf_name f)))" "js_trim (pf_name f) \<noteq> []"
    "js_prop v ''is_active'' = Some (JBool (pf_is_active f))"
    using zod.name_value [OF assms(1)] by (auto simp: pack_values_def js_prop_JObj zod.bool_law [OF assms(1)])
  then show ?thesis by (simp add: pack_body_def js_prop_JObj js_field_def)
qed

lemma save_pack_step:
  assumes "zod fmt parse"
  shows "\<exists>new. pd_calls (pack_step parse SavePack s) = pd_calls s @ new \<and> length new \<le> 1 \<and> list_all (pack_call_ok s SavePack) new"
proof (cases "pd_editOpen s \<and> UpdatePack \<notin> set (pd_pending s) \<and> (\<exists>v. parse policyPackFormSchema (Some (pack_values (pd_packForm s))) = Some (Some v))")
  case True
  then obtain v where v: "parse policyPackFormSchema (Some (pack_values (pd_packForm s))) = Some (Some v)" by blast
  show ?thesis
    by (rule one_new [where c = "updatePolicyPack (pd_organizationId s) (pd_policyPackId s) (pack_body v)"])
       (use True v pack_body_ok [OF assms v] in \<open>auto simp: handleUpdatePack_def pack_ask_def pack_call_ok_def\<close>)
qed (rule no_new, auto simp: handleUpdatePack_def split: option.split)

lemma save_rule_step:
  assumes "zod fmt parse" "pack_kept s"
  shows "\<exists>new. pd_calls (pack_step parse SaveRule s) = pd_calls s @ new \<and> length new \<le> 1 \<and> list_all (pack_call_ok s SaveRule) new"
proof (cases "pd_ruleOpen s \<and> \<not> rule_pending s \<and> rule_submitted parse (pd_ruleForm s) \<noteq> None")
  case True
  then obtain v conf where v: "rule_submitted parse (pd_ruleForm s) = Some (v, conf)" by auto
  note ok = rule_bodies_ok [OF assms(1) v]
  show ?thesis
  proof (cases "pd_editingRule s")
    case None
    show ?thesis
      by (rule one_new [where c = "createPolicyRule (pd_organizationId s) (pd_policyPackId s) (rule_create_body v conf)"])
         (use True v ok None in \<open>auto simp: handleRuleSubmit_def pack_ask_def pack_call_ok_def\<close>)
  next
    case (Some r)
    show ?thesis
      by (rule one_new [where c = "updatePolicyRule (pd_organizationId s) (pd_policyPackId s) (pr_id r) (rule_update_body v conf)"])
         (use True v ok Some assms(2) in \<open>auto simp: handleRuleSubmit_def pack_ask_def pack_call_ok_def pack_kept_def\<close>)
  qed
qed (rule no_new, auto simp: handleRuleSubmit_def split: option.split)

lemma pack_calls_step:
  assumes "zod fmt parse" "pack_kept s"
  shows "\<exists>new. pd_calls (pack_step parse ev s) = pd_calls s @ new \<and> length new \<le> 1 \<and> list_all (pack_call_ok s ev) new"
proof (cases ev)
  case SavePack
  show ?thesis unfolding SavePack by (rule save_pack_step [OF assms(1)])
next
  case SaveRule
  show ?thesis unfolding SaveRule by (rule save_rule_step [OF assms])
next
  case ConfirmDeleteRule
  then show ?thesis by (auto simp: handleDeleteRule_def pack_ask_def pack_call_ok_def split: option.split)
next
  case ConfirmDeletePack
  then show ?thesis by (auto simp: handleDeletePack_def pack_ask_def pack_call_ok_def)
next
  case (PackAnswered k failed)
  show ?thesis
    by (rule no_new) (auto simp: PackAnswered pack_answered_def pack_succeeded_def Let_def split: option.split pack_call.split)
qed (rule no_new, simp add: type_pack_def)+

lemma pack_gated:
  assumes "zod fmt parse"
  shows "gated_page (pack_step parse) pd_calls pack_kept pack_call_ok pack_managed pack_armed"
proof
  fix s ev
  show "pack_kept (pack_step parse ev s)" if "pack_kept s" using that by (rule pack_kept_step)
  show "\<exists>new. pd_calls (pack_step parse ev s) = pd_calls s @ new \<and> length new \<le> 1 \<and> list_all (pack_call_ok s ev) new"
    if "pack_kept s" by (rule pack_calls_step [OF assms that])
  show "pack_armed s \<or> pack_managed s" if "pack_armed (pack_step parse ev s)"
  proof (cases ev)
    case (PackAnswered k failed)
    with that show ?thesis
      by (auto simp: pack_armed_def pack_answered_def pack_succeeded_def Let_def split: option.splits pack_call.splits if_splits)
  qed (use that in \<open>auto simp: pack_armed_def type_pack_def handleUpdatePack_def handleRuleSubmit_def handleDeleteRule_def
      handleDeletePack_def pack_ask_def split: option.splits if_splits\<close>)
  show "pack_armed s" if "pack_call_ok s ev c" for c
    using that by (auto simp: pack_call_ok_def pack_armed_def split: pack_event.splits)
qed

interpretation policy_pack_page: gated_page "pack_step (zparse fmt)" pd_calls pack_kept pack_call_ok pack_managed pack_armed for fmt
  by (rule pack_gated) unfold_locales

text \<open>C26: the page of a policy pack asks the backend only for what was confirmed in one of its dialogs, and
  only after a moment at which the role of the user let it offer the dialog: an update of the pack
  with the name in the form, which is not blank; a new rule with the key in the form; a change of the
  rule that is being edited, which never names a key or a resource type, so the rule keeps its own;
  the deletion of the rule asked about; the deletion of the pack.  A rule that needs a list never
  goes out with an empty one.\<close>

theorem policy_calls_sound:
  assumes "zod fmt parse"
  shows "list_all (offered_before (pack_step parse) pack_managed pack_call_ok (pack_opened organizationId policyPackId role) es)
    (pd_calls (fold (pack_step parse) es (pack_opened organizationId policyPackId role)))"
  by (rule gated_page.session_offered [OF pack_gated [OF assms]])
     (simp_all add: pack_opened_def pack_kept_def pack_armed_def)

definition ex_pack_events :: "pack_event list" where
  "ex_pack_events = [PackLoaded \<lparr>pp_name = ''Base'', pp_description = None, pp_is_active = True, pp_rules = [ex_rule]\<rparr>,
     OpenRule ex_rule, TypeRule (RuleItems ''app,team''), SaveRule, PackAnswered UpdateRule None, AskDeleteRule ex_rule, ConfirmDeleteRule]"

lemma policy_calls_sound_witness:
  "list_all (offered_before (pack_step ex_parse) pack_managed pack_call_ok (pack_opened ''o1'' ''p1'' (Some Admin)) ex_pack_events)
     (pd_calls (fold (pack_step ex_parse) ex_pack_events (pack_opened ''o1'' ''p1'' (Some Admin))))
   \<and> length (pd_calls (fold (pack_step ex_parse) ex_pack_events (pack_opened ''o1'' ''p1'' (Some Admin)))) = 2"
proof
  show "length (pd_calls (fold (pack_step ex_parse) ex_pack_events (pack_opened ''o1'' ''p1'' (Some Admin)))) = 2"
    by code_simp
qed (rule policy_calls_sound [OF zod_ex])

text \<open>A viewer changes nothing.\<close>

lemma viewer_changes_no_policy:
  "pd_calls (fold (pack_step ex_parse) ex_pack_events (pack_opened ''o1'' ''p1'' (Some Viewer))) = []"
  by code_simp

text \<open>The answer of a rule saved before its dialog was left closes the dialog opened since.\<close>

lemma answer_closes_other_rule:
  "let s = fold (pack_step ex_parse) [PackLoaded \<lparr>pp_name = ''Base'', pp_description = None, pp_is_active = True, pp_rules = [ex_rule]\<rparr>,
        OpenRule ex_rule, SaveRule, CloseRule, OpenNewRule, PackAnswered UpdateRule None] (pack_opened ''o1'' ''p1'' (Some Admin))
   in \<not> pd_ruleOpen s \<and> length (pd_calls s) = 1"
  by code_simp

end
