(* ===== verification/Provider_Admin.thy ===== *)
theory Provider_Admin
  imports Policy_Admin
begin

text \<open>
  components/providers/providers-page.tsx: the settings of the language model providers, for one
  organization or for the platform.  A panel has a table of configurations and a table of routing
  policies, and a dialog that edits a row of each.
\<close>

section \<open>State\<close>

datatype scope = OrgScope | PlatformScope

record provider_config =
  cf_provider_name :: string
  cf_enabled :: bool
  cf_default_model :: string
  cf_timeout_seconds :: rat
  cf_max_retries :: rat
  cf_priority :: rat
  cf_max_output_tokens :: rat
  cf_secret_env_key :: string
  cf_base_url_env_key :: "string option"
  cf_model_env_key :: "string option"

record provider_routing =
  pu_operation :: string
  pu_primary_provider :: string
  pu_fallback_providers :: "string list"

record config_form =
  fc_enabled :: bool
  fc_default_model :: string
  fc_timeout_seconds :: rat
  fc_max_retries :: rat
  fc_priority :: rat
  fc_max_output_tokens :: rat
  fc_secret_env_key :: string
  fc_base_url_env_key :: string
  fc_model_env_key :: string

record routing_form =
  fr_primary_provider :: string
  fr_fallback_providers :: "string list"

record provider_panel =
  pv_scope :: scope
  pv_organizationId :: string
  pv_canEdit :: bool
  pv_editConfig :: "provider_config option"
  pv_editRouting :: "provider_routing option"
  pv_configForm :: config_form
  pv_routingForm :: routing_form
  pv_configPending :: "provider_config list"
  pv_routingPending :: "provider_routing list"
  pv_calls :: "api_call list"
  pv_notices :: "notice list"

section \<open>The page\<close>

text \<open>Who sees which panel: the scopes with the value of \<open>canEdit\<close>, none when access is denied.\<close>

definition canEditOrg :: "OrgRole option \<Rightarrow> bool" where
  "canEditOrg role = (case role of Some r \<Rightarrow> can r OrganizationUpdate | None \<Rightarrow> False)"

definition panels :: "OrgRole option \<Rightarrow> string option \<Rightarrow> (scope \<times> bool) list" where
  "panels role userRole =
     (let isPlatformAdmin = (userRole = Some ''admin'') in
      if \<not> canEditOrg role \<and> \<not> isPlatformAdmin then []
      else if isPlatformAdmin then [(OrgScope, canEditOrg role), (PlatformScope, True)]
      else [(OrgScope, canEditOrg role)])"

text \<open>The queries of a panel: only those of its scope are enabled.\<close>

definition panel_queries :: "scope \<Rightarrow> string \<Rightarrow> hook_query list" where
  "panel_queries sc organizationId =
     [(useOrgProviderConfigs organizationId)\<lparr>hq_enabled := sc = OrgScope\<rparr>,
      (useOrgProviderRouting organizationId)\<lparr>hq_enabled := sc = OrgScope\<rparr>,
      useAdminProviderConfigs\<lparr>hq_enabled := sc = PlatformScope\<rparr>,
      useAdminProviderRouting\<lparr>hq_enabled := sc = PlatformScope\<rparr>,
      useAdminProviderHealth\<lparr>hq_enabled := sc = PlatformScope\<rparr>]"

section \<open>The dialog of a configuration\<close>

definition config_form_default :: config_form where
  "config_form_default =
     \<lparr>fc_enabled = True, fc_default_model = [], fc_timeout_seconds = 60, fc_max_retries = 2, fc_priority = 0,
      fc_max_output_tokens = 4096, fc_secret_env_key = [], fc_base_url_env_key = [], fc_model_env_key = []\<rparr>"

definition text_or_empty :: "string option \<Rightarrow> string" where
  "text_or_empty v = (case v of Some t \<Rightarrow> t | None \<Rightarrow> [])"

definition config_form_of :: "provider_config \<Rightarrow> config_form" where
  "config_form_of c =
     \<lparr>fc_enabled = cf_enabled c, fc_default_model = cf_default_model c, fc_timeout_seconds = cf_timeout_seconds c,
      fc_max_retries = cf_max_retries c, fc_priority = cf_priority c, fc_max_output_tokens = cf_max_output_tokens c,
      fc_secret_env_key = [], fc_base_url_env_key = text_or_empty (cf_base_url_env_key c),
      fc_model_env_key = text_or_empty (cf_model_env_key c)\<rparr>"

text \<open>\<open>Number(event.target.value)\<close>; the value of a number input that is no number is empty.\<close>

definition number_typed :: "string \<Rightarrow> rat" where
  "number_typed t = (case finite_value (js_Number t) of Some q \<Rightarrow> q | None \<Rightarrow> 0)"

datatype config_input =
    CfEnabled bool | CfModel string | CfTimeout string | CfRetries string | CfPriority string | CfTokens string
  | CfSecret string | CfBaseUrl string | CfModelKey string

text \<open>The fields of the environment keys are shown for the platform only.\<close>

fun config_typed :: "scope \<Rightarrow> config_input \<Rightarrow> config_form \<Rightarrow> config_form" where
  "config_typed sc (CfEnabled b) f = f\<lparr>fc_enabled := b\<rparr>"
| "config_typed sc (CfModel v) f = f\<lparr>fc_default_model := v\<rparr>"
| "config_typed sc (CfTimeout v) f = f\<lparr>fc_timeout_seconds := number_typed v\<rparr>"
| "config_typed sc (CfRetries v) f = f\<lparr>fc_max_retries := number_typed v\<rparr>"
| "config_typed sc (CfPriority v) f = f\<lparr>fc_priority := number_typed v\<rparr>"
| "config_typed sc (CfTokens v) f = f\<lparr>fc_max_output_tokens := number_typed v\<rparr>"
| "config_typed sc (CfSecret v) f = (if sc = PlatformScope then f\<lparr>fc_secret_env_key := v\<rparr> else f)"
| "config_typed sc (CfBaseUrl v) f = (if sc = PlatformScope then f\<lparr>fc_base_url_env_key := v\<rparr> else f)"
| "config_typed sc (CfModelKey v) f = (if sc = PlatformScope then f\<lparr>fc_model_env_key := v\<rparr> else f)"

definition config_values :: "config_form \<Rightarrow> json" where
  "config_values f = JObj
     [(''enabled'', JBool (fc_enabled f)), (''default_model'', JStr (fc_default_model f)),
      (''timeout_seconds'', JNum (fc_timeout_seconds f)), (''max_retries'', JNum (fc_max_retries f)),
      (''priority'', JNum (fc_priority f)), (''max_output_tokens'', JNum (fc_max_output_tokens f)),
      (''secret_env_key'', JStr (fc_secret_env_key f)), (''base_url_env_key'', JStr (fc_base_url_env_key f)),
      (''model_env_key'', JStr (fc_model_env_key f))]"

text \<open>\<open>values.secret_env_key || undefined\<close>\<close>

definition js_field_or_undefined :: "json \<Rightarrow> string \<Rightarrow> (string \<times> json) list" where
  "js_field_or_undefined v k = (case js_prop v k of Some x \<Rightarrow> if js_truthy x then [(k, x)] else [] | None \<Rightarrow> [])"

definition config_body :: "scope \<Rightarrow> json \<Rightarrow> json" where
  "config_body sc v = JObj
     (js_field v ''enabled'' @ js_field v ''default_model'' @ js_field v ''timeout_seconds'' @ js_field v ''max_retries''
      @ js_field v ''priority'' @ js_field v ''max_output_tokens''
      @ (if sc = PlatformScope then
           js_field_or_undefined v ''secret_env_key''
           @ [(''base_url_env_key'', truthy_or_null (js_prop v ''base_url_env_key'')),
              (''model_env_key'', truthy_or_null (js_prop v ''model_env_key''))]
         else []))"

definition config_call :: "provider_panel \<Rightarrow> provider_config \<Rightarrow> json \<Rightarrow> api_call" where
  "config_call s c body =
     (if pv_scope s = PlatformScope then patchAdminProviderConfig (cf_provider_name c) body
      else patchOrgProviderConfig (pv_organizationId s) (cf_provider_name c) body)"

definition submit_config :: "parser \<Rightarrow> provider_panel \<Rightarrow> provider_panel" where
  "submit_config parse s =
     (case parse adminProviderConfigPatchSchema (Some (config_values (pv_configForm s))) of
        Some (Some v) \<Rightarrow>
          (case pv_editConfig s of
             None \<Rightarrow> s
           | Some c \<Rightarrow> s\<lparr>pv_configPending := pv_configPending s @ [c],
                         pv_calls := pv_calls s @ [config_call s c (config_body (pv_scope s) v)]\<rparr>)
      | _ \<Rightarrow> s)"

definition config_answered :: "provider_config \<Rightarrow> js_exn option \<Rightarrow> provider_panel \<Rightarrow> provider_panel" where
  "config_answered c failed s =
     (let s1 = s\<lparr>pv_configPending := remove1 c (pv_configPending s)\<rparr> in
      case failed of
        None \<Rightarrow> s1\<lparr>pv_notices := pv_notices s1 @ [Success (''Updated '' @ cf_provider_name c)], pv_editConfig := None\<rparr>
      | Some e \<Rightarrow> s1\<lparr>pv_notices := pv_notices s1 @ [Failure (error_text e ''Failed to update provider'')]\<rparr>)"

section \<open>The dialog of a routing policy\<close>

definition routing_form_of :: "provider_routing \<Rightarrow> routing_form" where
  "routing_form_of r =
     \<lparr>fr_primary_provider = pu_primary_provider r,
      fr_fallback_providers = filter (\<lambda>n. n \<in> set PROVIDER_NAMES) (pu_fallback_providers r)\<rparr>"

definition toggleFallback :: "string \<Rightarrow> bool \<Rightarrow> routing_form \<Rightarrow> routing_form" where
  "toggleFallback provider checked f =
     (if checked \<and> provider \<noteq> fr_primary_provider f
      then f\<lparr>fr_fallback_providers := fr_fallback_providers f @ [provider]\<rparr>
      else f\<lparr>fr_fallback_providers := filter (\<lambda>item. item \<noteq> provider) (fr_fallback_providers f)\<rparr>)"

text \<open>The boxes: checked when the provider is in the list, disabled for the primary one; a press turns it.\<close>

definition press_fallback :: "string \<Rightarrow> routing_form \<Rightarrow> routing_form" where
  "press_fallback provider f =
     (if fr_primary_provider f = provider then f
      else toggleFallback provider (provider \<notin> set (fr_fallback_providers f)) f)"

definition routing_values :: "routing_form \<Rightarrow> json" where
  "routing_values f = JObj
     [(''primary_provider'', JStr (fr_primary_provider f)), (''fallback_providers'', JArr (map JStr (fr_fallback_providers f)))]"

definition routing_body :: "json \<Rightarrow> json" where
  "routing_body v = JObj (js_field v ''primary_provider'' @ js_field v ''fallback_providers'')"

definition routing_call :: "provider_panel \<Rightarrow> provider_routing \<Rightarrow> json \<Rightarrow> api_call" where
  "routing_call s r body =
     (if pv_scope s = PlatformScope then patchAdminProviderRouting (pu_operation r) body
      else patchOrgProviderRouting (pv_organizationId s) (pu_operation r) body)"

definition submit_routing :: "parser \<Rightarrow> provider_panel \<Rightarrow> provider_panel" where
  "submit_routing parse s =
     (case parse providerRoutingPatchSchema (Some (routing_values (pv_routingForm s))) of
        Some (Some v) \<Rightarrow>
          (case pv_editRouting s of
             None \<Rightarrow> s
           | Some r \<Rightarrow> s\<lparr>pv_routingPending := pv_routingPending s @ [r],
                         pv_calls := pv_calls s @ [routing_call s r (routing_body v)]\<rparr>)
      | _ \<Rightarrow> s)"

text \<open>The operation is one of the five of the backend, so its label is a text.\<close>

definition routing_label :: "provider_routing \<Rightarrow> string" where
  "routing_label r = (case operationLabel (pu_operation r) of Own l \<Rightarrow> l | _ \<Rightarrow> pu_operation r)"

definition routing_answered :: "provider_routing \<Rightarrow> js_exn option \<Rightarrow> provider_panel \<Rightarrow> provider_panel" where
  "routing_answered r failed s =
     (let s1 = s\<lparr>pv_routingPending := remove1 r (pv_routingPending s)\<rparr> in
      case failed of
        None \<Rightarrow> s1\<lparr>pv_notices := pv_notices s1 @ [Success (''Updated routing for '' @ routing_label r)], pv_editRouting := None\<rparr>
      | Some e \<Rightarrow> s1\<lparr>pv_notices := pv_notices s1 @ [Failure (error_text e ''Failed to update routing'')]\<rparr>)"

section \<open>The panel\<close>

datatype provider_event =
    CanEditChanged bool
  | OpenConfig provider_config | CloseConfig | TypeConfig config_input | SaveConfig
  | ConfigAnswered provider_config "js_exn option"
  | OpenRouting provider_routing | CloseRouting | ChoosePrimary string | PressFallback string | SaveRouting
  | RoutingAnswered provider_routing "js_exn option"

definition panel_opened :: "scope \<Rightarrow> string \<Rightarrow> bool \<Rightarrow> provider_panel" where
  "panel_opened sc organizationId canEdit =
     \<lparr>pv_scope = sc, pv_organizationId = organizationId, pv_canEdit = canEdit, pv_editConfig = None,
      pv_editRouting = None, pv_configForm = config_form_default,
      pv_routingForm = \<lparr>fr_primary_provider = ''gemini'', fr_fallback_providers = []\<rparr>,
      pv_configPending = [], pv_routingPending = [], pv_calls = [], pv_notices = []\<rparr>"

text \<open>While a call is pending all fields but the switch are disabled.\<close>

definition config_input_enabled :: "provider_panel \<Rightarrow> config_input \<Rightarrow> bool" where
  "config_input_enabled s i =
     (pv_editConfig s \<noteq> None \<and> (pv_configPending s = [] \<or> (case i of CfEnabled _ \<Rightarrow> True | _ \<Rightarrow> False)))"

fun provider_step :: "parser \<Rightarrow> provider_event \<Rightarrow> provider_panel \<Rightarrow> provider_panel" where
  "provider_step parse (CanEditChanged b) s = s\<lparr>pv_canEdit := b\<rparr>"
| "provider_step parse (OpenConfig c) s =
     (if pv_canEdit s \<and> pv_editConfig s = None then s\<lparr>pv_editConfig := Some c, pv_configForm := config_form_of c\<rparr> else s)"
| "provider_step parse CloseConfig s = s\<lparr>pv_editConfig := None\<rparr>"
| "provider_step parse (TypeConfig i) s =
     (if config_input_enabled s i then s\<lparr>pv_configForm := config_typed (pv_scope s) i (pv_configForm s)\<rparr> else s)"
| "provider_step parse SaveConfig s =
     (if pv_editConfig s \<noteq> None \<and> pv_configPending s = [] then submit_config parse s else s)"
| "provider_step parse (ConfigAnswered c failed) s =
     (if c \<in> set (pv_configPending s) then config_answered c failed s else s)"
| "provider_step parse (OpenRouting r) s =
     (if pv_canEdit s \<and> pv_editRouting s = None then s\<lparr>pv_editRouting := Some r, pv_routingForm := routing_form_of r\<rparr> else s)"
| "provider_step parse CloseRouting s = s\<lparr>pv_editRouting := None\<rparr>"
| "provider_step parse (ChoosePrimary p) s =
     (if pv_editRouting s \<noteq> None \<and> pv_routingPending s = []
      then s\<lparr>pv_routingForm := (pv_routingForm s)\<lparr>fr_primary_provider := p\<rparr>\<rparr> else s)"
| "provider_step parse (PressFallback p) s =
     (if pv_editRouting s \<noteq> None \<and> pv_routingPending s = []
      then s\<lparr>pv_routingForm := press_fallback p (pv_routingForm s)\<rparr> else s)"
| "provider_step parse SaveRouting s =
     (if pv_editRouting s \<noteq> None \<and> pv_routingPending s = [] then submit_routing parse s else s)"
| "provider_step parse (RoutingAnswered r failed) s =
     (if r \<in> set (pv_routingPending s) then routing_answered r failed s else s)"

section \<open>What a panel asks for\<close>

definition config_body_ok :: "scope \<Rightarrow> config_form \<Rightarrow> json \<Rightarrow> bool" where
  "config_body_ok sc f body =
     (js_prop body ''enabled'' = Some (JBool (fc_enabled f))
      \<and> js_prop body ''default_model'' = Some (JStr (js_trim (fc_default_model f))) \<and> js_trim (fc_default_model f) \<noteq> []
      \<and> js_prop body ''timeout_seconds'' = Some (JNum (fc_timeout_seconds f)) \<and> int_in 1 (Some 600) (JNum (fc_timeout_seconds f))
      \<and> js_prop body ''max_retries'' = Some (JNum (fc_max_retries f)) \<and> int_in 0 (Some 10) (JNum (fc_max_retries f))
      \<and> js_prop body ''priority'' = Some (JNum (fc_priority f)) \<and> int_in 0 (Some 1000) (JNum (fc_priority f))
      \<and> js_prop body ''max_output_tokens'' = Some (JNum (fc_max_output_tokens f))
      \<and> int_in 1 (Some 128000) (JNum (fc_max_output_tokens f))
      \<and> js_prop body ''secret_env_key'' =
          (if sc = PlatformScope \<and> js_trim (fc_secret_env_key f) \<noteq> [] then Some (JStr (js_trim (fc_secret_env_key f))) else None)
      \<and> (if sc = PlatformScope then js_prop body ''base_url_env_key'' \<noteq> None \<and> js_prop body ''model_env_key'' \<noteq> None
         else js_prop body ''base_url_env_key'' = None \<and> js_prop body ''model_env_key'' = None))"

definition routing_body_ok :: "routing_form \<Rightarrow> json \<Rightarrow> bool" where
  "routing_body_ok f body =
     (js_prop body ''primary_provider'' = Some (JStr (fr_primary_provider f))
      \<and> js_prop body ''fallback_providers'' = Some (JArr (map JStr (fr_fallback_providers f)))
      \<and> set (fr_primary_provider f # fr_fallback_providers f) \<subseteq> set PROVIDER_NAMES)"

definition provider_call_ok :: "provider_panel \<Rightarrow> provider_event \<Rightarrow> api_call \<Rightarrow> bool" where
  "provider_call_ok s ev c =
     (case ev of
        SaveConfig \<Rightarrow> pv_configPending s = [] \<and> (\<exists>f body. pv_editConfig s = Some f \<and> c = config_call s f body
          \<and> config_body_ok (pv_scope s) (pv_configForm s) body)
      | SaveRouting \<Rightarrow> pv_routingPending s = [] \<and> (\<exists>r body. pv_editRouting s = Some r \<and> c = routing_call s r body
          \<and> routing_body_ok (pv_routingForm s) body)
      | _ \<Rightarrow> False)"

text \<open>The scope and the organization of a panel are fixed; its fallbacks never repeat when those of the
  policy did not.\<close>

definition panel_kept :: "scope \<Rightarrow> string \<Rightarrow> provider_panel \<Rightarrow> bool" where
  "panel_kept sc organizationId s = (pv_scope s = sc \<and> pv_organizationId s = organizationId)"

lemma panel_kept_step: "panel_kept sc i s \<Longrightarrow> panel_kept sc i (provider_step parse ev s)"
  by (cases ev) (auto simp: panel_kept_def submit_config_def submit_routing_def config_answered_def routing_answered_def Let_def
      split: option.split)

context zod
begin

lemma trimmed_literal: "parse (optionalText n) (Some (JStr s)) = Some u \<Longrightarrow> u = Some (JStr (js_trim s)) \<or> u = Some (JStr []) \<and> s = []"
  by (auto simp: optionalText_def or_law optional_law string_law literal_law split: option.splits if_splits)

lemma enum_array_value:
  "parse (ZArray (ZEnum ns)) (Some (JArr (map JStr xs))) = Some u \<Longrightarrow> u = Some (JArr (map JStr xs)) \<and> set xs \<subseteq> set ns"
proof -
  have "all_some (\<lambda>x. Option.bind (parse (ZEnum ns) (Some x)) id) (map JStr xs) = Some ys \<Longrightarrow>
    ys = map JStr xs \<and> set xs \<subseteq> set ns" for ys
    by (induction xs arbitrary: ys) (auto simp: enum_law split: option.splits if_splits)
  then show "parse (ZArray (ZEnum ns)) (Some (JArr (map JStr xs))) = Some u \<Longrightarrow> u = Some (JArr (map JStr xs)) \<and> set xs \<subseteq> set ns"
    by (auto simp: array_law)
qed

lemma routing_value:
  assumes "parse providerRoutingPatchSchema (Some (routing_values f)) = Some (Some v)"
  shows "routing_body_ok f (routing_body v)"
proof -
  note g = object_field [OF assms [unfolded providerRoutingPatchSchema_def]]
  have "parse (ZEnum PROVIDER_NAMES) (js_prop (routing_values f) ''primary_provider'') = Some (js_prop v ''primary_provider'')"
    "parse (ZArray (ZEnum PROVIDER_NAMES)) (js_prop (routing_values f) ''fallback_providers'') = Some (js_prop v ''fallback_providers'')"
    by (rule g; simp)+
  then have "js_prop v ''primary_provider'' = Some (JStr (fr_primary_provider f))" "fr_primary_provider f \<in> set PROVIDER_NAMES"
    "js_prop v ''fallback_providers'' = Some (JArr (map JStr (fr_fallback_providers f)))"
    "set (fr_fallback_providers f) \<subseteq> set PROVIDER_NAMES"
    using enum_array_value by (auto simp: routing_values_def js_prop_JObj enum_law simp del: set_simps split: if_splits)
  then show ?thesis by (simp add: routing_body_ok_def routing_body_def js_prop_JObj map_of_js_field js_field_def)
qed

lemma config_value:
  assumes "parse adminProviderConfigPatchSchema (Some (config_values f)) = Some (Some v)"
  shows "config_body_ok sc f (config_body sc v)"
proof -
  note g = object_field [OF assms [unfolded adminProviderConfigPatchSchema_def providerConfigFields_def]]
  have p: "parse ZBool (js_prop (config_values f) ''enabled'') = Some (js_prop v ''enabled'')"
    "parse (ZString [Trim, MinLength 1, MaxLength 120]) (js_prop (config_values f) ''default_model'') = Some (js_prop v ''default_model'')"
    "parse (ZInt 1 (Some 600)) (js_prop (config_values f) ''timeout_seconds'') = Some (js_prop v ''timeout_seconds'')"
    "parse (ZInt 0 (Some 10)) (js_prop (config_values f) ''max_retries'') = Some (js_prop v ''max_retries'')"
    "parse (ZInt 0 (Some 1000)) (js_prop (config_values f) ''priority'') = Some (js_prop v ''priority'')"
    "parse (ZInt 1 (Some 128000)) (js_prop (config_values f) ''max_output_tokens'') = Some (js_prop v ''max_output_tokens'')"
    "parse (optionalText 120) (js_prop (config_values f) ''secret_env_key'') = Some (js_prop v ''secret_env_key'')"
    by (rule g; simp)+
  have fields: "js_prop v ''enabled'' = Some (JBool (fc_enabled f))"
    "js_prop v ''default_model'' = Some (JStr (js_trim (fc_default_model f)))" "js_trim (fc_default_model f) \<noteq> []"
    "js_prop v ''timeout_seconds'' = Some (JNum (fc_timeout_seconds f))" "int_in 1 (Some 600) (JNum (fc_timeout_seconds f))"
    "js_prop v ''max_retries'' = Some (JNum (fc_max_retries f))" "int_in 0 (Some 10) (JNum (fc_max_retries f))"
    "js_prop v ''priority'' = Some (JNum (fc_priority f))" "int_in 0 (Some 1000) (JNum (fc_priority f))"
    "js_prop v ''max_output_tokens'' = Some (JNum (fc_max_output_tokens f))"
    "int_in 1 (Some 128000) (JNum (fc_max_output_tokens f))"
    using p by (auto simp: config_values_def js_prop_JObj bool_law string_law int_law split: if_splits)
  have "js_prop v ''secret_env_key'' = Some (JStr (js_trim (fc_secret_env_key f)))"
    using trimmed_literal [of 120 "fc_secret_env_key f"] p(7) trim_empty by (auto simp: config_values_def js_prop_JObj)
  then show ?thesis using fields
    by (cases sc) (simp_all add: config_body_ok_def config_body_def js_prop_JObj map_of_js_field js_field_def
      js_field_or_undefined_def js_truthy_def)
qed

end

lemma provider_calls_step:
  assumes "zod fmt parse"
  shows "\<exists>new. pv_calls (provider_step parse ev s) = pv_calls s @ new \<and> length new \<le> 1 \<and> list_all (provider_call_ok s ev) new"
proof (cases ev)
  case SaveConfig
  show ?thesis
  proof (cases "pv_configPending s = [] \<and> pv_editConfig s \<noteq> None
      \<and> (\<exists>v. parse adminProviderConfigPatchSchema (Some (config_values (pv_configForm s))) = Some (Some v))")
    case True
    then obtain f v where "pv_editConfig s = Some f"
      and v: "parse adminProviderConfigPatchSchema (Some (config_values (pv_configForm s))) = Some (Some v)" by auto
    with True show ?thesis
      by (intro one_new [where c = "config_call s f (config_body (pv_scope s) v)"])
         (auto simp: SaveConfig submit_config_def provider_call_ok_def intro!: zod.config_value [OF assms v])
  qed (rule no_new, auto simp: SaveConfig submit_config_def split: option.split)
next
  case SaveRouting
  show ?thesis
  proof (cases "pv_routingPending s = [] \<and> pv_editRouting s \<noteq> None
      \<and> (\<exists>v. parse providerRoutingPatchSchema (Some (routing_values (pv_routingForm s))) = Some (Some v))")
    case True
    then obtain r v where "pv_editRouting s = Some r"
      and v: "parse providerRoutingPatchSchema (Some (routing_values (pv_routingForm s))) = Some (Some v)" by auto
    with True show ?thesis
      by (intro one_new [where c = "routing_call s r (routing_body v)"])
         (auto simp: SaveRouting submit_routing_def provider_call_ok_def intro!: zod.routing_value [OF assms v])
  qed (rule no_new, auto simp: SaveRouting submit_routing_def split: option.split)
qed (rule no_new, auto simp: config_answered_def routing_answered_def Let_def split: option.split)

definition panel_armed :: "provider_panel \<Rightarrow> bool" where
  "panel_armed s = (pv_editConfig s \<noteq> None \<or> pv_editRouting s \<noteq> None)"

lemma panel_gated:
  assumes "zod fmt parse"
  shows "gated_page (provider_step parse) pv_calls (panel_kept sc i) provider_call_ok pv_canEdit panel_armed"
proof
  fix s ev
  show "panel_kept sc i (provider_step parse ev s)" if "panel_kept sc i s" using that by (rule panel_kept_step)
  show "\<exists>new. pv_calls (provider_step parse ev s) = pv_calls s @ new \<and> length new \<le> 1 \<and> list_all (provider_call_ok s ev) new"
    by (rule provider_calls_step [OF assms])
  show "panel_armed s \<or> pv_canEdit s" if "panel_armed (provider_step parse ev s)"
    using that by (cases ev) (auto simp: panel_armed_def submit_config_def submit_routing_def config_answered_def
        routing_answered_def Let_def split: option.splits if_splits)
  show "panel_armed s" if "provider_call_ok s ev c" for c
    using that by (auto simp: provider_call_ok_def panel_armed_def split: provider_event.splits)
qed

interpretation provider_page: gated_page "provider_step (zparse fmt)" pv_calls "panel_kept sc i" provider_call_ok pv_canEdit panel_armed
  for fmt sc i
  by (rule panel_gated) unfold_locales

text \<open>C27: a panel of provider settings sends only what was saved in one of its two dialogs, in each
  of them only while no call of that dialog is on its way (a call of the other may be), and only after a moment at which the user could edit; every number it sends is a whole one
  within the bounds of the backend and the model is not blank; the names of environment keys are
  sent for the platform only, and the name of the secret only when one was typed; a routing policy
  names known providers only.  The panel of an organization never calls for another one.\<close>

theorem provider_calls_sound:
  assumes "zod fmt parse"
  shows "list_all (offered_before (provider_step parse) pv_canEdit provider_call_ok (panel_opened sc organizationId canEdit) es)
      (pv_calls (fold (provider_step parse) es (panel_opened sc organizationId canEdit)))
    \<and> panel_kept sc organizationId (fold (provider_step parse) es (panel_opened sc organizationId canEdit))"
proof
  have kept: "panel_kept sc organizationId (panel_opened sc organizationId canEdit)" by (simp add: panel_kept_def panel_opened_def)
  note page = panel_gated [OF assms, of sc organizationId]
  show "list_all (offered_before (provider_step parse) pv_canEdit provider_call_ok (panel_opened sc organizationId canEdit) es)
      (pv_calls (fold (provider_step parse) es (panel_opened sc organizationId canEdit)))"
    by (rule gated_page.session_offered [OF page kept]) (simp_all add: panel_opened_def panel_armed_def)
  show "panel_kept sc organizationId (fold (provider_step parse) es (panel_opened sc organizationId canEdit))"
    using page kept by (metis gated_page_def guarded_page.kept_run)
qed

definition ex_config :: provider_config where
  "ex_config = \<lparr>cf_provider_name = ''gemini'', cf_enabled = True, cf_default_model = ''pro'', cf_timeout_seconds = 60,
     cf_max_retries = 2, cf_priority = 0, cf_max_output_tokens = 4096, cf_secret_env_key = ''KEY'',
     cf_base_url_env_key = Some ''URL'', cf_model_env_key = None\<rparr>"

lemma provider_calls_sound_witness:
  "list_all (offered_before (provider_step ex_parse) pv_canEdit provider_call_ok (panel_opened OrgScope ''o1'' True)
      [OpenConfig ex_config, TypeConfig (CfTimeout ''90''), SaveConfig])
     (pv_calls (fold (provider_step ex_parse) [OpenConfig ex_config, TypeConfig (CfTimeout ''90''), SaveConfig]
        (panel_opened OrgScope ''o1'' True)))
   \<and> length (pv_calls (fold (provider_step ex_parse) [OpenConfig ex_config, TypeConfig (CfTimeout ''90''), SaveConfig]
        (panel_opened OrgScope ''o1'' True))) = 1"
proof
  show "length (pv_calls (fold (provider_step ex_parse) [OpenConfig ex_config, TypeConfig (CfTimeout ''90''), SaveConfig]
        (panel_opened OrgScope ''o1'' True))) = 1"
    by code_simp
qed (rule provider_calls_sound [OF zod_ex, THEN conjunct1])

text \<open>A saved configuration of an organization does not mention the keys; the same for the platform does.\<close>

lemma ex_config_bodies:
  "map (\<lambda>sc. map fst (case config_body sc (config_values (config_form_of ex_config)) of JObj kvs \<Rightarrow> kvs | _ \<Rightarrow> []))
     [OrgScope, PlatformScope] =
   [[''enabled'', ''default_model'', ''timeout_seconds'', ''max_retries'', ''priority'', ''max_output_tokens''],
    [''enabled'', ''default_model'', ''timeout_seconds'', ''max_retries'', ''priority'', ''max_output_tokens'',
     ''base_url_env_key'', ''model_env_key'']]"
  by (simp add: config_body_def config_values_def config_form_of_def ex_config_def js_field_def js_field_or_undefined_def
      js_prop_def js_truthy_def truthy_or_null_def text_or_empty_def)

text \<open>When the primary provider is changed to one of the fallbacks it stays a fallback, and its box is
  disabled.\<close>

lemma primary_stays_a_fallback:
  "let f = routing_form_of \<lparr>pu_operation = ''chat'', pu_primary_provider = ''gemini'', pu_fallback_providers = [''llama'']\<rparr>;
       g = press_fallback ''llama'' (f\<lparr>fr_primary_provider := ''llama''\<rparr>)
   in fr_primary_provider g = ''llama'' \<and> fr_fallback_providers g = [''llama'']"
  by code_simp

end
