(* ===== verification/Artifact_Detail.thy ===== *)
theory Artifact_Detail
  imports Policy_Admin
begin

text \<open>
  components/artifacts/artifact-detail.tsx: the page of an artifact with its tags, its versions and
  their comparison, and the dialogs that change it.
\<close>

section \<open>Tags\<close>

record tag =
  tg_id :: string
  tg_name :: string

record tag_editor =
  te_artifactId :: string
  te_newTagName :: string
  te_selectedExisting :: string
  te_adding :: "string list"
  te_removing :: "string list"
  te_calls :: "api_call list"
  te_notices :: "notice list"

definition tag_editor_opened :: "string \<Rightarrow> tag_editor" where
  "tag_editor_opened artifactId =
     \<lparr>te_artifactId = artifactId, te_newTagName = [], te_selectedExisting = [], te_adding = [], te_removing = [],
      te_calls = [], te_notices = []\<rparr>"

definition tags_query :: "string option \<Rightarrow> hook_query" where
  "tags_query organizationId =
     useArtifactTags [(''organization_id'', case organizationId of Some i \<Rightarrow> QStr i | None \<Rightarrow> QNull)]"

definition tagIdByName :: "tag list \<Rightarrow> string \<rightharpoonup> string" where
  "tagIdByName tags = fold (\<lambda>t m. m(js_lower (tg_name t) \<mapsto> tg_id t)) tags Map.empty"

definition unassignedTags :: "tag list \<Rightarrow> string list \<Rightarrow> tag list" where
  "unassignedTags tags tagNames =
     filter (\<lambda>t. \<not> list_ex (\<lambda>n. js_lower n = js_lower (tg_name t)) tagNames) tags"

text \<open>\<open>newTagName.trim() || selectedExisting\<close>\<close>

definition tag_to_add :: "tag_editor \<Rightarrow> string" where
  "tag_to_add s = (if js_trim (te_newTagName s) \<noteq> [] then js_trim (te_newTagName s) else te_selectedExisting s)"

definition handleAdd :: "tag_editor \<Rightarrow> tag_editor" where
  "handleAdd s =
     (if tag_to_add s = [] then s
      else s\<lparr>te_adding := te_adding s @ [tag_to_add s],
             te_calls := te_calls s @ [addArtifactTag (te_artifactId s) (JObj [(''name'', JStr (tag_to_add s))])]\<rparr>)"

definition add_answered :: "string \<Rightarrow> js_exn option \<Rightarrow> tag_editor \<Rightarrow> tag_editor" where
  "add_answered name failed s =
     (let s1 = s\<lparr>te_adding := remove1 name (te_adding s)\<rparr> in
      case failed of
        None \<Rightarrow> s1\<lparr>te_notices := te_notices s1 @ [Success (''Added tag \"'' @ name @ ''\"'')], te_newTagName := [], te_selectedExisting := []\<rparr>
      | Some e \<Rightarrow> s1\<lparr>te_notices := te_notices s1 @ [Failure (error_text e ''Failed to add tag'')]\<rparr>)"

definition handleRemove :: "tag list \<Rightarrow> string \<Rightarrow> tag_editor \<Rightarrow> tag_editor" where
  "handleRemove tags name s =
     (case nonempty_opt (tagIdByName tags (js_lower name)) of
        None \<Rightarrow> s\<lparr>te_notices := te_notices s @ [Failure ''Could not resolve tag ID'']\<rparr>
      | Some i \<Rightarrow> s\<lparr>te_removing := te_removing s @ [name], te_calls := te_calls s @ [removeArtifactTag (te_artifactId s) i]\<rparr>)"

definition remove_answered :: "string \<Rightarrow> js_exn option \<Rightarrow> tag_editor \<Rightarrow> tag_editor" where
  "remove_answered name failed s =
     (let s1 = s\<lparr>te_removing := remove1 name (te_removing s)\<rparr> in
      case failed of
        None \<Rightarrow> s1\<lparr>te_notices := te_notices s1 @ [Success (''Removed tag \"'' @ name @ ''\"'')]\<rparr>
      | Some e \<Rightarrow> s1\<lparr>te_notices := te_notices s1 @ [Failure (error_text e ''Failed to remove tag'')]\<rparr>)"

definition tag_key :: "tag \<Rightarrow> string" where
  "tag_key t = js_lower (tg_name t)"

lemma tag_not_put: "n \<notin> tag_key ` set tags \<Longrightarrow> fold (\<lambda>t m. m(tag_key t \<mapsto> tg_id t)) tags m n = m n"
  by (induction tags arbitrary: m) auto

lemma tag_put:
  assumes "t \<in> set tags" and "distinct (map tag_key tags)"
  shows "fold (\<lambda>t m. m(tag_key t \<mapsto> tg_id t)) tags m (tag_key t) = Some (tg_id t)"
  using assms
proof (induction tags arbitrary: m)
  case (Cons u tags)
  show ?case
  proof (cases "t = u")
    case True
    with Cons.prems have "tag_key t \<notin> tag_key ` set tags" by simp
    from tag_not_put [OF this] True show ?thesis by (simp add: fun_upd_same del: fun_upd_apply)
  next
    case False
    with Cons show ?thesis by simp
  qed
qed simp

lemma tag_found:
  assumes "t \<in> set tags" and "distinct (map tag_key tags)"
  shows "tagIdByName tags (js_lower (tg_name t)) = Some (tg_id t)"
  using tag_put [OF assms, of Map.empty] by (simp add: tagIdByName_def tag_key_def)

text \<open>A press on the cross of a tag removes that tag, whatever the case it is written in, and a tag is
  offered for adding exactly when it is not on the artifact.\<close>

lemma removed_tag_is_the_one:
  assumes "t \<in> set tags" "distinct (map tag_key tags)" "tg_id t \<noteq> []" "js_lower name = js_lower (tg_name t)"
  shows "te_calls (handleRemove tags name s) = te_calls s @ [removeArtifactTag (te_artifactId s) (tg_id t)]"
  using tag_found [OF assms(1,2)] assms(3,4) by (simp add: handleRemove_def nonempty_opt_def)

lemma unassigned_iff:
  "t \<in> set (unassignedTags tags tagNames) \<longleftrightarrow> t \<in> set tags \<and> js_lower (tg_name t) \<notin> js_lower ` set tagNames"
  unfolding unassignedTags_def by (force simp: list_ex_iff image_iff)

text \<open>The tags are those of the workspace: a tag of an artifact of another organization is not found.\<close>

lemma foreign_tag_stays:
  "te_calls (handleRemove [] name s) = te_calls s"
  by (simp add: handleRemove_def tagIdByName_def nonempty_opt_def)

section \<open>The page\<close>

record artifact_shown =
  at_organization_id :: "string option"
  at_user_id :: string
  at_name :: string
  at_description :: "string option"
  at_is_favorited :: bool
  at_archived_at :: "string option"
  at_current_version_number :: "int option"
  at_content :: "string option"

datatype detail_call = SaveDetails | NewVersion | RestoreOld | DeleteIt | Favorite bool | Archive bool

record artifact_detail =
  dt_artifactId :: string
  dt_role :: "OrgRole option"
  dt_data :: "artifact_shown option"
  dt_editOpen :: bool
  dt_versionOpen :: bool
  dt_deleteOpen :: bool
  dt_restoreVersion :: "int option"
  dt_fromVersion :: "int option"
  dt_toVersion :: "int option"
  dt_name :: string
  dt_description :: string
  dt_content :: string
  dt_pending :: "detail_call list"
  dt_calls :: "api_call list"
  dt_notices :: "notice list"
  dt_pushed :: "string list"

definition detail_opened :: "string \<Rightarrow> OrgRole option \<Rightarrow> artifact_detail" where
  "detail_opened artifactId role =
     \<lparr>dt_artifactId = artifactId, dt_role = role, dt_data = None, dt_editOpen = False, dt_versionOpen = False,
      dt_deleteOpen = False, dt_restoreVersion = None, dt_fromVersion = None, dt_toVersion = None, dt_name = [],
      dt_description = [], dt_content = [], dt_pending = [], dt_calls = [], dt_notices = [], dt_pushed = []\<rparr>"

text \<open>The versions compared: those chosen, otherwise the newest and the one before it; the numbers of the
  versions come newest first.\<close>

definition resolvedFromVersion :: "int list \<Rightarrow> artifact_detail \<Rightarrow> int option" where
  "resolvedFromVersion versions s =
     (case dt_fromVersion s of Some n \<Rightarrow> Some n | None \<Rightarrow> if 2 \<le> length versions then Some (versions ! 1) else None)"

definition resolvedToVersion :: "int list \<Rightarrow> artifact_detail \<Rightarrow> int option" where
  "resolvedToVersion versions s =
     (case dt_toVersion s of Some n \<Rightarrow> Some n | None \<Rightarrow> if 1 \<le> length versions then Some (versions ! 0) else None)"

definition detail_queries :: "int list \<Rightarrow> artifact_detail \<Rightarrow> hook_query list" where
  "detail_queries versions s =
     (let i = dt_artifactId s; f = resolvedFromVersion versions s; t = resolvedToVersion versions s in
      [useArtifact i, useArtifactVersions i [(''limit'', QInt 50), (''offset'', QInt 0)],
       useArtifactDiff i f t, useArtifactVersion i f, useArtifactVersion i t])"

definition detail_ask :: "detail_call \<Rightarrow> api_call \<Rightarrow> artifact_detail \<Rightarrow> artifact_detail" where
  "detail_ask k c s = s\<lparr>dt_pending := dt_pending s @ [k], dt_calls := dt_calls s @ [c]\<rparr>"

definition details_values :: "artifact_detail \<Rightarrow> json" where
  "details_values s = JObj [(''name'', JStr (dt_name s)), (''description'', JStr (dt_description s))]"

definition details_body :: "json \<Rightarrow> json" where
  "details_body v = JObj (js_field v ''name'' @ [(''description'', truthy_or_null (js_prop v ''description''))])"

definition handleUpdate :: "parser \<Rightarrow> artifact_detail \<Rightarrow> artifact_detail" where
  "handleUpdate parse s =
     (case parse artifactUpdateSchema (Some (details_values s)) of
        Some (Some v) \<Rightarrow> detail_ask SaveDetails (updateArtifact (dt_artifactId s) (details_body v)) s
      | _ \<Rightarrow> s)"

definition handleNewVersion :: "parser \<Rightarrow> artifact_detail \<Rightarrow> artifact_detail" where
  "handleNewVersion parse s =
     (case parse artifactVersionSchema (Some (JObj [(''content'', JStr (dt_content s))])) of
        Some (Some v) \<Rightarrow> detail_ask NewVersion (createVersion (dt_artifactId s) (JObj (js_field v ''content''))) s
      | _ \<Rightarrow> s)"

definition handleRestore :: "artifact_detail \<Rightarrow> artifact_detail" where
  "handleRestore s =
     (case dt_restoreVersion s of None \<Rightarrow> s | Some n \<Rightarrow> detail_ask RestoreOld (restoreVersion (dt_artifactId s) n) s)"

definition handleDelete :: "artifact_detail \<Rightarrow> artifact_detail" where
  "handleDelete s = detail_ask DeleteIt (deleteArtifact (dt_artifactId s)) s"

definition favorite_call :: "string \<Rightarrow> bool \<Rightarrow> api_call" where
  "favorite_call i favorited = hm_call (useFavoriteArtifact i favorited)"

definition archive_call :: "string \<Rightarrow> bool \<Rightarrow> api_call" where
  "archive_call i archived = hm_call (useArchiveArtifact i archived)"

definition handleFavoriteToggle :: "artifact_detail \<Rightarrow> artifact_detail" where
  "handleFavoriteToggle s =
     (case dt_data s of
        None \<Rightarrow> s
      | Some a \<Rightarrow> detail_ask (Favorite (at_is_favorited a)) (favorite_call (dt_artifactId s) (at_is_favorited a)) s)"

definition is_archived :: "artifact_shown \<Rightarrow> bool" where
  "is_archived a = (nonempty_opt (at_archived_at a) \<noteq> None)"

definition handleArchiveToggle :: "artifact_detail \<Rightarrow> artifact_detail" where
  "handleArchiveToggle s =
     (case dt_data s of
        None \<Rightarrow> s
      | Some a \<Rightarrow> detail_ask (Archive (is_archived a)) (archive_call (dt_artifactId s) (is_archived a)) s)"

text \<open>The answer of a restoration has the two numbers of its message.\<close>

definition detail_succeeded :: "detail_call \<Rightarrow> int \<times> int \<Rightarrow> artifact_detail \<Rightarrow> artifact_detail" where
  "detail_succeeded k ns s =
     (case k of
        SaveDetails \<Rightarrow> s\<lparr>dt_notices := dt_notices s @ [Success ''Artifact updated''], dt_editOpen := False\<rparr>
      | NewVersion \<Rightarrow> s\<lparr>dt_notices := dt_notices s @ [Success ''New version created''], dt_versionOpen := False\<rparr>
      | RestoreOld \<Rightarrow> s\<lparr>dt_notices := dt_notices s @
          [Success (''Restored v'' @ show_int (fst ns) @ '' as v'' @ show_int (snd ns))], dt_restoreVersion := None\<rparr>
      | DeleteIt \<Rightarrow> s\<lparr>dt_notices := dt_notices s @ [Success ''Artifact deleted''], dt_pushed := dt_pushed s @ [''/artifacts'']\<rparr>
      | Favorite b \<Rightarrow> s\<lparr>dt_notices := dt_notices s @ [Success (if b then ''Removed from favorites'' else ''Added to favorites'')]\<rparr>
      | Archive b \<Rightarrow> s\<lparr>dt_notices := dt_notices s @ [Success (if b then ''Artifact unarchived'' else ''Artifact archived'')]\<rparr>)"

definition detail_failure_text :: "detail_call \<Rightarrow> string" where
  "detail_failure_text k =
     (case k of SaveDetails \<Rightarrow> ''Failed to update artifact'' | NewVersion \<Rightarrow> ''Failed to create version''
      | RestoreOld \<Rightarrow> ''Failed to restore version'' | DeleteIt \<Rightarrow> ''Failed to delete artifact''
      | Favorite _ \<Rightarrow> ''Failed to update favorite'' | Archive _ \<Rightarrow> ''Failed to update archive status'')"

definition detail_answered :: "detail_call \<Rightarrow> js_exn + int \<times> int \<Rightarrow> artifact_detail \<Rightarrow> artifact_detail" where
  "detail_answered k outcome s =
     (let s1 = s\<lparr>dt_pending := remove1 k (dt_pending s)\<rparr> in
      case outcome of
        Inr ns \<Rightarrow> detail_succeeded k ns s1
      | Inl e \<Rightarrow> s1\<lparr>dt_notices := dt_notices s1 @ [Failure (error_text e (detail_failure_text k))]\<rparr>)"

datatype detail_event =
    DetailRole "OrgRole option" | ArtifactLoaded artifact_shown
  | OpenDetails | CloseDetails | TypeDetailName string | TypeDetailDescription string | SaveArtifact
  | OpenVersion | CloseVersion | TypeContent string | SaveVersion
  | AskRestore int | CloseRestore | ConfirmRestore
  | AskDeleteArtifact | CloseDeleteArtifact | ConfirmDeleteArtifact
  | ToggleFavorite | ToggleArchive | ChooseFrom int | ChooseTo int
  | DetailAnswered detail_call "js_exn + int \<times> int"

definition may_write :: "artifact_detail \<Rightarrow> bool" where
  "may_write s = PermissionGate ArtifactWrite (dt_role s)"

text \<open>The two effects: a form whose dialog is open is reset when the artifact loaded is a different one.\<close>

definition artifact_loaded :: "artifact_shown \<Rightarrow> artifact_detail \<Rightarrow> artifact_detail" where
  "artifact_loaded a s =
     (if dt_data s = Some a then s
      else s\<lparr>dt_data := Some a,
             dt_name := (if dt_editOpen s then at_name a else dt_name s),
             dt_description := (if dt_editOpen s then (case at_description a of Some t \<Rightarrow> t | None \<Rightarrow> []) else dt_description s),
             dt_content := (if dt_versionOpen s then (case at_content a of Some t \<Rightarrow> t | None \<Rightarrow> []) else dt_content s)\<rparr>)"

fun detail_step :: "parser \<Rightarrow> detail_event \<Rightarrow> artifact_detail \<Rightarrow> artifact_detail" where
  "detail_step parse (DetailRole r) s = s\<lparr>dt_role := r\<rparr>"
| "detail_step parse (ArtifactLoaded a) s = artifact_loaded a s"
| "detail_step parse OpenDetails s =
     (case dt_data s of
        Some a \<Rightarrow> if may_write s \<and> \<not> dt_editOpen s
          then s\<lparr>dt_editOpen := True, dt_name := at_name a, dt_description := (case at_description a of Some t \<Rightarrow> t | None \<Rightarrow> [])\<rparr> else s
      | None \<Rightarrow> s)"
| "detail_step parse CloseDetails s = s\<lparr>dt_editOpen := False\<rparr>"
| "detail_step parse (TypeDetailName v) s = (if dt_editOpen s \<and> SaveDetails \<notin> set (dt_pending s) then s\<lparr>dt_name := v\<rparr> else s)"
| "detail_step parse (TypeDetailDescription v) s = (if dt_editOpen s \<and> SaveDetails \<notin> set (dt_pending s) then s\<lparr>dt_description := v\<rparr> else s)"
| "detail_step parse SaveArtifact s = (if dt_editOpen s \<and> SaveDetails \<notin> set (dt_pending s) then handleUpdate parse s else s)"
| "detail_step parse OpenVersion s =
     (case dt_data s of
        Some a \<Rightarrow> if may_write s \<and> \<not> dt_versionOpen s
          then s\<lparr>dt_versionOpen := True, dt_content := (case at_content a of Some t \<Rightarrow> t | None \<Rightarrow> [])\<rparr> else s
      | None \<Rightarrow> s)"
| "detail_step parse CloseVersion s = s\<lparr>dt_versionOpen := False\<rparr>"
| "detail_step parse (TypeContent v) s = (if dt_versionOpen s then s\<lparr>dt_content := v\<rparr> else s)"
| "detail_step parse SaveVersion s = (if dt_versionOpen s \<and> NewVersion \<notin> set (dt_pending s) then handleNewVersion parse s else s)"
| "detail_step parse (AskRestore n) s =
     (case dt_data s of
        Some a \<Rightarrow> if may_write s \<and> at_current_version_number a \<noteq> Some n then s\<lparr>dt_restoreVersion := Some n\<rparr> else s
      | None \<Rightarrow> s)"
| "detail_step parse CloseRestore s = s\<lparr>dt_restoreVersion := None\<rparr>"
| "detail_step parse ConfirmRestore s = (if RestoreOld \<notin> set (dt_pending s) then handleRestore s else s)"
| "detail_step parse AskDeleteArtifact s = (if may_write s \<and> dt_data s \<noteq> None then s\<lparr>dt_deleteOpen := True\<rparr> else s)"
| "detail_step parse CloseDeleteArtifact s = s\<lparr>dt_deleteOpen := False\<rparr>"
| "detail_step parse ConfirmDeleteArtifact s = (if dt_deleteOpen s \<and> DeleteIt \<notin> set (dt_pending s) then handleDelete s else s)"
| "detail_step parse ToggleFavorite s =
     (if \<not> list_ex (\<lambda>k. case k of Favorite _ \<Rightarrow> True | _ \<Rightarrow> False) (dt_pending s) then handleFavoriteToggle s else s)"
| "detail_step parse ToggleArchive s =
     (if \<not> list_ex (\<lambda>k. case k of Archive _ \<Rightarrow> True | _ \<Rightarrow> False) (dt_pending s) then handleArchiveToggle s else s)"
| "detail_step parse (ChooseFrom n) s = s\<lparr>dt_fromVersion := Some n\<rparr>"
| "detail_step parse (ChooseTo n) s = s\<lparr>dt_toVersion := Some n\<rparr>"
| "detail_step parse (DetailAnswered k outcome) s = (if k \<in> set (dt_pending s) then detail_answered k outcome s else s)"

section \<open>What the page asks for\<close>

definition detail_call_ok :: "artifact_detail \<Rightarrow> detail_event \<Rightarrow> api_call \<Rightarrow> bool" where
  "detail_call_ok s ev c =
     (case ev of
        SaveArtifact \<Rightarrow> dt_editOpen s \<and> (\<exists>body. c = updateArtifact (dt_artifactId s) body
          \<and> js_prop body ''name'' = Some (JStr (js_trim (dt_name s))) \<and> js_trim (dt_name s) \<noteq> [])
      | SaveVersion \<Rightarrow> dt_versionOpen s \<and> dt_content s \<noteq> []
          \<and> c = createVersion (dt_artifactId s) (JObj [(''content'', JStr (dt_content s))])
      | ConfirmRestore \<Rightarrow> (\<exists>n. dt_restoreVersion s = Some n \<and> c = restoreVersion (dt_artifactId s) n)
      | ConfirmDeleteArtifact \<Rightarrow> dt_deleteOpen s \<and> c = deleteArtifact (dt_artifactId s)
      | ToggleFavorite \<Rightarrow> (\<exists>a. dt_data s = Some a
          \<and> c = (if at_is_favorited a then unfavoriteArtifact (dt_artifactId s) else favoriteArtifact (dt_artifactId s)))
      | ToggleArchive \<Rightarrow> (\<exists>a. dt_data s = Some a
          \<and> c = (if is_archived a then unarchiveArtifact (dt_artifactId s) else archiveArtifact (dt_artifactId s)))
      | _ \<Rightarrow> False)"

definition detail_kept :: "string \<Rightarrow> artifact_detail \<Rightarrow> bool" where
  "detail_kept i s = (dt_artifactId s = i)"

lemma detail_kept_step: "detail_kept i s \<Longrightarrow> detail_kept i (detail_step parse ev s)"
  by (cases ev) (auto simp: detail_kept_def artifact_loaded_def handleUpdate_def handleNewVersion_def handleRestore_def
      handleDelete_def handleFavoriteToggle_def handleArchiveToggle_def detail_ask_def detail_answered_def
      detail_succeeded_def Let_def split: option.split sum.split detail_call.split)

context zod
begin

lemma details_value:
  assumes "parse artifactUpdateSchema (Some (details_values s)) = Some (Some v)"
  shows "js_prop (details_body v) ''name'' = Some (JStr (js_trim (dt_name s))) \<and> js_trim (dt_name s) \<noteq> []"
proof -
  have "parse nameField (js_prop (details_values s) ''name'') = Some (js_prop v ''name'')"
    by (rule object_field [OF assms [unfolded artifactUpdateSchema_def]]) simp_all
  then have "js_prop v ''name'' = Some (JStr (js_trim (dt_name s))) \<and> js_trim (dt_name s) \<noteq> []"
    using name_value by (auto simp: details_values_def js_prop_JObj)
  then show ?thesis by (simp add: details_body_def js_prop_JObj js_field_def)
qed

lemma version_value:
  assumes "parse artifactVersionSchema (Some (JObj [(''content'', JStr t)])) = Some (Some v)"
  shows "js_field v ''content'' = [(''content'', JStr t)] \<and> t \<noteq> []"
proof -
  have "parse (ZString [MinLength 1]) (js_prop (JObj [(''content'', JStr t)]) ''content'') = Some (js_prop v ''content'')"
    by (rule object_field [OF assms [unfolded artifactVersionSchema_def]]) simp_all
  then show ?thesis by (auto simp: js_prop_JObj string_law js_field_def split: if_splits dest!: sym [of "Some _"])
qed

end

lemma detail_calls_step:
  assumes "zod fmt parse"
  shows "\<exists>new. dt_calls (detail_step parse ev s) = dt_calls s @ new \<and> length new \<le> 1 \<and> list_all (detail_call_ok s ev) new"
proof (cases ev)
  case SaveArtifact
  show ?thesis
  proof (cases "dt_editOpen s \<and> SaveDetails \<notin> set (dt_pending s) \<and> (\<exists>v. parse artifactUpdateSchema (Some (details_values s)) = Some (Some v))")
    case True
    then obtain v where v: "parse artifactUpdateSchema (Some (details_values s)) = Some (Some v)" by blast
    show ?thesis
      by (rule one_new [where c = "updateArtifact (dt_artifactId s) (details_body v)"])
         (use True v zod.details_value [OF assms v] in \<open>auto simp: SaveArtifact handleUpdate_def detail_ask_def detail_call_ok_def\<close>)
  qed (rule no_new, auto simp: SaveArtifact handleUpdate_def split: option.split)
next
  case SaveVersion
  show ?thesis
  proof (cases "dt_versionOpen s \<and> NewVersion \<notin> set (dt_pending s)
      \<and> (\<exists>v. parse artifactVersionSchema (Some (JObj [(''content'', JStr (dt_content s))])) = Some (Some v))")
    case True
    then obtain v where v: "parse artifactVersionSchema (Some (JObj [(''content'', JStr (dt_content s))])) = Some (Some v)" by blast
    show ?thesis
      by (rule one_new [where c = "createVersion (dt_artifactId s) (JObj [(''content'', JStr (dt_content s))])"])
         (use True v zod.version_value [OF assms v] in \<open>auto simp: SaveVersion handleNewVersion_def detail_ask_def detail_call_ok_def\<close>)
  qed (rule no_new, auto simp: SaveVersion handleNewVersion_def split: option.split)
next
  case (DetailAnswered k outcome)
  show ?thesis
    by (rule no_new) (auto simp: DetailAnswered detail_answered_def detail_succeeded_def Let_def split: sum.split detail_call.split)
qed (auto simp: artifact_loaded_def handleRestore_def handleDelete_def handleFavoriteToggle_def handleArchiveToggle_def
    detail_ask_def detail_call_ok_def favorite_call_def archive_call_def useFavoriteArtifact_def useArchiveArtifact_def
    split: option.split)

lemma detail_guarded:
  assumes "zod fmt parse"
  shows "guarded_page (detail_step parse) dt_calls (detail_kept i) detail_call_ok"
  by unfold_locales (rule detail_kept_step, assumption, rule detail_calls_step [OF assms])

interpretation artifact_page: guarded_page "detail_step (zparse fmt)" dt_calls "detail_kept i" detail_call_ok for fmt i
  by (rule detail_guarded) unfold_locales

text \<open>Every call of a session is justified by the dialog, or the artifact shown, at that moment.\<close>

lemma artifact_calls_sound:
  assumes "zod fmt parse"
  shows "list_all (justified (detail_step parse) detail_call_ok (detail_opened artifactId role) es)
    (dt_calls (fold (detail_step parse) es (detail_opened artifactId role)))"
  by (rule guarded_page.session_justified [OF detail_guarded [OF assms, of artifactId]])
     (simp_all add: detail_kept_def detail_opened_def)

section \<open>The controls and the backend\<close>

text \<open>services/artifact_service.py, \<open>_require_write\<close>: who may change an artifact, for a user with a role in
  some organizations.\<close>

definition backend_may_write :: "string \<Rightarrow> (string \<Rightarrow> OrgRole option) \<Rightarrow> artifact_shown \<Rightarrow> bool" where
  "backend_may_write userId roleIn a =
     (case at_organization_id a of
        None \<Rightarrow> at_user_id a = userId
      | Some i \<Rightarrow> (case roleIn i of Some r \<Rightarrow> role_has_permission r ArtifactWrite | None \<Rightarrow> False))"

text \<open>
  What \<open>useOrgRole\<close> can give in a workspace: the role of the user among the members it has loaded,
  nothing while none are loaded, or when the user is not on the page of members it asks for.  A
  page shows the members with the roles the backend knows.
\<close>

type_synonym memberships = "string \<Rightarrow> string \<Rightarrow> OrgRole option"

definition members_shown :: "memberships \<Rightarrow> string \<Rightarrow> org_member list option \<Rightarrow> bool" where
  "members_shown roles i items =
     (case items of None \<Rightarrow> True | Some ms \<Rightarrow> list_all (\<lambda>m. roles i (om_user_id m) = Some (om_role m)) ms)"

definition role_looked_up :: "memberships \<Rightarrow> string option \<Rightarrow> string \<Rightarrow> OrgRole option \<Rightarrow> bool" where
  "role_looked_up roles workspace userId r =
     (\<exists>items. (\<forall>i. workspace = Some i \<longrightarrow> members_shown roles i items)
        \<and> r = useOrganizationRole workspace (Some userId) items)"

lemma looked_up_role:
  assumes "role_looked_up roles workspace userId (Some r)"
  shows "\<exists>i. workspace = Some i \<and> roles i userId = Some r"
proof -
  obtain items where r: "Some r = useOrganizationRole workspace (Some userId) items"
    and shown: "\<forall>i. workspace = Some i \<longrightarrow> members_shown roles i items"
    using assms by (auto simp: role_looked_up_def)
  from r obtain i ms m where ws: "workspace = Some i" "items = Some ms"
    and m: "find (\<lambda>m. Some (om_user_id m) = Some userId) ms = Some m" "om_role m = r"
    by (auto simp: useOrganizationRole_def truthy_str_def split: option.splits if_splits dest!: sym [of "Some r"])
  from m(1) have "m \<in> set ms" "om_user_id m = userId" by (auto simp: find_Some_iff)
  with shown ws m(2) show ?thesis by (auto simp: members_shown_def list_all_iff)
qed

lemma role_not_loaded: "role_looked_up roles workspace userId None"
  unfolding role_looked_up_def
  by (rule exI [of _ None]) (simp add: members_shown_def useOrganizationRole_def)

text \<open>The calls of the controls that stand outside the gate: the star and the archive.\<close>

definition ungated_call :: "string \<Rightarrow> api_call \<Rightarrow> bool" where
  "ungated_call i c = (c \<in> {favoriteArtifact i, unfavoriteArtifact i, archiveArtifact i, unarchiveArtifact i})"

text \<open>A dialog is open, and a call behind the gate is made, only where the gate was open: \<open>P\<close> is what
  a role that opens the gate tells of the user.\<close>

definition behind_gate :: "bool \<Rightarrow> artifact_detail \<Rightarrow> bool" where
  "behind_gate P s =
     ((dt_editOpen s \<or> dt_versionOpen s \<or> dt_deleteOpen s \<or> dt_restoreVersion s \<noteq> None \<or> may_write s \<longrightarrow> P)
      \<and> list_all (\<lambda>c. ungated_call (dt_artifactId s) c \<or> P) (dt_calls s))"

lemma behind_gate_step:
  assumes "behind_gate P s" and "\<forall>r. ev = DetailRole r \<longrightarrow> PermissionGate ArtifactWrite r \<longrightarrow> P"
  shows "behind_gate P (detail_step parse ev s)"
  using assms
  by (cases ev; cases P)
     (auto simp: behind_gate_def may_write_def artifact_loaded_def handleUpdate_def handleNewVersion_def
      handleRestore_def handleDelete_def handleFavoriteToggle_def handleArchiveToggle_def detail_ask_def
      detail_answered_def detail_succeeded_def favorite_call_def archive_call_def useFavoriteArtifact_def
      useArchiveArtifact_def ungated_call_def Let_def split: option.split sum.split detail_call.split)

lemma behind_gate_run:
  assumes "behind_gate P s" and "\<forall>r. DetailRole r \<in> set es \<longrightarrow> PermissionGate ArtifactWrite r \<longrightarrow> P"
  shows "behind_gate P (fold (detail_step parse) es s)"
  using assms
proof (induction es arbitrary: s)
  case (Cons ev es)
  have "behind_gate P (detail_step parse ev s)" by (rule behind_gate_step) (use Cons.prems in auto)
  with Cons show ?case by auto
qed simp

lemma detail_kept_run: "detail_kept i s \<Longrightarrow> detail_kept i (fold (detail_step parse) es s)"
  by (induction es arbitrary: s) (simp_all add: detail_kept_step)

lemma behind_gate_opened:
  "PermissionGate ArtifactWrite role \<longrightarrow> P \<Longrightarrow> behind_gate P (detail_opened artifactId role)"
  by (simp add: behind_gate_def detail_opened_def may_write_def)

text \<open>C24: what the page of an artifact lets a user change goes by the workspace.  In every session in
  which the roles come from the members of the workspace, each call is a star or an archive, which
  anyone may press, or stands behind the gate; in the personal workspace there is none behind the
  gate, so its owner cannot edit a personal artifact; and in the workspace of the artifact's
  organization the backend accepts each that is behind the gate from this user.  A user who is not
  found among the members loaded is offered none.  (The tags have an editor of their own without a
  gate, \<open>tag_editor\<close>.)\<close>

theorem write_controls_follow_workspace:
  assumes "\<forall>r. r = role \<or> DetailRole r \<in> set es \<longrightarrow> role_looked_up roles workspace userId r"
  shows "let calls = filter (\<lambda>c. \<not> ungated_call artifactId c)
                      (dt_calls (fold (detail_step parse) es (detail_opened artifactId role))) in
    (workspace = None \<longrightarrow> calls = [])
    \<and> (workspace \<noteq> None \<and> workspace = at_organization_id a \<and> calls \<noteq> [] \<longrightarrow>
        backend_may_write userId (\<lambda>i. roles i userId) a)
    \<and> ((\<forall>r. r = role \<or> DetailRole r \<in> set es \<longrightarrow> r = None) \<longrightarrow> calls = [])"
proof -
  let ?s = "fold (detail_step parse) es (detail_opened artifactId role)"
  let ?calls = "filter (\<lambda>c. \<not> ungated_call artifactId c) (dt_calls ?s)"
  let ?member = "\<exists>i r. workspace = Some i \<and> roles i userId = Some r \<and> role_has_permission r ArtifactWrite"
  have same: "dt_artifactId ?s = artifactId"
    using detail_kept_run [of artifactId "detail_opened artifactId role"] by (simp add: detail_kept_def detail_opened_def)
  have gate: "?calls = []" if "behind_gate False ?s"
    using that same by (auto simp: behind_gate_def list_all_iff filter_empty_conv)
  have gated: "PermissionGate ArtifactWrite r \<longrightarrow> ?member" if "r = role \<or> DetailRole r \<in> set es" for r
  proof (cases r)
    case (Some x)
    with assms that have "role_looked_up roles workspace userId (Some x)" by blast
    from looked_up_role [OF this] show ?thesis by (auto simp: Some PermissionGate_def can_iff_backend)
  qed (simp add: PermissionGate_def)
  have "behind_gate ?member (detail_opened artifactId role)"
    by (rule behind_gate_opened, rule gated) simp
  moreover have "\<forall>r. DetailRole r \<in> set es \<longrightarrow> PermissionGate ArtifactWrite r \<longrightarrow> ?member"
    by (intro allI, rule impI, rule gated) simp
  ultimately have "behind_gate ?member ?s" by (rule behind_gate_run)
  then have member: "?calls = [] \<or> ?member" using same by (auto simp: behind_gate_def list_all_iff filter_empty_conv)
  have "?calls = []" if none: "\<forall>r. r = role \<or> DetailRole r \<in> set es \<longrightarrow> r = None"
  proof (rule gate, rule behind_gate_run, rule behind_gate_opened)
    show "PermissionGate ArtifactWrite role \<longrightarrow> False"
      using none by (cases role) (auto simp: PermissionGate_def)
    have "\<not> PermissionGate ArtifactWrite r" if "DetailRole r \<in> set es" for r
      using none [rule_format, of r] that by (simp add: PermissionGate_def)
    then show "\<forall>r. DetailRole r \<in> set es \<longrightarrow> PermissionGate ArtifactWrite r \<longrightarrow> False" by blast
  qed
  moreover have "backend_may_write userId (\<lambda>i. roles i userId) a"
    if "workspace \<noteq> None" "workspace = at_organization_id a" "?calls \<noteq> []"
    using that member by (cases "at_organization_id a") (auto simp: backend_may_write_def)
  moreover have "?calls = []" if "workspace = None" using that member by auto
  ultimately show ?thesis unfolding Let_def by blast
qed

definition ex_artifact :: artifact_shown where
  "ex_artifact = \<lparr>at_organization_id = Some ''o1'', at_user_id = ''u1'', at_name = ''web'', at_description = None,
     at_is_favorited = False, at_archived_at = None, at_current_version_number = Some 1, at_content = Some ''a''\<rparr>"

text \<open>A member opens the dialog and adds a version; the roles are those of the page of members.\<close>

lemma write_controls_follow_workspace_witness:
  "(let es = [DetailRole (useOrganizationRole (Some ''o1'') (Some ''u1'') (Some [\<lparr>om_user_id = ''u1'', om_role = Member\<rparr>])),
              ArtifactLoaded ex_artifact, AskDeleteArtifact, ConfirmDeleteArtifact] in
      dt_calls (fold (detail_step ex_parse) es (detail_opened ''a1'' None)) = [deleteArtifact ''a1''])
   \<and> backend_may_write ''u1'' (\<lambda>i. if i = ''o1'' then Some Member else None) ex_artifact"
proof -
  let ?roles = "\<lambda>i u. if i = ''o1'' \<and> u = ''u1'' then Some Member else None"
  let ?r = "useOrganizationRole (Some ''o1'') (Some ''u1'') (Some [\<lparr>om_user_id = ''u1'', om_role = Member\<rparr>])"
  let ?es = "[DetailRole ?r, ArtifactLoaded ex_artifact, AskDeleteArtifact, ConfirmDeleteArtifact]"
  have role: "?r = Some Member" by code_simp
  have run: "dt_calls (fold (detail_step ex_parse) ?es (detail_opened ''a1'' None)) = [deleteArtifact ''a1'']"
    by (simp add: role detail_opened_def artifact_loaded_def may_write_def PermissionGate_def can_def ex_artifact_def
        handleDelete_def detail_ask_def)
  have "role_looked_up ?roles (Some ''o1'') ''u1'' ?r"
    unfolding role_looked_up_def
    by (rule exI [of _ "Some [\<lparr>om_user_id = ''u1'', om_role = Member\<rparr>]"]) (simp add: members_shown_def)
  then have "\<forall>r. r = None \<or> DetailRole r \<in> set ?es \<longrightarrow> role_looked_up ?roles (Some ''o1'') ''u1'' r"
    using role_not_loaded by auto
  moreover have "\<not> ungated_call ''a1'' (deleteArtifact ''a1'')" "at_organization_id ex_artifact = Some ''o1''"
    by code_simp+
  ultimately have "backend_may_write ''u1'' (\<lambda>i. ?roles i ''u1'') ex_artifact"
    using write_controls_follow_workspace [of None ?es ?roles "Some ''o1''" "''u1''" "''a1''" ex_parse ex_artifact]
    unfolding Let_def run by simp
  then show ?thesis using run by (simp add: Let_def cong: if_cong)
qed

text \<open>The page of members ends before the user, whom the backend lets write.\<close>

lemma first_page_hides_controls:
  "useOrganizationRole (Some ''o1'') (Some ''u1'') (Some [\<lparr>om_user_id = ''u0'', om_role = Owner\<rparr>]) = None
   \<and> backend_may_write ''u1'' [''o1'' \<mapsto> Admin] ex_artifact"
  by code_simp

text \<open>In the workspace of another organization the page offers what the backend refuses.\<close>

lemma foreign_workspace_offers:
  "may_write (detail_opened ''a1'' (useOrganizationRole (Some ''o2'') (Some ''u1'') (Some [\<lparr>om_user_id = ''u1'', om_role = Owner\<rparr>])))
   \<and> \<not> backend_may_write ''u1'' [''o2'' \<mapsto> Owner] ex_artifact"
  by code_simp

text \<open>The button that archives is shown to a viewer too, and its call is one the backend refuses.\<close>

lemma viewer_archives:
  "dt_calls (fold (detail_step parse) [ArtifactLoaded ex_artifact, ToggleArchive] (detail_opened ''a1'' (Some Viewer)))
     = [archiveArtifact ''a1'']
   \<and> \<not> backend_may_write ''u2'' [''o1'' \<mapsto> Viewer] ex_artifact"
  by (simp add: detail_opened_def artifact_loaded_def handleArchiveToggle_def detail_ask_def archive_call_def
      useArchiveArtifact_def ex_artifact_def is_archived_def nonempty_opt_def backend_may_write_def role_has_permission_def)

text \<open>A version that is being typed is lost when the artifact changes under it.\<close>

lemma refetch_overwrites_draft:
  "dt_content (fold (detail_step parse) [ArtifactLoaded ex_artifact, OpenVersion, TypeContent ''draft'',
      ArtifactLoaded (ex_artifact\<lparr>at_is_favorited := True\<rparr>)] (detail_opened ''a1'' (Some Member))) = ''a''"
  by (simp add: detail_opened_def artifact_loaded_def ex_artifact_def may_write_def PermissionGate_def can_def)

text \<open>The comparison shown first is the newest version against the one before it.\<close>

lemma first_comparison:
  "resolvedFromVersion (n # m # ns) (detail_opened i r) = Some m \<and> resolvedToVersion (n # m # ns) (detail_opened i r) = Some n"
  by (simp add: resolvedFromVersion_def resolvedToVersion_def detail_opened_def)

end
