(* ===== verification/Usage_Page.thy ===== *)
theory Usage_Page
  imports Policy_Admin
begin

text \<open>
  components/usage/usage-page.tsx: what the account and the organization have used, and the form of
  the organization's quotas.  The backend's side (api/routes/usage.py, repositories/usage_repository.py
  and the check of services/usage_quota_service.py) is modelled as far as the form depends on it.
\<close>

section \<open>Quotas\<close>

record quota =
  qt_daily_token_limit :: "rat option"
  qt_daily_request_limit :: "rat option"
  qt_monthly_token_limit :: "rat option"
  qt_monthly_request_limit :: "rat option"
  qt_enforce_quotas :: bool

record quota_form = quota +
  qf_clear_daily_limits :: bool
  qf_clear_monthly_limits :: bool

definition quota_form_default :: quota_form where
  "quota_form_default =
     \<lparr>qt_daily_token_limit = None, qt_daily_request_limit = None, qt_monthly_token_limit = None,
      qt_monthly_request_limit = None, qt_enforce_quotas = False, qf_clear_daily_limits = False,
      qf_clear_monthly_limits = False\<rparr>"

definition quota_form_of :: "quota \<Rightarrow> quota_form" where
  "quota_form_of q = quota.extend q (quota_form.fields False False)"

record usage_page =
  us_organizationId :: "string option"
  us_role :: "OrgRole option"
  us_quota :: "quota option"
  us_form :: quota_form
  us_pending :: bool
  us_calls :: "api_call list"
  us_notices :: "notice list"

definition usage_opened :: "string option \<Rightarrow> OrgRole option \<Rightarrow> usage_page" where
  "usage_opened organizationId role =
     \<lparr>us_organizationId = organizationId, us_role = role, us_quota = None, us_form = quota_form_default,
      us_pending = False, us_calls = [], us_notices = []\<rparr>"

definition usage_queries :: "usage_page \<Rightarrow> hook_query list" where
  "usage_queries s = [useMyUsage, useOrganizationUsage (us_organizationId s)]"

text \<open>\<open>event.target.value === "" ? null : Number(event.target.value)\<close>\<close>

definition limit_typed :: "string \<Rightarrow> rat option" where
  "limit_typed t = (if t = [] then None else finite_value (js_Number t))"

datatype quota_input =
    DailyTokens string | DailyRequests string | MonthlyTokens string | MonthlyRequests string
  | Enforce bool | ClearDaily bool | ClearMonthly bool

fun quota_typed :: "quota_input \<Rightarrow> quota_form \<Rightarrow> quota_form" where
  "quota_typed (DailyTokens t) f = f\<lparr>qt_daily_token_limit := limit_typed t\<rparr>"
| "quota_typed (DailyRequests t) f = f\<lparr>qt_daily_request_limit := limit_typed t\<rparr>"
| "quota_typed (MonthlyTokens t) f = f\<lparr>qt_monthly_token_limit := limit_typed t\<rparr>"
| "quota_typed (MonthlyRequests t) f = f\<lparr>qt_monthly_request_limit := limit_typed t\<rparr>"
| "quota_typed (Enforce b) f = f\<lparr>qt_enforce_quotas := b\<rparr>"
| "quota_typed (ClearDaily b) f = f\<lparr>qf_clear_daily_limits := b\<rparr>"
| "quota_typed (ClearMonthly b) f = f\<lparr>qf_clear_monthly_limits := b\<rparr>"

definition limit_value :: "rat option \<Rightarrow> json" where
  "limit_value v = (case v of Some n \<Rightarrow> JNum n | None \<Rightarrow> JNull)"

definition quota_values :: "quota_form \<Rightarrow> json" where
  "quota_values f = JObj
     [(''daily_token_limit'', limit_value (qt_daily_token_limit f)),
      (''daily_request_limit'', limit_value (qt_daily_request_limit f)),
      (''monthly_token_limit'', limit_value (qt_monthly_token_limit f)),
      (''monthly_request_limit'', limit_value (qt_monthly_request_limit f)),
      (''enforce_quotas'', JBool (qt_enforce_quotas f)), (''clear_daily_limits'', JBool (qf_clear_daily_limits f)),
      (''clear_monthly_limits'', JBool (qf_clear_monthly_limits f))]"

definition quota_fields :: "string list" where
  "quota_fields = [''daily_token_limit'', ''daily_request_limit'', ''monthly_token_limit'', ''monthly_request_limit'',
     ''enforce_quotas'', ''clear_daily_limits'', ''clear_monthly_limits'']"

definition quota_body :: "json \<Rightarrow> json" where
  "quota_body v = JObj (concat (map (js_field v) quota_fields))"

definition handleQuotaSubmit :: "parser \<Rightarrow> usage_page \<Rightarrow> usage_page" where
  "handleQuotaSubmit parse s =
     (case parse quotaFormSchema (Some (quota_values (us_form s))) of
        Some (Some v) \<Rightarrow>
          (case nonempty_opt (us_organizationId s) of
             None \<Rightarrow> s
           | Some i \<Rightarrow> s\<lparr>us_pending := True, us_calls := us_calls s @ [patchOrganizationQuotas i (quota_body v)]\<rparr>)
      | _ \<Rightarrow> s)"

definition quota_answered :: "js_exn option \<Rightarrow> usage_page \<Rightarrow> usage_page" where
  "quota_answered failed s =
     (case failed of
        None \<Rightarrow> s\<lparr>us_pending := False, us_notices := us_notices s @ [Success ''Organization quotas updated'']\<rparr>
      | Some e \<Rightarrow> s\<lparr>us_pending := False, us_notices := us_notices s @ [Failure (error_text e ''Failed to update quotas'')]\<rparr>)"

text \<open>The form is shown to those who may change the organization, and only when it has quotas already.\<close>

definition quota_form_shown :: "usage_page \<Rightarrow> bool" where
  "quota_form_shown s =
     (nonempty_opt (us_organizationId s) \<noteq> None \<and> us_quota s \<noteq> None \<and> PermissionGate OrganizationUpdate (us_role s))"

datatype usage_event = QuotaLoaded "quota option" | TypeQuota quota_input | SaveQuotas | QuotaAnswered "js_exn option"

fun usage_step :: "parser \<Rightarrow> usage_event \<Rightarrow> usage_page \<Rightarrow> usage_page" where
  "usage_step parse (QuotaLoaded q) s =
     (if q = us_quota s then s
      else (case q of Some x \<Rightarrow> s\<lparr>us_quota := q, us_form := quota_form_of x\<rparr> | None \<Rightarrow> s\<lparr>us_quota := None\<rparr>))"
| "usage_step parse (TypeQuota i) s = (if quota_form_shown s then s\<lparr>us_form := quota_typed i (us_form s)\<rparr> else s)"
| "usage_step parse SaveQuotas s = (if quota_form_shown s \<and> \<not> us_pending s then handleQuotaSubmit parse s else s)"
| "usage_step parse (QuotaAnswered failed) s = (if us_pending s then quota_answered failed s else s)"

section \<open>What is shown\<close>

text \<open>The badge of a limit and the line under a count; \<open>formatCount\<close> is a parameter (Intl).\<close>

definition UsageLimitBadge :: "nat \<Rightarrow> int option \<Rightarrow> string \<Rightarrow> string option" where
  "UsageLimitBadge used limit label =
     (case getUsageLimitStatus used limit of
        UsageOk \<Rightarrow> None
      | UsageOver \<Rightarrow> Some (label @ '' limit exceeded'')
      | UsageWarning \<Rightarrow> Some (label @ '' nearing limit''))"

definition usage_description :: "(int \<Rightarrow> string) \<Rightarrow> nat \<Rightarrow> int option \<Rightarrow> bool \<Rightarrow> string option" where
  "usage_description formatCount used limit estimated =
     (case limit of
        Some l \<Rightarrow> Some (formatCount (int used) @ '' / '' @ formatCount l @ '' used'')
      | None \<Rightarrow> if estimated then Some ''Estimated from token usage'' else None)"

section \<open>The backend\<close>

text \<open>The route turns the two switches into the names to unset; a limit that is not given, or \<open>null\<close>,
  is left as it is.\<close>

definition patched_limit :: "json \<Rightarrow> string \<Rightarrow> string \<Rightarrow> rat option \<Rightarrow> rat option" where
  "patched_limit body switch k old =
     (if js_prop body switch = Some (JBool True) then None
      else case js_prop body k of Some (JNum n) \<Rightarrow> Some n | _ \<Rightarrow> old)"

definition backend_patch_quota :: "json \<Rightarrow> quota \<Rightarrow> quota" where
  "backend_patch_quota body q =
     \<lparr>qt_daily_token_limit = patched_limit body ''clear_daily_limits'' ''daily_token_limit'' (qt_daily_token_limit q),
      qt_daily_request_limit = patched_limit body ''clear_daily_limits'' ''daily_request_limit'' (qt_daily_request_limit q),
      qt_monthly_token_limit = patched_limit body ''clear_monthly_limits'' ''monthly_token_limit'' (qt_monthly_token_limit q),
      qt_monthly_request_limit = patched_limit body ''clear_monthly_limits'' ''monthly_request_limit'' (qt_monthly_request_limit q),
      qt_enforce_quotas = (case js_prop body ''enforce_quotas'' of Some (JBool b) \<Rightarrow> b | _ \<Rightarrow> qt_enforce_quotas q)\<rparr>"

text \<open>Whether one more request, or \<open>estimated\<close> more tokens, is refused for a limit that is enforced.\<close>

definition backend_exceeds :: "nat \<Rightarrow> int \<Rightarrow> int option \<Rightarrow> bool" where
  "backend_exceeds used extra limit = (case limit of Some l \<Rightarrow> int used + extra > l | None \<Rightarrow> False)"

section \<open>What saving the form does\<close>

definition saved_limit :: "bool \<Rightarrow> rat option \<Rightarrow> rat option \<Rightarrow> rat option" where
  "saved_limit cleared typed old = (if cleared then None else case typed of Some n \<Rightarrow> Some n | None \<Rightarrow> old)"

definition saved_quota :: "quota_form \<Rightarrow> quota \<Rightarrow> quota" where
  "saved_quota f q =
     \<lparr>qt_daily_token_limit = saved_limit (qf_clear_daily_limits f) (qt_daily_token_limit f) (qt_daily_token_limit q),
      qt_daily_request_limit = saved_limit (qf_clear_daily_limits f) (qt_daily_request_limit f) (qt_daily_request_limit q),
      qt_monthly_token_limit = saved_limit (qf_clear_monthly_limits f) (qt_monthly_token_limit f) (qt_monthly_token_limit q),
      qt_monthly_request_limit = saved_limit (qf_clear_monthly_limits f) (qt_monthly_request_limit f) (qt_monthly_request_limit q),
      qt_enforce_quotas = qt_enforce_quotas f\<rparr>"

context zod
begin

lemma limit_kept: "parse limitField (Some (limit_value l)) = Some u \<Longrightarrow> u = Some (limit_value l)"
  by (cases l) (auto simp: limitField_def nullable_law int_law limit_value_def split: if_splits)

lemma quota_values_kept:
  assumes "parse quotaFormSchema (Some (quota_values f)) = Some (Some v)" and "k \<in> set quota_fields"
  shows "js_prop v k = js_prop (quota_values f) k"
proof -
  note g = object_field [OF assms(1) [unfolded quotaFormSchema_def]]
  have "parse limitField (js_prop (quota_values f) ''daily_token_limit'') = Some (js_prop v ''daily_token_limit'')"
    "parse limitField (js_prop (quota_values f) ''daily_request_limit'') = Some (js_prop v ''daily_request_limit'')"
    "parse limitField (js_prop (quota_values f) ''monthly_token_limit'') = Some (js_prop v ''monthly_token_limit'')"
    "parse limitField (js_prop (quota_values f) ''monthly_request_limit'') = Some (js_prop v ''monthly_request_limit'')"
    "parse ZBool (js_prop (quota_values f) ''enforce_quotas'') = Some (js_prop v ''enforce_quotas'')"
    "parse (ZOptional ZBool) (js_prop (quota_values f) ''clear_daily_limits'') = Some (js_prop v ''clear_daily_limits'')"
    "parse (ZOptional ZBool) (js_prop (quota_values f) ''clear_monthly_limits'') = Some (js_prop v ''clear_monthly_limits'')"
    by (rule g; simp)+
  then show ?thesis
    using assms(2) limit_kept by (auto simp: quota_values_def quota_fields_def bool_law optional_law)
qed

end

lemma quota_body_fields:
  assumes "\<And>k. k \<in> set quota_fields \<Longrightarrow> js_prop v k = js_prop w k"
  shows "quota_body v = quota_body w"
  using assms by (simp add: quota_body_def js_field_def cong: map_cong)

lemma quota_body_values: "js_prop (quota_body (quota_values f)) k = js_prop (quota_values f) k"
  by (simp add: quota_body_def quota_fields_def js_field_def quota_values_def)

lemma patched_by_form: "backend_patch_quota (quota_body (quota_values f)) q = saved_quota f q"
  unfolding backend_patch_quota_def patched_limit_def quota_body_values
  by (simp add: saved_quota_def saved_limit_def quota_values_def limit_value_def split: option.split)


definition ex_quota :: quota where
  "ex_quota = \<lparr>qt_daily_token_limit = Some 1000, qt_daily_request_limit = Some 20, qt_monthly_token_limit = None,
     qt_monthly_request_limit = Some 500, qt_enforce_quotas = True\<rparr>"

text \<open>An administrator empties the daily limit of requests and saves: the limit of 20 stays.\<close>

definition ex_usage :: usage_page where
  "ex_usage = fold (usage_step ex_parse) [QuotaLoaded (Some ex_quota), TypeQuota (DailyRequests []), TypeQuota (MonthlyTokens ''7'')]
     (usage_opened (Some ''o1'') (Some Admin))"


text \<open>The usage page says a limit of requests is exceeded exactly when the backend refuses the next
  request for it, if the limit is positive; a limit of zero, which the form accepts and for which
  the backend refuses every request, is shown as fine.\<close>

theorem exceeded_is_refused:
  "(getUsageLimitStatus used limit = UsageOver) =
     (backend_exceeds used 1 limit \<and> (case limit of Some l \<Rightarrow> 0 < l | None \<Rightarrow> False))
   \<and> backend_exceeds used 1 (Some 0) \<and> getUsageLimitStatus used (Some 0) = UsageOk \<and> UsageLimitBadge used (Some 0) label = None"
  by (auto simp: backend_exceeds_def getUsageLimitStatus_def [of _ None] getUsageLimitStatus_def [of _ "Some 0"]
      usage_status_bounds UsageLimitBadge_def not_less getUsageLimitStatus_def split: option.split if_splits)

text \<open>An organization without quotas is shown no form to give it any.\<close>

lemma first_quota_cannot_be_set:
  "us_calls (fold (usage_step parse) [QuotaLoaded None, TypeQuota i, SaveQuotas] (usage_opened organizationId role)) = []"
  by (simp add: usage_opened_def quota_form_shown_def)

end
