(* ===== verification/Py_Text.thy ===== *)
theory Py_Text
  imports Text_Utils
begin

text \<open>
  What the backend takes for blank when it trims and splits a text, compared with what the page
  takes for blank: shared by the forms whose fields both sides trim.
\<close>

text \<open>What Python's \<open>strip()\<close> and \<open>split()\<close> and what the validation library take for blank.\<close>

definition py_ws :: "char \<Rightarrow> bool" where
  "py_ws c = (let n = char_code c in (9 \<le> n \<and> n \<le> 13) \<or> (28 \<le> n \<and> n \<le> 32) \<or> n = 133 \<or> n = 160)"

definition unicode_ws :: "char \<Rightarrow> bool" where
  "unicode_ws c = (let n = char_code c in (9 \<le> n \<and> n \<le> 13) \<or> n = 32 \<or> n = 133 \<or> n = 160)"

definition strip_on :: "(char \<Rightarrow> bool) \<Rightarrow> string \<Rightarrow> string" where
  "strip_on p s = rev (dropWhile p (rev (dropWhile p s)))"

definition words_on :: "(char \<Rightarrow> bool) \<Rightarrow> string \<Rightarrow> string list" where
  "words_on p s = filter (\<lambda>w. w \<noteq> []) (split_on p s)"

section \<open>Blanks\<close>

lemma strip_js_trim: "js_trim s = strip_on is_ws s"
  by (simp add: js_trim_def strip_on_def)

lemma strip_decomp: "\<exists>a b. s = a @ strip_on p s @ b \<and> list_all p a \<and> list_all p b"
proof -
  let ?d = "dropWhile p s"
  have "s = takeWhile p s @ ?d" by simp
  moreover have "?d = strip_on p s @ rev (takeWhile p (rev ?d))"
    unfolding strip_on_def by (metis rev_append rev_rev_ident takeWhile_dropWhile_id)
  ultimately have "s = takeWhile p s @ strip_on p s @ rev (takeWhile p (rev ?d))" by metis
  moreover have "list_all p (takeWhile p s)" "list_all p (rev (takeWhile p (rev ?d)))"
    by (auto simp: list_all_iff dest: set_takeWhileD)
  ultimately show ?thesis by blast
qed

lemma strip_absorb: "list_all p a \<Longrightarrow> list_all p b \<Longrightarrow> strip_on p (a @ s @ b) = strip_on p s"
proof -
  assume a: "list_all p a" and b: "list_all p b"
  have left: "dropWhile p (xs @ ys) = dropWhile p ys" if "list_all p xs" for xs ys
    using that by (induction xs) simp_all
  show ?thesis
  proof (cases "list_all p s")
    case True
    then have "list_all p (s @ b)" using b by simp
    with True have "dropWhile p (s @ b) = []" "dropWhile p s = []"
      using left [of "s @ b" "[]"] left [of s "[]"] by simp_all
    then show ?thesis by (simp only: strip_on_def left [OF a])
  next
    case False
    then obtain x where "x \<in> set s" "\<not> p x" by (auto simp: list_all_iff)
    then have "dropWhile p (s @ b) = dropWhile p s @ b" by (rule dropWhile_append1)
    moreover have "list_all p (rev b)" using b by (simp add: list_all_iff)
    ultimately show ?thesis by (simp add: strip_on_def left [OF a] left)
  qed
qed

lemma strip_strip: "(\<And>c. q c \<Longrightarrow> p c) \<Longrightarrow> strip_on p (strip_on q s) = strip_on p s"
proof -
  assume qp: "\<And>c. q c \<Longrightarrow> p c"
  obtain a b where s: "s = a @ strip_on q s @ b" and ab: "list_all q a" "list_all q b" using strip_decomp by blast
  from ab qp have "list_all p a" "list_all p b" by (auto simp: list_all_iff)
  from strip_absorb [OF this] s show ?thesis by metis
qed

lemma words_left: "list_all p a \<Longrightarrow> words_on p (a @ s) = words_on p s"
  by (induction a) (simp_all add: words_on_def)

lemma split_right: "list_all p b \<Longrightarrow> split_on p (s @ b) = split_on p s @ replicate (length b) []"
proof (induction s)
  case Nil
  then show ?case by (induction b) simp_all
next
  case (Cons c s)
  then show ?case by (cases "split_on p s") simp_all
qed

lemma words_right: "list_all p b \<Longrightarrow> words_on p (s @ b) = words_on p s"
  by (simp add: words_on_def split_right)

lemma words_strip: "(\<And>c. q c \<Longrightarrow> p c) \<Longrightarrow> words_on p (strip_on q s) = words_on p s"
proof -
  assume qp: "\<And>c. q c \<Longrightarrow> p c"
  obtain a b where s: "s = a @ strip_on q s @ b" and ab: "list_all q a" "list_all q b" using strip_decomp by blast
  from ab qp have "list_all p a" "list_all p b" by (auto simp: list_all_iff)
  then have "words_on p (a @ strip_on q s @ b) = words_on p (strip_on q s)" by (simp only: words_left words_right)
  with s show ?thesis by metis
qed

lemma length_strip: "length (strip_on p s) \<le> length s"
proof -
  obtain a b where "s = a @ strip_on p s @ b" using strip_decomp by blast
  then have "length s = length a + length (strip_on p s) + length b" by (metis append.assoc length_append)
  then show ?thesis by simp
qed

lemma ws_order: "is_ws c \<Longrightarrow> unicode_ws c" "is_ws c \<Longrightarrow> py_ws c" "unicode_ws c \<Longrightarrow> py_ws c"
  by (auto simp: is_ws_def unicode_ws_def py_ws_def Let_def)

text \<open>The three kinds of blanks are stripped one inside the other, in the page, by the validation and
  by the service: only the last matters.\<close>

lemma strips:
  "strip_on unicode_ws (js_trim s) = strip_on unicode_ws s" "strip_on py_ws (strip_on unicode_ws s) = strip_on py_ws s"
  "words_on py_ws (strip_on unicode_ws s) = words_on py_ws s"
  unfolding strip_js_trim by (rule strip_strip words_strip, erule ws_order)+

lemma strip_page: "strip_on py_ws (js_trim s) = strip_on py_ws s"
  unfolding strip_js_trim by (rule strip_strip) (erule ws_order)

lemma strip_id: "list_all (\<lambda>c. \<not> p c) s \<Longrightarrow> strip_on p s = s"
proof -
  assume s: "list_all (\<lambda>c. \<not> p c) s"
  have "dropWhile p t = t" if "list_all (\<lambda>c. \<not> p c) t" for t using that by (cases t) simp_all
  from this [OF s] this [of "rev s"] s show ?thesis by (simp add: strip_on_def list_all_iff)
qed

end
