(* ===== verification/Organization_Pages.thy ===== *)
theory Organization_Pages
  imports Provider_Admin Task_Audit Py_Text
begin

text \<open>
  components/organizations: organization-form-dialog.tsx, the form of a name and a slug;
  organizations-page.tsx, the list with the creation; organization-detail.tsx, one organization with
  its change and its deletion.  components/policies/policy-packs-page.tsx, the packs of an
  organization with the creation of one.  What the backend makes of the form is compared with what
  the form shows: services/organization_service.py and the schemas it uses.
\<close>

section \<open>The form\<close>

record organization =
  og_id :: string
  og_name :: string
  og_slug :: string

text \<open>\<open>fo_slugDirty\<close> is \<open>formState.dirtyFields.slug\<close>: the user typed a slug that is not the default.
  A value set by the program does not make a field dirty.\<close>

record organization_form =
  fo_name :: string
  fo_slug :: string
  fo_slugDirty :: bool

definition organization_form_opened :: "organization option \<Rightarrow> organization_form" where
  "organization_form_opened initial =
     \<lparr>fo_name = (case initial of Some g \<Rightarrow> og_name g | None \<Rightarrow> []),
      fo_slug = (case initial of Some g \<Rightarrow> og_slug g | None \<Rightarrow> []), fo_slugDirty = False\<rparr>"

definition name_typed :: "organization option \<Rightarrow> string \<Rightarrow> organization_form \<Rightarrow> organization_form" where
  "name_typed initial v f =
     f\<lparr>fo_name := v, fo_slug := (if initial = None \<and> \<not> fo_slugDirty f then slugify v else fo_slug f)\<rparr>"

definition slug_typed :: "organization option \<Rightarrow> string \<Rightarrow> organization_form \<Rightarrow> organization_form" where
  "slug_typed initial v f =
     f\<lparr>fo_slug := v, fo_slugDirty := (v \<noteq> (case initial of Some g \<Rightarrow> og_slug g | None \<Rightarrow> []))\<rparr>"

definition organization_values :: "organization_form \<Rightarrow> json" where
  "organization_values f = JObj [(''name'', JStr (fo_name f)), (''slug'', JStr (fo_slug f))]"

text \<open>What the dialog hands over, and the body the two pages make of it.\<close>

definition dialog_values :: "json \<Rightarrow> json" where
  "dialog_values v = JObj (js_field v ''name'' @
     (case as_string (js_prop v ''slug'') of
        Some s \<Rightarrow> if js_trim s \<noteq> [] then [(''slug'', JStr (js_trim s))] else []
      | None \<Rightarrow> []))"

definition organization_body :: "json \<Rightarrow> json" where
  "organization_body v = JObj (js_field v ''name'' @ js_field_or_undefined v ''slug'')"

definition organization_submitted :: "parser \<Rightarrow> organization_form \<Rightarrow> json option" where
  "organization_submitted parse f =
     (case parse organizationFormSchema (Some (organization_values f)) of
        Some (Some v) \<Rightarrow> Some (organization_body (dialog_values v))
      | _ \<Rightarrow> None)"

section \<open>The backend\<close>

text \<open>\<open>re.sub("-+", "-", s)\<close>; the flag says that the last character was a dash.\<close>

fun squeeze_dashes :: "bool \<Rightarrow> string \<Rightarrow> string" where
  "squeeze_dashes in_run [] = []"
| "squeeze_dashes in_run (c # cs) =
     (if c = CHR ''-'' then (if in_run then squeeze_dashes True cs else c # squeeze_dashes True cs)
      else c # squeeze_dashes False cs)"

definition is_slug_or_dash :: "char \<Rightarrow> bool" where
  "is_slug_or_dash c = (is_slug_char c \<or> c = CHR ''-'')"

definition normalize_slug :: "string \<Rightarrow> string option" where
  "normalize_slug raw =
     (let spaced = map (\<lambda>c. if c = CHR '' '' then CHR ''-'' else c) (js_lower (strip_on py_ws raw));
          valid = map (\<lambda>c. if is_slug_or_dash c then c else CHR ''-'') spaced;
          slug = trim_dashes (squeeze_dashes False valid)
      in if slug = [] \<or> \<not> list_all is_slug_or_dash slug then None else Some slug)"

text \<open>The payloads: a field of the wrong type or length is refused, an absent or null one is \<open>None\<close>.\<close>

definition text_in :: "nat \<Rightarrow> nat \<Rightarrow> json option \<Rightarrow> string option option" where
  "text_in lo hi v =
     (case v of
        None \<Rightarrow> Some None
      | Some JNull \<Rightarrow> Some None
      | Some (JStr s) \<Rightarrow> if lo \<le> length s \<and> length s \<le> hi then Some (Some s) else None
      | _ \<Rightarrow> None)"

definition organization_payload :: "json \<Rightarrow> (string option \<times> string option) option" where
  "organization_payload body =
     (case (text_in 1 200 (js_prop body ''name''), text_in 0 100 (js_prop body ''slug'')) of
        (Some n, Some s) \<Rightarrow> Some (n, s)
      | _ \<Rightarrow> None)"

datatype organization_outcome = OrgInvalid | OrgForbidden | OrgConflict | OrgNotStored | OrgStored string string

text \<open>
  The other rows of the table of organizations: \<open>ot_live\<close> holds of the slugs of the organizations
  that are not deleted, which \<open>get_by_slug\<close> finds, and \<open>ot_deleted\<close> of those of the deleted ones.
\<close>

record organization_table =
  ot_live :: "string \<Rightarrow> bool"
  ot_deleted :: "string \<Rightarrow> bool"

text \<open>The column (models/organization.py) holds 100 characters and is unique over all rows.\<close>

definition slug_column_refuses :: "organization_table \<Rightarrow> string \<Rightarrow> bool" where
  "slug_column_refuses others slug = (100 < length slug \<or> ot_live others slug \<or> ot_deleted others slug)"

definition store_slug :: "organization_table \<Rightarrow> string \<Rightarrow> string \<Rightarrow> organization_outcome" where
  "store_slug others name slug =
     (if ot_live others slug then OrgConflict
      else if slug_column_refuses others slug then OrgNotStored
      else OrgStored name slug)"

definition backend_create_organization :: "organization_table \<Rightarrow> json \<Rightarrow> organization_outcome" where
  "backend_create_organization others body =
     (case organization_payload body of
        Some (Some n, s) \<Rightarrow>
          (case normalize_slug (case s of Some t \<Rightarrow> if t \<noteq> [] then t else n | None \<Rightarrow> n) of
             None \<Rightarrow> OrgInvalid
           | Some slug \<Rightarrow> store_slug others (strip_on py_ws n) slug)
      | _ \<Rightarrow> OrgInvalid)"

definition backend_update_organization ::
  "organization_table \<Rightarrow> OrgRole \<Rightarrow> organization \<Rightarrow> json \<Rightarrow> organization_outcome" where
  "backend_update_organization others role org body =
     (case organization_payload body of
        None \<Rightarrow> OrgInvalid
      | Some (n, s) \<Rightarrow>
          if \<not> role_has_permission role OrganizationUpdate then OrgForbidden
          else if n = None \<and> s = None then OrgInvalid
          else (let name = (case n of Some t \<Rightarrow> strip_on py_ws t | None \<Rightarrow> og_name org) in
            case s of
              None \<Rightarrow> OrgStored name (og_slug org)
            | Some t \<Rightarrow>
                if role \<noteq> Owner then OrgForbidden
                else (case normalize_slug t of None \<Rightarrow> OrgInvalid | Some slug \<Rightarrow> store_slug others name slug)))"

section \<open>Slugs\<close>

lemma squeeze_single: "list_all is_slug_or_dash s \<Longrightarrow> single_dashes in_run (squeeze_dashes in_run s)"
  by (induction in_run s rule: squeeze_dashes.induct) (auto simp: is_slug_or_dash_def)

lemma squeeze_tail: "slug_tail must s \<Longrightarrow> squeeze_dashes must s = s"
  by (induction must s rule: slug_tail.induct) (auto split: if_splits)

lemma slug_tail_chars: "slug_tail must s \<Longrightarrow> list_all is_slug_or_dash s"
  by (induction must s rule: slug_tail.induct) (auto simp: is_slug_or_dash_def split: if_splits)

lemma slug_tail_ends: "slug_tail True s \<Longrightarrow> s \<noteq> [] \<and> hd s \<noteq> CHR ''-'' \<and> last s \<noteq> CHR ''-''"
proof -
  have "slug_tail must s \<Longrightarrow> s \<noteq> [] \<Longrightarrow> last s \<noteq> CHR ''-''" for must
    by (induction must s rule: slug_tail.induct) (auto split: if_splits)
  then show "slug_tail True s \<Longrightarrow> s \<noteq> [] \<and> hd s \<noteq> CHR ''-'' \<and> last s \<noteq> CHR ''-''"
    by (cases s) (auto split: if_splits)
qed

lemma trim_dashes_tail: "slug_tail True s \<Longrightarrow> trim_dashes s = s"
proof -
  assume "slug_tail True s"
  from slug_tail_ends [OF this] have s: "s \<noteq> []" "hd s \<noteq> CHR ''-''" "last s \<noteq> CHR ''-''" by auto
  then have "dropWhile (\<lambda>c. c = CHR ''-'') s = s" by (cases s) auto
  moreover from s have "dropWhile (\<lambda>c. c = CHR ''-'') (rev s) = rev s" by (cases s rule: rev_cases) auto
  ultimately show ?thesis by (simp add: trim_dashes_def)
qed

text \<open>What the backend stores is a slug the form accepts, apart from its length.\<close>

lemma normalized_is_valid: "normalize_slug raw = Some s \<Longrightarrow> valid_slug s"
proof -
  assume r: "normalize_slug raw = Some s"
  define valid where "valid = map (\<lambda>c. if is_slug_or_dash c then c else CHR ''-'')
     (map (\<lambda>c. if c = CHR '' '' then CHR ''-'' else c) (js_lower (strip_on py_ws raw)))"
  from r have s: "s = trim_dashes (squeeze_dashes False valid)" "s \<noteq> []"
    by (auto simp: normalize_slug_def valid_def Let_def split: if_splits)
  have "list_all is_slug_or_dash valid" by (auto simp: valid_def list_all_iff is_slug_or_dash_def)
  from trim_dashes_valid [OF squeeze_single [OF this, of False]] s show ?thesis by simp
qed

text \<open>A slug the form accepts is stored as it is.\<close>

lemma slug_char_plain: "is_slug_or_dash c \<Longrightarrow> char_lower c = c \<and> c \<noteq> CHR '' '' \<and> \<not> py_ws c"
  by (auto simp: is_slug_or_dash_def is_slug_char_def py_ws_def js_defs char_lower_def Let_def)

lemma map_id_on: "list_all P s \<Longrightarrow> (\<And>c. P c \<Longrightarrow> f c = c) \<Longrightarrow> map f s = s"
  by (induction s) simp_all

lemma valid_is_normalized: "valid_slug s \<Longrightarrow> normalize_slug s = Some s"
proof -
  assume "valid_slug s"
  then have tail: "slug_tail True s" by (simp add: valid_slug_tail)
  from slug_tail_chars [OF tail] have chars: "list_all is_slug_or_dash s" .
  from slug_tail_ends [OF tail] have ne: "s \<noteq> []" by simp
  have trim: "strip_on py_ws s = s"
    using chars by (intro strip_id) (auto simp: list_all_iff dest: slug_char_plain)
  have lower: "js_lower s = s" unfolding js_lower_def by (rule map_id_on [OF chars]) (simp add: slug_char_plain)
  have spaced: "map (\<lambda>c. if c = CHR '' '' then CHR ''-'' else c) s = s"
    by (rule map_id_on [OF chars]) (auto dest: slug_char_plain)
  have valid: "map (\<lambda>c. if is_slug_or_dash c then c else CHR ''-'') s = s" by (rule map_id_on [OF chars]) simp
  have "squeeze_dashes False s = s" using squeeze_tail [OF tail] tail by (cases s) (auto split: if_splits)
  then show ?thesis
    using ne chars by (simp add: normalize_slug_def trim lower spaced valid trim_dashes_tail [OF tail])
qed

text \<open>Blanks at the ends do not matter.\<close>

lemma normalize_trim: "normalize_slug (js_trim s) = normalize_slug s"
  by (simp add: normalize_slug_def strip_page)

section \<open>From the form to the backend\<close>

context zod
begin

lemma organization_accepted:
  assumes "organization_submitted parse f = Some body"
  shows "js_prop body ''name'' = Some (JStr (js_trim (fo_name f))) \<and> js_trim (fo_name f) \<noteq> []
    \<and> length (js_trim (fo_name f)) \<le> 200
    \<and> js_prop body ''slug'' = (if js_trim (fo_slug f) = [] then None else Some (JStr (js_trim (fo_slug f))))
    \<and> length (js_trim (fo_slug f)) \<le> 64 \<and> (js_trim (fo_slug f) = [] \<or> valid_slug (js_trim (fo_slug f)))"
proof -
  from assms obtain v where p: "parse organizationFormSchema (Some (organization_values f)) = Some (Some v)"
    and b: "body = organization_body (dialog_values v)"
    by (auto simp: organization_submitted_def split: option.splits)
  note g = object_field [OF p [unfolded organizationFormSchema_def]]
  have "parse nameField (js_prop (organization_values f) ''name'') = Some (js_prop v ''name'')"
    "parse (ZOptional (ZString [Trim, MaxLength 64, Pattern (\<lambda>s. s = [] \<or> valid_slug s)]))
       (js_prop (organization_values f) ''slug'') = Some (js_prop v ''slug'')"
    by (rule g; simp)+
  then have n: "js_prop v ''name'' = Some (JStr (js_trim (fo_name f)))" "js_trim (fo_name f) \<noteq> []"
      "length (js_trim (fo_name f)) \<le> 200"
    and s: "js_prop v ''slug'' = Some (JStr (js_trim (fo_slug f)))" "length (js_trim (fo_slug f)) \<le> 64"
      "js_trim (fo_slug f) = [] \<or> valid_slug (js_trim (fo_slug f))"
    by (auto simp: organization_values_def js_prop_JObj nameField_def optional_law string_law
        dest!: sym [of "Some _"] split: if_splits)
  from n s show ?thesis
    by (simp add: b organization_body_def dialog_values_def js_prop_JObj js_field_def js_field_or_undefined_def as_string_def js_truthy_def)
qed

end

lemma stored_by_backend:
  assumes "js_prop body ''name'' = Some (JStr n)" "n \<noteq> []" "length n \<le> 200"
    and "js_prop body ''slug'' = (if t = [] then None else Some (JStr t))" "length t \<le> 64" "t = [] \<or> valid_slug t"
  shows "backend_create_organization others body =
      (case (if t \<noteq> [] then Some t else normalize_slug n) of
         None \<Rightarrow> OrgInvalid
       | Some slug \<Rightarrow> store_slug others (strip_on py_ws n) slug)"
    and "backend_update_organization others role org body =
      (if \<not> can role OrganizationUpdate then OrgForbidden
       else if t = [] then OrgStored (strip_on py_ws n) (og_slug org)
       else if role \<noteq> Owner then OrgForbidden
       else store_slug others (strip_on py_ws n) t)"
  using assms valid_is_normalized [of t]
  by (auto simp: backend_create_organization_def backend_update_organization_def organization_payload_def text_in_def
      can_iff_backend Suc_le_eq split: option.split)

text \<open>A slug of the form fits the column.\<close>

lemma short_slug_stored:
  "length t \<le> 64 \<Longrightarrow> store_slug others n t =
     (if ot_live others t then OrgConflict else if ot_deleted others t then OrgNotStored else OrgStored n t)"
  by (simp add: store_slug_def slug_column_refuses_def)

text \<open>C29: what the backend makes of an accepted organization form is what the form shows.  A new
  organization gets the name, trimmed of what the backend takes for blank, and the trimmed slug, or
  the slug made from the name when none is given; it is refused as a conflict when another
  organization has that slug, as invalid when the name gives no slug, and the database refuses the
  row when a deleted organization had the slug or when the slug made from the name is longer than
  100 characters.  A change keeps the slug when the field is empty, and otherwise needs an owner,
  whoever the interface let edit.\<close>

theorem organization_stored_as_shown:
  assumes "zod fmt parse" and "organization_submitted parse f = Some body"
  shows "let name = strip_on py_ws (fo_name f); slug = js_trim (fo_slug f) in
    backend_create_organization others body =
      (case (if slug \<noteq> [] then Some slug else normalize_slug (fo_name f)) of
         None \<Rightarrow> OrgInvalid
       | Some t \<Rightarrow> if ot_live others t then OrgConflict
                  else if ot_deleted others t \<or> slug = [] \<and> 100 < length t then OrgNotStored
                  else OrgStored name t)
    \<and> backend_update_organization others role org body =
      (if \<not> can role OrganizationUpdate then OrgForbidden
       else if slug = [] then OrgStored name (og_slug org)
       else if role \<noteq> Owner then OrgForbidden
       else if ot_live others slug then OrgConflict
       else if ot_deleted others slug then OrgNotStored
       else OrgStored name slug)"
proof -
  note a = zod.organization_accepted [OF assms]
  have n: "js_prop body ''name'' = Some (JStr (js_trim (fo_name f)))" "js_trim (fo_name f) \<noteq> []"
      "length (js_trim (fo_name f)) \<le> 200"
    and t: "js_prop body ''slug'' = (if js_trim (fo_slug f) = [] then None else Some (JStr (js_trim (fo_slug f))))"
      "length (js_trim (fo_slug f)) \<le> 64" "js_trim (fo_slug f) = [] \<or> valid_slug (js_trim (fo_slug f))"
    using a by auto
  note stored = stored_by_backend [OF n t, unfolded normalize_trim strip_page short_slug_stored [OF t(2)]]
  show ?thesis
    unfolding Let_def stored using t(2)
    by (auto simp: store_slug_def slug_column_refuses_def split: option.split)
qed

definition ex_organization_form :: organization_form where
  "ex_organization_form = name_typed None ''Platform Team'' (organization_form_opened None)"

definition no_organizations :: organization_table where
  "no_organizations = \<lparr>ot_live = (\<lambda>_. False), ot_deleted = (\<lambda>_. False)\<rparr>"

lemma organization_stored_as_shown_witness:
  "backend_create_organization no_organizations (the (organization_submitted ex_parse ex_organization_form))
     = OrgStored ''Platform Team'' ''platform-team''"
proof -
  have submitted: "organization_submitted ex_parse ex_organization_form
      = Some (the (organization_submitted ex_parse ex_organization_form))" by code_simp
  have shown: "js_trim (fo_slug ex_organization_form) = ''platform-team''"
    "strip_on py_ws (fo_name ex_organization_form) = ''Platform Team''" by code_simp+
  from organization_stored_as_shown [OF zod_ex submitted, of no_organizations] shown
  show ?thesis unfolding Let_def by (simp add: no_organizations_def)
qed

text \<open>An administrator may change an organization, but the dialog sends the slug along with the name,
  and a slug from anyone but an owner is refused: the new name is never stored.\<close>

lemma admin_cannot_rename:
  assumes "zod fmt parse" and "js_trim (og_slug org) \<noteq> []"
    and "organization_submitted parse (name_typed (Some org) v (organization_form_opened (Some org))) = Some body"
  shows "can Admin OrganizationUpdate \<and> backend_update_organization others Admin org body = OrgForbidden"
proof -
  have "fo_slug (name_typed (Some org) v (organization_form_opened (Some org))) = og_slug org"
    by (simp add: name_typed_def organization_form_opened_def)
  with zod.organization_accepted [OF assms(1,3)] assms(2)
  have "text_in 0 100 (js_prop body ''slug'') = Some (Some (js_trim (og_slug org)))" "\<exists>n. text_in 1 200 (js_prop body ''name'') = Some (Some n)"
    by (auto simp: text_in_def Suc_le_eq)
  moreover have "can Admin OrganizationUpdate" by code_simp
  ultimately show ?thesis
    by (auto simp: backend_update_organization_def organization_payload_def can_iff_backend Let_def)
qed

text \<open>Without a slug the backend makes one of the whole name, which may be longer than the form
  accepts; then even the owner cannot rename the organization without giving it another slug.\<close>

lemma long_slug_locks_name:
  assumes "zod fmt parse" and "64 < length (js_trim (og_slug org))"
  shows "organization_submitted parse (name_typed (Some org) v (organization_form_opened (Some org))) = None"
proof (cases "organization_submitted parse (name_typed (Some org) v (organization_form_opened (Some org)))")
  case (Some body)
  from zod.organization_accepted [OF assms(1) Some] assms(2) show ?thesis
    by (simp add: name_typed_def organization_form_opened_def)
qed

lemma word_is_slug: "0 < k \<Longrightarrow> valid_slug (replicate k (CHR ''a''))"
proof -
  have "slug_tail False (replicate n (CHR ''a''))" for n by (induction n) (simp_all add: is_slug_char_def js_defs)
  then show "0 < k \<Longrightarrow> valid_slug (replicate k (CHR ''a''))"
    by (cases k) (simp_all add: valid_slug_tail is_slug_char_def js_defs)
qed

lemma long_slug_is_made:
  assumes "64 < k" "k \<le> 200"
  shows "backend_create_organization no_organizations (JObj [(''name'', JStr (replicate k (CHR ''a'')))])
    = (if k \<le> 100 then OrgStored (strip_on py_ws (replicate k (CHR ''a''))) (replicate k (CHR ''a'')) else OrgNotStored)"
  using assms valid_is_normalized [OF word_is_slug, of k]
  by (simp add: backend_create_organization_def organization_payload_def text_in_def js_prop_def store_slug_def
      slug_column_refuses_def no_organizations_def)

text \<open>The slug of a deleted organization passes the check and is refused by the database.\<close>

lemma deleted_slug_is_lost:
  "backend_create_organization (no_organizations\<lparr>ot_deleted := (\<lambda>s. s = ''ops'')\<rparr>)
     (JObj [(''name'', JStr ''Ops''), (''slug'', JStr ''ops'')]) = OrgNotStored"
  by code_simp

section \<open>The list of organizations\<close>

definition ORGANIZATIONS_PAGE_SIZE :: int where "ORGANIZATIONS_PAGE_SIZE = 20"

record organizations_page =
  os_list :: "organization page_data query_state"
  os_pageIndex :: int
  os_createOpen :: bool
  os_form :: organization_form
  os_pending :: bool
  os_current :: "string option"
  os_calls :: "api_call list"
  os_notices :: "notice list"

definition organizations_opened :: "string option \<Rightarrow> organizations_page" where
  "organizations_opened current =
     \<lparr>os_list = Loading, os_pageIndex = 0, os_createOpen = False, os_form = organization_form_opened None,
      os_pending = False, os_current = current, os_calls = [], os_notices = []\<rparr>"

definition organizations_query :: "organizations_page \<Rightarrow> hook_query" where
  "organizations_query s =
     useOrganizations [(''limit'', QInt ORGANIZATIONS_PAGE_SIZE), (''offset'', QInt (os_pageIndex s * ORGANIZATIONS_PAGE_SIZE))]"

definition organizations_view :: "organizations_page \<Rightarrow> organization table_page" where
  "organizations_view s =
     (case os_list s of
        Loading \<Rightarrow> ShowLoading
      | LoadFailed e \<Rightarrow> error_shown e ''Failed to load organizations''
      | Loaded d \<Rightarrow> table_shown ORGANIZATIONS_PAGE_SIZE (os_pageIndex s) d)"

definition handleCreate :: "parser \<Rightarrow> organizations_page \<Rightarrow> organizations_page" where
  "handleCreate parse s =
     (case organization_submitted parse (os_form s) of
        None \<Rightarrow> s
      | Some body \<Rightarrow> s\<lparr>os_pending := True, os_calls := os_calls s @ [createOrganization body]\<rparr>)"

definition organization_created :: "js_exn + organization \<Rightarrow> organizations_page \<Rightarrow> organizations_page" where
  "organization_created r s =
     (let s1 = s\<lparr>os_pending := False\<rparr> in
      case r of
        Inr g \<Rightarrow> s1\<lparr>os_current := Some (og_id g), os_notices := os_notices s1 @ [Success (''Created '' @ og_name g)],
                   os_createOpen := False\<rparr>
      | Inl e \<Rightarrow> s1\<lparr>os_notices := os_notices s1 @ [Failure (error_text e ''Failed to create organization'')]\<rparr>)"

text \<open>While the page shows no list its dialog is not mounted; mounting it open resets its form.\<close>

definition is_loaded :: "'a query_state \<Rightarrow> bool" where
  "is_loaded q = (query_data q \<noteq> None)"

datatype organizations_event =
    OrganizationsAnswered "organization page_data query_state"
  | OpenOrganization organization
  | OrganizationsPrevious | OrganizationsNext
  | OpenCreate | CloseCreate | TypeName string | TypeSlug string | SubmitCreate
  | CreateAnswered "js_exn + organization"

definition type_create :: "organizations_page \<Rightarrow> (organization_form \<Rightarrow> organization_form) \<Rightarrow> organizations_page" where
  "type_create s f = (if is_loaded (os_list s) \<and> os_createOpen s \<and> \<not> os_pending s then s\<lparr>os_form := f (os_form s)\<rparr> else s)"

definition turn_page :: "(pagination \<Rightarrow> int option) \<Rightarrow> organizations_page \<Rightarrow> organizations_page" where
  "turn_page button s =
     (case organizations_view s of
        ShowTable rows p \<Rightarrow>
          (case button p of
             Some i \<Rightarrow> if os_createOpen s then s else s\<lparr>os_pageIndex := i\<rparr>
           | None \<Rightarrow> s)
      | _ \<Rightarrow> s)"

fun organizations_step :: "parser \<Rightarrow> organizations_event \<Rightarrow> organizations_page \<Rightarrow> organizations_page" where
  "organizations_step parse (OrganizationsAnswered q) s =
     s\<lparr>os_list := q,
       os_form := (if os_createOpen s \<and> \<not> is_loaded (os_list s) \<and> is_loaded q then organization_form_opened None else os_form s)\<rparr>"
| "organizations_step parse (OpenOrganization g) s =
     (case query_data (os_list s) of
        Some d \<Rightarrow> if g \<in> set (pd_items d) then s\<lparr>os_current := Some (og_id g)\<rparr> else s
      | None \<Rightarrow> s)"
| "organizations_step parse OrganizationsPrevious s = turn_page previous_button s"
| "organizations_step parse OrganizationsNext s = turn_page next_button s"
| "organizations_step parse OpenCreate s =
     (if is_loaded (os_list s) \<and> \<not> os_createOpen s
      then s\<lparr>os_createOpen := True, os_form := organization_form_opened None\<rparr> else s)"
| "organizations_step parse CloseCreate s = (if is_loaded (os_list s) then s\<lparr>os_createOpen := False\<rparr> else s)"
| "organizations_step parse (TypeName v) s = type_create s (name_typed None v)"
| "organizations_step parse (TypeSlug v) s = type_create s (slug_typed None v)"
| "organizations_step parse SubmitCreate s =
     (if is_loaded (os_list s) \<and> os_createOpen s \<and> \<not> os_pending s then handleCreate parse s else s)"
| "organizations_step parse (CreateAnswered r) s = (if os_pending s then organization_created r s else s)"

text \<open>A creation carries the name and the slug in the form at the moment it is sent.\<close>

definition body_of_form :: "organization_form \<Rightarrow> json \<Rightarrow> bool" where
  "body_of_form f body =
     (js_prop body ''name'' = Some (JStr (js_trim (fo_name f))) \<and> js_trim (fo_name f) \<noteq> []
      \<and> js_prop body ''slug'' = (if js_trim (fo_slug f) = [] then None else Some (JStr (js_trim (fo_slug f))))
      \<and> (js_trim (fo_slug f) = [] \<or> valid_slug (js_trim (fo_slug f))))"

definition create_ok :: "organizations_page \<Rightarrow> organizations_event \<Rightarrow> api_call \<Rightarrow> bool" where
  "create_ok s ev c =
     (ev = SubmitCreate \<and> os_createOpen s \<and> \<not> os_pending s \<and> (\<exists>body. c = createOrganization body \<and> body_of_form (os_form s) body))"

text \<open>Until a slug is typed, the slug in the form is the one made from the name.\<close>

definition suggestion_kept :: "organizations_page \<Rightarrow> bool" where
  "suggestion_kept s = (\<not> fo_slugDirty (os_form s) \<longrightarrow> fo_slug (os_form s) \<in> {[], slugify (fo_name (os_form s))})"

lemma submitted_body: "zod fmt parse \<Longrightarrow> organization_submitted parse f = Some body \<Longrightarrow> body_of_form f body"
  using zod.organization_accepted by (simp add: body_of_form_def)

lemma suggestion_step: "suggestion_kept s \<Longrightarrow> suggestion_kept (organizations_step parse ev s)"
  by (cases ev)
    (auto simp: suggestion_kept_def type_create_def turn_page_def organization_form_opened_def name_typed_def slug_typed_def
      handleCreate_def organization_created_def Let_def split: option.split sum.split table_page.split)

lemma create_calls_step:
  assumes "zod fmt parse"
  shows "\<exists>new. os_calls (organizations_step parse ev s) = os_calls s @ new \<and> length new \<le> 1 \<and> list_all (create_ok s ev) new"
proof (cases "ev = SubmitCreate \<and> is_loaded (os_list s) \<and> os_createOpen s \<and> \<not> os_pending s
    \<and> organization_submitted parse (os_form s) \<noteq> None")
  case True
  then obtain body where body: "organization_submitted parse (os_form s) = Some body" by blast
  from submitted_body [OF assms body] True body show ?thesis
    by (intro one_new [where c = "createOrganization body"]) (auto simp: handleCreate_def create_ok_def)
next
  case False
  then show ?thesis
    by (cases ev) (auto simp: type_create_def turn_page_def handleCreate_def organization_created_def Let_def
        split: option.split sum.split table_page.split)
qed

lemma organizations_guarded:
  "zod fmt parse \<Longrightarrow> guarded_page (organizations_step parse) os_calls suggestion_kept create_ok"
  by unfold_locales (rule suggestion_step, assumption, rule create_calls_step)

interpretation organizations: guarded_page "organizations_step (zparse fmt)" os_calls suggestion_kept create_ok for fmt
  by (rule organizations_guarded) unfold_locales

text \<open>An organization that was created is the one selected, and the dialog is closed.\<close>

lemma created_is_selected:
  "os_pending s \<Longrightarrow> os_current (organizations_step parse (CreateAnswered (Inr g)) s) = Some (og_id g)
    \<and> \<not> os_createOpen (organizations_step parse (CreateAnswered (Inr g)) s)"
  by (simp add: organization_created_def)

section \<open>One organization\<close>

record organization_page =
  od_organizationId :: string
  od_role :: "OrgRole option"
  od_data :: "organization query_state"
  od_current :: "string option"
  od_editOpen :: bool
  od_deleteOpen :: bool
  od_form :: organization_form
  od_updating :: bool
  od_deleting :: bool
  od_calls :: "api_call list"
  od_notices :: "notice list"
  od_pushed :: "string list"

text \<open>The effect of the first render selects the organization.\<close>

definition organization_opened :: "string \<Rightarrow> OrgRole option \<Rightarrow> organization_page" where
  "organization_opened organizationId role =
     \<lparr>od_organizationId = organizationId, od_role = role, od_data = Loading, od_current = Some organizationId,
      od_editOpen = False, od_deleteOpen = False, od_form = organization_form_opened None, od_updating = False,
      od_deleting = False, od_calls = [], od_notices = [], od_pushed = []\<rparr>"

datatype organization_screen =
    OrganizationLoading
  | OrganizationError string "string option"
  | OrganizationDenied
  | OrganizationShown organization bool bool bool

text \<open>The last three tell whether the links and buttons Audit, Edit and Delete are there.\<close>

definition organization_shown :: "organization_page \<Rightarrow> organization_screen" where
  "organization_shown s =
     (case od_data s of
        Loading \<Rightarrow> OrganizationLoading
      | LoadFailed e \<Rightarrow>
          OrganizationError (error_text e ''Failed to load organization'')
            (case e of ApiClientErr x \<Rightarrow> ae_requestId x | _ \<Rightarrow> None)
      | Loaded g \<Rightarrow>
          if (case od_role s of Some r \<Rightarrow> \<not> can r OrganizationRead | None \<Rightarrow> False) then OrganizationDenied
          else OrganizationShown g (PermissionGate AuditRead (od_role s)) (PermissionGate OrganizationUpdate (od_role s))
                 (PermissionGate OrganizationDelete (od_role s)))"

definition handleUpdateOrganization :: "parser \<Rightarrow> organization_page \<Rightarrow> organization_page" where
  "handleUpdateOrganization parse s =
     (case organization_submitted parse (od_form s) of
        None \<Rightarrow> s
      | Some body \<Rightarrow> s\<lparr>od_updating := True, od_calls := od_calls s @ [updateOrganization (od_organizationId s) body]\<rparr>)"

definition handleDeleteOrganization :: "organization_page \<Rightarrow> organization_page" where
  "handleDeleteOrganization s =
     s\<lparr>od_deleting := True, od_calls := od_calls s @ [deleteOrganization (od_organizationId s)]\<rparr>"

definition update_answered :: "js_exn option \<Rightarrow> organization_page \<Rightarrow> organization_page" where
  "update_answered failed s =
     (let s1 = s\<lparr>od_updating := False\<rparr> in
      case failed of
        None \<Rightarrow> s1\<lparr>od_notices := od_notices s1 @ [Success ''Organization updated''], od_editOpen := False\<rparr>
      | Some e \<Rightarrow> s1\<lparr>od_notices := od_notices s1 @ [Failure (error_text e ''Failed to update organization'')]\<rparr>)"

definition delete_answered :: "js_exn option \<Rightarrow> organization_page \<Rightarrow> organization_page" where
  "delete_answered failed s =
     (let s1 = s\<lparr>od_deleting := False\<rparr> in
      case failed of
        None \<Rightarrow> s1\<lparr>od_notices := od_notices s1 @ [Success ''Organization deleted''], od_current := None,
                  od_deleteOpen := False, od_pushed := od_pushed s1 @ [''/organizations'']\<rparr>
      | Some e \<Rightarrow> s1\<lparr>od_notices := od_notices s1 @ [Failure (error_text e ''Failed to delete organization'')]\<rparr>)"

datatype organization_event =
    RoleKnown "OrgRole option"
  | OrganizationAnswered "organization query_state"
  | OpenEditOrganization | CloseEditOrganization | RetypeName string | RetypeSlug string | SubmitUpdate
  | AskDeleteOrganization | CloseDeleteOrganization | ConfirmDeleteOrganization
  | UpdateAnswered "js_exn option" | DeleteAnswered "js_exn option"

definition type_edit :: "organization_page \<Rightarrow> (organization option \<Rightarrow> organization_form \<Rightarrow> organization_form) \<Rightarrow> organization_page" where
  "type_edit s f =
     (if is_loaded (od_data s) \<and> od_editOpen s \<and> \<not> od_updating s
      then s\<lparr>od_form := f (query_data (od_data s)) (od_form s)\<rparr> else s)"

text \<open>The form is reset when its dialog opens or is shown again, and when other data arrive for it.\<close>

fun organization_step :: "parser \<Rightarrow> organization_event \<Rightarrow> organization_page \<Rightarrow> organization_page" where
  "organization_step parse (RoleKnown r) s = s\<lparr>od_role := r\<rparr>"
| "organization_step parse (OrganizationAnswered q) s =
     s\<lparr>od_data := q,
       od_form := (if od_editOpen s \<and> is_loaded q \<and> od_data s \<noteq> q then organization_form_opened (query_data q) else od_form s)\<rparr>"
| "organization_step parse OpenEditOrganization s =
     (if is_loaded (od_data s) \<and> PermissionGate OrganizationUpdate (od_role s) \<and> \<not> od_editOpen s
      then s\<lparr>od_editOpen := True, od_form := organization_form_opened (query_data (od_data s))\<rparr> else s)"
| "organization_step parse CloseEditOrganization s = (if is_loaded (od_data s) then s\<lparr>od_editOpen := False\<rparr> else s)"
| "organization_step parse (RetypeName v) s = type_edit s (\<lambda>g. name_typed g v)"
| "organization_step parse (RetypeSlug v) s = type_edit s (\<lambda>g. slug_typed g v)"
| "organization_step parse SubmitUpdate s =
     (if is_loaded (od_data s) \<and> od_editOpen s \<and> \<not> od_updating s then handleUpdateOrganization parse s else s)"
| "organization_step parse AskDeleteOrganization s =
     (if is_loaded (od_data s) \<and> PermissionGate OrganizationDelete (od_role s) then s\<lparr>od_deleteOpen := True\<rparr> else s)"
| "organization_step parse CloseDeleteOrganization s = (if is_loaded (od_data s) then s\<lparr>od_deleteOpen := False\<rparr> else s)"
| "organization_step parse ConfirmDeleteOrganization s =
     (if is_loaded (od_data s) \<and> od_deleteOpen s \<and> \<not> od_deleting s then handleDeleteOrganization s else s)"
| "organization_step parse (UpdateAnswered failed) s = (if od_updating s then update_answered failed s else s)"
| "organization_step parse (DeleteAnswered failed) s = (if od_deleting s then delete_answered failed s else s)"

text \<open>The changes and the deletions each have their own dialog and their own permission.\<close>

definition is_deletion :: "api_call \<Rightarrow> bool" where
  "is_deletion c = (ro_method (snd c) = Some ''DELETE'')"

definition update_calls :: "organization_page \<Rightarrow> api_call list" where
  "update_calls s = filter (\<lambda>c. \<not> is_deletion c) (od_calls s)"

definition deletion_calls :: "organization_page \<Rightarrow> api_call list" where
  "deletion_calls s = filter is_deletion (od_calls s)"

definition update_ok :: "organization_page \<Rightarrow> organization_event \<Rightarrow> api_call \<Rightarrow> bool" where
  "update_ok s ev c =
     (ev = SubmitUpdate \<and> od_editOpen s \<and> \<not> od_updating s
      \<and> (\<exists>body. c = updateOrganization (od_organizationId s) body \<and> body_of_form (od_form s) body))"

definition deletion_ok :: "organization_page \<Rightarrow> organization_event \<Rightarrow> api_call \<Rightarrow> bool" where
  "deletion_ok s ev c =
     (ev = ConfirmDeleteOrganization \<and> od_deleteOpen s \<and> \<not> od_deleting s \<and> c = deleteOrganization (od_organizationId s))"

lemma call_kinds [simp]: "is_deletion (deleteOrganization i)" "\<not> is_deletion (updateOrganization i body)"
  by (simp_all add: is_deletion_def updateOrganization_def deleteOrganization_def body_call_def method_call_def)

lemma organization_calls_step:
  assumes "zod fmt parse"
  shows "\<exists>new. od_calls (organization_step parse ev s) = od_calls s @ new
    \<and> (new = [] \<or> (\<exists>c. new = [c] \<and> (\<not> is_deletion c \<and> update_ok s ev c \<or> is_deletion c \<and> deletion_ok s ev c)))"
proof (cases ev)
  case SubmitUpdate
  show ?thesis
  proof (cases "is_loaded (od_data s) \<and> od_editOpen s \<and> \<not> od_updating s \<and> organization_submitted parse (od_form s) \<noteq> None")
    case True
    then obtain body where body: "organization_submitted parse (od_form s) = Some body" by blast
    have "update_ok s SubmitUpdate (updateOrganization (od_organizationId s) body)"
      using True submitted_body [OF assms body] unfolding update_ok_def by blast
    with True body show ?thesis
      by (intro exI [of _ "[updateOrganization (od_organizationId s) body]"]) (simp add: SubmitUpdate handleUpdateOrganization_def)
  qed (auto simp: SubmitUpdate handleUpdateOrganization_def split: option.split)
next
  case ConfirmDeleteOrganization
  show ?thesis
  proof (cases "is_loaded (od_data s) \<and> od_deleteOpen s \<and> \<not> od_deleting s")
    case True
    then show ?thesis
      by (intro exI [of _ "[deleteOrganization (od_organizationId s)]"])
         (simp add: ConfirmDeleteOrganization handleDeleteOrganization_def deletion_ok_def)
  qed (auto simp: ConfirmDeleteOrganization)
qed (auto simp: type_edit_def update_answered_def delete_answered_def Let_def split: option.split)

lemma no_dialog_opens:
  "od_editOpen (organization_step parse ev s) \<Longrightarrow> od_editOpen s \<or> PermissionGate OrganizationUpdate (od_role s)"
  "od_deleteOpen (organization_step parse ev s) \<Longrightarrow> od_deleteOpen s \<or> PermissionGate OrganizationDelete (od_role s)"
  by (cases ev; auto simp: type_edit_def handleUpdateOrganization_def handleDeleteOrganization_def update_answered_def
      delete_answered_def Let_def split: option.splits if_splits)+

lemma organization_update_gated:
  assumes "zod fmt parse"
  shows "gated_page (organization_step parse) update_calls (\<lambda>_. True) update_ok
    (\<lambda>s. PermissionGate OrganizationUpdate (od_role s)) od_editOpen"
proof
  fix s ev
  from organization_calls_step [OF assms, of ev s]
  show "\<exists>new. update_calls (organization_step parse ev s) = update_calls s @ new \<and> length new \<le> 1 \<and> list_all (update_ok s ev) new"
    by (fastforce simp: update_calls_def)
qed (auto simp: update_ok_def dest: no_dialog_opens)

lemma organization_deletion_gated:
  assumes "zod fmt parse"
  shows "gated_page (organization_step parse) deletion_calls (\<lambda>_. True) deletion_ok
    (\<lambda>s. PermissionGate OrganizationDelete (od_role s)) od_deleteOpen"
proof
  fix s ev
  from organization_calls_step [OF assms, of ev s]
  show "\<exists>new. deletion_calls (organization_step parse ev s) = deletion_calls s @ new \<and> length new \<le> 1 \<and> list_all (deletion_ok s ev) new"
    by (fastforce simp: deletion_calls_def)
qed (auto simp: deletion_ok_def dest: no_dialog_opens)

interpretation organization_changes: gated_page "organization_step (zparse fmt)" update_calls "\<lambda>_. True" update_ok
    "\<lambda>s. PermissionGate OrganizationUpdate (od_role s)" od_editOpen for fmt
  by (rule organization_update_gated) unfold_locales

interpretation organization_deletions: gated_page "organization_step (zparse fmt)" deletion_calls "\<lambda>_. True" deletion_ok
    "\<lambda>s. PermissionGate OrganizationDelete (od_role s)" od_deleteOpen for fmt
  by (rule organization_deletion_gated) unfold_locales

text \<open>Every change of an organization was sent from a dialog that the permission to change it had
  offered, with the fields of the form; every deletion from one that the permission to delete it had.\<close>

theorem organization_calls_sound:
  assumes "zod fmt parse"
  shows "list_all (offered_before (organization_step parse) (\<lambda>s. PermissionGate OrganizationUpdate (od_role s)) update_ok
      (organization_opened organizationId role) es) (update_calls (fold (organization_step parse) es (organization_opened organizationId role)))
    \<and> list_all (offered_before (organization_step parse) (\<lambda>s. PermissionGate OrganizationDelete (od_role s)) deletion_ok
      (organization_opened organizationId role) es) (deletion_calls (fold (organization_step parse) es (organization_opened organizationId role)))"
  by (intro conjI gated_page.session_offered [OF organization_update_gated [OF assms]]
      gated_page.session_offered [OF organization_deletion_gated [OF assms]])
     (simp_all add: organization_opened_def update_calls_def deletion_calls_def)

definition ex_organization :: organization where
  "ex_organization = \<lparr>og_id = ''o1'', og_name = ''Platform'', og_slug = ''platform''\<rparr>"

definition ex_organization_events :: "organization_event list" where
  "ex_organization_events = [OrganizationAnswered (Loaded ex_organization), OpenEditOrganization, RetypeName ''Core'', SubmitUpdate,
     UpdateAnswered None, AskDeleteOrganization, ConfirmDeleteOrganization, DeleteAnswered None]"

text \<open>An owner changes and deletes, an administrator only changes, a member neither.\<close>

lemma ex_organization_sessions:
  "let s = fold (organization_step ex_parse) ex_organization_events (organization_opened ''o1'' (Some Owner))
   in length (update_calls s) = 1 \<and> length (deletion_calls s) = 1 \<and> od_current s = None \<and> od_pushed s = [''/organizations'']"
  "let s = fold (organization_step ex_parse) ex_organization_events (organization_opened ''o1'' (Some Admin))
   in length (update_calls s) = 1 \<and> deletion_calls s = []"
  "od_calls (fold (organization_step ex_parse) ex_organization_events (organization_opened ''o1'' (Some Member))) = []"
  by code_simp+

section \<open>The packs of an organization\<close>

definition PACKS_PAGE_SIZE :: int where "PACKS_PAGE_SIZE = 20"

record pack_summary =
  ps_id :: string
  ps_name :: string
  ps_is_active :: bool

record packs_page =
  pk_organizationId :: string
  pk_role :: "OrgRole option"
  pk_list :: "pack_summary page_data query_state"
  pk_pageIndex :: int
  pk_createOpen :: bool
  pk_form :: pack_form
  pk_pending :: bool
  pk_current :: "string option"
  pk_calls :: "api_call list"
  pk_notices :: "notice list"

definition packs_opened :: "string \<Rightarrow> OrgRole option \<Rightarrow> packs_page" where
  "packs_opened organizationId role =
     \<lparr>pk_organizationId = organizationId, pk_role = role, pk_list = Loading, pk_pageIndex = 0, pk_createOpen = False,
      pk_form = pack_form_of None, pk_pending = False, pk_current = Some organizationId, pk_calls = [],
      pk_notices = []\<rparr>"

definition packs_query :: "packs_page \<Rightarrow> hook_query" where
  "packs_query s =
     usePolicyPacks (pk_organizationId s) [(''limit'', QInt PACKS_PAGE_SIZE), (''offset'', QInt (pk_pageIndex s * PACKS_PAGE_SIZE))]"

definition packs_view :: "packs_page \<Rightarrow> pack_summary table_page" where
  "packs_view s =
     (case pk_list s of
        Loading \<Rightarrow> ShowLoading
      | LoadFailed e \<Rightarrow> error_shown e ''Failed to load policy packs''
      | Loaded d \<Rightarrow>
          if (case pk_role s of Some r \<Rightarrow> \<not> can r PolicyRead | None \<Rightarrow> False) then ShowDenied
          else table_shown PACKS_PAGE_SIZE (pk_pageIndex s) d)"

definition handleCreatePack :: "parser \<Rightarrow> packs_page \<Rightarrow> packs_page" where
  "handleCreatePack parse s =
     (case parse policyPackFormSchema (Some (pack_values (pk_form s))) of
        Some (Some v) \<Rightarrow> s\<lparr>pk_pending := True, pk_calls := pk_calls s @ [createPolicyPack (pk_organizationId s) (pack_body v)]\<rparr>
      | _ \<Rightarrow> s)"

definition pack_created :: "js_exn option \<Rightarrow> packs_page \<Rightarrow> packs_page" where
  "pack_created failed s =
     (let s1 = s\<lparr>pk_pending := False\<rparr> in
      case failed of
        None \<Rightarrow> s1\<lparr>pk_notices := pk_notices s1 @ [Success ''Policy pack created''], pk_createOpen := False\<rparr>
      | Some e \<Rightarrow> s1\<lparr>pk_notices := pk_notices s1 @ [Failure (error_text e ''Failed to create policy pack'')]\<rparr>)"

datatype packs_event =
    PacksRole "OrgRole option"
  | PacksAnswered "pack_summary page_data query_state"
  | PacksPrevious | PacksNext
  | OpenNewPack | CloseNewPack | NewPackName string | NewPackDescription string | NewPackActive bool | SubmitPack
  | PackCreated "js_exn option"

definition type_new_pack :: "packs_page \<Rightarrow> (pack_form \<Rightarrow> pack_form) \<Rightarrow> packs_page" where
  "type_new_pack s f = (if is_loaded (pk_list s) \<and> pk_createOpen s \<and> \<not> pk_pending s then s\<lparr>pk_form := f (pk_form s)\<rparr> else s)"

definition turn_packs :: "(pagination \<Rightarrow> int option) \<Rightarrow> packs_page \<Rightarrow> packs_page" where
  "turn_packs button s =
     (case packs_view s of
        ShowTable rows p \<Rightarrow>
          (case button p of
             Some i \<Rightarrow> if pk_createOpen s then s else s\<lparr>pk_pageIndex := i\<rparr>
           | None \<Rightarrow> s)
      | _ \<Rightarrow> s)"

text \<open>The form belongs to the page, so it is reset only when the dialog is opened.\<close>

fun packs_step :: "parser \<Rightarrow> packs_event \<Rightarrow> packs_page \<Rightarrow> packs_page" where
  "packs_step parse (PacksRole r) s = s\<lparr>pk_role := r\<rparr>"
| "packs_step parse (PacksAnswered q) s = s\<lparr>pk_list := q\<rparr>"
| "packs_step parse PacksPrevious s = turn_packs previous_button s"
| "packs_step parse PacksNext s = turn_packs next_button s"
| "packs_step parse OpenNewPack s =
     (if is_loaded (pk_list s) \<and> PermissionGate PolicyManage (pk_role s) \<and> \<not> pk_createOpen s
      then s\<lparr>pk_createOpen := True, pk_form := pack_form_of None\<rparr> else s)"
| "packs_step parse CloseNewPack s = (if is_loaded (pk_list s) then s\<lparr>pk_createOpen := False\<rparr> else s)"
| "packs_step parse (NewPackName v) s = type_new_pack s (\<lambda>f. f\<lparr>pf_name := v\<rparr>)"
| "packs_step parse (NewPackDescription v) s = type_new_pack s (\<lambda>f. f\<lparr>pf_description := v\<rparr>)"
| "packs_step parse (NewPackActive b) s = type_new_pack s (\<lambda>f. f\<lparr>pf_is_active := b\<rparr>)"
| "packs_step parse SubmitPack s =
     (if is_loaded (pk_list s) \<and> pk_createOpen s \<and> \<not> pk_pending s then handleCreatePack parse s else s)"
| "packs_step parse (PackCreated failed) s = (if pk_pending s then pack_created failed s else s)"

definition new_pack_ok :: "packs_page \<Rightarrow> packs_event \<Rightarrow> api_call \<Rightarrow> bool" where
  "new_pack_ok s ev c =
     (ev = SubmitPack \<and> pk_createOpen s \<and> \<not> pk_pending s
      \<and> (\<exists>body. c = createPolicyPack (pk_organizationId s) body
          \<and> js_prop body ''name'' = Some (JStr (js_trim (pf_name (pk_form s)))) \<and> js_trim (pf_name (pk_form s)) \<noteq> []
          \<and> js_prop body ''is_active'' = Some (JBool (pf_is_active (pk_form s)))))"

lemma packs_calls_step:
  assumes "zod fmt parse"
  shows "\<exists>new. pk_calls (packs_step parse ev s) = pk_calls s @ new \<and> length new \<le> 1 \<and> list_all (new_pack_ok s ev) new"
proof (cases "ev = SubmitPack \<and> is_loaded (pk_list s) \<and> pk_createOpen s \<and> \<not> pk_pending s
    \<and> (\<exists>v. parse policyPackFormSchema (Some (pack_values (pk_form s))) = Some (Some v))")
  case True
  then obtain v where v: "parse policyPackFormSchema (Some (pack_values (pk_form s))) = Some (Some v)" by blast
  show ?thesis
    by (rule one_new [where c = "createPolicyPack (pk_organizationId s) (pack_body v)"])
       (use True v pack_body_ok [OF assms v] in \<open>auto simp: handleCreatePack_def new_pack_ok_def\<close>)
next
  case False
  then show ?thesis
    by (cases ev) (auto simp: type_new_pack_def turn_packs_def handleCreatePack_def pack_created_def Let_def
        split: option.split table_page.split)
qed

lemma packs_gated:
  assumes "zod fmt parse"
  shows "gated_page (packs_step parse) pk_calls (\<lambda>_. True) new_pack_ok (\<lambda>s. PermissionGate PolicyManage (pk_role s)) pk_createOpen"
proof
  fix s ev
  show "pk_createOpen s \<or> PermissionGate PolicyManage (pk_role s)" if "pk_createOpen (packs_step parse ev s)"
    using that by (cases ev) (auto simp: type_new_pack_def turn_packs_def handleCreatePack_def pack_created_def Let_def
        split: option.splits table_page.splits if_splits)
  show "\<exists>new. pk_calls (packs_step parse ev s) = pk_calls s @ new \<and> length new \<le> 1 \<and> list_all (new_pack_ok s ev) new"
    by (rule packs_calls_step [OF assms])
qed (auto simp: new_pack_ok_def)

interpretation policy_packs: gated_page "packs_step (zparse fmt)" pk_calls "\<lambda>_. True" new_pack_ok
    "\<lambda>s. PermissionGate PolicyManage (pk_role s)" pk_createOpen for fmt
  by (rule packs_gated) unfold_locales

text \<open>A new pack was sent from a dialog that the permission to manage policies had offered.\<close>

theorem new_packs_were_offered:
  assumes "zod fmt parse"
  shows "list_all (offered_before (packs_step parse) (\<lambda>s. PermissionGate PolicyManage (pk_role s)) new_pack_ok
      (packs_opened organizationId role) es) (pk_calls (fold (packs_step parse) es (packs_opened organizationId role)))"
  by (rule gated_page.session_offered [OF packs_gated [OF assms]]) (simp_all add: packs_opened_def)

end
