(* ===== verification/Profile_Page.thy ===== *)
theory Profile_Page
  imports Provider_Admin Py_Text
begin

text \<open>
  components/settings/profile-settings.tsx: the form of the user's profile.  The backend's side
  (schemas/user.py, services/profile_service.py and utils/usernames.py) is modelled as far as the
  form depends on it.  Parameters of the backend: the usernames of other users, the names of the
  zones the system knows, and whether the standard library reads a text as the address of a host on
  the web.
\<close>

section \<open>The form\<close>

record user_profile =
  up_username :: string
  up_email :: string
  up_display_name :: "string option"
  up_timezone :: "string option"
  up_job_title :: "string option"
  up_avatar_url :: "string option"

record profile_form =
  fp_display_name :: string
  fp_username :: string
  fp_timezone :: string
  fp_job_title :: string
  fp_avatar_url :: string

definition profile_form_default :: profile_form where
  "profile_form_default = \<lparr>fp_display_name = [], fp_username = [], fp_timezone = ''UTC'', fp_job_title = [], fp_avatar_url = []\<rparr>"

definition or_text :: "string option \<Rightarrow> string \<Rightarrow> string" where
  "or_text v d = (case v of Some t \<Rightarrow> t | None \<Rightarrow> d)"

definition profile_form_of :: "user_profile \<Rightarrow> profile_form" where
  "profile_form_of p =
     \<lparr>fp_display_name = or_text (up_display_name p) [], fp_username = up_username p,
      fp_timezone = or_text (up_timezone p) ''UTC'', fp_job_title = or_text (up_job_title p) [],
      fp_avatar_url = or_text (up_avatar_url p) []\<rparr>"

definition profile_values :: "profile_form \<Rightarrow> json" where
  "profile_values f =
     JObj [(''display_name'', JStr (fp_display_name f)), (''username'', JStr (fp_username f)),
           (''timezone'', JStr (fp_timezone f)), (''job_title'', JStr (fp_job_title f)),
           (''avatar_url'', JStr (fp_avatar_url f))]"

definition profile_body :: "json \<Rightarrow> json" where
  "profile_body v = JObj (js_field v ''username'' @
     [(''display_name'', truthy_or_null (js_prop v ''display_name'')), (''timezone'', truthy_or_null (js_prop v ''timezone'')),
      (''job_title'', truthy_or_null (js_prop v ''job_title'')), (''avatar_url'', truthy_or_null (js_prop v ''avatar_url''))])"

definition profile_submitted :: "parser \<Rightarrow> profile_form \<Rightarrow> json option" where
  "profile_submitted parse f =
     (case parse profileSettingsSchema (Some (profile_values f)) of
        Some (Some v) \<Rightarrow> Some (profile_body v)
      | _ \<Rightarrow> None)"

text \<open>The letters shown when there is no picture: the first of each of the first two words.\<close>

definition initials :: "string \<Rightarrow> string" where
  "initials s = map (\<lambda>w. char_upper (hd w)) (take 2 (words_on is_ws s))"

definition shown_name :: "user_profile \<Rightarrow> string" where
  "shown_name p = (if truthy_str (up_display_name p) then the (up_display_name p) else up_username p)"

section \<open>The backend\<close>

definition RESERVED_USERNAMES :: "string list" where
  "RESERVED_USERNAMES =
     [''admin'', ''administrator'', ''api'', ''auth'', ''devops'', ''me'', ''null'', ''root'', ''support'', ''system'', ''undefined'']"

definition is_name_char :: "char \<Rightarrow> bool" where
  "is_name_char c = (is_username_char c \<or> c = CHR ''.'')"

definition validate_username :: "string \<Rightarrow> string option" where
  "validate_username s =
     (let u = js_lower (strip_on py_ws s) in
      if length u < 3 \<or> 100 < length u \<or> \<not> list_all is_name_char u \<or> u \<in> set RESERVED_USERNAMES then None else Some u)"

definition normalize_display_name :: "string option \<Rightarrow> string option" where
  "normalize_display_name v =
     (case v of None \<Rightarrow> None
      | Some s \<Rightarrow> (let n = js_join '' '' (words_on py_ws s) in if n = [] then None else Some n))"

definition strip_or_none :: "string option \<Rightarrow> string option" where
  "strip_or_none v =
     (case v of None \<Rightarrow> None | Some s \<Rightarrow> (let t = strip_on py_ws s in if t = [] then None else Some t))"

text \<open>The outer \<open>None\<close> is a refusal.\<close>

definition validate_timezone :: "(string \<Rightarrow> bool) \<Rightarrow> string option \<Rightarrow> string option option" where
  "validate_timezone zones v =
     (case strip_or_none v of None \<Rightarrow> Some None | Some t \<Rightarrow> if zones t then Some (Some t) else None)"

definition validate_avatar_url :: "(string \<Rightarrow> bool) \<Rightarrow> string option \<Rightarrow> string option option" where
  "validate_avatar_url web v =
     (case strip_or_none v of None \<Rightarrow> Some None
      | Some t \<Rightarrow> if length t \<le> 512 \<and> web t then Some (Some t) else None)"

text \<open>A field of the request: absent (\<open>Some None\<close>), null, a text in its bounds, or refused.\<close>

definition request_text :: "nat \<Rightarrow> nat \<Rightarrow> json option \<Rightarrow> string option option option" where
  "request_text lo hi v =
     (case v of
        None \<Rightarrow> Some None
      | Some JNull \<Rightarrow> Some (Some None)
      | Some (JStr s) \<Rightarrow>
          (let t = strip_on unicode_ws s in if lo \<le> length t \<and> length t \<le> hi then Some (Some (Some t)) else None)
      | _ \<Rightarrow> None)"

datatype profile_outcome = ProfileInvalid | ProfileConflict | ProfileCrash | ProfileSaved user_profile

definition updated :: "'a option \<Rightarrow> 'a \<Rightarrow> 'a" where
  "updated given old = (case given of Some x \<Rightarrow> x | None \<Rightarrow> old)"

text \<open>After the username: the other fields.\<close>

definition update_rest ::
  "(string \<Rightarrow> bool) \<Rightarrow> (string \<Rightarrow> bool) \<Rightarrow> user_profile \<Rightarrow> string option option \<Rightarrow> string option option \<Rightarrow> string option option
    \<Rightarrow> string option option \<Rightarrow> profile_outcome" where
  "update_rest zones web p d t j a =
     (case (map_option (validate_timezone zones) t, map_option (validate_avatar_url web) a) of
        (Some None, _) \<Rightarrow> ProfileInvalid
      | (_, Some None) \<Rightarrow> ProfileInvalid
      | (t', a') \<Rightarrow> ProfileSaved (p\<lparr>
          up_display_name := updated (map_option normalize_display_name d) (up_display_name p),
          up_timezone := updated (map_option the t') (up_timezone p),
          up_job_title := updated (map_option strip_or_none j) (up_job_title p),
          up_avatar_url := updated (map_option the a') (up_avatar_url p)\<rparr>))"

definition profile_keys :: "string list" where
  "profile_keys = [''username'', ''display_name'', ''timezone'', ''job_title'', ''avatar_url'']"

definition backend_update_profile ::
  "(string \<Rightarrow> bool) \<Rightarrow> (string \<Rightarrow> bool) \<Rightarrow> (string \<Rightarrow> bool) \<Rightarrow> user_profile \<Rightarrow> json \<Rightarrow> profile_outcome" where
  "backend_update_profile taken zones web p body =
     (case body of
        JObj kvs \<Rightarrow>
          if \<not> list_all (\<lambda>k. k \<in> set profile_keys) (map fst kvs) then ProfileInvalid
          else (case (request_text 3 100 (js_prop body ''username''), request_text 0 120 (js_prop body ''display_name''),
                      request_text 0 64 (js_prop body ''timezone''), request_text 0 120 (js_prop body ''job_title''),
                      request_text 0 512 (js_prop body ''avatar_url'')) of
              (Some u, Some d, Some t, Some j, Some a) \<Rightarrow>
                (case u of
                   None \<Rightarrow> update_rest zones web p d t j a
                 | Some None \<Rightarrow> ProfileCrash
                 | Some (Some s) \<Rightarrow>
                     if \<not> list_all is_name_char s then ProfileInvalid
                     else (case validate_username s of
                         None \<Rightarrow> ProfileInvalid
                       | Some name \<Rightarrow> if taken name then ProfileConflict
                                      else update_rest zones web (p\<lparr>up_username := name\<rparr>) d t j a))
            | _ \<Rightarrow> ProfileInvalid)
      | _ \<Rightarrow> ProfileInvalid)"

lemma name_char_plain: "is_name_char c \<Longrightarrow> \<not> py_ws c \<and> \<not> unicode_ws c \<and> is_name_char (char_lower c)"
proof -
  assume n: "is_name_char c"
  then have "\<not> py_ws c \<and> \<not> unicode_ws c"
    by (auto simp: is_name_char_def is_username_char_def py_ws_def unicode_ws_def js_defs)
  moreover have "is_name_char (char_lower c)"
  proof (cases "is_upper_az c")
    case True
    then have r: "65 \<le> char_code c" "char_code c \<le> 90" by (simp_all add: is_upper_az_def Let_def)
    then have "char_lower c = char_of (char_code c + 32)" by (simp add: char_lower_def Let_def)
    moreover from r have "char_code (char_of (char_code c + 32) :: char) = char_code c + 32"
      by (simp add: char_code_def)
    ultimately have "is_lower_az (char_lower c)" using r by (simp add: is_lower_az_def Let_def)
    then show ?thesis by (simp add: is_name_char_def is_username_char_def)
  next
    case False
    with n have "char_lower c = c"
      by (auto simp: is_name_char_def is_username_char_def is_upper_az_def is_lower_az_def is_digit_def char_lower_def
          Let_def char_code_def)
    with n show ?thesis by simp
  qed
  ultimately show ?thesis by blast
qed

lemma blank_text:
  assumes "js_trim s = []"
  shows "strip_on py_ws s = []" and "words_on py_ws s = []"
proof -
  have "strip_on py_ws (js_trim s) = strip_on py_ws s" "words_on py_ws (js_trim s) = words_on py_ws s"
    unfolding strip_js_trim by (rule strip_strip words_strip, erule ws_order)+
  then show "strip_on py_ws s = []" "words_on py_ws s = []" by (simp_all add: assms strip_on_def words_on_def)
qed

text \<open>A field of the form as it arrives.\<close>

definition sent :: "string \<Rightarrow> json" where
  "sent s = (if js_trim s = [] then JNull else JStr (js_trim s))"

definition arrived :: "string \<Rightarrow> string option" where
  "arrived s = (if js_trim s = [] then None else Some (strip_on unicode_ws s))"

lemma request_sent:
  "request_text 0 hi (Some (sent s)) =
     (if js_trim s = [] \<or> length (strip_on unicode_ws s) \<le> hi then Some (Some (arrived s)) else None)"
  by (simp add: request_text_def sent_def arrived_def strips Let_def)

lemma arrived_normal:
  "normalize_display_name (arrived s) = normalize_display_name (Some s)" "strip_or_none (arrived s) = strip_or_none (Some s)"
  by (simp_all add: arrived_def normalize_display_name_def strip_or_none_def strips blank_text Let_def)

lemma sent_fits: "length (js_trim s) \<le> n \<Longrightarrow> length (strip_on unicode_ws s) \<le> n"
  using length_strip [of unicode_ws "js_trim s"] by (simp add: strips)

section \<open>From the form to the backend\<close>

definition name_accepted :: "string \<Rightarrow> bool" where
  "name_accepted u = (3 \<le> length u \<and> length u \<le> 50 \<and> list_all is_username_char u)"

definition request_of_form :: "profile_form \<Rightarrow> json \<Rightarrow> bool" where
  "request_of_form f body =
     (name_accepted (js_trim (fp_username f)) \<and> length (js_trim (fp_display_name f)) \<le> 100
      \<and> length (js_trim (fp_timezone f)) \<le> 64 \<and> length (js_trim (fp_job_title f)) \<le> 100
      \<and> body = JObj [(''username'', JStr (js_trim (fp_username f))), (''display_name'', sent (fp_display_name f)),
          (''timezone'', sent (fp_timezone f)), (''job_title'', sent (fp_job_title f)), (''avatar_url'', sent (fp_avatar_url f))])"

context zod
begin

lemma optional_text_value:
  "parse (optionalText n) (Some (JStr s)) = Some u \<Longrightarrow> u = Some (JStr (js_trim s)) \<and> length (js_trim s) \<le> n"
  by (auto simp: optionalText_def or_law optional_law string_law literal_law js_trim_def split: option.splits if_splits)

lemma avatar_value:
  "parse (ZOr (ZOptional (ZString [Trim, Format ''url'', Pattern (\<lambda>s. starts_with s ''https://'')])) (ZLiteral [])) (Some (JStr s)) = Some u
    \<Longrightarrow> u = Some (JStr (js_trim s))"
  by (auto simp: or_law optional_law string_law literal_law js_trim_def split: option.splits if_splits)

lemma profile_accepted:
  assumes "profile_submitted parse f = Some body"
  shows "request_of_form f body"
proof -
  from assms obtain v where p: "parse profileSettingsSchema (Some (profile_values f)) = Some (Some v)"
    and b: "body = profile_body v"
    by (auto simp: profile_submitted_def split: option.splits)
  note g = object_field [OF p [unfolded profileSettingsSchema_def]]
  have "parse (optionalText 100) (js_prop (profile_values f) ''display_name'') = Some (js_prop v ''display_name'')"
    "parse (ZString [Trim, MinLength 3, MaxLength 50, Pattern (\<lambda>s. s \<noteq> [] \<and> list_all is_username_char s)])
       (js_prop (profile_values f) ''username'') = Some (js_prop v ''username'')"
    "parse (optionalText 64) (js_prop (profile_values f) ''timezone'') = Some (js_prop v ''timezone'')"
    "parse (optionalText 100) (js_prop (profile_values f) ''job_title'') = Some (js_prop v ''job_title'')"
    "parse (ZOr (ZOptional (ZString [Trim, Format ''url'', Pattern (\<lambda>s. starts_with s ''https://'')])) (ZLiteral []))
       (js_prop (profile_values f) ''avatar_url'') = Some (js_prop v ''avatar_url'')"
    by (rule g; simp)+
  then have "js_prop v ''display_name'' = Some (JStr (js_trim (fp_display_name f))) \<and> length (js_trim (fp_display_name f)) \<le> 100"
    "js_prop v ''username'' = Some (JStr (js_trim (fp_username f))) \<and> name_accepted (js_trim (fp_username f))"
    "js_prop v ''timezone'' = Some (JStr (js_trim (fp_timezone f))) \<and> length (js_trim (fp_timezone f)) \<le> 64"
    "js_prop v ''job_title'' = Some (JStr (js_trim (fp_job_title f))) \<and> length (js_trim (fp_job_title f)) \<le> 100"
    "js_prop v ''avatar_url'' = Some (JStr (js_trim (fp_avatar_url f)))"
    using optional_text_value avatar_value
    by (simp_all add: profile_values_def js_prop_JObj name_accepted_def string_law split: if_splits)
  then show ?thesis
    by (simp add: request_of_form_def b profile_body_def js_field_def truthy_or_null_def js_truthy_def sent_def)
qed

end

lemma accepted_name_validated:
  assumes "name_accepted u"
  shows "strip_on unicode_ws u = u \<and> list_all is_name_char u
    \<and> validate_username u = (if js_lower u \<in> set RESERVED_USERNAMES then None else Some (js_lower u))"
proof -
  from assms have chars: "list_all is_name_char u" by (auto simp: name_accepted_def list_all_iff is_name_char_def)
  then have "list_all (\<lambda>c. \<not> py_ws c) u" "list_all (\<lambda>c. \<not> unicode_ws c) u" "list_all is_name_char (js_lower u)"
    using name_char_plain by (auto simp: list_all_iff js_lower_def)
  then show ?thesis
    using chars assms strip_id by (simp add: validate_username_def name_accepted_def js_lower_def Let_def)
qed

lemma rest_arrived:
  assumes "length (strip_on py_ws a) \<le> 512"
  shows "update_rest zones web p (Some (arrived d)) (Some (arrived t)) (Some (arrived j)) (Some (arrived a)) =
    (if (case strip_or_none (Some t) of Some z \<Rightarrow> \<not> zones z | None \<Rightarrow> False) then ProfileInvalid
     else if (case strip_or_none (Some a) of Some u \<Rightarrow> \<not> web u | None \<Rightarrow> False) then ProfileInvalid
     else ProfileSaved (p\<lparr>up_display_name := normalize_display_name (Some d), up_timezone := strip_or_none (Some t),
       up_job_title := strip_or_none (Some j), up_avatar_url := strip_or_none (Some a)\<rparr>))"
proof -
  have "\<And>u. strip_or_none (Some a) = Some u \<Longrightarrow> length u \<le> 512"
    using assms by (auto simp: strip_or_none_def Let_def split: if_splits)
  then show ?thesis
    by (auto simp: update_rest_def validate_timezone_def validate_avatar_url_def arrived_normal updated_def split: option.split)
qed

text \<open>What the form promises: the username in lower case, unless it is reserved or another's; each other
  field as shown, without the blanks around it, an empty one cleared.\<close>

definition profile_promise ::
  "(string \<Rightarrow> bool) \<Rightarrow> (string \<Rightarrow> bool) \<Rightarrow> (string \<Rightarrow> bool) \<Rightarrow> user_profile \<Rightarrow> profile_form \<Rightarrow> profile_outcome" where
  "profile_promise taken zones web p f =
    (let name = js_lower (js_trim (fp_username f));
         zone = strip_or_none (Some (fp_timezone f));
         avatar = strip_or_none (Some (fp_avatar_url f)) in
     if js_trim (fp_avatar_url f) \<noteq> [] \<and> 512 < length (strip_on unicode_ws (fp_avatar_url f)) then ProfileInvalid
     else if name \<in> set RESERVED_USERNAMES then ProfileInvalid
     else if taken name then ProfileConflict
     else if (case zone of Some t \<Rightarrow> \<not> zones t | None \<Rightarrow> False) then ProfileInvalid
     else if (case avatar of Some t \<Rightarrow> \<not> web t | None \<Rightarrow> False) then ProfileInvalid
     else ProfileSaved (p\<lparr>up_username := name, up_display_name := normalize_display_name (Some (fp_display_name f)),
       up_timezone := zone, up_job_title := strip_or_none (Some (fp_job_title f)), up_avatar_url := avatar\<rparr>))"

lemma request_stored:
  assumes "request_of_form f body"
  shows "backend_update_profile taken zones web p body = profile_promise taken zones web p f"
proof -
  note a = assms [unfolded request_of_form_def]
  note n = accepted_name_validated [OF conjunct1 [OF a]]
  have "length (strip_on unicode_ws (fp_display_name f)) \<le> 120" "length (strip_on unicode_ws (fp_timezone f)) \<le> 64"
    "length (strip_on unicode_ws (fp_job_title f)) \<le> 120"
    using a sent_fits [of "fp_display_name f" 100] sent_fits [of "fp_timezone f" 64] sent_fits [of "fp_job_title f" 100] by simp_all
  moreover have "request_text 3 100 (Some (JStr (js_trim (fp_username f)))) = Some (Some (Some (js_trim (fp_username f))))"
    using n a by (simp add: request_text_def name_accepted_def Let_def)
  moreover have "length (strip_on py_ws (fp_avatar_url f)) \<le> 512"
    if "js_trim (fp_avatar_url f) = [] \<or> length (strip_on unicode_ws (fp_avatar_url f)) \<le> 512"
    using that blank_text [of "fp_avatar_url f"] length_strip [of py_ws "strip_on unicode_ws (fp_avatar_url f)"] by (auto simp: strips)
  moreover have "body = JObj [(''username'', JStr (js_trim (fp_username f))), (''display_name'', sent (fp_display_name f)),
      (''timezone'', sent (fp_timezone f)), (''job_title'', sent (fp_job_title f)), (''avatar_url'', sent (fp_avatar_url f))]"
    using a by blast
  ultimately show ?thesis
    using n by (auto simp: profile_promise_def backend_update_profile_def js_prop_JObj request_sent profile_keys_def rest_arrived Let_def)
qed

text \<open>C30: what an accepted profile form makes of the profile.  The username is stored in lower case, unless it
  is reserved or another's; each other field is what the form shows without the blanks around it (the
  display name with single blanks between its words), and an empty one clears what was stored.  The
  backend refuses an accepted form only for a reserved or taken username, an unknown time zone, or a
  picture whose address is too long or names no host.\<close>

theorem saving_profile:
  assumes "zod fmt parse" and "profile_submitted parse f = Some body"
  shows "backend_update_profile taken zones web p body = profile_promise taken zones web p f"
  by (rule request_stored [OF zod.profile_accepted [OF assms]])

definition ex_profile :: user_profile where
  "ex_profile = \<lparr>up_username = ''ada'', up_email = ''a@b.c'', up_display_name = Some ''Ada L'', up_timezone = None,
     up_job_title = Some ''Engineer'', up_avatar_url = None\<rparr>"

definition ex_profile_form :: profile_form where
  "ex_profile_form = (profile_form_of ex_profile)\<lparr>fp_username := ''Ada_1'', fp_display_name := '' Ada  Lovelace '', fp_job_title := []\<rparr>"

lemma saving_profile_witness:
  "backend_update_profile (\<lambda>_. False) (\<lambda>z. z = ''UTC'') (\<lambda>_. True) ex_profile (the (profile_submitted ex_parse ex_profile_form))
     = ProfileSaved (ex_profile\<lparr>up_username := ''ada_1'', up_display_name := Some ''Ada Lovelace'', up_timezone := Some ''UTC'',
         up_job_title := None, up_avatar_url := None\<rparr>)"
proof -
  have submitted: "profile_submitted ex_parse ex_profile_form = Some (the (profile_submitted ex_parse ex_profile_form))"
    by code_simp
  have f: "js_lower (js_trim (fp_username ex_profile_form)) = ''ada_1''" "js_trim (fp_avatar_url ex_profile_form) = []"
    "''ada_1'' \<notin> set RESERVED_USERNAMES" "strip_or_none (Some (fp_timezone ex_profile_form)) = Some ''UTC''"
    "strip_or_none (Some (fp_avatar_url ex_profile_form)) = None" "strip_or_none (Some (fp_job_title ex_profile_form)) = None"
    "normalize_display_name (Some (fp_display_name ex_profile_form)) = Some ''Ada Lovelace''" by code_simp+
  show ?thesis
    unfolding saving_profile [OF zod_ex submitted, of "\<lambda>_. False" "\<lambda>z. z = ''UTC''" "\<lambda>_. True" ex_profile]
    by (simp add: profile_promise_def f Let_def)
qed

text \<open>A profile as the backend stores it, changed in one field, keeps the others; a profile without a time
  zone gets the one the form shows.\<close>

definition profile_normal :: "user_profile \<Rightarrow> bool" where
  "profile_normal p =
     (js_lower (js_trim (up_username p)) = up_username p \<and> normalize_display_name (up_display_name p) = up_display_name p
      \<and> strip_or_none (up_timezone p) = up_timezone p \<and> strip_or_none (up_job_title p) = up_job_title p
      \<and> strip_or_none (up_avatar_url p) = up_avatar_url p)"

lemma or_text_normal:
  "normalize_display_name v = v \<Longrightarrow> normalize_display_name (Some (or_text v [])) = v"
  "strip_or_none v = v \<Longrightarrow> strip_or_none (Some (or_text v [])) = v"
  "strip_or_none v = v \<Longrightarrow> strip_or_none (Some (or_text v ''UTC'')) = Some (or_text v ''UTC'')"
proof -
  have "normalize_display_name (Some []) = None" "strip_or_none (Some []) = None" "strip_or_none (Some ''UTC'') = Some ''UTC''"
    by code_simp+
  then show "normalize_display_name v = v \<Longrightarrow> normalize_display_name (Some (or_text v [])) = v"
    "strip_or_none v = v \<Longrightarrow> strip_or_none (Some (or_text v [])) = v"
    "strip_or_none v = v \<Longrightarrow> strip_or_none (Some (or_text v ''UTC'')) = Some (or_text v ''UTC'')"
    by (cases v; simp add: or_text_def)+
qed

lemma other_fields_kept:
  assumes "zod fmt parse" and "profile_normal p"
    and "profile_submitted parse ((profile_form_of p)\<lparr>fp_job_title := t\<rparr>) = Some body"
    and "backend_update_profile taken zones web p body = ProfileSaved q"
  shows "q = p\<lparr>up_job_title := strip_or_none (Some t), up_timezone := Some (or_text (up_timezone p) ''UTC'')\<rparr>"
proof -
  let ?f = "(profile_form_of p)\<lparr>fp_job_title := t\<rparr>"
  have "js_lower (js_trim (fp_username ?f)) = up_username p"
    "normalize_display_name (Some (fp_display_name ?f)) = up_display_name p"
    "strip_or_none (Some (fp_timezone ?f)) = Some (or_text (up_timezone p) ''UTC'')"
    "strip_or_none (Some (fp_avatar_url ?f)) = up_avatar_url p"
    using assms(2) or_text_normal by (simp_all add: profile_normal_def profile_form_of_def)
  with request_stored [OF zod.profile_accepted [OF assms(1,3)], of taken zones web p] assms(4) show ?thesis
    by (simp add: profile_promise_def Let_def split: if_splits)
qed

text \<open>A username with a period, which the registration and the backend accept, is refused by this form,
  which sends the username with every change: such a user can change nothing.\<close>

lemma dotted_username_locks:
  assumes "zod fmt parse" and "CHR ''.'' \<in> set (js_trim (fp_username f))"
  shows "profile_submitted parse f = None"
proof (cases "profile_submitted parse f")
  case (Some body)
  have "\<not> is_username_char (CHR ''.'')" by code_simp
  with zod.profile_accepted [OF assms(1) Some] assms(2) show ?thesis by (auto simp: request_of_form_def name_accepted_def list_all_iff)
qed

lemma dotted_username_registers:
  "validate_username ''ada.l'' = Some ''ada.l''"
  "ex_parse registerSchema (Some (JObj [(''email'', JStr ''a@b.c''), (''username'', JStr ''ada.l''),
      (''password'', JStr ''Abcdef1!x9876'')])) \<noteq> None"
  by code_simp+

lemma initials_length: "length (initials s) \<le> 2"
  by (simp add: initials_def)

section \<open>The page\<close>

record profile_page =
  pq_data :: "user_profile query_state"
  pq_defaults :: profile_form
  pq_form :: profile_form
  pq_pending :: bool
  pq_reloads :: nat
  pq_calls :: "api_call list"
  pq_notices :: "notice list"

definition profile_opened :: profile_page where
  "profile_opened =
     \<lparr>pq_data = Loading, pq_defaults = profile_form_default, pq_form = profile_form_default, pq_pending = False,
      pq_reloads = 0, pq_calls = [], pq_notices = []\<rparr>"

definition profile_dirty :: "profile_page \<Rightarrow> bool" where
  "profile_dirty s = (pq_form s \<noteq> pq_defaults s)"

text \<open>The effect of new data resets the form and its default values.\<close>

definition profile_loaded :: "user_profile query_state \<Rightarrow> profile_page \<Rightarrow> profile_page" where
  "profile_loaded q s =
     (case query_data q of
        Some p \<Rightarrow>
          if query_data (pq_data s) = Some p then s\<lparr>pq_data := q\<rparr>
          else s\<lparr>pq_data := q, pq_defaults := profile_form_of p, pq_form := profile_form_of p\<rparr>
      | None \<Rightarrow> s\<lparr>pq_data := q\<rparr>)"

definition submit_profile :: "parser \<Rightarrow> profile_page \<Rightarrow> profile_page" where
  "submit_profile parse s =
     (case profile_submitted parse (pq_form s) of
        None \<Rightarrow> s
      | Some body \<Rightarrow> s\<lparr>pq_pending := True, pq_calls := pq_calls s @ [updateProfile body]\<rparr>)"

definition profile_answered :: "js_exn option \<Rightarrow> profile_page \<Rightarrow> profile_page" where
  "profile_answered failed s =
     (let s1 = s\<lparr>pq_pending := False\<rparr> in
      case failed of
        None \<Rightarrow> s1\<lparr>pq_reloads := pq_reloads s1 + 1, pq_notices := pq_notices s1 @ [Success ''Profile updated'']\<rparr>
      | Some e \<Rightarrow> s1\<lparr>pq_notices := pq_notices s1 @ [Failure (error_text e ''Failed to update profile'')]\<rparr>)"

datatype profile_event =
    ProfileLoaded "user_profile query_state"
  | EditProfile profile_form
  | SaveProfile
  | ResetProfile
  | ProfileAnswered "js_exn option"

text \<open>The inputs are not disabled while a change is pending, the two buttons are.\<close>

fun profile_step :: "parser \<Rightarrow> profile_event \<Rightarrow> profile_page \<Rightarrow> profile_page" where
  "profile_step parse (ProfileLoaded q) s = profile_loaded q s"
| "profile_step parse (EditProfile f) s = (if query_data (pq_data s) \<noteq> None then s\<lparr>pq_form := f\<rparr> else s)"
| "profile_step parse SaveProfile s =
     (if query_data (pq_data s) \<noteq> None \<and> profile_dirty s \<and> \<not> pq_pending s then submit_profile parse s else s)"
| "profile_step parse ResetProfile s =
     (if query_data (pq_data s) \<noteq> None \<and> profile_dirty s \<and> \<not> pq_pending s then s\<lparr>pq_form := pq_defaults s\<rparr> else s)"
| "profile_step parse (ProfileAnswered failed) s = (if pq_pending s then profile_answered failed s else s)"

definition profile_call_ok :: "profile_page \<Rightarrow> profile_event \<Rightarrow> api_call \<Rightarrow> bool" where
  "profile_call_ok s ev c =
     (ev = SaveProfile \<and> profile_dirty s \<and> \<not> pq_pending s \<and> (\<exists>body. c = updateProfile body \<and> request_of_form (pq_form s) body))"

definition profile_kept :: "profile_page \<Rightarrow> bool" where
  "profile_kept s = (case query_data (pq_data s) of Some p \<Rightarrow> pq_defaults s = profile_form_of p | None \<Rightarrow> True)"

lemma profile_kept_step: "profile_kept s \<Longrightarrow> profile_kept (profile_step parse ev s)"
  by (cases ev) (auto simp: profile_kept_def profile_loaded_def submit_profile_def profile_answered_def Let_def split: option.splits)

lemma profile_calls_step:
  assumes "zod fmt parse"
  shows "\<exists>new. pq_calls (profile_step parse ev s) = pq_calls s @ new \<and> length new \<le> 1 \<and> list_all (profile_call_ok s ev) new"
proof (cases "ev = SaveProfile \<and> query_data (pq_data s) \<noteq> None \<and> profile_dirty s \<and> \<not> pq_pending s \<and> profile_submitted parse (pq_form s) \<noteq> None")
  case True
  then obtain body where body: "profile_submitted parse (pq_form s) = Some body" by blast
  show ?thesis
    by (rule one_new [where c = "updateProfile body"])
       (use True body zod.profile_accepted [OF assms body] in \<open>auto simp: submit_profile_def profile_call_ok_def\<close>)
next
  case False
  then show ?thesis
    by (cases ev) (auto simp: profile_loaded_def submit_profile_def profile_answered_def Let_def split: option.split)
qed

lemma profile_guarded:
  assumes "zod fmt parse"
  shows "guarded_page (profile_step parse) pq_calls profile_kept profile_call_ok"
  by unfold_locales (rule profile_kept_step, assumption, rule profile_calls_step [OF assms])

interpretation profile: guarded_page "profile_step (zparse fmt)" pq_calls profile_kept profile_call_ok for fmt
  by (rule profile_guarded) unfold_locales

text \<open>What is typed while a change is on its way is lost when the changed profile arrives.\<close>

lemma reload_overwrites_typing:
  "let s = fold (profile_step ex_parse) [ProfileLoaded (Loaded ex_profile), EditProfile ((profile_form_of ex_profile)\<lparr>fp_job_title := ''Lead''\<rparr>),
        SaveProfile, EditProfile ((profile_form_of ex_profile)\<lparr>fp_job_title := ''Lead'', fp_username := ''lovelace''\<rparr>),
        ProfileAnswered None, ProfileLoaded (Loaded (ex_profile\<lparr>up_job_title := Some ''Lead'', up_timezone := Some ''UTC''\<rparr>))] profile_opened
   in length (pq_calls s) = 1 \<and> fp_username (pq_form s) = ''ada'' \<and> \<not> profile_dirty s"
  by code_simp

end
