(* ===== verification/App_Shell.thy ===== *)
theory App_Shell
  imports Nav_Config Feature_Rules Profile_Page Cache_Flows
begin

text \<open>
  components/app-shell: sidebar-nav.tsx, the menu with its keyboard navigation; command-menu.tsx, the
  palette of commands; organization-switcher.tsx, whose effect on the cache is in Cache_Flows;
  task-status-indicator.tsx and user-menu.tsx in the header.
\<close>

section \<open>The items with their indices\<close>

text \<open>The accumulator of \<open>reduce\<close>: the offset of a group is that of the group before plus its length.\<close>

definition add_offset :: "resolved_group list \<Rightarrow> nat list \<Rightarrow> nat \<Rightarrow> nat list" where
  "add_offset groups acc groupIndex =
     acc @ [if groupIndex = 0 then 0 else acc ! (groupIndex - 1) + length (rg_items (groups ! (groupIndex - 1)))]"

definition group_offsets :: "resolved_group list \<Rightarrow> nat list" where
  "group_offsets groups = fold (\<lambda>i acc. add_offset groups acc i) [0..<length groups] []"

definition indexedGroups :: "resolved_group list \<Rightarrow> (resolved_item \<times> nat) list list" where
  "indexedGroups groups =
     (let offsets = group_offsets groups in
      map (\<lambda>gi. map (\<lambda>ii. (rg_items (groups ! gi) ! ii, offsets ! gi + ii)) [0..<length (rg_items (groups ! gi))])
        [0..<length groups])"

definition flatItems :: "resolved_group list \<Rightarrow> resolved_item list" where
  "flatItems groups = concat (map rg_items groups)"

definition items_before :: "resolved_group list \<Rightarrow> nat \<Rightarrow> nat" where
  "items_before groups i = length (flatItems (take i groups))"

lemma items_before_Suc: "i < length groups \<Longrightarrow> items_before groups (Suc i) = items_before groups i + length (rg_items (groups ! i))"
  by (simp add: items_before_def flatItems_def take_Suc_conv_app_nth)

lemma offsets_upto:
  "n \<le> length groups \<Longrightarrow> fold (\<lambda>i acc. add_offset groups acc i) [0..<n] [] = map (items_before groups) [0..<n]"
proof (induction n)
  case (Suc n)
  have "items_before groups 0 = 0" by (simp add: items_before_def flatItems_def)
  moreover have "items_before groups n = items_before groups (n - 1) + length (rg_items (groups ! (n - 1)))" if "n \<noteq> 0"
    using items_before_Suc [of "n - 1" groups] that Suc.prems by simp
  ultimately show ?case using Suc by (simp add: add_offset_def)
qed simp

text \<open>The number an item carries is its place in the flat list, so the focus moves to the item meant.\<close>

theorem indices_are_places: "concat (indexedGroups groups) = zip (flatItems groups) [0..<length (flatItems groups)]"
proof -
  have "concat (map (\<lambda>gi. map (\<lambda>ii. (rg_items (groups ! gi) ! ii, items_before groups gi + ii)) [0..<length (rg_items (groups ! gi))]) [0..<n])
      = zip (flatItems (take n groups)) [0..<items_before groups n]" if "n \<le> length groups" for n
    using that
  proof (induction n)
    case (Suc n)
    have row: "map (\<lambda>ii. (xs ! ii, k + ii)) [0..<length xs] = zip xs [k..<k + length xs]" for xs :: "resolved_item list" and k
      by (rule nth_equalityI) simp_all
    from Suc.prems have "flatItems (take (Suc n) groups) = flatItems (take n groups) @ rg_items (groups ! n)"
      by (simp add: flatItems_def take_Suc_conv_app_nth)
    moreover from Suc.prems have "[0..<items_before groups (Suc n)]
        = [0..<items_before groups n] @ [items_before groups n..<items_before groups n + length (rg_items (groups ! n))]"
      by (simp add: items_before_Suc upt_add_eq_append [of 0])
    moreover have "length (flatItems (take n groups)) = length [0..<items_before groups n]" by (simp add: items_before_def)
    ultimately have "zip (flatItems (take (Suc n) groups)) [0..<items_before groups (Suc n)]
        = zip (flatItems (take n groups)) [0..<items_before groups n]
          @ zip (rg_items (groups ! n)) [items_before groups n..<items_before groups n + length (rg_items (groups ! n))]"
      by (simp only: zip_append)
    with Suc show ?case by (simp add: row)
  qed (simp add: items_before_def flatItems_def)
  moreover have "indexedGroups groups = map (\<lambda>gi. map (\<lambda>ii. (rg_items (groups ! gi) ! ii, items_before groups gi + ii))
      [0..<length (rg_items (groups ! gi))]) [0..<length groups]"
    unfolding indexedGroups_def group_offsets_def Let_def
    by (rule map_cong [OF refl]) (simp add: offsets_upto)
  ultimately show ?thesis by (simp add: items_before_def)
qed

section \<open>The roving focus\<close>

datatype nav_key = ArrowDown | ArrowRight | ArrowUp | ArrowLeft | Home | End | OtherKey

record nav_sidebar =
  sn_pathname :: string
  sn_context :: nav_context
  sn_roving :: "nat option"
  sn_focused :: "nat list"

definition sidebar_items :: "nav_sidebar \<Rightarrow> resolved_item list" where
  "sidebar_items s = flatItems (resolveNavGroups (sn_context s))"

definition activeIndex :: "nav_sidebar \<Rightarrow> nat" where
  "activeIndex s =
     (let hits = filter (\<lambda>i. isNavItemActive (sn_pathname s) (ri_href (sidebar_items s ! i))) [0..<length (sidebar_items s)]
      in case hits of i # _ \<Rightarrow> i | [] \<Rightarrow> 0)"

definition focusIndex :: "nav_sidebar \<Rightarrow> nat" where
  "focusIndex s = (case sn_roving s of Some i \<Rightarrow> i | None \<Rightarrow> activeIndex s)"

definition next_index :: "nat \<Rightarrow> nav_key \<Rightarrow> nat \<Rightarrow> nat option" where
  "next_index n key index =
     (if n = 0 then None
      else case key of
          ArrowDown \<Rightarrow> Some ((index + 1) mod n) | ArrowRight \<Rightarrow> Some ((index + 1) mod n)
        | ArrowUp \<Rightarrow> Some (nat ((int index - 1 + int n) mod int n)) | ArrowLeft \<Rightarrow> Some (nat ((int index - 1 + int n) mod int n))
        | Home \<Rightarrow> Some 0 | End \<Rightarrow> Some (n - 1) | OtherKey \<Rightarrow> None)"

definition handleKeyDown :: "nav_key \<Rightarrow> nat \<Rightarrow> nav_sidebar \<Rightarrow> nav_sidebar" where
  "handleKeyDown key index s =
     (case next_index (length (sidebar_items s)) key index of
        Some i \<Rightarrow> s\<lparr>sn_roving := Some i, sn_focused := sn_focused s @ [i]\<rparr>
      | None \<Rightarrow> s)"

text \<open>The items the Tab key can reach: those with \<open>tabIndex\<close> zero.\<close>

definition tab_stops :: "nav_sidebar \<Rightarrow> nat list" where
  "tab_stops s = filter (\<lambda>i. focusIndex s = i) [0..<length (sidebar_items s)]"

datatype sidebar_nav_event = PressKey nav_key nat | GoTo string | ContextChanged nav_context

fun sidebar_nav_step :: "sidebar_nav_event \<Rightarrow> nav_sidebar \<Rightarrow> nav_sidebar" where
  "sidebar_nav_step (PressKey key index) s = (if index < length (sidebar_items s) then handleKeyDown key index s else s)"
| "sidebar_nav_step (GoTo p) s = s\<lparr>sn_pathname := p\<rparr>"
| "sidebar_nav_step (ContextChanged c) s = s\<lparr>sn_context := c\<rparr>"

definition sidebar_shown :: "string \<Rightarrow> nav_context \<Rightarrow> nav_sidebar" where
  "sidebar_shown p c = \<lparr>sn_pathname = p, sn_context = c, sn_roving = None, sn_focused = []\<rparr>"

lemma next_index_less: "index < n \<Longrightarrow> next_index n key index = Some i \<Longrightarrow> i < n"
proof -
  assume n: "index < n"
  then have "0 \<le> (int index - 1 + int n) mod int n" "(int index - 1 + int n) mod int n < int n" by simp_all
  then have "nat ((int index - 1 + int n) mod int n) < n" by linarith
  then show "next_index n key index = Some i \<Longrightarrow> i < n"
    using n by (auto simp: next_index_def split: nav_key.splits if_splits)
qed

lemma keys_are_inverse:
  "index < n \<Longrightarrow> next_index n ArrowDown index = Some i \<Longrightarrow> next_index n ArrowUp i = Some index"
proof -
  assume n: "index < n" and d: "next_index n ArrowDown index = Some i"
  then have i: "i = (index + 1) mod n" by (simp add: next_index_def split: if_splits)
  have "(int i - 1 + int n) mod int n = int index mod int n"
    unfolding i by (simp add: zmod_int mod_diff_left_eq mod_add_left_eq)
  then show ?thesis using n by (simp add: next_index_def)
qed

definition roving_in_range :: "nav_sidebar \<Rightarrow> bool" where
  "roving_in_range s = (case sn_roving s of Some i \<Rightarrow> i < length (sidebar_items s) | None \<Rightarrow> True)"

lemma active_in_range: "sidebar_items s \<noteq> [] \<Longrightarrow> activeIndex s < length (sidebar_items s)"
proof -
  assume ne: "sidebar_items s \<noteq> []"
  let ?hits = "filter (\<lambda>i. isNavItemActive (sn_pathname s) (ri_href (sidebar_items s ! i))) [0..<length (sidebar_items s)]"
  show ?thesis
  proof (cases ?hits)
    case (Cons i rest)
    then have "i \<in> set ?hits" by (metis list.set_intros(1))
    then have "i < length (sidebar_items s)" by simp
    with Cons show ?thesis by (simp add: activeIndex_def)
  qed (use ne in \<open>simp add: activeIndex_def\<close>)
qed

lemma items_nonempty: "sidebar_items s \<noteq> []"
proof -
  have "\<exists>i. resolve_item c (plain_item ''dashboard'' ''Dashboard'' ''/dashboard'') = Some i" for c
    by (simp add: resolve_item_def plain_item_def nonempty_opt_def)
  then obtain i where i: "resolve_item (sn_context s) (plain_item ''dashboard'' ''Dashboard'' ''/dashboard'') = Some i" by blast
  have "rg_items (resolve_group (sn_context s) (hd NAV_GROUPS)) = [i]"
    by (simp add: resolve_group_def NAV_GROUPS_def List.map_filter_def i)
  moreover have "NAV_GROUPS = hd NAV_GROUPS # tl NAV_GROUPS" by (simp add: NAV_GROUPS_def)
  ultimately have "concat (map (\<lambda>g. rg_items (resolve_group (sn_context s) g)) NAV_GROUPS) \<noteq> []"
    by (metis append_is_Nil_conv concat.simps(2) list.distinct(1) list.simps(9))
  then show ?thesis
    unfolding sidebar_items_def flatItems_def resolveNavGroups_def
    using concat_map_filter_ne [of rg_items "map (resolve_group (sn_context s)) NAV_GROUPS"] by (simp add: comp_def)
qed

text \<open>As long as organization and role stay, exactly one item of the menu can be reached by Tab.\<close>

theorem one_tab_stop:
  assumes "list_all (\<lambda>ev. case ev of ContextChanged c \<Rightarrow> False | _ \<Rightarrow> True) es"
  shows "tab_stops (fold sidebar_nav_step es (sidebar_shown p c)) = [focusIndex (fold sidebar_nav_step es (sidebar_shown p c))]"
proof -
  have one: "tab_stops s = [focusIndex s]" if "roving_in_range s" for s
  proof -
    from that active_in_range [OF items_nonempty] have "focusIndex s < length (sidebar_items s)"
      by (auto simp: focusIndex_def roving_in_range_def split: option.splits)
    moreover have "filter (\<lambda>i. k = i) [0..<n] = [k]" if "k < n" for k n using that by (induction n) auto
    ultimately show ?thesis by (simp add: tab_stops_def)
  qed
  have "roving_in_range (sidebar_nav_step ev s)"
    if "roving_in_range s" "case ev of ContextChanged c \<Rightarrow> False | _ \<Rightarrow> True" for ev s
    using that by (cases ev) (auto simp: roving_in_range_def handleKeyDown_def sidebar_items_def
        dest: next_index_less split: option.splits)
  then have "roving_in_range s \<Longrightarrow> roving_in_range (fold sidebar_nav_step es s)" for s
    using assms by (induction es arbitrary: s) auto
  then have "roving_in_range (fold sidebar_nav_step es (sidebar_shown p c))" by (simp add: roving_in_range_def sidebar_shown_def)
  then show ?thesis by (rule one)
qed

text \<open>When the menu gets shorter, the last focus can lie beyond its end: then Tab passes the menu by.\<close>

lemma menu_out_of_reach:
  "tab_stops (fold sidebar_nav_step
     [PressKey End 0, ContextChanged \<lparr>nc_organizationId = None, nc_orgRole = None\<rparr>]
     (sidebar_shown ''/dashboard'' \<lparr>nc_organizationId = Some ''o1'', nc_orgRole = Some Owner\<rparr>)) = []"
  by code_simp

section \<open>The palette of commands\<close>

record command_menu =
  cm_open :: bool
  cm_pushed :: "string list"
  cm_switcher :: nat

text \<open>A key press: the key and whether Meta or Control is held.\<close>

definition command_key :: "string \<Rightarrow> bool \<Rightarrow> command_menu \<Rightarrow> command_menu" where
  "command_key key held s = (if (key = ''k'' \<or> key = ''K'') \<and> held then s\<lparr>cm_open := \<not> cm_open s\<rparr> else s)"

definition runAction :: "string \<Rightarrow> string option \<Rightarrow> command_menu \<Rightarrow> command_menu" where
  "runAction actionId href s =
     (let s1 = s\<lparr>cm_open := False\<rparr> in
      if actionId = ''switch-org'' then s1\<lparr>cm_switcher := cm_switcher s1 + 1\<rparr>
      else if truthy_str href then s1\<lparr>cm_pushed := cm_pushed s1 @ [the href]\<rparr>
      else s1)"

definition command_value :: "command_action \<Rightarrow> string" where
  "command_value a = ca_label a @ '' '' @ js_join '' '' (ca_keywords a)"

text \<open>Every command of the palette does something, and closes it.\<close>

lemma commands_act:
  "list_all (\<lambda>a. \<not> cm_open (runAction (ca_id a) (ca_href a) s)
     \<and> (cm_pushed (runAction (ca_id a) (ca_href a) s) \<noteq> cm_pushed s \<or> cm_switcher (runAction (ca_id a) (ca_href a) s) \<noteq> cm_switcher s))
     COMMAND_ACTIONS"
  by (simp add: COMMAND_ACTIONS_def runAction_def truthy_str_def)

section \<open>The switcher of organizations\<close>

record workspace_choice =
  wc_id :: string
  wc_name :: string

record 'c switcher =
  sw_open :: bool
  sw_current :: "string option"
  sw_list :: "workspace_choice list query_state"
  sw_cache :: 'c
  sw_notices :: "notice list"

definition choices :: "'c switcher \<Rightarrow> workspace_choice list" where
  "choices s = (case query_data (sw_list s) of Some os \<Rightarrow> os | None \<Rightarrow> [])"

definition selected_choice :: "'c switcher \<Rightarrow> workspace_choice option" where
  "selected_choice s = find (\<lambda>g. Some (wc_id g) = sw_current s) (choices s)"

text \<open>The ellipsis of the source is written as three dots.\<close>

definition switcher_label :: "'c switcher \<Rightarrow> string" where
  "switcher_label s =
     (if sw_list s = Loading then ''Loading...''
      else case selected_choice s of Some g \<Rightarrow> wc_name g | None \<Rightarrow> ''Personal workspace'')"

text \<open>The rows of the menu that cannot be chosen.\<close>

definition switcher_remark :: "'c switcher \<Rightarrow> string option" where
  "switcher_remark s =
     (case sw_list s of
        LoadFailed e \<Rightarrow> Some ''Failed to load organizations''
      | Loaded os \<Rightarrow> if os = [] then Some ''No organizations yet'' else None
      | Loading \<Rightarrow> None)"

definition select_choice :: "'c cache_ops \<Rightarrow> workspace_choice option \<Rightarrow> 'c switcher \<Rightarrow> 'c switcher" where
  "select_choice ops choice s =
     (let nextId = map_option wc_id choice in
      if sw_current s = nextId then s\<lparr>sw_open := False\<rparr>
      else (let (current, c) = switchTo ops nextId (sw_current s, sw_cache s) in
        s\<lparr>sw_current := current, sw_cache := c,
          sw_notices := sw_notices s @ [Success (case choice of Some g \<Rightarrow> ''Switched to '' @ wc_name g
                                               | None \<Rightarrow> ''Switched to personal workspace'')],
          sw_open := False\<rparr>))"

text \<open>A choice is the current workspace afterwards, and the menu is closed.\<close>

lemma choice_is_current:
  "sw_current (select_choice ops choice s) = map_option wc_id choice \<and> \<not> sw_open (select_choice ops choice s)"
  by (simp add: select_choice_def switchTo_def Let_def)

text \<open>The list is one page of the organizations: when the current one is not on it, or the list could not
  be loaded, the button names the personal workspace although an organization is selected.\<close>

lemma label_hides_organization:
  assumes "sw_list s \<noteq> Loading" and "\<forall>g\<in>set (choices s). wc_id g \<noteq> i" and "sw_current s = Some i"
  shows "switcher_label s = ''Personal workspace''"
proof -
  have "find (\<lambda>g. Some (wc_id g) = sw_current s) (choices s) = None" using assms(2,3) by (auto simp: find_None_iff)
  with assms(1) show ?thesis by (simp add: switcher_label_def selected_choice_def)
qed

section \<open>The header\<close>

definition active_count :: "string list option \<Rightarrow> nat" where
  "active_count statuses =
     (case statuses of Some ss \<Rightarrow> length (filter (\<lambda>s. s = ''queued'' \<or> s = ''running'') ss) | None \<Rightarrow> 0)"

definition task_badge :: "nat \<Rightarrow> string option" where
  "task_badge n = (if n > 0 then Some (if n > 9 then ''9+'' else show_nat n) else None)"

definition task_tooltip :: "nat \<Rightarrow> string" where
  "task_tooltip n = (if n > 0 then show_nat n @ '' active task'' @ (if n = 1 then [] else ''s'') else ''Tasks'')"

definition is_name_separator :: "char \<Rightarrow> bool" where
  "is_name_separator c = (is_ws c \<or> c = CHR ''.'' \<or> c = CHR ''_'' \<or> c = CHR ''-'')"

definition menu_initials :: "string \<Rightarrow> string" where
  "menu_initials name = map (\<lambda>w. char_upper (hd w)) (take 2 (words_on is_name_separator name))"

text \<open>The user as username and email, if anyone is signed in.\<close>

definition menu_name :: "(string \<times> string) option \<Rightarrow> string" where
  "menu_name user = (case user of Some (username, email) \<Rightarrow> username | None \<Rightarrow> ''Account'')"

definition menu_fallback :: "(string \<times> string) option \<Rightarrow> string" where
  "menu_fallback user =
     (case user of Some (username, email) \<Rightarrow> menu_initials (if username \<noteq> [] then username else email) | None \<Rightarrow> ''?'')"

text \<open>The profile page splits a name at blanks only, so the two show different letters for one user.\<close>

lemma initials_differ:
  "menu_fallback (Some (''ada_lovelace'', ''a@b.c'')) = ''AL'' \<and> initials ''ada_lovelace'' = ''A''"
  by code_simp

lemma task_badge_short: "task_badge n = Some b \<Longrightarrow> length b \<le> 2"
proof -
  have "list_all (\<lambda>m. length (show_nat m) \<le> 1) [0..<10]" by code_simp
  then have "length (show_nat n) \<le> 1" if "n < 10" using that by (simp only: list_all_iff set_upt) auto
  then show "task_badge n = Some b \<Longrightarrow> length b \<le> 2" by (force simp: task_badge_def split: if_splits)
qed

end
