(* ===== verification/Dashboard_Page.thy ===== *)
theory Dashboard_Page
  imports Dashboard Feature_Hooks
begin

text \<open>
  components/dashboard: dashboard-page.tsx, which loads the snapshot of Dashboard, and its parts:
  summary-cards.tsx, findings-overview.tsx, task-status-chart.tsx, usage-progress.tsx,
  workspace-status.tsx and recent-activity.tsx.
\<close>

section \<open>The page\<close>

record dashboard_page =
  dp_organizationId :: "string option"
  dp_timeRange :: string

definition dashboard_opened :: "string option \<Rightarrow> dashboard_page" where
  "dashboard_opened organizationId = \<lparr>dp_organizationId = organizationId, dp_timeRange = ''7d''\<rparr>"

definition dashboard_page_filters :: "dashboard_page \<Rightarrow> dashboard_filters" where
  "dashboard_page_filters s = \<lparr>df_organization_id = dp_organizationId s, df_time_range = Some (dp_timeRange s)\<rparr>"

definition dashboard_page_query :: "dashboard_page \<Rightarrow> hook_query" where
  "dashboard_page_query s = dashboardQuery (dashboard_page_filters s)"

text \<open>Whether the query failed, and the snapshot it has, if any.\<close>

definition allFailed :: "bool \<Rightarrow> dashboard_snapshot option \<Rightarrow> bool" where
  "allFailed isError data =
     (isError \<or> (case data of
        Some d \<Rightarrow> ds_fail_summary d \<and> ds_fail_activity d \<and> ds_fail_tasks d \<and> ds_fail_findings d
      | None \<Rightarrow> False))"

section \<open>Its parts\<close>

definition asNumber :: "json option \<Rightarrow> rat" where
  "asNumber v = (case v of Some (JNum q) \<Rightarrow> q | _ \<Rightarrow> 0)"

definition summary_of :: "dashboard_snapshot option \<Rightarrow> json option" where
  "summary_of data = (case data of Some d \<Rightarrow> ds_summary d | None \<Rightarrow> None)"

definition count_or_zero :: "('c \<Rightarrow> rat) \<Rightarrow> 'c option \<Rightarrow> rat" where
  "count_or_zero f c = (case c of Some x \<Rightarrow> f x | None \<Rightarrow> 0)"

text \<open>A card: its label, its value (\<open>None\<close> is the dash of a value that is not known) and its text.\<close>

record stat_card =
  st_label :: string
  st_value :: "rat option"
  st_description :: string

definition middle_dot :: string where
  "middle_dot = [CHR 0xB7, CHR '' '']"

definition summary_cards :: "dashboard_snapshot option \<Rightarrow> stat_card list" where
  "summary_cards data =
     (let summary = summary_of data;
          part = (\<lambda>a b. asNumber (opt_prop (opt_prop summary a) b));
          tasks = normalizeTaskCounts (opt_prop summary ''tasks'');
          findings = normalizeFindingCounts (opt_prop summary ''findings'');
          activeTasks = count_or_zero tc_queued tasks + count_or_zero tc_running tasks;
          taskTotal = count_or_zero tc_queued tasks + count_or_zero tc_running tasks
            + count_or_zero tc_succeeded tasks + count_or_zero tc_failed tasks;
          findingsTotal = count_or_zero fc_critical findings + count_or_zero fc_high findings in
      [\<lparr>st_label = ''Conversations'',
        st_value = (if truthy summary then Some (part ''conversations'' ''total'') else None),
        st_description = show_rat (part ''conversations'' ''recent'') @ '' recent in selected period''\<rparr>,
       \<lparr>st_label = ''Artifacts'',
        st_value = (if truthy summary then Some (part ''artifacts'' ''total'') else None),
        st_description = show_rat (part ''artifacts'' ''favorites'') @ '' favorites '' @ middle_dot @ show_rat (part ''artifacts'' ''archived'') @ '' archived''\<rparr>,
       \<lparr>st_label = ''Tasks'',
        st_value = (if truthy summary \<and> tasks \<noteq> None then Some taskTotal else None),
        st_description = (if activeTasks > 0 then show_rat activeTasks @ '' currently active'' else ''No active background jobs'')\<rparr>,
       \<lparr>st_label = ''Findings'',
        st_value = (if truthy summary \<and> findings \<noteq> None then Some findingsTotal else None),
        st_description = show_rat (count_or_zero fc_critical findings) @ '' critical '' @ middle_dot @ show_rat (count_or_zero fc_high findings) @ '' high''\<rparr>])"

definition findings_total :: "finding_counts option \<Rightarrow> rat" where
  "findings_total c = (case c of Some f \<Rightarrow> fc_critical f + fc_high f + fc_medium f + fc_low f | None \<Rightarrow> 0)"

text \<open>The four tiles, or \<open>None\<close> for the notice that there is nothing yet.\<close>

definition findings_overview :: "finding_counts option \<Rightarrow> (string \<times> rat) list option" where
  "findings_overview c =
     (if findings_total c = 0 then None
      else Some [(''critical'', count_or_zero fc_critical c), (''high'', count_or_zero fc_high c),
                 (''medium'', count_or_zero fc_medium c), (''low'', count_or_zero fc_low c)])"

definition EMPTY_COUNTS :: task_counts where
  "EMPTY_COUNTS = \<lparr>tc_queued = 0, tc_running = 0, tc_succeeded = 0, tc_failed = 0\<rparr>"

definition task_bars :: "task_counts option \<Rightarrow> (string \<times> rat) list option" where
  "task_bars c =
     (let t = (case c of Some x \<Rightarrow> x | None \<Rightarrow> EMPTY_COUNTS) in
      if tc_queued t + tc_running t + tc_succeeded t + tc_failed t = 0 then None
      else Some [(''queued'', tc_queued t), (''running'', tc_running t), (''succeeded'', tc_succeeded t), (''failed'', tc_failed t)])"

text \<open>\<open>Math.round\<close> rounds halves up.\<close>

definition math_round :: "rat \<Rightarrow> int" where
  "math_round q = \<lfloor>q + 1 / 2\<rfloor>"

definition number_value :: "json option \<Rightarrow> rat option" where
  "number_value v = (case v of Some (JNum q) \<Rightarrow> Some q | _ \<Rightarrow> None)"

definition usage_percentage :: "rat \<Rightarrow> rat \<Rightarrow> int" where
  "usage_percentage used limit = (if limit > 0 then min 100 (math_round (used / limit * 100)) else 0)"

text \<open>\<open>None\<close>: the section is not shown.\<close>

definition usage_progress :: "dashboard_snapshot option \<Rightarrow> int option" where
  "usage_progress data =
     (let usage = opt_prop (summary_of data) ''usage'' in
      case (number_value (opt_prop usage ''requests_used''), number_value (opt_prop usage ''requests_limit'')) of
        (Some used, Some limit) \<Rightarrow> Some (usage_percentage used limit)
      | _ \<Rightarrow> None)"

definition workspace_link :: "string option \<Rightarrow> string" where
  "workspace_link organizationId =
     (if truthy_str organizationId then ''/organizations/'' @ the organizationId else ''/organizations'')"

definition workspace_shown :: "dashboard_snapshot option \<Rightarrow> bool" where
  "workspace_shown data = truthy (opt_prop (summary_of data) ''organization'')"

section \<open>What they show\<close>

text \<open>The bar stays between empty and full, and is full exactly from half a percent below the limit.\<close>

lemma usage_bounds:
  assumes "0 \<le> used"
  shows "0 \<le> usage_percentage used limit \<and> usage_percentage used limit \<le> 100"
proof (cases "limit > 0")
  case True
  with assms have "0 \<le> used / limit * 100" by simp
  then have "0 \<le> math_round (used / limit * 100)" by (simp add: math_round_def)
  with True show ?thesis by (simp add: usage_percentage_def)
qed (simp add: usage_percentage_def)

lemma usage_full:
  assumes "0 < limit"
  shows "usage_percentage used limit = 100 \<longleftrightarrow> 199 * limit \<le> 200 * used"
proof -
  have "100 \<le> math_round (x * 100) \<longleftrightarrow> 199 / 200 \<le> x" for x
    by (auto simp: math_round_def le_floor_iff)
  then have "100 \<le> math_round (used / limit * 100) \<longleftrightarrow> 199 / 200 \<le> used / limit" .
  also have "\<dots> \<longleftrightarrow> 199 * limit \<le> 200 * used" using assms by (simp add: field_simps)
  finally show ?thesis using assms by (auto simp: usage_percentage_def min_def)
qed

text \<open>One request that failed does not hide what the others brought.\<close>

lemma one_answer_is_shown:
  "\<not> ds_fail_summary d \<or> \<not> ds_fail_activity d \<or> \<not> ds_fail_tasks d \<or> \<not> ds_fail_findings d \<Longrightarrow> \<not> allFailed False (Some d)"
  by (auto simp: allFailed_def)

text \<open>The tiles are shown whenever one of the counts is positive, as long as none is negative.\<close>

lemma findings_tiles:
  assumes "0 \<le> fc_critical f" "0 \<le> fc_high f" "0 \<le> fc_medium f" "0 \<le> fc_low f"
  shows "findings_overview (Some f) \<noteq> None \<longleftrightarrow> 0 < fc_critical f \<or> 0 < fc_high f \<or> 0 < fc_medium f \<or> 0 < fc_low f"
  using assms by (auto simp: findings_overview_def findings_total_def)

text \<open>The card of the findings leaves out the medium and the low ones: with only these it shows none.\<close>

lemma card_leaves_out_medium:
  assumes "ds_summary d = Some (JObj [(''findings'', JObj [(''critical'', JNum 0), (''high'', JNum 0), (''medium'', JNum 5), (''low'', JNum 0)])])"
  shows "map st_value (filter (\<lambda>c. st_label c = ''Findings'') (summary_cards (Some d))) = [Some 0]
    \<and> findings_overview (normalizeFindingCounts (opt_prop (ds_summary d) ''findings'')) \<noteq> None"
  using assms by (simp add: summary_cards_def summary_of_def opt_prop_def js_prop_def truthy_def js_truthy_def Let_def
      normalizeFindingCounts_def finding_counts_of.simps isCountRecord_def count_of_def count_or_zero_def
      findings_overview_def findings_total_def)

end
