(* ===== verification/Account_Pages.thy ===== *)
theory Account_Pages
  imports Auth_Pages Page_Contract Paging Form_Rules Feature_Rules Feature_Apis
begin

text \<open>
  The pages around the user's account, as state machines over the handlers of Auth_Pages:
  components/settings/security-settings.tsx, components/organizations/invitation-accept-content.tsx,
  and components/onboarding with its checklist, its page and the banner of the dashboard.
\<close>

section \<open>Security settings\<close>

record session_item =
  se_id :: string
  se_is_current :: bool
  se_revoked :: bool

record password_form =
  pw_current :: string
  pw_new :: string
  pw_confirm :: string

record email_form =
  em_new_email :: string
  em_password :: string

datatype security_call = RevokeSession string | SignOut | SignOutAll | ChangePassword string string | ChangeEmail json

record security_page =
  sc_sessions :: "session_item list query_state"
  sc_pendingRevoke :: "session_item option"
  sc_logoutOpen :: bool
  sc_logoutAllOpen :: bool
  sc_signingOut :: "security_call option"
  sc_revoking :: "session_item option"
  sc_password :: password_form
  sc_changing :: bool
  sc_email :: email_form
  sc_mailing :: bool
  sc_calls :: "security_call list"
  sc_effects :: "page_effect list"

definition empty_password_form :: password_form where
  "empty_password_form = \<lparr>pw_current = [], pw_new = [], pw_confirm = []\<rparr>"

definition empty_email_form :: email_form where
  "empty_email_form = \<lparr>em_new_email = [], em_password = []\<rparr>"

definition security_opened :: security_page where
  "security_opened =
     \<lparr>sc_sessions = Loading, sc_pendingRevoke = None, sc_logoutOpen = False, sc_logoutAllOpen = False,
      sc_signingOut = None, sc_revoking = None, sc_password = empty_password_form, sc_changing = False,
      sc_email = empty_email_form, sc_mailing = False, sc_calls = [], sc_effects = []\<rparr>"

definition activeSessions :: "security_page \<Rightarrow> session_item list" where
  "activeSessions s = (case query_data (sc_sessions s) of Some ss \<Rightarrow> filter (\<lambda>x. \<not> se_revoked x) ss | None \<Rightarrow> [])"

definition password_values :: "password_form \<Rightarrow> json" where
  "password_values f =
     JObj [(''current_password'', JStr (pw_current f)), (''new_password'', JStr (pw_new f)), (''confirm_password'', JStr (pw_confirm f))]"

definition email_values :: "email_form \<Rightarrow> json" where
  "email_values f = JObj [(''new_email'', JStr (em_new_email f)), (''password'', JStr (em_password f))]"

definition submit_password :: "parser \<Rightarrow> security_page \<Rightarrow> security_page" where
  "submit_password parse s =
     (case parse changePasswordSchema (Some (password_values (sc_password s))) of
        Some (Some v) \<Rightarrow>
          s\<lparr>sc_changing := True,
            sc_calls := sc_calls s @ [ChangePassword (string_field v ''current_password'') (string_field v ''new_password'')]\<rparr>
      | _ \<Rightarrow> s)"

definition submit_email :: "parser \<Rightarrow> security_page \<Rightarrow> security_page" where
  "submit_email parse s =
     (case parse emailChangeRequestSchema (Some (email_values (sc_email s))) of
        Some (Some v) \<Rightarrow> s\<lparr>sc_mailing := True, sc_calls := sc_calls s @ [ChangeEmail v]\<rparr>
      | _ \<Rightarrow> s)"

definition succeeded :: "js_exn + 'a \<Rightarrow> bool" where
  "succeeded r = (case r of Inr _ \<Rightarrow> True | Inl _ \<Rightarrow> False)"

definition password_answered :: "js_exn + json \<Rightarrow> security_page \<Rightarrow> security_page" where
  "password_answered r s =
     s\<lparr>sc_changing := False, sc_effects := sc_effects s @ handleChangePassword r,
       sc_password := (if succeeded r then empty_password_form else sc_password s)\<rparr>"

definition email_answered :: "js_exn + json \<Rightarrow> security_page \<Rightarrow> security_page" where
  "email_answered r s =
     s\<lparr>sc_mailing := False, sc_effects := sc_effects s @ handleEmailChange r,
       sc_email := (if succeeded r then empty_email_form else sc_email s)\<rparr>"

definition revoke_answered :: "session_item \<Rightarrow> js_exn + json \<Rightarrow> security_page \<Rightarrow> security_page" where
  "revoke_answered x r s =
     (let (effects, closes) = confirmRevokeSession (se_is_current x) r in
      s\<lparr>sc_revoking := None, sc_effects := sc_effects s @ effects,
        sc_pendingRevoke := (if closes then None else sc_pendingRevoke s)\<rparr>)"

definition sign_out_answered :: "security_call \<Rightarrow> js_exn + unit \<Rightarrow> security_page \<Rightarrow> security_page" where
  "sign_out_answered k r s =
     (if k = SignOutAll
      then s\<lparr>sc_effects := sc_effects s @ handleLogoutAll r, sc_signingOut := None, sc_logoutAllOpen := False\<rparr>
      else s\<lparr>sc_effects := sc_effects s @ handleLogout r, sc_signingOut := None, sc_logoutOpen := False\<rparr>)"

datatype security_event =
    SessionsAnswered "session_item list query_state"
  | AskRevoke session_item | CloseRevoke | ConfirmRevoke | RevokeAnswered "js_exn + json"
  | AskSignOut | CloseSignOut | ConfirmSignOut
  | AskSignOutAll | CloseSignOutAll | ConfirmSignOutAll
  | SignOutAnswered "js_exn + unit"
  | TypePassword password_form | SubmitPassword | PasswordAnswered "js_exn + json"
  | TypeEmail email_form | SubmitEmail | EmailAnswered "js_exn + json"

text \<open>One flag, \<open>authActionLoading\<close>, disables the buttons of both sign-out dialogs.\<close>

fun security_step :: "parser \<Rightarrow> security_event \<Rightarrow> security_page \<Rightarrow> security_page" where
  "security_step parse (SessionsAnswered q) s = s\<lparr>sc_sessions := q\<rparr>"
| "security_step parse (AskRevoke x) s =
     (if x \<in> set (activeSessions s) \<and> sc_revoking s = None then s\<lparr>sc_pendingRevoke := Some x\<rparr> else s)"
| "security_step parse CloseRevoke s = s\<lparr>sc_pendingRevoke := None\<rparr>"
| "security_step parse ConfirmRevoke s =
     (case sc_pendingRevoke s of
        None \<Rightarrow> s
      | Some x \<Rightarrow> if sc_revoking s \<noteq> None then s
                  else s\<lparr>sc_revoking := Some x, sc_calls := sc_calls s @ [RevokeSession (se_id x)]\<rparr>)"
| "security_step parse (RevokeAnswered r) s =
     (case sc_revoking s of None \<Rightarrow> s | Some x \<Rightarrow> revoke_answered x r s)"
| "security_step parse AskSignOut s = s\<lparr>sc_logoutOpen := True\<rparr>"
| "security_step parse CloseSignOut s = s\<lparr>sc_logoutOpen := False\<rparr>"
| "security_step parse ConfirmSignOut s =
     (if sc_logoutOpen s \<and> sc_signingOut s = None
      then s\<lparr>sc_signingOut := Some SignOut, sc_calls := sc_calls s @ [SignOut]\<rparr> else s)"
| "security_step parse AskSignOutAll s = s\<lparr>sc_logoutAllOpen := True\<rparr>"
| "security_step parse CloseSignOutAll s = s\<lparr>sc_logoutAllOpen := False\<rparr>"
| "security_step parse ConfirmSignOutAll s =
     (if sc_logoutAllOpen s \<and> sc_signingOut s = None
      then s\<lparr>sc_signingOut := Some SignOutAll, sc_calls := sc_calls s @ [SignOutAll]\<rparr> else s)"
| "security_step parse (SignOutAnswered r) s =
     (case sc_signingOut s of None \<Rightarrow> s | Some k \<Rightarrow> sign_out_answered k r s)"
| "security_step parse (TypePassword f) s = (if sc_changing s then s else s\<lparr>sc_password := f\<rparr>)"
| "security_step parse SubmitPassword s = (if sc_changing s then s else submit_password parse s)"
| "security_step parse (PasswordAnswered r) s = (if sc_changing s then password_answered r s else s)"
| "security_step parse (TypeEmail f) s = (if sc_mailing s then s else s\<lparr>sc_email := f\<rparr>)"
| "security_step parse SubmitEmail s = (if sc_mailing s then s else submit_email parse s)"
| "security_step parse (EmailAnswered r) s = (if sc_mailing s then email_answered r s else s)"

text \<open>What was confirmed: a session that was listed as active, a sign-out whose dialog is open, a new
  password other than the old one and typed twice, an email with a password.\<close>

definition security_call_ok :: "security_page \<Rightarrow> security_event \<Rightarrow> security_call \<Rightarrow> bool" where
  "security_call_ok s ev c =
     (case c of
        RevokeSession i \<Rightarrow> ev = ConfirmRevoke \<and> sc_revoking s = None \<and> (\<exists>x. sc_pendingRevoke s = Some x \<and> se_id x = i \<and> \<not> se_revoked x)
      | SignOut \<Rightarrow> ev = ConfirmSignOut \<and> sc_logoutOpen s \<and> sc_signingOut s = None
      | SignOutAll \<Rightarrow> ev = ConfirmSignOutAll \<and> sc_logoutAllOpen s \<and> sc_signingOut s = None
      | ChangePassword old new \<Rightarrow> ev = SubmitPassword \<and> \<not> sc_changing s \<and> old \<noteq> [] \<and> new \<noteq> old \<and> PASSWORD_MIN \<le> length new
          \<and> old = pw_current (sc_password s) \<and> new = pw_new (sc_password s) \<and> new = pw_confirm (sc_password s)
      | ChangeEmail v \<Rightarrow> ev = SubmitEmail \<and> \<not> sc_mailing s \<and> js_prop v ''password'' = Some (JStr (em_password (sc_email s)))
          \<and> em_password (sc_email s) \<noteq> [])"

definition security_kept :: "security_page \<Rightarrow> bool" where
  "security_kept s = (case sc_pendingRevoke s of Some x \<Rightarrow> \<not> se_revoked x | None \<Rightarrow> True)"

lemma security_kept_step: "security_kept s \<Longrightarrow> security_kept (security_step parse ev s)"
  by (cases ev) (auto simp: security_kept_def activeSessions_def submit_password_def submit_email_def password_answered_def
      email_answered_def revoke_answered_def sign_out_answered_def split: option.splits prod.splits if_splits)

context zod
begin

lemma password_form_value:
  assumes "parse changePasswordSchema (Some (password_values f)) = Some (Some v)"
  shows "string_field v ''current_password'' = pw_current f \<and> string_field v ''new_password'' = pw_new f
    \<and> pw_confirm f = pw_new f \<and> pw_current f \<noteq> [] \<and> pw_new f \<noteq> pw_current f \<and> PASSWORD_MIN \<le> length (pw_new f)"
proof -
  note r = refined [OF assms [unfolded changePasswordSchema_def]]
  note g = object_field [OF conjunct1 [OF refined [OF conjunct1 [OF r]]]]
  have "parse (ZString [MinLength 1]) (js_prop (password_values f) ''current_password'') = Some (js_prop v ''current_password'')"
    "parse passwordField (js_prop (password_values f) ''new_password'') = Some (js_prop v ''new_password'')"
    "parse (ZString [MinLength 1]) (js_prop (password_values f) ''confirm_password'') = Some (js_prop v ''confirm_password'')"
    by (rule g; simp)+
  then have "js_prop v ''current_password'' = Some (JStr (pw_current f)) \<and> pw_current f \<noteq> []"
    "js_prop v ''new_password'' = Some (JStr (pw_new f)) \<and> PASSWORD_MIN \<le> length (pw_new f)"
    "js_prop v ''confirm_password'' = Some (JStr (pw_confirm f))"
    by (auto simp: password_values_def js_prop_JObj passwordField_def string_law split: if_splits)
  with r conjunct2 [OF refined [OF conjunct1 [OF r]]] show ?thesis
    by (auto simp: passwords_match_def string_field_def as_string_def)
qed

lemma email_form_value:
  assumes "parse emailChangeRequestSchema (Some (email_values f)) = Some (Some v)"
  shows "js_prop v ''password'' = Some (JStr (em_password f)) \<and> em_password f \<noteq> []"
proof -
  note g = object_field [OF assms [unfolded emailChangeRequestSchema_def]]
  have "parse (ZString [MinLength 1]) (js_prop (email_values f) ''password'') = Some (js_prop v ''password'')"
    by (rule g; simp)
  then show ?thesis by (auto simp: email_values_def js_prop_JObj string_law split: if_splits)
qed

end

lemma security_calls_step:
  assumes "zod fmt parse" "security_kept s"
  shows "\<exists>new. sc_calls (security_step parse ev s) = sc_calls s @ new \<and> length new \<le> 1 \<and> list_all (security_call_ok s ev) new"
proof (cases ev)
  case SubmitPassword
  then show ?thesis
    using zod.password_form_value [OF assms(1), of "sc_password s"]
    by (cases "parse changePasswordSchema (Some (password_values (sc_password s)))")
      (auto simp: submit_password_def security_call_ok_def split: option.split)
next
  case SubmitEmail
  then show ?thesis
    using zod.email_form_value [OF assms(1), of "sc_email s"]
    by (cases "parse emailChangeRequestSchema (Some (email_values (sc_email s)))")
      (auto simp: submit_email_def security_call_ok_def split: option.split)
next
  case ConfirmRevoke
  then show ?thesis using assms(2) by (auto simp: security_kept_def security_call_ok_def split: option.split)
qed (auto simp: security_call_ok_def password_answered_def email_answered_def revoke_answered_def sign_out_answered_def
    split: option.split prod.split)

lemma security_guarded:
  assumes "zod fmt parse"
  shows "guarded_page (security_step parse) sc_calls security_kept security_call_ok"
  by unfold_locales (rule security_kept_step, assumption, rule security_calls_step [OF assms])

interpretation security: guarded_page "security_step (zparse fmt)" sc_calls security_kept security_call_ok for fmt
  by (rule security_guarded) unfold_locales

text \<open>In any session of the page, every call was confirmed with what the page showed at that moment.\<close>

theorem security_calls_sound:
  assumes "zod fmt parse"
  shows "list_all (justified (security_step parse) security_call_ok security_opened es)
    (sc_calls (fold (security_step parse) es security_opened))"
  by (rule guarded_page.session_justified [OF security_guarded [OF assms]]) (simp_all add: security_opened_def security_kept_def)

text \<open>Revoking the current session leads to the sign-in page, revoking another does not.\<close>

lemma revoking_current_leaves:
  "sc_revoking s = Some x \<Longrightarrow> ReplaceUrl ''/login'' \<notin> set (sc_effects s) \<Longrightarrow>
   ReplaceUrl ''/login'' \<in> set (sc_effects (security_step parse (RevokeAnswered (Inr r)) s)) \<longleftrightarrow> se_is_current x"
  by (simp add: revoke_answered_def confirmRevokeSession_def)

section \<open>The page of an invitation\<close>

text \<open>Who is signed in: \<open>None\<close> while that is being loaded, then a user's email or nobody.\<close>

record invitation_session =
  iv_page :: invitation_page
  iv_user :: "string option option"

datatype invitation_screen =
    MissingToken
  | AuthLoading
  | AcceptedView string
  | DeclinedView string
  | SignInView string bool
  | ActionsView string "string option" bool

definition invitation_shown :: "invitation_session \<Rightarrow> invitation_screen" where
  "invitation_shown s =
     (let p = iv_page s in
      if ip_token p = [] then MissingToken
      else case iv_user s of
          None \<Rightarrow> AuthLoading
        | Some user \<Rightarrow>
            if truthy_str (ip_acceptedOrg p) then AcceptedView (the (ip_acceptedOrg p))
            else if ip_declined p then DeclinedView (if user \<noteq> None then ''/dashboard'' else ''/login'')
            else (case user of
                None \<Rightarrow> SignInView (sign_in_link (ip_token p)) (ip_loadingAction p \<noteq> Some Decline)
              | Some email \<Rightarrow> ActionsView email (if truthy_str (ip_errorMessage p) then ip_errorMessage p else None)
                  (ip_loadingAction p = None)))"

definition invitation_opened :: "string \<Rightarrow> invitation_session" where
  "invitation_opened token =
     \<lparr>iv_page = \<lparr>ip_token = js_trim token, ip_loadingAction = None, ip_acceptedOrg = None, ip_declined = False,
        ip_errorMessage = None, ip_calls = [], ip_notices = []\<rparr>, iv_user = None\<rparr>"

definition can_accept :: "invitation_session \<Rightarrow> bool" where
  "can_accept s = (case invitation_shown s of ActionsView e m enabled \<Rightarrow> enabled | _ \<Rightarrow> False)"

definition can_decline :: "invitation_session \<Rightarrow> bool" where
  "can_decline s =
     (case invitation_shown s of ActionsView e m enabled \<Rightarrow> enabled | SignInView l enabled \<Rightarrow> enabled | _ \<Rightarrow> False)"

datatype invitation_event =
    UserKnown "string option" | PressAccept | PressDecline | InvitationAnswered invitation_action "js_exn + json"

fun invitation_step :: "invitation_event \<Rightarrow> invitation_session \<Rightarrow> invitation_session" where
  "invitation_step (UserKnown u) s = s\<lparr>iv_user := Some u\<rparr>"
| "invitation_step PressAccept s = (if can_accept s then s\<lparr>iv_page := handleAccept (iv_page s)\<rparr> else s)"
| "invitation_step PressDecline s = (if can_decline s then s\<lparr>iv_page := handleDecline (iv_page s)\<rparr> else s)"
| "invitation_step (InvitationAnswered a r) s =
     (if ip_loadingAction (iv_page s) = Some a then s\<lparr>iv_page := invitation_answered a r (iv_page s)\<rparr> else s)"

definition invitation_calls :: "invitation_session \<Rightarrow> api_call list" where
  "invitation_calls s = ip_calls (iv_page s)"

definition invitation_kept :: "string \<Rightarrow> invitation_session \<Rightarrow> bool" where
  "invitation_kept token s = (ip_token (iv_page s) = token)"

definition invitation_call_ok :: "string \<Rightarrow> invitation_session \<Rightarrow> invitation_event \<Rightarrow> api_call \<Rightarrow> bool" where
  "invitation_call_ok token s ev c =
     (token \<noteq> [] \<and>
      (ev = PressAccept \<and> can_accept s \<and> c = acceptInvitationRequest token
       \<or> ev = PressDecline \<and> can_decline s \<and> c = declineInvitationRequest token))"

lemma pressing: "can_accept s \<Longrightarrow> ip_token (iv_page s) \<noteq> []" "can_decline s \<Longrightarrow> ip_token (iv_page s) \<noteq> []"
  by (auto simp: can_accept_def can_decline_def invitation_shown_def Let_def split: if_splits)

lemma invitation_guarded: "guarded_page invitation_step invitation_calls (invitation_kept token) (invitation_call_ok token)"
proof
  fix s ev
  assume kept: "invitation_kept token s"
  then show "invitation_kept token (invitation_step ev s)"
    by (cases ev) (auto simp: invitation_kept_def handleAccept_def handleDecline_def invitation_answered_def Let_def
        split: invitation_action.split sum.split)
  show "\<exists>new. invitation_calls (invitation_step ev s) = invitation_calls s @ new \<and> length new \<le> 1 \<and> list_all (invitation_call_ok token s ev) new"
  proof (cases ev)
    case PressAccept
    show ?thesis
    proof (cases "can_accept s")
      case True
      with kept pressing(1) [OF True] show ?thesis
        by (intro one_new [where c = "acceptInvitationRequest token"])
           (auto simp: PressAccept invitation_calls_def handleAccept_def invitation_call_ok_def invitation_kept_def)
    qed (simp add: PressAccept)
  next
    case PressDecline
    show ?thesis
    proof (cases "can_decline s")
      case True
      with kept pressing(2) [OF True] show ?thesis
        by (intro one_new [where c = "declineInvitationRequest token"])
           (auto simp: PressDecline invitation_calls_def handleDecline_def invitation_call_ok_def invitation_kept_def)
    qed (simp add: PressDecline)
  qed (auto simp: invitation_calls_def invitation_answered_def Let_def split: invitation_action.split sum.split)
qed

interpretation invitation: guarded_page invitation_step invitation_calls "invitation_kept token" "invitation_call_ok token" for token
  by (rule invitation_guarded)

text \<open>An invitation that was answered is not answered again.\<close>

definition invitation_done :: "invitation_session \<Rightarrow> bool" where
  "invitation_done s =
     ((truthy_str (ip_acceptedOrg (iv_page s)) \<or> ip_declined (iv_page s)) \<and> ip_loadingAction (iv_page s) = None)"

lemma done_stays: "invitation_done s \<Longrightarrow> invitation_done (invitation_step ev s) \<and> invitation_calls (invitation_step ev s) = invitation_calls s"
proof -
  assume d: "invitation_done s"
  then have "\<not> can_accept s" "\<not> can_decline s"
    by (auto simp: invitation_done_def can_accept_def can_decline_def invitation_shown_def Let_def split: option.split)
  with d show ?thesis by (cases ev) (auto simp: invitation_done_def invitation_calls_def)
qed

theorem answered_once:
  assumes "invitation_done s"
  shows "invitation_calls (fold invitation_step es s) = invitation_calls s"
proof -
  have "invitation_done (fold invitation_step es s) \<and> invitation_calls (fold invitation_step es s) = invitation_calls s"
    using assms by (induction es arbitrary: s) (simp_all add: done_stays)
  then show ?thesis ..
qed

text \<open>The view of a visitor who is not signed in has no place for the message of a failed decline.\<close>

lemma failed_decline_is_silent:
  "let s = fold invitation_step [UserKnown None, PressDecline, InvitationAnswered Decline (Inl OtherThrown)] (invitation_opened ''t1'')
   in ip_errorMessage (iv_page s) = Some ''Unable to decline this invitation.'' \<and> ip_notices (iv_page s) = []
     \<and> invitation_shown s = SignInView (sign_in_link ''t1'') True"
  by (simp add: invitation_opened_def can_decline_def invitation_shown_def handleDecline_def invitation_answered_def Let_def
      js_trim_def is_ws_def char_code_def truthy_str_def)

section \<open>Onboarding\<close>

text \<open>The checklist, the page and the banner each have a mutation of their own, whose pending state
  disables their own buttons.\<close>

datatype onboarding_control = ChecklistControl | TourControl | BannerControl

datatype onboarding_action = MarkDone string | MarkAll | CompleteTour | DismissBanner

definition control_of :: "onboarding_action \<Rightarrow> onboarding_control" where
  "control_of a = (case a of MarkDone _ \<Rightarrow> ChecklistControl | MarkAll \<Rightarrow> ChecklistControl | CompleteTour \<Rightarrow> TourControl
     | DismissBanner \<Rightarrow> BannerControl)"

definition onboarding_body :: "onboarding_action \<Rightarrow> json" where
  "onboarding_body a =
     (case a of
        MarkDone key \<Rightarrow> JObj [(key, JBool True)]
      | MarkAll \<Rightarrow> JObj [(''onboarding_completed'', JBool True), (''tour_completed'', JBool True)]
      | CompleteTour \<Rightarrow> JObj [(''tour_completed'', JBool True)]
      | DismissBanner \<Rightarrow> JObj [(''welcome_dismissed'', JBool True)])"

definition onboarding_notice :: "onboarding_action \<Rightarrow> js_exn option \<Rightarrow> notice list" where
  "onboarding_notice a failed =
     (case (a, failed) of
        (MarkDone _, None) \<Rightarrow> [Success ''Progress saved'']
      | (MarkAll, None) \<Rightarrow> [Success ''Onboarding marked complete'']
      | (CompleteTour, None) \<Rightarrow> [Success ''Tour marked complete'']
      | (DismissBanner, None) \<Rightarrow> []
      | (MarkDone _, Some e) \<Rightarrow> [Failure (error_text e ''Failed to update progress'')]
      | (MarkAll, Some e) \<Rightarrow> [Failure (error_text e ''Failed to complete onboarding'')]
      | (CompleteTour, Some e) \<Rightarrow> [Failure (error_text e ''Failed to save progress'')]
      | (DismissBanner, Some e) \<Rightarrow> [Failure (error_text e ''Failed to dismiss banner'')])"

definition resolveHref :: "string option \<Rightarrow> string \<Rightarrow> string \<Rightarrow> string" where
  "resolveHref organizationId href key =
     (if key = ''invite_team_completed'' \<and> truthy_str organizationId
      then ''/organizations/'' @ the organizationId @ ''/members'' else href)"

text \<open>A row of the checklist: its key, its link, whether it is done.\<close>

definition checklist_rows :: "string option \<Rightarrow> onboarding option \<Rightarrow> (string \<times> string \<times> bool) list" where
  "checklist_rows organizationId data =
     map (\<lambda>x. (cl_key x, resolveHref organizationId (cl_href x) (cl_key x), isChecklistItemDone data (cl_key x))) ONBOARDING_CHECKLIST_ITEMS"

definition banner_shown :: "onboarding option \<Rightarrow> bool" where
  "banner_shown data =
     (case data of None \<Rightarrow> False | Some d \<Rightarrow> \<not> d ''welcome_dismissed'' \<and> \<not> d ''onboarding_completed'')"

record onboarding_page =
  ob_data :: "onboarding option"
  ob_pending :: "onboarding_action list"
  ob_calls :: "api_call list"
  ob_notices :: "notice list"

text \<open>The buttons that are there: an item that is not done, the completion while it is missing.\<close>

definition onboarding_offered :: "onboarding_action \<Rightarrow> onboarding_page \<Rightarrow> bool" where
  "onboarding_offered a s =
     (control_of a \<notin> control_of ` set (ob_pending s)
      \<and> (case a of
           MarkDone key \<Rightarrow> (\<exists>x\<in>set ONBOARDING_CHECKLIST_ITEMS. cl_key x = key) \<and> \<not> isChecklistItemDone (ob_data s) key
         | MarkAll \<Rightarrow> \<not> isChecklistItemDone (ob_data s) ''onboarding_completed''
         | CompleteTour \<Rightarrow> True
         | DismissBanner \<Rightarrow> banner_shown (ob_data s)))"

definition press_onboarding :: "onboarding_action \<Rightarrow> onboarding_page \<Rightarrow> onboarding_page" where
  "press_onboarding a s =
     (if onboarding_offered a s
      then s\<lparr>ob_pending := ob_pending s @ [a], ob_calls := ob_calls s @ [patchOnboarding (onboarding_body a)]\<rparr> else s)"

definition onboarding_answered :: "onboarding_action \<Rightarrow> js_exn option \<Rightarrow> onboarding_page \<Rightarrow> onboarding_page" where
  "onboarding_answered a failed s =
     (if a \<in> set (ob_pending s)
      then s\<lparr>ob_pending := remove1 a (ob_pending s), ob_notices := ob_notices s @ onboarding_notice a failed\<rparr> else s)"

text \<open>The state after a change the backend accepted.\<close>

definition patched :: "json \<Rightarrow> onboarding \<Rightarrow> onboarding" where
  "patched body d = (\<lambda>k. case js_prop body k of Some (JBool b) \<Rightarrow> b | _ \<Rightarrow> d k)"

text \<open>An item marked as done is done, and no other item changes.\<close>

lemma marked_item_is_done: "patched (onboarding_body (MarkDone key)) d k = (k = key \<or> d k)"
  by (simp add: patched_def onboarding_body_def js_prop_def)

text \<open>The button for all marks only the tour and the end: the other items stay open, at one seventh.\<close>

lemma mark_all_leaves_items:
  "let d = patched (onboarding_body MarkAll) (\<lambda>_. False); p = computeOnboardingProgress (Some d)
   in op_completed p = 1 \<and> op_percent p = 14 \<and> op_isComplete p \<and> \<not> isChecklistItemDone (Some d) ''first_chat_completed''"
  by code_simp

end
