(* ===== verification/Artifact_Create.thy ===== *)
theory Artifact_Create
  imports Artifact_Detail
begin

text \<open>
  components/artifacts/artifacts-page.tsx, what is not about its filters (those are in Artifact_List): the
  dialog that creates an artifact in the current workspace, and the star of each row.
\<close>

section \<open>State\<close>

record artifact_form =
  af_name :: string
  af_description :: string
  af_artifact_type :: string
  af_content :: string

record artifact_summary =
  as_id :: string
  as_is_favorited :: bool

datatype create_call = CreateArtifact | ToggleFavorite

record create_page =
  cp_role :: "OrgRole option"
  cp_organizationId :: "string option"
  cp_items :: "artifact_summary list option"
  cp_createOpen :: bool
  cp_form :: artifact_form
  cp_creating :: bool
  cp_starring :: bool
  cp_calls :: "(create_call \<times> api_call) list"
  cp_notices :: "notice list"

definition artifact_form_default :: artifact_form where
  "artifact_form_default = \<lparr>af_name = [], af_description = [], af_artifact_type = ''dockerfile'', af_content = []\<rparr>"

definition create_page_opened :: "OrgRole option \<Rightarrow> string option \<Rightarrow> create_page" where
  "create_page_opened role organizationId =
     \<lparr>cp_role = role, cp_organizationId = organizationId, cp_items = None, cp_createOpen = False,
      cp_form = artifact_form_default, cp_creating = False, cp_starring = False, cp_calls = [], cp_notices = []\<rparr>"

definition artifact_values :: "artifact_form \<Rightarrow> json" where
  "artifact_values f =
     JObj [(''name'', JStr (af_name f)), (''description'', JStr (af_description f)),
           (''artifact_type'', JStr (af_artifact_type f)), (''content'', JStr (af_content f))]"

definition artifact_body :: "string option \<Rightarrow> json \<Rightarrow> json" where
  "artifact_body organizationId v =
     JObj (js_field v ''name'' @ [(''description'', truthy_or_null (js_prop v ''description''))]
       @ js_field v ''artifact_type'' @ js_field v ''content''
       @ [(''organization_id'', case organizationId of Some i \<Rightarrow> JStr i | None \<Rightarrow> JNull)])"

section \<open>Events\<close>

definition handleCreateArtifact :: "parser \<Rightarrow> create_page \<Rightarrow> create_page" where
  "handleCreateArtifact parse s =
     (case parse artifactCreateSchema (Some (artifact_values (cp_form s))) of
        Some (Some v) \<Rightarrow>
          s\<lparr>cp_creating := True,
            cp_calls := cp_calls s @ [(CreateArtifact, createArtifact (artifact_body (cp_organizationId s) v))]\<rparr>
      | _ \<Rightarrow> s)"

text \<open>The answer names the artifact.\<close>

definition artifact_created :: "js_exn + string \<Rightarrow> create_page \<Rightarrow> create_page" where
  "artifact_created r s =
     (let s1 = s\<lparr>cp_creating := False\<rparr> in
      case r of
        Inr name \<Rightarrow> s1\<lparr>cp_notices := cp_notices s1 @ [Success (''Created '' @ name)], cp_createOpen := False\<rparr>
      | Inl e \<Rightarrow> s1\<lparr>cp_notices := cp_notices s1 @ [Failure (error_text e ''Failed to create artifact'')]\<rparr>)"

definition toggleFavorite :: "artifact_summary \<Rightarrow> create_page \<Rightarrow> create_page" where
  "toggleFavorite a s =
     s\<lparr>cp_starring := True,
       cp_calls := cp_calls s @ [(ToggleFavorite, hm_call (useFavoriteArtifact (as_id a) (as_is_favorited a)))]\<rparr>"

definition favorite_answered :: "js_exn option \<Rightarrow> create_page \<Rightarrow> create_page" where
  "favorite_answered failed s =
     s\<lparr>cp_starring := False,
       cp_notices := cp_notices s @ (case failed of Some e \<Rightarrow> [Failure (error_text e ''Failed to update favorite'')] | None \<Rightarrow> [])\<rparr>"

datatype create_event =
    WorkspaceChanged "string option" "OrgRole option"
  | ItemsAnswered "artifact_summary list option"
  | OpenArtifactForm | CloseArtifactForm
  | EditArtifactForm artifact_form
  | SubmitArtifact
  | ArtifactCreated "js_exn + string"
  | PressStar artifact_summary
  | FavoriteAnswered "js_exn option"

text \<open>Of the inputs only the editor of the content stays enabled while the creation is pending.\<close>

fun create_step :: "parser \<Rightarrow> create_event \<Rightarrow> create_page \<Rightarrow> create_page" where
  "create_step parse (WorkspaceChanged i r) s = s\<lparr>cp_organizationId := i, cp_role := r\<rparr>"
| "create_step parse (ItemsAnswered xs) s = s\<lparr>cp_items := xs\<rparr>"
| "create_step parse OpenArtifactForm s =
     (if cp_items s \<noteq> None \<and> PermissionGate ArtifactWrite (cp_role s) \<and> \<not> cp_createOpen s
      then s\<lparr>cp_createOpen := True, cp_form := artifact_form_default\<rparr> else s)"
| "create_step parse CloseArtifactForm s = s\<lparr>cp_createOpen := False\<rparr>"
| "create_step parse (EditArtifactForm f) s =
     (if cp_items s \<noteq> None \<and> cp_createOpen s
      then s\<lparr>cp_form := (if cp_creating s then (cp_form s)\<lparr>af_content := af_content f\<rparr> else f)\<rparr> else s)"
| "create_step parse SubmitArtifact s =
     (if cp_items s \<noteq> None \<and> cp_createOpen s \<and> \<not> cp_creating s then handleCreateArtifact parse s else s)"
| "create_step parse (ArtifactCreated r) s = (if cp_creating s then artifact_created r s else s)"
| "create_step parse (PressStar a) s =
     (case cp_items s of
        Some xs \<Rightarrow> if a \<in> set xs \<and> \<not> cp_starring s then toggleFavorite a s else s
      | None \<Rightarrow> s)"
| "create_step parse (FavoriteAnswered failed) s = (if cp_starring s then favorite_answered failed s else s)"

section \<open>What the page asks for\<close>

definition creations :: "create_page \<Rightarrow> api_call list" where
  "creations s = map snd (filter (\<lambda>c. fst c = CreateArtifact) (cp_calls s))"

definition create_artifact_ok :: "create_page \<Rightarrow> create_event \<Rightarrow> api_call \<Rightarrow> bool" where
  "create_artifact_ok s ev c =
     (ev = SubmitArtifact \<and> cp_createOpen s \<and> \<not> cp_creating s
      \<and> (\<exists>body. c = createArtifact body
          \<and> js_prop body ''name'' = Some (JStr (js_trim (af_name (cp_form s)))) \<and> js_trim (af_name (cp_form s)) \<noteq> []
          \<and> js_prop body ''content'' = Some (JStr (af_content (cp_form s))) \<and> af_content (cp_form s) \<noteq> []
          \<and> js_prop body ''artifact_type'' = Some (JStr (af_artifact_type (cp_form s)))
          \<and> af_artifact_type (cp_form s) \<in> set ARTIFACT_TYPES
          \<and> js_prop body ''organization_id'' = Some (case cp_organizationId s of Some i \<Rightarrow> JStr i | None \<Rightarrow> JNull)))"

lemma artifact_body_ok:
  assumes "zod fmt parse" "parse artifactCreateSchema (Some (artifact_values f)) = Some (Some v)"
  shows "js_prop (artifact_body i v) ''name'' = Some (JStr (js_trim (af_name f))) \<and> js_trim (af_name f) \<noteq> []
    \<and> js_prop (artifact_body i v) ''content'' = Some (JStr (af_content f)) \<and> af_content f \<noteq> []
    \<and> js_prop (artifact_body i v) ''artifact_type'' = Some (JStr (af_artifact_type f)) \<and> af_artifact_type f \<in> set ARTIFACT_TYPES
    \<and> js_prop (artifact_body i v) ''organization_id'' = Some (case i of Some o' \<Rightarrow> JStr o' | None \<Rightarrow> JNull)"
proof -
  note g = zod.object_field [OF assms(1) assms(2) [unfolded artifactCreateSchema_def]]
  have "parse nameField (js_prop (artifact_values f) ''name'') = Some (js_prop v ''name'')"
    "parse (ZEnum ARTIFACT_TYPES) (js_prop (artifact_values f) ''artifact_type'') = Some (js_prop v ''artifact_type'')"
    "parse (ZString [MinLength 1]) (js_prop (artifact_values f) ''content'') = Some (js_prop v ''content'')"
    by (rule g; simp)+
  then have "js_prop v ''name'' = Some (JStr (js_trim (af_name f)))" "js_trim (af_name f) \<noteq> []"
    "js_prop v ''artifact_type'' = Some (JStr (af_artifact_type f))" "af_artifact_type f \<in> set ARTIFACT_TYPES"
    "js_prop v ''content'' = Some (JStr (af_content f))" "af_content f \<noteq> []"
    using zod.name_value [OF assms(1)]
    by (auto simp: artifact_values_def js_prop_JObj zod.enum_law [OF assms(1)] zod.string_law [OF assms(1)]
        simp del: set_simps split: if_splits)
  then show ?thesis by (simp add: artifact_body_def js_prop_JObj js_field_def)
qed

lemma creations_step:
  assumes "zod fmt parse"
  shows "\<exists>new. creations (create_step parse ev s) = creations s @ new \<and> length new \<le> 1 \<and> list_all (create_artifact_ok s ev) new"
proof (cases "ev = SubmitArtifact \<and> cp_items s \<noteq> None \<and> cp_createOpen s \<and> \<not> cp_creating s
    \<and> (\<exists>v. parse artifactCreateSchema (Some (artifact_values (cp_form s))) = Some (Some v))")
  case True
  then obtain v where v: "parse artifactCreateSchema (Some (artifact_values (cp_form s))) = Some (Some v)" by blast
  show ?thesis
    by (rule one_new [where c = "createArtifact (artifact_body (cp_organizationId s) v)"])
       (use True v artifact_body_ok [OF assms v] in \<open>auto simp: creations_def handleCreateArtifact_def create_artifact_ok_def\<close>)
next
  case False
  then show ?thesis
    by (cases ev) (auto simp: creations_def handleCreateArtifact_def artifact_created_def toggleFavorite_def favorite_answered_def
        Let_def split: option.split sum.split)
qed

lemma create_gated:
  assumes "zod fmt parse"
  shows "gated_page (create_step parse) creations (\<lambda>_. True) create_artifact_ok
    (\<lambda>s. PermissionGate ArtifactWrite (cp_role s)) cp_createOpen"
proof
  fix s ev
  show "\<exists>new. creations (create_step parse ev s) = creations s @ new \<and> length new \<le> 1 \<and> list_all (create_artifact_ok s ev) new"
    by (rule creations_step [OF assms])
  show "cp_createOpen s \<or> PermissionGate ArtifactWrite (cp_role s)" if "cp_createOpen (create_step parse ev s)"
    using that by (cases ev) (auto simp: handleCreateArtifact_def artifact_created_def toggleFavorite_def favorite_answered_def
        Let_def split: option.splits sum.splits if_splits)
qed (auto simp: create_artifact_ok_def)

interpretation artifact_creation: gated_page "create_step (zparse fmt)" creations "\<lambda>_. True" create_artifact_ok
    "\<lambda>s. PermissionGate ArtifactWrite (cp_role s)" cp_createOpen for fmt
  by (rule create_gated) unfold_locales

text \<open>Every artifact is created from a dialog that the permission to write had offered, with the fields of
  the form, in the workspace selected when it is sent.\<close>

theorem creations_were_offered:
  assumes "zod fmt parse"
  shows "list_all (offered_before (create_step parse) (\<lambda>s. PermissionGate ArtifactWrite (cp_role s)) create_artifact_ok
      (create_page_opened role organizationId) es) (creations (fold (create_step parse) es (create_page_opened role organizationId)))"
  by (rule gated_page.session_offered [OF create_gated [OF assms]]) (simp_all add: create_page_opened_def creations_def)

text \<open>In the personal workspace there is no role, so nobody can create an artifact there, although the
  request would say so with a null organization and the backend lets everyone write their own.\<close>

lemma no_personal_artifact:
  assumes "zod fmt parse"
    and "list_all (\<lambda>ev. case ev of WorkspaceChanged i r \<Rightarrow> r = None | _ \<Rightarrow> True) es"
  shows "creations (fold (create_step parse) es (create_page_opened None None)) = []"
proof -
  have closed: "cp_role s = None \<and> \<not> cp_createOpen s \<Longrightarrow> creations s = [] \<Longrightarrow> (case ev of WorkspaceChanged i r \<Rightarrow> r = None | _ \<Rightarrow> True) \<Longrightarrow>
      (cp_role (create_step parse ev s) = None \<and> \<not> cp_createOpen (create_step parse ev s)) \<and> creations (create_step parse ev s) = []" for s ev
    by (cases ev) (auto simp: creations_def PermissionGate_def artifact_created_def toggleFavorite_def favorite_answered_def
        Let_def split: option.split sum.split)
  have "(cp_role s = None \<and> \<not> cp_createOpen s) \<and> creations s = [] \<Longrightarrow>
      creations (fold (create_step parse) es s) = []" for s
    using assms(2) closed by (induction es arbitrary: s) auto
  then show ?thesis by (simp add: create_page_opened_def creations_def)
qed

end
