(* ===== verification/Result_Views.thy ===== *)
theory Result_Views
  imports Generator_Pages Text_Utils
begin

text \<open>
  What is shown of a result and done with it: components/generators/generator-output.tsx with the outputs of
  the four forms, components/data-display/download-button.tsx and copy-button.tsx, and
  components/feedback/error-state.tsx.
\<close>

section \<open>The output of a generator\<close>

record generator_output =
  go_content :: string
  go_command :: "string option"
  go_disclaimer :: string
  go_explanation :: "string list"
  go_warnings :: "string list"
  go_best_practices :: "string list"
  go_saved_artifact_id :: "string option"
  go_risk_level :: "string option"
  go_requires_confirmation :: bool

text \<open>\<open>toOutput\<close> of the form for commands; the command is content and command at once.\<close>

definition toOutput ::
  "string \<Rightarrow> string \<Rightarrow> string option \<Rightarrow> string list \<Rightarrow> string option \<Rightarrow> string option \<Rightarrow> bool \<Rightarrow> generator_output" where
  "toOutput command disclaimer explanation warnings saved risk confirm =
     \<lparr>go_content = command, go_command = Some command, go_disclaimer = disclaimer,
      go_explanation = (if truthy_str explanation then [the explanation] else []), go_warnings = warnings,
      go_best_practices = [], go_saved_artifact_id = saved, go_risk_level = risk, go_requires_confirmation = confirm\<rparr>"

definition output_content :: "bool \<Rightarrow> generator_output \<Rightarrow> string" where
  "output_content isCommand r = (if isCommand then (case go_command r of Some c \<Rightarrow> c | None \<Rightarrow> go_content r) else go_content r)"

text \<open>The risk, with the badge that asks for a confirmation.\<close>

definition output_risk :: "bool \<Rightarrow> generator_output \<Rightarrow> (string \<times> bool) option" where
  "output_risk isCommand r =
     (if isCommand \<and> truthy_str (go_risk_level r) then Some (the (go_risk_level r), go_requires_confirmation r) else None)"

definition output_link :: "generator_output \<Rightarrow> string option" where
  "output_link r = map_option (\<lambda>i. ''/artifacts/'' @ i) (nonempty_opt (go_saved_artifact_id r))"

text \<open>The lists with their titles; an empty one is left out.\<close>

definition output_lists :: "generator_output \<Rightarrow> (string \<times> string list) list" where
  "output_lists r =
     filter (\<lambda>l. snd l \<noteq> [])
       [(''Warnings'', go_warnings r), (''Explanation'', go_explanation r), (''Best practices'', go_best_practices r)]"

definition editorLanguage :: "string \<Rightarrow> string" where
  "editorLanguage platform = (if platform = ''jenkins'' then ''groovy'' else ''yaml'')"

text \<open>The name each form gives its file; \<open>named\<close> is the name in the answer, for pipelines.\<close>

definition output_filename :: "generator \<Rightarrow> string option \<Rightarrow> string" where
  "output_filename g named =
     (case g of
        GDockerfile \<Rightarrow> ''Dockerfile''
      | GKubernetes \<Rightarrow> ''k8s.yaml''
      | GPipeline \<Rightarrow> (case named of Some n \<Rightarrow> n | None \<Rightarrow> ''pipeline.yml'')
      | GCommand \<Rightarrow> ''command.sh'')"

definition output_language :: "generator \<Rightarrow> string \<Rightarrow> string" where
  "output_language g platform =
     (case g of GDockerfile \<Rightarrow> ''dockerfile'' | GKubernetes \<Rightarrow> ''yaml'' | GPipeline \<Rightarrow> editorLanguage platform | GCommand \<Rightarrow> ''shell'')"

section \<open>Downloads and copies\<close>

text \<open>The name and the content of the file the browser is given.\<close>

definition handleDownload :: "string \<Rightarrow> string \<Rightarrow> string \<times> string" where
  "handleDownload filename content = (sanitizeFilename filename ''download.txt'', content)"

text \<open>Each copy that worked marks the button and starts a timer of its own, which unmarks it.\<close>

record copy_button =
  cb_copied :: bool
  cb_timers :: nat
  cb_clipboard :: "string list"

datatype copy_event = Copied string | CopyRefused | CopyTimer

fun copy_step :: "copy_event \<Rightarrow> copy_button \<Rightarrow> copy_button" where
  "copy_step (Copied v) s = s\<lparr>cb_copied := True, cb_timers := cb_timers s + 1, cb_clipboard := cb_clipboard s @ [v]\<rparr>"
| "copy_step CopyRefused s = s\<lparr>cb_copied := False\<rparr>"
| "copy_step CopyTimer s = (if cb_timers s > 0 then s\<lparr>cb_copied := False, cb_timers := cb_timers s - 1\<rparr> else s)"

section \<open>Errors\<close>

record error_state =
  ev_title :: string
  ev_message :: string
  ev_requestId :: "string option"
  ev_retryAfter :: "rat option"

definition error_request_line :: "error_state \<Rightarrow> string option" where
  "error_request_line e = map_option (\<lambda>i. ''Request ID: '' @ i) (nonempty_opt (ev_requestId e))"

definition error_retry_line :: "error_state \<Rightarrow> string option" where
  "error_retry_line e =
     map_option (\<lambda>n. ''Try again in '' @ show_rat n @ '' second'' @ (if n = 1 then [] else ''s'') @ ''.'') (ev_retryAfter e)"

section \<open>Lemmas\<close>

text \<open>A command is shown, copied and downloaded as the same text.\<close>

lemma command_is_content: "output_content isCommand (toOutput c d x w a r q) = c"
  by (simp add: output_content_def toOutput_def)

text \<open>The names of the forms survive the download, except that of a pipeline that begins with a dot:
  the file of GitLab is downloaded under a name GitLab does not read.\<close>

lemma downloaded_names:
  "fst (handleDownload (output_filename GDockerfile n) c) = ''Dockerfile''"
  "fst (handleDownload (output_filename GKubernetes n) c) = ''k8s.yaml''"
  "fst (handleDownload (output_filename GCommand n) c) = ''command.sh''"
  unfolding handleDownload_def output_filename_def fst_conv generator.case by code_simp+

lemma gitlab_name_is_lost: "fst (handleDownload (output_filename GPipeline (Some ''.gitlab-ci.yml'')) c) = ''gitlab-ci.yml''"
  unfolding handleDownload_def output_filename_def fst_conv generator.case option.case by code_simp

text \<open>The timer of an earlier copy takes away the mark of a later one.\<close>

lemma earlier_timer_unmarks:
  "\<not> cb_copied (fold copy_step [Copied a, Copied b, CopyTimer] \<lparr>cb_copied = False, cb_timers = 0, cb_clipboard = []\<rparr>)"
  by simp

end
