(* ===== verification/Spec2Isabelle.thy ===== *)
theory Spec2Isabelle
  imports Bff_Proxy Auth_Routes Routing List_Query Streaming_Chat Nav_Config Text_Utils
    Feature_Rules Cache_Flows Auth_Client Chat_Protocol Query_Client Form_Rules
    Log_Workspace Member_Admin Chat_Workspace Auth_Pages Artifact_List Review_Page
    Conversation_List Task_Audit Provider_Admin Artifact_Detail Usage_Page
    Organization_Pages App_Shell Dashboard_Page Account_Pages Artifact_Create Result_Views
begin

text \<open>
  The program is the frontend of an assistant for DevOps work (src/frontend, TypeScript, Next.js and
  React).  A browser page talks only to its own server: to the route handlers of app/api/auth,
  which keep the session in two HTTP-only cookies, and to the backend-for-frontend under
  app/api/bff, which forwards a request with the access token and refreshes the token once when the
  backend answers 401.  In the page, features call the backend through one typed fetch; queries and
  mutations go through the cache of a library (TanStack Query); the answers of the chat are streamed
  as server-sent events; forms are checked by schemas of a library (zod).  The backend itself
  (src/backend, Python) is not modelled, apart from what the pages are compared with: its table of role
  permissions, who may change an artifact (artifact_service.py), and how a change of the quotas, of a rule
  of a policy pack, of an organization or of a profile is stored (api/routes/usage.py and its repository,
  policy_repository.py, organization_service.py with the column of the slug in models/organization.py,
  profile_service.py with schemas and utils/usernames.py).

  Which theory models what (paths are under src/frontend):

  The platform.  Js_Prelude: strings, trimming, numbers as text.  Js_Json: JSON values, property access,
  truthiness, JSON.parse and JSON.stringify with their round trip.  Js_Http: requests, responses,
  headers.  Js_Url: UTF-8, percent encoding, URLSearchParams with their round trips.  App_Constants:
  lib/constants/app.ts.  Py_Text: what Python takes for blank, for the forms both sides trim.

  The server side.  Auth_Cookies: lib/auth/cookies.ts.  Auth_Upstream: lib/auth/upstream.ts and
  session.ts.  Auth_Routes: app/api/auth.  Bff_Proxy: app/api/bff/[...path]/route.ts.  Routing:
  middleware.ts and lib/utils/return-url.ts.  A handler is a function of the environment, of the network
  (a function from requests to answers) and of a state with the cookie jar and the log of the requests
  sent; it returns an answer, or an exception where the code throws.

  Calls of the backend.  Api_Errors: lib/api/errors.ts.  Api_Client: lib/api/client.ts.  Endpoints:
  lib/api/endpoints.ts.  Query_String: lib/api/query-string.ts.  Feature_Apis: the api.ts files of
  features.  Feature_Hooks: their hooks.ts files, a query as its key, calls and condition, a mutation as
  its call and the keys it invalidates.  Query_Cache: lib/api/query-keys.ts.  Cache_Rules: what the keys
  guarantee, with what each query displays and each mutation changes as the backend's schemas and services
  say it, apart from the keys.  Cache_Flows: the optimistic update of the onboarding state and the switch
  of the organization.  Query_Client: the retries of providers/query-provider.tsx.  Dashboard:
  features/dashboard/api.ts.  Auth_Client: features/auth/api.ts and providers/auth-provider.tsx, and the
  calls of the browser run against the handlers their requests reach (auth_route, browser_call).

  The chat.  Sse_Parser: lib/sse/parse-sse.ts.  Chat_Stream: lib/sse/chat-stream.ts and
  hooks/streaming-chat-utils.ts.  Streaming_Chat: hooks/use-streaming-chat.ts, a state machine over
  starts, stops, chunks in any cut, timers and frames.  Chat_Protocol: what that machine promises,
  without buffers and timers, with the refinement.  Chat_Workspace: components/chat.

  Rules and forms.  Rbac: lib/permissions/rbac.ts.  Nav_Config: components/app-shell/nav-config.ts.
  Feature_Rules and Text_Utils: the pure functions of features and lib/utils.  Form_Schemas: the
  schemas.ts files of features.  Form_Rules: what the accepted values guarantee to their receivers.
  List_Query: lib/url/list-query.ts.

  Pages.  Ui_Actions: notices and texts of errors.  Page_Contract: the contract of a page that calls the
  backend, and permissions/permission-gate.tsx.  Paging: the pager of
  components/data-display/data-table.tsx and the contract of any pair of buttons that page.
  Log_Workspace: components/logs.  Generator_Pages: components/generators.  Review_Page:
  components/reviews.  Artifact_List and Artifact_Create: components/artifacts/artifacts-page.tsx, its
  filters and its dialog.  Artifact_Detail: components/artifacts/artifact-detail.tsx.
  Conversation_List: components/chat/conversation-sidebar.tsx.  Task_Audit:
  components/tasks/tasks-page.tsx and components/audit/audit-page.tsx.  Policy_Admin:
  components/policies.  Provider_Admin: components/providers/providers-page.tsx.  Usage_Page:
  components/usage/usage-page.tsx.  Member_Admin: components/organizations/members-page.tsx.
  Organization_Pages: the other files of components/organizations and the list of policy packs.
  Profile_Page: components/settings/profile-settings.tsx.  Auth_Pages: components/auth, the page of an
  invitation and the handlers of components/settings/security-settings.tsx.  Account_Pages: these two as
  state machines, and components/onboarding.  App_Shell: components/app-shell.  Dashboard_Page:
  components/dashboard.  Result_Views: the output of the generators, downloads, copies and errors
  (components/data-display, components/feedback).  A page is a record of its React state and refs, with
  the log of its calls and notices; an event (input, answer, timer, frame, change of the organization)
  changes the record, and the effects whose dependencies changed run after it, in the order of the
  source.
\<close>

text \<open>
  What the lemmas show, by theme.

  Sessions: a request that meets an expired token is refreshed and retried once, with the new token; a
  session that cannot be refreshed ends with its cookies cleared; only the listed headers are forwarded,
  and a retry mark the browser sends itself;
  signing in sets the session and signing out ends it in the page and on the server, whatever the
  backend answers.  Redirects: no return path leaves the origin; the page asked for, or the invitation
  followed, is reached after signing in; paths that look like files of pictures are served without that
  check.

  Chat: the parser gives the same events however the stream is cut, and gives back what was framed; the
  hook never has two live runs, refines its protocol, stops for good when told to, and shows the whole
  answer; the page shows it exactly once in the thread.

  Cache: data under one key come from one request; a mutation marks the views of what it changed, apart
  from the ones listed as overlooked; an optimistic update is undone when it fails, and stays marked
  until a reload succeeds; switching the organization empties its pages and lists, but not what was
  opened by its own id; a query is tried at most three times.

  Pages: every call of a session is justified by the state at the moment it is made (the organization
  that is selected, the role in it, the boxes that are checked); the list of artifacts comes to rest
  only when it shows what its address says; the final owner of an organization stays; the token of a
  link is sent once.  The sidebar groups the conversations without losing one, newest first, and its
  Next button shows every row once before it is disabled.  Policies and providers are changed only
  through a dialog that the role offered, with the fields the user was shown; a rule that is opened and
  saved keeps its key and its configuration; the quotas that are saved are those the form shows; what
  the page marks as exceeded is what the backend refuses.  An accepted form of an organization or of a
  profile is stored as it shows, or refused for one of the reasons listed.  On the page of an artifact the
  changes behind the gate are those the backend accepts in the workspace of the artifact.  One item of
  the menu is reached by Tab, and the number it carries is its place.

  Interfaces.  What is not code of the repository is a parameter with a contract: the locale
  cookie_store (the jar of the framework; instance: an association list), query_cache (the cache of the
  library; instance: a list of entries), zod (the schema library; instance: an interpreter of schemas),
  query_retrier (how the library calls the retry function; instance: the loop of Query_Client), and
  calendar (the days of the date library; instance: a zone of constant offset).  Between the components:
  guarded_page (the contract of pages: every call of a session was justified when it was made;
  instances: the pages of Log_Workspace, Generator_Pages, Review_Page, Artifact_Detail,
  Conversation_List, Profile_Page, Account_Pages and the list of Organization_Pages), gated_page, which
  extends it by a dialog that must be offered first (instances: Policy_Admin, Provider_Admin,
  Artifact_Create, the tasks of Task_Audit, the changes, the deletions and the packs of
  Organization_Pages), and pager (Next walks over all rows and ends; instances: the tables of 20 and 50
  rows and the sidebar).

  Bounds and fuel.  The reader of JSON recurses on a fuel of twice the length of the text plus two; the
  lemmas pval_fuel and json_parse_fuel show that more fuel never changes the outcome.  All other
  recursions are structural or have a measure.  Characters are the 256 of the type char, with code units
  as bytes of UTF-8 where a text is encoded; numbers of JSON are rationals, and limits of the source are
  kept at their value.

  Where the code falls short of what it means to do, the behaviour is proved of the model and the
  findings of the manifest name the lemma: among them a page that chases its own address
  (search_chases_address), answers that land under another organization
  (late_answer_crosses_organizations), policy packs sent to another organization
  (packs_cross_organizations), a rollback that loses an update (overlapping_rollback_loses_update) and
  an aborted run that overwrites a new one (restart_is_overwritten), a pager stranded on an empty page
  (empty_page_strands), an answer that closes the dialog of another row (answer_closes_other_dialog), a
  remediation text that cannot be removed (emptied_remediation_stays), an organization its
  administrators cannot rename (admin_cannot_rename), a profile its owner cannot change
  (dotted_username_locks), a list that keeps an old version number (version_overlooks_list) and an
  artifact that stays in the cache after a switch (open_artifact_survives_switch).

  Not modelled: the markup of the components and the library of widgets under components/ui and
  components/editors; the types generated from the backend's interface (lib/api/generated-types.ts), of
  which the records of the pages keep the fields the pages use; dates, themes and class names; the
  backend beyond the parts named above.  What is left of the files of the pages is markup.
\<close>

end
